(* ===== verification/Prelude.thy ===== *)
theory Prelude
  imports Complex_Main "HOL-Library.AList" "HOL-Library.Multiset" "HOL-Library.Signed_Division"
    "HOL-Library.Char_ord" "HOL-Library.Sublist"
begin

text \<open>
  Shared vocabulary of the development: the Go built-ins and standard-library functions that the
  components use, with the generic facts about them.

  \<^item> Go strings are byte strings; a HOL \<^typ>\<open>string\<close> is a list of 8-bit characters, so the
    operations below work byte by byte as the \<open>strings\<close> package does on ASCII data.
  \<^item> An \<open>int64\<close> is an \<^typ>\<open>int\<close>; where the code can leave the 64-bit range the wrap-around
    \<open>wrap64\<close> is written out.  Go's \<open>/\<close> and \<open>%\<close> truncate towards zero, which is
    \<open>sdiv\<close> and \<open>smod\<close> of the library.
  \<^item> A \<open>time.Time\<close> is the number of nanoseconds since the Unix epoch.
  \<^item> A Go map is an association list with distinct keys; its order stands for the unspecified
    iteration order, so a result that holds for every list holds for every iteration order.
\<close>

named_theorems go_str "facts on the string operations"
named_theorems go_map "facts on Go maps as association lists"

section \<open>Integers and time\<close>

type_synonym gotime = int

definition wrap64 :: "int \<Rightarrow> int" where
  "wrap64 x = (x + 2 ^ 63) mod 2 ^ 64 - 2 ^ 63"

lemma wrap64_id [simp]: "- (2 ^ 63) \<le> x \<Longrightarrow> x < 2 ^ 63 \<Longrightarrow> wrap64 x = x"
  by (simp add: wrap64_def)

lemma wrap64_range: "- (2 ^ 63) \<le> wrap64 x" "wrap64 x < 2 ^ 63"
proof -
  have "0 \<le> (x + 2 ^ 63) mod 2 ^ 64" "(x + 2 ^ 63) mod (2::int) ^ 64 < 2 ^ 64"
    by (rule pos_mod_sign, simp) (rule pos_mod_bound, simp)
  then show "- (2 ^ 63) \<le> wrap64 x" "wrap64 x < 2 ^ 63"
    unfolding wrap64_def by simp_all
qed

definition second :: int where "second = 1000000000"
definition millisecond :: int where "millisecond = 1000000"
definition minute :: int where "minute = 60 * second"
definition hour :: int where "hour = 60 * minute"

lemmas duration_defs = second_def millisecond_def minute_def hour_def

definition zero_time :: gotime where
  "zero_time = - 62135596800 * 1000000000"

definition unix_nano :: "gotime \<Rightarrow> int" where
  "unix_nano t = wrap64 t"

definition unix_milli :: "gotime \<Rightarrow> int" where
  "unix_milli t = t div 1000000"

lemma unix_milli_mono: "s \<le> t \<Longrightarrow> unix_milli s \<le> unix_milli t"
  by (simp add: unix_milli_def zdiv_mono1)

text \<open>For non-negative operands Go's truncating division is the flooring one.\<close>

lemma sdiv_nonneg: "0 \<le> x \<Longrightarrow> 0 < y \<Longrightarrow> x sdiv (y::int) = x div y"
proof (cases "x = 0")
  case False
  assume "0 \<le> x" "0 < y"
  with False have "sgn x = 1" "sgn y = 1" by simp_all
  with \<open>0 \<le> x\<close> \<open>0 < y\<close> show ?thesis by (simp add: signed_divide_int_def)
qed simp

lemma smod_nonneg: "0 \<le> x \<Longrightarrow> 0 < y \<Longrightarrow> x smod (y::int) = x mod y"
proof (cases "x = 0")
  case False
  assume "0 \<le> x" "0 < y"
  with False have "sgn x = 1" by simp
  with \<open>0 \<le> x\<close> \<open>0 < y\<close> show ?thesis by (simp add: signed_modulo_int_def)
qed simp

section \<open>Strings\<close>

definition has_prefix :: "string \<Rightarrow> string \<Rightarrow> bool" where
  "has_prefix s p = (length p \<le> length s \<and> take (length p) s = p)"

definition has_suffix :: "string \<Rightarrow> string \<Rightarrow> bool" where
  "has_suffix s p = (length p \<le> length s \<and> drop (length s - length p) s = p)"

definition trim_prefix :: "string \<Rightarrow> string \<Rightarrow> string" where
  "trim_prefix s p = (if has_prefix s p then drop (length p) s else s)"

definition trim_suffix :: "string \<Rightarrow> string \<Rightarrow> string" where
  "trim_suffix s p = (if has_suffix s p then take (length s - length p) s else s)"

fun contains_str :: "string \<Rightarrow> string \<Rightarrow> bool" where
  "contains_str [] p = (p = [])"
| "contains_str (c # s) p = (has_prefix (c # s) p \<or> contains_str s p)"

text \<open>\<open>strings.ReplaceAll\<close> for a non-empty old string (the only use in the program).\<close>

function replace_all :: "string \<Rightarrow> string \<Rightarrow> string \<Rightarrow> string" where
  "replace_all s old new =
     (if s = [] \<or> old = [] then s
      else if has_prefix s old then new @ replace_all (drop (length old) s) old new
      else hd s # replace_all (tl s) old new)"
  by pat_completeness auto
termination
  by (relation "measure (\<lambda>(s, old, new). length s)") auto

declare replace_all.simps [simp del]

definition upper_char :: "char \<Rightarrow> char" where
  "upper_char c = (let n = (of_char c :: nat) in if 97 \<le> n \<and> n \<le> 122 then char_of (n - 32) else c)"

definition lower_char :: "char \<Rightarrow> char" where
  "lower_char c = (let n = (of_char c :: nat) in if 65 \<le> n \<and> n \<le> 90 then char_of (n + 32) else c)"

definition to_upper :: "string \<Rightarrow> string" where
  "to_upper s = map upper_char s"

definition to_lower :: "string \<Rightarrow> string" where
  "to_lower s = map lower_char s"

lemma has_prefix_iff [go_str]: "has_prefix s p \<longleftrightarrow> (\<exists>r. s = p @ r)"
proof
  assume "has_prefix s p"
  then have "s = p @ drop (length p) s"
    unfolding has_prefix_def by (metis append_take_drop_id)
  then show "\<exists>r. s = p @ r" by blast
qed (auto simp: has_prefix_def)

lemma has_suffix_iff [go_str]: "has_suffix s p \<longleftrightarrow> (\<exists>r. s = r @ p)"
proof
  assume "has_suffix s p"
  then have "s = take (length s - length p) s @ p"
    unfolding has_suffix_def by (metis append_take_drop_id)
  then show "\<exists>r. s = r @ p" by blast
qed (auto simp: has_suffix_def)

lemma has_prefix_append [simp]: "has_prefix (p @ s) p"
  by (simp add: has_prefix_def)

lemma has_suffix_append [simp]: "has_suffix (s @ p) p"
  by (simp add: has_suffix_def)

lemma trim_prefix_append [simp]: "trim_prefix (p @ s) p = s"
  by (simp add: trim_prefix_def)

lemma trim_suffix_append [simp]: "trim_suffix (s @ p) p = s"
  by (simp add: trim_suffix_def)

lemma trim_suffix_cases: "s = trim_suffix s p @ p \<or> trim_suffix s p = s \<and> \<not> has_suffix s p"
  by (auto simp: trim_suffix_def has_suffix_iff)

lemma trim_suffix_length: "length (trim_suffix s p) \<le> length s"
  by (simp add: trim_suffix_def)

lemma to_upper_append [simp]: "to_upper (s @ t) = to_upper s @ to_upper t"
  by (simp add: to_upper_def)

lemma to_upper_cons: "to_upper (c # s) = upper_char c # to_upper s"
  by (simp add: to_upper_def)

lemma to_upper_Nil [simp]: "to_upper [] = []"
  by (simp add: to_upper_def)

lemma to_upper_length [simp]: "length (to_upper s) = length s"
  by (simp add: to_upper_def)

lemma upper_char_idem [simp]: "upper_char (upper_char c) = upper_char c"
proof (cases "97 \<le> (of_char c :: nat) \<and> (of_char c :: nat) \<le> 122")
  case True
  then have "(of_char c :: nat) - 32 < 256" by linarith
  with True have "of_char (upper_char c) = (of_char c :: nat) - 32"
    by (simp add: upper_char_def Let_def mod_less)
  with True have "of_char (upper_char c) < (97 :: nat)" by linarith
  then show ?thesis
    unfolding upper_char_def [of "upper_char c"] by simp
next
  case False
  then have "upper_char c = c" by (auto simp: upper_char_def Let_def)
  then show ?thesis by simp
qed

lemma to_upper_idem [simp]: "to_upper (to_upper s) = to_upper s"
  by (simp add: to_upper_def)

lemma replace_all_remove [go_str]: "replace_all s [c] [] = filter (\<lambda>x. x \<noteq> c) s"
proof (induction s)
  case (Cons x s)
  then show ?case
    by (subst replace_all.simps) (simp add: has_prefix_def)
qed (simp add: replace_all.simps)

lemma contains_strI: "has_prefix s p \<Longrightarrow> contains_str s p"
  by (cases s) (auto simp: has_prefix_def)

lemma contains_str_append: "contains_str (a @ p @ b) p"
  by (induction a) (auto intro: contains_strI simp: has_prefix_def)

lemma contains_str_iff [go_str]: "contains_str s p \<longleftrightarrow> (\<exists>a b. s = a @ p @ b)"
proof
  show "contains_str s p \<Longrightarrow> \<exists>a b. s = a @ p @ b"
  proof (induction s)
    case (Cons c s)
    show ?case
    proof (cases "has_prefix (c # s) p")
      case True
      then show ?thesis by (metis append_Nil has_prefix_iff)
    next
      case False
      with Cons obtain a b where "s = a @ p @ b" by auto
      then have "c # s = (c # a) @ p @ b" by simp
      then show ?thesis by blast
    qed
  qed simp
qed (auto simp: contains_str_append)

text \<open>\<open>strings.Split\<close> on a one-byte separator, and \<open>strings.TrimSpace\<close> on ASCII space.\<close>

fun split_char :: "char \<Rightarrow> string \<Rightarrow> string list" where
  "split_char c [] = [[]]"
| "split_char c (x # s) =
     (if x = c then [] # split_char c s
      else (case split_char c s of [] \<Rightarrow> [[x]] | w # ws \<Rightarrow> (x # w) # ws))"

definition is_space :: "char \<Rightarrow> bool" where
  "is_space c = (c = CHR '' '' \<or> c = CHR 0x09 \<or> c = CHR 0x0A \<or> c = CHR 0x0B \<or> c = CHR 0x0C \<or> c = CHR 0x0D)"

definition trim_space :: "string \<Rightarrow> string" where
  "trim_space s = rev (dropWhile is_space (rev (dropWhile is_space s)))"

lemma split_char_nonempty [simp]: "split_char c s \<noteq> []"
  by (cases s) (auto split: list.split)

lemma split_char_len [simp]: "Suc 0 \<le> length (split_char c s)"
  by (cases "split_char c s") auto

lemma split_char_none: "c \<notin> set s \<Longrightarrow> split_char c s = [s]"
  by (induction s) auto

lemma split_char_append:
  "c \<notin> set w \<Longrightarrow> split_char c (w @ c # s) = w # split_char c s"
  by (induction w) (auto split: list.split)

lemma trim_space_id: "s \<noteq> [] \<Longrightarrow> \<not> is_space (hd s) \<Longrightarrow> \<not> is_space (last s) \<Longrightarrow> trim_space s = s"
proof -
  assume a: "s \<noteq> []" "\<not> is_space (hd s)" "\<not> is_space (last s)"
  have "dropWhile is_space s = s" using a by (cases s) auto
  moreover have "dropWhile is_space (rev s) = rev s"
    using a by (cases "rev s") (auto simp: last_rev [symmetric] hd_rev)
  ultimately show ?thesis by (simp add: trim_space_def)
qed

lemma trim_space_snoc: "\<not> is_space x \<Longrightarrow> \<not> is_space (hd (s @ [x])) \<Longrightarrow>
    list_all is_space sp \<Longrightarrow> trim_space (s @ [x] @ sp) = s @ [x]"
proof -
  assume a: "\<not> is_space x" "\<not> is_space (hd (s @ [x]))" "list_all is_space sp"
  have "dropWhile is_space (s @ [x] @ sp) = s @ [x] @ sp" using a by (cases s) auto
  moreover have "dropWhile is_space (rev sp @ x # rev s) = dropWhile is_space (x # rev s)"
    by (rule dropWhile_append2) (use a in \<open>auto simp: list_all_iff\<close>)
  moreover have "dropWhile is_space (x # rev s) = x # rev s" using a by simp
  ultimately show ?thesis by (simp add: trim_space_def)
qed

section \<open>Maps\<close>

type_synonym ('k, 'v) gomap = "('k \<times> 'v) list"

abbreviation mget :: "('k, 'v) gomap \<Rightarrow> 'k \<Rightarrow> 'v option" where
  "mget m k \<equiv> map_of m k"

abbreviation mput :: "'k \<Rightarrow> 'v \<Rightarrow> ('k, 'v) gomap \<Rightarrow> ('k, 'v) gomap" where
  "mput \<equiv> AList.update"

abbreviation mdel :: "'k \<Rightarrow> ('k, 'v) gomap \<Rightarrow> ('k, 'v) gomap" where
  "mdel \<equiv> AList.delete"

definition mkeys :: "('k, 'v) gomap \<Rightarrow> 'k list" where
  "mkeys m = map fst m"

definition wf_map :: "('k, 'v) gomap \<Rightarrow> bool" where
  "wf_map m = distinct (map fst m)"

text \<open>Reading a missing key of a map of slices gives the nil slice.\<close>

definition mslice :: "('k, 'v list) gomap \<Rightarrow> 'k \<Rightarrow> 'v list" where
  "mslice m k = (case mget m k of None \<Rightarrow> [] | Some xs \<Rightarrow> xs)"

lemma mkeys_iff: "k \<in> set (mkeys m) \<longleftrightarrow> mget m k \<noteq> None"
  by (simp add: mkeys_def map_of_eq_None_iff)

lemma mget_mput [go_map]: "mget (mput k v m) k' = (if k' = k then Some v else mget m k')"
  by (simp add: update_conv')

lemma mget_mdel [go_map]: "mget (mdel k m) k' = (if k' = k then None else mget m k')"
  by (simp add: delete_conv')

lemma wf_mput [simp, intro]: "wf_map m \<Longrightarrow> wf_map (mput k v m)"
  by (simp add: wf_map_def distinct_update)

lemma wf_mdel [simp, intro]: "wf_map m \<Longrightarrow> wf_map (mdel k m)"
  by (simp add: wf_map_def distinct_delete)

lemma wf_map_Nil [simp]: "wf_map []"
  by (simp add: wf_map_def)

lemma mslice_mput [go_map]: "mslice (mput k v m) k' = (if k' = k then v else mslice m k')"
  by (simp add: mslice_def mget_mput)

lemma mslice_Nil [simp]: "mslice [] k = []"
  by (simp add: mslice_def)

section \<open>Lists\<close>

lemma mset_concat_map_append:
  "mset (concat (map (\<lambda>x. f x @ g x) xs)) = mset (concat (map f xs)) + mset (concat (map g xs))"
  by (induction xs) (simp_all add: ac_simps)

section \<open>Decimal text\<close>

definition digit_char :: "nat \<Rightarrow> char" where
  "digit_char d = char_of (48 + d)"

definition is_digit :: "char \<Rightarrow> bool" where
  "is_digit c = (let n = (of_char c :: nat) in 48 \<le> n \<and> n \<le> 57)"

definition digit_val :: "char \<Rightarrow> nat" where
  "digit_val c = of_char c - 48"

text \<open>\<open>fmt\<close>'s \<open>%d\<close> on a natural number.\<close>

fun show_nat :: "nat \<Rightarrow> string" where
  "show_nat n = (if n < 10 then [digit_char n] else show_nat (n div 10) @ [digit_char (n mod 10)])"

declare show_nat.simps [simp del]

definition digits_val :: "string \<Rightarrow> nat" where
  "digits_val s = foldl (\<lambda>a c. a * 10 + digit_val c) 0 s"

text \<open>\<open>fmt.Sscanf\<close> with \<open>%d\<close> into an \<open>int\<close>: blanks are skipped, a sign is accepted, at least one
  digit is required, the text after the digits is left unread and a value outside 64 bits is an
  error.\<close>

definition scan_int :: "string \<Rightarrow> int option" where
  "scan_int s0 =
     (let s = dropWhile (\<lambda>c. c = CHR '' '' \<or> c = CHR 0x09) s0;
          neg = (s \<noteq> [] \<and> hd s = CHR ''-'');
          r = (if s \<noteq> [] \<and> (hd s = CHR ''-'' \<or> hd s = CHR ''+'') then tl s else s);
          ds = takeWhile is_digit r;
          v = (if neg then - int (digits_val ds) else int (digits_val ds))
      in if ds = [] then None
         else if v < - (2 ^ 63) \<or> v \<ge> 2 ^ 63 then None
         else Some v)"

definition show_int :: "int \<Rightarrow> string" where
  "show_int i = (if i < 0 then CHR ''-'' # show_nat (nat (- i)) else show_nat (nat i))"

lemma char_of_digits [simp]:
  "char_of (48::nat) = CHR ''0''" "char_of (49::nat) = CHR ''1''" "char_of (50::nat) = CHR ''2''"
  "char_of (51::nat) = CHR ''3''" "char_of (52::nat) = CHR ''4''" "char_of (53::nat) = CHR ''5''"
  "char_of (54::nat) = CHR ''6''" "char_of (55::nat) = CHR ''7''" "char_of (56::nat) = CHR ''8''"
  "char_of (57::nat) = CHR ''9''"
  by (simp_all add: char_of_def bit_0 bit_Suc)

lemma of_digit_char: "d < 10 \<Longrightarrow> (of_char (digit_char d) :: nat) = 48 + d"
  by (simp add: digit_char_def)

lemma digit_digit_char [simp]: "d < 10 \<Longrightarrow> is_digit (digit_char d)" "d < 10 \<Longrightarrow> digit_val (digit_char d) = d"
  by (simp_all add: is_digit_def digit_val_def of_digit_char Let_def)

lemma show_nat_digits: "list_all is_digit (show_nat n)"
  by (induction n rule: show_nat.induct) (subst show_nat.simps, simp)

lemma show_nat_nonempty [simp]: "show_nat n \<noteq> []"
  by (subst show_nat.simps) simp

lemma digits_val_show_nat [simp]: "digits_val (show_nat n) = n"
proof (induction n rule: show_nat.induct)
  case (1 n)
  then show ?case
    by (subst show_nat.simps) (auto simp: digits_val_def)
qed

lemma show_nat_inject [simp]: "show_nat m = show_nat n \<longleftrightarrow> m = n"
  by (metis digits_val_show_nat)

lemma show_nat_no_minus: "hd (show_nat n) \<noteq> CHR ''-''"
  using show_nat_digits [of n] show_nat_nonempty [of n]
  by (cases "show_nat n") (auto simp: is_digit_def)

lemma show_int_inject [simp]: "show_int i = show_int j \<longleftrightarrow> i = j"
  using show_nat_no_minus by (auto simp: show_int_def) (metis list.sel(1))+

lemma is_digit_plain: "is_digit c \<Longrightarrow> c \<noteq> CHR '' '' \<and> c \<noteq> CHR 0x09 \<and> c \<noteq> CHR ''-'' \<and> c \<noteq> CHR ''+''"
  by (auto simp: is_digit_def)

lemma scan_int_show_nat:
  assumes "n < 2 ^ 63"
  shows "scan_int (show_nat n) = Some (int n)"
proof -
  obtain c s where cs: "show_nat n = c # s" by (cases "show_nat n") auto
  have all: "list_all is_digit (c # s)" using show_nat_digits [of n] cs by simp
  then have c: "is_digit c" and tw: "takeWhile is_digit s = s"
    by (auto simp: list_all_iff takeWhile_eq_all_conv)
  have v: "digits_val (c # s) = n" using digits_val_show_nat [of n] cs by simp
  have "int n < 2 ^ 63" using assms by (metis of_nat_less_iff of_nat_numeral of_nat_power)
  then show ?thesis
    unfolding cs scan_int_def Let_def using is_digit_plain [OF c] c v by (simp add: tw)
qed

text \<open>An iteration order is a reordering of the entries.\<close>

definition iter_order :: "(('k, 'v) gomap \<Rightarrow> ('k, 'v) gomap) \<Rightarrow> bool" where
  "iter_order ord = (\<forall>m. mset (ord m) = mset m)"

lemma iter_order_id [simp]: "iter_order id"
  by (simp add: iter_order_def)

lemma iter_order_rev [simp]: "iter_order rev"
  by (simp add: iter_order_def)

lemma wf_map_perm: "mset m' = mset m \<Longrightarrow> wf_map m' = wf_map m"
  unfolding wf_map_def by (metis mset_map mset_eq_imp_distinct_iff)

lemma mget_perm: "mset m' = mset m \<Longrightarrow> wf_map m \<Longrightarrow> mget m' = mget m"
  by (metis wf_map_perm wf_map_def map_of_inject_set set_mset_mset)

lemma iter_order_mget: "iter_order ord \<Longrightarrow> wf_map m \<Longrightarrow> mget (ord m) k = mget m k"
  unfolding iter_order_def by (metis mget_perm)

lemma iter_order_mslice: "iter_order ord \<Longrightarrow> wf_map m \<Longrightarrow> mslice (ord m) k = mslice m k"
  unfolding iter_order_def mslice_def by (metis mget_perm)

lemma iter_order_wf: "iter_order ord \<Longrightarrow> wf_map (ord m) = wf_map m"
  unfolding iter_order_def by (metis wf_map_perm)

text \<open>The values of one key in a list of keyed values.\<close>

definition log_of :: "('k \<times> 't) list \<Rightarrow> 'k \<Rightarrow> 't list" where
  "log_of hist k = map snd (filter (\<lambda>e. fst e = k) hist)"

lemma log_of_simps [simp]:
  "log_of [] k = []"
  "log_of (e # hist) k = (if fst e = k then snd e # log_of hist k else log_of hist k)"
  "log_of (log1 @ log2) k = log_of log1 k @ log_of log2 k"
  by (simp_all add: log_of_def)

section \<open>Grouping into a map of slices\<close>

definition group_by :: "('a \<Rightarrow> 'k) \<Rightarrow> 'a list \<Rightarrow> ('k, 'a list) gomap" where
  "group_by key xs = fold (\<lambda>x m. mput (key x) (mslice m (key x) @ [x]) m) xs []"

lemma mslice_group_aux:
  "mslice (fold (\<lambda>x m. mput (key x) (mslice m (key x) @ [x]) m) xs m0) k =
     mslice m0 k @ filter (\<lambda>x. key x = k) xs"
  by (induction xs arbitrary: m0) (auto simp: mslice_mput)

lemma mslice_group_by [go_map]: "mslice (group_by key xs) k = filter (\<lambda>x. key x = k) xs"
  by (simp add: group_by_def mslice_group_aux)

lemma wf_group_by [simp]: "wf_map (group_by key xs)"
proof -
  have "wf_map m0 \<Longrightarrow> wf_map (fold (\<lambda>x m. mput (key x) (mslice m (key x) @ [x]) m) xs m0)" for m0
    by (induction xs arbitrary: m0) auto
  then show ?thesis by (simp add: group_by_def)
qed

lemma keys_group_by: "set (mkeys (group_by key xs)) = key ` set xs"
proof -
  have "set (map fst (fold (\<lambda>x m. mput (key x) (mslice m (key x) @ [x]) m) xs m0)) =
      set (map fst m0) \<union> key ` set xs" for m0
    by (induction xs arbitrary: m0) (auto simp: dom_update)
  then show ?thesis by (simp add: group_by_def mkeys_def)
qed

lemma mslice_in: "wf_map m \<Longrightarrow> (k, v) \<in> set m \<Longrightarrow> mslice m k = v"
  by (simp add: mslice_def wf_map_def)

section \<open>Scanning cyclic buckets\<close>

lemma sort_key_filter_split:
  fixes s :: "'a \<Rightarrow> int"
  assumes "\<forall>t\<in>set xs. s t \<le> m"
  shows "sort_key s xs = sort_key s (filter (\<lambda>t. s t < m) xs) @ filter (\<lambda>t. s t = m) xs"
proof (rule properties_for_sort_key)
  have "mset xs = mset (filter (\<lambda>t. s t < m) xs) + mset (filter (\<lambda>t. s t = m) xs)"
    using assms by (induction xs) auto
  then show "mset (sort_key s (filter (\<lambda>t. s t < m) xs) @ filter (\<lambda>t. s t = m) xs) = mset xs"
    by simp
next
  fix k
  show "filter (\<lambda>x. s k = s x) (sort_key s (filter (\<lambda>t. s t < m) xs) @ filter (\<lambda>t. s t = m) xs) =
      filter (\<lambda>x. s k = s x) xs"
  proof (cases "s k < m")
    case True
    then have e: "filter (\<lambda>x. s k = s x) (filter (\<lambda>t. s t = m) xs) = []"
      by (auto simp: filter_empty_conv)
    have "filter (\<lambda>x. s k = s x) (sort_key s (filter (\<lambda>t. s t < m) xs)) =
        filter (\<lambda>x. s x = s k) (filter (\<lambda>t. s t < m) xs)"
      using sort_key_stable [of s "s k"] by (simp add: eq_commute)
    also have "\<dots> = filter (\<lambda>x. s k = s x) xs" using True by (auto intro: filter_cong)
    finally show ?thesis by (simp only: filter_append e append_Nil2)
  next
    case False
    then have e: "filter (\<lambda>x. s k = s x) (sort_key s (filter (\<lambda>t. s t < m) xs)) = []"
      by (auto simp: filter_empty_conv)
    have "filter (\<lambda>x. s k = s x) (filter (\<lambda>t. s t = m) xs) = filter (\<lambda>x. s k = s x) xs"
      using False assms by (auto intro!: filter_cong)
    then show ?thesis by (simp only: filter_append e append_Nil)
  qed
next
  have "sorted (map s (filter (\<lambda>t. s t = m) xs))" by (induction xs) auto
  then show "sorted (map s (sort_key s (filter (\<lambda>t. s t < m) xs) @ filter (\<lambda>t. s t = m) xs))"
    by (auto simp: sorted_append)
qed

lemma concat_by_key:
  fixes s :: "'a \<Rightarrow> int"
  shows "concat (map (\<lambda>j. filter (\<lambda>t. s t = a + int j) ys) [0..<n]) =
     sort_key s (filter (\<lambda>t. a \<le> s t \<and> s t < a + int n) ys)"
proof (induction n)
  case (Suc n)
  let ?ys = "filter (\<lambda>t. a \<le> s t \<and> s t < a + int (Suc n)) ys"
  have "sort_key s ?ys = sort_key s (filter (\<lambda>t. s t < a + int n) ?ys) @ filter (\<lambda>t. s t = a + int n) ?ys"
    by (rule sort_key_filter_split) auto
  also have "filter (\<lambda>t. s t < a + int n) ?ys = filter (\<lambda>t. a \<le> s t \<and> s t < a + int n) ys"
    by (auto intro: filter_cong)
  also have "filter (\<lambda>t. s t = a + int n) ?ys = filter (\<lambda>t. s t = a + int n) ys"
    by (auto intro: filter_cong)
  finally show ?case using Suc by simp
qed (auto simp: filter_empty_conv)

lemma mod_window_eq:
  fixes x y a N :: int
  assumes "x mod N = y mod N" "a \<le> x" "x < a + n" "a \<le> y" "y < a + n" "n \<le> N"
  shows "x = y"
proof -
  from assms(1) have "N dvd x - y" by (simp add: mod_eq_dvd_iff)
  moreover have "\<bar>x - y\<bar> < N" using assms(2-6) by linarith
  moreover have "0 < N" using assms(2,3,6) by linarith
  ultimately have "x - y = 0" using dvd_imp_le_int [of "x - y" N] by auto
  then show ?thesis by simp
qed

text \<open>A scan of \<open>n \<le> N\<close> consecutive slots of a cyclic array, from the slot of \<open>a\<close>, lists the
  selected entries of the log in the order of their key.\<close>

lemma bucket_scan:
  fixes s :: "'a \<Rightarrow> int"
  assumes P: "\<And>t. t \<in> set xs \<Longrightarrow> P t \<Longrightarrow> a \<le> s t \<and> s t < a + int n \<and> slot t = s t mod N"
    and n: "int n \<le> N"
  shows "concat (map (\<lambda>j. filter P (filter (\<lambda>t. slot t = (a + int j) mod N) xs)) [0..<n]) =
           sort_key s (filter P xs)"
proof -
  have "filter P (filter (\<lambda>t. slot t = (a + int j) mod N) xs) = filter (\<lambda>t. s t = a + int j) (filter P xs)"
    if "j < n" for j
  proof -
    have "slot t = (a + int j) mod N \<longleftrightarrow> s t = a + int j" if "t \<in> set xs" "P t" for t
      using P [OF that] mod_window_eq [of "s t" N "a + int j" a "int n"] n \<open>j < n\<close> by auto
    then show ?thesis by (auto intro: filter_cong)
  qed
  then have "concat (map (\<lambda>j. filter P (filter (\<lambda>t. slot t = (a + int j) mod N) xs)) [0..<n]) =
      concat (map (\<lambda>j. filter (\<lambda>t. s t = a + int j) (filter P xs)) [0..<n])"
    by (auto intro!: arg_cong [of _ _ concat])
  also have "\<dots> = sort_key s (filter (\<lambda>t. a \<le> s t \<and> s t < a + int n) (filter P xs))"
    by (rule concat_by_key)
  also have "filter (\<lambda>t. a \<le> s t \<and> s t < a + int n) (filter P xs) = filter P xs"
    by (rule filter_True) (use P in auto)
  finally show ?thesis .
qed

text \<open>Whatever the keys, such a scan visits a slot at most once.\<close>

lemma bucket_scan_subset:
  assumes n: "int n \<le> N"
  shows "mset (concat (map (\<lambda>j. filter P (filter (\<lambda>t. slot t = (a + int j) mod N) xs)) [0..<n])) =
           mset (filter (\<lambda>t. P t \<and> slot t \<in> (\<lambda>j. (a + int j) mod N) ` {0..<n}) xs)"
  using n
proof (induction n)
  case (Suc n)
  let ?I = "\<lambda>n. (\<lambda>j. (a + int j) mod N) ` {0..<n}"
  have new: "(a + int n) mod N \<notin> ?I n"
    using mod_window_eq [of "a + int n" N _ a "int (Suc n)"] Suc.prems by force
  have I: "?I (Suc n) = insert ((a + int n) mod N) (?I n)" by (simp add: atLeast0_lessThan_Suc)
  have "mset (filter (\<lambda>t. P t \<and> slot t \<in> insert k K) xs) =
      mset (filter (\<lambda>t. P t \<and> slot t \<in> K) xs) + mset (filter P (filter (\<lambda>t. slot t = k) xs))"
    if "k \<notin> K" for k K using that by (induction xs) (auto simp del: filter_filter)
  from this [OF new] Suc show ?case unfolding I by simp
qed simp

end
