(* ===== verification/TradeEvent.thy ===== *)
theory TradeEvent
  imports Prelude
begin

text \<open>
  The unified trade record of \<open>internal/models/trade_event.go\<close> and its normalisation: every
  exchange's symbol and side notation is mapped to one format.
\<close>

section \<open>The record\<close>

record trade_event =
  Exchange :: string
  MarketType :: string
  Symbol :: string
  TradeID :: string
  Price :: string
  Quantity :: string
  Side :: string
  Timestamp :: int
  CollectedAt :: int
  TriggerTime :: int
  IsBuyerMaker :: bool
  QuoteQty :: string

text \<open>\<open>now\<close> is the clock that \<open>GetCurrentUnixMilli\<close> reads.\<close>

definition new_trade_event :: "gotime \<Rightarrow> string \<Rightarrow> string \<Rightarrow> string \<Rightarrow> trade_event" where
  "new_trade_event now ex mt sm =
     \<lparr>Exchange = ex, MarketType = mt, Symbol = sm, TradeID = '''', Price = '''', Quantity = '''',
      Side = '''', Timestamp = 0, CollectedAt = unix_milli now, TriggerTime = 0,
      IsBuyerMaker = False, QuoteQty = ''''\<rparr>"

definition is_valid_time_range :: "trade_event \<Rightarrow> int \<Rightarrow> int \<Rightarrow> bool" where
  "is_valid_time_range te startT endT = (Timestamp te \<ge> startT \<and> Timestamp te \<le> endT)"

definition get_relative_time :: "trade_event \<Rightarrow> int" where
  "get_relative_time te =
     (if TriggerTime te = 0 then 0 else wrap64 (Timestamp te - TriggerTime te) sdiv 1000)"

definition set_trigger_time :: "int \<Rightarrow> trade_event \<Rightarrow> trade_event" where
  "set_trigger_time t te = te\<lparr>TriggerTime := t\<rparr>"

section \<open>Normalisation\<close>

definition normalize_okx_symbol :: "string \<Rightarrow> string" where
  "normalize_okx_symbol s =
     (let s' = (if length s > 8 \<and> drop (length s - 5) s = ''-SWAP''
                then take (length s - 5) s else s)
      in replace_all s' ''-'' '''')"

definition normalize_kucoin_symbol :: "string \<Rightarrow> string" where
  "normalize_kucoin_symbol s =
     (if has_suffix s ''M'' \<and> length s > 6 \<and> has_prefix s ''XBT''
      then ''BTC'' @ drop 3 (take (length s - 1) s)
      else replace_all s ''-'' '''')"

definition normalize_phemex_symbol :: "string \<Rightarrow> string" where
  "normalize_phemex_symbol s =
     (if has_prefix s ''s'' \<and> length s > 1 then drop 1 s
      else if has_suffix s ''USD'' \<and> \<not> has_suffix s ''USDT'' then s @ ''T''
      else s)"

definition normalize_gate_symbol :: "string \<Rightarrow> string" where
  "normalize_gate_symbol s = replace_all s ''_'' ''''"

definition normalize_symbol :: "string \<Rightarrow> string \<Rightarrow> string" where
  "normalize_symbol ex s =
     (if ex = ''okx'' then normalize_okx_symbol s
      else if ex = ''kucoin'' then normalize_kucoin_symbol s
      else if ex = ''phemex'' then normalize_phemex_symbol s
      else if ex = ''gate'' then normalize_gate_symbol s
      else s)"

definition normalize_side :: "string \<Rightarrow> string \<Rightarrow> string" where
  "normalize_side ex sd =
     (if ex = ''phemex'' then
        (if sd = ''Buy'' then ''buy'' else if sd = ''Sell'' then ''sell'' else sd)
      else sd)"

definition normalize :: "trade_event \<Rightarrow> trade_event" where
  "normalize te =
     te\<lparr>Symbol := normalize_symbol (Exchange te) (Symbol te),
        Side := normalize_side (Exchange te) (Side te)\<rparr>"

lemmas normalize_defs = normalize_okx_symbol_def normalize_kucoin_symbol_def
  normalize_phemex_symbol_def normalize_gate_symbol_def

section \<open>Facts\<close>

lemma filter_neq_id: "c \<notin> set s \<Longrightarrow> filter (\<lambda>x. x \<noteq> c) s = s"
  by (induction s) auto

lemma take_notin: "c \<notin> set s \<Longrightarrow> c \<notin> set (take n s)"
  by (meson in_set_takeD)

lemma okx_no_dash: "CHR ''-'' \<notin> set (normalize_okx_symbol s)"
  by (simp add: normalize_okx_symbol_def Let_def replace_all_remove)

lemma okx_idem: "normalize_okx_symbol (normalize_okx_symbol s) = normalize_okx_symbol s"
proof -
  let ?t = "normalize_okx_symbol s"
  have nd: "CHR ''-'' \<notin> set ?t" by (rule okx_no_dash)
  then have "drop (length ?t - 5) ?t \<noteq> ''-SWAP''"
    by (metis in_set_dropD list.set_intros(1))
  with nd show ?thesis
    by (simp add: normalize_okx_symbol_def [of ?t] replace_all_remove filter_neq_id)
qed

lemma gate_idem: "normalize_gate_symbol (normalize_gate_symbol s) = normalize_gate_symbol s"
  by (simp add: normalize_gate_symbol_def replace_all_remove)

text \<open>The OKX formats of the comments: both the spot and the swap pair of a base without dashes
  are rewritten to the concatenated pair.\<close>

lemma okx_spot_format:
  assumes "CHR ''-'' \<notin> set base" "base \<noteq> []"
  shows "normalize_okx_symbol (base @ ''-USDT'') = base @ ''USDT''"
proof -
  have "drop (length (base @ ''-USDT'') - 5) (base @ ''-USDT'') = ''-USDT''" by simp
  then show ?thesis
    using assms(1) by (simp add: normalize_okx_symbol_def Let_def replace_all_remove filter_neq_id)
qed

lemma okx_swap_format:
  assumes "CHR ''-'' \<notin> set base"
  shows "normalize_okx_symbol (base @ ''-USDT-SWAP'') = base @ ''USDT''"
proof -
  have "drop (length (base @ ''-USDT-SWAP'') - 5) (base @ ''-USDT-SWAP'') = ''-SWAP''"
    "take (length (base @ ''-USDT-SWAP'') - 5) (base @ ''-USDT-SWAP'') = base @ ''-USDT''"
    by simp_all
  with assms show ?thesis
    by (simp add: normalize_okx_symbol_def Let_def replace_all_remove filter_neq_id)
qed

lemma gate_format:
  assumes "CHR ''_'' \<notin> set base"
  shows "normalize_gate_symbol (base @ ''_USDT'') = base @ ''USDT''"
  using assms by (simp add: normalize_gate_symbol_def replace_all_remove filter_neq_id)

lemma kucoin_spot_format:
  assumes "CHR ''-'' \<notin> set base"
  shows "normalize_kucoin_symbol (base @ ''-USDT'') = base @ ''USDT''"
  using assms
  by (auto simp: normalize_kucoin_symbol_def has_suffix_def replace_all_remove filter_neq_id)

end
