(* ===== verification/CollectionEvent.thy ===== *)
theory CollectionEvent
  imports TradeEvent
begin

text \<open>
  The collection of one listing, \<open>internal/models/collection_event.go\<close>: twelve independent
  slices, one per exchange and market, filled by \<open>AddTrade\<close> (filtered by the window of 20 s
  around the trigger and by the listed symbol) or by \<open>AddTradeFromBuffer\<close> (unfiltered, keyed).

  The specification side is \<open>slice_of\<close>, the collection seen as a function from the key
  \<open>exchange_market\<close> to the collected trades.
\<close>

section \<open>State\<close>

record collection_event =
  ceSymbol :: string
  ceTriggerTime :: gotime
  StartTime :: gotime
  EndTime :: gotime
  BinanceSpot :: "trade_event list"
  BinanceFutures :: "trade_event list"
  OKXSpot :: "trade_event list"
  OKXFutures :: "trade_event list"
  KuCoinSpot :: "trade_event list"
  KuCoinFutures :: "trade_event list"
  PhemexSpot :: "trade_event list"
  PhemexFutures :: "trade_event list"
  GateSpot :: "trade_event list"
  GateFutures :: "trade_event list"
  BybitSpot :: "trade_event list"
  BybitFutures :: "trade_event list"
  CollectionComplete :: bool
  CreatedAt :: gotime

record exchange_stats =
  SpotTrades :: nat
  FuturesTrades :: nat
  FirstTrade :: int
  LastTrade :: int
  Connected :: bool
  ConnectionTime :: int
  DisconnectCount :: int
  ReconnectCount :: int
  DataQuality :: rat
  LatencyAvg :: rat
  LatencyMax :: rat

definition empty_collection :: "string \<Rightarrow> gotime \<Rightarrow> gotime \<Rightarrow> gotime \<Rightarrow> gotime \<Rightarrow> collection_event" where
  "empty_collection sm trig st en created =
     \<lparr>ceSymbol = sm, ceTriggerTime = trig, StartTime = st, EndTime = en,
      BinanceSpot = [], BinanceFutures = [], OKXSpot = [], OKXFutures = [],
      KuCoinSpot = [], KuCoinFutures = [], PhemexSpot = [], PhemexFutures = [],
      GateSpot = [], GateFutures = [], BybitSpot = [], BybitFutures = [],
      CollectionComplete = False, CreatedAt = created\<rparr>"

definition new_collection_event :: "gotime \<Rightarrow> string \<Rightarrow> gotime \<Rightarrow> collection_event" where
  "new_collection_event now sm trig =
     empty_collection sm trig (trig + (- 20 * second)) (trig + 20 * second) now"

section \<open>Symbol matching\<close>

definition is_target_symbol :: "string \<Rightarrow> string \<Rightarrow> bool" where
  "is_target_symbol listed trade =
     (let target = to_upper listed; trade = to_upper trade in
      if target = trade then True
      else if trade = target @ ''USDT'' then True
      else if trade = target @ ''-USDT'' then True
      else if trade = target @ ''_USDT'' then True
      else if has_suffix trade ''USDT'' \<and>
              trim_suffix (trim_suffix (trim_suffix trade ''USDT'') ''-'') ''_'' = target
      then True
      else if has_prefix trade ''S'' \<and> length trade > 1 \<and>
              (let phemex = trim_prefix trade ''S'' in
               has_suffix phemex ''USDT'' \<and> trim_suffix phemex ''USDT'' = target)
      then True
      else False)"

section \<open>Adding trades\<close>

definition in_window :: "collection_event \<Rightarrow> trade_event \<Rightarrow> bool" where
  "in_window ce t =
     (\<not> (Timestamp t < unix_milli (StartTime ce) \<or> Timestamp t > unix_milli (EndTime ce)))"

definition add_trade :: "trade_event \<Rightarrow> collection_event \<Rightarrow> collection_event" where
  "add_trade t ce =
     (if \<not> in_window ce t then ce
      else if \<not> is_target_symbol (ceSymbol ce) (Symbol t) then ce
      else if Exchange t = ''binance'' then
        (if MarketType t = ''spot'' then ce\<lparr>BinanceSpot := BinanceSpot ce @ [t]\<rparr>
         else ce\<lparr>BinanceFutures := BinanceFutures ce @ [t]\<rparr>)
      else if Exchange t = ''okx'' then
        (if MarketType t = ''spot'' then ce\<lparr>OKXSpot := OKXSpot ce @ [t]\<rparr>
         else ce\<lparr>OKXFutures := OKXFutures ce @ [t]\<rparr>)
      else if Exchange t = ''kucoin'' then
        (if MarketType t = ''spot'' then ce\<lparr>KuCoinSpot := KuCoinSpot ce @ [t]\<rparr>
         else ce\<lparr>KuCoinFutures := KuCoinFutures ce @ [t]\<rparr>)
      else if Exchange t = ''phemex'' then
        (if MarketType t = ''spot'' then ce\<lparr>PhemexSpot := PhemexSpot ce @ [t]\<rparr>
         else ce\<lparr>PhemexFutures := PhemexFutures ce @ [t]\<rparr>)
      else if Exchange t = ''gate'' then
        (if MarketType t = ''spot'' then ce\<lparr>GateSpot := GateSpot ce @ [t]\<rparr>
         else ce\<lparr>GateFutures := GateFutures ce @ [t]\<rparr>)
      else if Exchange t = ''bybit'' then
        (if MarketType t = ''spot'' then ce\<lparr>BybitSpot := BybitSpot ce @ [t]\<rparr>
         else ce\<lparr>BybitFutures := BybitFutures ce @ [t]\<rparr>)
      else ce)"

definition add_trade_from_buffer :: "string \<Rightarrow> trade_event \<Rightarrow> collection_event \<Rightarrow> collection_event" where
  "add_trade_from_buffer key t ce =
     (if key = ''binance_spot'' then ce\<lparr>BinanceSpot := BinanceSpot ce @ [t]\<rparr>
      else if key = ''binance_futures'' then ce\<lparr>BinanceFutures := BinanceFutures ce @ [t]\<rparr>
      else if key = ''bybit_spot'' then ce\<lparr>BybitSpot := BybitSpot ce @ [t]\<rparr>
      else if key = ''bybit_futures'' then ce\<lparr>BybitFutures := BybitFutures ce @ [t]\<rparr>
      else if key = ''okx_spot'' then ce\<lparr>OKXSpot := OKXSpot ce @ [t]\<rparr>
      else if key = ''okx_futures'' then ce\<lparr>OKXFutures := OKXFutures ce @ [t]\<rparr>
      else if key = ''kucoin_spot'' then ce\<lparr>KuCoinSpot := KuCoinSpot ce @ [t]\<rparr>
      else if key = ''kucoin_futures'' then ce\<lparr>KuCoinFutures := KuCoinFutures ce @ [t]\<rparr>
      else if key = ''gate_spot'' then ce\<lparr>GateSpot := GateSpot ce @ [t]\<rparr>
      else if key = ''gate_futures'' then ce\<lparr>GateFutures := GateFutures ce @ [t]\<rparr>
      else if key = ''phemex_spot'' then ce\<lparr>PhemexSpot := PhemexSpot ce @ [t]\<rparr>
      else if key = ''phemex_futures'' then ce\<lparr>PhemexFutures := PhemexFutures ce @ [t]\<rparr>
      else ce)"

section \<open>Totals, statistics, cleanup\<close>

definition total_trade_count :: "collection_event \<Rightarrow> nat" where
  "total_trade_count ce =
     length (BinanceSpot ce) + length (BinanceFutures ce) +
     length (OKXSpot ce) + length (OKXFutures ce) +
     length (KuCoinSpot ce) + length (KuCoinFutures ce) +
     length (PhemexSpot ce) + length (PhemexFutures ce) +
     length (GateSpot ce) + length (GateFutures ce) +
     length (BybitSpot ce) + length (BybitFutures ce)"

definition first_trade_time :: "trade_event list \<Rightarrow> trade_event list \<Rightarrow> int" where
  "first_trade_time spot futures =
     (let first = (if spot \<noteq> [] then Timestamp (spot ! 0) else 0) in
      if futures \<noteq> [] \<and> (first = 0 \<or> Timestamp (futures ! 0) < first)
      then Timestamp (futures ! 0) else first)"

definition last_trade_time :: "trade_event list \<Rightarrow> trade_event list \<Rightarrow> int" where
  "last_trade_time spot futures =
     (let last_t = (if spot \<noteq> [] then Timestamp (spot ! (length spot - 1)) else 0) in
      if futures \<noteq> [] \<and> Timestamp (futures ! (length futures - 1)) > last_t
      then Timestamp (futures ! (length futures - 1)) else last_t)"

definition stats_of :: "trade_event list \<Rightarrow> trade_event list \<Rightarrow> exchange_stats" where
  "stats_of spot futures =
     \<lparr>SpotTrades = length spot, FuturesTrades = length futures,
      FirstTrade = first_trade_time spot futures, LastTrade = last_trade_time spot futures,
      Connected = (length spot + length futures > 0),
      ConnectionTime = 0, DisconnectCount = 0, ReconnectCount = 0,
      DataQuality = 0, LatencyAvg = 0, LatencyMax = 0\<rparr>"

definition get_exchange_stats :: "collection_event \<Rightarrow> (string, exchange_stats) gomap" where
  "get_exchange_stats ce =
     [(''binance'', stats_of (BinanceSpot ce) (BinanceFutures ce)),
      (''okx'', stats_of (OKXSpot ce) (OKXFutures ce)),
      (''kucoin'', stats_of (KuCoinSpot ce) (KuCoinFutures ce)),
      (''phemex'', stats_of (PhemexSpot ce) (PhemexFutures ce)),
      (''gate'', stats_of (GateSpot ce) (GateFutures ce)),
      (''bybit'', stats_of (BybitSpot ce) (BybitFutures ce))]"

definition cleanup_collection :: "collection_event \<Rightarrow> collection_event" where
  "cleanup_collection ce =
     ce\<lparr>BinanceSpot := [], BinanceFutures := [], OKXSpot := [], OKXFutures := [],
        KuCoinSpot := [], KuCoinFutures := [], PhemexSpot := [], PhemexFutures := [],
        GateSpot := [], GateFutures := [], BybitSpot := [], BybitFutures := []\<rparr>"

section \<open>The collection as a function of the key\<close>

definition slices :: "collection_event \<Rightarrow> (string, trade_event list) gomap" where
  "slices ce =
     [(''binance_spot'', BinanceSpot ce), (''binance_futures'', BinanceFutures ce),
      (''bybit_spot'', BybitSpot ce), (''bybit_futures'', BybitFutures ce),
      (''okx_spot'', OKXSpot ce), (''okx_futures'', OKXFutures ce),
      (''kucoin_spot'', KuCoinSpot ce), (''kucoin_futures'', KuCoinFutures ce),
      (''gate_spot'', GateSpot ce), (''gate_futures'', GateFutures ce),
      (''phemex_spot'', PhemexSpot ce), (''phemex_futures'', PhemexFutures ce)]"

definition slice_keys :: "string list" where
  "slice_keys =
     [''binance_spot'', ''binance_futures'', ''bybit_spot'', ''bybit_futures'',
      ''okx_spot'', ''okx_futures'', ''kucoin_spot'', ''kucoin_futures'',
      ''gate_spot'', ''gate_futures'', ''phemex_spot'', ''phemex_futures'']"

definition slice_of :: "string \<Rightarrow> collection_event \<Rightarrow> trade_event list" where
  "slice_of k ce = mslice (slices ce) k"

text \<open>The key of the slice a trade belongs to; every market that is not \<open>spot\<close> counts as
  futures.\<close>

definition route :: "trade_event \<Rightarrow> string" where
  "route t = Exchange t @ (if MarketType t = ''spot'' then ''_spot'' else ''_futures'')"

definition accepted :: "collection_event \<Rightarrow> trade_event \<Rightarrow> bool" where
  "accepted ce t = (in_window ce t \<and> is_target_symbol (ceSymbol ce) (Symbol t))"

lemmas slice_defs = slice_of_def slices_def mslice_def

lemma append_lit_eq: "(x @ s = k) = (has_suffix k s \<and> x = trim_suffix k s)"
  by (auto simp: has_suffix_iff)

lemma from_buffer_unknown: "key \<notin> set slice_keys \<Longrightarrow> add_trade_from_buffer key t ce = ce"
  by (simp add: add_trade_from_buffer_def slice_keys_def)

lemma slice_of_lit [simp]:
  "slice_of ''binance_spot'' ce = BinanceSpot ce" "slice_of ''binance_futures'' ce = BinanceFutures ce"
  "slice_of ''bybit_spot'' ce = BybitSpot ce" "slice_of ''bybit_futures'' ce = BybitFutures ce"
  "slice_of ''okx_spot'' ce = OKXSpot ce" "slice_of ''okx_futures'' ce = OKXFutures ce"
  "slice_of ''kucoin_spot'' ce = KuCoinSpot ce" "slice_of ''kucoin_futures'' ce = KuCoinFutures ce"
  "slice_of ''gate_spot'' ce = GateSpot ce" "slice_of ''gate_futures'' ce = GateFutures ce"
  "slice_of ''phemex_spot'' ce = PhemexSpot ce" "slice_of ''phemex_futures'' ce = PhemexFutures ce"
  by (simp_all add: slice_defs)

lemma slice_of_unknown: "k \<notin> set slice_keys \<Longrightarrow> slice_of k ce = []"
  by (simp add: slice_keys_def slice_defs)

lemma slice_of_from_buffer [simp]:
  "slice_of k (add_trade_from_buffer key t ce) =
     slice_of k ce @ (if key = k \<and> k \<in> set slice_keys then [t] else [])"
proof (cases "k \<in> set slice_keys")
  case True
  moreover have "k \<in> set slice_keys \<Longrightarrow>
    slice_of k (add_trade_from_buffer key t ce) = slice_of k ce @ (if key = k then [t] else [])"
    unfolding slice_keys_def list.set insert_iff empty_iff
    by (elim disjE; simp add: add_trade_from_buffer_def)
  ultimately show ?thesis by simp
next
  case False
  then show ?thesis by (simp add: slice_of_unknown)
qed

lemma route_lit:
  "(route t = k) = ((MarketType t = ''spot'' \<and> has_suffix k ''_spot'' \<and> Exchange t = trim_suffix k ''_spot'') \<or>
     (MarketType t \<noteq> ''spot'' \<and> has_suffix k ''_futures'' \<and> Exchange t = trim_suffix k ''_futures''))"
  by (auto simp: route_def append_lit_eq)

text \<open>\<open>AddTrade\<close> is the two filters followed by the keyed append.\<close>

lemma add_trade_eq:
  "add_trade t ce = (if accepted ce t then add_trade_from_buffer (route t) t ce else ce)"
proof -
  define spot where "spot \<longleftrightarrow> MarketType t = ''spot''"
  define x where "x = Exchange t"
  have r: "route t = ''binance_spot'' \<longleftrightarrow> spot \<and> x = ''binance''"
    "route t = ''okx_spot'' \<longleftrightarrow> spot \<and> x = ''okx''"
    "route t = ''kucoin_spot'' \<longleftrightarrow> spot \<and> x = ''kucoin''"
    "route t = ''phemex_spot'' \<longleftrightarrow> spot \<and> x = ''phemex''"
    "route t = ''gate_spot'' \<longleftrightarrow> spot \<and> x = ''gate''"
    "route t = ''bybit_spot'' \<longleftrightarrow> spot \<and> x = ''bybit''"
    "route t = ''binance_futures'' \<longleftrightarrow> \<not> spot \<and> x = ''binance''"
    "route t = ''okx_futures'' \<longleftrightarrow> \<not> spot \<and> x = ''okx''"
    "route t = ''kucoin_futures'' \<longleftrightarrow> \<not> spot \<and> x = ''kucoin''"
    "route t = ''phemex_futures'' \<longleftrightarrow> \<not> spot \<and> x = ''phemex''"
    "route t = ''gate_futures'' \<longleftrightarrow> \<not> spot \<and> x = ''gate''"
    "route t = ''bybit_futures'' \<longleftrightarrow> \<not> spot \<and> x = ''bybit''"
    unfolding spot_def x_def by (simp_all add: route_lit has_suffix_def trim_suffix_def)
  have keyed: "add_trade_from_buffer (route t) t ce =
     (if x = ''binance'' then
        (if spot then ce\<lparr>BinanceSpot := BinanceSpot ce @ [t]\<rparr>
         else ce\<lparr>BinanceFutures := BinanceFutures ce @ [t]\<rparr>)
      else if x = ''okx'' then
        (if spot then ce\<lparr>OKXSpot := OKXSpot ce @ [t]\<rparr> else ce\<lparr>OKXFutures := OKXFutures ce @ [t]\<rparr>)
      else if x = ''kucoin'' then
        (if spot then ce\<lparr>KuCoinSpot := KuCoinSpot ce @ [t]\<rparr>
         else ce\<lparr>KuCoinFutures := KuCoinFutures ce @ [t]\<rparr>)
      else if x = ''phemex'' then
        (if spot then ce\<lparr>PhemexSpot := PhemexSpot ce @ [t]\<rparr>
         else ce\<lparr>PhemexFutures := PhemexFutures ce @ [t]\<rparr>)
      else if x = ''gate'' then
        (if spot then ce\<lparr>GateSpot := GateSpot ce @ [t]\<rparr> else ce\<lparr>GateFutures := GateFutures ce @ [t]\<rparr>)
      else if x = ''bybit'' then
        (if spot then ce\<lparr>BybitSpot := BybitSpot ce @ [t]\<rparr>
         else ce\<lparr>BybitFutures := BybitFutures ce @ [t]\<rparr>)
      else ce)"
    unfolding add_trade_from_buffer_def r by (cases spot) auto
  show ?thesis
    unfolding add_trade_def keyed accepted_def x_def spot_def by (simp only: if_distrib) auto
qed

lemma from_buffer_meta [simp]:
  "ceSymbol (add_trade_from_buffer k t ce) = ceSymbol ce"
  "ceTriggerTime (add_trade_from_buffer k t ce) = ceTriggerTime ce"
  "StartTime (add_trade_from_buffer k t ce) = StartTime ce"
  "EndTime (add_trade_from_buffer k t ce) = EndTime ce"
  "CollectionComplete (add_trade_from_buffer k t ce) = CollectionComplete ce"
  "CreatedAt (add_trade_from_buffer k t ce) = CreatedAt ce"
  by (simp_all add: add_trade_from_buffer_def)

lemma accepted_from_buffer [simp]: "accepted (add_trade_from_buffer k t ce) u = accepted ce u"
  by (simp add: accepted_def in_window_def)

lemma slice_of_add_trade:
  "slice_of k (add_trade t ce) =
     slice_of k ce @ (if accepted ce t \<and> route t = k \<and> k \<in> set slice_keys then [t] else [])"
  by (simp add: add_trade_eq)

lemma accepted_add_trade [simp]: "accepted (add_trade t ce) u = accepted ce u"
  by (simp add: add_trade_eq)

text \<open>A whole feed of trades: every slice holds the accepted trades of its key, in order.\<close>

lemma slice_of_fold_add_trade:
  assumes "k \<in> set slice_keys"
  shows "slice_of k (fold add_trade ts ce) =
           slice_of k ce @ filter (\<lambda>t. accepted ce t \<and> route t = k) ts"
  using assms by (induction ts arbitrary: ce) (auto simp: slice_of_add_trade)

lemma slice_of_fold_from_buffer:
  assumes "k \<in> set slice_keys"
  shows "slice_of k (fold (add_trade_from_buffer key) ts ce) =
           slice_of k ce @ (if key = k then ts else [])"
  using assms by (induction ts arbitrary: ce) auto

lemma slice_of_empty [simp]: "slice_of k (empty_collection sm trig st en created) = []"
  by (simp add: slice_defs empty_collection_def)

lemma slice_of_cleanup: "slice_of k (cleanup_collection ce) = []"
  by (simp add: slice_defs cleanup_collection_def)

lemma total_trade_count_slices:
  "total_trade_count ce = sum_list (map (\<lambda>k. length (slice_of k ce)) slice_keys)"
  by (simp add: total_trade_count_def slice_keys_def slice_defs)

lemma slice_keys_distinct: "distinct slice_keys"
  by (simp add: slice_keys_def)

lemma total_from_buffer:
  "total_trade_count (add_trade_from_buffer k t ce) =
     total_trade_count ce + (if k \<in> set slice_keys then 1 else 0)"
  by (simp add: add_trade_from_buffer_def total_trade_count_def slice_keys_def)

lemma total_fold_add_trade:
  "total_trade_count (fold add_trade ts ce) =
     total_trade_count ce + length (filter (\<lambda>t. accepted ce t \<and> route t \<in> set slice_keys) ts)"
  by (induction ts arbitrary: ce) (simp_all add: add_trade_eq total_from_buffer)

section \<open>Characterisation of the symbol matching\<close>

lemma trim_dash_underscore:
  "trim_suffix (trim_suffix b ''-'') ''_'' = t \<Longrightarrow>
     b = t \<or> b = t @ ''-'' \<or> b = t @ ''_'' \<or> b = t @ ''_-''"
proof -
  define c where "c = trim_suffix b ''-''"
  assume t: "trim_suffix (trim_suffix b ''-'') ''_'' = t"
  have b: "b = c @ ''-'' \<or> b = c"
    using trim_suffix_cases [of b "''-''"] by (auto simp: c_def)
  have "c = t @ ''_'' \<or> c = t"
    using trim_suffix_cases [of c "''_''"] t by (auto simp: c_def)
  with b show ?thesis by auto
qed

definition target_forms :: "(string \<times> string) set" where
  "target_forms =
     {([], []), ([], ''USDT''), ([], ''-USDT''), ([], ''_USDT''), ([], ''_-USDT''),
      (''S'', ''USDT'')}"

lemma is_target_symbol_iff:
  "is_target_symbol listed trade \<longleftrightarrow>
     to_upper trade \<in> (\<lambda>(p, s). p @ to_upper listed @ s) ` target_forms"
proof -
  define T where "T = to_upper listed"
  define u where "u = to_upper trade"
  define F where "F \<longleftrightarrow> has_suffix u ''USDT'' \<and>
      trim_suffix (trim_suffix (trim_suffix u ''USDT'') ''-'') ''_'' = T"
  define P where "P \<longleftrightarrow> has_prefix u ''S'' \<and> length u > 1 \<and>
      has_suffix (trim_prefix u ''S'') ''USDT'' \<and> trim_suffix (trim_prefix u ''S'') ''USDT'' = T"
  have four: "F \<Longrightarrow> u = T @ ''USDT'' \<or> u = T @ ''-USDT'' \<or> u = T @ ''_USDT'' \<or> u = T @ ''_-USDT''"
    unfolding F_def
    using trim_dash_underscore [of "trim_suffix u ''USDT''" T] by (auto simp: has_suffix_iff)
  have tr: "trim_suffix (T @ ''_-USDT'') ''USDT'' = T @ ''_-''"
    "trim_suffix (T @ ''_-'') ''-'' = T @ ''_''"
    using trim_suffix_append [of "T @ ''_-''" "''USDT''"] trim_suffix_append [of "T @ ''_''" "''-''"]
    by simp_all
  have hs: "has_suffix (T @ ''_-USDT'') ''USDT''"
    using has_suffix_append [of "T @ ''_-''" "''USDT''"] by simp
  have four': "u = T @ ''_-USDT'' \<Longrightarrow> F"
    using tr hs by (simp add: F_def trim_suffix_def has_suffix_def)
  have five: "P \<longleftrightarrow> u = ''S'' @ T @ ''USDT''"
    unfolding P_def using trim_prefix_append [of "''S''"] by (auto simp: has_prefix_iff has_suffix_iff)
  have "is_target_symbol listed trade \<longleftrightarrow>
      T = u \<or> u = T @ ''USDT'' \<or> u = T @ ''-USDT'' \<or> u = T @ ''_USDT'' \<or> F \<or> P"
    unfolding is_target_symbol_def Let_def T_def [symmetric] u_def [symmetric]
      F_def [symmetric] P_def [symmetric] by (simp only: if_True if_False split: if_split) blast
  moreover have "u \<in> (\<lambda>(p, s). p @ T @ s) ` target_forms \<longleftrightarrow>
      T = u \<or> u = T @ ''USDT'' \<or> u = T @ ''-USDT'' \<or> u = T @ ''_USDT'' \<or> u = T @ ''_-USDT'' \<or>
      u = ''S'' @ T @ ''USDT''"
    unfolding target_forms_def image_insert image_empty prod.case append_Nil append_Nil2 by blast
  ultimately show ?thesis
    unfolding T_def [symmetric] u_def [symmetric] using four four' five by blast
qed

section \<open>Properties\<close>

text \<open>C7. A collection fed with any stream of trades holds, under each of its twelve keys, exactly the
  trades of that exchange and market whose timestamp lies in the forty seconds around the trigger and
  whose symbol matches the listed one, in the order of their arrival; and the total count is the
  number of all trades so selected.\<close>

theorem collection_slices:
  "map (\<lambda>k. slice_of k (fold add_trade ts (new_collection_event now sm trig))) slice_keys =
     map (\<lambda>k. filter (\<lambda>t. unix_milli (trig - 20 * second) \<le> Timestamp t \<and>
          Timestamp t \<le> unix_milli (trig + 20 * second) \<and>
          is_target_symbol sm (Symbol t) \<and> route t = k) ts) slice_keys \<and>
   total_trade_count (fold add_trade ts (new_collection_event now sm trig)) =
     length (filter (\<lambda>t. unix_milli (trig - 20 * second) \<le> Timestamp t \<and>
          Timestamp t \<le> unix_milli (trig + 20 * second) \<and>
          is_target_symbol sm (Symbol t) \<and> route t \<in> set slice_keys) ts)"
proof -
  let ?ce = "new_collection_event now sm trig"
  have acc: "accepted ?ce t = (unix_milli (trig - 20 * second) \<le> Timestamp t \<and>
      Timestamp t \<le> unix_milli (trig + 20 * second) \<and> is_target_symbol sm (Symbol t))" for t
    by (auto simp: accepted_def in_window_def new_collection_event_def empty_collection_def)
  have "slice_of k ?ce = []" for k by (simp add: new_collection_event_def)
  moreover have "total_trade_count ?ce = 0"
    by (simp add: new_collection_event_def empty_collection_def total_trade_count_def)
  ultimately show ?thesis
    by (auto simp: slice_of_fold_add_trade total_fold_add_trade acc conj_assoc)
qed

text \<open>A trade symbol matches a listed symbol \<open>T\<close> exactly if, in upper case, it is \<open>T\<close>,
  \<open>TUSDT\<close>, \<open>T-USDT\<close>, \<open>T_USDT\<close>, \<open>T_-USDT\<close> or \<open>STUSDT\<close>: the
  suffix-stripping rules of the code add nothing else.\<close>

theorem target_symbol_forms:
  "is_target_symbol listed trade \<longleftrightarrow>
     to_upper trade \<in> {to_upper listed, to_upper listed @ ''USDT'', to_upper listed @ ''-USDT'',
       to_upper listed @ ''_USDT'', to_upper listed @ ''_-USDT'', ''S'' @ to_upper listed @ ''USDT''}"
  unfolding is_target_symbol_iff target_forms_def image_insert image_empty prod.case append_Nil append_Nil2
  by (rule refl)

text \<open>The \<open>s\<close>-prefix rule for Phemex confuses listings: for every symbol \<open>T\<close>, the pair of the
  different asset \<open>ST\<close> is taken for a trade of \<open>T\<close> (a listing of \<open>UI\<close> collects the trades
  of \<open>SUIUSDT\<close> on every exchange).\<close>

theorem target_symbol_collision:
  "is_target_symbol sm (''S'' @ sm @ ''USDT'') \<and> is_target_symbol ''UI'' ''SUIUSDT''"
proof -
  have "is_target_symbol s (''S'' @ s @ ''USDT'')" for s
  proof -
    have "to_upper (''S'' @ s @ ''USDT'') = ''S'' @ to_upper s @ ''USDT''"
      by (simp add: to_upper_def upper_char_def)
    then show ?thesis
      unfolding is_target_symbol_iff by (auto simp: target_forms_def)
  qed
  from this [of sm] this [of "''UI''"] show ?thesis by simp
qed

end
