(* ===== verification/CircularTradeBuffer.thy ===== *)
theory CircularTradeBuffer
  imports CollectionEvent
begin

text \<open>
  The 20-minute trade buffer of \<open>internal/buffer/circular_trade_buffer.go\<close>: 1200 buckets of one
  second, each a map from the exchange key to its trades, a hot cache of the last two minutes, a
  batched write path, the extraction of a \<open>CollectionEvent\<close> and the backup file.

  Every clock reading is an argument, the iteration order over a Go map is an argument (a
  reordering of the list of its entries), and the file system and the JSON codec are arguments.  A query that never
  returned would be the value \<^const>\<open>None\<close> of the loop.
\<close>

section \<open>State\<close>

definition bucket_count :: int where "bucket_count = 1200"

record time_bucket =
  tbTimestamp :: int
  tbTrades :: "(string, trade_event list) gomap"

record trade_slice =
  tsTrades :: "trade_event list"
  lastUsed :: int

record buffer_stats =
  MemoryUsage :: int
  TotalEvents :: int
  HotEvents :: int
  ColdEvents :: int
  HotCacheHits :: int
  ColdBufferHits :: int
  CompressionRate :: rat

record trade_buffer =
  buckets :: "time_bucket list"
  currentBucket :: int
  startTime :: int
  hotCache :: "(string, trade_slice) gomap"
  stats :: buffer_stats
  closed :: bool

datatype buffer_error = BufferClosed | BackupDirFailed | MarshalFailed | WriteFailed | ReadFailed

definition zero_stats :: buffer_stats where
  "zero_stats = \<lparr>MemoryUsage = 0, TotalEvents = 0, HotEvents = 0, ColdEvents = 0,
     HotCacheHits = 0, ColdBufferHits = 0, CompressionRate = 0\<rparr>"

definition new_buffer :: "gotime \<Rightarrow> trade_buffer" where
  "new_buffer now =
     \<lparr>buckets = map (\<lambda>i. \<lparr>tbTimestamp = unix_nano now + int i * second, tbTrades = []\<rparr>)
                  [0..<nat bucket_count],
      currentBucket = 0, startTime = unix_nano now, hotCache = [], stats = zero_stats,
      closed = False\<rparr>"

section \<open>Writing\<close>

definition get_bucket_index :: "int \<Rightarrow> int" where
  "get_bucket_index timestamp =
     (let seconds = (if timestamp > 1000000000000000 then timestamp sdiv second
                     else timestamp sdiv 1000);
          bucketIndex = seconds smod bucket_count
      in if bucketIndex < 0 then bucketIndex + bucket_count else bucketIndex)"

definition bucket_append :: "string \<Rightarrow> trade_event list \<Rightarrow> time_bucket \<Rightarrow> time_bucket" where
  "bucket_append ex ts bk = bk\<lparr>tbTrades := mput ex (mslice (tbTrades bk) ex @ ts) (tbTrades bk)\<rparr>"

definition append_at :: "int \<Rightarrow> string \<Rightarrow> trade_event list \<Rightarrow> trade_buffer \<Rightarrow> trade_buffer" where
  "append_at i ex ts b =
     b\<lparr>buckets := (buckets b)[nat i := bucket_append ex ts (buckets b ! nat i)]\<rparr>"

definition add_total :: "int \<Rightarrow> trade_buffer \<Rightarrow> trade_buffer" where
  "add_total n b = b\<lparr>stats := (stats b)\<lparr>TotalEvents := TotalEvents (stats b) + n\<rparr>\<rparr>"

definition direct_write :: "string \<Rightarrow> trade_event \<Rightarrow> trade_buffer \<Rightarrow> trade_buffer" where
  "direct_write ex t b =
     (let bucketIdx = get_bucket_index (Timestamp t)
      in add_total 1 (append_at bucketIdx ex [t] b))"

definition store_trade_event :: "string \<Rightarrow> trade_event \<Rightarrow> trade_buffer \<Rightarrow> buffer_error + trade_buffer" where
  "store_trade_event ex t b =
     (if closed b then Inl BufferClosed else Inr (direct_write ex t b))"

text \<open>A write request is the pair of its exchange and its trade.  \<open>ordB\<close> and \<open>ordE\<close> are the
  iteration orders of the two grouping maps.\<close>

type_synonym write_request = "string \<times> trade_event"

definition flush_exchange_batch ::
  "((int, trade_event list) gomap \<Rightarrow> (int, trade_event list) gomap) \<Rightarrow>
   string \<Rightarrow> write_request list \<Rightarrow> trade_buffer \<Rightarrow> trade_buffer" where
  "flush_exchange_batch ordB ex reqs b =
     (let bucketGroups = group_by (\<lambda>t. get_bucket_index (Timestamp t)) (map snd reqs)
      in add_total (int (length reqs))
           (fold (\<lambda>(i, ts) b. append_at i ex ts b) (ordB bucketGroups) b))"

definition flush_batch ::
  "((int, trade_event list) gomap \<Rightarrow> (int, trade_event list) gomap) \<Rightarrow>
   ((string, write_request list) gomap \<Rightarrow> (string, write_request list) gomap) \<Rightarrow>
   write_request list \<Rightarrow> trade_buffer \<Rightarrow> trade_buffer" where
  "flush_batch ordB ordE batch b =
     (let exchangeGroups = group_by fst batch
      in fold (\<lambda>(ex, reqs) b. flush_exchange_batch ordB ex reqs b) (ordE exchangeGroups) b)"

section \<open>Reading\<close>

definition in_milli_range :: "int \<Rightarrow> int \<Rightarrow> trade_event \<Rightarrow> bool" where
  "in_milli_range lo hi t = (Timestamp t \<ge> lo \<and> Timestamp t \<le> hi)"

partial_function (option) cold_loop ::
  "time_bucket list \<Rightarrow> string \<Rightarrow> int \<Rightarrow> int \<Rightarrow> int \<Rightarrow> int \<Rightarrow> trade_event list \<Rightarrow> trade_event list option"
where
  [code]: "cold_loop bs ex lo hi endBucket current result =
     (if current = endBucket
      then Some (result @ filter (in_milli_range lo hi) (mslice (tbTrades (bs ! nat current)) ex))
      else cold_loop bs ex lo hi endBucket ((current + 1) smod bucket_count)
             (result @ filter (in_milli_range lo hi) (mslice (tbTrades (bs ! nat current)) ex)))"

definition get_from_cold_buffer :: "string \<Rightarrow> int \<Rightarrow> int \<Rightarrow> trade_buffer \<Rightarrow> trade_event list option" where
  "get_from_cold_buffer ex startNano endNano b =
     cold_loop (buckets b) ex (startNano sdiv 1000000) (endNano sdiv 1000000)
       (get_bucket_index endNano) (get_bucket_index startNano) []"

text \<open>\<open>getRecentTrades\<close> repeats the loop with a guard on a negative index.\<close>

definition safe_next :: "int \<Rightarrow> int" where
  "safe_next current =
     (let c = (current + 1) smod bucket_count
      in if c < 0 then (c + bucket_count) smod bucket_count else c)"

partial_function (option) recent_loop ::
  "time_bucket list \<Rightarrow> string \<Rightarrow> int \<Rightarrow> int \<Rightarrow> int \<Rightarrow> int \<Rightarrow> trade_event list \<Rightarrow> trade_event list option"
where
  [code]: "recent_loop bs ex lo hi endBucket current result =
     (if current = endBucket
      then Some (result @ filter (in_milli_range lo hi) (mslice (tbTrades (bs ! nat current)) ex))
      else recent_loop bs ex lo hi endBucket (safe_next current)
             (result @ filter (in_milli_range lo hi) (mslice (tbTrades (bs ! nat current)) ex)))"

definition get_recent_trades :: "string \<Rightarrow> int \<Rightarrow> int \<Rightarrow> trade_buffer \<Rightarrow> trade_event list option" where
  "get_recent_trades ex startNano endNano b =
     recent_loop (buckets b) ex (startNano sdiv 1000000) (endNano sdiv 1000000)
       (get_bucket_index endNano) (get_bucket_index startNano) []"

definition hot_cache_seconds :: int where "hot_cache_seconds = 120"

text \<open>The nil slice is \<^const>\<open>None\<close>: it makes the caller fall back to the buckets.\<close>

definition get_from_hot_cache ::
  "gotime \<Rightarrow> string \<Rightarrow> int \<Rightarrow> int \<Rightarrow> trade_buffer \<Rightarrow> trade_event list option" where
  "get_from_hot_cache now ex startNano endNano b =
     (case mget (hotCache b) ex of
        None \<Rightarrow> None
      | Some hotData \<Rightarrow>
          if lastUsed hotData < unix_nano (now - hot_cache_seconds * second) then None
          else
            (let result = filter (in_milli_range (startNano sdiv 1000000) (endNano sdiv 1000000))
                            (tsTrades hotData)
             in if result = [] then None else Some result))"

definition hit_hot :: "trade_buffer \<Rightarrow> trade_buffer" where
  "hit_hot b = b\<lparr>stats := (stats b)\<lparr>HotCacheHits := HotCacheHits (stats b) + 1\<rparr>\<rparr>"

definition hit_cold :: "trade_buffer \<Rightarrow> trade_buffer" where
  "hit_cold b = b\<lparr>stats := (stats b)\<lparr>ColdBufferHits := ColdBufferHits (stats b) + 1\<rparr>\<rparr>"

definition get_trade_events ::
  "gotime \<Rightarrow> string \<Rightarrow> gotime \<Rightarrow> gotime \<Rightarrow> trade_buffer \<Rightarrow>
     (buffer_error + trade_event list \<times> trade_buffer) option" where
  "get_trade_events now ex startT endT b =
     (if closed b then Some (Inl BufferClosed)
      else
        (let startNano = unix_nano startT; endNano = unix_nano endT in
         case get_from_hot_cache now ex startNano endNano b of
           Some trades \<Rightarrow> Some (Inr (trades, hit_hot b))
         | None \<Rightarrow>
             (case get_from_cold_buffer ex startNano endNano b of
                None \<Rightarrow> None
              | Some trades \<Rightarrow> Some (Inr (trades, hit_cold b)))))"

section \<open>Hot cache refresh and statistics\<close>

definition active_exchanges :: "string list" where
  "active_exchanges =
     [''binance_spot'', ''binance_futures'', ''bybit_spot'', ''bybit_futures'',
      ''okx_spot'', ''okx_futures'', ''kucoin_spot'', ''kucoin_futures'',
      ''gate_spot'', ''gate_futures'']"

fun refresh_exchanges :: "int \<Rightarrow> int \<Rightarrow> string list \<Rightarrow> trade_buffer \<Rightarrow> trade_buffer option" where
  "refresh_exchanges hotStart now [] b = Some b"
| "refresh_exchanges hotStart now (ex # exs) b =
     (case get_recent_trades ex hotStart now b of
        None \<Rightarrow> None
      | Some trades \<Rightarrow>
          refresh_exchanges hotStart now exs
            (if length trades > 0
             then b\<lparr>hotCache := mput ex \<lparr>tsTrades = trades, lastUsed = now\<rparr> (hotCache b)\<rparr>
             else b))"

definition count_hot_cache_events :: "trade_buffer \<Rightarrow> int" where
  "count_hot_cache_events b = sum_list (map (\<lambda>(ex, s). int (length (tsTrades s))) (hotCache b))"

definition update_hot_cache :: "gotime \<Rightarrow> trade_buffer \<Rightarrow> trade_buffer option" where
  "update_hot_cache t b =
     (let now = unix_nano t; hotStart = now - hot_cache_seconds * second in
      case refresh_exchanges hotStart now active_exchanges b of
        None \<Rightarrow> None
      | Some b' \<Rightarrow> Some (b'\<lparr>stats := (stats b')\<lparr>HotEvents := count_hot_cache_events b'\<rparr>\<rparr>))"

definition calculate_memory_usage :: "trade_buffer \<Rightarrow> int" where
  "calculate_memory_usage b =
     8 * 1024 + bucket_count * 1024 + TotalEvents (stats b) * 200 + HotEvents (stats b) * 200"

definition get_stats :: "trade_buffer \<Rightarrow> buffer_stats" where
  "get_stats b =
     (stats b)\<lparr>MemoryUsage := calculate_memory_usage b,
              ColdEvents := TotalEvents (stats b) - HotEvents (stats b)\<rparr>"

section \<open>Extraction of a collection\<close>

definition ctb_is_target :: "string \<Rightarrow> string \<Rightarrow> bool" where
  "ctb_is_target targetSymbol tradeSymbol =
     (let target = to_upper targetSymbol; trade = to_upper tradeSymbol in
      if target = trade then True
      else if trade = target @ ''USDT'' then True
      else if trade = target @ ''-USDT'' \<or> trade = target @ ''_USDT'' then True
      else if has_prefix trade ''S'' \<and> length trade > 1 \<and>
              (let phemex = trim_prefix trade ''S'' in
               has_suffix phemex ''USDT'' \<and> trim_suffix phemex ''USDT'' = target)
      then True
      else False)"

text \<open>\<open>*exchange.target = filteredTrades\<close> for the ten keys of the table.\<close>

definition set_slice :: "string \<Rightarrow> trade_event list \<Rightarrow> collection_event \<Rightarrow> collection_event" where
  "set_slice key xs ce =
     (if key = ''binance_spot'' then ce\<lparr>BinanceSpot := xs\<rparr>
      else if key = ''binance_futures'' then ce\<lparr>BinanceFutures := xs\<rparr>
      else if key = ''bybit_spot'' then ce\<lparr>BybitSpot := xs\<rparr>
      else if key = ''bybit_futures'' then ce\<lparr>BybitFutures := xs\<rparr>
      else if key = ''okx_spot'' then ce\<lparr>OKXSpot := xs\<rparr>
      else if key = ''okx_futures'' then ce\<lparr>OKXFutures := xs\<rparr>
      else if key = ''kucoin_spot'' then ce\<lparr>KuCoinSpot := xs\<rparr>
      else if key = ''kucoin_futures'' then ce\<lparr>KuCoinFutures := xs\<rparr>
      else if key = ''gate_spot'' then ce\<lparr>GateSpot := xs\<rparr>
      else if key = ''gate_futures'' then ce\<lparr>GateFutures := xs\<rparr>
      else ce)"

text \<open>\<open>clk\<close> is the clock at the query of each key.\<close>

fun extract_exchanges ::
  "(string \<Rightarrow> gotime) \<Rightarrow> string \<Rightarrow> gotime \<Rightarrow> gotime \<Rightarrow> string list \<Rightarrow>
     collection_event \<times> trade_buffer \<Rightarrow> (buffer_error + collection_event \<times> trade_buffer) option" where
  "extract_exchanges clk sm startT endT [] (ce, b) = Some (Inr (ce, b))"
| "extract_exchanges clk sm startT endT (key # ks) (ce, b) =
     (case get_trade_events (clk key) key startT endT b of
        None \<Rightarrow> None
      | Some (Inl e) \<Rightarrow> Some (Inl e)
      | Some (Inr (trades, b')) \<Rightarrow>
          extract_exchanges clk sm startT endT ks
            (set_slice key (filter (\<lambda>t. ctb_is_target sm (Symbol t)) trades) ce, b'))"

definition to_collection_event ::
  "(string \<Rightarrow> gotime) \<Rightarrow> string \<Rightarrow> gotime \<Rightarrow> trade_buffer \<Rightarrow>
     (buffer_error + collection_event \<times> trade_buffer) option" where
  "to_collection_event clk sm trig b =
     (let startT = trig + (- 20 * second); endT = trig + 20 * second;
          event = empty_collection sm trig startT endT zero_time
      in extract_exchanges clk sm startT endT active_exchanges (event, b))"

definition handle_toshi_scenario ::
  "(string \<Rightarrow> gotime) \<Rightarrow> gotime \<Rightarrow> trade_buffer \<Rightarrow>
     (buffer_error + collection_event \<times> trade_buffer) option" where
  "handle_toshi_scenario clk trig b = to_collection_event clk ''TOSHI'' (trig + (- 16 * minute)) b"

definition handle_normal_listing ::
  "(string \<Rightarrow> gotime) \<Rightarrow> string \<Rightarrow> gotime \<Rightarrow> trade_buffer \<Rightarrow>
     (buffer_error + collection_event \<times> trade_buffer) option" where
  "handle_normal_listing clk sm trig b = to_collection_event clk sm trig b"

section \<open>Backup\<close>

record backup_bucket =
  bbTimestamp :: int
  bbTrades :: "(string, trade_event list) gomap"

record backup_data =
  BackupTime :: gotime
  bkStartTime :: int
  bkCurrentBucket :: int
  bkBuckets :: "(string, backup_bucket) gomap"
  bkHotCache :: "(string, trade_event list) gomap"
  bkStats :: buffer_stats

definition make_backup :: "gotime \<Rightarrow> trade_buffer \<Rightarrow> backup_data" where
  "make_backup now b =
     \<lparr>BackupTime = now, bkStartTime = startTime b, bkCurrentBucket = currentBucket b,
      bkBuckets =
        map (\<lambda>i. (show_nat i, \<lparr>bbTimestamp = tbTimestamp (buckets b ! i), bbTrades = tbTrades (buckets b ! i)\<rparr>))
          (filter (\<lambda>i. length (tbTrades (buckets b ! i)) > 0) [0..<length (buckets b)]),
      bkHotCache =
        map (\<lambda>(ex, s). (ex, tsTrades s)) (filter (\<lambda>(ex, s). length (tsTrades s) > 0) (hotCache b)),
      bkStats = stats b\<rparr>"

text \<open>\<open>enc\<close> is \<open>json.Marshal\<close>, \<open>mkdir\<close> whether \<open>os.MkdirAll\<close> succeeds, \<open>os_write\<close> what
  \<open>os.WriteFile\<close> leaves on the disk and whether it succeeded.\<close>

definition save_to_backup ::
  "bool \<Rightarrow> (backup_data \<Rightarrow> 'f option) \<Rightarrow> ('f \<Rightarrow> 'f option \<Rightarrow> bool \<times> 'f option) \<Rightarrow>
     gotime \<Rightarrow> trade_buffer \<Rightarrow> 'f option \<Rightarrow> buffer_error option \<times> 'f option" where
  "save_to_backup mkdir enc os_write now b disk =
     (if \<not> mkdir then (Some BackupDirFailed, disk)
      else (case enc (make_backup now b) of
              None \<Rightarrow> (Some MarshalFailed, disk)
            | Some f \<Rightarrow>
                (let (ok, disk') = os_write f disk
                 in (if ok then None else Some WriteFailed, disk'))))"

definition restore_bucket :: "string \<times> backup_bucket \<Rightarrow> trade_buffer \<Rightarrow> trade_buffer" where
  "restore_bucket kb b =
     (case scan_int (fst kb) of
        None \<Rightarrow> b
      | Some bucketIndex \<Rightarrow>
          if bucketIndex \<ge> 0 \<and> bucketIndex < int (length (buckets b))
          then b\<lparr>buckets := (buckets b)[nat bucketIndex :=
                   (buckets b ! nat bucketIndex)\<lparr>tbTimestamp := bbTimestamp (snd kb),
                                              tbTrades := bbTrades (snd kb)\<rparr>]\<rparr>
          else b)"

definition restore_hot :: "gotime \<Rightarrow> string \<times> trade_event list \<Rightarrow> trade_buffer \<Rightarrow> trade_buffer" where
  "restore_hot now et b =
     b\<lparr>hotCache := mput (fst et) \<lparr>tsTrades = snd et, lastUsed = unix_nano now\<rparr> (hotCache b)\<rparr>"

definition restore_backup :: "gotime \<Rightarrow> backup_data \<Rightarrow> trade_buffer \<Rightarrow> trade_buffer" where
  "restore_backup now bk b =
     fold (restore_hot now) (bkHotCache bk)
       (fold restore_bucket (bkBuckets bk)
         (b\<lparr>startTime := bkStartTime bk, currentBucket := bkCurrentBucket bk, stats := bkStats bk\<rparr>))"

text \<open>\<open>os_read\<close> is \<open>os.ReadFile\<close> on an existing file, \<open>dec\<close> is \<open>json.Unmarshal\<close>.  The
  result is the error, the buffer and the file left behind.\<close>

definition load_from_backup ::
  "('f \<Rightarrow> 'f option) \<Rightarrow> ('f \<Rightarrow> backup_data option) \<Rightarrow> gotime \<Rightarrow> trade_buffer \<Rightarrow> 'f option \<Rightarrow>
     buffer_error option \<times> trade_buffer \<times> 'f option" where
  "load_from_backup os_read dec now b disk =
     (case disk of
        None \<Rightarrow> (None, b, disk)
      | Some f \<Rightarrow>
          (case os_read f of
             None \<Rightarrow> (Some ReadFailed, b, disk)
           | Some data \<Rightarrow>
               (case dec data of
                  None \<Rightarrow> (None, b, disk)
                | Some backup \<Rightarrow>
                    if now - BackupTime backup > 20 * minute then (None, b, None)
                    else (None, restore_backup now backup b, None))))"

definition close_buffer ::
  "bool \<Rightarrow> (backup_data \<Rightarrow> 'f option) \<Rightarrow> ('f \<Rightarrow> 'f option \<Rightarrow> bool \<times> 'f option) \<Rightarrow>
     gotime \<Rightarrow> trade_buffer \<Rightarrow> 'f option \<Rightarrow> trade_buffer \<times> 'f option" where
  "close_buffer mkdir enc os_write now b disk =
     (if closed b then (b, disk)
      else (b\<lparr>closed := True, hotCache := []\<rparr>, snd (save_to_backup mkdir enc os_write now b disk)))"

section \<open>The batch goroutine\<close>

text \<open>\<open>processBatchWrites\<close>, one iteration of its \<open>select\<close> per step.  \<open>wcChan\<close> is what is queued in
  the write channel, \<open>wcClosed\<close> whether \<open>close(ctb.writeChan)\<close> has run, \<open>wcDone\<close> whether the
  context is cancelled.  A receive from a closed and drained channel yields the zero request.\<close>

record writer_state =
  wcChan :: "write_request list"
  wcClosed :: bool
  wcDone :: bool
  wcBatch :: "write_request list"
  wcExited :: bool
  wcBuffer :: trade_buffer

definition batch_write_size :: nat where "batch_write_size = 1000"

definition zero_trade :: trade_event where
  "zero_trade = \<lparr>Exchange = [], MarketType = [], Symbol = [], TradeID = [], Price = [],
     Quantity = [], Side = [], Timestamp = 0, CollectedAt = 0, TriggerTime = 0,
     IsBuyerMaker = False, QuoteQty = []\<rparr>"

definition take_request :: "write_request \<Rightarrow> writer_state \<Rightarrow> writer_state" where
  "take_request r s =
     (let batch = wcBatch s @ [r] in
      if length batch \<ge> batch_write_size
      then s\<lparr>wcBuffer := flush_batch id id batch (wcBuffer s), wcBatch := []\<rparr>
      else s\<lparr>wcBatch := batch\<rparr>)"

definition flush_pending :: "writer_state \<Rightarrow> writer_state" where
  "flush_pending s =
     (if length (wcBatch s) > 0
      then s\<lparr>wcBuffer := flush_batch id id (wcBatch s) (wcBuffer s), wcBatch := []\<rparr>
      else s)"

inductive writer_step :: "writer_state \<Rightarrow> writer_state \<Rightarrow> bool" where
  recv: "\<not> wcExited s \<Longrightarrow> wcChan s = r # rs \<Longrightarrow> writer_step s (take_request r (s\<lparr>wcChan := rs\<rparr>))"
| recv_zero: "\<not> wcExited s \<Longrightarrow> wcChan s = [] \<Longrightarrow> wcClosed s \<Longrightarrow>
     writer_step s (take_request ([], zero_trade) s)"
| tick: "\<not> wcExited s \<Longrightarrow> writer_step s (flush_pending s)"
| finish: "\<not> wcExited s \<Longrightarrow> wcDone s \<Longrightarrow> writer_step s ((flush_pending s)\<lparr>wcExited := True\<rparr>)"

end
