(* ===== verification/TradeBufferProps.thy ===== *)
theory TradeBufferProps
  imports CircularTradeBuffer
begin

text \<open>
  Correctness of the circular trade buffer: what a query returns after any history of stores,
  flushes, queries and cache refreshes.

  The interface \<open>slot_store\<close> is the promise the buckets make to the reader: every slot of every
  key holds the trades logged for it, in order.  The reader's lemmas (a scan of consecutive slots
  is exact within one turn of the ring, and never returns anything twice) are proved in it once.
\<close>

section \<open>The interface of a slotted store\<close>

locale slot_store =
  fixes invar :: "'s \<Rightarrow> bool"
    and contents :: "'s \<Rightarrow> 'k \<Rightarrow> int \<Rightarrow> 't list"
    and slot :: "'t \<Rightarrow> int"
    and slots :: int
    and put :: "'k \<Rightarrow> 't \<Rightarrow> 's \<Rightarrow> 's"
  assumes invar_put: "invar s \<Longrightarrow> invar (put k t s)"
    and slot_range: "0 \<le> slot t \<and> slot t < slots"
    and contents_put: "invar s \<Longrightarrow> 0 \<le> i \<Longrightarrow> i < slots \<Longrightarrow>
      contents (put k t s) k' i = contents s k' i @ (if k' = k \<and> slot t = i then [t] else [])"
begin

definition logged :: "('k \<times> 't) list \<Rightarrow> 's \<Rightarrow> bool" where
  "logged hist s = (invar s \<and>
     (\<forall>k i. 0 \<le> i \<longrightarrow> i < slots \<longrightarrow> contents s k i = filter (\<lambda>t. slot t = i) (log_of hist k)))"

lemma logged_put: "logged hist s \<Longrightarrow> logged (hist @ [(k, t)]) (put k t s)"
  by (auto simp: logged_def invar_put contents_put)

lemma logged_puts: "logged hist s \<Longrightarrow> logged (hist @ es) (fold (\<lambda>(k, t). put k t) es s)"
proof (induction es arbitrary: hist s)
  case (Cons e es)
  obtain k t where e: "e = (k, t)" by (cases e)
  from Cons.IH [OF logged_put [OF Cons.prems, of k t]] show ?case by (simp add: e)
qed simp

lemma contents_logged: "logged hist s \<Longrightarrow> 0 < slots \<Longrightarrow>
    contents s k (x mod slots) = filter (\<lambda>t. slot t = x mod slots) (log_of hist k)"
  by (simp add: logged_def)

lemma slots_pos: "0 < slots"
  using slot_range by (meson le_less_trans)

lemma scan_exact:
  assumes "logged hist s"
    and "\<And>t. t \<in> set (log_of hist k) \<Longrightarrow> P t \<Longrightarrow>
           a \<le> sec t \<and> sec t < a + int n \<and> slot t = sec t mod slots"
    and "int n \<le> slots"
  shows "concat (map (\<lambda>j. filter P (contents s k ((a + int j) mod slots))) [0..<n]) =
           sort_key sec (filter P (log_of hist k))"
  using bucket_scan [of "log_of hist k" P a sec n slot slots] assms contents_logged slots_pos
  by simp

lemma scan_sound:
  assumes "logged hist s" and "int n \<le> slots"
  shows "mset (concat (map (\<lambda>j. filter P (contents s k ((a + int j) mod slots))) [0..<n]))
           \<subseteq># mset (filter P (log_of hist k))"
proof -
  have "mset (concat (map (\<lambda>j. filter P (contents s k ((a + int j) mod slots))) [0..<n])) =
      mset (filter (\<lambda>t. P t \<and> slot t \<in> (\<lambda>j. (a + int j) mod slots) ` {0..<n}) (log_of hist k))"
    using bucket_scan_subset [OF assms(2), of P slot a "log_of hist k"]
    by (simp add: contents_logged [OF assms(1) slots_pos])
  also have "\<dots> \<subseteq># mset (filter P (log_of hist k))"
    unfolding mset_filter filter_filter_mset [symmetric] by simp
  finally show ?thesis .
qed

end

section \<open>The buckets implement it\<close>

definition wf_buffer :: "trade_buffer \<Rightarrow> bool" where
  "wf_buffer b = (length (buckets b) = nat bucket_count)"

definition cell :: "trade_buffer \<Rightarrow> string \<Rightarrow> int \<Rightarrow> trade_event list" where
  "cell b ex i = mslice (tbTrades (buckets b ! nat i)) ex"

definition trade_slot :: "trade_event \<Rightarrow> int" where
  "trade_slot t = get_bucket_index (Timestamp t)"

lemma get_bucket_index_range: "0 \<le> get_bucket_index ts \<and> get_bucket_index ts < bucket_count"
proof -
  have "- bucket_count < x smod bucket_count \<and> x smod bucket_count < bucket_count" for x
    using smod_int_compares [of x bucket_count] by (cases "0 \<le> x") (auto simp: bucket_count_def)
  then have r: "- bucket_count < s smod bucket_count \<and> s smod bucket_count < bucket_count" for s .
  define s where "s = (if ts > 1000000000000000 then ts sdiv second else ts sdiv 1000)"
  have "get_bucket_index ts =
      (if s smod bucket_count < 0 then s smod bucket_count + bucket_count else s smod bucket_count)"
    by (simp add: get_bucket_index_def Let_def s_def)
  with r [of s] show ?thesis by auto
qed

lemma get_bucket_index_milli:
  "0 \<le> ts \<Longrightarrow> ts \<le> 1000000000000000 \<Longrightarrow> get_bucket_index ts = (ts div 1000) mod bucket_count"
  by (simp add: get_bucket_index_def bucket_count_def sdiv_nonneg smod_nonneg
      pos_imp_zdiv_nonneg_iff Let_def)

lemma get_bucket_index_nano:
  "1000000000000000 < ts \<Longrightarrow> get_bucket_index ts = (ts div second) mod bucket_count"
  by (simp add: get_bucket_index_def bucket_count_def second_def sdiv_nonneg smod_nonneg
      pos_imp_zdiv_nonneg_iff Let_def)

lemma append_at_wf [simp]: "wf_buffer (append_at i ex ts b) = wf_buffer b"
  by (simp add: append_at_def wf_buffer_def)

lemma add_total_wf [simp]: "wf_buffer (add_total n b) = wf_buffer b"
  by (simp add: add_total_def wf_buffer_def)

lemma cell_add_total [simp]: "cell (add_total n b) = cell b"
  by (simp add: add_total_def cell_def fun_eq_iff)

lemma cell_append_at:
  assumes "wf_buffer b" "0 \<le> i" "i < bucket_count" "0 \<le> j" "j < bucket_count"
  shows "cell (append_at i ex ts b) k j = cell b k j @ (if k = ex \<and> i = j then ts else [])"
  using assms
  by (auto simp: append_at_def cell_def bucket_append_def wf_buffer_def nth_list_update
      mslice_mput eq_nat_nat_iff)

interpretation ctb: slot_store wf_buffer cell trade_slot bucket_count direct_write
  by unfold_locales
    (auto simp: direct_write_def trade_slot_def get_bucket_index_range cell_append_at Let_def)

lemma new_buffer_logged: "ctb.logged [] (new_buffer now)"
  by (simp add: ctb.logged_def new_buffer_def wf_buffer_def cell_def)

lemma logged_cong:
  "buckets b' = buckets b \<Longrightarrow> ctb.logged hist b' = ctb.logged hist b"
  by (simp add: ctb.logged_def wf_buffer_def cell_def)

section \<open>Batched writes\<close>

lemma cell_fold_append_at:
  assumes "wf_buffer b" "wf_map gs" "\<forall>(i, ts) \<in> set gs. 0 \<le> i \<and> i < bucket_count"
    "0 \<le> j" "j < bucket_count"
  shows "wf_buffer (fold (\<lambda>(i, ts) b. append_at i ex ts b) gs b) \<and>
    cell (fold (\<lambda>(i, ts) b. append_at i ex ts b) gs b) k j =
      cell b k j @ (if k = ex then mslice gs j else [])"
  using assms
proof (induction gs arbitrary: b)
  case (Cons g gs)
  obtain i ts where g: "g = (i, ts)" by (cases g)
  have "wf_map gs" "i \<notin> fst ` set gs" using Cons.prems(2) by (auto simp: wf_map_def g)
  then have "mslice (g # gs) j = (if i = j then ts else mslice gs j)" "i = j \<longrightarrow> mslice gs j = []"
    by (auto simp: mslice_def g map_of_eq_None_iff [symmetric])
  then show ?case
    using Cons.IH [of "append_at i ex ts b"] Cons.prems \<open>wf_map gs\<close>
    by (auto simp: g cell_append_at)
qed simp

lemma cell_flush_exchange_batch:
  assumes "wf_buffer b" "iter_order ordB" "0 \<le> j" "j < bucket_count"
  shows "wf_buffer (flush_exchange_batch ordB ex reqs b) \<and>
    cell (flush_exchange_batch ordB ex reqs b) k j =
      cell b k j @ (if k = ex then filter (\<lambda>t. trade_slot t = j) (map snd reqs) else [])"
proof -
  let ?key = "\<lambda>t. get_bucket_index (Timestamp t)"
  let ?gs = "group_by ?key (map snd reqs)"
  have "set (ordB ?gs) = set ?gs"
    using assms(2) unfolding iter_order_def by (metis set_mset_mset)
  moreover have "fst ` set ?gs = ?key ` set (map snd reqs)"
    using keys_group_by [of ?key "map snd reqs"] by (simp add: mkeys_def)
  ultimately have "\<forall>(i, ts) \<in> set (ordB ?gs). 0 \<le> i \<and> i < bucket_count"
    using get_bucket_index_range by force
  then show ?thesis
    using cell_fold_append_at [of b "ordB ?gs" j ex k] assms
    by (simp add: flush_exchange_batch_def Let_def iter_order_wf iter_order_mslice mslice_group_by
        trade_slot_def)
qed

lemma cell_fold_flush:
  assumes "wf_buffer b" "iter_order ordB" "wf_map gs" "0 \<le> j" "j < bucket_count"
  shows "wf_buffer (fold (\<lambda>(ex, reqs) b. flush_exchange_batch ordB ex reqs b) gs b) \<and>
    cell (fold (\<lambda>(ex, reqs) b. flush_exchange_batch ordB ex reqs b) gs b) k j =
      cell b k j @ filter (\<lambda>t. trade_slot t = j) (map snd (mslice gs k))"
  using assms(1,3)
proof (induction gs arbitrary: b)
  case (Cons g gs)
  obtain ex reqs where g: "g = (ex, reqs)" by (cases g)
  have "wf_map gs" "ex \<notin> fst ` set gs" using Cons.prems(2) by (auto simp: wf_map_def g)
  then have ms: "mslice (g # gs) k = (if ex = k then reqs else mslice gs k)" "ex = k \<longrightarrow> mslice gs k = []"
    by (auto simp: mslice_def g map_of_eq_None_iff [symmetric])
  have step: "wf_buffer (flush_exchange_batch ordB ex reqs b)"
    "cell (flush_exchange_batch ordB ex reqs b) k j =
      cell b k j @ (if k = ex then filter (\<lambda>t. trade_slot t = j) (map snd reqs) else [])"
    using cell_flush_exchange_batch [OF Cons.prems(1) assms(2,4,5), of ex reqs k] by auto
  show ?case
    using Cons.IH [OF step(1) \<open>wf_map gs\<close>] ms by (auto simp: g step(2))
qed simp

lemma cell_flush_batch:
  assumes "wf_buffer b" "iter_order ordB" "iter_order ordE" "0 \<le> j" "j < bucket_count"
  shows "wf_buffer (flush_batch ordB ordE batch b) \<and>
    cell (flush_batch ordB ordE batch b) k j = cell b k j @ filter (\<lambda>t. trade_slot t = j) (log_of batch k)"
  using cell_fold_flush [OF assms(1,2), of "ordE (group_by fst batch)" j k] assms
  by (simp add: flush_batch_def Let_def iter_order_wf iter_order_mslice mslice_group_by log_of_def)

lemma logged_flush_batch:
  assumes "ctb.logged hist b" "iter_order ordB" "iter_order ordE"
  shows "ctb.logged (hist @ batch) (flush_batch ordB ordE batch b)"
proof -
  have "wf_buffer b" using assms(1) by (simp add: ctb.logged_def)
  note c = cell_flush_batch [OF this assms(2,3)]
  have "wf_buffer (flush_batch ordB ordE batch b)" using c [of 0] by (simp add: bucket_count_def)
  with c assms(1) show ?thesis by (auto simp: ctb.logged_def)
qed

section \<open>The scanning loops\<close>

lemma next_mod: "0 \<le> c \<Longrightarrow> (c + 1) smod bucket_count = (c + 1) mod bucket_count"
  by (simp add: smod_nonneg bucket_count_def)

lemma scan_unroll:
  assumes "0 < N"
  shows "map (\<lambda>j. f ((c + int j) mod N)) [0..<Suc (Suc n)] =
     f (c mod N) # map (\<lambda>j. f (((c + 1) mod N + int j) mod N)) [0..<Suc n]"
  by (simp only: upt_conv_Cons [of 0 "Suc (Suc n)"] map_Suc_upt [symmetric] list.map map_map o_def)
    (simp add: mod_simps ac_simps del: upt_Suc)

lemma cyclic_distance_step:
  assumes "(en - c) mod bucket_count = int (Suc n)"
  shows "n = nat ((en - (c + 1) mod bucket_count) mod bucket_count)"
proof -
  have "(en - (c + 1) mod bucket_count) mod bucket_count = ((en - c) mod bucket_count - 1) mod bucket_count"
    by (simp add: mod_simps algebra_simps)
  also have "\<dots> = int n"
    using assms pos_mod_bound [of bucket_count "en - c"] by (simp add: bucket_count_def)
  finally show ?thesis by simp
qed

lemma cyclic_distance_zero:
  assumes "0 = nat ((en - c) mod bucket_count)" "0 \<le> c" "c < bucket_count" "0 \<le> en" "en < bucket_count"
  shows "c = en"
proof -
  have "(en - c) mod bucket_count = 0"
    using assms(1) pos_mod_sign [of bucket_count "en - c"] by (simp add: bucket_count_def)
  then have "en mod bucket_count = c mod bucket_count" by (simp add: mod_eq_dvd_iff dvd_eq_mod_eq_0)
  then show ?thesis using assms by simp
qed

lemma cyclic_induct [consumes 4, case_names stop step]:
  assumes "0 \<le> cur" "cur < bucket_count" "0 \<le> en" "en < bucket_count"
    and stop: "P en"
    and step: "\<And>c. 0 \<le> c \<Longrightarrow> c < bucket_count \<Longrightarrow> c \<noteq> en \<Longrightarrow> P ((c + 1) mod bucket_count) \<Longrightarrow> P c"
  shows "P cur"
  using assms(1,2)
proof (induction "nat ((en - cur) mod bucket_count)" arbitrary: cur)
  case 0
  then show ?case using cyclic_distance_zero [of en cur] assms(3,4) stop by simp
next
  case (Suc n)
  have d: "(en - cur) mod bucket_count = int (Suc n)" using Suc(2) by simp
  then have "cur \<noteq> en" by auto
  moreover have "P ((cur + 1) mod bucket_count)"
    using Suc.hyps(1) [OF cyclic_distance_step [OF d]] by (simp add: bucket_count_def)
  ultimately show ?case using step Suc.prems by blast
qed

lemma safe_next_mod: "0 \<le> c \<Longrightarrow> safe_next c = (c + 1) mod bucket_count"
  by (simp add: safe_next_def next_mod Let_def) (simp add: bucket_count_def)

lemma recent_loop_eq_cold_loop:
  assumes "0 \<le> cur" "cur < bucket_count" "0 \<le> en" "en < bucket_count"
  shows "recent_loop bs ex lo hi en cur acc = cold_loop bs ex lo hi en cur acc"
  using assms
proof (induction arbitrary: acc rule: cyclic_induct)
  case stop
  show ?case by (simp add: recent_loop.simps cold_loop.simps)
next
  case (step c)
  then show ?case
    by (subst recent_loop.simps, subst cold_loop.simps) (simp add: safe_next_mod next_mod)
qed

lemma cold_loop_scan:
  assumes "0 \<le> cur" "cur < bucket_count" "0 \<le> en" "en < bucket_count"
  shows "cold_loop bs ex lo hi en cur acc =
    Some (acc @ concat (map (\<lambda>j. filter (in_milli_range lo hi)
        (mslice (tbTrades (bs ! nat ((cur + int j) mod bucket_count))) ex))
      [0..<Suc (nat ((en - cur) mod bucket_count))]))"
  using assms(1,2)
proof (induction "nat ((en - cur) mod bucket_count)" arbitrary: cur acc)
  case 0
  then have "cur = en" using cyclic_distance_zero [of en cur] assms by simp
  then show ?case by (subst cold_loop.simps) (use assms in simp)
next
  case (Suc n)
  have d: "(en - cur) mod bucket_count = int (Suc n)" using Suc(2) by simp
  have "cur \<noteq> en" using d by auto
  let ?c = "(cur + 1) mod bucket_count"
  have c: "0 \<le> ?c" "?c < bucket_count" by (simp_all add: bucket_count_def)
  note n = cyclic_distance_step [OF d]
  let ?f = "\<lambda>i. filter (in_milli_range lo hi) (mslice (tbTrades (bs ! nat i)) ex)"
  have "cold_loop bs ex lo hi en cur acc = cold_loop bs ex lo hi en ?c (acc @ ?f cur)"
    by (subst cold_loop.simps) (use \<open>cur \<noteq> en\<close> Suc.prems in \<open>simp add: next_mod\<close>)
  also have "\<dots> = Some ((acc @ ?f cur) @ concat (map (\<lambda>j. ?f ((?c + int j) mod bucket_count)) [0..<Suc n]))"
    using Suc.hyps(1) [OF n c] n by simp
  also have "\<dots> = Some (acc @ concat (map (\<lambda>j. ?f ((cur + int j) mod bucket_count)) [0..<Suc (Suc n)]))"
    using scan_unroll [of bucket_count ?f cur n] Suc.prems by (simp add: bucket_count_def del: upt_Suc)
  finally show ?case using Suc(2) by simp
qed

definition scan_length :: "int \<Rightarrow> int \<Rightarrow> nat" where
  "scan_length startNano endNano =
     Suc (nat ((get_bucket_index endNano - get_bucket_index startNano) mod bucket_count))"

lemma scan_length_le: "int (scan_length s e) \<le> bucket_count"
  using pos_mod_bound [of bucket_count "get_bucket_index e - get_bucket_index s"]
  by (simp add: scan_length_def bucket_count_def)

lemma get_from_cold_scan:
  "get_from_cold_buffer ex s e b =
     Some (concat (map (\<lambda>j. filter (in_milli_range (s sdiv 1000000) (e sdiv 1000000))
             (cell b ex ((get_bucket_index s + int j) mod bucket_count))) [0..<scan_length s e]))"
  unfolding get_from_cold_buffer_def scan_length_def
  by (subst cold_loop_scan) (simp_all add: get_bucket_index_range cell_def)

lemma get_recent_eq_cold: "get_recent_trades ex s e b = get_from_cold_buffer ex s e b"
  by (simp add: get_recent_trades_def get_from_cold_buffer_def recent_loop_eq_cold_loop
      get_bucket_index_range)

text \<open>A query of less than one turn of the ring returns exactly the logged trades of its range,
  in the order of their second and, within a second, of their arrival.\<close>

lemma cold_exact:
  assumes lg: "ctb.logged hist b"
    and s: "1000000000000000 < s" and se: "s \<le> e" and e: "e < 2 ^ 63"
    and span: "e div second - s div second < bucket_count"
  shows "get_from_cold_buffer ex s e b =
     Some (sort_key (\<lambda>t. Timestamp t div 1000)
       (filter (in_milli_range (s div 1000000) (e div 1000000)) (log_of hist ex)))"
proof -
  let ?P = "in_milli_range (s div 1000000) (e div 1000000)"
  have mono: "s div second \<le> e div second" using se by (simp add: second_def zdiv_mono1)
  have "get_bucket_index e - get_bucket_index s = e div second mod bucket_count - s div second mod bucket_count"
    using s se by (simp add: get_bucket_index_nano)
  then have "(get_bucket_index e - get_bucket_index s) mod bucket_count = (e div second - s div second) mod bucket_count"
    by (simp add: mod_simps)
  also have "\<dots> = e div second - s div second" using mono span by simp
  finally have n: "int (scan_length s e) = e div second - s div second + 1"
    using mono by (simp add: scan_length_def)
  have sec: "s div second \<le> Timestamp t div 1000 \<and>
      Timestamp t div 1000 < s div second + int (scan_length s e) \<and>
      trade_slot t = Timestamp t div 1000 mod bucket_count" if "?P t" for t
  proof -
    have lo: "s div 1000000 \<le> Timestamp t" and hi: "Timestamp t \<le> e div 1000000"
      using that by (auto simp: in_milli_range_def)
    have "s div 1000000 div 1000 \<le> Timestamp t div 1000" using lo by (rule zdiv_mono1) simp
    moreover have "Timestamp t div 1000 \<le> e div 1000000 div 1000" using hi by (rule zdiv_mono1) simp
    moreover have "x div 1000000 div 1000 = x div second" for x
      by (simp add: second_def zdiv_zmult2_eq [symmetric])
    moreover have "0 \<le> Timestamp t" using lo s by (meson order.trans pos_imp_zdiv_nonneg_iff
        zero_less_numeral less_imp_le order_less_trans)
    moreover have "e div 1000000 \<le> 2 ^ 63 div 1000000" using e by (intro zdiv_mono1) simp_all
    then have "Timestamp t \<le> 1000000000000000" using hi by simp
    ultimately show ?thesis using n \<open>Timestamp t \<le> 1000000000000000\<close> by (simp add: trade_slot_def get_bucket_index_milli)
  qed
  have "get_from_cold_buffer ex s e b = Some (concat (map (\<lambda>j. filter ?P
      (cell b ex ((s div second + int j) mod bucket_count))) [0..<scan_length s e]))"
    using s se by (simp add: get_from_cold_scan get_bucket_index_nano mod_simps sdiv_nonneg)
  also have "\<dots> = Some (sort_key (\<lambda>t. Timestamp t div 1000) (filter ?P (log_of hist ex)))"
    using ctb.scan_exact [OF lg, of ex ?P "s div second" "\<lambda>t. Timestamp t div 1000"] sec scan_length_le
    by simp
  finally show ?thesis .
qed

text \<open>Whatever its range, a query never invents or repeats a trade.\<close>

lemma cold_sound:
  assumes "ctb.logged hist b" "get_from_cold_buffer ex s e b = Some r"
  shows "mset r \<subseteq># mset (filter (in_milli_range (s sdiv 1000000) (e sdiv 1000000)) (log_of hist ex))"
  using assms(2) ctb.scan_sound [OF assms(1) scan_length_le [of s e]]
  by (auto simp: get_from_cold_scan)

section \<open>Histories\<close>

text \<open>\<open>ctb_run hist b\<close>: \<open>b\<close> is reached from a fresh buffer by stores, batch flushes, queries and
  cache refreshes, and \<open>hist\<close> lists the trades written, in order, with their exchange keys.  The
  clock of a refresh lies between September 2001 and the end of the 64-bit nanoseconds.\<close>

definition sane_clock :: "gotime \<Rightarrow> bool" where
  "sane_clock t = (1000000000000000 + hot_cache_seconds * second < t \<and> t < 2 ^ 63)"

inductive ctb_run :: "(string \<times> trade_event) list \<Rightarrow> trade_buffer \<Rightarrow> bool" where
  run_new: "ctb_run [] (new_buffer now)"
| run_store: "ctb_run hist b \<Longrightarrow> store_trade_event ex t b = Inr b' \<Longrightarrow> ctb_run (hist @ [(ex, t)]) b'"
| run_flush: "ctb_run hist b \<Longrightarrow> iter_order ordB \<Longrightarrow> iter_order ordE \<Longrightarrow>
    ctb_run (hist @ batch) (flush_batch ordB ordE batch b)"
| run_query: "ctb_run hist b \<Longrightarrow> get_trade_events now ex s e b = Some (Inr (r, b')) \<Longrightarrow> ctb_run hist b'"
| run_refresh: "ctb_run hist b \<Longrightarrow> sane_clock now \<Longrightarrow> update_hot_cache now b = Some b' \<Longrightarrow> ctb_run hist b'"

text \<open>What a cache entry holds: the exact answer, at the moment of its refresh, to the query for
  the two minutes before it.\<close>

definition snapshot_of :: "(string \<times> trade_event) list \<Rightarrow> string \<Rightarrow> trade_slice \<Rightarrow> bool" where
  "snapshot_of hist ex s =
     (\<exists>h1 h2. hist = h1 @ h2 \<and>
        tsTrades s = sort_key (\<lambda>t. Timestamp t div 1000)
          (filter (in_milli_range ((lastUsed s - hot_cache_seconds * second) div 1000000)
                     (lastUsed s div 1000000)) (log_of h1 ex)))"

definition hot_ok :: "(string \<times> trade_event) list \<Rightarrow> trade_buffer \<Rightarrow> bool" where
  "hot_ok hist b = (\<forall>ex s. mget (hotCache b) ex = Some s \<longrightarrow>
     ex \<in> set active_exchanges \<and> snapshot_of hist ex s)"

definition run_inv :: "(string \<times> trade_event) list \<Rightarrow> trade_buffer \<Rightarrow> bool" where
  "run_inv hist b = (ctb.logged hist b \<and> hot_ok hist b \<and> \<not> closed b \<and>
     TotalEvents (stats b) = int (length hist))"

lemma snapshot_extend: "snapshot_of hist ex s \<Longrightarrow> snapshot_of (hist @ rest) ex s"
  unfolding snapshot_of_def by (metis append.assoc)

lemma hot_ok_extend: "hot_ok hist b \<Longrightarrow> hotCache b' = hotCache b \<Longrightarrow> hot_ok (hist @ rest) b'"
  by (auto simp: hot_ok_def intro: snapshot_extend)

lemma append_at_frame [simp]:
  "hotCache (append_at i ex ts b) = hotCache b" "closed (append_at i ex ts b) = closed b"
  "stats (append_at i ex ts b) = stats b"
  by (simp_all add: append_at_def)

lemma add_total_frame [simp]:
  "hotCache (add_total n b) = hotCache b" "closed (add_total n b) = closed b"
  "buckets (add_total n b) = buckets b"
  "TotalEvents (stats (add_total n b)) = TotalEvents (stats b) + n"
  by (simp_all add: add_total_def)

lemma direct_write_frame [simp]:
  "hotCache (direct_write ex t b) = hotCache b" "closed (direct_write ex t b) = closed b"
  "TotalEvents (stats (direct_write ex t b)) = TotalEvents (stats b) + 1"
  by (simp_all add: direct_write_def Let_def)

lemma fold_append_at_frame:
  "hotCache (fold (\<lambda>(i, ts) b. append_at i ex ts b) gs b) = hotCache b \<and>
   closed (fold (\<lambda>(i, ts) b. append_at i ex ts b) gs b) = closed b \<and>
   stats (fold (\<lambda>(i, ts) b. append_at i ex ts b) gs b) = stats b"
  by (induction gs arbitrary: b) (auto split: prod.splits)

lemma flush_exchange_frame [simp]:
  "hotCache (flush_exchange_batch ordB ex reqs b) = hotCache b"
  "closed (flush_exchange_batch ordB ex reqs b) = closed b"
  "TotalEvents (stats (flush_exchange_batch ordB ex reqs b)) = TotalEvents (stats b) + int (length reqs)"
  by (simp_all add: flush_exchange_batch_def Let_def fold_append_at_frame)

lemma fold_flush_frame:
  "hotCache (fold (\<lambda>(ex, reqs) b. flush_exchange_batch ordB ex reqs b) gs b) = hotCache b \<and>
   closed (fold (\<lambda>(ex, reqs) b. flush_exchange_batch ordB ex reqs b) gs b) = closed b \<and>
   TotalEvents (stats (fold (\<lambda>(ex, reqs) b. flush_exchange_batch ordB ex reqs b) gs b)) =
     TotalEvents (stats b) + int (sum_list (map (length \<circ> snd) gs))"
  by (induction gs arbitrary: b) (auto split: prod.splits)

lemma total_group_by: "sum_list (map (length \<circ> snd) (group_by f xs)) = length xs"
proof -
  have upd: "sum_list (map (length \<circ> snd) (mput k (mslice m k @ [x]) m)) =
      Suc (sum_list (map (length \<circ> snd) m))" for k x and m :: "('a, 'b list) gomap"
    by (induction m) (auto simp: mslice_def split: option.splits)
  have "sum_list (map (length \<circ> snd) (fold (\<lambda>x m. mput (f x) (mslice m (f x) @ [x]) m) xs m0)) =
      sum_list (map (length \<circ> snd) m0) + length xs" for m0 :: "('a, 'b list) gomap"
    by (induction xs arbitrary: m0) (simp_all add: upd)
  then show ?thesis by (simp add: group_by_def)
qed

lemma flush_batch_frame:
  assumes "iter_order ordE"
  shows "hotCache (flush_batch ordB ordE batch b) = hotCache b"
    "closed (flush_batch ordB ordE batch b) = closed b"
    "TotalEvents (stats (flush_batch ordB ordE batch b)) = TotalEvents (stats b) + int (length batch)"
proof -
  have "sum_list (map (length \<circ> snd) (ordE (group_by fst batch))) = length batch"
    using assms total_group_by [of fst batch] unfolding iter_order_def
    by (metis mset_map sum_mset_sum_list)
  then show "hotCache (flush_batch ordB ordE batch b) = hotCache b"
    "closed (flush_batch ordB ordE batch b) = closed b"
    "TotalEvents (stats (flush_batch ordB ordE batch b)) = TotalEvents (stats b) + int (length batch)"
    unfolding flush_batch_def Let_def using fold_flush_frame by simp_all
qed

lemma hit_frame [simp]:
  "buckets (hit_hot b) = buckets b" "hotCache (hit_hot b) = hotCache b" "closed (hit_hot b) = closed b"
  "TotalEvents (stats (hit_hot b)) = TotalEvents (stats b)"
  "buckets (hit_cold b) = buckets b" "hotCache (hit_cold b) = hotCache b" "closed (hit_cold b) = closed b"
  "TotalEvents (stats (hit_cold b)) = TotalEvents (stats b)"
  by (simp_all add: hit_hot_def hit_cold_def)

lemma get_trade_events_state:
  "get_trade_events now ex s e b = Some (Inr (r, b')) \<Longrightarrow> b' = hit_hot b \<or> b' = hit_cold b"
  by (auto simp: get_trade_events_def Let_def split: if_splits option.splits)

lemma logged_wf: "ctb.logged hist b \<Longrightarrow> wf_buffer b"
  by (simp add: ctb.logged_def)

lemma logged_cell: "ctb.logged hist b \<Longrightarrow> 0 \<le> i \<Longrightarrow> i < bucket_count \<Longrightarrow>
    cell b ex i = filter (\<lambda>t. trade_slot t = i) (log_of hist ex)"
  by (simp add: ctb.logged_def)

lemma recent_exact:
  assumes "ctb.logged hist b" "sane_clock now"
  shows "get_recent_trades ex (unix_nano now - hot_cache_seconds * second) (unix_nano now) b =
    Some (sort_key (\<lambda>t. Timestamp t div 1000)
       (filter (in_milli_range ((now - hot_cache_seconds * second) div 1000000) (now div 1000000))
          (log_of hist ex)))"
proof -
  have now: "unix_nano now = now"
    using assms(2) by (simp add: unix_nano_def sane_clock_def hot_cache_seconds_def second_def)
  have "now div second - (now - hot_cache_seconds * second) div second = hot_cache_seconds"
    by (simp add: second_def hot_cache_seconds_def)
  then show ?thesis
    unfolding get_recent_eq_cold now
    using cold_exact [OF assms(1), of "now - hot_cache_seconds * second" now ex] assms(2)
    by (simp add: sane_clock_def hot_cache_seconds_def second_def bucket_count_def)
qed

lemma refresh_exchanges_inv:
  assumes "run_inv hist b" "sane_clock now" "set exs \<subseteq> set active_exchanges"
    and "refresh_exchanges (unix_nano now - hot_cache_seconds * second) (unix_nano now) exs b = Some b'"
  shows "run_inv hist b' \<and> buckets b' = buckets b \<and> stats b' = stats b"
  using assms(1,3,4)
proof (induction exs arbitrary: b)
  case (Cons ex exs)
  let ?trades = "sort_key (\<lambda>t. Timestamp t div 1000)
       (filter (in_milli_range ((now - hot_cache_seconds * second) div 1000000) (now div 1000000))
          (log_of hist ex))"
  have now: "unix_nano now = now"
    using assms(2) by (simp add: unix_nano_def sane_clock_def hot_cache_seconds_def second_def)
  have lg: "ctb.logged hist b" using Cons.prems(1) by (simp add: run_inv_def)
  let ?b = "if length ?trades > 0
             then b\<lparr>hotCache := mput ex \<lparr>tsTrades = ?trades, lastUsed = unix_nano now\<rparr> (hotCache b)\<rparr>
             else b"
  have r: "refresh_exchanges (unix_nano now - hot_cache_seconds * second) (unix_nano now) exs ?b = Some b'"
    using Cons.prems(3) recent_exact [OF lg assms(2), of ex] by simp
  have "snapshot_of hist ex \<lparr>tsTrades = ?trades, lastUsed = unix_nano now\<rparr>"
    unfolding snapshot_of_def by (rule exI [of _ hist]) (simp add: now)
  then have "hot_ok hist ?b"
    using Cons.prems(1,2) by (auto simp: run_inv_def hot_ok_def mget_mput)
  moreover have "ctb.logged hist ?b" using lg logged_cong [of ?b b hist] by simp
  ultimately have "run_inv hist ?b"
    using Cons.prems(1) by (simp add: run_inv_def)
  from Cons.IH [OF this _ r] Cons.prems(2) show ?case by simp
qed simp

lemma update_hot_cache_inv:
  assumes "run_inv hist b" "sane_clock now" "update_hot_cache now b = Some b'"
  shows "run_inv hist b'"
proof -
  obtain b1 where b1: "refresh_exchanges (unix_nano now - hot_cache_seconds * second) (unix_nano now)
      active_exchanges b = Some b1"
    and b': "b' = b1\<lparr>stats := (stats b1)\<lparr>HotEvents := count_hot_cache_events b1\<rparr>\<rparr>"
    using assms(3) by (auto simp: update_hot_cache_def Let_def split: option.splits)
  have i: "run_inv hist b1"
    using refresh_exchanges_inv [OF assms(1,2) subset_refl b1] by blast
  have "buckets b' = buckets b1" "hotCache b' = hotCache b1" "closed b' = closed b1"
    "TotalEvents (stats b') = TotalEvents (stats b1)" by (simp_all add: b')
  with i show ?thesis by (simp add: run_inv_def hot_ok_def logged_cong [of b' b1])
qed

lemma run_inv_query:
  assumes "run_inv hist b" "get_trade_events now ex s e b = Some (Inr (r, b'))"
  shows "run_inv hist b'"
  using get_trade_events_state [OF assms(2)] assms(1)
  by (auto simp: run_inv_def hot_ok_def logged_cong [of "hit_hot b" b] logged_cong [of "hit_cold b" b])

lemma run_inv_store:
  assumes "run_inv hist b" "store_trade_event ex t b = Inr b'"
  shows "run_inv (hist @ [(ex, t)]) b'"
proof -
  have "b' = direct_write ex t b"
    using assms(2) by (simp add: store_trade_event_def split: if_splits)
  then show ?thesis
    using assms(1) ctb.logged_put [of hist b ex t] hot_ok_extend [of hist b "direct_write ex t b"]
    by (simp add: run_inv_def)
qed

lemma ctb_run_inv: "ctb_run hist b \<Longrightarrow> run_inv hist b"
proof (induction rule: ctb_run.induct)
  case (run_new now)
  show ?case
    using new_buffer_logged [of now]
    by (simp add: run_inv_def hot_ok_def new_buffer_def zero_stats_def)
next
  case (run_flush hist b ordB ordE batch)
  then have "hot_ok (hist @ batch) (flush_batch ordB ordE batch b)"
    by (intro hot_ok_extend [of hist b]) (simp_all add: run_inv_def flush_batch_frame)
  with run_flush show ?case
    by (simp add: run_inv_def logged_flush_batch flush_batch_frame)
qed (blast intro: run_inv_store run_inv_query update_hot_cache_inv)+

lemma refresh_lookup:
  assumes "ctb.logged hist b" "sane_clock now"
    and "refresh_exchanges (unix_nano now - hot_cache_seconds * second) (unix_nano now) exs b = Some b'"
  shows "mget (hotCache b') ex =
    (let trades = sort_key (\<lambda>t. Timestamp t div 1000)
       (filter (in_milli_range ((now - hot_cache_seconds * second) div 1000000) (now div 1000000))
          (log_of hist ex))
     in if ex \<in> set exs \<and> trades \<noteq> [] then Some \<lparr>tsTrades = trades, lastUsed = now\<rparr>
        else mget (hotCache b) ex)"
  using assms(1,3)
proof (induction exs arbitrary: b)
  case (Cons e exs)
  define tr where "tr k = sort_key (\<lambda>t. Timestamp t div 1000)
       (filter (in_milli_range ((now - hot_cache_seconds * second) div 1000000) (now div 1000000))
          (log_of hist k))" for k
  define b1 where "b1 = (if length (tr e) > 0
     then b\<lparr>hotCache := mput e \<lparr>tsTrades = tr e, lastUsed = unix_nano now\<rparr> (hotCache b)\<rparr> else b)"
  have now: "unix_nano now = now"
    using assms(2) by (simp add: unix_nano_def sane_clock_def hot_cache_seconds_def second_def)
  have rec: "get_recent_trades e (unix_nano now - hot_cache_seconds * second) (unix_nano now) b = Some (tr e)"
    using recent_exact [OF Cons.prems(1) assms(2), of e] by (simp add: tr_def)
  have r: "refresh_exchanges (unix_nano now - hot_cache_seconds * second) (unix_nano now) exs b1 = Some b'"
    using Cons.prems(2) rec unfolding b1_def by simp
  have lg: "ctb.logged hist b1" using Cons.prems(1) logged_cong [of b1 b hist] by (simp add: b1_def)
  have h: "mget (hotCache b1) ex = (if ex = e \<and> tr e \<noteq> [] then Some \<lparr>tsTrades = tr e, lastUsed = now\<rparr>
      else mget (hotCache b) ex)"
    by (simp add: b1_def mget_mput now)
  show ?case
    using Cons.IH [OF lg r] h unfolding tr_def [symmetric] Let_def by auto
qed (auto simp: Let_def)

lemma update_hot_cache_total:
  assumes "ctb.logged hist b" "sane_clock now"
  shows "\<exists>b'. update_hot_cache now b = Some b' \<and> buckets b' = buckets b \<and> closed b' = closed b"
proof -
  have "\<exists>b'. refresh_exchanges (unix_nano now - hot_cache_seconds * second) (unix_nano now) exs b = Some b'
      \<and> buckets b' = buckets b \<and> closed b' = closed b" for exs
    using assms(1)
  proof (induction exs arbitrary: b)
    case (Cons e exs)
    then show ?case
      using Cons.IH logged_cong [of "b\<lparr>hotCache := _\<rparr>" b hist] recent_exact [OF Cons.prems assms(2), of e]
      by fastforce
  qed simp
  then obtain b' where "refresh_exchanges (unix_nano now - hot_cache_seconds * second) (unix_nano now)
      active_exchanges b = Some b'" "buckets b' = buckets b" "closed b' = closed b" by blast
  then show ?thesis by (simp add: update_hot_cache_def Let_def)
qed

lemma update_hot_cache_lookup:
  assumes "ctb.logged hist b" "sane_clock now" "update_hot_cache now b = Some b'"
    and "ex \<in> set active_exchanges"
  shows "mget (hotCache b') ex =
    (let trades = sort_key (\<lambda>t. Timestamp t div 1000)
       (filter (in_milli_range ((now - hot_cache_seconds * second) div 1000000) (now div 1000000))
          (log_of hist ex))
     in if trades \<noteq> [] then Some \<lparr>tsTrades = trades, lastUsed = now\<rparr> else mget (hotCache b) ex)"
  using assms refresh_lookup [OF assms(1,2), of active_exchanges _ ex]
  by (auto simp: update_hot_cache_def Let_def split: option.splits)

section \<open>Properties\<close>

text \<open>A trade at second 1700000000 for the witnesses.\<close>

definition sample_trade :: "int \<Rightarrow> string \<Rightarrow> trade_event" where
  "sample_trade ms sm = zero_trade\<lparr>Symbol := sm, Timestamp := ms\<rparr>"

lemma sample_trade_simps [simp]:
  "Timestamp (sample_trade ms sm) = ms" "Symbol (sample_trade ms sm) = sm"
  by (simp_all add: sample_trade_def)

lemma sample_trade_eq [simp]: "sample_trade a sm = sample_trade b sm' \<longleftrightarrow> a = b \<and> sm = sm'"
  using sample_trade_simps by metis

lemma sample_run1: "ctb_run [(ex, t)] (direct_write ex t (new_buffer now))"
  using run_store [OF run_new [of now], of ex t] by (simp add: store_trade_event_def new_buffer_def)

text \<open>The answer to a query that the cache leaves to the buckets.\<close>

lemma cold_query:
  assumes "ctb_run hist b"
    and "1000000000000000 < s" "s \<le> e" "e < 2 ^ 63" "e div second - s div second < bucket_count"
    and "get_from_hot_cache now ex s e b = None"
  shows "get_trade_events now ex s e b =
    Some (Inr (sort_key (\<lambda>t. Timestamp t div 1000)
      (filter (in_milli_range (s div 1000000) (e div 1000000)) (log_of hist ex)), hit_cold b))"
proof -
  have i: "run_inv hist b" by (rule ctb_run_inv [OF assms(1)])
  then have "ctb.logged hist b" "\<not> closed b" by (simp_all add: run_inv_def)
  moreover have "unix_nano s = s" "unix_nano e = e" using assms by (simp_all add: unix_nano_def)
  ultimately show ?thesis
    using cold_exact [of hist b s e ex] assms by (simp add: get_trade_events_def)
qed

text \<open>C5. After any history of stores, batch flushes, queries and cache refreshes, a query of less
  than twenty minutes that the hot cache does not answer returns exactly the trades ever stored for
  that exchange whose millisecond timestamp lies in the range, in the order of their second and of
  their arrival; nothing is lost, duplicated or taken from another exchange, and the scan of the
  ring returns.\<close>

theorem query_exact:
  assumes "ctb_run hist b"
    and "1000000000000000 < s" "s \<le> e" "e < 2 ^ 63" "e div second - s div second < bucket_count"
    and "get_from_hot_cache now ex s e b = None"
  shows "get_trade_events now ex s e b =
    Some (Inr (sort_key (\<lambda>t. Timestamp t div 1000)
      (filter (in_milli_range (s div 1000000) (e div 1000000)) (log_of hist ex)), hit_cold b))"
  by (rule cold_query [OF assms])

theorem query_exact_witness:
  "get_trade_events 1700000003000000000 ''okx_spot'' 1700000000000000000 1700000002000000000
     (direct_write ''okx_spot'' (sample_trade 1700000001500 ''BTC'') (new_buffer 1700000000000000000)) =
   Some (Inr ([sample_trade 1700000001500 ''BTC''],
     hit_cold (direct_write ''okx_spot'' (sample_trade 1700000001500 ''BTC'') (new_buffer 1700000000000000000))))"
proof -
  let ?b = "direct_write ''okx_spot'' (sample_trade 1700000001500 ''BTC'') (new_buffer 1700000000000000000)"
  have "hotCache ?b = []" by (simp add: new_buffer_def)
  then have "get_from_hot_cache 1700000003000000000 ''okx_spot'' 1700000000000000000 1700000002000000000 ?b = None"
    by (simp add: get_from_hot_cache_def)
  then show ?thesis
    using query_exact [OF sample_run1 [of "''okx_spot''" "sample_trade 1700000001500 ''BTC''" 1700000000000000000],
        of 1700000000000000000 1700000002000000000 1700000003000000000 "''okx_spot''"]
    by (simp add: second_def bucket_count_def in_milli_range_def sample_trade_def)
qed


text \<open>The state of the two examples below: a trade is stored, the cache is refreshed, and a second
  trade of the same range is stored afterwards.\<close>

definition stale_example :: "trade_buffer option" where
  "stale_example =
     map_option (direct_write ''okx_spot'' (sample_trade 1700000001600 ''BTC''))
       (update_hot_cache 1700000001550000000
         (direct_write ''okx_spot'' (sample_trade 1700000001500 ''BTC'') (new_buffer 1700000000000000000)))"

lemma stale_example_state:
  "\<exists>b. stale_example = Some b \<and>
     ctb_run [(''okx_spot'', sample_trade 1700000001500 ''BTC''), (''okx_spot'', sample_trade 1700000001600 ''BTC'')] b \<and>
     get_from_hot_cache 1700000002000000000 ''okx_spot'' 1700000000000000000 1700000002000000000 b =
       Some [sample_trade 1700000001500 ''BTC'']"
proof -
  let ?t1 = "sample_trade 1700000001500 ''BTC''" and ?t2 = "sample_trade 1700000001600 ''BTC''"
  let ?b = "direct_write ''okx_spot'' ?t1 (new_buffer 1700000000000000000)"
  let ?now = "1700000001550000000 :: int"
  have run: "ctb_run [(''okx_spot'', ?t1)] ?b" by (rule sample_run1)
  then have lg: "ctb.logged [(''okx_spot'', ?t1)] ?b" using ctb_run_inv by (auto simp: run_inv_def)
  have clk: "sane_clock ?now" by (simp add: sane_clock_def hot_cache_seconds_def second_def)
  obtain b' where b': "update_hot_cache ?now ?b = Some b'" "closed b' = closed ?b"
    using update_hot_cache_total [OF lg clk] by blast
  have hot: "mget (hotCache b') ''okx_spot'' = Some \<lparr>tsTrades = [?t1], lastUsed = ?now\<rparr>"
    using update_hot_cache_lookup [OF lg clk b'(1), of "''okx_spot''"]
    by (simp add: active_exchanges_def in_milli_range_def sample_trade_def hot_cache_seconds_def second_def)
  have "ctb_run [(''okx_spot'', ?t1)] b'" using run_refresh [OF run clk b'(1)] .
  from run_store [OF this, of "''okx_spot''" ?t2]
  have "ctb_run [(''okx_spot'', ?t1), (''okx_spot'', ?t2)] (direct_write ''okx_spot'' ?t2 b')"
    using b'(2) by (simp add: store_trade_event_def new_buffer_def)
  moreover have "get_from_hot_cache 1700000002000000000 ''okx_spot'' 1700000000000000000 1700000002000000000
      (direct_write ''okx_spot'' ?t2 b') = Some [?t1]"
    by (simp add: get_from_hot_cache_def hot in_milli_range_def sample_trade_def unix_nano_def
        hot_cache_seconds_def second_def)
  moreover have "stale_example = Some (direct_write ''okx_spot'' ?t2 b')"
    by (simp only: stale_example_def b'(1) option.map)
  ultimately show ?thesis by blast
qed


text \<open>An answer from the hot cache can miss a stored trade of the range: between two refreshes
  the cache still answers for a range that already contains newer trades.\<close>

theorem hot_answer_can_miss:
  "\<exists>hist b r b'. ctb_run hist b \<and>
     get_trade_events 1700000002000000000 ''okx_spot'' 1700000000000000000 1700000002000000000 b =
       Some (Inr (r, b')) \<and>
     (\<exists>t \<in> set (log_of hist ''okx_spot'').
        in_milli_range 1700000000000 1700000002000 t \<and> t \<notin> set r)"
proof -
  let ?t1 = "sample_trade 1700000001500 ''BTC''" and ?t2 = "sample_trade 1700000001600 ''BTC''"
  obtain b where b: "ctb_run [(''okx_spot'', ?t1), (''okx_spot'', ?t2)] b"
    "get_from_hot_cache 1700000002000000000 ''okx_spot'' 1700000000000000000 1700000002000000000 b = Some [?t1]"
    using stale_example_state by blast
  have "\<not> closed b" using ctb_run_inv [OF b(1)] by (simp add: run_inv_def)
  then have "get_trade_events 1700000002000000000 ''okx_spot'' 1700000000000000000 1700000002000000000 b =
      Some (Inr ([?t1], hit_hot b))"
    using b(2) by (simp add: get_trade_events_def unix_nano_def)
  moreover have "?t2 \<in> set (log_of [(''okx_spot'', ?t1), (''okx_spot'', ?t2)] ''okx_spot'')"
    "in_milli_range 1700000000000 1700000002000 ?t2" "?t2 \<notin> set [?t1]"
    by (simp_all add: in_milli_range_def)
  ultimately show ?thesis using b(1) by blast
qed

text \<open>Nothing is ever evicted: a trade stored at any time in the past is still in its bucket, and
  the reported event count and memory grow with every trade ever stored.\<close>

theorem no_eviction:
  assumes "ctb_run hist b"
  shows "(\<forall>(ex, t) \<in> set hist. t \<in> set (cell b ex (get_bucket_index (Timestamp t)))) \<and>
    TotalEvents (get_stats b) = int (length hist) \<and>
    MemoryUsage (get_stats b) =
      1208 * 1024 + 200 * int (length hist) + 200 * HotEvents (stats b)"
proof -
  have i: "run_inv hist b" by (rule ctb_run_inv [OF assms])
  then have "ctb.logged hist b" by (simp add: run_inv_def)
  then have "t \<in> set (cell b ex (get_bucket_index (Timestamp t)))" if "(ex, t) \<in> set hist" for ex t
    using that get_bucket_index_range [of "Timestamp t"]
    by (force simp: ctb.logged_def trade_slot_def log_of_def)
  with i show ?thesis
    by (auto simp: run_inv_def get_stats_def calculate_memory_usage_def bucket_count_def)
qed

theorem no_eviction_witness:
  "TotalEvents (get_stats (direct_write ''okx_spot'' (sample_trade 1500 ''BTC'') (new_buffer 0))) = 1"
  using no_eviction [OF sample_run1 [of "''okx_spot''" "sample_trade 1500 ''BTC''" 0]] by simp

text \<open>C12. The batched write path is equivalent to writing the requests one by one: whatever the
  iteration orders of the two grouping maps, every bucket holds the same trades in the same order
  and the event count is the same.\<close>

theorem flush_batch_equiv_direct:
  assumes "wf_buffer b" "iter_order ordB" "iter_order ordE" "0 \<le> j" "j < bucket_count"
  shows "cell (flush_batch ordB ordE batch b) k j = cell (fold (\<lambda>(ex, t). direct_write ex t) batch b) k j \<and>
    TotalEvents (stats (flush_batch ordB ordE batch b)) =
      TotalEvents (stats (fold (\<lambda>(ex, t). direct_write ex t) batch b))"
proof -
  have "wf_buffer (fold (\<lambda>(ex, t). direct_write ex t) batch b) \<and>
      cell (fold (\<lambda>(ex, t). direct_write ex t) batch b) k j =
        cell b k j @ filter (\<lambda>t. trade_slot t = j) (log_of batch k) \<and>
      TotalEvents (stats (fold (\<lambda>(ex, t). direct_write ex t) batch b)) =
        TotalEvents (stats b) + int (length batch)"
    using assms(1)
  proof (induction batch arbitrary: b)
    case (Cons r rs)
    obtain ex t where r: "r = (ex, t)" by (cases r)
    from Cons.IH [OF ctb.invar_put [OF Cons.prems, of ex t]] show ?case
      using ctb.contents_put [OF Cons.prems assms(4,5), of ex t k] by (simp add: r)
  qed simp
  then show ?thesis
    using cell_flush_batch [OF assms, of batch k] flush_batch_frame [OF assms(3)] by simp
qed

theorem flush_batch_equiv_direct_witness:
  "cell (flush_batch rev rev [(''okx_spot'', zero_trade), (''gate_spot'', zero_trade)] (new_buffer 0)) ''okx_spot'' 0
     = cell (fold (\<lambda>(ex, t). direct_write ex t) [(''okx_spot'', zero_trade), (''gate_spot'', zero_trade)]
         (new_buffer 0)) ''okx_spot'' 0"
  using flush_batch_equiv_direct [OF logged_wf [OF new_buffer_logged] iter_order_rev iter_order_rev]
  by (simp add: bucket_count_def del: fold.simps)

end
