(* ===== verification/ListingExtraction.thy ===== *)
theory ListingExtraction
  imports TradeBufferProps
begin

text \<open>
  What a listing gets out of the circular buffer: the extraction of its \<open>CollectionEvent\<close>, the
  backup and restore of the buffer across a restart, and the batch goroutine at shutdown.
\<close>

section \<open>The two symbol matchers\<close>

lemma ctb_is_target_iff:
  "ctb_is_target listed trade \<longleftrightarrow>
     to_upper trade \<in> (\<lambda>(p, s). p @ to_upper listed @ s) ` (target_forms - {([], ''_-USDT'')})"
proof -
  define T where "T = to_upper listed"
  define u where "u = to_upper trade"
  define P where "P \<longleftrightarrow> has_prefix u ''S'' \<and> length u > 1 \<and>
      has_suffix (trim_prefix u ''S'') ''USDT'' \<and> trim_suffix (trim_prefix u ''S'') ''USDT'' = T"
  have five: "P \<longleftrightarrow> u = ''S'' @ T @ ''USDT''"
    unfolding P_def using trim_prefix_append [of "''S''"] by (auto simp: has_prefix_iff has_suffix_iff)
  have "ctb_is_target listed trade \<longleftrightarrow>
      T = u \<or> u = T @ ''USDT'' \<or> u = T @ ''-USDT'' \<or> u = T @ ''_USDT'' \<or> P"
    unfolding ctb_is_target_def Let_def T_def [symmetric] u_def [symmetric] P_def [symmetric]
    by (simp only: if_True if_False split: if_split) blast
  moreover have "target_forms - {([], ''_-USDT'')} =
      {([], []), ([], ''USDT''), ([], ''-USDT''), ([], ''_USDT''), (''S'', ''USDT'')}"
    by (auto simp: target_forms_def)
  moreover have "u \<in> (\<lambda>(p, s). p @ T @ s) `
        {([], []), ([], ''USDT''), ([], ''-USDT''), ([], ''_USDT''), (''S'', ''USDT'')} \<longleftrightarrow>
      T = u \<or> u = T @ ''USDT'' \<or> u = T @ ''-USDT'' \<or> u = T @ ''_USDT'' \<or> u = ''S'' @ T @ ''USDT''"
    unfolding image_insert image_empty prod.case append_Nil append_Nil2 by blast
  ultimately show ?thesis
    unfolding T_def [symmetric] u_def [symmetric] using five by auto
qed

lemma target_matchers:
  "is_target_symbol listed trade \<longleftrightarrow>
     ctb_is_target listed trade \<or> to_upper trade = to_upper listed @ ''_-USDT''"
proof -
  let ?f = "\<lambda>(p, s). p @ to_upper listed @ s"
  have "target_forms = insert ([], ''_-USDT'') (target_forms - {([], ''_-USDT'')})"
    by (auto simp: target_forms_def)
  then have "?f ` target_forms = insert (?f ([], ''_-USDT'')) (?f ` (target_forms - {([], ''_-USDT'')}))"
    by (metis image_insert)
  then show ?thesis by (auto simp: is_target_symbol_iff ctb_is_target_iff)
qed

text \<open>The matcher of the circular buffer and the matcher of \<open>CollectionEvent\<close> select the same
  symbols, but for the form \<open>BASE_-USDT\<close> that only the latter accepts.\<close>

theorem target_matchers_agree:
  "is_target_symbol listed trade \<longleftrightarrow>
     ctb_is_target listed trade \<or> to_upper trade = to_upper listed @ ''_-USDT''"
  by (rule target_matchers)

section \<open>Extraction\<close>

lemma slice_of_set_slice:
  "key \<in> set active_exchanges \<Longrightarrow> k \<in> set slice_keys \<Longrightarrow>
     slice_of k (set_slice key xs ce) = (if k = key then xs else slice_of k ce)"
  unfolding active_exchanges_def slice_keys_def list.set insert_iff empty_iff
  by (elim disjE; simp add: set_slice_def)

lemma set_slice_meta [simp]:
  "ceSymbol (set_slice key xs ce) = ceSymbol ce" "StartTime (set_slice key xs ce) = StartTime ce"
  "EndTime (set_slice key xs ce) = EndTime ce"
  "ceTriggerTime (set_slice key xs ce) = ceTriggerTime ce"
  by (simp_all add: set_slice_def)

lemma hot_lookup_cong:
  "hotCache b' = hotCache b \<Longrightarrow> get_from_hot_cache now ex s e b' = get_from_hot_cache now ex s e b"
  by (simp add: get_from_hot_cache_def)

definition range_trades :: "(string \<times> trade_event) list \<Rightarrow> string \<Rightarrow> int \<Rightarrow> int \<Rightarrow> trade_event list" where
  "range_trades hist key s e = sort_key (\<lambda>t. Timestamp t div 1000)
     (filter (in_milli_range (s div 1000000) (e div 1000000)) (log_of hist key))"

lemma extract_exchanges_spec:
  assumes "ctb_run hist b" "distinct ks" "set ks \<subseteq> set active_exchanges"
    and "1000000000000000 < s" "s \<le> e" "e < 2 ^ 63" "e div second - s div second < bucket_count"
    and "\<forall>k \<in> set ks. get_from_hot_cache (clk k) k s e b = None"
  shows "\<exists>ce' b'. extract_exchanges clk sm s e ks (ce, b) = Some (Inr (ce', b')) \<and>
    (\<forall>k \<in> set slice_keys. slice_of k ce' =
      (if k \<in> set ks then filter (\<lambda>t. ctb_is_target sm (Symbol t)) (range_trades hist k s e)
       else slice_of k ce)) \<and>
    ceSymbol ce' = ceSymbol ce \<and> StartTime ce' = StartTime ce \<and> EndTime ce' = EndTime ce"
  using assms(1-3,8)
proof (induction ks arbitrary: b ce)
  case (Cons key ks)
  let ?tr = "filter (\<lambda>t. ctb_is_target sm (Symbol t)) (range_trades hist key s e)"
  have q: "get_trade_events (clk key) key s e b = Some (Inr (range_trades hist key s e, hit_cold b))"
    using cold_query [OF Cons.prems(1) assms(4-7)] Cons.prems(4) by (simp add: range_trades_def)
  have run: "ctb_run hist (hit_cold b)" by (rule run_query [OF Cons.prems(1) q])
  have hot: "\<forall>k \<in> set ks. get_from_hot_cache (clk k) k s e (hit_cold b) = None"
    using Cons.prems(4) hot_lookup_cong [of "hit_cold b" b] by simp
  have step: "extract_exchanges clk sm s e (key # ks) (ce, b) =
      extract_exchanges clk sm s e ks (set_slice key ?tr ce, hit_cold b)"
    by (simp add: q)
  have ks: "distinct ks" "set ks \<subseteq> set active_exchanges" "key \<in> set active_exchanges" "key \<notin> set ks"
    using Cons.prems(2,3) by auto
  obtain ce' b' where ih: "extract_exchanges clk sm s e ks (set_slice key ?tr ce, hit_cold b) = Some (Inr (ce', b'))"
    "\<forall>k \<in> set slice_keys. slice_of k ce' =
      (if k \<in> set ks then filter (\<lambda>t. ctb_is_target sm (Symbol t)) (range_trades hist k s e)
       else slice_of k (set_slice key ?tr ce))"
    "ceSymbol ce' = ceSymbol ce \<and> StartTime ce' = StartTime ce \<and> EndTime ce' = EndTime ce"
    using Cons.IH [OF run ks(1,2) hot, of "set_slice key ?tr ce"] by auto
  have "\<forall>k \<in> set slice_keys. slice_of k ce' =
      (if k \<in> set (key # ks) then filter (\<lambda>t. ctb_is_target sm (Symbol t)) (range_trades hist k s e)
       else slice_of k ce)"
    using ih(2) ks(4) slice_of_set_slice [OF ks(3)] by simp
  with ih(1,3) step show ?case by auto
qed simp

lemma window_span:
  "(trig + 20 * second) div second - (trig + (- 20 * second)) div second < bucket_count"
  by (simp add: second_def bucket_count_def)

lemma active_subset: "set active_exchanges \<subseteq> set slice_keys" "distinct active_exchanges"
  by (simp_all add: active_exchanges_def slice_keys_def)

lemma to_collection_spec:
  assumes "ctb_run hist b"
    and "1000000000000000 < trig + (- 20 * second)" "trig + 20 * second < 2 ^ 63"
    and "\<forall>k \<in> set active_exchanges.
           get_from_hot_cache (clk k) k (trig + (- 20 * second)) (trig + 20 * second) b = None"
  shows "\<exists>ce b'. to_collection_event clk sm trig b = Some (Inr (ce, b')) \<and>
    StartTime ce = trig - 20 * second \<and> EndTime ce = trig + 20 * second \<and>
    (\<forall>k \<in> set active_exchanges. slice_of k ce =
       filter (\<lambda>t. ctb_is_target sm (Symbol t))
         (range_trades hist k (trig - 20 * second) (trig + 20 * second))) \<and>
    PhemexSpot ce = [] \<and> PhemexFutures ce = []"
proof -
  let ?s = "trig + (- 20 * second)" and ?e = "trig + 20 * second"
  have le: "?s \<le> ?e" by (simp add: second_def)
  obtain ce b' where ce: "extract_exchanges clk sm ?s ?e active_exchanges
        (empty_collection sm trig ?s ?e zero_time, b) = Some (Inr (ce, b'))"
    "\<forall>k \<in> set slice_keys. slice_of k ce =
      (if k \<in> set active_exchanges then filter (\<lambda>t. ctb_is_target sm (Symbol t)) (range_trades hist k ?s ?e)
       else [])"
    "StartTime ce = ?s" "EndTime ce = ?e"
    using extract_exchanges_spec [OF assms(1) active_subset(2) subset_refl assms(2) le assms(3) window_span assms(4),
      of sm "empty_collection sm trig ?s ?e zero_time"]
    by (auto simp: empty_collection_def slice_of_empty [unfolded empty_collection_def])
  have "slice_of ''phemex_spot'' ce = []" "slice_of ''phemex_futures'' ce = []"
    using ce(2) by (simp_all add: slice_keys_def active_exchanges_def)
  then have ph: "PhemexSpot ce = []" "PhemexFutures ce = []" by simp_all
  have "\<forall>k \<in> set active_exchanges. slice_of k ce =
       filter (\<lambda>t. ctb_is_target sm (Symbol t)) (range_trades hist k ?s ?e)"
    using ce(2) active_subset(1) by auto
  with ce(1,3,4) ph show ?thesis by (auto simp: to_collection_event_def)
qed


lemma sample_run_extraction:
  "\<forall>k \<in> set active_exchanges. get_from_hot_cache (clk k) k s e (direct_write ex t (new_buffer now)) = None"
  by (simp add: get_from_hot_cache_def new_buffer_def)



definition okx_example :: trade_event where
  "okx_example = (sample_trade 1700000001500 ''SOMI-USDT'')\<lparr>Exchange := ''okx'', MarketType := ''spot''\<rparr>"

lemma route_okx_example: "route okx_example = ''okx_spot''"
  by (simp add: route_def okx_example_def)


section \<open>Backup and restore\<close>

lemma restore_bucket_at:
  assumes "i < length (buckets b)" "length (buckets b) < 2 ^ 63"
  shows "restore_bucket (show_nat i, bb) b =
    b\<lparr>buckets := (buckets b)[i := (buckets b ! i)\<lparr>tbTimestamp := bbTimestamp bb, tbTrades := bbTrades bb\<rparr>]\<rparr>"
  using assms scan_int_show_nat [of i] by (simp add: restore_bucket_def)

lemma restore_buckets:
  assumes "distinct is" "\<forall>i \<in> set is. i < length (buckets b)" "length (buckets b) < 2 ^ 63"
  shows "length (buckets (fold restore_bucket (map (\<lambda>i. (show_nat i, f i)) is) b)) = length (buckets b) \<and>
    (\<forall>j < length (buckets b). buckets (fold restore_bucket (map (\<lambda>i. (show_nat i, f i)) is) b) ! j =
      (if j \<in> set is then (buckets b ! j)\<lparr>tbTimestamp := bbTimestamp (f j), tbTrades := bbTrades (f j)\<rparr>
       else buckets b ! j)) \<and>
    hotCache (fold restore_bucket (map (\<lambda>i. (show_nat i, f i)) is) b) = hotCache b \<and>
    startTime (fold restore_bucket (map (\<lambda>i. (show_nat i, f i)) is) b) = startTime b \<and>
    stats (fold restore_bucket (map (\<lambda>i. (show_nat i, f i)) is) b) = stats b \<and>
    closed (fold restore_bucket (map (\<lambda>i. (show_nat i, f i)) is) b) = closed b"
  using assms
proof (induction "is" arbitrary: b)
  case (Cons i "is")
  have i: "i < length (buckets b)" using Cons.prems(2) by simp
  let ?b = "restore_bucket (show_nat i, f i) b"
  note b = restore_bucket_at [OF i Cons.prems(3), of "f i"]
  have "distinct is" "\<forall>i \<in> set is. i < length (buckets ?b)" "length (buckets ?b) < 2 ^ 63" "i \<notin> set is"
    using Cons.prems by (simp_all add: b)
  from Cons.IH [OF this(1-3)] \<open>i \<notin> set is\<close> show ?case
    by (auto simp: b nth_list_update)
qed simp

lemma restore_hots:
  "buckets (fold (restore_hot now) es b) = buckets b \<and> startTime (fold (restore_hot now) es b) = startTime b \<and>
   stats (fold (restore_hot now) es b) = stats b \<and> closed (fold (restore_hot now) es b) = closed b \<and>
   (wf_map es \<longrightarrow> mget (hotCache (fold (restore_hot now) es b)) ex =
     (case mget es ex of Some ts \<Rightarrow> Some \<lparr>tsTrades = ts, lastUsed = unix_nano now\<rparr>
      | None \<Rightarrow> mget (hotCache b) ex))"
proof (induction es arbitrary: b)
  case (Cons e es)
  obtain k ts where e: "e = (k, ts)" by (cases e)
  have "wf_map (e # es) \<Longrightarrow> k = ex \<Longrightarrow> mget es ex = None"
    by (auto simp: e wf_map_def map_of_eq_None_iff)
  then show ?case
    using Cons.IH [of "restore_hot now e b"]
    by (auto simp: e restore_hot_def mget_mput wf_map_def split: option.splits)
qed (simp split: option.splits)

lemma mget_hot_backup:
  assumes "wf_map m"
  shows "mget (map (\<lambda>(ex, s). (ex, tsTrades s)) (filter (\<lambda>(ex, s). length (tsTrades s) > 0) m)) ex =
    (case mget m ex of None \<Rightarrow> None | Some s \<Rightarrow> if tsTrades s = [] then None else Some (tsTrades s))"
  using assms
proof (induction m)
  case (Cons e m)
  obtain k s where e: "e = (k, s)" by (cases e)
  have "k = ex \<Longrightarrow> mget m ex = None" "wf_map m"
    using Cons.prems by (auto simp: e wf_map_def map_of_eq_None_iff)
  with Cons.IH show ?case by (cases "k = ex") (auto simp: e)
qed simp

text \<open>C13. A buffer saved at \<open>t1\<close> and loaded by a fresh process within twenty minutes holds the same
  trades of every exchange in every bucket, the same start time and counters and the same non-empty
  hot-cache entries, stamped with the time of the load; the backup file is consumed.  The JSON codec
  and the file system are only assumed to read back what was written.\<close>

theorem backup_roundtrip:
  assumes "wf_buffer b" "wf_map (hotCache b)"
    and "enc (make_backup t1 b) = Some f" "dec f = Some (make_backup t1 b)"
    and "os_write f disk = (True, Some f)" "os_read f = Some f"
    and "t2 - t1 \<le> 20 * minute"
  shows "\<exists>b'. load_from_backup os_read dec t2 (new_buffer t0)
      (snd (save_to_backup True enc os_write t1 b disk)) = (None, b', None) \<and>
    (\<forall>ex j. 0 \<le> j \<longrightarrow> j < bucket_count \<longrightarrow> cell b' ex j = cell b ex j) \<and>
    startTime b' = startTime b \<and> stats b' = stats b \<and> \<not> closed b' \<and>
    (\<forall>ex. mget (hotCache b') ex =
      (case mget (hotCache b) ex of None \<Rightarrow> None
       | Some s \<Rightarrow> if tsTrades s = [] then None else Some \<lparr>tsTrades = tsTrades s, lastUsed = unix_nano t2\<rparr>))"
proof -
  define bk where "bk = make_backup t1 b"
  define b' where "b' = restore_backup t2 bk (new_buffer t0)"
  have load: "load_from_backup os_read dec t2 (new_buffer t0)
      (snd (save_to_backup True enc os_write t1 b disk)) = (None, b', None)"
    using assms by (simp add: load_from_backup_def save_to_backup_def b'_def bk_def make_backup_def)
  define ks where "ks = filter (\<lambda>i. length (tbTrades (buckets b ! i)) > 0) [0..<length (buckets b)]"
  define bb where "bb i = \<lparr>bbTimestamp = tbTimestamp (buckets b ! i), bbTrades = tbTrades (buckets b ! i)\<rparr>" for i
  let ?n = "(new_buffer t0)\<lparr>startTime := bkStartTime bk, currentBucket := bkCurrentBucket bk, stats := bkStats bk\<rparr>"
  define m where "m = fold restore_bucket (map (\<lambda>i. (show_nat i, bb i)) ks) ?n"
  have len: "length (buckets b) = 1200" "length (buckets ?n) = 1200"
    using assms(1) by (simp_all add: wf_buffer_def bucket_count_def new_buffer_def)
  have mp: "length (buckets m) = 1200"
    "\<forall>j < 1200. buckets m ! j = (if j \<in> set ks then (buckets ?n ! j)\<lparr>tbTimestamp := bbTimestamp (bb j), tbTrades := bbTrades (bb j)\<rparr>
       else buckets ?n ! j)" "hotCache m = []" "startTime m = startTime b" "stats m = stats b" "\<not> closed m"
    using restore_buckets [of ks ?n bb] len
    by (simp_all add: m_def ks_def new_buffer_def bk_def make_backup_def)
  have b': "b' = fold (restore_hot t2) (bkHotCache bk) m"
    by (simp add: b'_def restore_backup_def bk_def make_backup_def m_def bb_def ks_def)
  have "cell m ex j = cell b ex j" if "0 \<le> j" "j < bucket_count" for ex j
  proof -
    have j: "nat j < 1200" using that by (simp add: bucket_count_def)
    then have "tbTrades (buckets ?n ! nat j) = []" by (simp add: new_buffer_def bucket_count_def)
    then show ?thesis using mp(2) j len by (auto simp: cell_def ks_def bb_def)
  qed
  moreover have "wf_map (bkHotCache bk)"
    using assms(2) distinct_map_filter [of fst "hotCache b"]
    by (simp add: bk_def make_backup_def wf_map_def case_prod_unfold o_def)
  moreover have "mget (bkHotCache bk) ex = (case mget (hotCache b) ex of None \<Rightarrow> None
       | Some s \<Rightarrow> if tsTrades s = [] then None else Some (tsTrades s))" for ex
    using mget_hot_backup [OF assms(2)] by (simp add: bk_def make_backup_def)
  ultimately show ?thesis
    using load restore_hots [of t2 "bkHotCache bk" m] mp(3-6) unfolding b' cell_def
    by (auto split: option.splits)
qed

theorem backup_roundtrip_witness:
  "\<exists>b'. load_from_backup Some Some 100 (new_buffer 50)
      (snd (save_to_backup True Some (\<lambda>f d. (True, Some f)) 0
        (direct_write ''okx_spot'' (sample_trade 1500 ''BTC'') (new_buffer 0)) None)) = (None, b', None) \<and>
    cell b' ''okx_spot'' 1 = [sample_trade 1500 ''BTC'']"
proof -
  let ?b = "direct_write ''okx_spot'' (sample_trade 1500 ''BTC'') (new_buffer 0)"
  have wf: "wf_buffer ?b" "wf_map (hotCache ?b)"
    using ctb.invar_put [OF logged_wf [OF new_buffer_logged]] by (simp_all add: new_buffer_def)
  have "cell ?b ''okx_spot'' 1 = [sample_trade 1500 ''BTC'']"
    using logged_cell [OF ctb.logged_put [OF new_buffer_logged], where ex = "''okx_spot''" and i = 1]
    by (simp add: bucket_count_def trade_slot_def get_bucket_index_milli)
  with backup_roundtrip [OF wf, of Some 0 "make_backup 0 ?b" Some "\<lambda>f d. (True, Some f)" None Some 100 50]
  show ?thesis by (auto simp: minute_def second_def bucket_count_def)
qed

section \<open>The batch goroutine\<close>

text \<open>Before the shutdown the goroutine has nothing to do: every store writes directly and the
  channel stays empty.\<close>

lemma writer_idle:
  assumes "writer_step s s'" "wcChan s = []" "wcBatch s = []" "\<not> wcClosed s"
  shows "wcBuffer s' = wcBuffer s \<and> wcChan s' = [] \<and> wcBatch s' = []"
  using assms by (cases rule: writer_step.cases) (auto simp: flush_pending_def)

definition shutdown_state :: "trade_buffer \<Rightarrow> writer_state" where
  "shutdown_state b = \<lparr>wcChan = [], wcClosed = True, wcDone = True, wcBatch = [], wcExited = False, wcBuffer = b\<rparr>"

text \<open>At shutdown the goroutine races with itself: the context is cancelled and the write channel
  is closed, and \<open>select\<close> may take the closed channel first.  Each such receive yields the zero
  request, so there is a run that leaves the loop having stored a trade nobody sent, under the
  empty exchange key, and having counted it.\<close>

theorem writer_phantom_trade:
  "\<exists>s'. writer_step\<^sup>*\<^sup>* (shutdown_state (new_buffer now)) s' \<and> wcExited s' \<and>
     cell (wcBuffer s') [] 0 = [zero_trade] \<and> TotalEvents (stats (wcBuffer s')) = 1"
proof -
  let ?b = "new_buffer now"
  let ?s0 = "shutdown_state ?b"
  let ?s1 = "?s0\<lparr>wcBatch := [([], zero_trade)]\<rparr>"
  have "writer_step ?s0 (take_request ([], zero_trade) ?s0)"
    by (rule recv_zero) (simp_all add: shutdown_state_def)
  then have 1: "writer_step ?s0 ?s1"
    by (simp add: take_request_def shutdown_state_def batch_write_size_def)
  have 2: "writer_step ?s1 ((flush_pending ?s1)\<lparr>wcExited := True\<rparr>)"
    by (rule finish) (simp_all add: shutdown_state_def)
  let ?b' = "flush_batch id id [([], zero_trade)] ?b"
  have buf: "wcBuffer ((flush_pending ?s1)\<lparr>wcExited := True\<rparr>) = ?b'"
    by (simp add: flush_pending_def shutdown_state_def)
  have "wf_buffer ?b" by (rule logged_wf [OF new_buffer_logged])
  then have "cell ?b' [] 0 = [zero_trade]"
    using cell_flush_batch [of ?b id id 0 "[([], zero_trade)]" "[]"]
      logged_cell [OF new_buffer_logged, of 0 now "[]"]
    by (simp add: bucket_count_def trade_slot_def zero_trade_def get_bucket_index_milli)
  moreover have "TotalEvents (stats ?b') = 1"
    using flush_batch_frame(3) [of id id "[([], zero_trade)]" ?b] by (simp add: new_buffer_def zero_stats_def)
  ultimately show ?thesis
    using 1 2 buf by (metis (no_types, lifting) rtranclp.simps writer_state.select_convs(5) writer_state.surjective
        writer_state.update_convs(5))
qed

end
