(* ===== verification/Recovery.thy ===== *)
theory Recovery
  imports Prelude
begin

text \<open>
  The error-recovery scheduler of \<open>internal/recovery/error_recovery.go\<close>: the state machine of
  an exchange (healthy, cooling down, retrying, failed), the classification of errors, the periodic
  check and the reconnection goroutines.  An error is its text, a nil error is \<^const>\<open>None\<close>; the
  clock and the result of the reconnect callback are arguments of the steps.
\<close>

section \<open>State\<close>

datatype severity = ErrorRecoverable | ErrorFatal

datatype exchange_state = StateHealthy | StateRetrying | StateFailed | StateCooldown

record exchange_error =
  errExchange :: string
  errText :: string
  errSeverity :: severity
  errTimestamp :: gotime

record exchange_manager =
  mgrExchange :: string
  mgrMarket :: string
  State :: exchange_state
  RetryCount :: int
  LastFailure :: gotime
  CooldownUntil :: gotime
  TotalFailures :: int
  LastSuccess :: gotime
  hasReconnect :: bool

record scheduler =
  exchanges :: "(string, exchange_manager) gomap"
  tickerRunning :: bool
  cancelled :: bool
  maxRetries :: int
  cooldownPeriod :: int
  checkInterval :: int
  totalRecoveries :: int
  totalHardResets :: int

definition new_scheduler :: scheduler where
  "new_scheduler =
     \<lparr>exchanges = [], tickerRunning = False, cancelled = False, maxRetries = 3,
      cooldownPeriod = 3 * minute, checkInterval = 30 * second,
      totalRecoveries = 0, totalHardResets = 0\<rparr>"

definition exchange_key :: "string \<Rightarrow> string \<Rightarrow> string" where
  "exchange_key ex mt = ex @ ''_'' @ mt"

definition register_exchange :: "gotime \<Rightarrow> string \<Rightarrow> string \<Rightarrow> bool \<Rightarrow> scheduler \<Rightarrow> scheduler" where
  "register_exchange now ex mt callback rs =
     (let key = exchange_key ex mt;
          manager = \<lparr>mgrExchange = ex, mgrMarket = mt, State = StateHealthy, RetryCount = 0,
             LastFailure = zero_time, CooldownUntil = zero_time, TotalFailures = 0,
             LastSuccess = now, hasReconnect = callback\<rparr>
      in rs\<lparr>exchanges := mput key manager (exchanges rs)\<rparr>)"

definition start_scheduler :: "scheduler \<Rightarrow> scheduler" where
  "start_scheduler rs = rs\<lparr>tickerRunning := True\<rparr>"

definition stop_scheduler :: "scheduler \<Rightarrow> scheduler" where
  "stop_scheduler rs = rs\<lparr>tickerRunning := False, cancelled := True\<rparr>"

section \<open>Classification\<close>

definition websocket_panic_patterns :: "string list" where
  "websocket_panic_patterns =
     [''readmessage panic'', ''ping panic'', ''repeated read on failed websocket'',
      ''websocket panic'', ''connection panic'', ''sendmessage panic'']"

definition fatal_patterns :: "string list" where
  "fatal_patterns =
     [''out of memory'', ''no space left'', ''disk space'', ''configuration error'',
      ''initialization failed'', ''multiple exchanges failed simultaneously'',
      ''segmentation fault'', ''fatal system error'']"

definition recoverable_patterns :: "string list" where
  "recoverable_patterns =
     [''websocket'', ''connection'', ''timeout'', ''network'',
      ''503'', ''502'', ''429'', ''500'', ''rate limit'',
      ''ping'', ''heartbeat'', ''read'', ''write'', ''dial'',
      ''refused'', ''reset'', ''broken pipe'', ''eof'']"

definition classify_error :: "string option \<Rightarrow> severity" where
  "classify_error err =
     (case err of
        None \<Rightarrow> ErrorRecoverable
      | Some e \<Rightarrow>
          (let errStr = to_lower e in
           if list_ex (contains_str errStr) websocket_panic_patterns then ErrorRecoverable
           else if list_ex (contains_str errStr) fatal_patterns then ErrorFatal
           else if list_ex (contains_str errStr) recoverable_patterns then ErrorRecoverable
           else ErrorRecoverable))"

section \<open>Operations\<close>

definition handle_recoverable_error :: "gotime \<Rightarrow> string \<Rightarrow> exchange_error \<Rightarrow> scheduler \<Rightarrow> scheduler" where
  "handle_recoverable_error now key err rs =
     (case mget (exchanges rs) key of
        None \<Rightarrow> rs
      | Some m \<Rightarrow>
          if State m \<noteq> StateHealthy then rs
          else
            (let m1 = m\<lparr>LastFailure := errTimestamp err, TotalFailures := TotalFailures m + 1\<rparr> in
             if RetryCount m1 \<ge> maxRetries rs
             then rs\<lparr>exchanges := mput key (m1\<lparr>State := StateFailed\<rparr>) (exchanges rs),
                     totalHardResets := totalHardResets rs + 1\<rparr>
             else rs\<lparr>exchanges := mput key
                     (m1\<lparr>RetryCount := RetryCount m1 + 1, State := StateCooldown,
                         CooldownUntil := now + cooldownPeriod rs\<rparr>) (exchanges rs)\<rparr>))"

text \<open>\<open>triggerHardReset\<close> only logs: the process goes on.\<close>

definition trigger_hard_reset :: "string \<Rightarrow> scheduler \<Rightarrow> scheduler" where
  "trigger_hard_reset reason rs = rs"

definition handle_fatal_error :: "exchange_error \<Rightarrow> scheduler \<Rightarrow> scheduler" where
  "handle_fatal_error err rs =
     trigger_hard_reset (''Fatal error in '' @ errExchange err @ '': '' @ errText err)
       (rs\<lparr>totalHardResets := totalHardResets rs + 1\<rparr>)"

definition handle_error :: "gotime \<Rightarrow> string \<Rightarrow> string \<Rightarrow> string option \<Rightarrow> scheduler \<Rightarrow> scheduler" where
  "handle_error now ex mt err rs =
     (case err of
        None \<Rightarrow> rs
      | Some e \<Rightarrow>
          (let key = exchange_key ex mt;
               sev = classify_error err;
               xe = \<lparr>errExchange = key, errText = e, errSeverity = sev, errTimestamp = now\<rparr>
           in case sev of
                ErrorRecoverable \<Rightarrow> handle_recoverable_error now key xe rs
              | ErrorFatal \<Rightarrow> handle_fatal_error xe rs))"

definition mark_healthy :: "gotime \<Rightarrow> string \<Rightarrow> string \<Rightarrow> scheduler \<Rightarrow> scheduler" where
  "mark_healthy now ex mt rs =
     (let key = exchange_key ex mt in
      case mget (exchanges rs) key of
        None \<Rightarrow> rs
      | Some m \<Rightarrow>
          (let rs' = rs\<lparr>exchanges := mput key
                 (m\<lparr>State := StateHealthy, RetryCount := 0, LastSuccess := now\<rparr>) (exchanges rs)\<rparr>
           in if State m \<noteq> StateHealthy
              then rs'\<lparr>totalRecoveries := totalRecoveries rs' + 1\<rparr> else rs'))"

text \<open>A reconnection goroutine is the key it serves with its exchange and market.  The check
  spawns one for every exchange whose cooldown is over.\<close>

type_synonym recon = "string \<times> string \<times> string"

definition check_recovery_opportunities :: "gotime \<Rightarrow> scheduler \<Rightarrow> recon list" where
  "check_recovery_opportunities now rs =
     map (\<lambda>(key, m). (key, mgrExchange m, mgrMarket m))
       (filter (\<lambda>(key, m). State m = StateCooldown \<and> now > CooldownUntil m \<and> hasReconnect m)
          (exchanges rs))"

text \<open>\<open>attemptReconnection\<close> up to the callback, and after the callback returned \<open>result\<close>.\<close>

definition begin_attempt :: "recon \<Rightarrow> scheduler \<Rightarrow> scheduler" where
  "begin_attempt g rs =
     (case mget (exchanges rs) (fst g) of
        None \<Rightarrow> rs
      | Some m \<Rightarrow> rs\<lparr>exchanges := mput (fst g) (m\<lparr>State := StateRetrying\<rparr>) (exchanges rs)\<rparr>)"

definition finish_attempt :: "gotime \<Rightarrow> string option \<Rightarrow> recon \<Rightarrow> scheduler \<Rightarrow> scheduler" where
  "finish_attempt now result g rs =
     (case g of (key, ex, mt) \<Rightarrow>
        (case result of
           Some e \<Rightarrow> handle_error now ex mt (Some (''reconnection failed: '' @ e)) rs
         | None \<Rightarrow> mark_healthy now ex mt rs))"

definition attempt_reconnection :: "gotime \<Rightarrow> string option \<Rightarrow> recon \<Rightarrow> scheduler \<Rightarrow> scheduler" where
  "attempt_reconnection now result g rs = finish_attempt now result g (begin_attempt g rs)"

record recovery_stats =
  total_exchanges :: nat
  healthy_exchanges :: nat
  retrying_exchanges :: nat
  cooldown_exchanges :: nat
  failed_exchanges :: nat
  total_recoveries :: int
  total_hard_resets :: int

definition count_state :: "exchange_state \<Rightarrow> scheduler \<Rightarrow> nat" where
  "count_state st rs = length (filter (\<lambda>(k, m). State m = st) (exchanges rs))"

definition get_recovery_stats :: "scheduler \<Rightarrow> recovery_stats" where
  "get_recovery_stats rs =
     \<lparr>total_exchanges = length (exchanges rs),
      healthy_exchanges = count_state StateHealthy rs,
      retrying_exchanges = count_state StateRetrying rs,
      cooldown_exchanges = count_state StateCooldown rs,
      failed_exchanges = count_state StateFailed rs,
      total_recoveries = totalRecoveries rs, total_hard_resets = totalHardResets rs\<rparr>"

section \<open>The running system\<close>

text \<open>The scheduler with its goroutines: \<open>spawned\<close> have not yet marked the exchange as
  retrying, \<open>inflight\<close> wait for their callback.  \<open>recon_step\<close> is one atomic action.\<close>

record system =
  sched :: scheduler
  spawned :: "recon list"
  inflight :: "recon list"

datatype action =
    Register gotime string string bool
  | Report gotime string string "string option"
  | Check gotime
  | Begin recon
  | Finish gotime "string option" recon

inductive recon_step :: "system \<Rightarrow> action \<Rightarrow> system \<Rightarrow> bool" where
  reg: "recon_step s (Register now ex mt cb) (s\<lparr>sched := register_exchange now ex mt cb (sched s)\<rparr>)"
| err: "recon_step s (Report now ex mt e) (s\<lparr>sched := handle_error now ex mt e (sched s)\<rparr>)"
| chk: "\<not> cancelled (sched s) \<Longrightarrow>
    recon_step s (Check now) (s\<lparr>spawned := spawned s @ check_recovery_opportunities now (sched s)\<rparr>)"
| beg: "g \<in> set (spawned s) \<Longrightarrow>
    recon_step s (Begin g) (s\<lparr>sched := begin_attempt g (sched s), spawned := remove1 g (spawned s),
      inflight := g # inflight s\<rparr>)"
| fin: "g \<in> set (inflight s) \<Longrightarrow>
    recon_step s (Finish now result g) (s\<lparr>sched := finish_attempt now result g (sched s),
      inflight := remove1 g (inflight s)\<rparr>)"

inductive recon_run :: "system \<Rightarrow> action list \<Rightarrow> system \<Rightarrow> bool" where
  run_nil: "recon_run s [] s"
| run_cons: "recon_step s a s1 \<Longrightarrow> recon_run s1 as s2 \<Longrightarrow> recon_run s (a # as) s2"

definition initial_system :: system where
  "initial_system = \<lparr>sched = new_scheduler, spawned = [], inflight = []\<rparr>"

inductive_cases recon_finishE: "recon_step s (Finish now result g) s'"

section \<open>Invariant\<close>

definition mgr_ok :: "exchange_manager \<Rightarrow> bool" where
  "mgr_ok m = (State m \<noteq> StateFailed \<and> 0 \<le> RetryCount m \<and> RetryCount m \<le> 1 \<and>
     (State m = StateHealthy \<longrightarrow> RetryCount m = 0))"

definition own_key :: "string \<Rightarrow> exchange_manager \<Rightarrow> bool" where
  "own_key k m = (k = exchange_key (mgrExchange m) (mgrMarket m))"

definition goroutine_ok :: "recon \<Rightarrow> bool" where
  "goroutine_ok g = (fst g = exchange_key (fst (snd g)) (snd (snd g)))"

definition sched_ok :: "scheduler \<Rightarrow> bool" where
  "sched_ok rs = (wf_map (exchanges rs) \<and> maxRetries rs = 3 \<and> cooldownPeriod rs = 3 * minute \<and>
     (\<forall>k m. mget (exchanges rs) k = Some m \<longrightarrow> mgr_ok m \<and> own_key k m))"

definition system_ok :: "system \<Rightarrow> bool" where
  "system_ok s = (sched_ok (sched s) \<and> (\<forall>g \<in> set (spawned s) \<union> set (inflight s). goroutine_ok g))"

definition fatal_action :: "action \<Rightarrow> bool" where
  "fatal_action a =
     (case a of
        Report now ex mt (Some e) \<Rightarrow> classify_error (Some e) = ErrorFatal
      | Finish now (Some e) g \<Rightarrow> classify_error (Some (''reconnection failed: '' @ e)) = ErrorFatal
      | _ \<Rightarrow> False)"

lemma sched_ok_put:
  "sched_ok rs \<Longrightarrow> mgr_ok m \<Longrightarrow> own_key k m \<Longrightarrow> sched_ok (rs\<lparr>exchanges := mput k m (exchanges rs)\<rparr>)"
  by (auto simp: sched_ok_def mget_mput)

lemma sched_ok_count [simp]:
  "sched_ok (rs\<lparr>totalHardResets := n\<rparr>) = sched_ok rs" "sched_ok (rs\<lparr>totalRecoveries := n\<rparr>) = sched_ok rs"
  by (simp_all add: sched_ok_def)

lemma sched_ok_new: "sched_ok new_scheduler"
  by (simp add: sched_ok_def new_scheduler_def)

lemma register_ok: "sched_ok rs \<Longrightarrow> sched_ok (register_exchange now ex mt cb rs) \<and>
    totalHardResets (register_exchange now ex mt cb rs) = totalHardResets rs"
  by (auto simp: register_exchange_def Let_def mgr_ok_def own_key_def intro!: sched_ok_put)

lemma handle_recoverable_ok:
  assumes "sched_ok rs"
  shows "sched_ok (handle_recoverable_error now key e rs) \<and>
    totalHardResets (handle_recoverable_error now key e rs) = totalHardResets rs"
proof (cases "mget (exchanges rs) key")
  case None
  then show ?thesis using assms by (simp add: handle_recoverable_error_def)
next
  case (Some m)
  then have "mgr_ok m" "own_key key m" "maxRetries rs = 3" using assms by (auto simp: sched_ok_def)
  then show ?thesis
    using assms Some
    by (auto simp: handle_recoverable_error_def Let_def mgr_ok_def own_key_def intro!: sched_ok_put)
qed

lemma handle_error_ok:
  assumes "sched_ok rs"
  shows "sched_ok (handle_error now ex mt e rs) \<and>
    totalHardResets (handle_error now ex mt e rs) =
      totalHardResets rs + (if e \<noteq> None \<and> classify_error e = ErrorFatal then 1 else 0)"
  using assms handle_recoverable_ok [OF assms]
  by (auto simp: handle_error_def Let_def handle_fatal_error_def trigger_hard_reset_def
      split: option.split severity.split)

lemma mark_healthy_ok:
  assumes "sched_ok rs"
  shows "sched_ok (mark_healthy now ex mt rs) \<and> totalHardResets (mark_healthy now ex mt rs) = totalHardResets rs"
  using assms
  by (auto simp: mark_healthy_def Let_def sched_ok_def mget_mput mgr_ok_def own_key_def split: option.split)

lemma begin_attempt_ok:
  assumes "sched_ok rs"
  shows "sched_ok (begin_attempt g rs) \<and> totalHardResets (begin_attempt g rs) = totalHardResets rs"
  using assms
  by (auto simp: begin_attempt_def sched_ok_def mget_mput mgr_ok_def own_key_def split: option.split)

lemma finish_attempt_ok:
  assumes "sched_ok rs"
  shows "sched_ok (finish_attempt now r g rs) \<and>
    totalHardResets (finish_attempt now r g rs) =
      totalHardResets rs + (if fatal_action (Finish now r g) then 1 else 0)"
  using handle_error_ok [OF assms] mark_healthy_ok [OF assms]
  by (auto simp: finish_attempt_def fatal_action_def split: option.split prod.split)

lemma check_goroutine_ok:
  assumes "sched_ok rs" "g \<in> set (check_recovery_opportunities now rs)"
  shows "goroutine_ok g \<and> (\<exists>m. mget (exchanges rs) (fst g) = Some m \<and> State m = StateCooldown)"
  using assms
  by (auto simp: check_recovery_opportunities_def sched_ok_def wf_map_def goroutine_ok_def own_key_def)

lemma recon_step_ok:
  assumes "recon_step s a s'" "system_ok s"
  shows "system_ok s' \<and> totalHardResets (sched s') = totalHardResets (sched s) + (if fatal_action a then 1 else 0)"
  using assms
proof (cases rule: recon_step.cases)
  case (reg now ex mt cb)
  then show ?thesis using assms(2) register_ok by (auto simp: system_ok_def fatal_action_def)
next
  case (err now ex mt e)
  then show ?thesis
    using assms(2) handle_error_ok [of "sched s" now ex mt e]
    by (auto simp: system_ok_def fatal_action_def split: option.split)
next
  case (chk now)
  then show ?thesis
    using assms(2) check_goroutine_ok by (auto simp: system_ok_def fatal_action_def)
next
  case (beg g)
  then show ?thesis
    using assms(2) begin_attempt_ok [of "sched s" g]
    by (auto simp: system_ok_def fatal_action_def dest: set_remove1_subset [THEN subsetD])
next
  case (fin g now result)
  then show ?thesis
    using assms(2) finish_attempt_ok [of "sched s" now result g]
    by (auto simp: system_ok_def dest: set_remove1_subset [THEN subsetD])
qed

lemma recon_run_ok:
  "recon_run s as s' \<Longrightarrow> system_ok s \<Longrightarrow>
     system_ok s' \<and> totalHardResets (sched s') = totalHardResets (sched s) + int (length (filter fatal_action as))"
proof (induction rule: recon_run.induct)
  case (run_cons s a s1 as s2)
  then show ?case using recon_step_ok [OF run_cons.hyps(1)] by auto
qed simp

lemma initial_system_ok: "system_ok initial_system"
  by (simp add: system_ok_def initial_system_def sched_ok_new)

lemma check_proposes:
  assumes "wf_map (exchanges rs)" "mget (exchanges rs) key = Some m"
  shows "(key, mgrExchange m, mgrMarket m) \<in> set (check_recovery_opportunities now rs) \<longleftrightarrow>
    State m = StateCooldown \<and> now > CooldownUntil m \<and> hasReconnect m"
proof -
  have "(key, m') \<in> set (exchanges rs) \<longleftrightarrow> m' = m" for m'
    using map_of_eq_Some_iff [of "exchanges rs" key m'] assms by (auto simp: wf_map_def)
  then show ?thesis
    unfolding check_recovery_opportunities_def by force
qed

section \<open>A failed reconnection is final\<close>

definition stuck :: "string \<Rightarrow> system \<Rightarrow> bool" where
  "stuck key s = ((\<exists>m. mget (exchanges (sched s)) key = Some m \<and> State m = StateRetrying) \<and>
     (\<forall>g \<in> set (spawned s) \<union> set (inflight s). fst g \<noteq> key))"

definition registers :: "string \<Rightarrow> action \<Rightarrow> bool" where
  "registers key a = (case a of Register now ex mt cb \<Rightarrow> exchange_key ex mt = key | _ \<Rightarrow> False)"

lemma handle_error_other_state:
  assumes "mget (exchanges rs) key = Some m" "State m = StateRetrying"
  shows "mget (exchanges (handle_error now ex mt e rs)) key = Some m"
  using assms
  by (auto simp: handle_error_def handle_recoverable_error_def handle_fatal_error_def
      trigger_hard_reset_def Let_def mget_mput split: option.split severity.split)

lemma mark_healthy_other:
  "exchange_key ex mt \<noteq> key \<Longrightarrow> mget (exchanges (mark_healthy now ex mt rs)) key = mget (exchanges rs) key"
  by (auto simp: mark_healthy_def Let_def mget_mput split: option.split)

lemma stuck_step:
  assumes "recon_step s a s'" "system_ok s" "stuck key s" "\<not> registers key a"
  shows "stuck key s'"
proof -
  obtain m where m: "mget (exchanges (sched s)) key = Some m" "State m = StateRetrying"
    and gs: "\<forall>g \<in> set (spawned s) \<union> set (inflight s). fst g \<noteq> key"
    using assms(3) by (auto simp: stuck_def)
  show ?thesis
    using assms(1)
  proof (cases rule: recon_step.cases)
    case (reg now ex mt cb)
    then show ?thesis using m gs assms(4)
      by (simp add: stuck_def register_exchange_def Let_def mget_mput registers_def)
  next
    case (err now ex mt e)
    then show ?thesis using handle_error_other_state [OF m] m gs by (simp add: stuck_def)
  next
    case (chk now)
    have "fst g \<noteq> key" if "g \<in> set (check_recovery_opportunities now (sched s))" for g
      using check_goroutine_ok [OF _ that] assms(2) m by (auto simp: system_ok_def)
    with chk show ?thesis using m gs by (auto simp: stuck_def)
  next
    case (beg g)
    then show ?thesis using m gs
      by (auto simp: stuck_def begin_attempt_def mget_mput dest: set_remove1_subset [THEN subsetD] split: option.split)
  next
    case (fin g now result)
    have "goroutine_ok g" "fst g \<noteq> key" using fin assms(2) gs by (auto simp: system_ok_def)
    then have "mget (exchanges (finish_attempt now result g (sched s))) key = Some m"
      using handle_error_other_state [OF m] mark_healthy_other m
      by (auto simp: finish_attempt_def goroutine_ok_def split: option.split prod.split)
    with fin show ?thesis using m gs by (auto simp: stuck_def dest: set_remove1_subset [THEN subsetD])
  qed
qed

lemma stuck_run:
  "recon_run s as s' \<Longrightarrow> system_ok s \<Longrightarrow> stuck key s \<Longrightarrow> \<forall>a \<in> set as. \<not> registers key a \<Longrightarrow> stuck key s'"
proof (induction rule: recon_run.induct)
  case (run_cons s a s1 as s2)
  then show ?case using stuck_step recon_step_ok by (meson list.set_intros)
qed simp

section \<open>Properties\<close>

text \<open>C17. In every run of the recovery system no exchange is ever in the state \<open>FAILED\<close>, no retry
  count exceeds one, and the hard-reset counter counts exactly the fatal errors: the limit of three
  retries and the hard reset behind it cannot be reached by failing reconnections.\<close>

theorem retry_limit_unreachable:
  assumes "recon_run initial_system as s"
  shows "(\<forall>k m. mget (exchanges (sched s)) k = Some m \<longrightarrow> State m \<noteq> StateFailed \<and> RetryCount m \<le> 1) \<and>
    totalHardResets (sched s) = int (length (filter fatal_action as))"
proof -
  have i: "system_ok s \<and> totalHardResets (sched s) =
      totalHardResets (sched initial_system) + int (length (filter fatal_action as))"
    by (rule recon_run_ok [OF assms initial_system_ok])
  then have "totalHardResets (sched s) = int (length (filter fatal_action as))"
    by (simp add: initial_system_def new_scheduler_def)
  with i show ?thesis by (auto simp: system_ok_def sched_ok_def mgr_ok_def)
qed

definition sample_actions :: "action list" where
  "sample_actions = [Register 0 ''okx'' ''spot'' True, Report 0 ''okx'' ''spot'' (Some ''eof'')]"

definition sample_system :: system where
  "sample_system = \<lparr>sched = handle_error 0 ''okx'' ''spot'' (Some ''eof'')
     (register_exchange 0 ''okx'' ''spot'' True new_scheduler), spawned = [], inflight = []\<rparr>"

lemma sample_run: "recon_run initial_system sample_actions sample_system"
proof -
  let ?s1 = "initial_system\<lparr>sched := register_exchange 0 ''okx'' ''spot'' True (sched initial_system)\<rparr>"
  have "recon_step initial_system (Register 0 ''okx'' ''spot'' True) ?s1" by (rule reg)
  moreover have "recon_step ?s1 (Report 0 ''okx'' ''spot'' (Some ''eof''))
      (?s1\<lparr>sched := handle_error 0 ''okx'' ''spot'' (Some ''eof'') (sched ?s1)\<rparr>)" by (rule err)
  moreover have "?s1\<lparr>sched := handle_error 0 ''okx'' ''spot'' (Some ''eof'') (sched ?s1)\<rparr> = sample_system"
    by (simp add: initial_system_def sample_system_def)
  ultimately show ?thesis
    unfolding sample_actions_def using run_cons [OF _ run_cons [OF _ run_nil]] by simp
qed

theorem retry_limit_unreachable_witness:
  "totalHardResets (sched sample_system) = int (length (filter fatal_action sample_actions))"
  using retry_limit_unreachable [OF sample_run] by blast


text \<open>C19. The intended cycle works when the reconnection succeeds: a recoverable error on a healthy
  exchange starts a cooldown, a check proposes the exchange if and only if the cooldown period has
  passed, and a successful attempt makes it healthy with a zero retry count and counts one recovery,
  leaving every other exchange as it was.\<close>

theorem recovery_cycle:
  assumes "wf_map (exchanges rs)" "mget (exchanges rs) (exchange_key ex mt) = Some m"
    and "State m = StateHealthy" "RetryCount m < maxRetries rs" "hasReconnect m"
    and "mgrExchange m = ex" "mgrMarket m = mt" "classify_error (Some e) = ErrorRecoverable"
  shows "let rs1 = handle_error t ex mt (Some e) rs; g = (exchange_key ex mt, ex, mt);
             rs2 = attempt_reconnection t2 None g rs1
         in (g \<in> set (check_recovery_opportunities t1 rs1) \<longleftrightarrow> t1 > t + cooldownPeriod rs) \<and>
            (\<exists>m2. mget (exchanges rs2) (exchange_key ex mt) = Some m2 \<and> State m2 = StateHealthy \<and>
               RetryCount m2 = 0 \<and> LastSuccess m2 = t2 \<and> LastFailure m2 = t) \<and>
            totalRecoveries rs2 = totalRecoveries rs + 1 \<and>
            (\<forall>k. k \<noteq> exchange_key ex mt \<longrightarrow> mget (exchanges rs2) k = mget (exchanges rs) k)"
proof -
  let ?key = "exchange_key ex mt"
  let ?m1 = "m\<lparr>LastFailure := t, TotalFailures := TotalFailures m + 1, RetryCount := RetryCount m + 1,
    State := StateCooldown, CooldownUntil := t + cooldownPeriod rs\<rparr>"
  have rs1: "handle_error t ex mt (Some e) rs = rs\<lparr>exchanges := mput ?key ?m1 (exchanges rs)\<rparr>"
    using assms by (simp add: handle_error_def handle_recoverable_error_def Let_def)
  have "(?key, ex, mt) \<in> set (check_recovery_opportunities t1 (rs\<lparr>exchanges := mput ?key ?m1 (exchanges rs)\<rparr>))
      \<longleftrightarrow> t1 > t + cooldownPeriod rs"
    using check_proposes [of "rs\<lparr>exchanges := mput ?key ?m1 (exchanges rs)\<rparr>" ?key ?m1 t1] assms
    by (simp add: mget_mput)
  then show ?thesis
    unfolding rs1 Let_def
    by (simp add: attempt_reconnection_def begin_attempt_def finish_attempt_def mark_healthy_def
        mget_mput Let_def)
qed

theorem recovery_cycle_witness:
  "let rs = register_exchange 0 ''okx'' ''spot'' True new_scheduler;
       rs1 = handle_error 5 ''okx'' ''spot'' (Some ''eof'') rs;
       rs2 = attempt_reconnection 9 None (''okx_spot'', ''okx'', ''spot'') rs1
   in totalRecoveries rs2 = totalRecoveries rs + 1"
proof -
  have c: "classify_error (Some ''eof'') = ErrorRecoverable"
    by code_simp
  have k: "exchange_key ''okx'' ''spot'' = ''okx_spot''" by (simp add: exchange_key_def)
  let ?rs = "register_exchange 0 ''okx'' ''spot'' True new_scheduler"
  obtain m where m: "mget (exchanges ?rs) (exchange_key ''okx'' ''spot'') = Some m" "State m = StateHealthy"
    "RetryCount m < maxRetries ?rs" "hasReconnect m" "mgrExchange m = ''okx''" "mgrMarket m = ''spot''"
    by (simp add: register_exchange_def new_scheduler_def mget_mput Let_def)
  have "wf_map (exchanges ?rs)" by (simp add: register_exchange_def new_scheduler_def Let_def wf_map_def)
  from recovery_cycle [OF this m c, of 5 9 0] show ?thesis
    by (simp add: Let_def k)
qed

definition retrying_system :: system where
  "retrying_system =
     \<lparr>sched = begin_attempt (''okx_spot'', ''okx'', ''spot'') (sched sample_system),
      spawned = [], inflight = [(''okx_spot'', ''okx'', ''spot'')]\<rparr>"

lemma retrying_run:
  "recon_run initial_system
     (sample_actions @ [Check (4 * minute), Begin (''okx_spot'', ''okx'', ''spot'')]) retrying_system"
proof -
  have app: "recon_run s as s1 \<Longrightarrow> recon_run s1 bs s2 \<Longrightarrow> recon_run s (as @ bs) s2" for s as s1 bs s2
    by (induction rule: recon_run.induct) (auto intro: run_cons)
  let ?g = "(''okx_spot'', ''okx'', ''spot'')"
  let ?s1 = "sample_system\<lparr>spawned := spawned sample_system @ check_recovery_opportunities (4 * minute) (sched sample_system)\<rparr>"
  have c: "classify_error (Some ''eof'') = ErrorRecoverable" by code_simp
  have chk: "check_recovery_opportunities (4 * minute) (sched sample_system) = [?g]"
    by (simp add: check_recovery_opportunities_def sample_system_def handle_error_def c
        handle_recoverable_error_def register_exchange_def new_scheduler_def exchange_key_def Let_def
        duration_defs)
  have "\<not> cancelled (sched sample_system)"
    by (simp add: sample_system_def handle_error_def c handle_recoverable_error_def
        register_exchange_def new_scheduler_def exchange_key_def Let_def)
  then have 1: "recon_step sample_system (Check (4 * minute)) ?s1" by (rule recon_step.chk)
  have "recon_step ?s1 (Begin ?g) (?s1\<lparr>sched := begin_attempt ?g (sched ?s1),
      spawned := remove1 ?g (spawned ?s1), inflight := ?g # inflight ?s1\<rparr>)"
    by (rule recon_step.beg) (simp add: chk)
  moreover have "?s1\<lparr>sched := begin_attempt ?g (sched ?s1), spawned := remove1 ?g (spawned ?s1),
      inflight := ?g # inflight ?s1\<rparr> = retrying_system"
    by (simp add: chk) (simp add: sample_system_def retrying_system_def)
  ultimately have "recon_run sample_system [Check (4 * minute), Begin ?g] retrying_system"
    using run_cons [OF 1 run_cons [OF _ run_nil]] by simp
  from app [OF sample_run this] show ?thesis .
qed


end
