(* ===== verification/ListingParser.thy ===== *)
theory ListingParser
  imports Prelude
begin

text \<open>
  The parser of listing announcements, \<open>internal/monitor/parser.go\<close>.  Its five regular
  expressions are sequences of literals and of greedy repetitions of a character class; they are
  matched by the leftmost-first backtracking that Go's \<open>regexp\<close> specifies, on the bytes of the
  title (every class of the patterns either contains no byte above 127 or all of them, so that
  bytes and runes give the same match).
\<close>

section \<open>Regular expressions of the patterns\<close>

datatype item =
    Lit string
  | Rep nat "char \<Rightarrow> bool"
  | Cap nat "char \<Rightarrow> bool"

text \<open>\<open>Rep n c\<close> is \<open>c*\<close> or \<open>c+\<close> for the least count \<open>n\<close>; \<open>Cap\<close> also captures what it
  matched.  A repetition of \<open>k\<close> characters is tried from the longest down.\<close>

fun match_items :: "item list \<Rightarrow> string \<Rightarrow> string list option"
  and match_rep :: "nat \<Rightarrow> nat \<Rightarrow> bool \<Rightarrow> item list \<Rightarrow> string \<Rightarrow> string list option" where
  "match_items [] s = Some []"
| "match_items (Lit l # r) s = (if has_prefix s l then match_items r (drop (length l) s) else None)"
| "match_items (Rep n c # r) s = match_rep n (length (takeWhile c s)) False r s"
| "match_items (Cap n c # r) s = match_rep n (length (takeWhile c s)) True r s"
| "match_rep n k cap r s =
     (if k < n then None
      else (case match_items r (drop k s) of
              Some cs \<Rightarrow> Some (if cap then take k s # cs else cs)
            | None \<Rightarrow> (if k = 0 then None else match_rep n (k - 1) cap r s)))"

text \<open>\<open>FindStringSubmatch\<close>: the captures of the leftmost match.\<close>

fun find_submatch :: "item list \<Rightarrow> string \<Rightarrow> string list option" where
  "find_submatch p [] = match_items p []"
| "find_submatch p (c # s) =
     (case match_items p (c # s) of Some cs \<Rightarrow> Some cs | None \<Rightarrow> find_submatch p s)"

definition not_open :: "char \<Rightarrow> bool" where "not_open c = (c \<noteq> CHR ''('')"
definition not_close :: "char \<Rightarrow> bool" where "not_close c = (c \<noteq> CHR '')'')"
definition upper :: "char \<Rightarrow> bool" where "upper c = (CHR ''A'' \<le> c \<and> c \<le> CHR ''Z'')"
definition upper_digit :: "char \<Rightarrow> bool" where
  "upper_digit c = (upper c \<or> (CHR ''0'' \<le> c \<and> c \<le> CHR ''9''))"
definition not_upper :: "char \<Rightarrow> bool" where "not_upper c = (\<not> upper c)"
definition re_space :: "char \<Rightarrow> bool" where
  "re_space c = (c = CHR '' '' \<or> c = CHR 0x09 \<or> c = CHR 0x0A \<or> c = CHR 0x0C \<or> c = CHR 0x0D)"

text \<open>The Korean word for market, in UTF-8.\<close>

definition maket :: string where
  "maket = [CHR 0xEB, CHR 0xA7, CHR 0x88, CHR 0xEC, CHR 0xBC, CHR 0x93]"

definition listing_patterns :: "(string \<times> item list) list" where
  "listing_patterns =
     [(''multiple_coin_market'',
        [Cap 1 not_open, Lit ''('', Cap 1 upper_digit, Lit '')'', Rep 0 re_space, Lit ''('',
         Cap 1 not_close, Rep 0 re_space, Lit maket, Lit '')'']),
      (''coins_with_parenthesis_markets'',
        [Cap 1 not_open, Lit ''('', Cap 1 upper_digit, Lit '')'', Rep 0 not_open, Lit ''('',
         Cap 1 not_close, Rep 0 re_space, Lit maket, Lit '')'']),
      (''market_outside_parenthesis'',
        [Cap 1 not_open, Lit ''('', Cap 1 upper_digit, Lit '')'', Rep 0 not_upper, Cap 1 upper,
         Rep 0 re_space, Lit maket]),
      (''single_coin_single_market'',
        [Cap 1 not_open, Lit ''('', Cap 1 upper_digit, Lit '')'', Rep 0 re_space, Cap 1 upper,
         Rep 0 re_space, Lit maket]),
      (''coin_list_in_parenthesis'',
        [Cap 1 upper, Rep 0 re_space, Lit maket, Rep 0 not_open, Lit ''('', Cap 1 not_close,
         Lit '')''])]"

section \<open>The parser\<close>

record listing_result =
  lrSymbol :: string
  lrMarkets :: "string list"
  lrIsKRW :: bool
  lrPattern :: string

definition split_clean :: "string \<Rightarrow> string list" where
  "split_clean s = map to_upper (filter (\<lambda>p. p \<noteq> []) (map trim_space (split_char (CHR '','') s)))"

definition parse_markets :: "string \<Rightarrow> string list" where
  "parse_markets s = split_clean (replace_all (replace_all s maket []) ''market'' [])"

definition parse_symbols :: "string \<Rightarrow> string list" where
  "parse_symbols s = split_clean s"

definition contains_krw :: "string list \<Rightarrow> bool" where
  "contains_krw markets = list_ex (\<lambda>m. to_upper m = ''KRW'') markets"

text \<open>The capture groups are \<open>matches[1..]\<close>, so a pattern with three groups has the length 4
  that the guards ask for.\<close>

definition parse_market_list :: "string list \<Rightarrow> listing_result option" where
  "parse_market_list groups =
     (if length groups + 1 < 4 then None
      else
        (let symbol = trim_space (groups ! 1);
             markets = parse_markets (trim_space (groups ! 2))
         in Some \<lparr>lrSymbol = symbol, lrMarkets = markets, lrIsKRW = contains_krw markets, lrPattern = []\<rparr>))"

definition parse_one_market :: "string list \<Rightarrow> listing_result option" where
  "parse_one_market groups =
     (if length groups + 1 < 4 then None
      else
        (let symbol = trim_space (groups ! 1); market = trim_space (groups ! 2)
         in Some \<lparr>lrSymbol = symbol, lrMarkets = [market], lrIsKRW = (market = ''KRW''), lrPattern = []\<rparr>))"

definition parse_coin_list :: "string list \<Rightarrow> listing_result option" where
  "parse_coin_list groups =
     (if length groups + 1 < 3 then None
      else
        (let market = trim_space (groups ! 0); symbols = parse_symbols (trim_space (groups ! 1))
         in if symbols = [] then None
            else Some \<lparr>lrSymbol = hd symbols, lrMarkets = [market], lrIsKRW = (market = ''KRW''),
                       lrPattern = []\<rparr>))"

definition try_pattern :: "string \<times> item list \<Rightarrow> string \<Rightarrow> listing_result option" where
  "try_pattern pat title =
     (case find_submatch (snd pat) title of
        None \<Rightarrow> None
      | Some groups \<Rightarrow>
          if length groups + 1 < 3 then None
          else if fst pat = ''multiple_coin_market'' then parse_market_list groups
          else if fst pat = ''coins_with_parenthesis_markets'' then parse_market_list groups
          else if fst pat = ''market_outside_parenthesis'' then parse_one_market groups
          else if fst pat = ''single_coin_single_market'' then parse_one_market groups
          else if fst pat = ''coin_list_in_parenthesis'' then parse_coin_list groups
          else None)"

fun try_patterns :: "(string \<times> item list) list \<Rightarrow> string \<Rightarrow> listing_result option" where
  "try_patterns [] title = None"
| "try_patterns (pat # ps) title =
     (case try_pattern pat title of
        Some r \<Rightarrow> Some (r\<lparr>lrPattern := fst pat\<rparr>)
      | None \<Rightarrow> try_patterns ps title)"

definition parse_listing :: "string \<Rightarrow> listing_result option" where
  "parse_listing title = try_patterns listing_patterns (trim_space title)"

fun test_pattern_in :: "(string \<times> item list) list \<Rightarrow> string \<Rightarrow> string \<Rightarrow> listing_result option" where
  "test_pattern_in [] name title = None"
| "test_pattern_in (pat # ps) name title =
     (if fst pat = name then
        (case try_pattern pat title of
           Some r \<Rightarrow> Some (r\<lparr>lrPattern := fst pat\<rparr>)
         | None \<Rightarrow> test_pattern_in ps name title)
      else test_pattern_in ps name title)"

definition test_pattern :: "string \<Rightarrow> string \<Rightarrow> listing_result option" where
  "test_pattern name title = test_pattern_in listing_patterns name title"

section \<open>Facts on the matcher\<close>

declare match_rep.simps [simp del]

lemma match_rep_longest:
  assumes "n \<le> j" "j \<le> k" "match_items r (drop j s) = Some cs"
    and "\<And>i. j < i \<Longrightarrow> i \<le> k \<Longrightarrow> match_items r (drop i s) = None"
  shows "match_rep n k cap r s = Some (if cap then take j s # cs else cs)"
  using assms
proof (induction k)
  case 0
  then show ?case by (simp add: match_rep.simps)
next
  case (Suc k)
  show ?case
  proof (cases "j = Suc k")
    case True
    then show ?thesis using Suc.prems by (simp add: match_rep.simps)
  next
    case False
    then have "match_rep n k cap r s = Some (if cap then take j s # cs else cs)"
      using Suc by auto
    then show ?thesis using Suc.prems False by (simp add: match_rep.simps)
  qed
qed

lemma takeWhile_class: "list_all c w \<Longrightarrow> \<not> c x \<Longrightarrow> takeWhile c (w @ x # s) = w"
  by (induction w) auto

text \<open>A repetition followed by a character outside its class takes all of the word before it.\<close>

lemma match_cap_word:
  assumes "list_all c w" "\<not> c x" "n \<le> length w" "match_items r (x # s) = Some cs"
  shows "match_items (Cap n c # r) (w @ x # s) = Some (w # cs)"
proof -
  have "match_rep n (length w) True r (w @ x # s) =
      Some (if True then take (length w) (w @ x # s) # cs else cs)"
    by (rule match_rep_longest) (use assms in auto)
  then show ?thesis using assms by (simp add: takeWhile_class)
qed

lemma match_rep_none: "\<not> c x \<Longrightarrow> match_items (Rep 0 c # r) (x # s) = match_items r (x # s)"
  by (simp add: match_rep.simps split: option.split)

lemma match_lit: "match_items (Lit l # r) (l @ s) = match_items r s"
  by simp

lemma match_lit1: "match_items (Lit [x] # r) (x # s) = match_items r s"
  by (simp add: has_prefix_def)

lemma replace_all_absent: "hd old \<notin> set s \<Longrightarrow> replace_all s old new = s"
proof (induction s)
  case (Cons x s)
  have "old \<noteq> [] \<Longrightarrow> \<not> has_prefix (x # s) old"
    using Cons.prems by (cases old) (auto simp: has_prefix_def)
  then show ?case using Cons by (subst replace_all.simps) auto
qed (simp add: replace_all.simps)

section \<open>Market lists\<close>

text \<open>A market or coin name: upper-case letters and digits.\<close>

definition code_word :: "string \<Rightarrow> bool" where
  "code_word w = (w \<noteq> [] \<and> list_all upper_digit w)"

fun join_comma :: "string list \<Rightarrow> string" where
  "join_comma [] = []"
| "join_comma [w] = w"
| "join_comma (w # ws) = w @ '', '' @ join_comma ws"

lemma upper_digit_plain:
  assumes "upper_digit c"
  shows "c \<noteq> CHR '','' \<and> \<not> is_space c \<and> \<not> re_space c \<and> c \<noteq> CHR ''('' \<and> c \<noteq> CHR '')'' \<and> c \<noteq> CHR 0xEB \<and>
    c \<noteq> CHR ''m'' \<and> upper_char c = c"
proof -
  have n: "(65 \<le> (of_char c :: nat) \<and> (of_char c :: nat) \<le> 90) \<or> (48 \<le> (of_char c :: nat) \<and> (of_char c :: nat) \<le> 57)"
    using assms by (auto simp: upper_digit_def upper_def less_eq_char_def)
  then have "c \<noteq> CHR '','' \<and> \<not> is_space c \<and> \<not> re_space c \<and> c \<noteq> CHR ''('' \<and> c \<noteq> CHR '')'' \<and> c \<noteq> CHR 0xEB \<and> c \<noteq> CHR ''m''"
    by (auto simp: is_space_def re_space_def)
  moreover have "upper_char c = c" using n by (auto simp: upper_char_def Let_def)
  ultimately show ?thesis by blast
qed

lemma code_word_upper [simp]: "code_word w \<Longrightarrow> to_upper w = w"
  by (auto simp: code_word_def to_upper_def list_all_iff upper_digit_plain intro: map_idI)

lemma code_word_trim: "code_word w \<Longrightarrow> trim_space w = w"
  using upper_digit_plain
  by (intro trim_space_id) (auto simp: code_word_def list_all_iff)

lemma code_word_trim_space: "code_word w \<Longrightarrow> trim_space (CHR '' '' # w) = w"
proof -
  assume w: "code_word w"
  have "trim_space (CHR '' '' # w) = trim_space w" by (simp add: trim_space_def is_space_def)
  then show ?thesis using code_word_trim [OF w] by simp
qed

lemma code_word_no_comma: "code_word w \<Longrightarrow> CHR '','' \<notin> set w"
  using upper_digit_plain by (force simp: code_word_def list_all_iff)

lemma split_clean_join:
  assumes "list_all code_word ws"
  shows "split_clean (join_comma ws) = ws \<and> split_clean (CHR '' '' # join_comma ws) = ws"
  using assms
proof (induction ws rule: join_comma.induct)
  case 1
  then show ?case by (simp add: split_clean_def trim_space_def is_space_def)
next
  case (2 w)
  then show ?case
    using code_word_no_comma [of w]
    by (simp add: split_clean_def split_char_none code_word_trim code_word_trim_space code_word_def [of w])
next
  case (3 w v ws)
  have w: "code_word w" "CHR '','' \<notin> set w" "CHR '','' \<notin> set (CHR '' '' # w)"
    using 3 code_word_no_comma by auto
  have j: "join_comma (w # v # ws) = w @ CHR '','' # (CHR '' '' # join_comma (v # ws))" by simp
  have "split_clean (u @ CHR '','' # s) =
      (if trim_space u = [] then split_clean s else to_upper (trim_space u) # split_clean s)"
    if "CHR '','' \<notin> set u" for u s
    using that by (simp add: split_clean_def split_char_append)
  from this [OF w(2)] this [OF w(3)] 3 w(1) show ?case
    unfolding j by (simp add: code_word_trim code_word_trim_space code_word_def [of w])
qed

lemma join_comma_chars:
  "list_all code_word ws \<Longrightarrow> c \<in> set (join_comma ws) \<Longrightarrow> upper_digit c \<or> c = CHR '','' \<or> c = CHR '' ''"
  by (induction ws rule: join_comma.induct) (auto simp: code_word_def list_all_iff)

lemma parse_markets_join:
  assumes "list_all code_word ws"
  shows "parse_markets (join_comma ws) = ws"
proof -
  have "hd maket \<notin> set (join_comma ws)" "hd ''market'' \<notin> set (join_comma ws)"
    using join_comma_chars [OF assms] upper_digit_plain by (fastforce simp: maket_def)+
  then show ?thesis
    using split_clean_join [OF assms] by (simp add: parse_markets_def replace_all_absent)
qed

lemma join_comma_ends:
  assumes "list_all code_word ws" "ws \<noteq> []"
  shows "join_comma ws \<noteq> [] \<and> upper_digit (hd (join_comma ws)) \<and> upper_digit (last (join_comma ws))"
  using assms
proof (induction ws rule: join_comma.induct)
  case (2 w)
  then show ?case by (auto simp: code_word_def list_all_iff)
next
  case (3 w v ws)
  then show ?case by (auto simp: code_word_def list_all_iff hd_append)
qed simp

lemma trim_join_comma:
  assumes "list_all code_word ws" "ws \<noteq> []"
  shows "trim_space (join_comma ws @ '' '') = join_comma ws"
proof -
  let ?j = "join_comma ws"
  have e: "?j \<noteq> []" "upper_digit (hd ?j)" "upper_digit (last ?j)" using join_comma_ends [OF assms] by auto
  then have "?j = butlast ?j @ [last ?j]" by simp
  moreover have "trim_space (butlast ?j @ [last ?j] @ '' '') = butlast ?j @ [last ?j]"
    using e upper_digit_plain by (intro trim_space_snoc) (auto simp: is_space_def)
  ultimately show ?thesis by (metis append.assoc)
qed

lemma match_market_group:
  assumes "list_all not_close m"
  shows "match_items [Cap 1 not_close, Rep 0 re_space, Lit maket, Lit '')''] (m @ '' '' @ maket @ '')'' @ rest)
     = Some [m @ '' '']"
proof -
  let ?s = "m @ '' '' @ maket @ '')'' @ rest"
  let ?r = "[Rep 0 re_space, Lit maket, Lit '')'']"
  have tw: "takeWhile not_close ?s = m @ '' '' @ maket"
    using takeWhile_class [of not_close "m @ '' '' @ maket" "CHR '')''" rest] assms
    by (simp add: not_close_def maket_def)
  have none: "match_items ?r (x # s) = None" if "\<not> re_space x" "x \<noteq> hd maket" for x s
    unfolding match_rep_none [of re_space, OF that(1)]
    using that(2) by (simp add: has_prefix_def maket_def)
  have hit: "match_items ?r (maket @ '')'' @ rest) = Some []"
    using match_rep_none [of re_space "hd maket" "[Lit maket, Lit '')'']" "tl maket @ '')'' @ rest"]
    by (simp add: maket_def re_space_def has_prefix_def)
  have "match_rep 1 (length m + 7) True ?r ?s = Some (if True then take (length m + 1) ?s # [] else [])"
  proof (rule match_rep_longest)
    show "match_items ?r (drop (length m + 1) ?s) = Some []" using hit by simp
  next
    fix i assume i: "length m + 1 < i" "i \<le> length m + 7"
    then obtain d where d: "i = length m + 1 + d" "d \<in> {1, 2, 3, 4, 5, 6}"
      by (intro that [of "i - (length m + 1)"]) auto
    have "drop i ?s = drop d (maket @ '')'' @ rest)" by (simp add: d(1))
    moreover have "\<exists>x s. drop d (maket @ '')'' @ rest) = x # s \<and> \<not> re_space x \<and> x \<noteq> hd maket"
      using d(2) by (auto simp: maket_def re_space_def)
    ultimately obtain x s where x: "drop i ?s = x # s" "\<not> re_space x" "x \<noteq> hd maket" by auto
    show "match_items ?r (drop i ?s) = None" unfolding x(1) by (rule none [OF x(2,3)])
  qed simp_all
  moreover have "length (takeWhile not_close ?s) = length m + 7"
    unfolding tw by (simp add: maket_def)
  ultimately show ?thesis by simp
qed

lemma parse_paren_form:
  assumes "nm \<noteq> []" "list_all not_open nm" "\<not> is_space (hd nm)"
    and "code_word sm" "list_all code_word ms" "ms \<noteq> []"
    and "rest = [] \<or> \<not> is_space (last rest)"
  shows "parse_listing (nm @ ''('' @ sm @ '')('' @ join_comma ms @ '' '' @ maket @ '')'' @ rest) =
    Some \<lparr>lrSymbol = sm, lrMarkets = ms, lrIsKRW = (''KRW'' \<in> set ms), lrPattern = ''multiple_coin_market''\<rparr>"
proof -
  let ?m = "join_comma ms"
  let ?t = "nm @ ''('' @ sm @ '')('' @ ?m @ '' '' @ maket @ '')'' @ rest"
  let ?p = "[Cap 1 not_open, Lit ''('', Cap 1 upper_digit, Lit '')'', Rep 0 re_space, Lit ''('',
         Cap 1 not_close, Rep 0 re_space, Lit maket, Lit '')'']"
  have trim: "trim_space ?t = ?t"
    using assms(1,3,7) by (intro trim_space_id) (auto simp: is_space_def)
  have m: "list_all not_close ?m"
    using join_comma_chars [OF assms(5)] upper_digit_plain
    by (force simp: list_all_iff not_close_def)
  have s: "list_all upper_digit sm" "sm \<noteq> []" using assms(4) by (auto simp: code_word_def)
  have np: "\<not> not_open CHR ''(''" "\<not> upper_digit CHR '')''" "\<not> re_space CHR ''(''"
    by (auto simp: not_open_def re_space_def upper_digit_def upper_def less_eq_char_def)
  have "match_items (drop 4 ?p) (''('' @ ?m @ '' '' @ maket @ '')'' @ rest) = Some [?m @ '' '']"
    using match_market_group [OF m, of rest] match_rep_none [of re_space, OF np(3)] by (simp add: has_prefix_def)
  then have "match_items (drop 2 ?p) (sm @ CHR '')'' # ''('' @ ?m @ '' '' @ maket @ '')'' @ rest) = Some [sm, ?m @ '' '']"
    using match_cap_word [OF s(1) np(2), of 1] s(2) by (simp add: has_prefix_def Suc_le_eq)
  then have "match_items ?p (nm @ CHR ''('' # sm @ CHR '')'' # ''('' @ ?m @ '' '' @ maket @ '')'' @ rest) =
      Some [nm, sm, ?m @ '' '']"
    using match_cap_word [OF assms(2) np(1), of 1] assms(1) by (simp add: has_prefix_def Suc_le_eq)
  then have "match_items ?p ?t = Some [nm, sm, ?m @ '' '']" by simp
  moreover have "?t \<noteq> []" by simp
  ultimately have "find_submatch ?p ?t = Some [nm, sm, ?m @ '' '']"
    by (cases ?t) (simp_all del: match_items.simps)
  then have "try_pattern (''multiple_coin_market'', ?p) ?t =
      Some \<lparr>lrSymbol = sm, lrMarkets = ms, lrIsKRW = contains_krw ms, lrPattern = []\<rparr>"
    using trim_join_comma [OF assms(5,6)] parse_markets_join [OF assms(5)] code_word_trim [OF assms(4)]
    by (simp add: try_pattern_def parse_market_list_def)
  moreover have "contains_krw ms = (''KRW'' \<in> set ms)"
  proof -
    have "contains_krw ms = list_ex (\<lambda>m. m = ''KRW'') ms"
      using assms(5) by (auto simp: contains_krw_def list_ex_iff list_all_iff)
    then show ?thesis by (auto simp: list_ex_iff)
  qed
  ultimately show ?thesis
    unfolding parse_listing_def trim listing_patterns_def by simp
qed

section \<open>Properties\<close>

text \<open>C20. A notice of the form \<open>name(SYMBOL)(MARKET, ..., MARKET maket)\<close> is parsed back to its symbol
  and its list of markets, and is a KRW listing exactly if KRW is one of them, whatever the name
  before and the text after it.\<close>

theorem parse_listing_roundtrip:
  assumes "nm \<noteq> []" "list_all not_open nm" "\<not> is_space (hd nm)"
    and "code_word sm" "list_all code_word ms" "ms \<noteq> []"
    and "rest = [] \<or> \<not> is_space (last rest)"
  shows "parse_listing (nm @ ''('' @ sm @ '')('' @ join_comma ms @ '' '' @ maket @ '')'' @ rest) =
    Some \<lparr>lrSymbol = sm, lrMarkets = ms, lrIsKRW = (''KRW'' \<in> set ms), lrPattern = ''multiple_coin_market''\<rparr>"
  using assms by (rule parse_paren_form)

theorem parse_listing_roundtrip_witness:
  "parse_listing (''Celestia'' @ ''('' @ ''TIA'' @ '')('' @ join_comma [''KRW'', ''BTC''] @ '' '' @ maket @ '')'' @ [])
     = Some \<lparr>lrSymbol = ''TIA'', lrMarkets = [''KRW'', ''BTC''], lrIsKRW = True,
         lrPattern = ''multiple_coin_market''\<rparr>"
proof -
  have "code_word ''TIA''" "list_all code_word [''KRW'', ''BTC'']"
    by (simp_all add: code_word_def upper_digit_def upper_def less_eq_char_def)
  moreover have "list_all not_open ''Celestia''" by (simp add: not_open_def)
  ultimately show ?thesis
    using parse_listing_roundtrip [of "''Celestia''" "''TIA''" "[''KRW'', ''BTC'']" "[]"]
    by (simp add: is_space_def del: join_comma.simps)
qed

text \<open>A notice that lists two coins yields only one of them: the first is dropped.\<close>

theorem multi_coin_notice_loses_coins:
  "map_option (\<lambda>r. (lrSymbol r, lrIsKRW r))
     (parse_listing (''VeChain(VET), Algorand(ALGO) (KRW '' @ maket @ '')'')) = Some (''ALGO'', True)"
  by code_simp

end
