(* ===== verification/ListingEvent.thy ===== *)
theory ListingEvent
  imports Prelude
begin

text \<open>The listing event of \<open>internal/models/listing_event.go\<close>, which the Upbit monitor detects and the
  task manager stores.\<close>

record listing_event =
  evID :: string
  evTitle :: string
  evSymbol :: string
  evMarkets :: "string list"
  AnnouncedAt :: gotime
  DetectedAt :: gotime
  NoticeURL :: string
  evTriggerTime :: gotime
  IsKRWListing :: bool

text \<open>\<open>strings.Join\<close>.\<close>

fun join_strings :: "string \<Rightarrow> string list \<Rightarrow> string" where
  "join_strings sep [] = []"
| "join_strings sep [w] = w"
| "join_strings sep (w # ws) = w @ sep @ join_strings sep ws"

end
