(* ===== verification/UpbitMonitor.thy ===== *)
theory UpbitMonitor
  imports ListingParser ListingEvent
begin

text \<open>
  The Upbit announcement monitor: the persistent record of processed notices
  (\<open>internal/monitor/persistent_state.go\<close>) and the poll that turns announcements into triggers of
  the data collection (\<open>internal/monitor/upbit.go\<close>).

  The clock is an argument; all readings within the processing of one poll are the same.  The HTTP
  exchange, the JSON codec, the file system and the task manager's answer are arguments.  A spawned
  \<open>go ps.SaveState()\<close> is counted in \<open>pendingSaves\<close>.
\<close>

section \<open>Persistent state\<close>

record notice_record =
  ProcessedAt :: gotime
  nrAnnouncedAt :: gotime
  nrDetectedAt :: gotime
  nrSymbol :: string
  nrTitle :: string
  DelayDuration :: int
  Success :: bool

record monitor_state =
  ProcessedNotices :: "(string, notice_record) gomap"
  LastPoll :: gotime
  TotalPolls :: int
  DetectedListings :: int
  SystemStartTime :: gotime
  LastDetectionDelay :: int
  AverageDelay :: int
  MaxDelay :: int
  ConsecutiveFailures :: int
  LastErrorTime :: gotime
  LastErrorMessage :: string
  Version :: string

record persistent_state =
  psState :: monitor_state
  lastSaveTime :: gotime
  saveInterval :: int
  maxRetention :: int
  pendingSaves :: nat

datatype state_error = CreateFailed | EncodeFailed | RenameFailed | OpenFailed | ParseFailed

definition fresh_monitor_state :: "gotime \<Rightarrow> monitor_state" where
  "fresh_monitor_state now =
     \<lparr>ProcessedNotices = [], LastPoll = zero_time, TotalPolls = 0, DetectedListings = 0,
      SystemStartTime = now, LastDetectionDelay = 0, AverageDelay = 0, MaxDelay = 0,
      ConsecutiveFailures = 0, LastErrorTime = zero_time, LastErrorMessage = [], Version = ''2.0''\<rparr>"

text \<open>\<open>loadState\<close>: \<open>disk\<close> is the file, \<open>os_read\<close> opening and reading it, \<open>dec\<close> the JSON
  decoder.\<close>

definition load_state ::
  "('f \<Rightarrow> 'f option) \<Rightarrow> ('f \<Rightarrow> monitor_state option) \<Rightarrow> 'f option \<Rightarrow> persistent_state \<Rightarrow>
     state_error option \<times> persistent_state" where
  "load_state os_read dec disk ps =
     (case disk of
        None \<Rightarrow> (None, ps)
      | Some f \<Rightarrow>
          (case os_read f of
             None \<Rightarrow> (Some OpenFailed, ps)
           | Some data \<Rightarrow>
               (case dec data of
                  None \<Rightarrow> (Some ParseFailed, ps)
                | Some loaded \<Rightarrow>
                    if Version loaded \<noteq> Version (psState ps) then (None, ps)
                    else (None, ps\<lparr>psState := loaded\<rparr>))))"

text \<open>\<open>NewPersistentState\<close>: \<^const>\<open>None\<close> if the directory cannot be made; a failed load is
  only reported.\<close>

definition new_persistent_state ::
  "bool \<Rightarrow> ('f \<Rightarrow> 'f option) \<Rightarrow> ('f \<Rightarrow> monitor_state option) \<Rightarrow> 'f option \<Rightarrow> gotime \<Rightarrow> persistent_state option" where
  "new_persistent_state mkdir os_read dec disk now =
     (if \<not> mkdir then None
      else Some (snd (load_state os_read dec disk
             \<lparr>psState = fresh_monitor_state now, lastSaveTime = zero_time, saveInterval = 30 * second,
              maxRetention = 24 * hour, pendingSaves = 0\<rparr>)))"

definition is_notice_processed :: "gotime \<Rightarrow> string \<Rightarrow> persistent_state \<Rightarrow> bool" where
  "is_notice_processed now noticeID ps =
     (case mget (ProcessedNotices (psState ps)) noticeID of
        None \<Rightarrow> False
      | Some rec \<Rightarrow> if now - ProcessedAt rec > maxRetention ps then False else True)"

definition update_delay_statistics :: "int \<Rightarrow> monitor_state \<Rightarrow> monitor_state" where
  "update_delay_statistics delay st =
     (let st1 = st\<lparr>LastDetectionDelay := delay\<rparr>;
          st2 = (if delay > MaxDelay st1 then st1\<lparr>MaxDelay := delay\<rparr> else st1)
      in if AverageDelay st2 = 0 then st2\<lparr>AverageDelay := delay\<rparr>
         else st2\<lparr>AverageDelay := wrap64 (AverageDelay st2 + delay) sdiv 2\<rparr>)"

definition spawn_save :: "persistent_state \<Rightarrow> persistent_state" where
  "spawn_save ps = ps\<lparr>pendingSaves := pendingSaves ps + 1\<rparr>"

definition mark_notice_processed ::
  "gotime \<Rightarrow> string \<Rightarrow> notice_record \<Rightarrow> persistent_state \<Rightarrow> persistent_state" where
  "mark_notice_processed now noticeID rec0 ps =
     (let rec = rec0\<lparr>ProcessedAt := now\<rparr>;
          st = (psState ps)\<lparr>ProcessedNotices := mput noticeID rec (ProcessedNotices (psState ps)),
                           DetectedListings := DetectedListings (psState ps) + 1\<rparr>;
          st' = (if Success rec \<and> DelayDuration rec > 0
                 then update_delay_statistics (DelayDuration rec) st else st);
          ps' = ps\<lparr>psState := st'\<rparr>
      in if now - lastSaveTime ps' > saveInterval ps' then spawn_save ps' else ps')"

definition update_poll_statistics :: "gotime \<Rightarrow> persistent_state \<Rightarrow> persistent_state" where
  "update_poll_statistics now ps =
     ps\<lparr>psState := (psState ps)\<lparr>TotalPolls := TotalPolls (psState ps) + 1, LastPoll := now,
                              ConsecutiveFailures := 0\<rparr>\<rparr>"

definition record_error :: "gotime \<Rightarrow> string \<Rightarrow> persistent_state \<Rightarrow> persistent_state" where
  "record_error now msg ps =
     spawn_save (ps\<lparr>psState := (psState ps)\<lparr>
        ConsecutiveFailures := ConsecutiveFailures (psState ps) + 1,
        LastErrorTime := now, LastErrorMessage := msg\<rparr>\<rparr>)"

definition get_statistics :: "gotime \<Rightarrow> persistent_state \<Rightarrow> monitor_state" where
  "get_statistics now ps =
     (psState ps)\<lparr>ProcessedNotices :=
        filter (\<lambda>(id, rec). ProcessedAt rec > now + (- 1 * hour)) (ProcessedNotices (psState ps))\<rparr>"

definition cleanup_old_records :: "gotime \<Rightarrow> persistent_state \<Rightarrow> persistent_state" where
  "cleanup_old_records now ps =
     (let cutoff = now + (- maxRetention ps);
          kept = filter (\<lambda>(id, rec). \<not> ProcessedAt rec < cutoff) (ProcessedNotices (psState ps));
          cleaned = length (ProcessedNotices (psState ps)) - length kept;
          ps' = ps\<lparr>psState := (psState ps)\<lparr>ProcessedNotices := kept\<rparr>\<rparr>
      in if cleaned > 0 then spawn_save ps' else ps')"

text \<open>\<open>SaveState\<close>: \<open>create\<close> and \<open>rename\<close> tell whether the file operations succeed, \<open>enc\<close> is
  the JSON encoder.\<close>

definition save_state ::
  "bool \<Rightarrow> bool \<Rightarrow> (monitor_state \<Rightarrow> 'f option) \<Rightarrow> gotime \<Rightarrow> persistent_state \<Rightarrow> 'f option \<Rightarrow>
     state_error option \<times> persistent_state \<times> 'f option" where
  "save_state create rename enc now ps disk =
     (if \<not> create then (Some CreateFailed, ps, disk)
      else (case enc (psState ps) of
              None \<Rightarrow> (Some EncodeFailed, ps, disk)
            | Some f \<Rightarrow>
                if \<not> rename then (Some RenameFailed, ps, disk)
                else (None, ps\<lparr>lastSaveTime := now\<rparr>, Some f)))"

definition force_cleanup ::
  "bool \<Rightarrow> bool \<Rightarrow> (monitor_state \<Rightarrow> 'f option) \<Rightarrow> gotime \<Rightarrow> persistent_state \<Rightarrow> 'f option \<Rightarrow>
     state_error option \<times> persistent_state \<times> 'f option" where
  "force_cleanup create rename enc now ps disk =
     save_state create rename enc now (cleanup_old_records now ps) disk"

definition health_score :: "gotime \<Rightarrow> persistent_state \<Rightarrow> int" where
  "health_score now ps =
     (let lastPollAge = now - LastPoll (psState ps);
          s0 = 100;
          s1 = (if ConsecutiveFailures (psState ps) > 3 then s0 - 30 else s0);
          s2 = (if lastPollAge > 30 * second then s1 - 20 else s1)
      in if AverageDelay (psState ps) > 5 * minute then s2 - 25 else s2)"

section \<open>Announcements\<close>

record announcement =
  annID :: int
  annTitle :: string
  ListedAt :: string
  FirstListedAt :: string
  Category :: string
  NeedNewBadge :: bool
  NeedUpdateBadge :: bool

record api_response =
  apiSuccess :: bool
  TotalPages :: int
  TotalCount :: int
  Notices :: "announcement list"
  FixedNotices :: "announcement list"

section \<open>Parsing the announcement time\<close>

text \<open>\<open>time.Parse\<close> for the layout \<open>2006-01-02T15:04:05-07:00\<close>: four-digit year, two-digit
  fields (the hour may have one digit), an optional fraction of the second and a numeric zone.\<close>

definition leap_year :: "int \<Rightarrow> bool" where
  "leap_year y = (y mod 4 = 0 \<and> (y mod 100 \<noteq> 0 \<or> y mod 400 = 0))"

definition days_in :: "int \<Rightarrow> int \<Rightarrow> int" where
  "days_in m y =
     (if m = 2 then (if leap_year y then 29 else 28)
      else if m = 4 \<or> m = 6 \<or> m = 9 \<or> m = 11 then 30 else 31)"

text \<open>Days since the epoch of a date of the proleptic Gregorian calendar.\<close>

definition epoch_days :: "int \<Rightarrow> int \<Rightarrow> int \<Rightarrow> int" where
  "epoch_days y m d =
     (let y' = (if m \<le> 2 then y - 1 else y);
          era = y' div 400; yoe = y' mod 400;
          doy = (153 * (if m > 2 then m - 3 else m + 9) + 2) div 5 + d - 1;
          doe = yoe * 365 + yoe div 4 - yoe div 100 + doy
      in era * 146097 + doe - 719468)"

definition get_digits :: "nat \<Rightarrow> string \<Rightarrow> (int \<times> string) option" where
  "get_digits n s =
     (if n \<le> length s \<and> list_all is_digit (take n s)
      then Some (int (digits_val (take n s)), drop n s) else None)"

definition get_hour :: "string \<Rightarrow> (int \<times> string) option" where
  "get_hour s = (case get_digits 2 s of Some r \<Rightarrow> Some r | None \<Rightarrow> get_digits 1 s)"

definition get_lit :: "string \<Rightarrow> string \<Rightarrow> string option" where
  "get_lit l s = (if has_prefix s l then Some (drop (length l) s) else None)"

definition get_fraction :: "string \<Rightarrow> int \<times> string" where
  "get_fraction s =
     (if length s \<ge> 2 \<and> (hd s = CHR ''.'' \<or> hd s = CHR '','') \<and> is_digit (s ! 1)
      then
        (let ds = takeWhile is_digit (tl s); nine = take 9 ds
         in (int (digits_val nine) * 10 ^ (9 - length nine), drop (length ds) (tl s)))
      else (0, s))"

definition get_zone :: "string \<Rightarrow> (int \<times> string) option" where
  "get_zone s =
     (if length s < 6 \<or> s ! 3 \<noteq> CHR '':'' then None
      else
        (case (get_digits 2 (take 2 (drop 1 s)), get_digits 2 (take 2 (drop 4 s))) of
           (Some (hh, _), Some (mm, _)) \<Rightarrow>
             if hh > 24 \<or> mm > 60 then None
             else if hd s = CHR ''+'' then Some ((hh * 60 + mm) * 60, drop 6 s)
             else if hd s = CHR ''-'' then Some (- ((hh * 60 + mm) * 60), drop 6 s)
             else None
         | _ \<Rightarrow> None))"

definition parse_listed_at :: "string \<Rightarrow> gotime option" where
  "parse_listed_at s0 =
     Option.bind (get_digits 4 s0) (\<lambda>(y, s1). Option.bind (get_lit ''-'' s1) (\<lambda>s2.
     Option.bind (get_digits 2 s2) (\<lambda>(mo, s3). Option.bind (get_lit ''-'' s3) (\<lambda>s4.
     Option.bind (get_digits 2 s4) (\<lambda>(d, s5). Option.bind (get_lit ''T'' s5) (\<lambda>s6.
     Option.bind (get_hour s6) (\<lambda>(h, s7). Option.bind (get_lit '':'' s7) (\<lambda>s8.
     Option.bind (get_digits 2 s8) (\<lambda>(mi, s9). Option.bind (get_lit '':'' s9) (\<lambda>s10.
     Option.bind (get_digits 2 s10) (\<lambda>(sec, s11).
       (case get_fraction s11 of (ns, s12) \<Rightarrow>
          Option.bind (get_zone s12) (\<lambda>(off, s13).
            if mo < 1 \<or> mo > 12 \<or> d < 1 \<or> d > days_in mo y \<or> h \<ge> 24 \<or> mi \<ge> 60 \<or> sec \<ge> 60 \<or> s13 \<noteq> []
            then None
            else Some ((epoch_days y mo d * 86400 + h * 3600 + mi * 60 + sec - off) * second + ns)))
     )))))))))))"

section \<open>The monitor\<close>

record monitor_stats =
  msTotalPolls :: int
  msDetectedListings :: int
  SuccessfulTriggers :: int
  FailedTriggers :: int
  LastCheck :: gotime
  LastDetection :: gotime
  AverageResponseTime :: int

record upbit_monitor =
  umEnabled :: bool
  umRunning :: bool
  umCancelled :: bool
  umStats :: monitor_stats
  umState :: persistent_state

datatype start_error = AlreadyRunning | MonitorDisabled

definition new_upbit_monitor :: "bool \<Rightarrow> gotime \<Rightarrow> persistent_state \<Rightarrow> upbit_monitor" where
  "new_upbit_monitor enabled now ps =
     \<lparr>umEnabled = enabled, umRunning = False, umCancelled = False,
      umStats = \<lparr>msTotalPolls = 0, msDetectedListings = 0, SuccessfulTriggers = 0, FailedTriggers = 0,
        LastCheck = now, LastDetection = zero_time, AverageResponseTime = 0\<rparr>,
      umState = ps\<rparr>"

definition start_monitor :: "upbit_monitor \<Rightarrow> start_error + upbit_monitor" where
  "start_monitor um =
     (if umRunning um then Inl AlreadyRunning
      else if \<not> umEnabled um then Inl MonitorDisabled
      else Inr (um\<lparr>umRunning := True\<rparr>))"

definition stop_monitor ::
  "bool \<Rightarrow> bool \<Rightarrow> (monitor_state \<Rightarrow> 'f option) \<Rightarrow> gotime \<Rightarrow> upbit_monitor \<Rightarrow> 'f option \<Rightarrow>
     upbit_monitor \<times> 'f option" where
  "stop_monitor create rename enc now um disk =
     (if \<not> umRunning um then (um, disk)
      else (case force_cleanup create rename enc now (umState um) disk of
              (_, ps, disk') \<Rightarrow> (um\<lparr>umRunning := False, umCancelled := True, umState := ps\<rparr>, disk')))"

text \<open>The Korean keywords, in UTF-8.\<close>

definition kw_new_support :: string where
  "kw_new_support =
     [CHR 0xEC, CHR 0x8B, CHR 0xA0, CHR 0xEA, CHR 0xB7, CHR 0x9C, CHR '' '',
      CHR 0xEA, CHR 0xB1, CHR 0xB0, CHR 0xEB, CHR 0x9E, CHR 0x98,
      CHR 0xEC, CHR 0xA7, CHR 0x80, CHR 0xEC, CHR 0x9B, CHR 0x90]"

definition would_process_announcement :: "gotime \<Rightarrow> announcement \<Rightarrow> bool" where
  "would_process_announcement now a =
     (case parse_listed_at (ListedAt a) of
        None \<Rightarrow> False
      | Some announcedAt \<Rightarrow>
          if now - announcedAt > 30 * minute then False
          else
            (let hasKRWContent =
                   contains_str (to_lower (annTitle a)) ''krw'' \<or>
                   contains_str (to_lower (annTitle a)) kw_new_support \<or>
                   contains_str (to_lower (annTitle a)) maket
             in NeedNewBadge a \<or> (NeedUpdateBadge a \<and> hasKRWContent)))"

definition should_process_announcement :: "gotime \<Rightarrow> announcement \<Rightarrow> persistent_state \<Rightarrow> bool" where
  "should_process_announcement now a ps =
     (let noticeID = show_int (annID a) in
      if is_notice_processed now noticeID ps then False else would_process_announcement now a)"

definition parse_listing_announcement :: "gotime \<Rightarrow> announcement \<Rightarrow> listing_event option" where
  "parse_listing_announcement now a =
     (case parse_listing (annTitle a) of
        None \<Rightarrow> None
      | Some r \<Rightarrow>
          if \<not> lrIsKRW r then None
          else
            (let announcedAt = (case parse_listed_at (ListedAt a) of Some t \<Rightarrow> t | None \<Rightarrow> zero_time)
             in Some \<lparr>evID = show_int (annID a), evTitle = annTitle a, evSymbol = lrSymbol r,
                  evMarkets = lrMarkets r, AnnouncedAt = announcedAt, DetectedAt = now,
                  NoticeURL = ''https://upbit.com/service_center/notice?id='' @ show_int (annID a),
                  evTriggerTime = announcedAt, IsKRWListing = lrIsKRW r\<rparr>))"

text \<open>\<open>trigger sym t\<close> is the error of \<open>StartDataCollection\<close>; the failure of storing the event
  is only printed, so it is no part of the result.\<close>

definition trigger_data_collection :: "(string \<Rightarrow> gotime \<Rightarrow> string option) \<Rightarrow> listing_event \<Rightarrow> string option" where
  "trigger_data_collection trigger ev =
     (case trigger (evSymbol ev) (AnnouncedAt ev) of
        Some e \<Rightarrow> Some (''failed to start WebSocket data collection: '' @ e)
      | None \<Rightarrow> None)"

definition handle_listing_event ::
  "(string \<Rightarrow> gotime \<Rightarrow> string option) \<Rightarrow> gotime \<Rightarrow> listing_event \<Rightarrow> upbit_monitor \<Rightarrow> upbit_monitor" where
  "handle_listing_event trigger now ev um =
     (let rec = \<lparr>ProcessedAt = zero_time, nrAnnouncedAt = AnnouncedAt ev, nrDetectedAt = DetectedAt ev,
            nrSymbol = evSymbol ev, nrTitle = evTitle ev,
            DelayDuration = DetectedAt ev - AnnouncedAt ev, Success = True\<rparr>;
          ps1 = mark_notice_processed now (evID ev) rec (umState um);
          st1 = (umStats um)\<lparr>msDetectedListings := msDetectedListings (umStats um) + 1,
                            LastDetection := DetectedAt ev\<rparr>
      in case trigger_data_collection trigger ev of
           Some e \<Rightarrow>
             um\<lparr>umStats := st1\<lparr>FailedTriggers := FailedTriggers st1 + 1\<rparr>,
                umState := record_error now
                   (''Data collection failed for '' @ evSymbol ev @ '': '' @ e)
                   (mark_notice_processed now (evID ev) (rec\<lparr>Success := False\<rparr>) ps1)\<rparr>
         | None \<Rightarrow>
             um\<lparr>umStats := st1\<lparr>SuccessfulTriggers := SuccessfulTriggers st1 + 1\<rparr>,
                umState := mark_notice_processed now (evID ev) rec ps1\<rparr>)"

text \<open>The second component lists the events handed to the data collection.\<close>

fun process_announcements ::
  "(string \<Rightarrow> gotime \<Rightarrow> string option) \<Rightarrow> gotime \<Rightarrow> announcement list \<Rightarrow> upbit_monitor \<Rightarrow>
     upbit_monitor \<times> listing_event list" where
  "process_announcements trigger now [] um = (um, [])"
| "process_announcements trigger now (a # as) um =
     (if should_process_announcement now a (umState um) then
        (case parse_listing_announcement now a of
           None \<Rightarrow> process_announcements trigger now as um
         | Some ev \<Rightarrow>
             (case process_announcements trigger now as (handle_listing_event trigger now ev um) of
                (um', evs) \<Rightarrow> (um', ev # evs)))
      else process_announcements trigger now as um)"

text \<open>The outcome of the HTTP exchange, in the order of the checks of \<open>fetchAnnouncements\<close>, and
  what it hands to the performance analyzer.\<close>

datatype http_outcome =
    RequestError string
  | DoError string
  | BadStatus int
  | ReadError string
  | ParseError string nat
  | Response api_response nat

record api_call =
  acStatus :: int
  acSuccess :: bool
  acError :: string
  acSize :: nat
  acCount :: nat
  acNewListing :: bool

definition fetch_announcements ::
  "gotime \<Rightarrow> http_outcome \<Rightarrow> api_call \<times> (string + announcement list)" where
  "fetch_announcements now r =
     (let failed = (\<lambda>status size msg.
            (\<lparr>acStatus = status, acSuccess = False, acError = msg, acSize = size, acCount = 0,
              acNewListing = False\<rparr>, Inl msg))
      in case r of
           RequestError e \<Rightarrow> failed 0 0 (''failed to create request: '' @ e)
         | DoError e \<Rightarrow> failed 0 0 (''HTTP request failed: '' @ e)
         | BadStatus c \<Rightarrow> failed c 0 (''API returned status: '' @ show_int c)
         | ReadError e \<Rightarrow> failed 200 0 (''failed to read response: '' @ e)
         | ParseError e n \<Rightarrow> failed 200 n (''failed to parse JSON: '' @ e)
         | Response resp n \<Rightarrow>
             if \<not> apiSuccess resp then failed 200 n ''API returned unsuccessful response''
             else (\<lparr>acStatus = 200, acSuccess = True, acError = [], acSize = n,
                     acCount = length (Notices resp),
                     acNewListing = list_ex (would_process_announcement now) (Notices resp)\<rparr>,
                   Inr (Notices resp)))"

definition update_average_response_time :: "int \<Rightarrow> upbit_monitor \<Rightarrow> upbit_monitor" where
  "update_average_response_time rt um =
     (let st = umStats um in
      if AverageResponseTime st = 0
      then um\<lparr>umStats := st\<lparr>AverageResponseTime := rt\<rparr>\<rparr>
      else um\<lparr>umStats := st\<lparr>AverageResponseTime := wrap64 (AverageResponseTime st + rt) sdiv 2\<rparr>\<rparr>)"

definition check_for_listings ::
  "(string \<Rightarrow> gotime \<Rightarrow> string option) \<Rightarrow> gotime \<Rightarrow> gotime \<Rightarrow> http_outcome \<Rightarrow> upbit_monitor \<Rightarrow>
     upbit_monitor \<times> listing_event list" where
  "check_for_listings trigger start now r um =
     (let um1 = um\<lparr>umStats := (umStats um)\<lparr>msTotalPolls := msTotalPolls (umStats um) + 1,
                                        LastCheck := start\<rparr>\<rparr>
      in case snd (fetch_announcements now r) of
           Inl e \<Rightarrow> (um1\<lparr>umState := record_error now (''API fetch failed: '' @ e) (umState um1)\<rparr>, [])
         | Inr anns \<Rightarrow>
             (let um2 = update_average_response_time (now - start) um1;
                  um3 = um2\<lparr>umState := update_poll_statistics now (umState um2)\<rparr>
              in process_announcements trigger now anns um3))"

section \<open>Runs\<close>

datatype monitor_action =
    Poll "string \<Rightarrow> gotime \<Rightarrow> string option" gotime gotime http_outcome
  | CleanupAt gotime

fun action_time :: "monitor_action \<Rightarrow> gotime" where
  "action_time (Poll trigger start now r) = now"
| "action_time (CleanupAt now) = now"

text \<open>A run lists the triggers with the time of their poll.\<close>

fun monitor_run :: "monitor_action list \<Rightarrow> upbit_monitor \<Rightarrow> upbit_monitor \<times> (gotime \<times> listing_event) list" where
  "monitor_run [] um = (um, [])"
| "monitor_run (Poll trigger start now r # as) um =
     (case check_for_listings trigger start now r um of
        (um1, evs) \<Rightarrow>
          (case monitor_run as um1 of (um2, tr) \<Rightarrow> (um2, map (Pair now) evs @ tr)))"
| "monitor_run (CleanupAt now # as) um =
     monitor_run as (um\<lparr>umState := cleanup_old_records now (umState um)\<rparr>)"

section \<open>A notice triggers once a day\<close>

definition recent :: "string \<Rightarrow> gotime \<Rightarrow> persistent_state \<Rightarrow> bool" where
  "recent nid t ps = (\<exists>rec. mget (ProcessedNotices (psState ps)) nid = Some rec \<and> ProcessedAt rec \<ge> t)"

lemma update_delay_frame [simp]:
  "ProcessedNotices (update_delay_statistics d st) = ProcessedNotices st"
  "DetectedListings (update_delay_statistics d st) = DetectedListings st"
  by (simp_all add: update_delay_statistics_def Let_def)

lemma mark_frame [simp]:
  "ProcessedNotices (psState (mark_notice_processed now nid rec ps)) =
     mput nid (rec\<lparr>ProcessedAt := now\<rparr>) (ProcessedNotices (psState ps))"
  "DetectedListings (psState (mark_notice_processed now nid rec ps)) = DetectedListings (psState ps) + 1"
  "maxRetention (mark_notice_processed now nid rec ps) = maxRetention ps"
  by (simp_all add: mark_notice_processed_def Let_def spawn_save_def)

lemma record_error_frame [simp]:
  "ProcessedNotices (psState (record_error now msg ps)) = ProcessedNotices (psState ps)"
  "DetectedListings (psState (record_error now msg ps)) = DetectedListings (psState ps)"
  "maxRetention (record_error now msg ps) = maxRetention ps"
  by (simp_all add: record_error_def spawn_save_def)

lemma poll_statistics_frame [simp]:
  "ProcessedNotices (psState (update_poll_statistics now ps)) = ProcessedNotices (psState ps)"
  "DetectedListings (psState (update_poll_statistics now ps)) = DetectedListings (psState ps)"
  "maxRetention (update_poll_statistics now ps) = maxRetention ps"
  by (simp_all add: update_poll_statistics_def)

lemma average_frame [simp]:
  "umState (update_average_response_time rt um) = umState um"
  "msDetectedListings (umStats (update_average_response_time rt um)) = msDetectedListings (umStats um)"
  "SuccessfulTriggers (umStats (update_average_response_time rt um)) = SuccessfulTriggers (umStats um)"
  "FailedTriggers (umStats (update_average_response_time rt um)) = FailedTriggers (umStats um)"
  by (simp_all add: update_average_response_time_def Let_def)

lemma handle_listing_state:
  "\<exists>rec. ProcessedAt rec = now \<and>
     (\<forall>k. mget (ProcessedNotices (psState (umState (handle_listing_event trigger now ev um)))) k =
       (if k = evID ev then Some rec else mget (ProcessedNotices (psState (umState um))) k))"
  "maxRetention (umState (handle_listing_event trigger now ev um)) = maxRetention (umState um)"
proof -
  have "\<exists>r1. ProcessedAt r1 = now \<and> ProcessedNotices (psState (umState (handle_listing_event trigger now ev um))) =
      mput (evID ev) r1 (ProcessedNotices (psState (umState um)))"
    by (cases "trigger_data_collection trigger ev"; simp add: handle_listing_event_def Let_def;
        metis notice_record.select_convs(1))
  then show "\<exists>rec. ProcessedAt rec = now \<and>
     (\<forall>k. mget (ProcessedNotices (psState (umState (handle_listing_event trigger now ev um)))) k =
       (if k = evID ev then Some rec else mget (ProcessedNotices (psState (umState um))) k))"
    by (auto simp: mget_mput)
  show "maxRetention (umState (handle_listing_event trigger now ev um)) = maxRetention (umState um)"
    by (simp add: handle_listing_event_def Let_def split: option.split)
qed

lemma handle_recent:
  "recent nid t (umState um) \<Longrightarrow> t \<le> now \<Longrightarrow> recent nid t (umState (handle_listing_event trigger now ev um))"
  "recent (evID ev) now (umState (handle_listing_event trigger now ev um))"
  using handle_listing_state(1) [of now trigger ev um] by (auto simp: recent_def)

lemma parse_event_id: "parse_listing_announcement now a = Some ev \<Longrightarrow> evID ev = show_int (annID a)"
  by (auto simp: parse_listing_announcement_def Let_def split: option.splits if_splits)

lemma should_process_gap:
  assumes "should_process_announcement now a ps" "recent (show_int (annID a)) t ps" "maxRetention ps = 24 * hour"
  shows "now - t > 24 * hour"
  using assms by (auto simp: should_process_announcement_def is_notice_processed_def recent_def split: if_splits)

lemma process_announcements_gap:
  assumes "process_announcements trigger now as um = (um', evs)" "maxRetention (umState um) = 24 * hour"
  shows "maxRetention (umState um') = 24 * hour \<and>
    (\<forall>nid t. t \<le> now \<longrightarrow> recent nid t (umState um) \<longrightarrow> recent nid t (umState um')) \<and>
    (\<forall>ev \<in> set evs. recent (evID ev) now (umState um')) \<and>
    (\<forall>ev \<in> set evs. \<forall>t \<le> now. recent (evID ev) t (umState um) \<longrightarrow> now - t > 24 * hour) \<and>
    distinct (map evID evs)"
  using assms
proof (induction as arbitrary: um evs)
  case (Cons a as)
  show ?case
  proof (cases "should_process_announcement now a (umState um) \<and> parse_listing_announcement now a \<noteq> None")
    case False
    then have "process_announcements trigger now as um = (um', evs)"
      using Cons.prems(1) by (auto split: if_splits)
    from Cons.IH [OF this Cons.prems(2)] show ?thesis .
  next
    case True
    then obtain ev where ev: "parse_listing_announcement now a = Some ev" by auto
    let ?um = "handle_listing_event trigger now ev um"
    obtain es where es: "process_announcements trigger now as ?um = (um', es)" "evs = ev # es"
      using Cons.prems(1) True ev by (auto split: prod.splits)
    have mr: "maxRetention (umState ?um) = 24 * hour" using Cons.prems(2) handle_listing_state(2) by simp
    note ih = Cons.IH [OF es(1) mr]
    have gap: "now - t > 24 * hour" if "recent (evID ev) t (umState um)" for t
      using should_process_gap [of now a "umState um" t] True that Cons.prems(2) parse_event_id [OF ev] by simp
    have "evID e \<noteq> evID ev" if "e \<in> set es" for e
    proof
      assume "evID e = evID ev"
      then have "recent (evID e) now (umState ?um)" using handle_recent(2) [of ev now] by simp
      then have "now - now > 24 * hour" using ih that by blast
      then show False by (simp add: duration_defs)
    qed
    then have "evID ev \<notin> evID ` set es" by force
    then have "distinct (map evID evs)" using ih es(2) by simp
    moreover have "recent (evID ev) now (umState um')" using ih handle_recent(2) [of ev now trigger um] by blast
    ultimately show ?thesis
      using ih es(2) gap handle_recent(1) by auto
  qed
qed simp

lemma check_for_listings_gap:
  assumes "check_for_listings trigger start now r um = (um', evs)" "maxRetention (umState um) = 24 * hour"
  shows "maxRetention (umState um') = 24 * hour \<and>
    (\<forall>nid t. t \<le> now \<longrightarrow> recent nid t (umState um) \<longrightarrow> recent nid t (umState um')) \<and>
    (\<forall>ev \<in> set evs. recent (evID ev) now (umState um')) \<and>
    (\<forall>ev \<in> set evs. \<forall>t \<le> now. recent (evID ev) t (umState um) \<longrightarrow> now - t > 24 * hour) \<and>
    distinct (map evID evs)"
proof (cases "snd (fetch_announcements now r)")
  case (Inl e)
  then show ?thesis using assms by (auto simp: check_for_listings_def Let_def recent_def)
next
  case (Inr anns)
  define um1 where "um1 = um\<lparr>umStats := (umStats um)\<lparr>msTotalPolls := msTotalPolls (umStats um) + 1, LastCheck := start\<rparr>\<rparr>"
  define um2 where "um2 = update_average_response_time (now - start) um1"
  define um3 where "um3 = um2\<lparr>umState := update_poll_statistics now (umState um2)\<rparr>"
  have p: "process_announcements trigger now anns um3 = (um', evs)"
    using assms(1) Inr by (simp add: check_for_listings_def Let_def um1_def um2_def um3_def)
  have "maxRetention (umState um3) = 24 * hour" "\<And>nid t. recent nid t (umState um3) = recent nid t (umState um)"
    using assms(2) by (simp_all add: um3_def um2_def um1_def recent_def)
  with process_announcements_gap [OF p] show ?thesis by simp
qed

definition guarded :: "string \<Rightarrow> gotime \<Rightarrow> gotime \<Rightarrow> persistent_state \<Rightarrow> bool" where
  "guarded nid t clk ps = (recent nid t ps \<or> clk - t > 24 * hour)"

lemma cleanup_maxRetention [simp]: "maxRetention (cleanup_old_records now ps) = maxRetention ps"
  by (simp add: cleanup_old_records_def Let_def spawn_save_def)

lemma mget_filter_value:
  "wf_map m \<Longrightarrow> mget (filter (\<lambda>(k, v). P v) m) k = (case mget m k of Some v \<Rightarrow> if P v then Some v else None | None \<Rightarrow> None)"
proof (induction m)
  case (Cons e m)
  obtain k' v where e: "e = (k', v)" by (cases e)
  have "wf_map m" "k' = k \<Longrightarrow> mget m k = None"
    using Cons.prems by (auto simp: e wf_map_def map_of_eq_None_iff)
  with Cons.IH show ?case by (auto simp: e split: option.splits)
qed simp


lemma cleanup_guarded:
  assumes "guarded nid t clk ps" "clk \<le> now" "wf_map (ProcessedNotices (psState ps))" "maxRetention ps = 24 * hour"
  shows "guarded nid t now (cleanup_old_records now ps)"
proof (cases "recent nid t ps")
  case True
  then obtain rec where r: "mget (ProcessedNotices (psState ps)) nid = Some rec" "ProcessedAt rec \<ge> t"
    by (auto simp: recent_def)
  have "mget (ProcessedNotices (psState (cleanup_old_records now ps))) nid =
      (if \<not> ProcessedAt rec < now - maxRetention ps then Some rec else None)"
    using mget_filter_value [OF assms(3), of "\<lambda>rec. \<not> ProcessedAt rec < now - maxRetention ps" nid] r(1)
    by (simp add: cleanup_old_records_def Let_def spawn_save_def)
  then show ?thesis using r(2) assms(4) by (auto simp: guarded_def recent_def)
next
  case False
  then show ?thesis using assms(1,2) by (simp add: guarded_def)
qed

definition monitor_ok :: "persistent_state \<Rightarrow> bool" where
  "monitor_ok ps = (wf_map (ProcessedNotices (psState ps)) \<and> maxRetention ps = 24 * hour)"

lemma handle_ok: "monitor_ok (umState um) \<Longrightarrow> monitor_ok (umState (handle_listing_event trigger now ev um))"
  by (auto simp: monitor_ok_def handle_listing_event_def Let_def split: option.split)

lemma process_ok:
  "process_announcements trigger now as um = (um', evs) \<Longrightarrow> monitor_ok (umState um) \<Longrightarrow> monitor_ok (umState um')"
proof (induction as arbitrary: um evs)
  case (Cons a as)
  then show ?case
    by (auto split: if_splits option.splits prod.splits intro: handle_ok)
qed simp

lemma check_ok:
  assumes "check_for_listings trigger start now r um = (um', evs)" "monitor_ok (umState um)"
  shows "monitor_ok (umState um')"
proof (cases "snd (fetch_announcements now r)")
  case (Inl e)
  then show ?thesis using assms by (auto simp: check_for_listings_def Let_def monitor_ok_def)
next
  case (Inr anns)
  then show ?thesis
    using assms process_ok by (fastforce simp: check_for_listings_def Let_def monitor_ok_def)
qed

lemma cleanup_ok: "monitor_ok ps \<Longrightarrow> monitor_ok (cleanup_old_records now ps)"
  by (auto simp: monitor_ok_def cleanup_old_records_def Let_def spawn_save_def wf_map_def distinct_map_filter)

lemma monitor_run_gap:
  assumes "monitor_run as um = (um', tr)" "monitor_ok (umState um)"
    and "sorted (map action_time as)" "\<forall>a \<in> set as. clk \<le> action_time a"
    and "guarded nid t clk (umState um)" "t \<le> clk" "(t2, e2) \<in> set tr" "evID e2 = nid"
  shows "t2 - t > 24 * hour"
  using assms
proof (induction as arbitrary: um tr clk)
  case (Cons a as)
  have srt: "sorted (map action_time as)" "\<forall>b \<in> set as. action_time a \<le> action_time b"
    using Cons.prems(3) by auto
  show ?case
  proof (cases a)
    case (Poll trigger start now r)
    obtain um1 evs where c: "check_for_listings trigger start now r um = (um1, evs)" by fastforce
    obtain tr2 where m: "monitor_run as um1 = (um', tr2)" and tr: "tr = map (Pair now) evs @ tr2"
      using Cons.prems(1) by (auto simp: Poll c split: prod.splits)
    have mr: "maxRetention (umState um) = 24 * hour" using Cons.prems(2) by (simp add: monitor_ok_def)
    note g = check_for_listings_gap [OF c mr]
    have now: "clk \<le> now" "t \<le> now" using Cons.prems(4,6) by (auto simp: Poll)
    show ?thesis
    proof (cases "(t2, e2) \<in> set tr2")
      case True
      have "guarded nid t now (umState um1)"
        using Cons.prems(5) g now by (auto simp: guarded_def)
      with Cons.IH [OF m check_ok [OF c Cons.prems(2)] srt(1) _ _ now(2) True Cons.prems(8)] srt(2)
      show ?thesis by (simp add: Poll)
    next
      case False
      then have e: "e2 \<in> set evs" "t2 = now" using Cons.prems(7) tr by auto
      then show ?thesis using Cons.prems(5,8) g now by (auto simp: guarded_def)
    qed
  next
    case (CleanupAt now)
    let ?um = "um\<lparr>umState := cleanup_old_records now (umState um)\<rparr>"
    have now: "clk \<le> now" "t \<le> now" using Cons.prems(4,6) by (auto simp: CleanupAt)
    have "guarded nid t now (umState ?um)"
      using cleanup_guarded [OF Cons.prems(5) now(1)] Cons.prems(2) by (simp add: monitor_ok_def)
    moreover have "monitor_run as ?um = (um', tr)" using Cons.prems(1) by (simp add: CleanupAt)
    moreover have "monitor_ok (umState ?um)" using cleanup_ok Cons.prems(2) by simp
    ultimately show ?thesis
      using Cons.IH [of ?um tr now] srt Cons.prems(7,8) now(2) by (simp add: CleanupAt)
  qed
qed simp

section \<open>Counters\<close>

definition counts :: "upbit_monitor \<Rightarrow> upbit_monitor \<Rightarrow> nat \<Rightarrow> bool" where
  "counts u u' n \<longleftrightarrow>
      DetectedListings (psState (umState u')) = DetectedListings (psState (umState u)) + 2 * int n \<and>
      msDetectedListings (umStats u') = msDetectedListings (umStats u) + int n \<and>
      SuccessfulTriggers (umStats u') + FailedTriggers (umStats u') =
        SuccessfulTriggers (umStats u) + FailedTriggers (umStats u) + int n"

lemma counts_trans: "counts u v m \<Longrightarrow> counts v w n \<Longrightarrow> counts u w (m + n)"
  by (simp add: counts_def)

lemma handle_counts: "counts u (handle_listing_event trigger now ev u) 1"
  by (auto simp: counts_def handle_listing_event_def Let_def split: option.split)

lemma process_counts:
  "process_announcements trigger now as u = (u', es) \<Longrightarrow> counts u u' (length es)"
proof (induction as arbitrary: u es)
  case (Cons a as)
  show ?case
  proof (cases "should_process_announcement now a (umState u) \<and> parse_listing_announcement now a \<noteq> None")
    case False
    then show ?thesis using Cons by (auto split: if_splits)
  next
    case True
    then obtain ev where "parse_listing_announcement now a = Some ev" by auto
    with Cons.prems True obtain es1 where
      "process_announcements trigger now as (handle_listing_event trigger now ev u) = (u', es1)" "es = ev # es1"
      by (auto split: prod.splits)
    with counts_trans [OF handle_counts Cons.IH [OF this(1)]] show ?thesis by simp
  qed
qed (simp add: counts_def)

lemma check_counts:
  assumes "check_for_listings trigger start now r u = (u', es)"
  shows "counts u u' (length es)"
proof (cases "snd (fetch_announcements now r)")
  case (Inl e)
  then show ?thesis using assms by (auto simp: check_for_listings_def Let_def counts_def)
next
  case (Inr anns)
  then obtain u1 where "process_announcements trigger now anns u1 = (u', es)" "counts u u1 0"
    using assms by (fastforce simp: check_for_listings_def Let_def counts_def)
  with counts_trans process_counts show ?thesis by fastforce
qed

lemma run_counts: "monitor_run as um = (um', tr) \<Longrightarrow> counts um um' (length tr)"
proof (induction as arbitrary: um tr)
  case (Cons a as)
  show ?case
  proof (cases a)
    case (Poll trigger start now r)
    obtain um1 evs where ch: "check_for_listings trigger start now r um = (um1, evs)" by fastforce
    obtain tr2 where "monitor_run as um1 = (um', tr2)" "tr = map (Pair now) evs @ tr2"
      using Cons.prems by (auto simp: Poll ch split: prod.splits)
    with counts_trans [OF check_counts [OF ch] Cons.IH [OF this(1)]] show ?thesis by simp
  next
    case (CleanupAt now)
    then have "counts (um\<lparr>umState := cleanup_old_records now (umState um)\<rparr>) um' (length tr)"
      using Cons by simp
    then show ?thesis by (simp add: counts_def cleanup_old_records_def Let_def spawn_save_def)
  qed
qed (simp add: counts_def)

section \<open>Properties\<close>

text \<open>C15. A notice triggers the data collection at most once in 24 hours: in every run of polls and
  cleanups with a clock that does not go back, two triggers of the same notice are more than
  24 hours apart, whether the first trigger succeeded or failed.\<close>

theorem one_trigger_a_day:
  assumes "monitor_ok (umState um)" "sorted (map action_time as)"
  shows "sorted_wrt (\<lambda>(t1, e1) (t2, e2). evID e1 = evID e2 \<longrightarrow> t2 - t1 > 24 * hour) (snd (monitor_run as um))"
  using assms
proof (induction as arbitrary: um)
  case (Cons a as)
  show ?case
  proof (cases a)
    case (Poll trigger start now r)
    obtain um1 evs where c: "check_for_listings trigger start now r um = (um1, evs)" by fastforce
    obtain um2 tr where m: "monitor_run as um1 = (um2, tr)" by fastforce
    have mr: "maxRetention (umState um) = 24 * hour" using Cons.prems(1) by (simp add: monitor_ok_def)
    note g = check_for_listings_gap [OF c mr] and ok = check_ok [OF c Cons.prems(1)]
    have srt: "sorted (map action_time as)" "\<forall>b \<in> set as. now \<le> action_time b"
      using Cons.prems(2) by (auto simp: Poll)
    have "sorted_wrt (\<lambda>(t1, e1) (t2, e2). evID e1 = evID e2 \<longrightarrow> t2 - t1 > 24 * hour) tr"
      using Cons.IH [OF ok srt(1)] m by simp
    moreover have "t2 - now > 24 * hour" if "e1 \<in> set evs" "(t2, e2) \<in> set tr" "evID e1 = evID e2" for e1 t2 e2
      using monitor_run_gap [OF m ok srt, of "evID e2" now t2 e2] g that by (auto simp: guarded_def)
    moreover have "sorted_wrt (\<lambda>(t1, e1) (t2, e2). evID e1 = evID e2 \<longrightarrow> t2 - t1 > 24 * hour) (map (Pair now) evs)"
      using g by (induction evs) auto
    ultimately show ?thesis
      by (auto simp: Poll c m sorted_wrt_append)
  next
    case (CleanupAt now)
    then show ?thesis
      using Cons cleanup_ok [of "umState um" now] by simp
  qed
qed simp

text \<open>Every triggered event is a KRW listing parsed from an announcement of the poll that is at
  most thirty minutes old, and its trigger time is the announcement time.\<close>

theorem triggers_are_recent_krw:
  assumes "check_for_listings trigger start now r um = (um', evs)" "ev \<in> set evs"
  shows "\<exists>a resp n. r = Response resp n \<and> a \<in> set (Notices resp) \<and> apiSuccess resp \<and>
    parse_listed_at (ListedAt a) = Some (AnnouncedAt ev) \<and> now - AnnouncedAt ev \<le> 30 * minute \<and>
    evTriggerTime ev = AnnouncedAt ev \<and>
    (\<exists>lr. parse_listing (annTitle a) = Some lr \<and> lrIsKRW lr \<and> evSymbol ev = lrSymbol lr)"
proof -
  have proc: "\<exists>a \<in> set as. parse_listed_at (ListedAt a) = Some (AnnouncedAt ev) \<and>
      now - AnnouncedAt ev \<le> 30 * minute \<and> evTriggerTime ev = AnnouncedAt ev \<and>
      (\<exists>lr. parse_listing (annTitle a) = Some lr \<and> lrIsKRW lr \<and> evSymbol ev = lrSymbol lr)"
    if "process_announcements trigger now as u = (u', es)" "ev \<in> set es" for as u u' es
    using that
  proof (induction as arbitrary: u es)
    case (Cons a as)
    show ?case
    proof (cases "should_process_announcement now a (umState u) \<and> parse_listing_announcement now a = Some ev")
      case True
      then show ?thesis
        by (auto simp: should_process_announcement_def would_process_announcement_def
            parse_listing_announcement_def Let_def split: if_splits option.splits)
    next
      case False
      then obtain u1 es1 where "process_announcements trigger now as u1 = (u', es1)" "ev \<in> set es1"
        using Cons.prems by (auto split: if_splits option.splits prod.splits)
      from Cons.IH [OF this] show ?thesis by auto
    qed
  qed simp
  obtain anns um1 where a: "snd (fetch_announcements now r) = Inr anns"
    "process_announcements trigger now anns um1 = (um', evs)"
    using assms by (auto simp: check_for_listings_def Let_def split: sum.splits)
  then obtain resp n where "r = Response resp n" "apiSuccess resp" "anns = Notices resp"
    by (auto simp: fetch_announcements_def Let_def split: http_outcome.splits if_splits)
  with proc [OF a(2) assms(2)] show ?thesis by auto
qed

text \<open>The persistent counter of detected listings counts every listing twice: in every run it
  grows by two for each trigger, while the counter of the monitor grows by one and is the sum of the
  successful and the failed triggers.\<close>

theorem persistent_count_doubled:
  assumes "monitor_run as um = (um', tr)"
  shows "DetectedListings (psState (umState um')) =
      DetectedListings (psState (umState um)) + 2 * int (length tr) \<and>
    msDetectedListings (umStats um') = msDetectedListings (umStats um) + int (length tr) \<and>
    SuccessfulTriggers (umStats um') + FailedTriggers (umStats um') =
      SuccessfulTriggers (umStats um) + FailedTriggers (umStats um) + int (length tr)"
  using run_counts [OF assms] by (simp add: counts_def)

text \<open>C21. The record of processed notices survives a restart: what was saved is loaded by a new
  process, statistics included, and a notice processed before is still refused; a file of another
  version is ignored and the process starts afresh.  The codec and the file system are only assumed
  to read back what was written.\<close>

theorem processed_survives_restart:
  assumes "enc (psState ps) = Some f" "dec f = Some (psState ps)" "os_read f = Some f"
    and "maxRetention ps = 24 * hour"
  shows "\<exists>ps1 ps2. save_state True True enc t ps disk = (None, ps1, Some f) \<and>
    new_persistent_state True os_read dec (Some f) t2 = Some ps2 \<and>
    (if Version (psState ps) = ''2.0''
     then psState ps2 = psState ps \<and> (\<forall>now nid. is_notice_processed now nid ps2 = is_notice_processed now nid ps)
     else psState ps2 = fresh_monitor_state t2)"
proof -
  let ?ps0 = "\<lparr>psState = fresh_monitor_state t2, lastSaveTime = zero_time, saveInterval = 30 * second,
    maxRetention = 24 * hour, pendingSaves = 0\<rparr>"
  let ?ps2 = "snd (load_state os_read dec (Some f) ?ps0)"
  have "psState ?ps2 = (if Version (psState ps) = ''2.0'' then psState ps else fresh_monitor_state t2)"
    "maxRetention ?ps2 = maxRetention ps"
    using assms by (simp_all add: load_state_def fresh_monitor_state_def)
  moreover have "new_persistent_state True os_read dec (Some f) t2 = Some ?ps2"
    by (simp add: new_persistent_state_def)
  moreover have "save_state True True enc t ps disk = (None, ps\<lparr>lastSaveTime := t\<rparr>, Some f)"
    using assms(1) by (simp add: save_state_def)
  ultimately show ?thesis by (auto simp: is_notice_processed_def split: option.split)
qed

section \<open>A poll that finds a listing\<close>

definition sample_announcement :: announcement where
  "sample_announcement =
     \<lparr>annID = 4077, annTitle = ''Celestia(TIA)(KRW, BTC '' @ maket @ '')'',
      ListedAt = ''2024-01-01T10:00:00+09:00'', FirstListedAt = ''2024-01-01T10:00:00+09:00'',
      Category = ''trade'', NeedNewBadge = True, NeedUpdateBadge = False\<rparr>"

definition sample_monitor :: upbit_monitor where
  "sample_monitor = new_upbit_monitor True 0
     \<lparr>psState = fresh_monitor_state 0, lastSaveTime = zero_time, saveInterval = 30 * second,
      maxRetention = 24 * hour, pendingSaves = 0\<rparr>"

definition sample_response :: http_outcome where
  "sample_response = Response \<lparr>apiSuccess = True, TotalPages = 1, TotalCount = 1,
     Notices = [sample_announcement], FixedNotices = []\<rparr> 300"

text \<open>Ten seconds after the announcement, at 2024-01-01 01:00:10 UTC.\<close>

definition sample_now :: gotime where "sample_now = 1704070810 * second"

lemma sample_listed_at: "parse_listed_at (ListedAt sample_announcement) = Some (1704070800 * second)"
  by code_simp

lemma sample_poll:
  "map (\<lambda>ev. (evID ev, evSymbol ev, AnnouncedAt ev))
     (snd (check_for_listings (\<lambda>sm t. None) sample_now sample_now sample_response sample_monitor)) =
   [(''4077'', ''TIA'', 1704070800 * second)]"
proof -
  have c: "code_word ''TIA''" "list_all code_word [''KRW'', ''BTC'']"
    by (simp_all add: code_word_def upper_digit_def upper_def less_eq_char_def)
  have n: "''Celestia'' \<noteq> []" "list_all not_open ''Celestia''" "\<not> is_space (hd ''Celestia'')"
    by (simp_all add: not_open_def is_space_def)
  have t: "annTitle sample_announcement =
      ''Celestia'' @ ''('' @ ''TIA'' @ '')('' @ join_comma [''KRW'', ''BTC''] @ '' '' @ maket @ '')'' @ []"
    by (simp add: sample_announcement_def)
  have p: "parse_listing (annTitle sample_announcement) = Some \<lparr>lrSymbol = ''TIA'',
      lrMarkets = [''KRW'', ''BTC''], lrIsKRW = (''KRW'' \<in> set [''KRW'', ''BTC'']),
      lrPattern = ''multiple_coin_market''\<rparr>"
    unfolding t by (rule parse_paren_form [OF n c list.distinct(2) disjI1 [OF refl]])
  have a: "annID sample_announcement = 4077" "NeedNewBadge sample_announcement"
    by (simp_all add: sample_announcement_def)
  have i: "show_int 4077 = ''4077''"
    by (simp add: show_int_def show_nat.simps digit_char_def)
  have wp: "would_process_announcement sample_now sample_announcement"
    by (simp add: would_process_announcement_def sample_listed_at a sample_now_def duration_defs)
  have pl: "\<exists>ev. parse_listing_announcement sample_now sample_announcement = Some ev \<and>
      evID ev = ''4077'' \<and> evSymbol ev = ''TIA'' \<and> AnnouncedAt ev = 1704070800 * second"
    by (simp add: parse_listing_announcement_def p sample_listed_at a i Let_def)
  define um0 where "um0 = update_average_response_time 0 (sample_monitor\<lparr>umStats :=
    (umStats sample_monitor)\<lparr>msTotalPolls := msTotalPolls (umStats sample_monitor) + 1, LastCheck := sample_now\<rparr>\<rparr>)"
  define um1 where "um1 = um0\<lparr>umState := update_poll_statistics sample_now (umState um0)\<rparr>"
  have um1: "ProcessedNotices (psState (umState um1)) = []"
    "check_for_listings (\<lambda>sm t. None) sample_now sample_now sample_response sample_monitor =
       process_announcements (\<lambda>sm t. None) sample_now [sample_announcement] um1"
    by (simp_all add: check_for_listings_def Let_def sample_response_def fetch_announcements_def
        um1_def um0_def del: process_announcements.simps)
      (simp add: sample_monitor_def new_upbit_monitor_def fresh_monitor_state_def)
  have "should_process_announcement sample_now sample_announcement (umState um1)"
    using wp um1(1) by (simp add: should_process_announcement_def is_notice_processed_def)
  with pl um1(2) show ?thesis by auto
qed

lemma sample_monitor_ok: "monitor_ok (umState sample_monitor)"
  by (simp add: monitor_ok_def sample_monitor_def new_upbit_monitor_def fresh_monitor_state_def)

theorem one_trigger_a_day_witness:
  "sorted_wrt (\<lambda>(t1, e1) (t2, e2). evID e1 = evID e2 \<longrightarrow> t2 - t1 > 24 * hour)
     (snd (monitor_run
        [Poll (\<lambda>sm t. Some ''busy'') sample_now sample_now sample_response,
         CleanupAt (sample_now + 5),
         Poll (\<lambda>sm t. None) sample_now (sample_now + second) sample_response] sample_monitor))"
  by (rule one_trigger_a_day [OF sample_monitor_ok]) (simp add: second_def)

theorem triggers_are_recent_krw_witness:
  "\<exists>ev. ev \<in> set (snd (check_for_listings (\<lambda>sm t. None) sample_now sample_now sample_response sample_monitor)) \<and>
     sample_now - AnnouncedAt ev \<le> 30 * minute"
proof -
  obtain um' evs where c: "check_for_listings (\<lambda>sm t. None) sample_now sample_now sample_response sample_monitor = (um', evs)"
    by fastforce
  then obtain ev where "ev \<in> set evs" using sample_poll by (cases evs) auto
  with triggers_are_recent_krw [OF c this] c show ?thesis by auto
qed

theorem persistent_count_doubled_witness:
  "DetectedListings (psState (umState (fst (monitor_run
     [Poll (\<lambda>sm t. None) sample_now sample_now sample_response] sample_monitor)))) = 2"
proof -
  let ?as = "[Poll (\<lambda>sm t. None) sample_now sample_now sample_response]"
  obtain um' tr where m: "monitor_run ?as sample_monitor = (um', tr)" by fastforce
  then have "length tr = 1"
    using arg_cong [OF sample_poll, of length] by (auto split: prod.splits)
  then show ?thesis
    using persistent_count_doubled [OF m] m
    by (simp add: sample_monitor_def new_upbit_monitor_def fresh_monitor_state_def)
qed

theorem processed_survives_restart_witness:
  "\<exists>ps2. new_persistent_state True Some Some (Some (psState (umState sample_monitor))) 99 = Some ps2 \<and>
     psState ps2 = psState (umState sample_monitor)"
proof -
  have m: "maxRetention (umState sample_monitor) = 24 * hour"
    "Version (psState (umState sample_monitor)) = ''2.0''"
    by (simp_all add: sample_monitor_def new_upbit_monitor_def fresh_monitor_state_def)
  show ?thesis
    using processed_survives_restart [of Some "umState sample_monitor" "psState (umState sample_monitor)"
        Some Some 5 None 99] m by auto
qed

end
