(* ===== verification/SymbolFilter.thy ===== *)
theory SymbolFilter
  imports Prelude
begin

text \<open>
  The contract of the filter that keeps Upbit coins out of the subscriptions.  The source has two
  extractors of the base symbol (\<open>internal/symbols/config.go\<close> and
  \<open>internal/models/symbol_config.go\<close>); each is right for some pair formats.  The locale states
  what a caller may rely on for one format, and what the filtered list then is.
\<close>

definition keep_unlisted :: "(string \<Rightarrow> string) \<Rightarrow> string list \<Rightarrow> string list \<Rightarrow> string list" where
  "keep_unlisted base krw l = filter (\<lambda>s. base s \<notin> set krw) l"

text \<open>A coin code: capitals and digits, as the exchanges write it.\<close>

definition code_char :: "char \<Rightarrow> bool" where
  "code_char c = (is_digit c \<or> (65 \<le> (of_char c :: nat) \<and> (of_char c :: nat) \<le> 90))"

definition coin_code :: "string \<Rightarrow> bool" where
  "coin_code s = (s \<noteq> [] \<and> list_all code_char s)"

lemma code_char_plain: "code_char c \<Longrightarrow> c \<noteq> CHR ''-'' \<and> c \<noteq> CHR ''_'' \<and> upper_char c = c"
  by (auto simp: code_char_def is_digit_def upper_char_def Let_def)

lemma coin_code_plain: "coin_code c \<Longrightarrow> CHR ''-'' \<notin> set c \<and> CHR ''_'' \<notin> set c"
  by (auto simp: coin_code_def list_all_iff dest: code_char_plain)

lemma coin_code_upper: "coin_code c \<Longrightarrow> to_upper c = c"
  unfolding coin_code_def to_upper_def list_all_iff
  by (metis code_char_plain list.map_ident_strong)

locale pair_format =
  fixes base :: "string \<Rightarrow> string"
    and code :: "string \<Rightarrow> bool"
    and pair :: "string \<Rightarrow> string"
  assumes base_pair: "code c \<Longrightarrow> base (pair c) = c"
begin

lemma listed_dropped: "code c \<Longrightarrow> c \<in> set krw \<Longrightarrow> pair c \<notin> set (keep_unlisted base krw l)"
  by (simp add: keep_unlisted_def base_pair)

lemma unlisted_kept:
  "code c \<Longrightarrow> c \<notin> set krw \<Longrightarrow> pair c \<in> set (keep_unlisted base krw l) \<longleftrightarrow> pair c \<in> set l"
  by (simp add: keep_unlisted_def base_pair)

lemma in_kept_iff:
  "code c \<Longrightarrow> pair c \<in> set (keep_unlisted base krw l) \<longleftrightarrow> pair c \<in> set l \<and> c \<notin> set krw"
  by (auto simp: keep_unlisted_def base_pair)

lemma pair_inj: "code c \<Longrightarrow> code d \<Longrightarrow> pair c = pair d \<Longrightarrow> c = d"
  by (metis base_pair)

end

end
