(* ===== verification/Symbols.thy ===== *)
theory Symbols
  imports SymbolFilter
begin

text \<open>
  Symbol configuration and subscription filtering: \<open>internal/symbols/config.go\<close> and
  \<open>internal/symbols/manager.go\<close>, the configuration the collector runs on.  The replies of the
  exchange APIs, the YAML codec and the file system are arguments.
\<close>

section \<open>Data\<close>

record exchange_symbols =
  SpotEndpoint :: string
  FuturesEndpoint :: string
  MaxSymbolsPerConnection :: int
  RetryCooldown :: int
  MaxRetries :: int
  SpotSymbols :: "string list"
  FuturesSymbols :: "string list"
  esLastUpdated :: gotime

record symbols_config =
  scVersion :: string
  UpdatedAt :: gotime
  UpbitKRWSymbols :: "string list"
  Exchanges :: "(string, exchange_symbols) gomap"
  SubscriptionLists :: "(string, string list) gomap"

datatype config_error =
    VersionEmpty | NoExchange
  | NoEndpoint string | BadMaxSymbols string | BadMaxRetries string
  | ReadConfigFailed | ParseYamlFailed | ValidationFailed config_error
  | MarshalYamlFailed | WriteTempFailed | MoveFailed

section \<open>Package symbols: configuration\<close>

text \<open>The map is visited in the order of its list; the first bad entry gives the error.\<close>

fun validate_exchanges :: "(string, exchange_symbols) gomap \<Rightarrow> config_error option" where
  "validate_exchanges [] = None"
| "validate_exchanges ((nm, ex) # m) =
     (if MaxSymbolsPerConnection ex \<le> 0 then Some (BadMaxSymbols nm)
      else if MaxRetries ex < 0 then Some (BadMaxRetries nm)
      else validate_exchanges m)"

definition validate :: "symbols_config \<Rightarrow> config_error option" where
  "validate sc =
     (if scVersion sc = [] then Some VersionEmpty
      else if length (Exchanges sc) = 0 then Some NoExchange
      else validate_exchanges (Exchanges sc))"

definition load_config ::
  "('f \<Rightarrow> 'f option) \<Rightarrow> ('f \<Rightarrow> symbols_config option) \<Rightarrow> 'f \<Rightarrow> config_error + symbols_config" where
  "load_config os_read unyaml f =
     (case os_read f of
        None \<Rightarrow> Inl ReadConfigFailed
      | Some data \<Rightarrow>
          (case unyaml data of
             None \<Rightarrow> Inl ParseYamlFailed
           | Some config \<Rightarrow>
               (case validate config of
                  Some e \<Rightarrow> Inl (ValidationFailed e)
                | None \<Rightarrow> Inr config)))"

definition save_config ::
  "bool \<Rightarrow> bool \<Rightarrow> (symbols_config \<Rightarrow> 'f option) \<Rightarrow> gotime \<Rightarrow> symbols_config \<Rightarrow> 'f \<Rightarrow>
     config_error option \<times> symbols_config \<times> 'f" where
  "save_config write_ok rename_ok yaml now config0 disk =
     (let config = config0\<lparr>UpdatedAt := now\<rparr> in
      case yaml config of
        None \<Rightarrow> (Some MarshalYamlFailed, config, disk)
      | Some data \<Rightarrow>
          if \<not> write_ok then (Some WriteTempFailed, config, disk)
          else if \<not> rename_ok then (Some MoveFailed, config, disk)
          else (None, config, data))"

definition extract_base_symbol :: "string \<Rightarrow> string" where
  "extract_base_symbol symbol0 =
     (let symbol = to_upper symbol0 in
      if CHR ''-'' \<in> set symbol \<and> length (split_char (CHR ''-'') symbol) \<ge> 2
      then hd (split_char (CHR ''-'') symbol)
      else if CHR ''_'' \<in> set symbol \<and> length (split_char (CHR ''_'') symbol) \<ge> 2
      then hd (split_char (CHR ''_'') symbol)
      else
        (case find (has_suffix symbol) [''USDT'', ''USDC'', ''BTC'', ''ETH'', ''BNB''] of
           Some quote \<Rightarrow> trim_suffix symbol quote
         | None \<Rightarrow> symbol))"

definition get_filtered_symbols :: "string \<Rightarrow> string \<Rightarrow> symbols_config \<Rightarrow> string list" where
  "get_filtered_symbols ex mt sc =
     (case mget (Exchanges sc) ex of
        None \<Rightarrow> []
      | Some cfg \<Rightarrow>
          (let keep = keep_unlisted extract_base_symbol (UpbitKRWSymbols sc) in
           if mt = ''spot'' then keep (SpotSymbols cfg)
           else if mt = ''futures'' then keep (FuturesSymbols cfg)
           else []))"

definition get_subscription_list :: "string \<Rightarrow> string \<Rightarrow> symbols_config \<Rightarrow> string list" where
  "get_subscription_list ex mt sc =
     (case mget (SubscriptionLists sc) (ex @ ''_'' @ mt) of Some l \<Rightarrow> l | None \<Rightarrow> [])"

definition get_all_exchanges :: "symbols_config \<Rightarrow> string list" where
  "get_all_exchanges sc = mkeys (Exchanges sc)"

definition get_exchange_config :: "string \<Rightarrow> symbols_config \<Rightarrow> exchange_symbols option" where
  "get_exchange_config ex sc = mget (Exchanges sc) ex"

section \<open>Package symbols: manager\<close>

definition new_manager :: "gotime \<Rightarrow> symbols_config" where
  "new_manager now =
     \<lparr>scVersion = ''2.0'', UpdatedAt = now, UpbitKRWSymbols = [], Exchanges = [], SubscriptionLists = []\<rparr>"

text \<open>The reply of an API call, in the order in which \<open>fetch...\<close> checks it: a failed request,
  a status other than 200, an unreadable body, malformed JSON, or the decoded list.\<close>

datatype 'a reply = GetFailed string | BadStatus int | BodyFailed string | JsonFailed string | Reply "'a list"

definition http_fetch ::
  "string \<Rightarrow> string \<Rightarrow> string \<Rightarrow> ('a \<Rightarrow> bool) \<Rightarrow> ('a \<Rightarrow> string) \<Rightarrow> 'a reply \<Rightarrow> string + string list" where
  "http_fetch what api parsed keep nm r =
     (case r of
        GetFailed e \<Rightarrow> Inl (''failed to fetch '' @ what @ '': '' @ e)
      | BadStatus c \<Rightarrow> Inl (api @ '' API returned status: '' @ show_int c)
      | BodyFailed e \<Rightarrow> Inl (''failed to read response: '' @ e)
      | JsonFailed e \<Rightarrow> Inl (''failed to parse '' @ parsed @ '': '' @ e)
      | Reply xs \<Rightarrow> Inr (map nm (filter keep xs)))"

record pair_info =
  piSymbol :: string
  piStatus :: string
  piBase :: string
  piQuote :: string

record okx_info =
  InstId :: string
  oiState :: string
  InstType :: string

record kucoin_info =
  kiSymbol :: string
  kiName :: string
  kiBase :: string
  kiQuote :: string
  EnableTrading :: bool

record gate_pair =
  gpID :: string
  gpBase :: string
  gpQuote :: string
  gpFee :: string
  TradeStatus :: string

record gate_contract =
  gcName :: string
  gcType :: string
  InDelisting :: bool

definition fetch_binance_spot_symbols :: "pair_info reply \<Rightarrow> string + string list" where
  "fetch_binance_spot_symbols = http_fetch ''exchange info'' ''Binance spot'' ''exchange info''
     (\<lambda>s. piQuote s = ''USDT'' \<and> piStatus s = ''TRADING'') piSymbol"

definition fetch_binance_futures_symbols :: "pair_info reply \<Rightarrow> string + string list" where
  "fetch_binance_futures_symbols = http_fetch ''exchange info'' ''Binance futures'' ''futures exchange info''
     (\<lambda>s. piQuote s = ''USDT'' \<and> piStatus s = ''TRADING'') piSymbol"

definition fetch_bybit_spot_symbols :: "pair_info reply \<Rightarrow> string + string list" where
  "fetch_bybit_spot_symbols = http_fetch ''Bybit spot info'' ''Bybit spot'' ''Bybit instruments info''
     (\<lambda>s. piQuote s = ''USDT'' \<and> piStatus s = ''Trading'') piSymbol"

definition fetch_bybit_futures_symbols :: "pair_info reply \<Rightarrow> string + string list" where
  "fetch_bybit_futures_symbols = http_fetch ''Bybit futures info'' ''Bybit futures'' ''Bybit futures instruments info''
     (\<lambda>s. piQuote s = ''USDT'' \<and> piStatus s = ''Trading'') piSymbol"

definition fetch_okx_spot_symbols :: "okx_info reply \<Rightarrow> string + string list" where
  "fetch_okx_spot_symbols = http_fetch ''OKX spot info'' ''OKX spot'' ''OKX instruments info''
     (\<lambda>s. has_suffix (InstId s) ''-USDT'' \<and> oiState s = ''live'') InstId"

definition fetch_okx_futures_symbols :: "okx_info reply \<Rightarrow> string + string list" where
  "fetch_okx_futures_symbols = http_fetch ''OKX futures info'' ''OKX futures'' ''OKX futures instruments info''
     (\<lambda>s. has_suffix (InstId s) ''-USDT-SWAP'' \<and> oiState s = ''live'') InstId"

definition fetch_kucoin_spot_symbols :: "kucoin_info reply \<Rightarrow> string + string list" where
  "fetch_kucoin_spot_symbols = http_fetch ''KuCoin spot info'' ''KuCoin spot'' ''KuCoin symbols info''
     (\<lambda>s. kiQuote s = ''USDT'' \<and> EnableTrading s) kiSymbol"

definition fetch_kucoin_futures_symbols :: "pair_info reply \<Rightarrow> string + string list" where
  "fetch_kucoin_futures_symbols = http_fetch ''KuCoin futures info'' ''KuCoin futures'' ''KuCoin futures contracts info''
     (\<lambda>s. has_suffix (piSymbol s) ''USDTM'' \<and> piStatus s = ''Open'') piSymbol"

definition fetch_gate_spot_symbols :: "gate_pair reply \<Rightarrow> string + string list" where
  "fetch_gate_spot_symbols = http_fetch ''Gate.io spot info'' ''Gate.io spot'' ''Gate.io currency pairs''
     (\<lambda>s. gpQuote s = ''USDT'' \<and> TradeStatus s = ''tradable'') gpID"

definition fetch_gate_futures_symbols :: "gate_contract reply \<Rightarrow> string + string list" where
  "fetch_gate_futures_symbols = http_fetch ''Gate.io futures info'' ''Gate.io futures'' ''Gate.io futures contracts''
     (\<lambda>s. has_suffix (gcName s) ''_USDT'' \<and> \<not> InDelisting s) gcName"

definition or_fallback :: "string + string list \<Rightarrow> string list \<Rightarrow> string list" where
  "or_fallback r fallback = (case r of Inl e \<Rightarrow> fallback | Inr l \<Rightarrow> l)"

definition put_exchange :: "string \<Rightarrow> exchange_symbols \<Rightarrow> symbols_config \<Rightarrow> symbols_config" where
  "put_exchange ex cfg sc = sc\<lparr>Exchanges := mput ex cfg (Exchanges sc)\<rparr>"

definition update_binance_symbols ::
  "gotime \<Rightarrow> pair_info reply \<Rightarrow> pair_info reply \<Rightarrow> symbols_config \<Rightarrow> symbols_config" where
  "update_binance_symbols now spot futures = put_exchange ''binance''
     \<lparr>SpotEndpoint = ''wss://stream.binance.com:9443/ws'', FuturesEndpoint = ''wss://fstream.binance.com/ws'',
      MaxSymbolsPerConnection = 100, RetryCooldown = 30 * second, MaxRetries = 5,
      SpotSymbols = or_fallback (fetch_binance_spot_symbols spot) [''BTCUSDT'', ''ETHUSDT'', ''SOLUSDT''],
      FuturesSymbols = or_fallback (fetch_binance_futures_symbols futures) [''BTCUSDT'', ''ETHUSDT'', ''SOLUSDT''],
      esLastUpdated = now\<rparr>"

definition update_bybit_symbols ::
  "gotime \<Rightarrow> pair_info reply \<Rightarrow> pair_info reply \<Rightarrow> symbols_config \<Rightarrow> symbols_config" where
  "update_bybit_symbols now spot futures = put_exchange ''bybit''
     \<lparr>SpotEndpoint = ''wss://stream.bybit.com/v5/public/spot'',
      FuturesEndpoint = ''wss://stream.bybit.com/v5/public/linear'',
      MaxSymbolsPerConnection = 50, RetryCooldown = 60 * second, MaxRetries = 3,
      SpotSymbols = or_fallback (fetch_bybit_spot_symbols spot) [''BTCUSDT'', ''ETHUSDT'', ''SOLUSDT''],
      FuturesSymbols = or_fallback (fetch_bybit_futures_symbols futures) [''BTCUSDT'', ''ETHUSDT'', ''SOLUSDT''],
      esLastUpdated = now\<rparr>"

definition update_okx_symbols ::
  "gotime \<Rightarrow> okx_info reply \<Rightarrow> okx_info reply \<Rightarrow> symbols_config \<Rightarrow> symbols_config" where
  "update_okx_symbols now spot futures = put_exchange ''okx''
     \<lparr>SpotEndpoint = ''wss://ws.okx.com:8443/ws/v5/public'',
      FuturesEndpoint = ''wss://ws.okx.com:8443/ws/v5/public'',
      MaxSymbolsPerConnection = 100, RetryCooldown = 30 * second, MaxRetries = 5,
      SpotSymbols = or_fallback (fetch_okx_spot_symbols spot) [''BTC-USDT'', ''ETH-USDT'', ''SOL-USDT''],
      FuturesSymbols = or_fallback (fetch_okx_futures_symbols futures)
        [''BTC-USDT-SWAP'', ''ETH-USDT-SWAP'', ''SOL-USDT-SWAP''],
      esLastUpdated = now\<rparr>"

definition update_kucoin_symbols ::
  "gotime \<Rightarrow> kucoin_info reply \<Rightarrow> pair_info reply \<Rightarrow> symbols_config \<Rightarrow> symbols_config" where
  "update_kucoin_symbols now spot futures = put_exchange ''kucoin''
     \<lparr>SpotEndpoint = ''wss://ws-api.kucoin.com/endpoint'',
      FuturesEndpoint = ''wss://ws-api-futures.kucoin.com/endpoint'',
      MaxSymbolsPerConnection = 100, RetryCooldown = 45 * second, MaxRetries = 4,
      SpotSymbols = or_fallback (fetch_kucoin_spot_symbols spot) [''BTC-USDT'', ''ETH-USDT'', ''SOL-USDT''],
      FuturesSymbols = or_fallback (fetch_kucoin_futures_symbols futures) [''XBTUSDTM'', ''ETHUSDTM'', ''SOLUSDTM''],
      esLastUpdated = now\<rparr>"

definition update_phemex_symbols :: "gotime \<Rightarrow> symbols_config \<Rightarrow> symbols_config" where
  "update_phemex_symbols now = put_exchange ''phemex''
     \<lparr>SpotEndpoint = ''wss://ws.phemex.com'', FuturesEndpoint = ''wss://ws.phemex.com'',
      MaxSymbolsPerConnection = 20, RetryCooldown = 90 * second, MaxRetries = 3,
      SpotSymbols = [], FuturesSymbols = [], esLastUpdated = now\<rparr>"

definition update_gate_symbols ::
  "gotime \<Rightarrow> gate_pair reply \<Rightarrow> gate_contract reply \<Rightarrow> symbols_config \<Rightarrow> symbols_config" where
  "update_gate_symbols now spot futures = put_exchange ''gate''
     \<lparr>SpotEndpoint = ''wss://api.gateio.ws/ws/v4/'', FuturesEndpoint = ''wss://fx-ws.gateio.ws/v4/ws'',
      MaxSymbolsPerConnection = 100, RetryCooldown = 30 * second, MaxRetries = 5,
      SpotSymbols = or_fallback (fetch_gate_spot_symbols spot) [''BTC_USDT'', ''ETH_USDT'', ''SOL_USDT''],
      FuturesSymbols = or_fallback (fetch_gate_futures_symbols futures) [''BTC_USDT'', ''ETH_USDT'', ''SOL_USDT''],
      esLastUpdated = now\<rparr>"

text \<open>\<open>updateUpbitKRWSymbols\<close>; the reply lists the market codes.\<close>

definition update_upbit_krw_symbols :: "string reply \<Rightarrow> symbols_config \<Rightarrow> string + symbols_config" where
  "update_upbit_krw_symbols r sc =
     (case r of
        GetFailed e \<Rightarrow> Inl (''failed to fetch Upbit markets: '' @ e)
      | BadStatus c \<Rightarrow> Inl (''Upbit API returned status: '' @ show_int c)
      | BodyFailed e \<Rightarrow> Inl (''failed to read response: '' @ e)
      | JsonFailed e \<Rightarrow> Inl (''failed to parse markets JSON: '' @ e)
      | Reply ms \<Rightarrow>
          Inr (sc\<lparr>UpbitKRWSymbols :=
                 map (\<lambda>m. trim_prefix m ''KRW-'') (filter (\<lambda>m. has_prefix m ''KRW-'') ms)\<rparr>))"

text \<open>\<open>ord\<close> is the order in which the map of exchanges is visited.\<close>

definition generate_subscription_lists ::
  "((string, exchange_symbols) gomap \<Rightarrow> (string, exchange_symbols) gomap) \<Rightarrow> symbols_config \<Rightarrow> symbols_config" where
  "generate_subscription_lists ord sc =
     (let keep = keep_unlisted extract_base_symbol (UpbitKRWSymbols sc) in
      sc\<lparr>SubscriptionLists :=
          fold (\<lambda>(ex, cfg) m.
              mput (ex @ ''_futures'') (keep (FuturesSymbols cfg))
                (mput (ex @ ''_spot'') (keep (SpotSymbols cfg)) m))
            (ord (Exchanges sc)) (SubscriptionLists sc)\<rparr>)"

record api_replies =
  upbitR :: "string reply"
  binanceSpotR :: "pair_info reply"
  binanceFuturesR :: "pair_info reply"
  bybitSpotR :: "pair_info reply"
  bybitFuturesR :: "pair_info reply"
  okxSpotR :: "okx_info reply"
  okxFuturesR :: "okx_info reply"
  kucoinSpotR :: "kucoin_info reply"
  kucoinFuturesR :: "pair_info reply"
  gateSpotR :: "gate_pair reply"
  gateFuturesR :: "gate_contract reply"

definition update_from_exchanges ::
  "((string, exchange_symbols) gomap \<Rightarrow> (string, exchange_symbols) gomap) \<Rightarrow> gotime \<Rightarrow> api_replies \<Rightarrow>
     symbols_config \<Rightarrow> string + symbols_config" where
  "update_from_exchanges ord now r sc =
     (case update_upbit_krw_symbols (upbitR r) sc of
        Inl e \<Rightarrow> Inl (''failed to update Upbit KRW symbols: '' @ e)
      | Inr sc1 \<Rightarrow>
          Inr (generate_subscription_lists ord
            (update_gate_symbols now (gateSpotR r) (gateFuturesR r)
            (update_phemex_symbols now
            (update_kucoin_symbols now (kucoinSpotR r) (kucoinFuturesR r)
            (update_okx_symbols now (okxSpotR r) (okxFuturesR r)
            (update_bybit_symbols now (bybitSpotR r) (bybitFuturesR r)
            (update_binance_symbols now (binanceSpotR r) (binanceFuturesR r) sc1))))))))"

section \<open>The pair formats the extractor understands\<close>

lemma base_dash: "CHR ''-'' \<notin> set c \<Longrightarrow> to_upper c = c \<Longrightarrow> extract_base_symbol (c @ CHR ''-'' # r) = c"
  by (simp add: extract_base_symbol_def Let_def to_upper_cons split_char_append upper_char_def)

lemma base_underscore:
  assumes "CHR ''-'' \<notin> set c" "CHR ''_'' \<notin> set c" "to_upper c = c" "CHR ''-'' \<notin> set (to_upper r)"
  shows "extract_base_symbol (c @ CHR ''_'' # r) = c"
  using assms by (simp add: extract_base_symbol_def Let_def to_upper_cons split_char_append upper_char_def)

lemma base_plain:
  assumes "CHR ''-'' \<notin> set c" "CHR ''_'' \<notin> set c" "to_upper c = c"
  shows "extract_base_symbol (c @ ''USDT'') = c"
  using assms by (simp add: extract_base_symbol_def Let_def to_upper_cons upper_char_def)

interpretation plain: pair_format extract_base_symbol coin_code "\<lambda>c. c @ ''USDT''"
  by unfold_locales (simp add: base_plain coin_code_plain coin_code_upper)

interpretation dash: pair_format extract_base_symbol coin_code "\<lambda>c. c @ ''-USDT''"
  by unfold_locales (simp add: base_dash coin_code_plain coin_code_upper)

interpretation swap: pair_format extract_base_symbol coin_code "\<lambda>c. c @ ''-USDT-SWAP''"
  by unfold_locales (simp add: base_dash coin_code_plain coin_code_upper)

interpretation gate: pair_format extract_base_symbol coin_code "\<lambda>c. c @ ''_USDT''"
  by unfold_locales (simp add: base_underscore coin_code_plain coin_code_upper to_upper_cons upper_char_def)

end
