(* ===== verification/SymbolModel.thy ===== *)
theory SymbolModel
  imports Symbols
begin

text \<open>
  The older twin of the symbol configuration, \<open>internal/models/symbol_config.go\<close>: the same two
  records, with defaults for the six exchanges, a stricter validation, its own extraction of the
  base symbol, statistics, and the filter manager's sync clock.
\<close>

definition mk_exchange :: "string \<Rightarrow> string \<Rightarrow> int \<Rightarrow> int \<Rightarrow> int \<Rightarrow> exchange_symbols" where
  "mk_exchange sp fu mx cooldown retries =
     \<lparr>SpotEndpoint = sp, FuturesEndpoint = fu, MaxSymbolsPerConnection = mx,
      RetryCooldown = cooldown, MaxRetries = retries,
      SpotSymbols = [], FuturesSymbols = [], esLastUpdated = zero_time\<rparr>"

definition default_exchange_configs :: "(string, exchange_symbols) gomap" where
  "default_exchange_configs =
     [(''binance'', mk_exchange ''wss://stream.binance.com:9443/ws'' ''wss://fstream.binance.com/ws''
         100 (30 * second) 5),
      (''bybit'', mk_exchange ''wss://stream.bybit.com/v5/public/spot'' ''wss://stream.bybit.com/v5/public/linear''
         50 (60 * second) 3),
      (''kucoin'', mk_exchange ''wss://ws-api.kucoin.com/endpoint'' ''wss://ws-api-futures.kucoin.com/endpoint''
         100 (45 * second) 4),
      (''okx'', mk_exchange ''wss://ws.okx.com:8443/ws/v5/public'' ''wss://ws.okx.com:8443/ws/v5/public''
         100 (30 * second) 5),
      (''phemex'', mk_exchange ''wss://phemex.com/ws'' ''wss://phemex.com/ws'' 20 (90 * second) 3),
      (''gate'', mk_exchange ''wss://api.gateio.ws/ws/v4/'' ''wss://fx-ws.gateio.ws/v4/ws''
         100 (30 * second) 5)]"

definition new_symbols_config :: "gotime \<Rightarrow> symbols_config" where
  "new_symbols_config now =
     \<lparr>scVersion = ''2.0'', UpdatedAt = now, UpbitKRWSymbols = [], Exchanges = [], SubscriptionLists = []\<rparr>"

definition initialize_with_defaults :: "gotime \<Rightarrow> symbols_config \<Rightarrow> symbols_config" where
  "initialize_with_defaults now sc =
     sc\<lparr>Exchanges := fold (\<lambda>(ex, cfg). mput ex (cfg\<lparr>SpotSymbols := [], FuturesSymbols := [], esLastUpdated := now\<rparr>))
           default_exchange_configs (Exchanges sc),
        SubscriptionLists := fold (\<lambda>ex m. mput (ex @ ''_futures'') [] (mput (ex @ ''_spot'') [] m))
           (mkeys default_exchange_configs) (SubscriptionLists sc)\<rparr>"

definition set_upbit_krw_symbols :: "gotime \<Rightarrow> string list \<Rightarrow> symbols_config \<Rightarrow> symbols_config" where
  "set_upbit_krw_symbols now syms sc = sc\<lparr>UpbitKRWSymbols := syms, UpdatedAt := now\<rparr>"

definition update_exchange_symbols ::
  "gotime \<Rightarrow> string \<Rightarrow> string list \<Rightarrow> string list \<Rightarrow> symbols_config \<Rightarrow> symbols_config" where
  "update_exchange_symbols now ex spot futures sc =
     (case mget (Exchanges sc) ex of
        None \<Rightarrow> sc
      | Some cfg \<Rightarrow>
          sc\<lparr>Exchanges := mput ex (cfg\<lparr>SpotSymbols := spot, FuturesSymbols := futures, esLastUpdated := now\<rparr>)
               (Exchanges sc),
             UpdatedAt := now\<rparr>)"

definition extract_base_simple :: "string \<Rightarrow> string" where
  "extract_base_simple symbol =
     (if has_suffix symbol ''USDT'' then trim_suffix symbol ''USDT''
      else if has_suffix symbol ''BTC'' then trim_suffix symbol ''BTC''
      else if has_suffix symbol ''ETH'' then trim_suffix symbol ''ETH''
      else symbol)"

definition generate_lists_simple ::
  "((string, exchange_symbols) gomap \<Rightarrow> (string, exchange_symbols) gomap) \<Rightarrow> gotime \<Rightarrow>
     symbols_config \<Rightarrow> symbols_config" where
  "generate_lists_simple ord now sc =
     (let keep = keep_unlisted extract_base_simple (UpbitKRWSymbols sc) in
      sc\<lparr>SubscriptionLists :=
           fold (\<lambda>(ex, cfg) m.
               mput (ex @ ''_futures'') (keep (FuturesSymbols cfg))
                 (mput (ex @ ''_spot'') (keep (SpotSymbols cfg)) m))
             (ord (Exchanges sc)) (SubscriptionLists sc),
         UpdatedAt := now\<rparr>)"

definition subscription_list_simple :: "string \<Rightarrow> string \<Rightarrow> symbols_config \<Rightarrow> string list" where
  "subscription_list_simple ex mt sc =
     (case mget (SubscriptionLists sc) (ex @ ''_'' @ mt) of Some l \<Rightarrow> l | None \<Rightarrow> [])"

fun validate_exchanges_strict :: "(string, exchange_symbols) gomap \<Rightarrow> config_error option" where
  "validate_exchanges_strict [] = None"
| "validate_exchanges_strict ((nm, cfg) # m) =
     (if SpotEndpoint cfg = [] \<and> FuturesEndpoint cfg = [] then Some (NoEndpoint nm)
      else if MaxSymbolsPerConnection cfg \<le> 0 then Some (BadMaxSymbols nm)
      else if MaxRetries cfg \<le> 0 then Some (BadMaxRetries nm)
      else validate_exchanges_strict m)"

definition validate_strict :: "symbols_config \<Rightarrow> config_error option" where
  "validate_strict sc =
     (if scVersion sc = [] then Some VersionEmpty
      else if length (Exchanges sc) = 0 then Some NoExchange
      else validate_exchanges_strict (Exchanges sc))"

record symbol_stats =
  TotalExchanges :: nat
  TotalUpbitKRWSymbols :: nat
  TotalSpotSymbols :: nat
  TotalFuturesSymbols :: nat
  TotalSubscriptions :: nat
  ssLastUpdated :: gotime

definition get_symbol_stats :: "symbols_config \<Rightarrow> symbol_stats" where
  "get_symbol_stats sc =
     \<lparr>TotalExchanges = length (Exchanges sc),
      TotalUpbitKRWSymbols = length (UpbitKRWSymbols sc),
      TotalSpotSymbols = sum_list (map (\<lambda>(_, cfg). length (SpotSymbols cfg)) (Exchanges sc)),
      TotalFuturesSymbols = sum_list (map (\<lambda>(_, cfg). length (FuturesSymbols cfg)) (Exchanges sc)),
      TotalSubscriptions = sum_list (map (\<lambda>(_, l). length l) (SubscriptionLists sc)),
      ssLastUpdated = UpdatedAt sc\<rparr>"

record filter_manager =
  fmConfig :: symbols_config
  upbitAPI :: string
  lastSync :: gotime

definition new_filter_manager :: "symbols_config \<Rightarrow> filter_manager" where
  "new_filter_manager config =
     \<lparr>fmConfig = config, upbitAPI = ''https://api.upbit.com/v1/market/all'', lastSync = zero_time\<rparr>"

definition needs_update :: "gotime \<Rightarrow> filter_manager \<Rightarrow> bool" where
  "needs_update now sfm = (now - lastSync sfm > 24 * hour)"

definition set_last_sync :: "gotime \<Rightarrow> filter_manager \<Rightarrow> filter_manager" where
  "set_last_sync t sfm = sfm\<lparr>lastSync := t\<rparr>"

definition update_config :: "symbols_config \<Rightarrow> filter_manager \<Rightarrow> filter_manager" where
  "update_config config sfm = sfm\<lparr>fmConfig := config\<rparr>"

section \<open>The one pair format this extractor understands\<close>

lemma base_simple_plain [simp]: "extract_base_simple (c @ ''USDT'') = c"
  by (simp add: extract_base_simple_def)

interpretation simple: pair_format extract_base_simple "\<lambda>_. True" "\<lambda>c. c @ ''USDT''"
  by unfold_locales simp

end
