(* ===== verification/SymbolProps.thy ===== *)
theory SymbolProps
  imports SymbolModel
begin

text \<open>
  What the symbol configuration promises the collector: no pair of a coin that already trades on
  Upbit is subscribed (for the pair formats the extractor understands), every other pair is, a
  refresh yields a configuration that loads, and a saved configuration is read back.
\<close>

section \<open>Subscription lists\<close>

text \<open>Both versions of \<open>GenerateSubscriptionLists\<close> are this fold.\<close>

definition list_puts ::
  "(string list \<Rightarrow> string list) \<Rightarrow> (string, exchange_symbols) gomap \<Rightarrow> (string, string list) gomap \<Rightarrow>
     (string, string list) gomap" where
  "list_puts keep exs = fold (\<lambda>(ex, cfg) m.
      mput (ex @ ''_futures'') (keep (FuturesSymbols cfg)) (mput (ex @ ''_spot'') (keep (SpotSymbols cfg)) m)) exs"

lemma list_puts_Cons: "list_puts keep ((ex, cfg) # exs) m =
    list_puts keep exs (mput (ex @ ''_futures'') (keep (FuturesSymbols cfg))
      (mput (ex @ ''_spot'') (keep (SpotSymbols cfg)) m))"
  by (simp add: list_puts_def)

lemma suffix_clash: "x @ ''_spot'' \<noteq> y @ ''_futures''" "y @ ''_futures'' \<noteq> x @ ''_spot''"
  by (auto dest: arg_cong [where f = last])

lemma list_puts_spot:
  "wf_map exs \<Longrightarrow> mget (list_puts keep exs m) (ex @ ''_spot'') =
     (case mget exs ex of Some cfg \<Rightarrow> Some (keep (SpotSymbols cfg)) | None \<Rightarrow> mget m (ex @ ''_spot''))"
proof (induction exs arbitrary: m)
  case Nil then show ?case by (simp add: list_puts_def)
next
  case (Cons e exs)
  obtain k cfg where e: "e = (k, cfg)" by (cases e)
  have wf: "wf_map exs" "k \<notin> fst ` set exs" using Cons.prems by (auto simp: wf_map_def e)
  then have "mget exs k = None" by (simp add: map_of_eq_None_iff)
  with wf show ?case by (auto simp: e list_puts_Cons Cons.IH go_map suffix_clash split: option.splits)
qed

lemma list_puts_futures:
  "wf_map exs \<Longrightarrow> mget (list_puts keep exs m) (ex @ ''_futures'') =
     (case mget exs ex of Some cfg \<Rightarrow> Some (keep (FuturesSymbols cfg)) | None \<Rightarrow> mget m (ex @ ''_futures''))"
proof (induction exs arbitrary: m)
  case Nil then show ?case by (simp add: list_puts_def)
next
  case (Cons e exs)
  obtain k cfg where e: "e = (k, cfg)" by (cases e)
  have wf: "wf_map exs" "k \<notin> fst ` set exs" using Cons.prems by (auto simp: wf_map_def e)
  then have "mget exs k = None" by (simp add: map_of_eq_None_iff)
  with wf show ?case by (auto simp: e list_puts_Cons Cons.IH go_map suffix_clash split: option.splits)
qed

lemma generate_unfold: "generate_subscription_lists ord sc =
    sc\<lparr>SubscriptionLists := list_puts (keep_unlisted extract_base_symbol (UpbitKRWSymbols sc))
        (ord (Exchanges sc)) (SubscriptionLists sc)\<rparr>"
  by (simp add: generate_subscription_lists_def list_puts_def Let_def)

lemma generate_simple_unfold: "generate_lists_simple ord now sc =
    sc\<lparr>SubscriptionLists := list_puts (keep_unlisted extract_base_simple (UpbitKRWSymbols sc))
        (ord (Exchanges sc)) (SubscriptionLists sc), UpdatedAt := now\<rparr>"
  by (simp add: generate_lists_simple_def list_puts_def Let_def)

text \<open>The list after a generation is the filter, whatever the visiting order of the map.\<close>

lemma generated_list:
  assumes "iter_order ord" "wf_map (Exchanges sc)" "mget (Exchanges sc) ex = Some cfg"
  shows "get_subscription_list ex ''spot'' (generate_subscription_lists ord sc) =
           keep_unlisted extract_base_symbol (UpbitKRWSymbols sc) (SpotSymbols cfg)"
    and "get_subscription_list ex ''futures'' (generate_subscription_lists ord sc) =
           keep_unlisted extract_base_symbol (UpbitKRWSymbols sc) (FuturesSymbols cfg)"
proof -
  have wf: "wf_map (ord (Exchanges sc))" and "mget (ord (Exchanges sc)) ex = Some cfg"
    using assms by (simp_all add: iter_order_wf iter_order_mget)
  then show "get_subscription_list ex ''spot'' (generate_subscription_lists ord sc) =
           keep_unlisted extract_base_symbol (UpbitKRWSymbols sc) (SpotSymbols cfg)"
    "get_subscription_list ex ''futures'' (generate_subscription_lists ord sc) =
           keep_unlisted extract_base_symbol (UpbitKRWSymbols sc) (FuturesSymbols cfg)"
    using list_puts_spot [OF wf, of _ _ ex] list_puts_futures [OF wf, of _ _ ex]
    by (simp_all add: get_subscription_list_def generate_unfold)
qed

lemma filtered_list:
  assumes "mget (Exchanges sc) ex = Some cfg"
  shows "get_filtered_symbols ex ''spot'' sc = keep_unlisted extract_base_symbol (UpbitKRWSymbols sc) (SpotSymbols cfg)"
    and "get_filtered_symbols ex ''futures'' sc =
           keep_unlisted extract_base_symbol (UpbitKRWSymbols sc) (FuturesSymbols cfg)"
  using assms by (simp_all add: get_filtered_symbols_def Let_def)

section \<open>A refresh from the exchanges\<close>

text \<open>The six updates before the lists are generated.\<close>

definition refreshed :: "gotime \<Rightarrow> api_replies \<Rightarrow> symbols_config \<Rightarrow> symbols_config" where
  "refreshed now r sc1 =
     update_gate_symbols now (gateSpotR r) (gateFuturesR r)
     (update_phemex_symbols now
     (update_kucoin_symbols now (kucoinSpotR r) (kucoinFuturesR r)
     (update_okx_symbols now (okxSpotR r) (okxFuturesR r)
     (update_bybit_symbols now (bybitSpotR r) (bybitFuturesR r)
     (update_binance_symbols now (binanceSpotR r) (binanceFuturesR r) sc1)))))"

lemmas exchange_updates = update_gate_symbols_def update_phemex_symbols_def update_kucoin_symbols_def
  update_okx_symbols_def update_bybit_symbols_def update_binance_symbols_def put_exchange_def

lemma put_exchange_simps [simp]:
  "UpbitKRWSymbols (put_exchange ex cfg sc) = UpbitKRWSymbols sc"
  "scVersion (put_exchange ex cfg sc) = scVersion sc"
  "Exchanges (put_exchange ex cfg sc) = mput ex cfg (Exchanges sc)"
  by (simp_all add: put_exchange_def)

lemma refreshed_simps [simp]:
  "UpbitKRWSymbols (refreshed now r sc) = UpbitKRWSymbols sc"
  "scVersion (refreshed now r sc) = scVersion sc"
  "wf_map (Exchanges sc) \<Longrightarrow> wf_map (Exchanges (refreshed now r sc))"
  by (simp_all add: refreshed_def exchange_updates wf_mput)

definition krw_coins :: "string list \<Rightarrow> string list" where
  "krw_coins ms = map (\<lambda>m. trim_prefix m ''KRW-'') (filter (\<lambda>m. has_prefix m ''KRW-'') ms)"

lemma krw_coins_iff: "c \<in> set (krw_coins ms) \<longleftrightarrow> ''KRW-'' @ c \<in> set ms"
proof
  assume "c \<in> set (krw_coins ms)"
  then obtain m where "m \<in> set ms" "has_prefix m ''KRW-''" "c = trim_prefix m ''KRW-''"
    by (auto simp: krw_coins_def)
  then show "''KRW-'' @ c \<in> set ms" by (auto simp: has_prefix_iff trim_prefix_def)
next
  assume "''KRW-'' @ c \<in> set ms"
  moreover have "trim_prefix (''KRW-'' @ c) ''KRW-'' = c" "has_prefix (''KRW-'' @ c) ''KRW-''"
    by (rule trim_prefix_append, rule has_prefix_append)
  ultimately show "c \<in> set (krw_coins ms)" unfolding krw_coins_def by force
qed

lemma update_from_exchanges_Inr:
  assumes "update_from_exchanges ord now r sc = Inr sc'"
  obtains ms where "upbitR r = Reply ms"
    "sc' = generate_subscription_lists ord (refreshed now r (sc\<lparr>UpbitKRWSymbols := krw_coins ms\<rparr>))"
  using assms
  by (auto simp: update_from_exchanges_def update_upbit_krw_symbols_def refreshed_def krw_coins_def
      split: reply.splits)

lemma generate_simps [simp]:
  "Exchanges (generate_subscription_lists ord sc) = Exchanges sc"
  "UpbitKRWSymbols (generate_subscription_lists ord sc) = UpbitKRWSymbols sc"
  "scVersion (generate_subscription_lists ord sc) = scVersion sc"
  by (simp_all add: generate_unfold)

definition market_symbols :: "string \<Rightarrow> exchange_symbols \<Rightarrow> string list" where
  "market_symbols mt cfg = (if mt = ''spot'' then SpotSymbols cfg else FuturesSymbols cfg)"

text \<open>The list of a market after a refresh, in one equation.\<close>

lemma refreshed_list:
  assumes "update_from_exchanges ord now r sc = Inr sc'" "upbitR r = Reply ms"
    and "iter_order ord" "wf_map (Exchanges sc)"
    and "mget (Exchanges sc') ex = Some cfg" "mt = ''spot'' \<or> mt = ''futures''"
  shows "get_subscription_list ex mt sc' = keep_unlisted extract_base_symbol (krw_coins ms) (market_symbols mt cfg)"
    and "get_filtered_symbols ex mt sc' = keep_unlisted extract_base_symbol (krw_coins ms) (market_symbols mt cfg)"
proof -
  obtain sc1 where sc1: "sc1 = refreshed now r (sc\<lparr>UpbitKRWSymbols := krw_coins ms\<rparr>)" by simp
  from assms(1,2) have sc': "sc' = generate_subscription_lists ord sc1"
    by (auto simp: sc1 elim: update_from_exchanges_Inr)
  have wf: "wf_map (Exchanges sc1)" and krw: "UpbitKRWSymbols sc1 = krw_coins ms"
    using assms(4) by (simp_all add: sc1)
  have m: "mget (Exchanges sc1) ex = Some cfg" using assms(5) by (simp add: sc')
  show "get_subscription_list ex mt sc' = keep_unlisted extract_base_symbol (krw_coins ms) (market_symbols mt cfg)"
    using generated_list [OF assms(3) wf m] assms(6) by (auto simp: sc' market_symbols_def krw)
  have "mget (Exchanges sc') ex = Some cfg" by (rule assms(5))
  then show "get_filtered_symbols ex mt sc' = keep_unlisted extract_base_symbol (krw_coins ms) (market_symbols mt cfg)"
    using filtered_list [of sc' ex cfg] assms(6) by (auto simp: market_symbols_def krw sc')
qed

lemma in_refreshed_list:
  assumes "update_from_exchanges ord now r sc = Inr sc'" "upbitR r = Reply ms"
    and "iter_order ord" "wf_map (Exchanges sc)"
    and "mget (Exchanges sc') ex = Some cfg" "mt = ''spot'' \<or> mt = ''futures''"
  shows "p \<in> set (get_subscription_list ex mt sc') \<longleftrightarrow>
     p \<in> set (market_symbols mt cfg) \<and> ''KRW-'' @ extract_base_symbol p \<notin> set ms"
  using krw_coins_iff by (simp add: refreshed_list(1) [OF assms] keep_unlisted_def)

lemma validate_mput:
  "validate_exchanges m = None \<Longrightarrow> 0 < MaxSymbolsPerConnection cfg \<Longrightarrow> 0 \<le> MaxRetries cfg \<Longrightarrow>
     validate_exchanges (mput ex cfg m) = None"
  by (induction m rule: validate_exchanges.induct) (auto split: if_splits)

lemma length_mput: "mput k v m \<noteq> []"
  by (cases m) auto

lemma refreshed_valid:
  "validate_exchanges (Exchanges sc) = None \<Longrightarrow> validate_exchanges (Exchanges (refreshed now r sc)) = None"
  by (simp add: refreshed_def exchange_updates validate_mput)

lemma base_contract:
  assumes "coin_code c" shows "extract_base_symbol (c @ ''USDTM'') = c @ ''USDTM''"
proof -
  have suf: "has_suffix (c @ ''USDTM'') q \<longleftrightarrow> q = [] \<or> last q = CHR ''M'' \<and> has_suffix (c @ ''USDTM'') q" for q
    by (cases q rule: rev_cases) (auto simp: has_suffix_iff dest: arg_cong [where f = last])
  have nd: "CHR ''-'' \<notin> set (c @ ''USDTM'')" "CHR ''_'' \<notin> set (c @ ''USDTM'')"
    using coin_code_plain [OF assms] by auto
  have none: "\<not> has_suffix (c @ ''USDTM'') ''USDT''" "\<not> has_suffix (c @ ''USDTM'') ''USDC''"
    "\<not> has_suffix (c @ ''USDTM'') ''BTC''" "\<not> has_suffix (c @ ''USDTM'') ''ETH''"
    "\<not> has_suffix (c @ ''USDTM'') ''BNB''"
    by (subst suf, simp)+
  show ?thesis using nd none by (simp add: extract_base_symbol_def Let_def coin_code_upper [OF assms] to_upper_cons upper_char_def)
qed

section \<open>Properties\<close>

text \<open>C16. After a successful refresh a USDT pair of a coin, in any of the four formats
  c-USDT, c-USDT-SWAP, c\_USDT and cUSDT, is on the subscription list of a market exactly when the
  market lists it and the Upbit reply has no KRW market of the coin.\<close>

theorem subscription_excludes_upbit:
  assumes "update_from_exchanges ord now r sc = Inr sc'" "upbitR r = Reply ms"
    and "iter_order ord" "wf_map (Exchanges sc)"
    and "mget (Exchanges sc') ex = Some cfg" "mt = ''spot'' \<or> mt = ''futures''"
    and "coin_code c" "p \<in> {c @ ''USDT'', c @ ''-USDT'', c @ ''-USDT-SWAP'', c @ ''_USDT''}"
  shows "p \<in> set (get_subscription_list ex mt sc') \<longleftrightarrow>
     p \<in> set (market_symbols mt cfg) \<and> ''KRW-'' @ c \<notin> set ms"
proof -
  have "extract_base_symbol p = c"
    using assms(7,8) plain.base_pair dash.base_pair swap.base_pair gate.base_pair by auto
  then show ?thesis by (simp add: in_refreshed_list [OF assms(1-6)])
qed

text \<open>The two ways to ask for the symbols of a market agree after a refresh: the generated
  list is what filtering the market on the fly gives, for any visiting order of the Go map.\<close>

theorem subscription_equals_filter:
  assumes "update_from_exchanges ord now r sc = Inr sc'" "iter_order ord" "wf_map (Exchanges sc)"
    and "ex \<in> set (get_all_exchanges sc')" "mt = ''spot'' \<or> mt = ''futures''"
  shows "get_subscription_list ex mt sc' = get_filtered_symbols ex mt sc'"
proof -
  obtain ms where ms: "upbitR r = Reply ms" by (rule update_from_exchanges_Inr [OF assms(1)])
  obtain cfg where "mget (Exchanges sc') ex = Some cfg"
    using assms(4) weak_map_of_SomeI by (fastforce simp: get_all_exchanges_def mkeys_def)
  note refreshed_list [OF assms(1) ms assms(2,3) this assms(5)]
  then show ?thesis by simp
qed

text \<open>The KuCoin futures contract of a coin is subscribed whether or not the coin trades on
  Upbit: the extractor does not know the format cUSDTM and takes the contract's whole name as the
  coin.\<close>

theorem kucoin_contract_subscribed:
  assumes "update_from_exchanges ord now r sc = Inr sc'" "upbitR r = Reply ms"
    and "iter_order ord" "wf_map (Exchanges sc)"
    and "kucoinFuturesR r = Reply ks" "k \<in> set ks" "piSymbol k = c @ ''USDTM''" "piStatus k = ''Open''"
    and "coin_code c" "''KRW-'' @ c @ ''USDTM'' \<notin> set ms"
  shows "c @ ''USDTM'' \<in> set (get_subscription_list ''kucoin'' ''futures'' sc')"
proof -
  let ?l = "or_fallback (fetch_kucoin_futures_symbols (kucoinFuturesR r)) [''XBTUSDTM'', ''ETHUSDTM'', ''SOLUSDTM'']"
  have "has_suffix (c @ ''USDTM'') ''USDTM''" by (rule has_suffix_append)
  then have mem: "c @ ''USDTM'' \<in> set ?l"
    using assms(6-8) by (force simp: assms(5) fetch_kucoin_futures_symbols_def http_fetch_def or_fallback_def)
  from assms(1,2) have sc': "sc' = generate_subscription_lists ord
      (refreshed now r (sc\<lparr>UpbitKRWSymbols := krw_coins ms\<rparr>))"
    by (auto elim: update_from_exchanges_Inr)
  obtain cfg where cfg: "mget (Exchanges sc') ''kucoin'' = Some cfg" "FuturesSymbols cfg = ?l"
    by (simp add: sc' refreshed_def exchange_updates go_map)
  show ?thesis
    using in_refreshed_list [OF assms(1-4) cfg(1), of "''futures''"] mem assms(10)
    by (simp add: market_symbols_def cfg(2) base_contract [OF assms(9)])
qed

text \<open>A successful refresh of a configuration whose own entries are valid gives one that
  passes validation and has all six exchanges, whichever of the exchange requests failed.\<close>

theorem refresh_validates:
  assumes "update_from_exchanges ord now r sc = Inr sc'"
    and "scVersion sc \<noteq> []" "validate_exchanges (Exchanges sc) = None"
  shows "validate sc' = None \<and>
    {''binance'', ''bybit'', ''okx'', ''kucoin'', ''phemex'', ''gate''} \<subseteq> set (get_all_exchanges sc')"
proof -
  obtain ms where "sc' = generate_subscription_lists ord
      (refreshed now r (sc\<lparr>UpbitKRWSymbols := krw_coins ms\<rparr>))"
    by (rule update_from_exchanges_Inr [OF assms(1)])
  moreover have "validate_exchanges (Exchanges (refreshed now r (sc\<lparr>UpbitKRWSymbols := krw_coins ms\<rparr>))) = None"
    by (rule refreshed_valid) (simp add: assms(3))
  moreover have "Exchanges (refreshed now r s) \<noteq> []" for s
    by (simp add: refreshed_def exchange_updates length_mput)
  moreover have "mget (Exchanges (refreshed now r s)) ex \<noteq> None"
    if "ex \<in> {''binance'', ''bybit'', ''okx'', ''kucoin'', ''phemex'', ''gate''}" for s ex
    using that by (auto simp: refreshed_def exchange_updates go_map)
  ultimately show ?thesis
    using assms(2) by (simp add: validate_def get_all_exchanges_def mkeys_iff)
qed

text \<open>Saving is all or nothing and is read back: an error leaves the file as it was, and after
  a success loading gives the saved configuration, stamped with the time of the save, if it is
  valid, and the validation error otherwise.  The codec is any pair that decodes what it encoded.\<close>

theorem save_load_roundtrip:
  assumes "save_config wok rok yaml now config disk = (err, config', disk')"
    and "\<And>c f. yaml c = Some f \<Longrightarrow> unyaml f = Some c"
  shows "(err \<noteq> None \<longrightarrow> disk' = disk) \<and>
    (err = None \<longrightarrow> load_config Some unyaml disk' =
       (case validate (config\<lparr>UpdatedAt := now\<rparr>) of
          Some e \<Rightarrow> Inl (ValidationFailed e) | None \<Rightarrow> Inr (config\<lparr>UpdatedAt := now\<rparr>)))"
  using assms by (auto simp: save_config_def load_config_def Let_def split: option.splits if_splits)

text \<open>The older generator drops the pair cUSDT of an Upbit coin, but the pair c-USDT only if
  Upbit lists a coin named c with a trailing dash: the dashed pairs of OKX and KuCoin pass.\<close>

theorem simple_lists_by_format:
  assumes "iter_order ord" "wf_map (Exchanges sc)" "mget (Exchanges sc) ex = Some cfg"
  shows "(c @ ''USDT'' \<in> set (subscription_list_simple ex ''spot'' (generate_lists_simple ord now sc)) \<longleftrightarrow>
      c @ ''USDT'' \<in> set (SpotSymbols cfg) \<and> c \<notin> set (UpbitKRWSymbols sc)) \<and>
    (c @ ''-USDT'' \<in> set (subscription_list_simple ex ''spot'' (generate_lists_simple ord now sc)) \<longleftrightarrow>
      c @ ''-USDT'' \<in> set (SpotSymbols cfg) \<and> c @ ''-'' \<notin> set (UpbitKRWSymbols sc))"
proof -
  have wf: "wf_map (ord (Exchanges sc))" and "mget (ord (Exchanges sc)) ex = Some cfg"
    using assms by (simp_all add: iter_order_wf iter_order_mget)
  then have l: "subscription_list_simple ex ''spot'' (generate_lists_simple ord now sc) =
      keep_unlisted extract_base_simple (UpbitKRWSymbols sc) (SpotSymbols cfg)"
    using list_puts_spot [OF wf, of _ _ ex] by (simp add: subscription_list_simple_def generate_simple_unfold)
  show ?thesis
    using simple.in_kept_iff [of c] simple.in_kept_iff [of "c @ ''-''"] by (simp add: l)
qed

section \<open>Witnesses\<close>

text \<open>Upbit answers with one KRW market, KuCoin futures with one contract; everything else is
  down, so the built-in lists stand in.\<close>

definition sample_replies :: api_replies where
  "sample_replies =
     \<lparr>upbitR = Reply [''KRW-BTC'', ''BTC-SOL''], binanceSpotR = BadStatus 429, binanceFuturesR = GetFailed ''down'',
      bybitSpotR = GetFailed ''down'', bybitFuturesR = GetFailed ''down'',
      okxSpotR = GetFailed ''down'', okxFuturesR = GetFailed ''down'',
      kucoinSpotR = GetFailed ''down'',
      kucoinFuturesR = Reply [\<lparr>piSymbol = ''BTC'' @ ''USDTM'', piStatus = ''Open'', piBase = ''BTC'', piQuote = ''USDT''\<rparr>],
      gateSpotR = GetFailed ''down'', gateFuturesR = GetFailed ''down''\<rparr>"

definition sample_config :: symbols_config where
  "sample_config = generate_subscription_lists rev
     (refreshed 7 sample_replies ((new_manager 5)\<lparr>UpbitKRWSymbols := krw_coins [''KRW-BTC'', ''BTC-SOL'']\<rparr>))"

lemma sample_refresh: "update_from_exchanges rev 7 sample_replies (new_manager 5) = Inr sample_config"
  by (simp add: update_from_exchanges_def update_upbit_krw_symbols_def sample_replies_def sample_config_def
      refreshed_def krw_coins_def)

lemma sample_wf: "wf_map (Exchanges (new_manager 5))"
  by (simp add: new_manager_def)

lemma sample_upbit: "upbitR sample_replies = Reply [''KRW-BTC'', ''BTC-SOL'']"
  by (simp add: sample_replies_def)

lemma sample_okx: "\<exists>cfg. mget (Exchanges sample_config) ''okx'' = Some cfg \<and>
    market_symbols ''futures'' cfg = [''BTC-USDT-SWAP'', ''ETH-USDT-SWAP'', ''SOL-USDT-SWAP'']"
  by (simp add: sample_config_def refreshed_def exchange_updates go_map market_symbols_def sample_replies_def
      fetch_okx_futures_symbols_def http_fetch_def or_fallback_def)

lemma coin_code_btc: "coin_code ''BTC''" "coin_code ''SOL''"
  by (simp_all add: coin_code_def code_char_def)

theorem subscription_excludes_upbit_witness:
  "''BTC-USDT-SWAP'' \<notin> set (get_subscription_list ''okx'' ''futures'' sample_config) \<and>
   ''SOL-USDT-SWAP'' \<in> set (get_subscription_list ''okx'' ''futures'' sample_config)"
proof -
  obtain cfg where cfg: "mget (Exchanges sample_config) ''okx'' = Some cfg"
    "market_symbols ''futures'' cfg = [''BTC-USDT-SWAP'', ''ETH-USDT-SWAP'', ''SOL-USDT-SWAP'']"
    using sample_okx by blast
  note ex = subscription_excludes_upbit [OF sample_refresh sample_upbit iter_order_rev sample_wf cfg(1), of "''futures''"]
  show ?thesis
    using ex [of "''BTC''" "''BTC-USDT-SWAP''"] ex [of "''SOL''" "''SOL-USDT-SWAP''"]
    by (simp add: cfg(2) coin_code_btc)
qed

theorem subscription_equals_filter_witness:
  "get_subscription_list ''okx'' ''futures'' sample_config = get_filtered_symbols ''okx'' ''futures'' sample_config"
proof -
  have "''okx'' \<in> set (get_all_exchanges sample_config)"
    using sample_okx by (auto simp: get_all_exchanges_def mkeys_iff)
  then show ?thesis
    using subscription_equals_filter [OF sample_refresh iter_order_rev sample_wf, of "''okx''" "''futures''"] by simp
qed

theorem kucoin_contract_subscribed_witness:
  "''BTC'' @ ''USDTM'' \<in> set (get_subscription_list ''kucoin'' ''futures'' sample_config)"
  by (rule kucoin_contract_subscribed [OF sample_refresh sample_upbit iter_order_rev sample_wf, where c = "''BTC''"
      and ks = "[\<lparr>piSymbol = ''BTC'' @ ''USDTM'', piStatus = ''Open'', piBase = ''BTC'', piQuote = ''USDT''\<rparr>]"
      and k = "\<lparr>piSymbol = ''BTC'' @ ''USDTM'', piStatus = ''Open'', piBase = ''BTC'', piQuote = ''USDT''\<rparr>"])
    (simp_all add: sample_replies_def coin_code_btc)

theorem refresh_validates_witness: "validate sample_config = None"
  using refresh_validates [OF sample_refresh] by (simp add: new_manager_def)

theorem save_load_roundtrip_witness:
  "load_config Some Some (snd (snd (save_config True True Some 9 sample_config sample_config))) =
     (case validate (sample_config\<lparr>UpdatedAt := 9\<rparr>) of
        Some e \<Rightarrow> Inl (ValidationFailed e) | None \<Rightarrow> Inr (sample_config\<lparr>UpdatedAt := 9\<rparr>))"
proof -
  have "save_config True True Some 9 sample_config sample_config =
      (None, sample_config\<lparr>UpdatedAt := 9\<rparr>, sample_config\<lparr>UpdatedAt := 9\<rparr>)"
    by (simp add: save_config_def Let_def)
  with save_load_roundtrip [OF this, of Some] show ?thesis by simp
qed

theorem simple_lists_by_format_witness:
  "''ETH'' @ ''-USDT'' \<in> set (subscription_list_simple ''okx'' ''spot'' (generate_lists_simple id 3
     (set_upbit_krw_symbols 2 [''ETH''] (update_exchange_symbols 2 ''okx'' [''ETH-USDT''] []
       (initialize_with_defaults 1 (new_symbols_config 1))))))"
proof -
  let ?sc = "set_upbit_krw_symbols 2 [''ETH''] (update_exchange_symbols 2 ''okx'' [''ETH-USDT''] []
       (initialize_with_defaults 1 (new_symbols_config 1)))"
  obtain cfg where cfg: "mget (Exchanges ?sc) ''okx'' = Some cfg" "SpotSymbols cfg = [''ETH-USDT'']"
    by (simp add: set_upbit_krw_symbols_def update_exchange_symbols_def initialize_with_defaults_def
        default_exchange_configs_def new_symbols_config_def go_map)
  have wf: "wf_map (Exchanges ?sc)"
    by (simp add: set_upbit_krw_symbols_def update_exchange_symbols_def initialize_with_defaults_def
        default_exchange_configs_def new_symbols_config_def wf_map_def)
  have "UpbitKRWSymbols ?sc = [''ETH'']" by (simp add: set_upbit_krw_symbols_def)
  then show ?thesis
    using simple_lists_by_format [OF iter_order_id wf cfg(1), of "''ETH''" 3] by (simp add: cfg(2))
qed

end
