(* ===== verification/CircuitBreakers.thy ===== *)
theory CircuitBreakers
  imports Prelude
begin

text \<open>
  The two circuit breakers: \<open>CircuitBreaker\<close> of \<open>internal/database/questdb_manager.go\<close>, which
  guards the batch inserts and keeps its state in atomic integers, and \<open>CircuitBreaker\<close> of
  \<open>internal/models/websocket_types.go\<close>, which keeps it in a string.  The locale
  \<open>breaker_contract\<close> is what a guarded caller relies on; both models satisfy it, and they are
  the same machine.
\<close>

section \<open>The contract\<close>

text \<open>\<open>opened s\<close> is the time of the last failure if the breaker is open.\<close>

locale breaker_contract =
  fixes can :: "gotime \<Rightarrow> 's \<Rightarrow> bool \<times> 's"
    and succeed :: "'s \<Rightarrow> 's"
    and fail :: "gotime \<Rightarrow> 's \<Rightarrow> 's"
    and opened :: "'s \<Rightarrow> gotime option"
    and failures :: "'s \<Rightarrow> int"
    and limit :: "'s \<Rightarrow> int"
    and period :: "'s \<Rightarrow> int"
    and ok :: "'s \<Rightarrow> bool"
  assumes ok_can: "ok s \<Longrightarrow> ok (snd (can now s))"
    and ok_succeed: "ok s \<Longrightarrow> ok (succeed s)"
    and ok_fail: "ok s \<Longrightarrow> ok (fail now s)"
    and can_closed: "ok s \<Longrightarrow> opened s = None \<Longrightarrow> fst (can now s)"
    and can_early: "ok s \<Longrightarrow> opened s = Some t \<Longrightarrow> now - t \<le> period s \<Longrightarrow> can now s = (False, s)"
    and can_late: "ok s \<Longrightarrow> opened s = Some t \<Longrightarrow> now - t > period s \<Longrightarrow>
      fst (can now s) \<and> opened (snd (can now s)) = None"
    and can_keeps: "ok s \<Longrightarrow> failures (snd (can now s)) = failures s \<and>
      limit (snd (can now s)) = limit s \<and> period (snd (can now s)) = period s"
    and succeed_law: "ok s \<Longrightarrow> opened (succeed s) = None \<and> failures (succeed s) = 0 \<and>
      limit (succeed s) = limit s \<and> period (succeed s) = period s"
    and fail_law: "ok s \<Longrightarrow> failures (fail now s) = failures s + 1 \<and>
      limit (fail now s) = limit s \<and> period (fail now s) = period s"
    and fail_opens: "ok s \<Longrightarrow> limit s \<le> failures s + 1 \<Longrightarrow> opened (fail now s) = Some now"
    and fail_below: "ok s \<Longrightarrow> failures s + 1 < limit s \<Longrightarrow>
      opened (fail now s) = map_option (\<lambda>_. now) (opened s)"
begin

definition fails :: "gotime list \<Rightarrow> 's \<Rightarrow> 's" where
  "fails ts s = fold fail ts s"

lemma fails_keeps: "ok s \<Longrightarrow> ok (fails ts s) \<and> failures (fails ts s) = failures s + int (length ts) \<and>
    limit (fails ts s) = limit s \<and> period (fails ts s) = period s"
proof (induction ts arbitrary: s)
  case (Cons t ts)
  have "fails (t # ts) s = fails ts (fail t s)" by (simp add: fails_def)
  with Cons.IH [OF ok_fail [OF Cons.prems], of t] fail_law [OF Cons.prems, of t] show ?case by simp
qed (simp add: fails_def)

lemma fails_snoc: "fails (ts @ [t]) s = fail t (fails ts s)"
  by (simp add: fails_def)

text \<open>From a closed breaker, failures open it exactly when they reach the limit.\<close>

lemma fails_opened:
  "ok s \<Longrightarrow> opened s = None \<Longrightarrow>
     opened (fails ts s) = (if ts \<noteq> [] \<and> limit s \<le> failures s + int (length ts) then Some (last ts) else None)"
proof (induction ts rule: rev_induct)
  case (snoc t ts)
  have k: "ok (fails ts s)" "failures (fails ts s) = failures s + int (length ts)" "limit (fails ts s) = limit s"
    using fails_keeps [OF snoc.prems(1)] by auto
  show ?case
  proof (cases "limit s \<le> failures s + int (length ts) + 1")
    case True
    then have "opened (fail t (fails ts s)) = Some t" using k by (intro fail_opens) auto
    with True show ?thesis by (simp add: fails_snoc)
  next
    case False
    then have "opened (fails ts s) = None" using snoc by auto
    then have "opened (fail t (fails ts s)) = None" using fail_below [OF k(1)] k False by simp
    with False show ?thesis by (simp add: fails_snoc)
  qed
qed (simp add: fails_def)

lemma blocked_until:
  assumes "ok s" "opened s = None" "ts \<noteq> []" "limit s \<le> failures s + int (length ts)"
  shows "fst (can now (fails ts s)) \<longleftrightarrow> now - last ts > period s"
proof -
  have k: "ok (fails ts s)" "period (fails ts s) = period s" using fails_keeps [OF assms(1)] by auto
  have op: "opened (fails ts s) = Some (last ts)" using fails_opened [OF assms(1,2)] assms(3,4) by simp
  show ?thesis
  proof (cases "now - last ts > period s")
    case True then show ?thesis using can_late [OF k(1) op] k(2) by simp
  next
    case False then show ?thesis using can_early [OF k(1) op, of now] k(2) by simp
  qed
qed

text \<open>After the pause one trial decides: a failure opens the breaker again at once, a success
  closes it with a clean count.\<close>

lemma trial:
  assumes "ok s" "limit s \<le> failures s"
  shows "opened (fail t (snd (can now s))) = Some t"
    and "opened (succeed (snd (can now s))) = None" "failures (succeed (snd (can now s))) = 0"
  using fail_opens [OF ok_can [OF assms(1), of now], of t] can_keeps [OF assms(1), of now] assms(2)
    succeed_law [OF ok_can [OF assms(1), of now]] by auto

end

section \<open>The breaker of the QuestDB manager\<close>

record breaker =
  failureCount :: int
  lastFailureTime :: gotime
  cbState :: int
  threshold :: int
  cbTimeout :: int

definition new_circuit_breaker :: "int \<Rightarrow> int \<Rightarrow> breaker" where
  "new_circuit_breaker th tmo =
     \<lparr>failureCount = 0, lastFailureTime = 0, cbState = 0, threshold = th, cbTimeout = tmo\<rparr>"

definition can_execute :: "gotime \<Rightarrow> breaker \<Rightarrow> bool \<times> breaker" where
  "can_execute now cb =
     (if cbState cb = 0 then (True, cb)
      else if cbState cb = 1 then
        (if now - lastFailureTime cb > cbTimeout cb then (True, cb\<lparr>cbState := 2\<rparr>) else (False, cb))
      else if cbState cb = 2 then (True, cb)
      else (False, cb))"

definition record_success :: "breaker \<Rightarrow> breaker" where
  "record_success cb = cb\<lparr>failureCount := 0, cbState := 0\<rparr>"

definition record_failure :: "gotime \<Rightarrow> breaker \<Rightarrow> breaker" where
  "record_failure now cb0 =
     (let cb = cb0\<lparr>lastFailureTime := now, failureCount := failureCount cb0 + 1\<rparr>
      in if failureCount cb \<ge> threshold cb then cb\<lparr>cbState := 1\<rparr> else cb)"

definition breaker_ok :: "breaker \<Rightarrow> bool" where
  "breaker_ok cb = (cbState cb \<in> {0, 1, 2} \<and> 0 \<le> failureCount cb)"

definition breaker_opened :: "breaker \<Rightarrow> gotime option" where
  "breaker_opened cb = (if cbState cb = 1 then Some (lastFailureTime cb) else None)"

lemmas breaker_defs = can_execute_def record_success_def record_failure_def breaker_ok_def
  breaker_opened_def Let_def

interpretation db_breaker: breaker_contract can_execute record_success record_failure breaker_opened
  failureCount threshold cbTimeout breaker_ok
  by unfold_locales (auto simp: breaker_defs split: if_splits)

section \<open>The breaker of the models package\<close>

record ws_breaker =
  wsFailureCount :: int
  maxFailures :: int
  wsTimeout :: int
  wsLastFailure :: gotime
  wsState :: string

definition new_ws_breaker :: "int \<Rightarrow> int \<Rightarrow> ws_breaker" where
  "new_ws_breaker mx tmo =
     \<lparr>wsFailureCount = 0, maxFailures = mx, wsTimeout = tmo, wsLastFailure = zero_time, wsState = ''closed''\<rparr>"

definition ws_can_execute :: "gotime \<Rightarrow> ws_breaker \<Rightarrow> bool \<times> ws_breaker" where
  "ws_can_execute now cb =
     (if wsState cb = ''closed'' then (True, cb)
      else if wsState cb = ''open'' then
        (if now - wsLastFailure cb > wsTimeout cb then (True, cb\<lparr>wsState := ''half-open''\<rparr>) else (False, cb))
      else if wsState cb = ''half-open'' then (True, cb)
      else (False, cb))"

definition on_success :: "ws_breaker \<Rightarrow> ws_breaker" where
  "on_success cb = cb\<lparr>wsFailureCount := 0, wsState := ''closed''\<rparr>"

definition on_failure :: "gotime \<Rightarrow> ws_breaker \<Rightarrow> ws_breaker" where
  "on_failure now cb0 =
     (let cb = cb0\<lparr>wsFailureCount := wsFailureCount cb0 + 1, wsLastFailure := now\<rparr>
      in if wsFailureCount cb \<ge> maxFailures cb then cb\<lparr>wsState := ''open''\<rparr> else cb)"

definition ws_ok :: "ws_breaker \<Rightarrow> bool" where
  "ws_ok cb = (wsState cb \<in> {''closed'', ''open'', ''half-open''} \<and> 0 \<le> wsFailureCount cb)"

definition ws_opened :: "ws_breaker \<Rightarrow> gotime option" where
  "ws_opened cb = (if wsState cb = ''open'' then Some (wsLastFailure cb) else None)"

lemmas ws_breaker_defs = ws_can_execute_def on_success_def on_failure_def ws_ok_def ws_opened_def Let_def

interpretation ws_breaker: breaker_contract ws_can_execute on_success on_failure ws_opened
  wsFailureCount maxFailures wsTimeout ws_ok
  by unfold_locales (auto simp: ws_breaker_defs split: if_splits)

section \<open>Properties\<close>

text \<open>The string states as the numbers of the atomic field.\<close>

definition state_code :: "string \<Rightarrow> int" where
  "state_code s = (if s = ''closed'' then 0 else if s = ''open'' then 1 else if s = ''half-open'' then 2 else 3)"

definition abs_breaker :: "ws_breaker \<Rightarrow> breaker" where
  "abs_breaker cb =
     \<lparr>failureCount = wsFailureCount cb, lastFailureTime = wsLastFailure cb, cbState = state_code (wsState cb),
      threshold = maxFailures cb, cbTimeout = wsTimeout cb\<rparr>"

text \<open>C25. The two breakers are one machine: reading the string state as the number of the atomic
  field, every operation of the models package is the operation of the QuestDB manager, the answer
  of the guard included.\<close>

theorem breakers_agree:
  "map_prod id abs_breaker (ws_can_execute now cb) = can_execute now (abs_breaker cb) \<and>
   abs_breaker (on_success cb) = record_success (abs_breaker cb) \<and>
   abs_breaker (on_failure now cb) = record_failure now (abs_breaker cb)"
  by (auto simp: abs_breaker_def state_code_def breaker_defs ws_breaker_defs)

text \<open>A new breaker with a positive threshold stays closed for fewer consecutive failures than
  the threshold; from the threshold on it refuses every call up to the timeout after the last
  failure and admits a trial after it; a failed trial opens it again at once, a successful one
  closes it with a clean count.\<close>

theorem breaker_trips_and_recovers:
  assumes "0 < th" "ts \<noteq> []" and cb: "cb = fold record_failure ts (new_circuit_breaker th tmo)"
  shows "(fst (can_execute now cb) \<longleftrightarrow> int (length ts) < th \<or> now - last ts > tmo) \<and>
    (th \<le> int (length ts) \<longrightarrow>
      breaker_opened (record_failure t (snd (can_execute now cb))) = Some t \<and>
      breaker_opened (record_success (snd (can_execute now cb))) = None \<and>
      failureCount (record_success (snd (can_execute now cb))) = 0)"
proof -
  let ?s = "new_circuit_breaker th tmo"
  have s: "breaker_ok ?s" "breaker_opened ?s = None" "failureCount ?s = 0" "threshold ?s = th" "cbTimeout ?s = tmo"
    by (simp_all add: new_circuit_breaker_def breaker_ok_def breaker_opened_def)
  have cb': "cb = db_breaker.fails ts ?s" by (simp add: cb db_breaker.fails_def)
  have k: "breaker_ok cb" "failureCount cb = int (length ts)" "threshold cb = th"
    using db_breaker.fails_keeps [OF s(1), of ts] s by (simp_all add: cb')
  show ?thesis
  proof (cases "th \<le> int (length ts)")
    case True
    then show ?thesis
      using db_breaker.blocked_until [OF s(1,2) assms(2), of now] db_breaker.trial [OF k(1)] s k
      by (auto simp: cb')
  next
    case False
    then have "breaker_opened cb = None" using db_breaker.fails_opened [OF s(1,2), of ts] s by (simp add: cb')
    with False show ?thesis using db_breaker.can_closed [OF k(1)] by simp
  qed
qed

theorem breaker_trips_and_recovers_witness:
  "\<not> fst (can_execute (25 * second) (fold record_failure [1, 2, 3, 4, second] (new_circuit_breaker 5 (30 * second)))) \<and>
   fst (can_execute (32 * second) (fold record_failure [1, 2, 3, 4, second] (new_circuit_breaker 5 (30 * second))))"
  using breaker_trips_and_recovers [where th = 5 and ts = "[1, 2, 3, 4, second]" and tmo = "30 * second"
      and now = "25 * second", OF _ _ refl]
    breaker_trips_and_recovers [where th = 5 and ts = "[1, 2, 3, 4, second]" and tmo = "30 * second"
      and now = "32 * second", OF _ _ refl]
  by (simp add: second_def)

end
