(* ===== verification/QuestDB.thy ===== *)
theory QuestDB
  imports TradeEvent CircuitBreakers ListingEvent
begin

text \<open>
  The batch pipeline of \<open>internal/database/questdb_manager.go\<close>: a bounded trade channel, a
  collector goroutine that cuts it into batches, a bounded batch channel and worker goroutines that
  insert the batches with retries behind a circuit breaker.

  The database is an environment: for each attempt it says whether the transaction opens, which
  inserts fail and whether the commit does.  \<open>pf\<close> is the decimal conversion
  (\<open>strconv.ParseFloat\<close>), \<^const>\<open>None\<close> for a malformed number.  A panic of a goroutine ends the
  process; the state then has \<open>qCrashed\<close> and takes no further step.
\<close>

section \<open>Data\<close>

record quest_config =
  BatchSize :: int
  FlushInterval :: int
  BufferSize :: nat
  WorkerCount :: nat
  qMaxRetries :: int
  BaseDelay :: int
  MaxDelay :: int

definition default_manager_config :: quest_config where
  "default_manager_config =
     \<lparr>BatchSize = 1000, FlushInterval = 1 * second, BufferSize = 50000, WorkerCount = 4,
      qMaxRetries = 3, BaseDelay = 100 * millisecond, MaxDelay = 5 * second\<rparr>"

record quest_stats =
  qTotalTrades :: int
  BatchesProcessed :: int
  FailedBatches :: int
  DroppedTrades :: int
  AverageLatency :: int
  LastFlushTime :: int
  WorkerStatus :: "string list"
  RetryableErrors :: int
  FatalErrors :: int
  CircuitBreakerTrips :: int

definition new_quest_stats :: quest_stats where
  "new_quest_stats =
     \<lparr>qTotalTrades = 0, BatchesProcessed = 0, FailedBatches = 0, DroppedTrades = 0, AverageLatency = 0,
      LastFlushTime = 0, WorkerStatus = [''idle'', ''idle'', ''idle'', ''idle''],
      RetryableErrors = 0, FatalErrors = 0, CircuitBreakerTrips = 0\<rparr>"

text \<open>A row of the table \<open>trades\<close>.\<close>

record 'f db_row =
  rowTime :: gotime
  rowExchange :: string
  rowMarket :: string
  rowSymbol :: string
  rowTradeID :: string
  rowPrice :: 'f
  rowQuantity :: 'f
  rowSide :: string
  rowCollectedAt :: gotime

text \<open>Where a worker goroutine is: waiting, holding a batch, at a numbered attempt, or ended.\<close>

datatype worker_pc = Idle | Taken "trade_event list" | Attempting "trade_event list" nat | Ended

record 'f questdb =
  qConfig :: quest_config
  tradeChannel :: "trade_event list"
  qBatch :: "trade_event list"
  collectorDone :: bool
  batchChannel :: "trade_event list list"
  qWorkers :: "worker_pc list"
  qCancelled :: bool
  qClosed :: bool
  qCrashed :: bool
  qStats :: quest_stats
  circuitBreaker :: breaker
  qRows :: "'f db_row list"

text \<open>\<open>NewQuestDBManager\<close> after the connection test succeeded.\<close>

definition new_questdb_manager :: "quest_config \<Rightarrow> 'f questdb" where
  "new_questdb_manager config =
     \<lparr>qConfig = config, tradeChannel = [], qBatch = [], collectorDone = False, batchChannel = [],
      qWorkers = replicate (WorkerCount config) Idle, qCancelled = False, qClosed = False, qCrashed = False,
      qStats = new_quest_stats, circuitBreaker = new_circuit_breaker 5 (30 * second), qRows = []\<rparr>"

definition add_dropped :: "nat \<Rightarrow> 'f questdb \<Rightarrow> 'f questdb" where
  "add_dropped n qm = qm\<lparr>qStats := (qStats qm)\<lparr>DroppedTrades := DroppedTrades (qStats qm) + int n\<rparr>\<rparr>"

text \<open>\<open>GetStats\<close> does not copy the error counters.\<close>

definition get_quest_stats :: "'f questdb \<Rightarrow> quest_stats" where
  "get_quest_stats qm = (qStats qm)\<lparr>RetryableErrors := 0, FatalErrors := 0, CircuitBreakerTrips := 0\<rparr>"

text \<open>The row of \<open>InsertListingEvent\<close>; the list of markets is written by hand, without escaping.\<close>

record listing_row =
  lwID :: int
  lwSymbol :: string
  lwTitle :: string
  lwMarkets :: string
  lwAnnouncedAt :: gotime
  lwDetectedAt :: gotime
  lwTriggerTime :: gotime
  lwNoticeURL :: string
  lwIsKRW :: bool
  lwStoredAt :: gotime

definition markets_json :: "string list \<Rightarrow> string" where
  "markets_json ms =
     [CHR ''['', CHR 0x22] @ join_strings [CHR 0x22, CHR '','', CHR 0x22] ms @ [CHR 0x22, CHR '']'']"

definition insert_listing_event :: "gotime \<Rightarrow> string option \<Rightarrow> listing_event \<Rightarrow> listing_row list \<Rightarrow> string option \<times> listing_row list" where
  "insert_listing_event now exec ev rows =
     (case exec of
        Some e \<Rightarrow> (Some (''failed to insert listing event: '' @ e), rows)
      | None \<Rightarrow> (None, rows @
          [\<lparr>lwID = unix_nano now, lwSymbol = evSymbol ev, lwTitle = evTitle ev, lwMarkets = markets_json (evMarkets ev),
            lwAnnouncedAt = AnnouncedAt ev, lwDetectedAt = DetectedAt ev, lwTriggerTime = evTriggerTime ev,
            lwNoticeURL = NoticeURL ev, lwIsKRW = IsKRWListing ev, lwStoredAt = now\<rparr>]))"

section \<open>Producer and collector\<close>

text \<open>\<open>AddTrade\<close>: a send on the closed channel panics.\<close>

definition quest_add_trade :: "trade_event \<Rightarrow> 'f questdb \<Rightarrow> bool \<times> 'f questdb" where
  "quest_add_trade t qm =
     (if qClosed qm then (False, qm\<lparr>qCrashed := True\<rparr>)
      else if length (tradeChannel qm) < BufferSize (qConfig qm)
      then (True, qm\<lparr>tradeChannel := tradeChannel qm @ [t]\<rparr>)
      else (False, add_dropped 1 qm))"

text \<open>The non-blocking send of the collected batch, which is emptied either way.\<close>

definition send_batch :: "'f questdb \<Rightarrow> 'f questdb" where
  "send_batch qm =
     (if length (batchChannel qm) < WorkerCount (qConfig qm) * 2
      then qm\<lparr>batchChannel := batchChannel qm @ [qBatch qm], qBatch := []\<rparr>
      else (add_dropped (length (qBatch qm)) qm)\<lparr>qBatch := []\<rparr>)"

definition collect_trade :: "'f questdb \<Rightarrow> 'f questdb" where
  "collect_trade qm =
     (case tradeChannel qm of
        [] \<Rightarrow> qm
      | t # ts \<Rightarrow>
          (let qm' = qm\<lparr>tradeChannel := ts, qBatch := qBatch qm @ [t]\<rparr>
           in if int (length (qBatch qm')) \<ge> BatchSize (qConfig qm') then send_batch qm' else qm'))"

definition collector_tick :: "'f questdb \<Rightarrow> 'f questdb" where
  "collector_tick qm = (if length (qBatch qm) > 0 then send_batch qm else qm)"

definition collector_stop :: "'f questdb \<Rightarrow> 'f questdb" where
  "collector_stop qm =
     (if length (qBatch qm) > 0 then (send_batch qm)\<lparr>collectorDone := True\<rparr>
      else qm\<lparr>collectorDone := True\<rparr>)"

section \<open>Inserting a batch\<close>

record attempt_env =
  beginErr :: "string option"
  execErr :: "trade_event \<Rightarrow> string option"
  commitErr :: "string option"
  insertedAt :: "trade_event \<Rightarrow> gotime"
  jitter :: int
  cancelledInWait :: bool
  failedAt :: gotime

definition to_row :: "(string \<Rightarrow> 'f option) \<Rightarrow> attempt_env \<Rightarrow> trade_event \<Rightarrow> 'f db_row option" where
  "to_row pf env t =
     (case (pf (Price t), pf (Quantity t)) of
        (Some p, Some q) \<Rightarrow>
          Some \<lparr>rowTime = wrap64 (Timestamp t * 1000000), rowExchange = Exchange t, rowMarket = MarketType t,
                rowSymbol = Symbol t, rowTradeID = TradeID t, rowPrice = p, rowQuantity = q,
                rowSide = Side t, rowCollectedAt = insertedAt env t\<rparr>
      | _ \<Rightarrow> None)"

fun insert_rows :: "(string \<Rightarrow> 'f option) \<Rightarrow> attempt_env \<Rightarrow> trade_event list \<Rightarrow> string + 'f db_row list" where
  "insert_rows pf env [] = Inr []"
| "insert_rows pf env (t # ts) =
     (case to_row pf env t of
        None \<Rightarrow> insert_rows pf env ts
      | Some r \<Rightarrow>
          (case execErr env t of
             Some e \<Rightarrow> Inl (''failed to insert trade: '' @ e)
           | None \<Rightarrow>
               (case insert_rows pf env ts of Inl e \<Rightarrow> Inl e | Inr rs \<Rightarrow> Inr (r # rs))))"

text \<open>The rows of a transaction that does not commit are rolled back.\<close>

definition insert_batch ::
  "(string \<Rightarrow> 'f option) \<Rightarrow> attempt_env \<Rightarrow> trade_event list \<Rightarrow> 'f questdb \<Rightarrow> string option \<times> 'f questdb" where
  "insert_batch pf env b qm =
     (if length b = 0 then (None, qm)
      else
        (case beginErr env of
           Some e \<Rightarrow> (Some (''failed to begin transaction: '' @ e), qm)
         | None \<Rightarrow>
             (case insert_rows pf env b of
                Inl e \<Rightarrow> (Some e, qm)
              | Inr rs \<Rightarrow>
                  (case commitErr env of
                     Some e \<Rightarrow> (Some (''failed to commit batch: '' @ e), qm)
                   | None \<Rightarrow> (None, qm\<lparr>qRows := qRows qm @ rs\<rparr>)))))"

datatype error_type = ErrorTypeRetryable | ErrorTypeFatal | ErrorTypeTemporary

definition db_fatal_patterns :: "string list" where
  "db_fatal_patterns =
     [''syntax error'', ''column does not exist'', ''table does not exist'', ''permission denied'',
      ''authentication failed'', ''invalid credentials'']"

definition db_temporary_patterns :: "string list" where
  "db_temporary_patterns =
     [''connection refused'', ''connection reset'', ''timeout'', ''deadline exceeded'', ''network'',
      ''i/o timeout'', ''too many connections'', ''lock timeout'']"

definition error_type_of :: "string \<Rightarrow> error_type" where
  "error_type_of e =
     (if list_ex (contains_str (to_lower e)) db_fatal_patterns then ErrorTypeFatal
      else if list_ex (contains_str (to_lower e)) db_temporary_patterns then ErrorTypeTemporary
      else ErrorTypeRetryable)"

definition classify_db_error :: "string option \<Rightarrow> 'f questdb \<Rightarrow> error_type \<times> 'f questdb" where
  "classify_db_error err qm =
     (case err of
        None \<Rightarrow> (ErrorTypeRetryable, qm)
      | Some e \<Rightarrow>
          (case error_type_of e of
             ErrorTypeFatal \<Rightarrow>
               (ErrorTypeFatal, qm\<lparr>qStats := (qStats qm)\<lparr>FatalErrors := FatalErrors (qStats qm) + 1\<rparr>\<rparr>)
           | ty \<Rightarrow>
               (ty, qm\<lparr>qStats := (qStats qm)\<lparr>RetryableErrors := RetryableErrors (qStats qm) + 1\<rparr>\<rparr>)))"

section \<open>Retries\<close>

text \<open>The wait before the next attempt: \<^const>\<open>None\<close> when \<open>rand.Int63n\<close> panics.  The product is
  computed in \<open>float64\<close>, exactly for delays below \<open>2 ^ 53\<close> nanoseconds.\<close>

definition retry_delay :: "quest_config \<Rightarrow> nat \<Rightarrow> int \<Rightarrow> int option" where
  "retry_delay config attempt jit =
     (if BaseDelay config \<le> 0 then None
      else
        (let delay = BaseDelay config * 2 ^ attempt + jit mod BaseDelay config
         in Some (if delay > MaxDelay config then MaxDelay config else delay)))"

datatype outcome = Finished "string option" | Retry | Crashed

definition fail_batch :: "gotime \<Rightarrow> 'f questdb \<Rightarrow> 'f questdb" where
  "fail_batch now qm = qm\<lparr>circuitBreaker := record_failure now (circuitBreaker qm)\<rparr>"

definition retries_exhausted :: "quest_config \<Rightarrow> string \<Rightarrow> string" where
  "retries_exhausted config lastErr =
     ''batch processing failed after '' @ show_int (qMaxRetries config) @ '' retries, last error: '' @ lastErr"

text \<open>\<open>processBatchWithRetry\<close> up to the loop, and one turn of the loop.\<close>

definition start_batch :: "gotime \<Rightarrow> 'f questdb \<Rightarrow> outcome \<times> 'f questdb" where
  "start_batch now qm =
     (case can_execute now (circuitBreaker qm) of
        (False, cb) \<Rightarrow>
          (Finished (Some ''circuit breaker is open''),
           qm\<lparr>circuitBreaker := cb,
              qStats := (qStats qm)\<lparr>CircuitBreakerTrips := CircuitBreakerTrips (qStats qm) + 1\<rparr>\<rparr>)
      | (True, cb) \<Rightarrow>
          (let qm' = qm\<lparr>circuitBreaker := cb\<rparr>
           in if qMaxRetries (qConfig qm') < 0
              then (Finished (Some (retries_exhausted (qConfig qm') ''%!w(<nil>)'')), fail_batch now qm')
              else (Retry, qm')))"

definition attempt_batch ::
  "(string \<Rightarrow> 'f option) \<Rightarrow> attempt_env \<Rightarrow> nat \<Rightarrow> trade_event list \<Rightarrow> 'f questdb \<Rightarrow> outcome \<times> 'f questdb" where
  "attempt_batch pf env attempt b qm =
     (case insert_batch pf env b qm of
        (None, qm1) \<Rightarrow> (Finished None, qm1\<lparr>circuitBreaker := record_success (circuitBreaker qm1)\<rparr>)
      | (Some e, qm1) \<Rightarrow>
          (case classify_db_error (Some e) qm1 of
             (ErrorTypeFatal, qm2) \<Rightarrow>
               (Finished (Some (''fatal error, no retry: '' @ e)), fail_batch (failedAt env) qm2)
           | (_, qm2) \<Rightarrow>
               (if int attempt < qMaxRetries (qConfig qm2) then
                  (case retry_delay (qConfig qm2) attempt (jitter env) of
                     None \<Rightarrow> (Crashed, qm2\<lparr>qCrashed := True\<rparr>)
                   | Some d \<Rightarrow>
                       if cancelledInWait env then (Finished (Some ''context canceled''), qm2)
                       else (Retry, qm2))
                else (Finished (Some (retries_exhausted (qConfig qm2) e)), fail_batch (failedAt env) qm2))))"

fun run_attempts ::
  "(string \<Rightarrow> 'f option) \<Rightarrow> (nat \<Rightarrow> attempt_env) \<Rightarrow> nat \<Rightarrow> nat \<Rightarrow> trade_event list \<Rightarrow> 'f questdb \<Rightarrow>
     outcome \<times> 'f questdb" where
  "run_attempts pf envs attempt 0 b qm = (Retry, qm)"
| "run_attempts pf envs attempt (Suc left) b qm =
     (case attempt_batch pf (envs attempt) attempt b qm of
        (Retry, qm') \<Rightarrow> run_attempts pf envs (Suc attempt) left b qm'
      | r \<Rightarrow> r)"

text \<open>The whole call; the number of turns is bounded by the loop's own bound.\<close>

definition process_batch_with_retry ::
  "(string \<Rightarrow> 'f option) \<Rightarrow> gotime \<Rightarrow> (nat \<Rightarrow> attempt_env) \<Rightarrow> trade_event list \<Rightarrow> 'f questdb \<Rightarrow>
     outcome \<times> 'f questdb" where
  "process_batch_with_retry pf now envs b qm =
     (case start_batch now qm of
        (Retry, qm') \<Rightarrow> run_attempts pf envs 0 (nat (qMaxRetries (qConfig qm') + 1)) b qm'
      | r \<Rightarrow> r)"

section \<open>Worker goroutines\<close>

text \<open>The status array has four entries; an index beyond them panics.\<close>

definition set_worker_status :: "nat \<Rightarrow> string \<Rightarrow> 'f questdb \<Rightarrow> 'f questdb" where
  "set_worker_status i st qm =
     (if i < length (WorkerStatus (qStats qm))
      then qm\<lparr>qStats := (qStats qm)\<lparr>WorkerStatus := (WorkerStatus (qStats qm))[i := st]\<rparr>\<rparr>
      else qm\<lparr>qCrashed := True\<rparr>)"

definition set_pc :: "nat \<Rightarrow> worker_pc \<Rightarrow> 'f questdb \<Rightarrow> 'f questdb" where
  "set_pc i pc qm = qm\<lparr>qWorkers := (qWorkers qm)[i := pc]\<rparr>"

definition worker_take :: "nat \<Rightarrow> 'f questdb \<Rightarrow> 'f questdb" where
  "worker_take i qm =
     (case batchChannel qm of
        [] \<Rightarrow> qm
      | b # bs \<Rightarrow> set_worker_status i ''processing'' (set_pc i (Taken b) (qm\<lparr>batchChannel := bs\<rparr>)))"

text \<open>The statistics after \<open>processBatchWithRetry\<close> returned.\<close>

definition worker_finish ::
  "gotime \<Rightarrow> int \<Rightarrow> nat \<Rightarrow> string option \<Rightarrow> trade_event list \<Rightarrow> 'f questdb \<Rightarrow> 'f questdb" where
  "worker_finish now elapsed i err b qm =
     set_worker_status i ''idle'' (set_pc i Idle
       (case err of
          Some e \<Rightarrow>
            (add_dropped (length b) qm)\<lparr>qStats :=
               (qStats (add_dropped (length b) qm))\<lparr>FailedBatches := FailedBatches (qStats qm) + 1\<rparr>\<rparr>
        | None \<Rightarrow>
            qm\<lparr>qStats := (qStats qm)
               \<lparr>BatchesProcessed := BatchesProcessed (qStats qm) + 1,
                qTotalTrades := qTotalTrades (qStats qm) + int (length b),
                AverageLatency := wrap64 (AverageLatency (qStats qm) + elapsed) sdiv 2,
                LastFlushTime := unix_nano now\<rparr>\<rparr>))"

definition worker_outcome ::
  "gotime \<Rightarrow> int \<Rightarrow> nat \<Rightarrow> trade_event list \<Rightarrow> nat \<Rightarrow> outcome \<times> 'f questdb \<Rightarrow> 'f questdb" where
  "worker_outcome now elapsed i b nxt r =
     (case r of
        (Finished err, qm) \<Rightarrow> worker_finish now elapsed i err b qm
      | (Retry, qm) \<Rightarrow> set_pc i (Attempting b nxt) qm
      | (Crashed, qm) \<Rightarrow> qm)"

definition worker_stop :: "nat \<Rightarrow> 'f questdb \<Rightarrow> 'f questdb" where
  "worker_stop i qm = set_worker_status i ''stopped'' (set_pc i Ended qm)"

text \<open>\<open>Close\<close>: cancel, wait for every goroutine, then close the channels.\<close>

definition quest_cancel :: "'f questdb \<Rightarrow> 'f questdb" where
  "quest_cancel qm = qm\<lparr>qCancelled := True\<rparr>"

definition all_stopped :: "'f questdb \<Rightarrow> bool" where
  "all_stopped qm = (collectorDone qm \<and> list_all (\<lambda>pc. pc = Ended) (qWorkers qm))"

definition quest_close_channels :: "'f questdb \<Rightarrow> 'f questdb" where
  "quest_close_channels qm = qm\<lparr>qClosed := True\<rparr>"

section \<open>The goroutines together\<close>

datatype quest_action =
    AddTrade trade_event
  | Collect | Tick | CollectorStop
  | Take nat | Begin nat gotime int | Attempt nat attempt_env gotime int | WorkerStop nat
  | CancelCtx | CloseChannels

inductive quest_step :: "(string \<Rightarrow> 'f option) \<Rightarrow> 'f questdb \<Rightarrow> quest_action \<Rightarrow> 'f questdb \<Rightarrow> bool"
  for pf where
  qs_add: "\<not> qCrashed qm \<Longrightarrow> quest_step pf qm (AddTrade t) (snd (quest_add_trade t qm))"
| qs_collect: "\<not> qCrashed qm \<Longrightarrow> \<not> collectorDone qm \<Longrightarrow> tradeChannel qm \<noteq> [] \<Longrightarrow>
    quest_step pf qm Collect (collect_trade qm)"
| qs_tick: "\<not> qCrashed qm \<Longrightarrow> \<not> collectorDone qm \<Longrightarrow> quest_step pf qm Tick (collector_tick qm)"
| qs_collector_stop: "\<not> qCrashed qm \<Longrightarrow> \<not> collectorDone qm \<Longrightarrow> qCancelled qm \<Longrightarrow>
    quest_step pf qm CollectorStop (collector_stop qm)"
| qs_take: "\<not> qCrashed qm \<Longrightarrow> i < length (qWorkers qm) \<Longrightarrow> qWorkers qm ! i = Idle \<Longrightarrow> batchChannel qm \<noteq> [] \<Longrightarrow>
    quest_step pf qm (Take i) (worker_take i qm)"
| qs_begin: "\<not> qCrashed qm \<Longrightarrow> i < length (qWorkers qm) \<Longrightarrow> qWorkers qm ! i = Taken b \<Longrightarrow>
    quest_step pf qm (Begin i now elapsed) (worker_outcome now elapsed i b 0 (start_batch now qm))"
| qs_attempt: "\<not> qCrashed qm \<Longrightarrow> i < length (qWorkers qm) \<Longrightarrow> qWorkers qm ! i = Attempting b n \<Longrightarrow>
    (cancelledInWait env \<longrightarrow> qCancelled qm) \<Longrightarrow>
    quest_step pf qm (Attempt i env now elapsed)
      (worker_outcome now elapsed i b (Suc n) (attempt_batch pf env n b qm))"
| qs_worker_stop: "\<not> qCrashed qm \<Longrightarrow> i < length (qWorkers qm) \<Longrightarrow> qWorkers qm ! i = Idle \<Longrightarrow> qCancelled qm \<Longrightarrow>
    quest_step pf qm (WorkerStop i) (worker_stop i qm)"
| qs_cancel: "\<not> qCrashed qm \<Longrightarrow> quest_step pf qm CancelCtx (quest_cancel qm)"
| qs_close: "\<not> qCrashed qm \<Longrightarrow> qCancelled qm \<Longrightarrow> all_stopped qm \<Longrightarrow> \<not> qClosed qm \<Longrightarrow>
    quest_step pf qm CloseChannels (quest_close_channels qm)"

inductive quest_run :: "(string \<Rightarrow> 'f option) \<Rightarrow> 'f questdb \<Rightarrow> quest_action list \<Rightarrow> 'f questdb \<Rightarrow> bool"
  for pf where
  qr_nil: "quest_run pf qm [] qm"
| qr_snoc: "quest_run pf qm as qm1 \<Longrightarrow> quest_step pf qm1 a qm2 \<Longrightarrow> quest_run pf qm (as @ [a]) qm2"

inductive_cases quest_stepE [elim]: "quest_step pf qm a qm'"
inductive_simps quest_step_add: "quest_step pf qm (AddTrade t) qm'"

end
