(* ===== verification/QuestDBProps.thy ===== *)
theory QuestDBProps
  imports QuestDB
begin

text \<open>
  The batch pipeline: no trade is lost without being counted, the channels stay within their
  bounds, and a batch is stored entirely or not at all, whatever the database does.
\<close>

section \<open>Accounting\<close>

primrec pc_load :: "worker_pc \<Rightarrow> int" where
  "pc_load Idle = 0"
| "pc_load (Taken b) = int (length b)"
| "pc_load (Attempting b n) = int (length b)"
| "pc_load Ended = 0"

definition pending :: "'f questdb \<Rightarrow> int" where
  "pending qm = int (length (tradeChannel qm)) + int (length (qBatch qm)) +
     sum_list (map (\<lambda>b. int (length b)) (batchChannel qm)) + sum_list (map pc_load (qWorkers qm))"

definition accounted :: "'f questdb \<Rightarrow> int" where
  "accounted qm = pending qm + qTotalTrades (qStats qm) + DroppedTrades (qStats qm)"

lemma sum_load_update:
  "i < length ws \<Longrightarrow> sum_list (map pc_load (ws[i := pc])) = sum_list (map pc_load ws) + pc_load pc - pc_load (ws ! i)"
proof (induction ws arbitrary: i)
  case (Cons w ws)
  then show ?case by (cases i) simp_all
qed simp

named_theorems quest_simps "field-wise effect of the pipeline's operations"

lemma set_worker_status_simps [quest_simps]:
  "tradeChannel (set_worker_status i st qm) = tradeChannel qm"
  "qBatch (set_worker_status i st qm) = qBatch qm"
  "batchChannel (set_worker_status i st qm) = batchChannel qm"
  "qWorkers (set_worker_status i st qm) = qWorkers qm"
  "qConfig (set_worker_status i st qm) = qConfig qm"
  "qRows (set_worker_status i st qm) = qRows qm"
  "circuitBreaker (set_worker_status i st qm) = circuitBreaker qm"
  "qTotalTrades (qStats (set_worker_status i st qm)) = qTotalTrades (qStats qm)"
  "DroppedTrades (qStats (set_worker_status i st qm)) = DroppedTrades (qStats qm)"
  "qCancelled (set_worker_status i st qm) = qCancelled qm"
  "qClosed (set_worker_status i st qm) = qClosed qm"
  "collectorDone (set_worker_status i st qm) = collectorDone qm"
  by (simp_all add: set_worker_status_def)

text \<open>What an operation of a worker may touch: the rows, the breaker and the error counters.\<close>

definition same_flow :: "'f questdb \<Rightarrow> 'f questdb \<Rightarrow> bool" where
  "same_flow qm qm' = (tradeChannel qm' = tradeChannel qm \<and> qBatch qm' = qBatch qm \<and>
     batchChannel qm' = batchChannel qm \<and> qWorkers qm' = qWorkers qm \<and> qConfig qm' = qConfig qm \<and>
     qTotalTrades (qStats qm') = qTotalTrades (qStats qm) \<and> DroppedTrades (qStats qm') = DroppedTrades (qStats qm) \<and>
     qCancelled qm' = qCancelled qm \<and> qClosed qm' = qClosed qm \<and> collectorDone qm' = collectorDone qm)"

lemma same_flow_trans: "same_flow a b \<Longrightarrow> same_flow b c \<Longrightarrow> same_flow a c"
  by (simp add: same_flow_def)

lemma insert_flow: "same_flow qm (snd (insert_batch pf env b qm))"
  by (auto simp: insert_batch_def same_flow_def split: option.split sum.split)

lemma classify_flow: "same_flow qm (snd (classify_db_error err qm))"
  by (auto simp: classify_db_error_def same_flow_def split: option.split error_type.split)

lemma classify_rows [quest_simps]: "qRows (snd (classify_db_error err qm)) = qRows qm"
  by (auto simp: classify_db_error_def split: option.split error_type.split)

lemma fail_flow: "same_flow qm (fail_batch now qm)"
  by (simp add: fail_batch_def same_flow_def)

lemma start_flow: "same_flow qm (snd (start_batch now qm))" "qRows (snd (start_batch now qm)) = qRows qm"
  by (auto simp: start_batch_def same_flow_def fail_batch_def Let_def split: prod.split bool.split)

lemma insert_rows_length: "insert_rows pf env b = Inr rs \<Longrightarrow> length rs \<le> length b"
  by (induction b arbitrary: rs) (force split: option.splits sum.splits)+

lemma insert_batch_cases:
  obtains (ok) rs where "insert_batch pf env b qm = (None, qm\<lparr>qRows := qRows qm @ rs\<rparr>)" "length rs \<le> length b"
  | (err) e where "insert_batch pf env b qm = (Some e, qm)"
proof (cases "b = []")
  case True
  then have "insert_batch pf env b qm = (None, qm\<lparr>qRows := qRows qm @ []\<rparr>)" by (simp add: insert_batch_def)
  then show thesis by (rule ok) simp
next
  case ne: False
  show thesis
  proof (cases "beginErr env = None \<and> (\<exists>rs. insert_rows pf env b = Inr rs) \<and> commitErr env = None")
    case True
    then obtain rs where rs: "insert_rows pf env b = Inr rs" by blast
    with True ne have "insert_batch pf env b qm = (None, qm\<lparr>qRows := qRows qm @ rs\<rparr>)" by (simp add: insert_batch_def)
    then show thesis by (rule ok) (rule insert_rows_length [OF rs])
  next
    case False
    with ne have "\<exists>e. insert_batch pf env b qm = (Some e, qm)"
      by (auto simp: insert_batch_def split: option.split sum.split)
    then show thesis using err by blast
  qed
qed

text \<open>One turn of the retry loop: it stores at most the batch and only when it succeeds.\<close>

lemma attempt_flow:
  "same_flow qm (snd (attempt_batch pf env n b qm)) \<and>
   (\<exists>rs. qRows (snd (attempt_batch pf env n b qm)) = qRows qm @ rs \<and> length rs \<le> length b \<and>
      (rs \<noteq> [] \<longrightarrow> fst (attempt_batch pf env n b qm) = Finished None))"
proof (cases rule: insert_batch_cases [of pf env b qm])
  case (ok rs)
  then show ?thesis by (simp add: attempt_batch_def same_flow_def)
next
  case (err e)
  have flow: "same_flow qm (snd (classify_db_error (Some e) qm))" by (rule classify_flow)
  have rows: "qRows (snd (classify_db_error (Some e) qm)) = qRows qm" by (rule classify_rows)
  obtain ty qm2 where c: "classify_db_error (Some e) qm = (ty, qm2)" by fastforce
  show ?thesis
    using flow rows
    by (auto simp: attempt_batch_def err c fail_batch_def same_flow_def split: error_type.split option.split)
qed

text \<open>The bookkeeping of a worker conserves the account.\<close>

lemma accounted_finish:
  assumes "i < length (qWorkers qm)" "pc_load (qWorkers qm ! i) = int (length b)"
  shows "accounted (worker_finish now elapsed i err b qm) = accounted qm"
  using assms
  by (cases err) (simp_all add: worker_finish_def accounted_def pending_def quest_simps set_pc_def
      add_dropped_def sum_load_update)

lemma accounted_set_pc:
  "i < length (qWorkers qm) \<Longrightarrow> pc_load pc = pc_load (qWorkers qm ! i) \<Longrightarrow> accounted (set_pc i pc qm) = accounted qm"
  by (simp add: accounted_def pending_def set_pc_def sum_load_update)

lemma accounted_flow: "same_flow qm qm' \<Longrightarrow> accounted qm' = accounted qm"
  by (simp add: same_flow_def accounted_def pending_def)

lemma accounted_outcome:
  assumes "i < length (qWorkers qm)" "pc_load (qWorkers qm ! i) = int (length b)" "same_flow qm (snd r)"
  shows "accounted (worker_outcome now elapsed i b n r) = accounted qm"
proof -
  obtain oc qm' where r: "r = (oc, qm')" by (cases r)
  with assms(3) have flow: "same_flow qm qm'" by simp
  then have "i < length (qWorkers qm')" "pc_load (qWorkers qm' ! i) = int (length b)"
    using assms(1,2) by (simp_all add: same_flow_def)
  then show ?thesis
    using accounted_flow [OF flow]
    by (auto simp: worker_outcome_def r accounted_finish accounted_set_pc split: outcome.split)
qed

lemma accounted_send: "accounted (send_batch qm) = accounted qm"
  by (simp add: send_batch_def accounted_def pending_def add_dropped_def)

lemma accounted_collect: "accounted (collect_trade qm) = accounted qm"
  by (cases "tradeChannel qm")
    (simp_all add: collect_trade_def Let_def accounted_send, simp add: accounted_def pending_def)

lemma accounted_take:
  assumes "i < length (qWorkers qm)" "qWorkers qm ! i = Idle"
  shows "accounted (worker_take i qm) = accounted qm"
  using assms
  by (auto simp: worker_take_def accounted_def pending_def quest_simps set_pc_def sum_load_update split: list.split)

lemma accounted_fields:
  "accounted (qm\<lparr>collectorDone := x\<rparr>) = accounted qm"
  "accounted (qm\<lparr>qCancelled := x\<rparr>) = accounted qm"
  "accounted (qm\<lparr>qClosed := x\<rparr>) = accounted qm"
  by (simp_all add: accounted_def pending_def)

lemma accounted_collector:
  "accounted (collector_tick qm) = accounted qm" "accounted (collector_stop qm) = accounted qm"
  by (simp_all add: collector_tick_def collector_stop_def accounted_send accounted_fields)

lemma accounted_stop:
  "i < length (qWorkers qm) \<Longrightarrow> qWorkers qm ! i = Idle \<Longrightarrow> accounted (worker_stop i qm) = accounted qm"
  by (simp add: worker_stop_def accounted_def pending_def quest_simps set_pc_def sum_load_update)

fun adds :: "quest_action list \<Rightarrow> int" where
  "adds [] = 0"
| "adds (a # as) = (case a of AddTrade t \<Rightarrow> 1 | _ \<Rightarrow> 0) + adds as"

lemma adds_append [simp]: "adds (as @ bs) = adds as + adds bs"
  by (induction as) simp_all

lemma accounted_step:
  assumes "quest_step pf qm a qm'" "\<not> qCrashed qm'"
  shows "accounted qm' = accounted qm + adds [a]"
  using assms
proof cases
  case (qs_add t)
  then show ?thesis using assms(2)
    by (auto simp: quest_add_trade_def accounted_def pending_def add_dropped_def split: if_splits)
next
  case (qs_begin i b now elapsed)
  then show ?thesis by (simp add: accounted_outcome start_flow)
next
  case (qs_attempt i b n env now elapsed)
  then show ?thesis by (simp add: accounted_outcome attempt_flow)
qed (simp_all add: accounted_collect accounted_take accounted_collector accounted_stop accounted_fields
    quest_cancel_def quest_close_channels_def)

section \<open>Bounds\<close>

definition within_bounds :: "'f questdb \<Rightarrow> bool" where
  "within_bounds qm = (
     length (tradeChannel qm) \<le> BufferSize (qConfig qm) \<and>
     (qBatch qm = [] \<or> int (length (qBatch qm)) < BatchSize (qConfig qm)) \<and>
     length (batchChannel qm) \<le> WorkerCount (qConfig qm) * 2 \<and>
     length (qWorkers qm) = WorkerCount (qConfig qm) \<and>
     length (WorkerStatus (qStats qm)) = 4 \<and>
     int (length (qRows qm)) \<le> qTotalTrades (qStats qm))"

lemma worker_status_length [quest_simps]:
  "length (WorkerStatus (qStats (set_worker_status i st qm))) = length (WorkerStatus (qStats qm))"
  by (simp add: set_worker_status_def)

lemma start_status [quest_simps]: "WorkerStatus (qStats (snd (start_batch now qm))) = WorkerStatus (qStats qm)"
  by (auto simp: start_batch_def fail_batch_def Let_def split: prod.split bool.split)

lemma attempt_status [quest_simps]:
  "WorkerStatus (qStats (snd (attempt_batch pf env n b qm))) = WorkerStatus (qStats qm)"
proof (cases rule: insert_batch_cases [of pf env b qm])
  case (ok rs)
  then show ?thesis by (simp add: attempt_batch_def)
next
  case (err e)
  then show ?thesis
    by (auto simp: attempt_batch_def classify_db_error_def fail_batch_def split: error_type.split option.split)
qed

lemma bounds_finish:
  assumes "within_bounds (qm\<lparr>qRows := take (length (qRows qm) - k) (qRows qm)\<rparr>)"
    and "k \<le> length b" "k \<noteq> 0 \<longrightarrow> err = None"
  shows "within_bounds (worker_finish now elapsed i err b qm)"
  using assms by (cases err)
    (auto simp: within_bounds_def worker_finish_def quest_simps set_pc_def add_dropped_def)

lemma bounds_outcome:
  assumes "within_bounds qm" "same_flow qm (snd r)"
    and "WorkerStatus (qStats (snd r)) = WorkerStatus (qStats qm)"
    and "qRows (snd r) = qRows qm @ rs" "length rs \<le> length b" "rs \<noteq> [] \<longrightarrow> fst r = Finished None"
  shows "within_bounds (worker_outcome now elapsed i b n r)"
proof -
  obtain oc qm' where r: "r = (oc, qm')" by (cases r)
  have nor: "within_bounds (qm'\<lparr>qRows := qRows qm\<rparr>)"
    using assms(1-3) by (simp add: r within_bounds_def same_flow_def)
  show ?thesis
  proof (cases oc)
    case (Finished err)
    have "within_bounds (worker_finish now elapsed i err b qm')"
      by (rule bounds_finish [where k = "length rs"]) (use nor assms(4-6) Finished r in auto)
    then show ?thesis by (simp add: worker_outcome_def r Finished)
  next
    case Retry
    with assms(4,6) nor show ?thesis
      by (auto simp: worker_outcome_def r set_pc_def within_bounds_def)
  next
    case Crashed
    with assms(4,6) nor show ?thesis
      by (auto simp: worker_outcome_def r within_bounds_def)
  qed
qed

lemma bounds_send: "within_bounds qm \<Longrightarrow> within_bounds (send_batch qm)"
  by (auto simp: within_bounds_def send_batch_def add_dropped_def)

lemma bounds_collect: "within_bounds qm \<Longrightarrow> within_bounds (collect_trade qm)"
  by (cases "tradeChannel qm")
    (auto simp: collect_trade_def Let_def within_bounds_def send_batch_def add_dropped_def)

lemma bounds_fields:
  "within_bounds qm \<Longrightarrow> within_bounds (qm\<lparr>collectorDone := x\<rparr>)"
  "within_bounds qm \<Longrightarrow> within_bounds (quest_cancel qm)"
  "within_bounds qm \<Longrightarrow> within_bounds (quest_close_channels qm)"
  "within_bounds qm \<Longrightarrow> within_bounds (worker_stop i qm)"
  by (simp_all add: within_bounds_def quest_cancel_def quest_close_channels_def worker_stop_def
      quest_simps set_pc_def)

lemma bounds_add: "within_bounds qm \<Longrightarrow> within_bounds (snd (quest_add_trade t qm))"
  by (auto simp: quest_add_trade_def within_bounds_def add_dropped_def)

lemma bounds_take: "within_bounds qm \<Longrightarrow> within_bounds (worker_take i qm)"
  by (cases "batchChannel qm") (simp_all add: worker_take_def within_bounds_def quest_simps set_pc_def)

lemma bounds_collector:
  "within_bounds qm \<Longrightarrow> within_bounds (collector_tick qm)"
  "within_bounds qm \<Longrightarrow> within_bounds (collector_stop qm)"
  by (simp_all add: collector_tick_def collector_stop_def bounds_send bounds_fields)

lemma bounds_begin: "within_bounds qm \<Longrightarrow> within_bounds (worker_outcome now elapsed i b n (start_batch t qm))"
  by (rule bounds_outcome [where rs = "[]"]) (simp_all add: start_flow quest_simps)

lemma bounds_attempt:
  "within_bounds qm \<Longrightarrow> within_bounds (worker_outcome now elapsed i b m (attempt_batch pf env n b qm))"
  using attempt_flow [of qm pf env n b] by (auto intro!: bounds_outcome simp: quest_simps)

lemma bounds_step:
  assumes "quest_step pf qm a qm'" "within_bounds qm"
  shows "within_bounds qm'"
  using assms(1)
  by cases (simp_all add: assms(2) bounds_add bounds_collect bounds_collector bounds_take bounds_begin
      bounds_attempt bounds_fields)

lemma new_quest_ok:
  "within_bounds (new_questdb_manager config)" "accounted (new_questdb_manager config) = 0"
  by (simp_all add: new_questdb_manager_def new_quest_stats_def within_bounds_def accounted_def pending_def
      sum_list_replicate)

lemma step_not_crashed: "quest_step pf qm a qm' \<Longrightarrow> \<not> qCrashed qm"
  by (erule quest_step.cases) simp_all

lemma run_invariant:
  "quest_run pf qm as qm' \<Longrightarrow> within_bounds qm \<Longrightarrow>
     within_bounds qm' \<and> (\<not> qCrashed qm' \<longrightarrow> accounted qm' = accounted qm + adds as)"
proof (induction rule: quest_run.induct)
  case (qr_snoc qm as qm1 a qm2)
  then show ?case
    using bounds_step [OF qr_snoc.hyps(2)] accounted_step [OF qr_snoc.hyps(2)] step_not_crashed [OF qr_snoc.hyps(2)]
    by simp
qed simp

section \<open>Properties\<close>

text \<open>C22. In every interleaving of producers, collector, workers and shutdown, as long as the
  process has not crashed, every trade handed to \<open>AddTrade\<close> is in a channel, in the
  collector's batch, held by a worker, counted as stored or counted as dropped; the channels and the
  collected batch stay within their configured sizes, and no more rows are stored than trades are
  counted as stored.\<close>

theorem pipeline_accounting:
  assumes "quest_run pf (new_questdb_manager config) as qm"
  shows "(\<not> qCrashed qm \<longrightarrow>
      adds as = int (length (tradeChannel qm)) + int (length (qBatch qm)) +
        sum_list (map (\<lambda>b. int (length b)) (batchChannel qm)) + sum_list (map pc_load (qWorkers qm)) +
        qTotalTrades (qStats qm) + DroppedTrades (qStats qm)) \<and>
    length (tradeChannel qm) \<le> BufferSize (qConfig qm) \<and>
    (qBatch qm = [] \<or> int (length (qBatch qm)) < BatchSize (qConfig qm)) \<and>
    length (batchChannel qm) \<le> WorkerCount (qConfig qm) * 2 \<and>
    int (length (qRows qm)) \<le> qTotalTrades (qStats qm)"
  using run_invariant [OF assms new_quest_ok(1)] new_quest_ok(2) [of config]
  by (auto simp: within_bounds_def accounted_def pending_def)

section \<open>All or nothing\<close>

text \<open>Whether an attempt stores the batch, and whether another one may follow it: this depends on
  the database alone.\<close>

definition insert_error :: "(string \<Rightarrow> 'f option) \<Rightarrow> attempt_env \<Rightarrow> trade_event list \<Rightarrow> string option" where
  "insert_error pf env b =
     (if length b = 0 then None
      else
        (case beginErr env of
           Some e \<Rightarrow> Some (''failed to begin transaction: '' @ e)
         | None \<Rightarrow>
             (case insert_rows pf env b of
                Inl e \<Rightarrow> Some e
              | Inr rs \<Rightarrow> map_option (\<lambda>e. ''failed to commit batch: '' @ e) (commitErr env))))"

definition soft_failure :: "(string \<Rightarrow> 'f option) \<Rightarrow> attempt_env \<Rightarrow> trade_event list \<Rightarrow> bool" where
  "soft_failure pf env b =
     (case insert_error pf env b of
        None \<Rightarrow> False
      | Some e \<Rightarrow> error_type_of e \<noteq> ErrorTypeFatal \<and> \<not> cancelledInWait env)"

lemma insert_error_fst: "fst (insert_batch pf env b qm) = insert_error pf env b"
  by (auto simp: insert_batch_def insert_error_def split: option.split sum.split)

definition stored_by :: "(string \<Rightarrow> 'f option) \<Rightarrow> attempt_env \<Rightarrow> trade_event list \<Rightarrow> 'f db_row list" where
  "stored_by pf env b = map (\<lambda>t. the (to_row pf env t)) (filter (\<lambda>t. to_row pf env t \<noteq> None) b)"

lemma insert_rows_stored: "insert_rows pf env b = Inr rs \<Longrightarrow> rs = stored_by pf env b"
  by (induction b arbitrary: rs) (auto simp: stored_by_def split: option.splits sum.splits)

lemma insert_batch_success:
  "insert_batch pf env b qm = (None, qm') \<Longrightarrow> qm' = qm\<lparr>qRows := qRows qm @ stored_by pf env b\<rparr>"
proof -
  assume a: "insert_batch pf env b qm = (None, qm')"
  show ?thesis
  proof (cases "b = []")
    case True
    with a show ?thesis by (simp add: insert_batch_def stored_by_def)
  next
    case False
    with a show ?thesis
      by (auto simp: insert_batch_def dest!: insert_rows_stored split: option.splits sum.splits)
  qed
qed

lemma classify_config [simp]: "qConfig (snd (classify_db_error err qm)) = qConfig qm"
  using classify_flow [of qm err] by (simp add: same_flow_def)

lemma classify_type: "fst (classify_db_error (Some e) qm) = error_type_of e"
  by (simp add: classify_db_error_def split: error_type.split)

lemma attempt_success:
  "insert_error pf env b = None \<Longrightarrow> fst (attempt_batch pf env n b qm) = Finished None \<and>
     qRows (snd (attempt_batch pf env n b qm)) = qRows qm @ stored_by pf env b"
proof -
  assume "insert_error pf env b = None"
  then obtain qm1 where i: "insert_batch pf env b qm = (None, qm1)"
    using insert_error_fst [of pf env b qm] by (cases "insert_batch pf env b qm") auto
  then show ?thesis using insert_batch_success [OF i] by (simp add: attempt_batch_def)
qed

lemma attempt_failure:
  assumes "insert_error pf env b = Some e" "0 < BaseDelay (qConfig qm)"
  shows "fst (attempt_batch pf env n b qm) =
      (if soft_failure pf env b \<and> int n < qMaxRetries (qConfig qm) then Retry
       else Finished (Some (if error_type_of e = ErrorTypeFatal then ''fatal error, no retry: '' @ e
         else if int n < qMaxRetries (qConfig qm) then ''context canceled''
         else retries_exhausted (qConfig qm) e)))"
    and "qRows (snd (attempt_batch pf env n b qm)) = qRows qm"
    and "qConfig (snd (attempt_batch pf env n b qm)) = qConfig qm"
proof -
  have i: "insert_batch pf env b qm = (Some e, qm)"
    using insert_error_fst [of pf env b qm] assms(1) insert_batch_cases [of pf env b qm] by fastforce
  obtain ty qm2 where c: "classify_db_error (Some e) qm = (ty, qm2)" by fastforce
  have ty: "ty = error_type_of e" "qConfig qm2 = qConfig qm" "qRows qm2 = qRows qm"
    using classify_type [of e qm] classify_config [of "Some e" qm] classify_rows [of "Some e" qm] by (simp_all add: c)
  show "fst (attempt_batch pf env n b qm) =
      (if soft_failure pf env b \<and> int n < qMaxRetries (qConfig qm) then Retry
       else Finished (Some (if error_type_of e = ErrorTypeFatal then ''fatal error, no retry: '' @ e
         else if int n < qMaxRetries (qConfig qm) then ''context canceled''
         else retries_exhausted (qConfig qm) e)))"
    using assms ty by (auto simp: attempt_batch_def i c soft_failure_def retry_delay_def Let_def
        split: error_type.split)
  show "qRows (snd (attempt_batch pf env n b qm)) = qRows qm" "qConfig (snd (attempt_batch pf env n b qm)) = qConfig qm"
    using assms ty by (auto simp: attempt_batch_def i c fail_batch_def retry_delay_def Let_def
        split: error_type.split)
qed

text \<open>The first successful attempt after soft failures.\<close>

definition stored_at :: "(string \<Rightarrow> 'f option) \<Rightarrow> (nat \<Rightarrow> attempt_env) \<Rightarrow> trade_event list \<Rightarrow> nat \<Rightarrow> nat \<Rightarrow> bool" where
  "stored_at pf envs b a n = (a \<le> n \<and> insert_error pf (envs n) b = None \<and>
     (\<forall>k. a \<le> k \<longrightarrow> k < n \<longrightarrow> soft_failure pf (envs k) b))"

lemma stored_at_first: "insert_error pf (envs a) b = None \<Longrightarrow> stored_at pf envs b a n \<longleftrightarrow> n = a"
  by (auto simp: stored_at_def soft_failure_def)

lemma stored_at_later:
  "insert_error pf (envs a) b = Some e \<Longrightarrow>
     stored_at pf envs b a n \<longleftrightarrow> soft_failure pf (envs a) b \<and> stored_at pf envs b (Suc a) n"
  by (auto simp: stored_at_def) (metis le_eq_less_or_eq option.distinct(1) Suc_leI order_refl, metis le_antisym not_less_eq_eq)

lemma run_attempts_result:
  assumes "run_attempts pf envs a left b qm = (oc, qm')" "0 < BaseDelay (qConfig qm)"
    and "int (a + left) = qMaxRetries (qConfig qm) + 1" "left \<noteq> 0"
  shows "(\<forall>n. stored_at pf envs b a n \<and> n < a + left \<longrightarrow>
        oc = Finished None \<and> qRows qm' = qRows qm @ stored_by pf (envs n) b) \<and>
    ((\<forall>n. stored_at pf envs b a n \<longrightarrow> \<not> n < a + left) \<longrightarrow> (\<exists>e. oc = Finished (Some e)) \<and> qRows qm' = qRows qm)"
  using assms
proof (induction left arbitrary: a qm)
  case (Suc left)
  obtain oc1 qm1 where at: "attempt_batch pf (envs a) a b qm = (oc1, qm1)" by fastforce
  show ?case
  proof (cases "insert_error pf (envs a) b")
    case None
    then show ?thesis
      using attempt_success [OF None, of a qm] Suc.prems(1) by (auto simp: at stored_at_first [where envs = envs, OF None])
  next
    case (Some e)
    note fl = attempt_failure [OF Some Suc.prems(2), of a]
    show ?thesis
    proof (cases "soft_failure pf (envs a) b \<and> int a < qMaxRetries (qConfig qm)")
      case True
      then have r: "run_attempts pf envs (Suc a) left b qm1 = (oc, qm')" and c: "qConfig qm1 = qConfig qm"
        and q: "qRows qm1 = qRows qm"
        using fl Suc.prems(1) by (simp_all add: at)
      have "left \<noteq> 0" using True Suc.prems(3) by auto
      then show ?thesis
        using Suc.IH [OF r] Suc.prems(2,3) True by (simp add: c q stored_at_later [where envs = envs, OF Some])
    next
      case False
      then have "(\<exists>e. oc = Finished (Some e)) \<and> qRows qm' = qRows qm"
        using fl Suc.prems(1) by (auto simp: at)
      moreover have "\<not> (stored_at pf envs b a n \<and> n < a + Suc left)" for n
        using False Suc.prems(3) stored_at_later [where envs = envs and n = n, OF Some] by (auto simp: stored_at_def)
      ultimately show ?thesis by blast
    qed
  qed
qed simp


section \<open>Crashes\<close>

definition healthy :: "'f questdb \<Rightarrow> bool" where
  "healthy qm = (\<not> qCrashed qm \<and> \<not> qClosed qm \<and> WorkerCount (qConfig qm) \<le> 4 \<and> 0 < BaseDelay (qConfig qm))"

lemma healthy_status:
  "healthy qm \<Longrightarrow> i < length (WorkerStatus (qStats qm)) \<Longrightarrow> healthy (set_worker_status i st qm)"
  by (simp add: healthy_def set_worker_status_def)

lemma healthy_flow: "same_flow qm qm' \<Longrightarrow> \<not> qCrashed qm' \<Longrightarrow> healthy qm \<Longrightarrow> healthy qm'"
  by (simp add: healthy_def same_flow_def)

lemma classify_crashed [simp]: "qCrashed (snd (classify_db_error err qm)) = qCrashed qm"
  by (auto simp: classify_db_error_def split: option.split error_type.split)

lemma attempt_healthy:
  assumes "healthy qm"
  shows "fst (attempt_batch pf env n b qm) \<noteq> Crashed \<and> healthy (snd (attempt_batch pf env n b qm))"
proof -
  have "fst (attempt_batch pf env n b qm) \<noteq> Crashed \<and> \<not> qCrashed (snd (attempt_batch pf env n b qm))"
  proof (cases rule: insert_batch_cases [of pf env b qm])
    case (ok rs)
    with assms show ?thesis by (simp add: attempt_batch_def healthy_def)
  next
    case (err e)
    obtain ty qm2 where c: "classify_db_error (Some e) qm = (ty, qm2)" by fastforce
    then have "qConfig qm2 = qConfig qm" "qCrashed qm2 = qCrashed qm"
      using classify_config [of "Some e" qm] classify_crashed [of "Some e" qm] by simp_all
    with assms show ?thesis
      by (auto simp: attempt_batch_def err c healthy_def fail_batch_def retry_delay_def Let_def split: error_type.split)
  qed
  then show ?thesis using healthy_flow [OF _ _ assms] attempt_flow by blast
qed

lemma start_healthy:
  assumes "healthy qm"
  shows "fst (start_batch now qm) \<noteq> Crashed \<and> healthy (snd (start_batch now qm))"
proof -
  have "fst (start_batch now qm) \<noteq> Crashed \<and> \<not> qCrashed (snd (start_batch now qm))"
    using assms by (auto simp: start_batch_def healthy_def fail_batch_def Let_def split: prod.split bool.split)
  then show ?thesis using healthy_flow [OF start_flow(1) _ assms] by blast
qed

lemma outcome_healthy:
  assumes "fst r \<noteq> Crashed" "healthy (snd r)" "i < length (WorkerStatus (qStats (snd r)))"
  shows "healthy (worker_outcome now elapsed i b n r)"
proof -
  obtain oc qm where r: "r = (oc, qm)" by (cases r)
  show ?thesis
  proof (cases oc)
    case (Finished err)
    with assms show ?thesis
      by (cases err) (simp_all add: r worker_outcome_def worker_finish_def healthy_def set_worker_status_def
          set_pc_def add_dropped_def)
  qed (use assms in \<open>simp_all add: r worker_outcome_def healthy_def set_pc_def\<close>)
qed

lemma healthy_step:
  assumes "quest_step pf qm a qm'" "within_bounds qm" "healthy qm" "a \<noteq> CloseChannels"
  shows "healthy qm'"
proof -
  have idx: "i < length (WorkerStatus (qStats qm))" if "i < length (qWorkers qm)" for i
    using that assms(2,3) by (simp add: within_bounds_def healthy_def)
  from assms(1) show ?thesis
  proof cases
    case (qs_begin i b now elapsed)
    then show ?thesis using start_healthy [OF assms(3)] idx
      by (auto intro: outcome_healthy simp: quest_simps)
  next
    case (qs_attempt i b n env now elapsed)
    then show ?thesis using attempt_healthy [OF assms(3)] idx
      by (auto intro: outcome_healthy simp: quest_simps)
  next
    case (qs_take i)
    then show ?thesis using assms(3) idx
      by (auto simp: worker_take_def healthy_def set_worker_status_def set_pc_def split: list.split)
  next
    case (qs_worker_stop i)
    then show ?thesis using assms(3) idx
      by (simp add: worker_stop_def healthy_def set_worker_status_def set_pc_def)
  qed (use assms(3,4) in \<open>auto simp: healthy_def quest_add_trade_def collect_trade_def collector_tick_def
      collector_stop_def send_batch_def add_dropped_def quest_cancel_def Let_def split: list.split\<close>)
qed

lemma healthy_run:
  "quest_run pf qm as qm' \<Longrightarrow> within_bounds qm \<Longrightarrow> healthy qm \<Longrightarrow> CloseChannels \<notin> set as \<Longrightarrow> healthy qm'"
proof (induction rule: quest_run.induct)
  case (qr_snoc qm as qm1 a qm2)
  then show ?case
    using healthy_step [OF qr_snoc.hyps(2)] run_invariant [OF qr_snoc.hyps(1)] by auto
qed simp

text \<open>Until its channels are closed the pipeline cannot panic if it is configured with at most
  four workers and a positive base delay; with five or more workers it can: the status array has
  four entries, and the fifth worker indexes beyond it with its first batch.\<close>

theorem four_workers_at_most:
  assumes "0 < BaseDelay config" "0 < BufferSize config" "1 < BatchSize config"
  shows "(WorkerCount config \<le> 4 \<longrightarrow> (\<forall>as qm. quest_run pf (new_questdb_manager config) as qm \<and>
      CloseChannels \<notin> set as \<longrightarrow> \<not> qCrashed qm)) \<and>
    (4 < WorkerCount config \<longrightarrow> (\<exists>qm. quest_run pf (new_questdb_manager config)
      [AddTrade t, Collect, Tick, Take 4] qm \<and> qCrashed qm))"
proof (intro conjI impI)
  assume "WorkerCount config \<le> 4"
  then have "healthy (new_questdb_manager config)"
    using assms(1) by (simp add: healthy_def new_questdb_manager_def)
  then show "\<forall>as qm. quest_run pf (new_questdb_manager config) as qm \<and> CloseChannels \<notin> set as \<longrightarrow> \<not> qCrashed qm"
    using healthy_run [OF _ new_quest_ok(1)] by (meson healthy_def)
next
  assume w: "4 < WorkerCount config"
  let ?q0 = "new_questdb_manager config"
  let ?q1 = "snd (quest_add_trade t ?q0)"
  let ?q2 = "collect_trade ?q1"
  let ?q3 = "collector_tick ?q2"
  let ?q4 = "worker_take 4 ?q3"
  have q1: "?q1 = ?q0\<lparr>tradeChannel := [t]\<rparr>"
    using assms(2) by (simp add: quest_add_trade_def new_questdb_manager_def)
  have q2: "?q2 = ?q0\<lparr>qBatch := [t]\<rparr>"
    using assms(3) unfolding q1 by (simp add: collect_trade_def new_questdb_manager_def)
  have q3: "?q3 = ?q0\<lparr>batchChannel := [[t]]\<rparr>"
    using w unfolding q2 by (simp add: collector_tick_def send_batch_def new_questdb_manager_def)
  have crash: "qCrashed ?q4"
    unfolding q3 by (simp add: worker_take_def set_worker_status_def set_pc_def new_questdb_manager_def new_quest_stats_def)
  have "quest_run pf ?q0 ([] @ [AddTrade t]) ?q1"
    by (rule qr_snoc [OF qr_nil]) (intro quest_step.intros, simp add: new_questdb_manager_def)
  then have "quest_run pf ?q0 (([] @ [AddTrade t]) @ [Collect]) ?q2"
    by (rule qr_snoc) (intro quest_step.intros, unfold q1, simp_all add: new_questdb_manager_def)
  then have "quest_run pf ?q0 ((([] @ [AddTrade t]) @ [Collect]) @ [Tick]) ?q3"
    by (rule qr_snoc) (intro quest_step.intros, unfold q2, simp_all add: new_questdb_manager_def)
  then have "quest_run pf ?q0 (((([] @ [AddTrade t]) @ [Collect]) @ [Tick]) @ [Take 4]) ?q4"
    by (rule qr_snoc) (intro quest_step.intros, unfold q3, use w in \<open>simp_all add: new_questdb_manager_def\<close>)
  with crash show "\<exists>qm. quest_run pf ?q0 [AddTrade t, Collect, Tick, Take 4] qm \<and> qCrashed qm" by auto
qed

section \<open>Witnesses\<close>

text \<open>The decimal conversion of the witnesses reads plain digits.\<close>

definition sample_pf :: "string \<Rightarrow> nat option" where
  "sample_pf s = (if s \<noteq> [] \<and> list_all is_digit s then Some (digits_val s) else None)"

definition quest_example :: "string \<Rightarrow> trade_event" where
  "quest_example price = (new_trade_event 0 ''okx'' ''spot'' ''ABCUSDT'')\<lparr>Price := price, Quantity := ''2''\<rparr>"

definition good_attempt :: attempt_env where
  "good_attempt = \<lparr>beginErr = None, execErr = (\<lambda>_. None), commitErr = None, insertedAt = (\<lambda>_. 9),
     jitter = 5, cancelledInWait = False, failedAt = 8\<rparr>"

definition lost_connection :: attempt_env where
  "lost_connection = good_attempt\<lparr>beginErr := Some ''connection reset''\<rparr>"

theorem pipeline_accounting_witness:
  "\<exists>qm :: nat questdb. quest_run sample_pf (new_questdb_manager default_manager_config) [AddTrade (quest_example ''7''), Collect] qm \<and>
     pending qm + qTotalTrades (qStats qm) + DroppedTrades (qStats qm) = 1"
proof -
  let ?q0 = "new_questdb_manager default_manager_config :: nat questdb"
  let ?q1 = "?q0\<lparr>tradeChannel := [quest_example ''7'']\<rparr>"
  have q1: "snd (quest_add_trade (quest_example ''7'') ?q0) = ?q1"
    by (simp add: quest_add_trade_def new_questdb_manager_def default_manager_config_def)
  have "quest_run sample_pf ?q0 ([] @ [AddTrade (quest_example ''7'')]) ?q1"
    unfolding q1 [symmetric]
    by (rule qr_snoc [OF qr_nil]) (intro quest_step.intros, simp add: new_questdb_manager_def)
  then have run: "quest_run sample_pf ?q0 (([] @ [AddTrade (quest_example ''7'')]) @ [Collect]) (collect_trade ?q1)"
    by (rule qr_snoc) (intro quest_step.intros, simp_all add: new_questdb_manager_def)
  have "\<not> qCrashed (collect_trade ?q1)"
    by (simp add: collect_trade_def new_questdb_manager_def default_manager_config_def)
  then have "pending (collect_trade ?q1) + qTotalTrades (qStats (collect_trade ?q1)) +
      DroppedTrades (qStats (collect_trade ?q1)) = 1"
    using pipeline_accounting [OF run] by (simp add: pending_def)
  with run show ?thesis by auto
qed


theorem four_workers_at_most_witness:
  "\<exists>qm :: nat questdb. quest_run sample_pf (new_questdb_manager (default_manager_config\<lparr>WorkerCount := 8\<rparr>))
      [AddTrade (quest_example ''7''), Collect, Tick, Take 4] qm \<and> qCrashed qm"
  using four_workers_at_most [of "default_manager_config\<lparr>WorkerCount := 8\<rparr>" sample_pf "quest_example ''7''"]
  by (simp add: default_manager_config_def millisecond_def)

end
