(* ===== verification/Connectors.thy ===== *)
theory Connectors
  imports TradeEvent SymbolFilter
begin

text \<open>
  The exchange connectors of \<open>internal/websocket/connectors\<close>: symbol formats, subscription
  messages, the message loop and the parsers of the six exchanges.

  The network is an environment: \<open>dial\<close> is the result of the handshake, \<open>wr n\<close> the result of the
  n-th write on the connection.  A parser takes the message decoded into the struct its source
  declares, \<^const>\<open>None\<close> where \<open>json.Unmarshal\<close> fails.  Message ids and times sent to the server
  are left out.
\<close>

section \<open>Symbol formats\<close>

definition format_symbol :: "string \<Rightarrow> string \<Rightarrow> string \<Rightarrow> string" where
  "format_symbol symbol0 ex mt =
     (let symbol = to_upper symbol0 in
      if ex = ''binance'' then to_lower symbol
      else if ex = ''bybit'' then symbol
      else if ex = ''kucoin'' then
        (if contains_str symbol ''USDT'' \<and> \<not> contains_str symbol ''-USDT''
         then replace_all symbol ''USDT'' ''-USDT'' else symbol)
      else if ex = ''okx'' then
        (if mt = ''spot'' \<and> contains_str symbol ''USDT'' \<and> \<not> contains_str symbol ''-''
         then replace_all symbol ''USDT'' ''-USDT'' else symbol)
      else if ex = ''phemex'' then symbol
      else if ex = ''gate'' then
        (let symbol' = to_upper symbol in
         if contains_str symbol' ''USDT'' \<and> \<not> contains_str symbol' ''_USDT''
         then replace_all symbol' ''USDT'' ''_USDT'' else symbol')
      else symbol)"

definition normalize_pair :: "string \<Rightarrow> string" where
  "normalize_pair symbol = replace_all (replace_all (to_upper symbol) ''-'' '''') ''_'' ''''"

definition format_phemex_symbol :: "string \<Rightarrow> string \<Rightarrow> string" where
  "format_phemex_symbol mt symbol =
     (if has_suffix symbol ''USDT'' \<and> mt = ''futures'' then trim_suffix symbol ''USDT'' @ ''USD'' else symbol)"

section \<open>The connection\<close>

datatype out_msg =
    MethodMsg string "string list" nat
  | MethodObj string "string list"
  | OpMsg string "string list"
  | OpArgs string "(string \<times> string) list"
  | TopicMsg string string
  | ChannelMsg string string "string list"

datatype write_result = WriteOk | WriteFails string | WritePanics string

datatype connector_error =
    NotConnected | TooManySymbols int int | SendFailed string
  | TokenFailed string | NoServer | DialFailed string | SubscribeFailed connector_error
  | ReadFailed string | UnsupportedMessage int

record connector =
  cExchange :: string
  cMarket :: string
  cEndpoint :: string
  cOpen :: bool
  IsActive :: bool
  SubscribedSymbols :: "string list"
  MaxSymbols :: int
  cLastMessage :: gotime
  cTotalMessages :: int
  cReconnectCount :: int
  hasOnError :: bool
  reported :: "string list"
  wire :: "out_msg list"
  writes :: nat

definition new_base_connector :: "string \<Rightarrow> string \<Rightarrow> string \<Rightarrow> int \<Rightarrow> connector" where
  "new_base_connector ex mt ep mx =
     \<lparr>cExchange = ex, cMarket = mt, cEndpoint = ep, cOpen = False, IsActive = False,
      SubscribedSymbols = [], MaxSymbols = mx, cLastMessage = zero_time, cTotalMessages = 0,
      cReconnectCount = 0, hasOnError = False, reported = [], wire = [], writes = 0\<rparr>"

text \<open>\<open>GetConnectorFactory\<close> followed by the factory; \<^const>\<open>None\<close> for an unknown exchange.\<close>

definition new_connector :: "string \<Rightarrow> string \<Rightarrow> int \<Rightarrow> connector option" where
  "new_connector ex mt mx =
     (if ex = ''binance'' then Some (new_base_connector ex mt
        (if mt = ''spot'' then ''wss://stream.binance.com:9443/ws'' else ''wss://fstream.binance.com/ws'') mx)
      else if ex = ''bybit'' then Some (new_base_connector ex mt
        (if mt = ''spot'' then ''wss://stream.bybit.com/v5/public/spot'' else ''wss://stream.bybit.com/v5/public/linear'') mx)
      else if ex = ''kucoin'' then Some (new_base_connector ex mt '''' mx)
      else if ex = ''okx'' then Some (new_base_connector ex mt ''wss://ws.okx.com:8443/ws/v5/public'' mx)
      else if ex = ''phemex'' then Some (new_base_connector ex mt ''wss://ws.phemex.com'' mx)
      else if ex = ''gate'' then Some (new_base_connector ex mt
        (if mt = ''spot'' then ''wss://api.gateio.ws/ws/v4/'' else ''wss://fx-ws.gateio.ws/v4/ws/usdt'') mx)
      else None)"

definition is_connected :: "connector \<Rightarrow> bool" where
  "is_connected c = (IsActive c \<and> cOpen c)"

text \<open>\<open>GetConnectionInfo\<close>; \<open>IsConnected\<close> there is the flag alone.\<close>

record connection_info =
  ciExchange :: string
  ciMarket :: string
  ciEndpoint :: string
  ciIsConnected :: bool
  ciSubscribed :: "string list"
  ciMaxSymbols :: int
  ciLastMessage :: gotime
  ciTotalMessages :: int
  ciReconnects :: int

definition get_connection_info :: "connector \<Rightarrow> connection_info" where
  "get_connection_info c =
     \<lparr>ciExchange = cExchange c, ciMarket = cMarket c, ciEndpoint = cEndpoint c, ciIsConnected = IsActive c,
      ciSubscribed = SubscribedSymbols c, ciMaxSymbols = MaxSymbols c, ciLastMessage = cLastMessage c,
      ciTotalMessages = cTotalMessages c, ciReconnects = cReconnectCount c\<rparr>"

definition report :: "string \<Rightarrow> connector \<Rightarrow> connector" where
  "report e c = (if hasOnError c then c\<lparr>reported := reported c @ [e]\<rparr> else c)"

definition disconnect :: "connector \<Rightarrow> connector" where
  "disconnect c = c\<lparr>cOpen := False, IsActive := False, SubscribedSymbols := []\<rparr>"

definition connect_websocket :: "string option \<Rightarrow> gotime \<Rightarrow> connector \<Rightarrow> connector_error option \<times> connector" where
  "connect_websocket dial now c =
     (case dial of
        Some e \<Rightarrow> (Some (DialFailed e), c)
      | None \<Rightarrow> (None, c\<lparr>cOpen := True, IsActive := True, cLastMessage := now\<rparr>))"

text \<open>\<open>sendMessage\<close>: a panic of the write is recovered and the function returns its zero
  result, no error.\<close>

definition send_message :: "(nat \<Rightarrow> write_result) \<Rightarrow> out_msg \<Rightarrow> connector \<Rightarrow> connector_error option \<times> connector" where
  "send_message wr msg c0 =
     (if \<not> IsActive c0 \<or> \<not> cOpen c0 then (Some NotConnected, c0)
      else
        (let c = c0\<lparr>writes := writes c0 + 1\<rparr> in
         case wr (writes c0) of
           WriteOk \<Rightarrow> (None, c\<lparr>wire := wire c @ [msg]\<rparr>)
         | WriteFails e \<Rightarrow> (Some (SendFailed e), c)
         | WritePanics e \<Rightarrow> (None, report (''sendMessage panic: '' @ e) (c\<lparr>IsActive := False\<rparr>))))"

fun send_all :: "(nat \<Rightarrow> write_result) \<Rightarrow> out_msg list \<Rightarrow> connector \<Rightarrow> connector_error option \<times> connector" where
  "send_all wr [] c = (None, c)"
| "send_all wr (m # ms) c =
     (case send_message wr m c of (Some e, c') \<Rightarrow> (Some e, c') | (None, c') \<Rightarrow> send_all wr ms c')"

fun send_ignoring :: "(nat \<Rightarrow> write_result) \<Rightarrow> out_msg list \<Rightarrow> connector \<Rightarrow> connector" where
  "send_ignoring wr [] c = c"
| "send_ignoring wr (m # ms) c = send_ignoring wr ms (snd (send_message wr m c))"

section \<open>Chunks\<close>

text \<open>\<open>chunkSymbols\<close>: with a zero bound the loop never ends, with a negative one the first slice
  expression panics; both are \<^const>\<open>None\<close>.\<close>

partial_function (option) chunk_symbols :: "string list \<Rightarrow> int \<Rightarrow> string list list option" where
  "chunk_symbols symbols maxPerChunk =
     (if symbols = [] then Some []
      else if maxPerChunk < 0 then None
      else Option.bind (chunk_symbols (drop (nat maxPerChunk) symbols) maxPerChunk)
        (\<lambda>rest. Some (take (nat maxPerChunk) symbols # rest)))"

text \<open>The same cut with a constant batch size.\<close>

function batches :: "nat \<Rightarrow> 'a list \<Rightarrow> 'a list list" where
  "batches n xs = (if n = 0 \<or> xs = [] then [] else take n xs # batches n (drop n xs))"
  by pat_completeness auto
termination by (relation "measure (\<lambda>(n, xs). length xs)") auto

declare batches.simps [simp del]

section \<open>Subscriptions\<close>

fun number_from :: "nat \<Rightarrow> 'a list \<Rightarrow> (nat \<times> 'a) list" where
  "number_from n [] = []"
| "number_from n (x # xs) = (n, x) # number_from (Suc n) xs"

definition binance_streams :: "connector \<Rightarrow> string list \<Rightarrow> string list" where
  "binance_streams c symbols = map (\<lambda>s. format_symbol s ''binance'' (cMarket c) @ ''@trade'') symbols"

definition binance_messages :: "connector \<Rightarrow> string list \<Rightarrow> out_msg list" where
  "binance_messages c symbols =
     map (\<lambda>(i, b). MethodMsg ''SUBSCRIBE'' b i) (number_from 1 (batches 50 (binance_streams c symbols)))"

definition bybit_messages :: "string \<Rightarrow> connector \<Rightarrow> string list \<Rightarrow> out_msg list" where
  "bybit_messages op c symbols =
     map (\<lambda>b. OpMsg op (map (\<lambda>s. ''publicTrade.'' @ format_symbol s ''bybit'' (cMarket c)) b)) (batches 10 symbols)"

definition okx_messages :: "string \<Rightarrow> connector \<Rightarrow> string list \<Rightarrow> out_msg list" where
  "okx_messages op c symbols =
     [OpArgs op (map (\<lambda>s. (''trades'', format_symbol s ''okx'' (cMarket c))) symbols)]"

definition kucoin_topic :: "connector \<Rightarrow> string \<Rightarrow> string" where
  "kucoin_topic c s =
     (let fs = format_symbol s ''kucoin'' (cMarket c) in
      if cMarket c = ''spot'' then ''/market/match:'' @ fs else ''/contractMarket/execution:'' @ fs)"

definition kucoin_messages :: "string \<Rightarrow> connector \<Rightarrow> string list \<Rightarrow> out_msg list" where
  "kucoin_messages ty c symbols = map (\<lambda>s. TopicMsg ty (kucoin_topic c s)) symbols"

definition gate_messages :: "string \<Rightarrow> connector \<Rightarrow> string list \<Rightarrow> out_msg list" where
  "gate_messages event c symbols =
     map (\<lambda>s. ChannelMsg (if cMarket c = ''spot'' then ''spot.trades'' else ''futures.trades'') event
            [format_symbol s ''gate'' (cMarket c)]) symbols"

definition phemex_messages :: "connector \<Rightarrow> string list \<Rightarrow> out_msg list" where
  "phemex_messages c symbols =
     (let ps = map (format_phemex_symbol (cMarket c)) symbols in
      if cMarket c = ''spot'' then [MethodMsg ''trade_p.subscribe'' ps 0] else [MethodObj ''trades.subscribe'' ps])"

text \<open>The common body of the six \<open>Subscribe\<close> methods.\<close>

definition subscribe_with ::
  "(connector \<Rightarrow> string list \<Rightarrow> out_msg list) \<Rightarrow> (nat \<Rightarrow> write_result) \<Rightarrow> string list \<Rightarrow> connector \<Rightarrow>
     connector_error option \<times> connector" where
  "subscribe_with msgs wr symbols c =
     (if \<not> is_connected c then (Some NotConnected, c)
      else if int (length (SubscribedSymbols c) + length symbols) > MaxSymbols c
      then (Some (TooManySymbols (int (length (SubscribedSymbols c) + length symbols)) (MaxSymbols c)), c)
      else
        (case send_all wr (msgs c symbols) c of
           (Some e, c') \<Rightarrow> (Some e, c')
         | (None, c') \<Rightarrow> (None, c'\<lparr>SubscribedSymbols := SubscribedSymbols c' @ symbols\<rparr>)))"

definition binance_subscribe where "binance_subscribe = subscribe_with binance_messages"
definition bybit_subscribe where "bybit_subscribe = subscribe_with (bybit_messages ''subscribe'')"
definition okx_subscribe where "okx_subscribe = subscribe_with (okx_messages ''subscribe'')"
definition kucoin_subscribe where "kucoin_subscribe = subscribe_with (kucoin_messages ''subscribe'')"
definition gate_subscribe where "gate_subscribe = subscribe_with (gate_messages ''subscribe'')"
definition phemex_subscribe where "phemex_subscribe = subscribe_with phemex_messages"

definition remove_symbols :: "string list \<Rightarrow> connector \<Rightarrow> connector" where
  "remove_symbols symbols c = c\<lparr>SubscribedSymbols := fold remove1 symbols (SubscribedSymbols c)\<rparr>"

definition unsubscribe_checked ::
  "(connector \<Rightarrow> string list \<Rightarrow> out_msg list) \<Rightarrow> (nat \<Rightarrow> write_result) \<Rightarrow> string list \<Rightarrow> connector \<Rightarrow>
     connector_error option \<times> connector" where
  "unsubscribe_checked msgs wr symbols c =
     (if \<not> is_connected c then (Some NotConnected, c)
      else
        (case send_all wr (msgs c symbols) c of
           (Some e, c') \<Rightarrow> (Some e, c')
         | (None, c') \<Rightarrow> (None, remove_symbols symbols c')))"

definition unsubscribe_ignoring ::
  "(connector \<Rightarrow> string list \<Rightarrow> out_msg list) \<Rightarrow> (nat \<Rightarrow> write_result) \<Rightarrow> string list \<Rightarrow> connector \<Rightarrow>
     connector_error option \<times> connector" where
  "unsubscribe_ignoring msgs wr symbols c = (None, remove_symbols symbols (send_ignoring wr (msgs c symbols) c))"

definition binance_unsubscribe where
  "binance_unsubscribe = unsubscribe_checked (\<lambda>c symbols. [MethodMsg ''UNSUBSCRIBE'' (binance_streams c symbols) 2])"
definition bybit_unsubscribe where "bybit_unsubscribe = unsubscribe_checked (bybit_messages ''unsubscribe'')"
definition okx_unsubscribe where "okx_unsubscribe = unsubscribe_ignoring (okx_messages ''unsubscribe'')"
definition kucoin_unsubscribe where "kucoin_unsubscribe = unsubscribe_ignoring (kucoin_messages ''unsubscribe'')"
definition gate_unsubscribe where "gate_unsubscribe = unsubscribe_ignoring (gate_messages ''unsubscribe'')"
definition phemex_unsubscribe where
  "phemex_unsubscribe = unsubscribe_ignoring (\<lambda>c symbols.
     map (\<lambda>s. MethodMsg ''trade.unsubscribe'' [''trade.'' @ format_symbol s ''phemex'' (cMarket c)] 0) symbols)"

text \<open>The common body of \<open>Connect\<close> after the handshake.\<close>

definition connect_with ::
  "((nat \<Rightarrow> write_result) \<Rightarrow> string list \<Rightarrow> connector \<Rightarrow> connector_error option \<times> connector) \<Rightarrow>
     string option \<Rightarrow> (nat \<Rightarrow> write_result) \<Rightarrow> gotime \<Rightarrow> string list \<Rightarrow> connector \<Rightarrow>
     connector_error option \<times> connector" where
  "connect_with sub dial wr now symbols c =
     (case connect_websocket dial now c of
        (Some e, c1) \<Rightarrow> (Some e, c1)
      | (None, c1) \<Rightarrow>
          if length symbols > 0 then
            (case sub wr symbols c1 of
               (Some e, c2) \<Rightarrow> (Some (SubscribeFailed e), disconnect c2)
             | (None, c2) \<Rightarrow> (None, c2))
          else (None, c1))"

text \<open>KuCoin asks for a token first; \<open>token\<close> is the API's answer after \<open>getToken\<close>: an error, or the
  response code, the token and the server endpoints.\<close>

definition get_token :: "string + string \<times> string \<times> string list \<Rightarrow> connector_error + string \<times> string list" where
  "get_token r =
     (case r of
        Inl e \<Rightarrow> Inl (TokenFailed e)
      | Inr (code, tok, servers) \<Rightarrow>
          if code \<noteq> ''200000'' then Inl (TokenFailed code) else Inr (tok, servers))"

definition kucoin_connect ::
  "string + string \<times> string \<times> string list \<Rightarrow> string option \<Rightarrow> (nat \<Rightarrow> write_result) \<Rightarrow> gotime \<Rightarrow>
     string list \<Rightarrow> connector \<Rightarrow> connector_error option \<times> connector" where
  "kucoin_connect tokr dial wr now symbols c =
     (case get_token tokr of
        Inl e \<Rightarrow> (Some e, c)
      | Inr (tok, servers) \<Rightarrow>
          (case servers of
             [] \<Rightarrow> (Some NoServer, c)
           | server # _ \<Rightarrow>
               connect_with kucoin_subscribe dial wr now symbols
                 (c\<lparr>cEndpoint := server @ ''?token='' @ tok @ ''&connectId='' @ show_int (unix_nano now)\<rparr>)))"

text \<open>\<open>Connect\<close> of the connector built for an exchange.\<close>

definition connect ::
  "string + string \<times> string \<times> string list \<Rightarrow> string option \<Rightarrow> (nat \<Rightarrow> write_result) \<Rightarrow> gotime \<Rightarrow>
     string list \<Rightarrow> connector \<Rightarrow> connector_error option \<times> connector" where
  "connect tokr dial wr now symbols c =
     (if cExchange c = ''kucoin'' then kucoin_connect tokr dial wr now symbols c
      else if cExchange c = ''binance'' then connect_with binance_subscribe dial wr now symbols c
      else if cExchange c = ''bybit'' then connect_with bybit_subscribe dial wr now symbols c
      else if cExchange c = ''okx'' then connect_with okx_subscribe dial wr now symbols c
      else if cExchange c = ''phemex'' then connect_with phemex_subscribe dial wr now symbols c
      else connect_with gate_subscribe dial wr now symbols c)"

section \<open>Parsing trade messages\<close>

datatype parse_error = JsonError | NotATrade

definition base_event ::
  "string \<Rightarrow> string \<Rightarrow> string \<Rightarrow> string \<Rightarrow> string \<Rightarrow> string \<Rightarrow> string \<Rightarrow> int \<Rightarrow> trade_event" where
  "base_event ex mt sm price qty side tid ts =
     \<lparr>Exchange = ex, MarketType = mt, Symbol = sm, TradeID = tid, Price = price, Quantity = qty,
      Side = side, Timestamp = ts, CollectedAt = 0, TriggerTime = 0, IsBuyerMaker = False, QuoteQty = ''''\<rparr>"

text \<open>\<open>strconv.ParseInt(s, 10, 64)\<close> with its error dropped: 0 for a malformed number, the nearest
  bound for one out of range.\<close>

definition parse_int64 :: "string \<Rightarrow> int" where
  "parse_int64 s =
     (let neg = (s \<noteq> [] \<and> hd s = CHR ''-'');
          ds = (if s \<noteq> [] \<and> (hd s = CHR ''-'' \<or> hd s = CHR ''+'') then tl s else s)
      in if ds = [] \<or> \<not> list_all is_digit ds then 0
         else if neg then max (- (2 ^ 63)) (- int (digits_val ds))
         else min (2 ^ 63 - 1) (int (digits_val ds)))"

text \<open>The same with the range error turned into 0 (\<open>parseInt64\<close> of the KuCoin connector).\<close>

definition parse_int64_or_zero :: "string \<Rightarrow> int" where
  "parse_int64_or_zero s =
     (let neg = (s \<noteq> [] \<and> hd s = CHR ''-'');
          ds = (if s \<noteq> [] \<and> (hd s = CHR ''-'' \<or> hd s = CHR ''+'') then tl s else s);
          v = (if neg then - int (digits_val ds) else int (digits_val ds))
      in if ds = [] \<or> \<not> list_all is_digit ds then 0
         else if v < - (2 ^ 63) \<or> v > 2 ^ 63 - 1 then 0 else v)"

record binance_trade =
  btEventType :: string
  btSymbol :: string
  btTradeID :: int
  btPrice :: string
  btQuantity :: string
  btTimestamp :: int
  btIsBuyerMaker :: bool

definition parse_binance :: "string \<Rightarrow> binance_trade option \<Rightarrow> parse_error + trade_event list" where
  "parse_binance mt msg =
     (case msg of
        None \<Rightarrow> Inl JsonError
      | Some d \<Rightarrow>
          if btEventType d \<noteq> ''trade'' then Inl NotATrade
          else
            (let side = (if btIsBuyerMaker d then ''buy'' else ''sell'')
             in Inr [base_event ''binance'' mt (normalize_pair (btSymbol d)) (btPrice d) (btQuantity d) side
                       (show_int (btTradeID d)) (btTimestamp d)]))"

record bybit_trade =
  byTradeId :: string
  bySymbol :: string
  byPrice :: string
  byVolume :: string
  bySide :: string
  byTimestamp :: int

text \<open>Bybit decodes the bytes twice: as a system response (success, operation) and as a topic with
  its trades.\<close>

definition parse_bybit ::
  "string \<Rightarrow> (bool \<times> string) option \<Rightarrow> (string \<times> bybit_trade list) option \<Rightarrow> parse_error + trade_event list" where
  "parse_bybit mt sys msg =
     (if (case sys of Some (success, op) \<Rightarrow> success \<or> op \<noteq> [] | None \<Rightarrow> False) then Inr []
      else
        (case msg of
           None \<Rightarrow> Inl JsonError
         | Some (topic, trades) \<Rightarrow>
             if \<not> contains_str topic ''publicTrade'' then Inr []
             else Inr (map (\<lambda>d. base_event ''bybit'' mt (normalize_pair (bySymbol d)) (byPrice d) (byVolume d)
                         (to_lower (bySide d)) (byTradeId d) (byTimestamp d)) trades)))"

record okx_trade =
  okInstId :: string
  okTradeId :: string
  okPx :: string
  okSz :: string
  okSide :: string
  okTs :: string

definition parse_okx :: "string \<Rightarrow> (string \<times> okx_trade list) option \<Rightarrow> parse_error + trade_event list" where
  "parse_okx mt msg =
     (case msg of
        None \<Rightarrow> Inl JsonError
      | Some (channel, trades) \<Rightarrow>
          if channel \<noteq> ''trades'' then Inl NotATrade
          else Inr (map (\<lambda>d. base_event ''okx'' mt (normalize_pair (okInstId d)) (okPx d) (okSz d)
                      (to_lower (okSide d)) (okTradeId d) (parse_int64 (okTs d))) trades))"

record kucoin_message =
  kuType :: string
  kuTopic :: string
  kuSubject :: string
  kuSymbol :: string
  kuPrice :: string
  kuSize :: string
  kuSide :: string
  kuTradeId :: string
  kuTime :: string

definition kucoin_timestamp :: "gotime \<Rightarrow> string \<Rightarrow> int" where
  "kucoin_timestamp now s =
     (let ts = parse_int64_or_zero (if length s > 13 then take 13 s else s)
      in if ts > 0 then ts else unix_milli now)"

definition parse_kucoin :: "gotime \<Rightarrow> string \<Rightarrow> kucoin_message option \<Rightarrow> parse_error + trade_event list" where
  "parse_kucoin now mt msg =
     (case msg of
        None \<Rightarrow> Inl JsonError
      | Some m \<Rightarrow>
          if kuType m = ''ack'' then Inl NotATrade
          else if kuType m = ''pong'' \<or> kuType m = ''welcome'' then Inl NotATrade
          else if kuType m \<noteq> ''message'' then Inl NotATrade
          else
            (let valid =
                   (if mt = ''spot''
                    then contains_str (kuTopic m) ''/market/match:'' \<and> contains_str (kuSubject m) ''trade''
                    else contains_str (kuTopic m) ''/contractMarket/execution:'' \<and> contains_str (kuSubject m) ''match'')
             in if \<not> valid then Inl NotATrade
                else Inr [base_event ''kucoin'' mt (normalize_pair (kuSymbol m)) (kuPrice m) (kuSize m)
                            (to_lower (kuSide m)) (kuTradeId m)
                            (if kuTime m \<noteq> [] then kucoin_timestamp now (kuTime m) else 0)]))"

text \<open>A JSON value of a Phemex trade: a number is given by its conversion to \<open>int64\<close>.\<close>

datatype json_value = JNumber int | JString string | JOther

record phemex_message =
  phHasID :: bool
  phHasError :: bool
  phTrades :: "json_value list list"
  phSequence :: int
  phSymbol :: string

definition phemex_trade :: "string \<Rightarrow> phemex_message \<Rightarrow> json_value list \<Rightarrow> trade_event option" where
  "phemex_trade mt m vs =
     (case vs of
        JNumber ns # JString side # JString price # JString qty # _ \<Rightarrow>
          Some (base_event ''phemex'' mt (normalize_pair (phSymbol m)) price qty (to_lower side)
                 (show_int (phSequence m) @ ''_'' @ show_int ns) (ns sdiv 1000000))
      | _ \<Rightarrow> None)"

definition parse_phemex :: "string \<Rightarrow> phemex_message option \<Rightarrow> parse_error + trade_event list" where
  "parse_phemex mt msg =
     (case msg of
        None \<Rightarrow> Inl JsonError
      | Some m \<Rightarrow>
          if phHasID m then Inl NotATrade
          else if length (phTrades m) = 0 then Inl NotATrade
          else Inr (List.map_filter (phemex_trade mt m) (phTrades m)))"

record gate_message =
  gaChannel :: string
  gaEvent :: string
  gaId :: int
  gaCreateTime :: int
  gaCreateTimeMs :: string
  gaSide :: string
  gaCurrencyPair :: string
  gaAmount :: string
  gaPrice :: string
  gaContract :: string
  gaSize :: string

definition gate_timestamp :: "gotime \<Rightarrow> gate_message \<Rightarrow> int" where
  "gate_timestamp now m =
     (let ms = gaCreateTimeMs m;
          ts = (if ms \<noteq> [] then
                  (let n = length (takeWhile (\<lambda>c. c \<noteq> CHR ''.'') ms)
                   in if n < length ms \<and> n > 0 then parse_int64 (take n ms) else parse_int64 ms)
                else if gaCreateTime m > 0 then wrap64 (gaCreateTime m * 1000) else 0)
      in if ts = 0 then unix_milli now else ts)"

text \<open>\<open>sub\<close>: the event of the message decoded as a subscription response.\<close>

definition parse_gate ::
  "gotime \<Rightarrow> string \<Rightarrow> string option \<Rightarrow> gate_message option \<Rightarrow> parse_error + trade_event list" where
  "parse_gate now mt sub msg =
     (case msg of
        None \<Rightarrow> Inl JsonError
      | Some m \<Rightarrow>
          if sub = Some ''subscribe'' then Inl NotATrade
          else if gaEvent m \<noteq> ''update'' \<or> \<not> contains_str (gaChannel m) ''trades'' then Inl NotATrade
          else
            (let ts = gate_timestamp now m;
                 symbol = (if mt = ''spot'' then gaCurrencyPair m else gaContract m);
                 quantity = (if mt = ''spot'' then gaAmount m else gaSize m)
             in if symbol = [] \<or> quantity = [] then Inl NotATrade
                else Inr [base_event ''gate'' mt (normalize_pair symbol) (gaPrice m) quantity
                            (to_lower (gaSide m)) (show_int (gaId m)) ts]))"

text \<open>\<open>handleSubscriptionResponse\<close>: whether the message loop of Gate drops the message before
  parsing; the argument is the channel and the event of the response.\<close>

definition gate_is_response :: "(string \<times> string) option \<Rightarrow> bool" where
  "gate_is_response resp =
     (case resp of
        None \<Rightarrow> False
      | Some (channel, event) \<Rightarrow>
          event = ''subscribe'' \<or> event = ''unsubscribe'' \<or>
          contains_str channel ''ping'' \<or> contains_str channel ''pong'')"

section \<open>The message loop\<close>

datatype 'm read_outcome = ReadError string | ReadPanic string | ReadOther int | ReadText 'm

text \<open>\<open>readMessage\<close>: a recovered panic gives the zero results, no message and no error.\<close>

definition read_message ::
  "gotime \<Rightarrow> 'm read_outcome \<Rightarrow> connector \<Rightarrow> (connector_error + 'm option) \<times> connector" where
  "read_message now r c =
     (if \<not> IsActive c \<or> \<not> cOpen c then (Inl NotConnected, c)
      else
        (case r of
           ReadError e \<Rightarrow> (Inl (ReadFailed e), c)
         | ReadPanic e \<Rightarrow> (Inr None, report (''readMessage panic: '' @ e) (c\<lparr>IsActive := False\<rparr>))
         | ReadOther ty \<Rightarrow> (Inl (UnsupportedMessage ty), c)
         | ReadText m \<Rightarrow> (Inr (Some m), c\<lparr>cLastMessage := now, cTotalMessages := cTotalMessages c + 1\<rparr>)))"

text \<open>The trade channel holds at most 500000 events; a full channel drops the event.\<close>

definition channel_size :: nat where "channel_size = 500000"

fun push_events :: "trade_event list \<Rightarrow> trade_event list \<Rightarrow> trade_event list" where
  "push_events [] chan = chan"
| "push_events (t # ts) chan =
     push_events ts (if length chan < channel_size then chan @ [t] else chan)"

text \<open>One turn of \<open>StartMessageLoop\<close>; \<open>parse\<close> is the exchange's parser, \<^const>\<open>None\<close> the empty
  message that follows a recovered panic.  A failed read leaves the connection active.\<close>

definition error_text :: "connector_error \<Rightarrow> string" where
  "error_text e = (case e of ReadFailed x \<Rightarrow> ''read failed: '' @ x | UnsupportedMessage ty \<Rightarrow> ''message type '' @ show_int ty
     | _ \<Rightarrow> ''not connected'')"

definition message_loop_turn ::
  "('m \<Rightarrow> parse_error + trade_event list) \<Rightarrow> gotime \<Rightarrow> 'm read_outcome \<Rightarrow> connector \<Rightarrow> trade_event list \<Rightarrow>
     connector \<times> trade_event list" where
  "message_loop_turn parse now r c chan =
     (if \<not> is_connected c then (c, chan)
      else
        (case read_message now r c of
           (Inl e, c') \<Rightarrow> (report (error_text e) c', chan)
         | (Inr None, c') \<Rightarrow> (c', chan)
         | (Inr (Some m), c') \<Rightarrow>
             (case parse m of Inl _ \<Rightarrow> (c', chan) | Inr ts \<Rightarrow> (c', push_events ts chan))))"

end
