(* ===== verification/ConnectorProps.thy ===== *)
theory ConnectorProps
  imports Connectors CollectionEvent
begin

text \<open>
  The connectors: symbol names survive the way to the exchange and back, subscriptions carry every
  symbol once within the exchange's batch limits, and a dead connection stays dead.
\<close>

section \<open>Symbol names\<close>

definition plain :: "char \<Rightarrow> bool" where
  "plain c = (c \<noteq> CHR ''-'' \<and> c \<noteq> CHR ''_'')"

lemma normalize_pair_filter: "normalize_pair s = filter plain (to_upper s)"
  by (simp add: normalize_pair_def replace_all_remove plain_def conj_commute cong: filter_cong)

lemma to_upper_lower [simp]: "to_upper (to_lower s) = to_upper s"
  by (auto simp: to_upper_def to_lower_def upper_char_def lower_char_def Let_def of_char_of)

lemma replace_prefix: "old \<noteq> [] \<Longrightarrow> replace_all (old @ r) old new = new @ replace_all r old new"
  by (subst replace_all.simps) simp

lemma replace_skip: "\<not> has_prefix (x # xs) old \<Longrightarrow> replace_all (x # xs) old new = x # replace_all xs old new"
  by (subst replace_all.simps) (auto simp: has_prefix_def)

lemma filter_replace:
  "filter plain new = filter plain old \<Longrightarrow> filter plain (replace_all s old new) = filter plain s"
proof (induction s old new rule: replace_all.induct)
  case (1 s old new)
  show ?case
  proof (cases "s = [] \<or> old = []")
    case False
    show ?thesis
    proof (cases "has_prefix s old")
      case True
      then obtain r where r: "s = old @ r" by (auto simp: has_prefix_iff)
      then have "filter plain (replace_all r old new) = filter plain r" using 1 False True by simp
      then show ?thesis using False 1(3) by (simp add: r replace_prefix)
    next
      case f: False
      obtain x xs where s: "s = x # xs" using False by (cases s) auto
      then have "filter plain (replace_all xs old new) = filter plain xs" using 1 False f by simp
      then show ?thesis using f by (simp add: s replace_skip)
    qed
  qed (simp add: replace_all.simps)
qed

lemma upper_replace:
  "to_upper s = s \<Longrightarrow> to_upper new = new \<Longrightarrow> to_upper (replace_all s old new) = replace_all s old new"
proof (induction s old new rule: replace_all.induct)
  case (1 s old new)
  show ?case
  proof (cases "s = [] \<or> old = []")
    case False
    show ?thesis
    proof (cases "has_prefix s old")
      case True
      then obtain r where r: "s = old @ r" by (auto simp: has_prefix_iff)
      then have "to_upper r = r" using 1(3) by (simp add: to_upper_def)
      then have "to_upper (replace_all r old new) = replace_all r old new" using 1 False True r by simp
      then show ?thesis using False 1(4) by (simp add: r replace_prefix)
    next
      case f: False
      obtain x xs where s: "s = x # xs" using False by (cases s) auto
      then have up: "to_upper xs = xs" "upper_char x = x" using 1(3) by (simp_all add: to_upper_cons)
      then have "to_upper (replace_all xs old new) = replace_all xs old new" using 1 False f s by simp
      then show ?thesis using f up by (simp add: s replace_skip to_upper_cons)
    qed
  qed (use 1 in \<open>auto simp: replace_all.simps\<close>)
qed

lemma normalize_replace:
  assumes "to_upper new = new" "filter plain new = filter plain old"
  shows "normalize_pair (replace_all (to_upper s) old new) = normalize_pair s"
  using assms by (simp add: normalize_pair_filter upper_replace filter_replace)

lemma normalize_dash: "normalize_pair (replace_all (to_upper s) ''USDT'' ''-USDT'') = normalize_pair s"
  by (rule normalize_replace) (simp_all add: to_upper_cons upper_char_def plain_def)

lemma normalize_underscore: "normalize_pair (replace_all (to_upper s) ''USDT'' ''_USDT'') = normalize_pair s"
  by (rule normalize_replace) (simp_all add: to_upper_cons upper_char_def plain_def)

lemma normalize_upper [simp]: "normalize_pair (to_upper s) = normalize_pair s" "normalize_pair (to_lower s) = normalize_pair s"
  by (simp_all add: normalize_pair_filter)

lemma normalize_lower_upper: "normalize_pair (to_lower (to_upper s)) = normalize_pair s"
  by simp

lemma normalize_if:
  "normalize_pair x = z \<Longrightarrow> normalize_pair y = z \<Longrightarrow> normalize_pair (if b then x else y) = z"
  by simp

lemma normalize_format: "normalize_pair (format_symbol s ex mt) = normalize_pair s"
  unfolding format_symbol_def Let_def to_upper_idem
  by (intro normalize_if normalize_dash normalize_underscore normalize_lower_upper normalize_upper)

lemma filter_code:
  assumes "coin_code c" shows "filter plain (to_upper c) = c"
proof -
  have "\<forall>x \<in> set c. plain x"
    using assms code_char_plain by (simp add: coin_code_def list_all_iff plain_def)
  then show ?thesis by (simp add: coin_code_upper [OF assms] filter_True)
qed

lemma normalize_code:
  assumes "coin_code c"
  shows "normalize_pair (c @ ''USDT'') = c @ ''USDT''" "normalize_pair (c @ ''-USDT'') = c @ ''USDT''"
    "normalize_pair (c @ ''_USDT'') = c @ ''USDT''" "normalize_pair (c @ ''-USDT-SWAP'') = c @ ''USDTSWAP''"
    "normalize_pair (c @ ''USDTM'') = c @ ''USDTM''"
  by (simp_all add: normalize_pair_filter filter_code [OF assms] to_upper_cons upper_char_def plain_def)

section \<open>Batches and subscriptions\<close>

lemma batches_spec: "0 < n \<Longrightarrow> concat (batches n xs) = xs \<and> (\<forall>b \<in> set (batches n xs). b \<noteq> [] \<and> length b \<le> n)"
proof (induction n xs rule: batches.induct)
  case (1 n xs)
  show ?case
  proof (cases "xs = []")
    case False
    then have "\<not> (n = 0 \<or> xs = [])" using 1(2) by simp
    from 1(1) [OF this 1(2)] False 1(2) show ?thesis by (subst (1 2) batches.simps) auto
  qed (simp add: batches.simps)
qed

lemma map_snd_number [simp]: "map snd (number_from n xs) = xs"
  by (induction xs arbitrary: n) simp_all

fun carried :: "out_msg \<Rightarrow> string list" where
  "carried (MethodMsg m ps i) = ps"
| "carried (MethodObj m ps) = ps"
| "carried (OpMsg op ps) = ps"
| "carried (OpArgs op as) = map snd as"
| "carried (TopicMsg ty t) = [t]"
| "carried (ChannelMsg ch ev ps) = ps"

text \<open>The name under which an exchange is asked for a symbol, and how many names fit in a message.\<close>

definition stream_name :: "string \<Rightarrow> string \<Rightarrow> string \<Rightarrow> string" where
  "stream_name ex mt s =
     (if ex = ''binance'' then to_lower (to_upper s) @ ''@trade''
      else if ex = ''bybit'' then ''publicTrade.'' @ to_upper s
      else if ex = ''kucoin'' then
        (if mt = ''spot'' then ''/market/match:'' else ''/contractMarket/execution:'') @ format_symbol s ''kucoin'' mt
      else if ex = ''phemex'' then format_phemex_symbol mt s
      else format_symbol s ex mt)"

definition message_limit :: "string \<Rightarrow> nat \<Rightarrow> nat" where
  "message_limit ex n =
     (if ex = ''binance'' then 50 else if ex = ''bybit'' then 10
      else if ex = ''kucoin'' \<or> ex = ''gate'' then 1 else n)"

lemma carried_binance: "map carried (binance_messages c symbols) = batches 50 (binance_streams c symbols)"
proof -
  have "carried \<circ> (\<lambda>(i, b). MethodMsg ''SUBSCRIBE'' b i) = snd" by (auto simp: fun_eq_iff)
  then show ?thesis by (simp add: binance_messages_def)
qed

lemma carried_bybit:
  "map carried (bybit_messages op c symbols) = map (map (\<lambda>s. ''publicTrade.'' @ format_symbol s ''bybit'' (cMarket c))) (batches 10 symbols)"
  by (simp add: bybit_messages_def)

lemma concat_singles: "concat (map (\<lambda>x. [f x]) xs) = map f xs"
  by (induction xs) simp_all

definition subscribe_messages :: "string \<Rightarrow> connector \<Rightarrow> string list \<Rightarrow> out_msg list" where
  "subscribe_messages ex =
     (if ex = ''binance'' then binance_messages else if ex = ''bybit'' then bybit_messages ''subscribe''
      else if ex = ''kucoin'' then kucoin_messages ''subscribe'' else if ex = ''okx'' then okx_messages ''subscribe''
      else if ex = ''phemex'' then phemex_messages else gate_messages ''subscribe'')"

datatype exchange_name = Binance | Bybit | KuCoin | OKX | Phemex | Gate

primrec name_of :: "exchange_name \<Rightarrow> string" where
  "name_of Binance = ''binance''"
| "name_of Bybit = ''bybit''"
| "name_of KuCoin = ''kucoin''"
| "name_of OKX = ''okx''"
| "name_of Phemex = ''phemex''"
| "name_of Gate = ''gate''"

lemma messages_simps:
  "subscribe_messages (name_of Binance) = binance_messages"
  "subscribe_messages (name_of Bybit) = bybit_messages ''subscribe''"
  "subscribe_messages (name_of KuCoin) = kucoin_messages ''subscribe''"
  "subscribe_messages (name_of OKX) = okx_messages ''subscribe''"
  "subscribe_messages (name_of Phemex) = phemex_messages"
  "subscribe_messages (name_of Gate) = gate_messages ''subscribe''"
  by (simp_all add: subscribe_messages_def)

lemma stream_simps:
  "stream_name (name_of Binance) mt s = to_lower (to_upper s) @ ''@trade''"
  "stream_name (name_of Bybit) mt s = ''publicTrade.'' @ to_upper s"
  "stream_name (name_of KuCoin) mt s =
     (if mt = ''spot'' then ''/market/match:'' else ''/contractMarket/execution:'') @ format_symbol s ''kucoin'' mt"
  "stream_name (name_of OKX) mt s = format_symbol s ''okx'' mt"
  "stream_name (name_of Phemex) mt s = format_phemex_symbol mt s"
  "stream_name (name_of Gate) mt s = format_symbol s ''gate'' mt"
  by (simp_all add: stream_name_def)

lemma format_simps:
  "format_symbol s ''binance'' mt = to_lower (to_upper s)" "format_symbol s ''bybit'' mt = to_upper s"
  by (simp_all add: format_symbol_def Let_def)

lemma messages_carry:
  "concat (map carried (subscribe_messages (name_of x) c symbols)) = map (stream_name (name_of x) (cMarket c)) symbols"
proof (cases x)
  case Binance
  have "concat (batches 50 (binance_streams c symbols)) = binance_streams c symbols" by (simp add: batches_spec)
  then show ?thesis
    unfolding Binance messages_simps stream_simps carried_binance by (simp add: binance_streams_def format_simps)
next
  case Bybit
  have "concat (map (map f) (batches 10 symbols)) = map f symbols" for f :: "string \<Rightarrow> string"
    using batches_spec [of 10 symbols] by (metis map_concat zero_less_numeral)
  then show ?thesis unfolding Bybit messages_simps stream_simps carried_bybit by (simp add: format_simps)
next
  case KuCoin
  show ?thesis unfolding KuCoin messages_simps stream_simps
    by (simp add: kucoin_messages_def kucoin_topic_def comp_def concat_singles Let_def)
next
  case OKX
  show ?thesis unfolding OKX messages_simps stream_simps by (simp add: okx_messages_def comp_def)
next
  case Phemex
  show ?thesis unfolding Phemex messages_simps stream_simps by (simp add: phemex_messages_def Let_def)
next
  case Gate
  show ?thesis unfolding Gate messages_simps stream_simps by (simp add: gate_messages_def comp_def concat_singles)
qed

lemma limit_simps:
  "message_limit (name_of Binance) n = 50" "message_limit (name_of Bybit) n = 10"
  "message_limit (name_of KuCoin) n = 1" "message_limit (name_of OKX) n = n"
  "message_limit (name_of Phemex) n = n" "message_limit (name_of Gate) n = 1"
  by (simp_all add: message_limit_def)

lemma messages_limit:
  assumes "m \<in> set (subscribe_messages (name_of x) c symbols)"
  shows "length (carried m) \<le> message_limit (name_of x) (length symbols)"
proof -
  have m: "carried m \<in> set (map carried (subscribe_messages (name_of x) c symbols))" using assms by simp
  show ?thesis
  proof (cases x)
    case Binance
    then show ?thesis using m batches_spec [of 50 "binance_streams c symbols"]
      unfolding Binance messages_simps carried_binance limit_simps by simp
  next
    case Bybit
    then show ?thesis using m batches_spec [of 10 symbols]
      unfolding Bybit messages_simps carried_bybit limit_simps by auto
  next
    case KuCoin
    then show ?thesis using assms unfolding KuCoin messages_simps limit_simps by (auto simp: kucoin_messages_def)
  next
    case OKX
    then show ?thesis using assms unfolding OKX messages_simps limit_simps by (simp add: okx_messages_def)
  next
    case Phemex
    then show ?thesis using assms unfolding Phemex messages_simps limit_simps
      by (simp add: phemex_messages_def Let_def split: if_splits)
  next
    case Gate
    then show ?thesis using assms unfolding Gate messages_simps limit_simps by (auto simp: gate_messages_def)
  qed
qed

section \<open>Connecting\<close>

lemma send_all_ok:
  "is_connected c \<Longrightarrow> \<forall>n. wr n = WriteOk \<Longrightarrow>
     send_all wr ms c = (None, c\<lparr>wire := wire c @ ms, writes := writes c + length ms\<rparr>)"
  by (induction ms arbitrary: c) (simp_all add: send_message_def is_connected_def)

lemma new_connector_name:
  "\<exists>c. new_connector (name_of x) mt mx = Some c \<and> cExchange c = name_of x \<and> cMarket c = mt \<and>
     MaxSymbols c = mx \<and> SubscribedSymbols c = [] \<and> \<not> is_connected c \<and> wire c = []"
  by (cases x) (simp_all add: new_connector_def new_base_connector_def is_connected_def)

lemma subscribe_defs:
  "binance_subscribe = subscribe_with (subscribe_messages (name_of Binance))"
  "bybit_subscribe = subscribe_with (subscribe_messages (name_of Bybit))"
  "kucoin_subscribe = subscribe_with (subscribe_messages (name_of KuCoin))"
  "okx_subscribe = subscribe_with (subscribe_messages (name_of OKX))"
  "phemex_subscribe = subscribe_with (subscribe_messages (name_of Phemex))"
  "gate_subscribe = subscribe_with (subscribe_messages (name_of Gate))"
  unfolding messages_simps
  by (simp_all add: binance_subscribe_def bybit_subscribe_def kucoin_subscribe_def okx_subscribe_def
      phemex_subscribe_def gate_subscribe_def)

text \<open>Every \<open>Connect\<close> is the common body on the exchange's messages, with KuCoin's endpoint set
  from the token.\<close>

definition token_ok :: "string + string \<times> string \<times> string list \<Rightarrow> bool" where
  "token_ok r = (\<exists>tok server rest. r = Inr (''200000'', tok, server # rest))"

lemma connect_common:
  assumes "cExchange c = name_of x" "x = KuCoin \<longrightarrow> token_ok tokr"
  obtains ep where "connect tokr dial wr now symbols c =
    connect_with (subscribe_with (subscribe_messages (name_of x))) dial wr now symbols (c\<lparr>cEndpoint := ep\<rparr>)"
proof (cases x)
  case KuCoin
  with assms(2) obtain tok server rest where t: "tokr = Inr (''200000'', tok, server # rest)"
    by (auto simp: token_ok_def)
  show ?thesis
    by (rule that [of "server @ ''?token='' @ tok @ ''&connectId='' @ show_int (unix_nano now)"])
      (simp add: connect_def kucoin_connect_def get_token_def t assms(1) KuCoin subscribe_defs)
qed (use assms(1) that [of "cEndpoint c"] in \<open>simp_all add: connect_def subscribe_defs\<close>)

lemma connect_with_error:
  assumes "connect_with sub dial wr now symbols c = (Some e, c')" "\<not> is_connected c" "SubscribedSymbols c = []"
  shows "\<not> is_connected c' \<and> SubscribedSymbols c' = []"
  using assms
  by (auto simp: connect_with_def connect_websocket_def disconnect_def is_connected_def split: option.splits if_splits prod.splits)

lemma kucoin_connect_error:
  assumes "kucoin_connect tokr dial wr now symbols c = (Some e, c')" "\<not> is_connected c" "SubscribedSymbols c = []"
  shows "\<not> is_connected c' \<and> SubscribedSymbols c' = []"
proof (cases "get_token tokr")
  case (Inl e')
  with assms show ?thesis by (simp add: kucoin_connect_def)
next
  case (Inr r)
  obtain tok servers where r: "r = (tok, servers)" by (cases r)
  show ?thesis
  proof (cases servers)
    case Nil
    with assms Inr r show ?thesis by (simp add: kucoin_connect_def)
  next
    case (Cons server rest)
    with assms(1) Inr r have "connect_with kucoin_subscribe dial wr now symbols
        (c\<lparr>cEndpoint := server @ ''?token='' @ tok @ ''&connectId='' @ show_int (unix_nano now)\<rparr>) = (Some e, c')"
      by (simp add: kucoin_connect_def)
    from connect_with_error [OF this] assms(2,3) show ?thesis by (simp add: is_connected_def)
  qed
qed

section \<open>Properties\<close>

text \<open>Connecting a new connector of any of the six exchanges over a network without errors
  subscribes every symbol exactly once and in order: the messages on the wire carry the exchange's
  stream names of the symbols, no message exceeds the exchange's limit of names (fifty for Binance,
  ten for Bybit, one for KuCoin and Gate), and the subscription list is the list of symbols.\<close>

theorem connect_subscribes_all:
  assumes "new_connector (name_of x) mt mx = Some c" "int (length symbols) \<le> mx"
    and "\<forall>n. wr n = WriteOk" "token_ok tokr"
  shows "\<exists>c'. connect tokr None wr now symbols c = (None, c') \<and> is_connected c' \<and> SubscribedSymbols c' = symbols \<and>
    concat (map carried (wire c')) = map (stream_name (name_of x) mt) symbols \<and>
    (\<forall>m \<in> set (wire c'). length (carried m) \<le> message_limit (name_of x) (length symbols))"
proof -
  have c: "cExchange c = name_of x" "cMarket c = mt" "MaxSymbols c = mx" "SubscribedSymbols c = []" "wire c = []"
    using new_connector_name [of x mt mx] assms(1) by auto
  obtain ep where con: "connect tokr None wr now symbols c =
      connect_with (subscribe_with (subscribe_messages (name_of x))) None wr now symbols (c\<lparr>cEndpoint := ep\<rparr>)"
    using connect_common [OF c(1)] assms(4) by metis
  let ?c1 = "c\<lparr>cEndpoint := ep, cOpen := True, IsActive := True, cLastMessage := now\<rparr>"
  let ?ms = "if symbols = [] then [] else subscribe_messages (name_of x) ?c1 symbols"
  have conn: "is_connected ?c1" by (simp add: is_connected_def)
  have lim: "\<not> int (length symbols) > MaxSymbols c" using assms(2) c(3) by simp
  have "\<exists>c'. connect tokr None wr now symbols c = (None, c') \<and> is_connected c' \<and>
      SubscribedSymbols c' = symbols \<and> wire c' = ?ms"
    using lim send_all_ok [OF conn assms(3)] conn
    by (simp add: con connect_with_def connect_websocket_def subscribe_with_def c)
      (simp add: is_connected_def)
  then obtain c' where c': "connect tokr None wr now symbols c = (None, c')" "is_connected c'"
      "SubscribedSymbols c' = symbols" "wire c' = ?ms" by blast
  have "concat (map carried ?ms) = map (stream_name (name_of x) mt) symbols"
    using messages_carry [of x ?c1 symbols] by (simp add: c)
  then show ?thesis
    using c' messages_limit [of _ x ?c1 symbols] by auto
qed

text \<open>A failed connection attempt leaves the connector clean: whatever failed, token, handshake
  or a subscription message half way, the connection is closed and nothing counts as subscribed.  A
  panic of a write, however, is turned into a success: OKX then reports a connection it has just
  marked as dead.\<close>

theorem connect_errors:
  assumes "\<not> is_connected c" "SubscribedSymbols c = []"
  shows "(\<forall>e c'. connect tokr dial wr now symbols c = (Some e, c') \<longrightarrow> \<not> is_connected c' \<and> SubscribedSymbols c' = []) \<and>
    (cExchange c = ''okx'' \<and> symbols \<noteq> [] \<and> int (length symbols) \<le> MaxSymbols c \<and> wr (writes c) = WritePanics p \<longrightarrow>
      (\<exists>c'. connect tokr None wr now symbols c = (None, c') \<and> \<not> is_connected c' \<and> SubscribedSymbols c' = symbols))"
proof (rule conjI)
  have "\<not> is_connected c' \<and> SubscribedSymbols c' = []"
    if con: "connect tokr dial wr now symbols c = (Some e, c')" for e c'
  proof (cases "cExchange c = ''kucoin''")
    case True
    then have "connect tokr dial wr now symbols c = kucoin_connect tokr dial wr now symbols c" by (simp add: connect_def)
    then show ?thesis using con assms kucoin_connect_error by metis
  next
    case False
    with con assms connect_with_error show ?thesis by (auto simp: connect_def split: if_splits)
  qed
  then show "\<forall>e c'. connect tokr dial wr now symbols c = (Some e, c') \<longrightarrow> \<not> is_connected c' \<and> SubscribedSymbols c' = []"
    by blast
next
  have "\<exists>c'. connect tokr None wr now symbols c = (None, c') \<and> \<not> is_connected c' \<and> SubscribedSymbols c' = symbols"
    if "cExchange c = ''okx'' \<and> symbols \<noteq> [] \<and> int (length symbols) \<le> MaxSymbols c \<and> wr (writes c) = WritePanics p"
    using assms that
    by (auto simp: connect_def connect_with_def connect_websocket_def okx_subscribe_def subscribe_with_def
        okx_messages_def send_message_def is_connected_def report_def Let_def)
  then show "cExchange c = ''okx'' \<and> symbols \<noteq> [] \<and> int (length symbols) \<le> MaxSymbols c \<and> wr (writes c) = WritePanics p \<longrightarrow>
      (\<exists>c'. connect tokr None wr now symbols c = (None, c') \<and> \<not> is_connected c' \<and> SubscribedSymbols c' = symbols)"
    by blast
qed

text \<open>Symbol names survive the way to an exchange and back: normalising the name under which a
  symbol is subscribed gives what normalising the symbol itself gives, for every exchange, market and
  symbol.  For a coin code the spot formats of all six exchanges and the plain futures format
  normalise to the concatenated pair, which the collection of that coin accepts.\<close>

theorem symbol_names_roundtrip:
  shows "normalize_pair (format_symbol s ex mt) = normalize_pair s \<and>
    (coin_code c \<longrightarrow> (\<forall>p \<in> {c @ ''USDT'', c @ ''-USDT'', c @ ''_USDT''}.
       normalize_pair (format_symbol p ex mt) = c @ ''USDT'' \<and>
       is_target_symbol c (normalize_pair (format_symbol p ex mt))))"
  by (auto simp: normalize_format normalize_code is_target_symbol_def Let_def coin_code_upper
      to_upper_cons upper_char_def)

lemma parse_okx_symbols:
  "parse_okx mt (Some (''trades'', ds)) = Inr ts \<Longrightarrow> t \<in> set ts \<Longrightarrow> \<exists>d \<in> set ds. Symbol t = normalize_pair (okInstId d)"
proof -
  assume "parse_okx mt (Some (''trades'', ds)) = Inr ts" "t \<in> set ts"
  then obtain d where "d \<in> set ds" "Symbol t = normalize_pair (okInstId d)"
    by (auto simp: parse_okx_def base_event_def)
  then show ?thesis ..
qed

lemma parse_kucoin_symbol: "parse_kucoin now mt (Some m) = Inr ts \<Longrightarrow> t \<in> set ts \<Longrightarrow> Symbol t = normalize_pair (kuSymbol m)"
  by (auto simp: parse_kucoin_def base_event_def Let_def split: if_splits)

lemma target_last:
  "is_target_symbol l t \<Longrightarrow> to_upper t = to_upper l \<or> last (to_upper t) = CHR ''T''"
  by (auto simp: is_target_symbol_iff target_forms_def)

lemma contract_no_target:
  assumes "coin_code c"
  shows "\<not> is_target_symbol c (c @ ''USDTSWAP'')" "\<not> is_target_symbol c (c @ ''USDTM'')"
  using target_last [of c "c @ ''USDTSWAP''"] target_last [of c "c @ ''USDTM''"]
  by (auto simp: coin_code_upper [OF assms] to_upper_cons upper_char_def)

text \<open>C26. The futures of OKX and KuCoin are never collected: the parser turns the contract names
  c-USDT-SWAP and cUSDTM of a coin into symbols that the collection of the coin rejects.\<close>

theorem futures_never_collected:
  assumes "coin_code c"
  shows "(parse_okx mt (Some (''trades'', ds)) = Inr ts \<and> (\<forall>d \<in> set ds. okInstId d = c @ ''-USDT-SWAP'') \<longrightarrow>
      (\<forall>t \<in> set ts. \<not> is_target_symbol c (Symbol t))) \<and>
    (parse_kucoin now mt (Some m) = Inr us \<and> kuSymbol m = c @ ''USDTM'' \<longrightarrow>
      (\<forall>t \<in> set us. \<not> is_target_symbol c (Symbol t)))"
  using parse_okx_symbols [of mt ds ts] parse_kucoin_symbol [of now mt m us]
  by (fastforce simp: normalize_code [OF assms] contract_no_target [OF assms])

section \<open>Witnesses\<close>

lemma sample_code: "coin_code ''SOMI''"
  by (simp add: coin_code_def code_char_def)

theorem connect_subscribes_all_witness:
  "\<exists>c c'. new_connector ''bybit'' ''spot'' 20 = Some c \<and>
     connect (Inl []) None (\<lambda>_. WriteOk) 5 [''ABUSDT'', ''CDUSDT''] c = (None, c') \<and>
     concat (map carried (wire c')) = [''publicTrade.ABUSDT'', ''publicTrade.CDUSDT'']"
proof -
  obtain c where c: "new_connector (name_of Bybit) ''spot'' 20 = Some c" using new_connector_name by blast
  have tok: "token_ok (Inr (''200000'', ''t'', [''wss://s'']))" by (simp add: token_ok_def)
  have other: "connect (Inl []) None (\<lambda>_. WriteOk) 5 [''ABUSDT'', ''CDUSDT''] c =
      connect (Inr (''200000'', ''t'', [''wss://s''])) None (\<lambda>_. WriteOk) 5 [''ABUSDT'', ''CDUSDT''] c"
    using new_connector_name [of Bybit "''spot''" 20] c by (auto simp: connect_def)
  have names: "map (stream_name (name_of Bybit) ''spot'') [''ABUSDT'', ''CDUSDT''] = [''publicTrade.ABUSDT'', ''publicTrade.CDUSDT'']"
    unfolding list.map stream_simps by (simp add: to_upper_cons upper_char_def)
  show ?thesis
    using connect_subscribes_all [OF c, of "[''ABUSDT'', ''CDUSDT'']" "\<lambda>_. WriteOk", OF _ _ tok, of 5] c other names
    by auto
qed

theorem connect_errors_witness:
  "\<exists>c c'. new_connector ''okx'' ''spot'' 20 = Some c \<and>
     connect (Inl []) None (\<lambda>_. WritePanics ''closed'') 5 [''AB-USDT''] c = (None, c') \<and> \<not> is_connected c'"
proof -
  obtain c where c: "new_connector ''okx'' ''spot'' 20 = Some c" "\<not> is_connected c" "SubscribedSymbols c = []"
    "cExchange c = ''okx''" "MaxSymbols c = 20"
    using new_connector_name [of OKX "''spot''" 20] by auto
  then show ?thesis
    using connect_errors [OF c(2,3), of "Inl []" None "\<lambda>_. WritePanics ''closed''" 5 "[''AB-USDT'']" "''closed''"] by auto
qed

theorem symbol_names_roundtrip_witness:
  "is_target_symbol ''SOMI'' (normalize_pair (format_symbol ''SOMI_USDT'' ''gate'' ''futures''))"
proof -
  have "''SOMI'' @ ''_USDT'' = ''SOMI_USDT''" by simp
  with symbol_names_roundtrip [of "[]" "''gate''" "''futures''" "''SOMI''"] sample_code show ?thesis by (metis insertI1 insertI2)
qed

theorem futures_never_collected_witness:
  "\<exists>t. parse_okx ''futures'' (Some (''trades'', [\<lparr>okInstId = ''SOMI'' @ ''-USDT-SWAP'', okTradeId = ''1'', okPx = ''2'',
      okSz = ''3'', okSide = ''buy'', okTs = ''4''\<rparr>])) = Inr [t] \<and> \<not> is_target_symbol ''SOMI'' (Symbol t)"
proof -
  let ?d = "\<lparr>okInstId = ''SOMI'' @ ''-USDT-SWAP'', okTradeId = ''1'', okPx = ''2'', okSz = ''3'', okSide = ''buy'', okTs = ''4''\<rparr>"
  obtain t where t: "parse_okx ''futures'' (Some (''trades'', [?d])) = Inr [t]" by (simp add: parse_okx_def)
  then show ?thesis using futures_never_collected [OF sample_code, of "''futures''" "[?d]" "[t]"] by auto
qed

end
