(* ===== verification/Transitions.thy ===== *)
theory Transitions
  imports Main
begin

text \<open>Runs of a labelled step relation: the list of labels, and the facts the components share.\<close>

primrec runs :: "('s \<Rightarrow> 'a \<Rightarrow> 's \<Rightarrow> bool) \<Rightarrow> 's \<Rightarrow> 'a list \<Rightarrow> 's \<Rightarrow> bool" where
  "runs step s [] s' = (s' = s)"
| "runs step s (a # as) s' = (\<exists>s1. step s a s1 \<and> runs step s1 as s')"

lemma runs_append: "runs step s (as @ bs) s' \<longleftrightarrow> (\<exists>s1. runs step s as s1 \<and> runs step s1 bs s')"
  by (induction as arbitrary: s) auto

lemma runs_invariant:
  assumes "runs step s as s'" "I s"
    and "\<And>s a s1. step s a s1 \<Longrightarrow> I s \<Longrightarrow> a \<in> set as \<Longrightarrow> I s1"
  shows "I s'"
  using assms by (induction as arbitrary: s) auto

text \<open>A quantity that no step changes, while an invariant holds.\<close>

lemma runs_constant:
  assumes "runs step s as s'" "I s"
    and "\<And>s a s1. step s a s1 \<Longrightarrow> I s \<Longrightarrow> a \<in> set as \<Longrightarrow> I s1 \<and> f s1 = f s"
  shows "I s' \<and> f s' = f s"
  using assms by (induction as arbitrary: s) auto

text \<open>A bound that each step raises by at most the weight of its label.\<close>

lemma runs_potential:
  fixes f :: "'s \<Rightarrow> int"
  assumes "runs step s as s'" "I s"
    and "\<And>s a s1. step s a s1 \<Longrightarrow> I s \<Longrightarrow> I s1 \<and> f s1 \<le> f s + w a"
  shows "I s' \<and> f s' \<le> f s + sum_list (map w as)"
  using assms
proof (induction as arbitrary: s)
  case (Cons a as)
  then obtain s1 where s1: "step s a s1" "runs step s1 as s'" by auto
  with Cons.prems have "I s1 \<and> f s1 \<le> f s + w a" by blast
  with Cons.IH [OF s1(2)] Cons.prems(3) show ?case by fastforce
qed simp

end
