(* ===== verification/WorkerPool.thy ===== *)
theory WorkerPool
  imports Connectors Transitions
begin

text \<open>
  The worker pools of \<open>internal/websocket/worker_pool.go\<close>: how symbols are cut into workers, the
  rate limiter, and the goroutines of a worker.  Each call of \<open>Worker.Start\<close> is a session with a
  program counter, its own trade channel and the message loop it spawns; the steps are the code
  between two points where another goroutine may run.  Callbacks are the outputs of a step.
\<close>

section \<open>Rate limiter\<close>

record rate_limiter =
  maxRequests :: int
  rlInterval :: int
  requests :: "gotime list"

definition new_rate_limiter :: "int \<Rightarrow> int \<Rightarrow> rate_limiter" where
  "new_rate_limiter mx iv = \<lparr>maxRequests = mx, rlInterval = iv, requests = []\<rparr>"

definition allow :: "gotime \<Rightarrow> rate_limiter \<Rightarrow> bool \<times> rate_limiter" where
  "allow now rl =
     (let cutoff = now + (- rlInterval rl);
          valid = filter (\<lambda>t. t > cutoff) (requests rl);
          rl' = rl\<lparr>requests := valid\<rparr>
      in if int (length (requests rl')) \<ge> maxRequests rl' then (False, rl')
         else (True, rl'\<lparr>requests := requests rl' @ [now]\<rparr>))"

section \<open>Configuration\<close>

record worker_config =
  wcMaxSymbols :: int
  wcMaxConnections :: int
  wcPingInterval :: int
  wcConnectionTimeout :: int
  wcRateLimit :: int
  wcRateInterval :: int

definition mk_worker_config :: "int \<Rightarrow> int \<Rightarrow> int \<Rightarrow> int \<Rightarrow> int \<Rightarrow> int \<Rightarrow> worker_config" where
  "mk_worker_config ms mc ping tmo rate iv =
     \<lparr>wcMaxSymbols = ms, wcMaxConnections = mc, wcPingInterval = ping, wcConnectionTimeout = tmo,
      wcRateLimit = rate, wcRateInterval = iv\<rparr>"

definition get_exchange_worker_config :: "string \<Rightarrow> worker_config" where
  "get_exchange_worker_config ex =
     (if ex = ''binance'' then mk_worker_config 1000 10 (20 * second) (45 * second) 5 (1 * second)
      else if ex = ''bybit'' then mk_worker_config 200 50 (20 * second) (60 * second) 10 (1 * second)
      else if ex = ''okx'' then mk_worker_config 100 20 (30 * second) (30 * second) 8 (1 * minute)
      else if ex = ''kucoin'' then mk_worker_config 400 40 (30 * second) (60 * second) 10 (1 * second)
      else if ex = ''phemex'' then mk_worker_config 100 20 (30 * second) (60 * second) 5 (1 * second)
      else if ex = ''gate'' then mk_worker_config 50 10 (10 * second) (60 * second) 50 (1 * second)
      else mk_worker_config 100 10 (30 * second) (60 * second) 5 (1 * second))"

section \<open>Workers\<close>

datatype worker_status =
  WorkerIdle | WorkerConnecting | WorkerConnected | WorkerReconnecting | WorkerFailed | WorkerStopped

primrec worker_status_string :: "worker_status \<Rightarrow> string" where
  "worker_status_string WorkerIdle = ''idle''"
| "worker_status_string WorkerConnecting = ''connecting''"
| "worker_status_string WorkerConnected = ''connected''"
| "worker_status_string WorkerReconnecting = ''reconnecting''"
| "worker_status_string WorkerFailed = ''failed''"
| "worker_status_string WorkerStopped = ''stopped''"

text \<open>Where a call of \<open>Start\<close> is: at the cancellation check, at the rate limiter, about to dial,
  connected but not yet marked, in \<open>processMessages\<close>, behind it, waiting to reconnect, or returned;
  and the message loop it spawned.\<close>

datatype session_pc = AtCheck | AtLimiter | AtDial | Linked | Processing | Leaving | Backoff | Returned

datatype loop_pc = NoLoop | LoopCheck | LoopRead | LoopEnded

record session =
  sPc :: session_pc
  sChan :: "trade_event list"
  sLoop :: loop_pc

record worker =
  wID :: nat
  wExchange :: string
  wMarket :: string
  wSymbols :: "string list"
  wConnector :: connector
  wStatus :: worker_status
  wLastMessage :: gotime
  wMessageCount :: int
  wReconnectCount :: int
  wDone :: bool
  wLimiter :: rate_limiter
  wHasOnTrade :: bool
  wHasOnError :: bool
  sessions :: "session list"

datatype callback = OnTrade trade_event | OnErr string | OnConnected nat | OnDisconnected nat

definition set_session :: "nat \<Rightarrow> (session \<Rightarrow> session) \<Rightarrow> worker \<Rightarrow> worker" where
  "set_session i f w = w\<lparr>sessions := (sessions w)[i := f (sessions w ! i)]\<rparr>"

definition goto_pc :: "nat \<Rightarrow> session_pc \<Rightarrow> worker \<Rightarrow> worker" where
  "goto_pc i pc = set_session i (\<lambda>s. s\<lparr>sPc := pc\<rparr>)"

definition start_worker :: "worker \<Rightarrow> worker" where
  "start_worker w = w\<lparr>wStatus := WorkerConnecting,
     sessions := sessions w @ [\<lparr>sPc = AtCheck, sChan = [], sLoop = NoLoop\<rparr>]\<rparr>"

definition stop_worker :: "worker \<Rightarrow> worker" where
  "stop_worker w = w\<lparr>wDone := True, wConnector := disconnect (wConnector w), wStatus := WorkerStopped\<rparr>"

definition check_cancelled :: "nat \<Rightarrow> worker \<Rightarrow> worker" where
  "check_cancelled i w =
     (if wDone w then goto_pc i Returned (w\<lparr>wStatus := WorkerStopped\<rparr>) else goto_pc i AtLimiter w)"

definition ask_limiter :: "nat \<Rightarrow> gotime \<Rightarrow> worker \<Rightarrow> worker" where
  "ask_limiter i now w =
     (case allow now (wLimiter w) of
        (ok, rl) \<Rightarrow> goto_pc i (if ok then AtDial else AtCheck) (w\<lparr>wLimiter := rl\<rparr>))"

definition handle_connection_error :: "string \<Rightarrow> worker \<Rightarrow> worker \<times> callback list" where
  "handle_connection_error e w =
     (w\<lparr>wStatus := WorkerReconnecting\<rparr>,
      if wHasOnError w then [OnErr (''worker '' @ show_nat (wID w) @ '' connection error: '' @ e)] else [])"

record dial_env =
  dialToken :: "string + string \<times> string \<times> string list"
  dialResult :: "string option"
  dialWrites :: "nat \<Rightarrow> write_result"
  dialTime :: gotime

definition dial_worker :: "nat \<Rightarrow> dial_env \<Rightarrow> worker \<Rightarrow> worker \<times> callback list" where
  "dial_worker i env w =
     (case connect (dialToken env) (dialResult env) (dialWrites env) (dialTime env) (wSymbols w) (wConnector w) of
        (Some e, c) \<Rightarrow>
          (case handle_connection_error (error_text e) (w\<lparr>wConnector := c\<rparr>) of
             (w', cb) \<Rightarrow> (goto_pc i AtCheck w', cb))
      | (None, c) \<Rightarrow> (goto_pc i Linked (w\<lparr>wConnector := c\<rparr>), []))"

text \<open>Mark the connection, call back, and enter \<open>processMessages\<close> with a new channel.\<close>

definition mark_connected :: "nat \<Rightarrow> worker \<Rightarrow> worker \<times> callback list" where
  "mark_connected i w =
     (set_session i (\<lambda>s. s\<lparr>sPc := Processing, sChan := [], sLoop := LoopCheck\<rparr>)
        (w\<lparr>wStatus := WorkerConnected, wReconnectCount := wReconnectCount w + 1\<rparr>),
      [OnConnected (wID w)])"

definition receive_trade :: "nat \<Rightarrow> gotime \<Rightarrow> worker \<Rightarrow> worker \<times> callback list" where
  "receive_trade i now w =
     (case sChan (sessions w ! i) of
        [] \<Rightarrow> (w, [])
      | t # ts \<Rightarrow>
          (set_session i (\<lambda>s. s\<lparr>sChan := ts\<rparr>)
             (w\<lparr>wMessageCount := wMessageCount w + 1, wLastMessage := now\<rparr>),
           if wHasOnTrade w then [OnTrade t] else []))"

definition connection_lost :: "nat \<Rightarrow> worker \<Rightarrow> worker \<times> callback list" where
  "connection_lost i w = (goto_pc i Backoff (w\<lparr>wStatus := WorkerReconnecting\<rparr>), [OnDisconnected (wID w)])"

definition check_loop :: "nat \<Rightarrow> worker \<Rightarrow> worker" where
  "check_loop i w = set_session i (\<lambda>s. s\<lparr>sLoop := (if wDone w then LoopEnded else LoopRead)\<rparr>) w"

definition turn_loop ::
  "('m \<Rightarrow> parse_error + trade_event list) \<Rightarrow> nat \<Rightarrow> gotime \<Rightarrow> 'm read_outcome \<Rightarrow> worker \<Rightarrow> worker" where
  "turn_loop parse i now r w =
     (case message_loop_turn parse now r (wConnector w) (sChan (sessions w ! i)) of
        (c, chan) \<Rightarrow> set_session i (\<lambda>s. s\<lparr>sChan := chan, sLoop := LoopCheck\<rparr>) (w\<lparr>wConnector := c\<rparr>))"

datatype 'm worker_action =
    WStart | WStop | WCheck nat | WLimiter nat gotime | WDial nat dial_env | WLinked nat
  | WReceive nat gotime | WCancelled nat | WLost nat | WGiveUp nat | WRetry nat
  | WLoopCheck nat | WLoopTurn nat gotime "'m read_outcome"

definition at_pc :: "worker \<Rightarrow> nat \<Rightarrow> session_pc \<Rightarrow> bool" where
  "at_pc w i pc = (i < length (sessions w) \<and> sPc (sessions w ! i) = pc)"

text \<open>The waiting select of the backoff sees a cancelled context first: the timer runs at least a
  second.\<close>

inductive worker_step ::
  "('m \<Rightarrow> parse_error + trade_event list) \<Rightarrow> worker \<Rightarrow> 'm worker_action \<Rightarrow> worker \<times> callback list \<Rightarrow> bool"
  for parse where
  ws_start: "worker_step parse w WStart (start_worker w, [])"
| ws_stop: "worker_step parse w WStop (stop_worker w, [])"
| ws_check: "at_pc w i AtCheck \<Longrightarrow> worker_step parse w (WCheck i) (check_cancelled i w, [])"
| ws_limiter: "at_pc w i AtLimiter \<Longrightarrow> worker_step parse w (WLimiter i now) (ask_limiter i now w, [])"
| ws_dial: "at_pc w i AtDial \<Longrightarrow> worker_step parse w (WDial i env) (dial_worker i env w)"
| ws_linked: "at_pc w i Linked \<Longrightarrow> worker_step parse w (WLinked i) (mark_connected i w)"
| ws_receive: "at_pc w i Processing \<Longrightarrow> sChan (sessions w ! i) \<noteq> [] \<Longrightarrow>
    worker_step parse w (WReceive i now) (receive_trade i now w)"
| ws_cancelled: "at_pc w i Processing \<Longrightarrow> wDone w \<Longrightarrow> worker_step parse w (WCancelled i) (goto_pc i Leaving w, [])"
| ws_lost: "at_pc w i Leaving \<Longrightarrow> worker_step parse w (WLost i) (connection_lost i w)"
| ws_giveup: "at_pc w i Backoff \<Longrightarrow> wDone w \<Longrightarrow> worker_step parse w (WGiveUp i) (goto_pc i Returned w, [])"
| ws_retry: "at_pc w i Backoff \<Longrightarrow> \<not> wDone w \<Longrightarrow> worker_step parse w (WRetry i) (goto_pc i AtCheck w, [])"
| ws_loop_check: "i < length (sessions w) \<Longrightarrow> sLoop (sessions w ! i) = LoopCheck \<Longrightarrow>
    worker_step parse w (WLoopCheck i) (check_loop i w, [])"
| ws_loop_turn: "i < length (sessions w) \<Longrightarrow> sLoop (sessions w ! i) = LoopRead \<Longrightarrow>
    worker_step parse w (WLoopTurn i now r) (turn_loop parse i now r w, [])"

inductive_cases worker_stepE: "worker_step parse w a r"

section \<open>The pool\<close>

record worker_pool =
  wpExchange :: string
  wpMarket :: string
  wpSymbols :: "string list"
  wpWorkers :: "worker list"
  wpMaxSymbols :: int
  wpMaxConnections :: int
  wpDone :: bool
  wpTotalWorkers :: int
  wpActiveWorkers :: int
  wpHasOnTrade :: bool
  wpHasOnError :: bool

text \<open>\<open>int(math.Ceil(float64(n) / float64(mx)))\<close>; a division by zero gives an infinity (or NaN),
  whose conversion on amd64 is the least integer.\<close>

definition num_workers :: "nat \<Rightarrow> int \<Rightarrow> int" where
  "num_workers n mx =
     (if mx > 0 then (int n + mx - 1) div mx
      else if mx = 0 then - (2 ^ 63)
      else - (int n div (- mx)))"

definition mk_worker :: "gotime \<Rightarrow> worker_pool \<Rightarrow> nat \<Rightarrow> string list \<Rightarrow> connector \<Rightarrow> worker" where
  "mk_worker now wp workerID syms c =
     (let config = get_exchange_worker_config (wpExchange wp)
      in \<lparr>wID = workerID, wExchange = wpExchange wp, wMarket = wpMarket wp, wSymbols = syms,
          wConnector = c, wStatus = WorkerIdle, wLastMessage = now, wMessageCount = 0,
          wReconnectCount = 0, wDone = wpDone wp,
          wLimiter = new_rate_limiter (wcRateLimit config) (wcRateInterval config),
          wHasOnTrade = wpHasOnTrade wp, wHasOnError = wpHasOnError wp, sessions = []\<rparr>)"

definition create_worker :: "gotime \<Rightarrow> nat \<Rightarrow> worker_pool \<Rightarrow> worker option" where
  "create_worker now workerID wp =
     (let startIdx = int workerID * wpMaxSymbols wp;
          endIdx0 = startIdx + wpMaxSymbols wp;
          endIdx = (if endIdx0 > int (length (wpSymbols wp)) then int (length (wpSymbols wp)) else endIdx0)
      in if startIdx \<ge> int (length (wpSymbols wp)) then None
         else
           (let syms = take (nat (endIdx - startIdx)) (drop (nat startIdx) (wpSymbols wp))
            in map_option (mk_worker now wp workerID syms)
                 (new_connector (wpExchange wp) (wpMarket wp) (int (length syms)))))"

definition new_worker_pool :: "gotime \<Rightarrow> string \<Rightarrow> string \<Rightarrow> string list \<Rightarrow> worker_config \<Rightarrow> worker_pool" where
  "new_worker_pool now ex mt symbols config =
     (let n0 = num_workers (length symbols) (wcMaxSymbols config);
          n = (if n0 > wcMaxConnections config then wcMaxConnections config else n0);
          wp = \<lparr>wpExchange = ex, wpMarket = mt, wpSymbols = symbols, wpWorkers = [],
                wpMaxSymbols = wcMaxSymbols config, wpMaxConnections = wcMaxConnections config,
                wpDone = False, wpTotalWorkers = n, wpActiveWorkers = 0,
                wpHasOnTrade = False, wpHasOnError = False\<rparr>
      in wp\<lparr>wpWorkers := List.map_filter (\<lambda>i. create_worker now i wp) [0..<nat n]\<rparr>)"

definition start_pool :: "worker_pool \<Rightarrow> worker_pool" where
  "start_pool wp = wp\<lparr>wpWorkers := map start_worker (wpWorkers wp)\<rparr>"

definition stop_pool :: "worker_pool \<Rightarrow> worker_pool" where
  "stop_pool wp = wp\<lparr>wpDone := True, wpWorkers := map stop_worker (wpWorkers wp), wpActiveWorkers := 0\<rparr>"

text \<open>The pool's part of the callbacks of its workers.\<close>

fun pool_callback :: "callback \<Rightarrow> worker_pool \<Rightarrow> worker_pool" where
  "pool_callback (OnConnected i) wp = wp\<lparr>wpActiveWorkers := wpActiveWorkers wp + 1\<rparr>"
| "pool_callback (OnDisconnected i) wp =
     (if wpActiveWorkers wp > 0 then wp\<lparr>wpActiveWorkers := wpActiveWorkers wp - 1\<rparr> else wp)"
| "pool_callback _ wp = wp"

datatype 'm pool_action = PStart | PStop | PWorker nat "'m worker_action"

text \<open>A worker is only started and stopped by its pool.\<close>

definition own_action :: "'m worker_action \<Rightarrow> bool" where
  "own_action a = (a \<noteq> WStart \<and> a \<noteq> WStop)"

inductive pool_step ::
  "('m \<Rightarrow> parse_error + trade_event list) \<Rightarrow> worker_pool \<Rightarrow> 'm pool_action \<Rightarrow> worker_pool \<times> callback list \<Rightarrow> bool"
  for parse where
  ps_start: "pool_step parse wp PStart (start_pool wp, [])"
| ps_stop: "pool_step parse wp PStop (stop_pool wp, [])"
| ps_worker: "k < length (wpWorkers wp) \<Longrightarrow> own_action a \<Longrightarrow> worker_step parse (wpWorkers wp ! k) a (w', cbs) \<Longrightarrow>
    pool_step parse wp (PWorker k a) (fold pool_callback cbs (wp\<lparr>wpWorkers := (wpWorkers wp)[k := w']\<rparr>), cbs)"

inductive_cases pool_stepE: "pool_step parse wp a r"

definition pool_total_messages :: "worker_pool \<Rightarrow> int" where
  "pool_total_messages wp = sum_list (map wMessageCount (wpWorkers wp))"

record worker_detail =
  wdStatus :: string
  wdSymbols :: nat
  wdMessages :: int
  wdReconnects :: int

record pool_stats =
  psExchange :: string
  psMarket :: string
  psTotalWorkers :: int
  psActiveWorkers :: int
  psTotalSymbols :: nat
  psTotalMessages :: int
  psDetails :: "(nat, worker_detail) gomap"

definition get_pool_stats :: "worker_pool \<Rightarrow> pool_stats" where
  "get_pool_stats wp =
     \<lparr>psExchange = wpExchange wp, psMarket = wpMarket wp, psTotalWorkers = wpTotalWorkers wp,
      psActiveWorkers = wpActiveWorkers wp, psTotalSymbols = length (wpSymbols wp),
      psTotalMessages = pool_total_messages wp,
      psDetails = fold (\<lambda>w. mput (wID w) \<lparr>wdStatus = worker_status_string (wStatus w),
          wdSymbols = length (wSymbols w), wdMessages = wMessageCount w, wdReconnects = wReconnectCount w\<rparr>)
        (wpWorkers wp) []\<rparr>"

end
