(* ===== verification/WorkerPoolProps.thy ===== *)
theory WorkerPoolProps
  imports WorkerPool
begin

text \<open>
  Properties of \<open>internal/websocket/worker_pool.go\<close>: the sliding window of the rate limiter, the
  partition of the symbols over the workers, and what a worker can do over its life.
\<close>

section \<open>Rate limiter\<close>

text \<open>Asking the limiter at the times of a list: the granted times and the limiter afterwards.\<close>

fun ask_all :: "rate_limiter \<Rightarrow> gotime list \<Rightarrow> gotime list \<times> rate_limiter" where
  "ask_all rl [] = ([], rl)"
| "ask_all rl (t # ts) =
     (case allow t rl of (ok, rl') \<Rightarrow>
        (case ask_all rl' ts of (gs, rl'') \<Rightarrow> (if ok then t # gs else gs, rl'')))"

lemma allow_cases:
  "allow now rl =
     (let valid = filter (\<lambda>t. t > now - rlInterval rl) (requests rl) in
      if int (length valid) \<ge> maxRequests rl then (False, rl\<lparr>requests := valid\<rparr>)
      else (True, rl\<lparr>requests := valid @ [now]\<rparr>))"
  by (simp add: allow_def Let_def)

lemma ask_all_Cons:
  "fst (ask_all rl (t # ts)) =
     (if fst (allow t rl) then [t] else []) @ fst (ask_all (snd (allow t rl)) ts)"
  "snd (ask_all rl (t # ts)) = snd (ask_all (snd (allow t rl)) ts)"
  by (simp_all split: prod.splits)

declare ask_all.simps(2) [simp del] ask_all_Cons [simp]

lemma allow_fields [simp]:
  "maxRequests (snd (allow t rl)) = maxRequests rl" "rlInterval (snd (allow t rl)) = rlInterval rl"
  by (simp_all add: allow_cases Let_def)

lemma ask_all_fields [simp]:
  "maxRequests (snd (ask_all rl ts)) = maxRequests rl" "rlInterval (snd (ask_all rl ts)) = rlInterval rl"
  by (induction ts arbitrary: rl) simp_all

lemma ask_all_subset: "set (fst (ask_all rl ts)) \<subseteq> set ts"
proof (induction ts arbitrary: rl)
  case (Cons t ts)
  show ?case using Cons.IH [of "snd (allow t rl)"] by auto
qed simp

lemma filter_filter_imp: "(\<And>x. Q x \<Longrightarrow> P x) \<Longrightarrow> filter Q (filter P xs) = filter Q xs"
  by (auto intro!: filter_cong)

text \<open>What the limiter remembers is enough: the grants still inside the window of a later time.\<close>

lemma limiter_remembers:
  "sorted ts \<Longrightarrow> (\<forall>t\<in>set ts. t \<le> now) \<Longrightarrow>
     filter (\<lambda>t. t > now - rlInterval rl) (requests (snd (ask_all rl ts))) =
     filter (\<lambda>t. t > now - rlInterval rl) (requests rl @ fst (ask_all rl ts))"
proof (induction ts arbitrary: rl)
  case (Cons t ts)
  have kept: "filter (\<lambda>s. s > now - rlInterval rl) (filter (\<lambda>s. s > t - rlInterval rl) (requests rl)) =
      filter (\<lambda>s. s > now - rlInterval rl) (requests rl)"
    using Cons.prems by (intro filter_filter_imp) simp
  from Cons.prems have "sorted ts" "\<forall>t\<in>set ts. t \<le> now" by simp_all
  from Cons.IH [OF this, of "snd (allow t rl)"] show ?case
    using kept by (auto simp: allow_cases Let_def split: prod.splits if_splits)
qed simp

lemma limiter_window_bound:
  "sorted ts \<Longrightarrow> int (length (filter (\<lambda>t. u - rlInterval rl < t \<and> t \<le> u) (requests rl))) \<le> max 0 (maxRequests rl) \<Longrightarrow>
     int (length (filter (\<lambda>t. u - rlInterval rl < t \<and> t \<le> u) (requests rl @ fst (ask_all rl ts)))) \<le> max 0 (maxRequests rl)"
proof (induction ts arbitrary: rl)
  case (Cons t ts)
  show ?case
  proof (cases "t \<le> u")
    case True
    let ?W = "\<lambda>s. u - rlInterval rl < s \<and> s \<le> u"
    let ?V = "filter (\<lambda>s. s > t - rlInterval rl) (requests rl)"
    have kept: "filter ?W ?V = filter ?W (requests rl)"
      using True by (intro filter_filter_imp) simp
    have "length (filter ?W (requests rl)) \<le> length ?V" unfolding kept [symmetric] by (rule length_filter_le)
    then show ?thesis
      using Cons.IH [of "snd (allow t rl)"] Cons.prems kept True
      by (auto simp: allow_cases Let_def split: prod.splits if_splits)
  next
    case False
    then have "\<forall>s\<in>set (fst (ask_all rl (t # ts))). \<not> s \<le> u"
      using ask_all_subset [of rl "t # ts"] Cons.prems by fastforce
    then have "filter (\<lambda>s. u - rlInterval rl < s \<and> s \<le> u) (fst (ask_all rl (t # ts))) = []"
      by (simp add: filter_empty_conv)
    then show ?thesis using Cons.prems by (simp del: ask_all_Cons)
  qed
qed simp

lemma new_rate_limiter_simps [simp]:
  "requests (new_rate_limiter mx iv) = []" "rlInterval (new_rate_limiter mx iv) = iv"
  "maxRequests (new_rate_limiter mx iv) = mx"
  by (simp_all add: new_rate_limiter_def)

text \<open>C27. The rate limiter is an exact sliding window: asked at non-decreasing times, it grants at
  most \<open>maxRequests\<close> requests in any interval of the configured length, and it refuses a request only
  when the preceding interval already holds that many grants.\<close>

theorem rate_limit_window:
  assumes "sorted (ts @ [now])"
  shows "(\<forall>u. int (length (filter (\<lambda>t. u - iv < t \<and> t \<le> u) (fst (ask_all (new_rate_limiter mx iv) (ts @ [now]))))) \<le> max 0 mx) \<and>
    (fst (allow now (snd (ask_all (new_rate_limiter mx iv) ts))) \<longleftrightarrow>
       int (length (filter (\<lambda>t. t > now - iv) (fst (ask_all (new_rate_limiter mx iv) ts)))) < mx)"
proof (intro conjI allI)
  fix u show "int (length (filter (\<lambda>t. u - iv < t \<and> t \<le> u) (fst (ask_all (new_rate_limiter mx iv) (ts @ [now]))))) \<le> max 0 mx"
    using limiter_window_bound [OF assms, of u "new_rate_limiter mx iv"] by simp
next
  from assms have "sorted ts" "\<forall>t\<in>set ts. t \<le> now" by (auto simp: sorted_append)
  from limiter_remembers [OF this, of "new_rate_limiter mx iv"]
  show "fst (allow now (snd (ask_all (new_rate_limiter mx iv) ts))) \<longleftrightarrow>
       int (length (filter (\<lambda>t. t > now - iv) (fst (ask_all (new_rate_limiter mx iv) ts)))) < mx"
    by (auto simp: allow_cases Let_def)
qed

theorem rate_limit_window_witness:
  "fst (ask_all (new_rate_limiter 2 10) [1, 3, 5, 12]) = [1, 3, 12] \<and>
   (fst (allow 12 (snd (ask_all (new_rate_limiter 2 10) [1, 3, 5]))) \<longleftrightarrow>
       int (length (filter (\<lambda>t. t > 12 - 10) (fst (ask_all (new_rate_limiter 2 10) [1, 3, 5])))) < 2)"
  using rate_limit_window [of "[1, 3, 5]" 12 10 2] by (simp add: allow_cases Let_def)

section \<open>Partition of the symbols\<close>

definition exchanges6 :: "string list" where
  "exchanges6 = [''binance'', ''bybit'', ''okx'', ''kucoin'', ''phemex'', ''gate'']"

lemma new_connector_supported:
  assumes "ex \<in> set exchanges6"
  shows "\<exists>c. new_connector ex mt mx = Some c \<and> MaxSymbols c = mx"
  using assms by (auto simp: exchanges6_def new_connector_def new_base_connector_def)

lemma concat_chunks: "concat (map (\<lambda>i. take m (drop (i * m) xs)) [0..<k]) = take (k * m) xs"
proof (induction k)
  case (Suc k)
  then show ?case using take_add [of "k * m" m xs] by (simp add: add.commute [of m])
qed simp

lemma num_workers_pos:
  assumes "0 < m"
  shows "i < nat (num_workers n m) \<longleftrightarrow> int i * m < int n"
proof -
  have eq: "num_workers n m = (int n + m - 1) div m" using assms by (simp add: num_workers_def)
  have "int i < (int n + m - 1) div m \<longleftrightarrow> (int i + 1) * m \<le> int n + m - 1"
  proof
    assume "int i < (int n + m - 1) div m"
    then have "(int i + 1) * m \<le> ((int n + m - 1) div m) * m" using assms by (intro mult_right_mono) simp_all
    also have "\<dots> \<le> int n + m - 1"
      using div_mult_mod_eq [of "int n + m - 1" m] pos_mod_sign [OF assms, of "int n + m - 1"] by linarith
    finally show "(int i + 1) * m \<le> int n + m - 1" .
  next
    assume "(int i + 1) * m \<le> int n + m - 1"
    from zdiv_mono1 [OF this assms] show "int i < (int n + m - 1) div m" using assms by simp
  qed
  also have "\<dots> \<longleftrightarrow> int i * m < int n" by (auto simp: algebra_simps)
  finally show ?thesis by (simp add: eq zless_nat_eq_int_zless)
qed

definition worker_of :: "gotime \<Rightarrow> worker_pool \<Rightarrow> nat \<Rightarrow> worker" where
  "worker_of now wp i = the (create_worker now i wp)"

lemma mk_worker_simps [simp]:
  "wID (mk_worker now wp i syms c) = i" "wSymbols (mk_worker now wp i syms c) = syms"
  "wConnector (mk_worker now wp i syms c) = c" "sessions (mk_worker now wp i syms c) = []"
  "wReconnectCount (mk_worker now wp i syms c) = 0" "wMessageCount (mk_worker now wp i syms c) = 0"
  "wDone (mk_worker now wp i syms c) = wpDone wp" "wHasOnError (mk_worker now wp i syms c) = wpHasOnError wp"
  "wStatus (mk_worker now wp i syms c) = WorkerIdle"
  by (simp_all add: mk_worker_def Let_def)

lemma create_worker_mk:
  assumes "0 < wpMaxSymbols wp" "int i * wpMaxSymbols wp < int (length (wpSymbols wp))"
  shows "create_worker now i wp =
    (let syms = take (nat (wpMaxSymbols wp)) (drop (i * nat (wpMaxSymbols wp)) (wpSymbols wp))
     in map_option (mk_worker now wp i syms) (new_connector (wpExchange wp) (wpMarket wp) (int (length syms))))"
    and "i * nat (wpMaxSymbols wp) < length (wpSymbols wp)"
proof -
  define m where "m = nat (wpMaxSymbols wp)"
  with assms have m: "wpMaxSymbols wp = int m" "0 < m" by simp_all
  with assms(2) show lt: "i * nat (wpMaxSymbols wp) < length (wpSymbols wp)"
    by (simp flip: of_nat_mult)
  have min: "nat ((if int i * int m + int m > int (length (wpSymbols wp)) then int (length (wpSymbols wp))
        else int i * int m + int m) - int i * int m) = min (length (wpSymbols wp) - i * m) m"
    using lt m by (auto simp flip: of_nat_mult of_nat_add)
  have tk: "take (min (length (wpSymbols wp) - i * m) m) (drop (i * m) (wpSymbols wp)) =
      take m (drop (i * m) (wpSymbols wp))" by (simp add: min_def)
  show "create_worker now i wp =
    (let syms = take (nat (wpMaxSymbols wp)) (drop (i * nat (wpMaxSymbols wp)) (wpSymbols wp))
     in map_option (mk_worker now wp i syms) (new_connector (wpExchange wp) (wpMarket wp) (int (length syms))))"
    unfolding create_worker_def Let_def m min using lt m tk by (simp flip: of_nat_mult)
qed

lemma map_filter_all: "(\<And>x. x \<in> set xs \<Longrightarrow> f x = Some (g x)) \<Longrightarrow> List.map_filter f xs = map g xs"
  by (induction xs) (simp_all add: List.map_filter_simps)

definition nth_worker :: "gotime \<Rightarrow> worker_pool \<Rightarrow> nat \<Rightarrow> worker" where
  "nth_worker now wp i =
     (let syms = take (nat (wpMaxSymbols wp)) (drop (i * nat (wpMaxSymbols wp)) (wpSymbols wp))
      in mk_worker now wp i syms (the (new_connector (wpExchange wp) (wpMarket wp) (int (length syms)))))"

lemma create_worker_nth:
  assumes "wpExchange wp \<in> set exchanges6" "0 < wpMaxSymbols wp" "int i * wpMaxSymbols wp < int (length (wpSymbols wp))"
  shows "create_worker now i wp = Some (nth_worker now wp i) \<and> wID (nth_worker now wp i) = i \<and>
    wSymbols (nth_worker now wp i) = take (nat (wpMaxSymbols wp)) (drop (i * nat (wpMaxSymbols wp)) (wpSymbols wp)) \<and>
    wSymbols (nth_worker now wp i) \<noteq> [] \<and>
    MaxSymbols (wConnector (nth_worker now wp i)) = int (length (wSymbols (nth_worker now wp i)))"
proof -
  let ?syms = "take (nat (wpMaxSymbols wp)) (drop (i * nat (wpMaxSymbols wp)) (wpSymbols wp))"
  obtain c where "new_connector (wpExchange wp) (wpMarket wp) (int (length ?syms)) = Some c"
      "MaxSymbols c = int (length ?syms)"
    using new_connector_supported [OF assms(1)] by blast
  then show ?thesis
    using create_worker_mk [OF assms(2,3)] assms(2) by (simp add: nth_worker_def Let_def)
qed

text \<open>The pool while \<open>NewWorkerPool\<close> creates its workers.\<close>

definition empty_pool :: "string \<Rightarrow> string \<Rightarrow> string list \<Rightarrow> worker_config \<Rightarrow> worker_pool" where
  "empty_pool ex mt symbols config =
     \<lparr>wpExchange = ex, wpMarket = mt, wpSymbols = symbols, wpWorkers = [],
      wpMaxSymbols = wcMaxSymbols config, wpMaxConnections = wcMaxConnections config, wpDone = False,
      wpTotalWorkers = min (num_workers (length symbols) (wcMaxSymbols config)) (wcMaxConnections config),
      wpActiveWorkers = 0, wpHasOnTrade = False, wpHasOnError = False\<rparr>"

lemma new_worker_pool_eq:
  "new_worker_pool now ex mt symbols config =
     (empty_pool ex mt symbols config)\<lparr>wpWorkers := List.map_filter (\<lambda>i. create_worker now i (empty_pool ex mt symbols config))
        [0..<nat (wpTotalWorkers (empty_pool ex mt symbols config))]\<rparr>"
  by (simp add: new_worker_pool_def empty_pool_def Let_def min_def)

lemma new_worker_pool_workers:
  fixes mt :: string and symbols :: "string list"
  assumes "ex \<in> set exchanges6" "0 < wcMaxSymbols config"
  defines "wp \<equiv> empty_pool ex mt symbols config"
  shows "wpWorkers (new_worker_pool now ex mt symbols config) =
      map (nth_worker now wp) [0..<nat (wpTotalWorkers wp)]"
    and "i < nat (wpTotalWorkers wp) \<Longrightarrow> int i * wpMaxSymbols wp < int (length (wpSymbols wp))"
proof -
  show lt: "int i * wpMaxSymbols wp < int (length (wpSymbols wp))" if "i < nat (wpTotalWorkers wp)" for i
    using that num_workers_pos [OF assms(2), of i "length symbols"] by (auto simp: wp_def empty_pool_def)
  have "List.map_filter (\<lambda>i. create_worker now i wp) [0..<nat (wpTotalWorkers wp)] =
      map (nth_worker now wp) [0..<nat (wpTotalWorkers wp)]"
  proof (intro map_filter_all)
    fix x assume "x \<in> set [0..<nat (wpTotalWorkers wp)]"
    then have "int x * wpMaxSymbols wp < int (length (wpSymbols wp))" using lt by simp
    then show "create_worker now x wp = Some (nth_worker now wp x)"
      using create_worker_nth [of wp x now] assms by (simp add: wp_def empty_pool_def)
  qed
  then show "wpWorkers (new_worker_pool now ex mt symbols config) =
      map (nth_worker now wp) [0..<nat (wpTotalWorkers wp)]"
    by (simp add: new_worker_pool_eq wp_def)
qed

lemma take_workers:
  assumes "0 < mx" "0 \<le> mc"
  shows "take (nat (min (num_workers (length xs) mx) mc) * nat mx) xs = take (nat (mc * mx)) xs"
proof (cases "num_workers (length xs) mx \<le> mc")
  case True
  define n where "n = nat (num_workers (length xs) mx)"
  have "int (length xs) \<le> int n * mx"
    using num_workers_pos [OF assms(1), of n "length xs"] by (simp add: n_def)
  moreover have "int n * mx \<le> mc * mx"
    using True assms unfolding n_def by (intro mult_right_mono) simp_all
  moreover have "int (n * nat mx) = int n * mx" using assms by simp
  ultimately have "length xs \<le> n * nat mx" "length xs \<le> nat (mc * mx)" by linarith+
  then show ?thesis using True by (simp add: n_def min_def)
next
  case False
  then have "nat (min (num_workers (length xs) mx) mc) * nat mx = nat (mc * mx)"
    using assms by (simp add: nat_mult_distrib)
  then show ?thesis by simp
qed

text \<open>C28. \<open>NewWorkerPool\<close> cuts the symbols into consecutive non-empty slices, one per worker and no
  longer than the limit of the exchange, and gives each connector exactly the size of its slice.  Put
  together the slices are the first \<open>MaxConnections * MaxSymbolsPerConnection\<close> symbols: nothing is
  subscribed twice, and what lies beyond the product is dropped.\<close>

theorem pool_partition:
  assumes "ex \<in> set exchanges6" "0 < wcMaxSymbols config" "0 \<le> wcMaxConnections config"
  shows "let wp = new_worker_pool now ex mt symbols config in
    concat (map wSymbols (wpWorkers wp)) = take (nat (wcMaxConnections config * wcMaxSymbols config)) symbols \<and>
    map wID (wpWorkers wp) = [0..<nat (wpTotalWorkers wp)] \<and>
    (\<forall>w\<in>set (wpWorkers wp). wSymbols w \<noteq> [] \<and> int (length (wSymbols w)) \<le> wcMaxSymbols config \<and>
       MaxSymbols (wConnector w) = int (length (wSymbols w)))"
proof -
  define wp where "wp = empty_pool ex mt symbols config"
  define m where "m = nat (wcMaxSymbols config)"
  define n where "n = nat (wpTotalWorkers wp)"
  note ws = new_worker_pool_workers [OF assms(1,2), where mt = mt and symbols = symbols, folded wp_def n_def]
  have fields: "wpExchange wp = ex" "wpMaxSymbols wp = wcMaxSymbols config" "wpSymbols wp = symbols"
    by (simp_all add: wp_def empty_pool_def)
  have worker: "wID (nth_worker now wp i) = i \<and> wSymbols (nth_worker now wp i) = take m (drop (i * m) symbols) \<and>
      wSymbols (nth_worker now wp i) \<noteq> [] \<and>
      MaxSymbols (wConnector (nth_worker now wp i)) = int (length (wSymbols (nth_worker now wp i)))" if "i < n" for i
    using create_worker_nth [of wp i now] create_worker_mk(2) [of wp i] ws(2) [OF that] assms by (simp add: fields m_def)
  have "concat (map (\<lambda>i. wSymbols (nth_worker now wp i)) [0..<n]) = concat (map (\<lambda>i. take m (drop (i * m) symbols)) [0..<n])"
    using worker by (intro arg_cong [where f = concat] map_cong) auto
  also have "\<dots> = take (n * m) symbols" by (rule concat_chunks)
  also have "\<dots> = take (nat (wcMaxConnections config * wcMaxSymbols config)) symbols"
    using take_workers [OF assms(2,3), of symbols] by (simp add: n_def m_def wp_def empty_pool_def)
  finally have "concat (map wSymbols (wpWorkers (new_worker_pool now ex mt symbols config))) =
      take (nat (wcMaxConnections config * wcMaxSymbols config)) symbols"
    by (simp add: ws(1) comp_def)
  moreover have "wpTotalWorkers (new_worker_pool now ex mt symbols config) = wpTotalWorkers wp"
    by (simp add: new_worker_pool_eq wp_def)
  moreover have "wID (nth_worker now wp i) = i" "wSymbols (nth_worker now wp i) \<noteq> []"
      "int (length (wSymbols (nth_worker now wp i))) \<le> wcMaxSymbols config"
      "MaxSymbols (wConnector (nth_worker now wp i)) = int (length (wSymbols (nth_worker now wp i)))" if "i < n" for i
  proof -
    have "length (wSymbols (nth_worker now wp i)) \<le> m" using worker [OF that] by simp
    then show "int (length (wSymbols (nth_worker now wp i))) \<le> wcMaxSymbols config"
      using assms(2) unfolding m_def by linarith
  qed (use worker [OF that] in blast)+
  ultimately show ?thesis
    by (auto simp: Let_def ws(1) n_def [symmetric] comp_def intro!: map_idI)
qed

theorem pool_partition_witness:
  "let wp = new_worker_pool 0 ''gate'' ''spot'' [''A'', ''B'', ''C'', ''D'', ''E''] (mk_worker_config 2 2 0 0 0 0) in
    concat (map wSymbols (wpWorkers wp)) = [''A'', ''B'', ''C'', ''D''] \<and>
    map wID (wpWorkers wp) = [0..<nat (wpTotalWorkers wp)]"
  using pool_partition [of "''gate''" "mk_worker_config 2 2 0 0 0 0" 0 "''spot''" "[''A'', ''B'', ''C'', ''D'', ''E'']"]
  by (simp add: exchanges6_def mk_worker_config_def Let_def numeral_eq_Suc)


section \<open>The life of a worker\<close>

text \<open>Labels carry the callbacks of a step.\<close>

definition worker_moves ::
  "('m \<Rightarrow> parse_error + trade_event list) \<Rightarrow> worker \<Rightarrow> 'm worker_action \<times> callback list \<Rightarrow> worker \<Rightarrow> bool" where
  "worker_moves parse w l w' = worker_step parse w (fst l) (w', snd l)"

definition pool_moves ::
  "('m \<Rightarrow> parse_error + trade_event list) \<Rightarrow> worker_pool \<Rightarrow> 'm pool_action \<times> callback list \<Rightarrow> worker_pool \<Rightarrow> bool" where
  "pool_moves parse wp l wp' = pool_step parse wp (fst l) (wp', snd l)"

lemma length_filter_update:
  "i < length xs \<Longrightarrow> int (length (filter P (xs[i := x]))) =
     int (length (filter P xs)) + (if P x then 1 else 0) - (if P (xs ! i) then 1 else 0)"
  proof (induction xs arbitrary: i)
  case (Cons a xs)
  then show ?case
  proof (cases i)
    case (Suc j)
    then show ?thesis using Cons.IH [of j] Cons.prems by auto
  qed auto
qed simp

lemma sum_list_update_nat:
  fixes f :: "'a \<Rightarrow> nat"
  shows "i < length xs \<Longrightarrow> sum_list (map f (xs[i := x])) + f (xs ! i) = sum_list (map f xs) + f x"
proof (induction xs arbitrary: i)
  case (Cons a xs)
  then show ?case by (cases i) (auto simp: algebra_simps)
qed simp

lemmas session_defs = set_session_def goto_pc_def at_pc_def

text \<open>The step relation of a session: what the code of one call of \<open>Start\<close> and its message loop can do,
  given whether the context is cancelled, with the messages and connections it counts.\<close>

inductive session_edge :: "bool \<Rightarrow> session \<Rightarrow> int \<Rightarrow> int \<Rightarrow> callback list \<Rightarrow> session \<Rightarrow> bool" where
  se_quit: "sPc s = AtCheck \<Longrightarrow> session_edge True s 0 0 [] (s\<lparr>sPc := Returned\<rparr>)"
| se_go: "sPc s = AtCheck \<Longrightarrow> session_edge False s 0 0 [] (s\<lparr>sPc := AtLimiter\<rparr>)"
| se_granted: "sPc s = AtLimiter \<Longrightarrow> session_edge d s 0 0 [] (s\<lparr>sPc := AtDial\<rparr>)"
| se_refused: "sPc s = AtLimiter \<Longrightarrow> session_edge d s 0 0 [] (s\<lparr>sPc := AtCheck\<rparr>)"
| se_failed: "sPc s = AtDial \<Longrightarrow> session_edge d s 0 0 cbs (s\<lparr>sPc := AtCheck\<rparr>)"
| se_dialled: "sPc s = AtDial \<Longrightarrow> session_edge d s 0 0 [] (s\<lparr>sPc := Linked\<rparr>)"
| se_linked: "sPc s = Linked \<Longrightarrow>
    session_edge d s 0 1 [OnConnected i] (s\<lparr>sPc := Processing, sChan := [], sLoop := LoopCheck\<rparr>)"
| se_receive: "sPc s = Processing \<Longrightarrow> sChan s = t # ts \<Longrightarrow> session_edge d s 1 0 cbs (s\<lparr>sChan := ts\<rparr>)"
| se_cancelled: "sPc s = Processing \<Longrightarrow> session_edge True s 0 0 [] (s\<lparr>sPc := Leaving\<rparr>)"
| se_lost: "sPc s = Leaving \<Longrightarrow> session_edge d s 0 0 [OnDisconnected i] (s\<lparr>sPc := Backoff\<rparr>)"
| se_giveup: "sPc s = Backoff \<Longrightarrow> session_edge True s 0 0 [] (s\<lparr>sPc := Returned\<rparr>)"
| se_retry: "sPc s = Backoff \<Longrightarrow> session_edge False s 0 0 [] (s\<lparr>sPc := AtCheck\<rparr>)"
| se_loop_end: "sLoop s = LoopCheck \<Longrightarrow> session_edge True s 0 0 [] (s\<lparr>sLoop := LoopEnded\<rparr>)"
| se_loop_read: "sLoop s = LoopCheck \<Longrightarrow> session_edge False s 0 0 [] (s\<lparr>sLoop := LoopRead\<rparr>)"
| se_loop_turn: "sLoop s = LoopRead \<Longrightarrow> session_edge d s 0 0 [] (s\<lparr>sLoop := LoopCheck, sChan := chan\<rparr>)"

definition moves_session :: "worker \<Rightarrow> nat \<Rightarrow> int \<Rightarrow> int \<Rightarrow> callback list \<Rightarrow> worker \<Rightarrow> bool" where
  "moves_session w i dm dr cbs w' =
     (i < length (sessions w) \<and> length (sessions w') = length (sessions w) \<and>
      sessions w' = (sessions w)[i := sessions w' ! i] \<and>
      session_edge (wDone w) (sessions w ! i) dm dr cbs (sessions w' ! i) \<and>
      wDone w' = wDone w \<and> wMessageCount w' = wMessageCount w + dm \<and>
      wReconnectCount w' = wReconnectCount w + dr \<and>
      (wStatus w' = WorkerConnected \<longrightarrow> wStatus w = WorkerConnected \<or> dr = 1))"

lemma dial_worker_sessions:
  "dial_worker i env w = (w', cbs) \<Longrightarrow>
     \<exists>pc. (pc = AtCheck \<or> pc = Linked \<and> cbs = []) \<and> sessions w' = (sessions w)[i := (sessions w ! i)\<lparr>sPc := pc\<rparr>] \<and>
       wReconnectCount w' = wReconnectCount w \<and> wDone w' = wDone w \<and> wMessageCount w' = wMessageCount w \<and>
       (wStatus w' = WorkerConnected \<longrightarrow> wStatus w = WorkerConnected)"
  by (auto simp: dial_worker_def handle_connection_error_def session_defs split: prod.splits option.splits)

lemma own_step_moves:
  assumes "worker_step parse w a (w', cbs)" "own_action a"
  obtains i dm dr where "moves_session w i dm dr cbs w'"
proof -
  have "\<exists>i dm dr. moves_session w i dm dr cbs w'"
    using assms(1)
  proof (cases rule: worker_step.cases)
    case (ws_dial i env)
    then obtain pc where "pc = AtCheck \<or> pc = Linked \<and> cbs = []"
        "sessions w' = (sessions w)[i := (sessions w ! i)\<lparr>sPc := pc\<rparr>]"
        "wReconnectCount w' = wReconnectCount w" "wDone w' = wDone w" "wMessageCount w' = wMessageCount w"
        "wStatus w' = WorkerConnected \<longrightarrow> wStatus w = WorkerConnected"
      using dial_worker_sessions [of i env w w' cbs] by auto
    with ws_dial show ?thesis
      by (intro exI [of _ i] exI [of _ 0]) (auto simp: moves_session_def at_pc_def intro: session_edge.intros)
  next
    case (ws_linked i)
    then show ?thesis
      by (intro exI [of _ i] exI [of _ 0] exI [of _ 1])
         (auto simp: moves_session_def session_defs mark_connected_def intro: session_edge.intros)
  next
    case (ws_receive i now)
    then show ?thesis
      by (intro exI [of _ i] exI [of _ 1] exI [of _ 0])
         (auto simp: moves_session_def session_defs receive_trade_def neq_Nil_conv intro: session_edge.intros)
  next
    case (ws_check i)
    then show ?thesis
      by (intro exI [of _ i] exI [of _ 0])
         (cases "wDone w"; auto simp: moves_session_def session_defs check_cancelled_def intro: session_edge.intros)
  next
    case (ws_limiter i now)
    then show ?thesis
      by (intro exI [of _ i] exI [of _ 0])
         (auto simp: moves_session_def session_defs ask_limiter_def split: prod.splits intro: session_edge.intros)
  next
    case (ws_loop_check i)
    then show ?thesis
      by (intro exI [of _ i] exI [of _ 0])
         (auto simp: moves_session_def session_defs check_loop_def intro: session_edge.intros)
  next
    case (ws_loop_turn i now r)
    obtain c chan where t: "message_loop_turn parse now r (wConnector w) (sChan (sessions w ! i)) = (c, chan)" by fastforce
    have upd: "s\<lparr>sChan := chan, sLoop := LoopCheck\<rparr> = s\<lparr>sLoop := LoopCheck, sChan := chan\<rparr>" for s :: session by simp
    from ws_loop_turn t show ?thesis
      by (intro exI [of _ i] exI [of _ 0])
         (auto simp: moves_session_def session_defs turn_loop_def upd simp del: session.simps intro: session_edge.intros)
  next
    case (ws_cancelled i)
    then show ?thesis
      by (intro exI [of _ i] exI [of _ 0])
         (auto simp: moves_session_def session_defs intro: session_edge.intros)
  next
    case (ws_lost i)
    then show ?thesis
      by (intro exI [of _ i] exI [of _ 0])
         (auto simp: moves_session_def session_defs connection_lost_def intro: session_edge.intros)
  next
    case (ws_giveup i)
    then show ?thesis
      by (intro exI [of _ i] exI [of _ 0])
         (auto simp: moves_session_def session_defs intro: session_edge.intros)
  next
    case (ws_retry i)
    then show ?thesis
      by (intro exI [of _ i] exI [of _ 0])
         (auto simp: moves_session_def session_defs intro: session_edge.intros)
  qed (use assms(2) in \<open>simp_all add: own_action_def\<close>)
  then show ?thesis using that by blast
qed


definition unconnected :: "session \<Rightarrow> bool" where
  "unconnected s = (sPc s \<in> {AtCheck, AtLimiter, AtDial, Linked})"

definition orderly :: "worker \<Rightarrow> bool" where
  "orderly w = (\<forall>s\<in>set (sessions w). sPc s = Leaving \<or> sPc s = Backoff \<longrightarrow> wDone w)"

definition connections_left :: "worker \<Rightarrow> int" where
  "connections_left w = wReconnectCount w + int (length (filter unconnected (sessions w)))"

lemma in_update: "s \<in> set (xs[i := x]) \<Longrightarrow> s = x \<or> s \<in> set xs"
  using set_update_subset_insert by fastforce

lemma orderly_moves:
  assumes "moves_session w i dm dr cbs w'" "orderly w"
  shows "orderly w'"
proof -
  let ?s = "sessions w ! i" and ?s' = "sessions w' ! i"
  have old: "sPc ?s = Leaving \<or> sPc ?s = Backoff \<longrightarrow> wDone w"
    using assms by (auto simp: moves_session_def orderly_def)
  have e: "session_edge (wDone w) ?s dm dr cbs ?s'" using assms(1) by (simp add: moves_session_def)
  then have "sPc ?s' = Leaving \<or> sPc ?s' = Backoff \<longrightarrow> wDone w" using old by cases auto
  then show ?thesis
    using assms unfolding orderly_def moves_session_def by (metis in_update)
qed

lemma unconnected_edge:
  assumes "session_edge d s dm dr cbs s'" "sPc s = Leaving \<or> sPc s = Backoff \<longrightarrow> d"
  shows "(if unconnected s' then 1 else 0) + dr \<le> (if unconnected s then 1 else 0 :: int)"
  using assms by cases (auto simp: unconnected_def)

lemma connections_left_step:
  assumes "worker_step parse w a (w', cbs)" "orderly w"
  shows "orderly w' \<and> connections_left w' \<le> connections_left w + (if a = WStart then 1 else 0)"
proof (cases "own_action a")
  case True
  obtain i dm dr where m: "moves_session w i dm dr cbs w'" by (rule own_step_moves [OF assms(1) True])
  have i: "i < length (sessions w)" and upd: "sessions w' = (sessions w)[i := sessions w' ! i]"
    and e: "session_edge (wDone w) (sessions w ! i) dm dr cbs (sessions w' ! i)"
    using m by (simp_all add: moves_session_def)
  have "sPc (sessions w ! i) = Leaving \<or> sPc (sessions w ! i) = Backoff \<longrightarrow> wDone w"
    using assms(2) nth_mem [OF i] by (auto simp: orderly_def)
  then have "(if unconnected (sessions w' ! i) then 1 else 0) + dr \<le> (if unconnected (sessions w ! i) then 1 else 0 :: int)"
    by (rule unconnected_edge [OF e])
  moreover have "wReconnectCount w' = wReconnectCount w + dr" using m by (simp add: moves_session_def)
  ultimately show ?thesis
    using length_filter_update [OF i, of unconnected "sessions w' ! i", folded upd] orderly_moves [OF m assms(2)] True
    by (auto simp: own_action_def connections_left_def split: if_splits)
next
  case False
  then consider "a = WStart" | "a = WStop" by (auto simp: own_action_def)
  then show ?thesis
    using assms
    by cases (auto elim!: worker_stepE simp: start_worker_def stop_worker_def orderly_def connections_left_def unconnected_def)
qed

text \<open>C29. A worker never reconnects.  However often its connection is lost, over any interleaving of
  its goroutines a worker connects at most as many times as \<open>Start\<close> was called, and a session gets
  behind \<open>processMessages\<close>, to the code that reports the loss and dials again, only when its context is
  cancelled: the message loop ends on its own, and nothing tells \<open>processMessages\<close>.\<close>

theorem worker_never_reconnects:
  assumes "runs (worker_moves parse) w as w'" "sessions w = []"
  shows "wReconnectCount w' \<le> wReconnectCount w + int (count_list (map fst as) WStart) \<and>
    (\<forall>s\<in>set (sessions w'). sPc s = Leaving \<or> sPc s = Backoff \<longrightarrow> wDone w')"
proof -
  have "orderly w' \<and> connections_left w' \<le> connections_left w + sum_list (map (\<lambda>l. if fst l = WStart then 1 else 0) as)"
    using assms(1)
  proof (rule runs_potential)
    show "orderly w" using assms(2) by (simp add: orderly_def)
    fix s l s1 assume "worker_moves parse s l s1" "orderly s"
    then show "orderly s1 \<and> connections_left s1 \<le> connections_left s + (if fst l = WStart then 1 else 0)"
      unfolding worker_moves_def by (rule connections_left_step)
  qed
  moreover have "sum_list (map (\<lambda>l. if fst l = WStart then 1 else 0 :: int) as) = int (count_list (map fst as) WStart)"
    by (induction as) auto
  ultimately show ?thesis using assms(2) by (simp add: connections_left_def orderly_def)
qed

text \<open>A worker of Gate with one symbol, whose dial succeeds.\<close>

definition gate_worker :: worker where
  "gate_worker = mk_worker 0 (empty_pool ''gate'' ''spot'' [''BTCUSDT''] (get_exchange_worker_config ''gate'')) 0
     [''BTCUSDT''] (new_base_connector ''gate'' ''spot'' ''wss://api.gateio.ws/ws/v4/'' 1)"

definition good_dial :: dial_env where
  "good_dial = \<lparr>dialToken = Inl '''', dialResult = None, dialWrites = (\<lambda>_. WriteOk), dialTime = 5\<rparr>"

lemma gate_worker_dials:
  "wSymbols w = [''BTCUSDT''] \<Longrightarrow> wConnector w = new_base_connector ''gate'' ''spot'' ''wss://api.gateio.ws/ws/v4/'' 1 \<Longrightarrow>
     \<exists>c. dial_worker i good_dial w = (goto_pc i Linked (w\<lparr>wConnector := c\<rparr>), [])"
  by (simp add: dial_worker_def good_dial_def connect_def connect_with_def connect_websocket_def gate_subscribe_def
      subscribe_with_def new_base_connector_def gate_messages_def is_connected_def send_message_def) blast

lemma gate_worker_fields [simp]:
  "sessions gate_worker = []" "wDone gate_worker = False" "wSymbols gate_worker = [''BTCUSDT'']"
  "wConnector gate_worker = new_base_connector ''gate'' ''spot'' ''wss://api.gateio.ws/ws/v4/'' 1"
  "wLimiter gate_worker = new_rate_limiter 50 second" "wReconnectCount gate_worker = 0" "wID gate_worker = 0"
  by (simp_all add: gate_worker_def empty_pool_def mk_worker_def get_exchange_worker_config_def mk_worker_config_def)

theorem worker_never_reconnects_witness:
  "\<exists>w'. runs (worker_moves (\<lambda>_ :: nat. Inr [])) gate_worker
        [(WStart, []), (WCheck 0, []), (WLimiter 0 5, []), (WDial 0 good_dial, []), (WLinked 0, [OnConnected 0])] w' \<and>
     sPc (sessions w' ! 0) = Processing \<and> wReconnectCount w' \<le> 1"
proof -
  let ?as = "[(WStart, []), (WCheck 0, []), (WLimiter 0 5, []), (WDial 0 good_dial, []), (WLinked 0, [OnConnected 0])]
    :: (nat worker_action \<times> callback list) list"
  let ?parse = "\<lambda>_ :: nat. Inr [] :: parse_error + trade_event list"
  let ?w2 = "check_cancelled 0 (start_worker gate_worker)"
  let ?w3 = "ask_limiter 0 5 ?w2"
  have w3: "wSymbols ?w3 = [''BTCUSDT'']" "at_pc ?w2 0 AtLimiter" "at_pc ?w3 0 AtDial" "wID ?w3 = 0"
      "wConnector ?w3 = new_base_connector ''gate'' ''spot'' ''wss://api.gateio.ws/ws/v4/'' 1" "length (sessions ?w3) = 1"
    by (simp_all add: start_worker_def check_cancelled_def ask_limiter_def session_defs allow_cases Let_def)
  obtain c where d: "dial_worker 0 good_dial ?w3 = (goto_pc 0 Linked (?w3\<lparr>wConnector := c\<rparr>), [])"
    using gate_worker_dials [OF w3(1,5)] by blast
  let ?w4 = "goto_pc 0 Linked (?w3\<lparr>wConnector := c\<rparr>)"
  let ?w5 = "fst (mark_connected 0 ?w4)"
  have w4: "at_pc ?w4 0 Linked" "mark_connected 0 ?w4 = (?w5, [OnConnected 0])" "sPc (sessions ?w5 ! 0) = Processing"
    using w3(4,6) by (simp_all add: session_defs mark_connected_def)
  have "worker_step ?parse gate_worker WStart (start_worker gate_worker, [])" by (rule ws_start)
  moreover have "worker_step ?parse (start_worker gate_worker) (WCheck 0) (?w2, [])"
    by (rule ws_check) (simp add: start_worker_def at_pc_def)
  moreover have "worker_step ?parse ?w2 (WLimiter 0 5) (?w3, [])" using w3(2) by (rule ws_limiter)
  moreover have "worker_step ?parse ?w3 (WDial 0 good_dial) (?w4, [])" using ws_dial [OF w3(3), of ?parse good_dial] d by simp
  moreover have "worker_step ?parse ?w4 (WLinked 0) (?w5, [OnConnected 0])" using ws_linked [OF w4(1), of ?parse] w4(2) by simp
  ultimately have run: "runs (worker_moves ?parse) gate_worker ?as ?w5" by (auto simp: worker_moves_def)
  from worker_never_reconnects [OF run] have "wReconnectCount ?w5 \<le> 1" by simp
  with run w4(3) show ?thesis by blast
qed


section \<open>Stopping a pool\<close>

fun pc_rank :: "session_pc \<Rightarrow> nat" where
  "pc_rank AtLimiter = 6" | "pc_rank AtDial = 5" | "pc_rank Linked = 4" | "pc_rank Processing = 3"
| "pc_rank Leaving = 2" | "pc_rank Backoff = 1" | "pc_rank AtCheck = 1" | "pc_rank Returned = 0"

fun loop_rank :: "loop_pc \<Rightarrow> nat" where
  "loop_rank LoopRead = 2" | "loop_rank LoopCheck = 1" | "loop_rank _ = 0"

abbreviation "lex3 \<equiv> less_than <*lex*> less_than <*lex*> less_than"

definition session_work :: "session \<Rightarrow> nat \<times> nat \<times> nat" where
  "session_work s = (pc_rank (sPc s), loop_rank (sLoop s), length (sChan s))"

definition worker_work :: "worker \<Rightarrow> nat \<times> nat \<times> nat" where
  "worker_work w = (sum_list (map (\<lambda>s. pc_rank (sPc s)) (sessions w)),
     sum_list (map (\<lambda>s. loop_rank (sLoop s)) (sessions w)), sum_list (map (\<lambda>s. length (sChan s)) (sessions w)))"

lemma cancelled_edge_work:
  assumes "session_edge True s dm dr cbs s'"
  shows "(session_work s', session_work s) \<in> lex3"
  using assms by cases (auto simp: session_work_def)

lemma cancelled_moves_work:
  assumes "moves_session w i dm dr cbs w'" "wDone w"
  shows "(worker_work w', worker_work w) \<in> lex3"
proof -
  have i: "i < length (sessions w)" and upd: "sessions w' = (sessions w)[i := sessions w' ! i]"
    and e: "session_edge True (sessions w ! i) dm dr cbs (sessions w' ! i)"
    using assms by (simp_all add: moves_session_def)
  from cancelled_edge_work [OF e]
  show ?thesis
    using sum_list_update_nat [OF i, of "\<lambda>s. pc_rank (sPc s)" "sessions w' ! i", folded upd]
      sum_list_update_nat [OF i, of "\<lambda>s. loop_rank (sLoop s)" "sessions w' ! i", folded upd]
      sum_list_update_nat [OF i, of "\<lambda>s. length (sChan s)" "sessions w' ! i", folded upd]
    by (auto simp: worker_work_def session_work_def)
qed

lemma unfinished_session_moves:
  assumes "wDone w" "i < length (sessions w)"
    and "sPc (sessions w ! i) \<noteq> Returned \<or> sLoop (sessions w ! i) \<in> {LoopCheck, LoopRead}"
  shows "\<exists>a r. own_action a \<and> worker_step parse w a r"
proof (cases "sLoop (sessions w ! i) \<in> {LoopCheck, LoopRead}")
  case True
  then consider "sLoop (sessions w ! i) = LoopCheck" | "sLoop (sessions w ! i) = LoopRead" by blast
  then show ?thesis
  proof cases
    case 1
    from ws_loop_check [OF assms(2) this, of parse] show ?thesis
      by (intro exI conjI) (simp_all add: own_action_def)
  next
    case 2
    from ws_loop_turn [OF assms(2) this, of parse 0 undefined] show ?thesis
      by (intro exI conjI) (simp_all add: own_action_def)
  qed
next
  case False
  then have "at_pc w i (sPc (sessions w ! i))" "sPc (sessions w ! i) \<noteq> Returned"
    using assms by (auto simp: at_pc_def)
  then show ?thesis
    by (cases "sPc (sessions w ! i)")
       (fastforce simp: own_action_def intro: worker_step.intros assms(1))+
qed



text \<open>A worker whose only call of \<open>Start\<close> has returned.\<close>

definition returned_worker :: worker where
  "returned_worker = gate_worker\<lparr>wDone := True, sessions := [\<lparr>sPc = Returned, sChan = [], sLoop = LoopEnded\<rparr>]\<rparr>"

lemma returned_worker_stuck: "\<nexists>a r. own_action a \<and> worker_step parse returned_worker a r"
  by (auto elim!: worker_stepE simp: at_pc_def own_action_def returned_worker_def)


section \<open>Starting a stopped pool\<close>

definition quiet :: "worker \<Rightarrow> bool" where
  "quiet w = (wDone w \<and> wStatus w \<noteq> WorkerConnected \<and> (\<forall>s\<in>set (sessions w). sPc s = AtCheck \<or> sPc s = Returned))"

definition counters :: "worker \<Rightarrow> int \<times> int" where
  "counters w = (wMessageCount w, wReconnectCount w)"

lemma quiet_step:
  assumes "worker_step parse w a (w', cbs)" "quiet w"
  shows "quiet w' \<and> cbs = [] \<and> counters w' = counters w"
proof (cases "own_action a")
  case True
  obtain i dm dr where m: "moves_session w i dm dr cbs w'" by (rule own_step_moves [OF assms(1) True])
  have i: "sessions w ! i \<in> set (sessions w)" and upd: "sessions w' = (sessions w)[i := sessions w' ! i]"
    and e: "session_edge True (sessions w ! i) dm dr cbs (sessions w' ! i)"
    using m assms(2) by (simp_all add: moves_session_def quiet_def)
  from i assms(2) have pc: "sPc (sessions w ! i) = AtCheck \<or> sPc (sessions w ! i) = Returned" by (auto simp: quiet_def)
  from e pc have "cbs = [] \<and> dm = 0 \<and> dr = 0 \<and> (sPc (sessions w' ! i) = AtCheck \<or> sPc (sessions w' ! i) = Returned)"
    by cases auto
  moreover have "s = sessions w' ! i \<or> s \<in> set (sessions w)" if "s \<in> set (sessions w')" for s
    using that upd in_update by metis
  ultimately show ?thesis
    using m assms(2) by (auto simp: moves_session_def quiet_def counters_def)
next
  case False
  then consider "a = WStart" | "a = WStop" by (auto simp: own_action_def)
  then show ?thesis
    using assms
    by cases (auto elim!: worker_stepE simp: start_worker_def stop_worker_def quiet_def counters_def)
qed

lemma quiet_start_stop: "quiet w \<Longrightarrow> quiet (start_worker w) \<and> quiet (stop_worker w)"
  "counters (start_worker w) = counters w" "counters (stop_worker w) = counters w"
  by (auto simp: quiet_def start_worker_def stop_worker_def counters_def)

lemma quiet_pool_step:
  assumes "pool_step parse wp a (wp', cbs)" "\<forall>w\<in>set (wpWorkers wp). quiet w"
  shows "(\<forall>w\<in>set (wpWorkers wp'). quiet w) \<and> cbs = [] \<and> map counters (wpWorkers wp') = map counters (wpWorkers wp)"
  using assms(1)
proof (cases rule: pool_step.cases)
  case (ps_worker k b w')
  from quiet_step [OF ps_worker(5)] ps_worker(3) assms(2)
  have q: "quiet w'" "cbs = []" "counters w' = counters (wpWorkers wp ! k)" by auto
  with ps_worker assms(2) show ?thesis
    by (auto dest: in_update simp: map_update list_update_same_conv)
qed (use assms(2) in \<open>auto simp: start_pool_def stop_pool_def quiet_start_stop\<close>)

text \<open>A stopped pool cannot be started again.  When a pool has been stopped and its goroutines
  have returned, then over every later run, further calls of \<open>Start\<close> included, no callback of the pool is
  called, no worker counts a message or a connection, and none is connected: \<open>Stop\<close> cancels the context
  the workers were created with, and \<open>Start\<close> does not make a new one.\<close>

theorem stopped_pool_is_dead:
  assumes "runs (pool_moves parse) wp as wp'"
    and "\<forall>w\<in>set (wpWorkers wp). wDone w \<and> wStatus w \<noteq> WorkerConnected \<and> (\<forall>s\<in>set (sessions w). sPc s = Returned)"
  shows "(\<forall>l\<in>set as. snd l = []) \<and>
    map wMessageCount (wpWorkers wp') = map wMessageCount (wpWorkers wp) \<and>
    map wReconnectCount (wpWorkers wp') = map wReconnectCount (wpWorkers wp) \<and>
    (\<forall>w\<in>set (wpWorkers wp'). wStatus w \<noteq> WorkerConnected \<and>
       (\<forall>s\<in>set (sessions w). sPc s = AtCheck \<or> sPc s = Returned))"
proof -
  have "\<forall>w\<in>set (wpWorkers wp). quiet w" using assms(2) by (auto simp: quiet_def)
  with assms(1) have "(\<forall>l\<in>set as. snd l = []) \<and> (\<forall>w\<in>set (wpWorkers wp'). quiet w) \<and>
      map counters (wpWorkers wp') = map counters (wpWorkers wp)"
  proof (induction as arbitrary: wp)
    case (Cons l as)
    from Cons.prems(1) obtain wp1 where step: "pool_moves parse wp l wp1" and rest: "runs (pool_moves parse) wp1 as wp'"
      by auto
    from quiet_pool_step [OF step [unfolded pool_moves_def] Cons.prems(2)]
    have one: "\<forall>w\<in>set (wpWorkers wp1). quiet w" "snd l = []" "map counters (wpWorkers wp1) = map counters (wpWorkers wp)"
      by blast+
    from Cons.IH [OF rest one(1)] one(2,3) show ?case by (metis set_ConsD)
  qed simp
  then have q: "\<forall>l\<in>set as. snd l = []" "\<forall>w\<in>set (wpWorkers wp'). quiet w"
      "map counters (wpWorkers wp') = map counters (wpWorkers wp)" by simp_all
  have counts: "wMessageCount = fst \<circ> counters" "wReconnectCount = snd \<circ> counters" by (auto simp: counters_def)
  have "map wMessageCount (wpWorkers wp') = map wMessageCount (wpWorkers wp)"
      "map wReconnectCount (wpWorkers wp') = map wReconnectCount (wpWorkers wp)"
    unfolding counts map_map [symmetric] q(3) by (rule refl)+
  with q(1,2) show ?thesis by (simp add: quiet_def)
qed

definition stopped_gate_pool :: worker_pool where
  "stopped_gate_pool = stop_pool ((empty_pool ''gate'' ''spot'' [''BTCUSDT''] (get_exchange_worker_config ''gate''))
     \<lparr>wpWorkers := [gate_worker\<lparr>sessions := [\<lparr>sPc = Returned, sChan = [], sLoop = LoopEnded\<rparr>]\<rparr>]\<rparr>)"

theorem stopped_pool_is_dead_witness:
  "\<exists>wp'. runs (pool_moves (\<lambda>_ :: nat. Inr [])) stopped_gate_pool [(PStart, []), (PWorker 0 (WCheck 1), [])] wp' \<and>
     length (wpWorkers wp') = 1 \<and> (\<forall>w\<in>set (wpWorkers wp'). wStatus w \<noteq> WorkerConnected)"
proof -
  let ?wp1 = "start_pool stopped_gate_pool"
  let ?w1 = "wpWorkers ?wp1 ! 0"
  let ?wp2 = "?wp1\<lparr>wpWorkers := (wpWorkers ?wp1)[0 := check_cancelled 1 ?w1]\<rparr>"
  let ?parse = "\<lambda>_ :: nat. Inr [] :: parse_error + trade_event list"
  have pool: "length (wpWorkers ?wp1) = 1" "at_pc ?w1 1 AtCheck"
      "\<forall>w\<in>set (wpWorkers stopped_gate_pool). wDone w \<and> wStatus w \<noteq> WorkerConnected \<and> (\<forall>s\<in>set (sessions w). sPc s = Returned)"
    by (simp_all add: stopped_gate_pool_def stop_pool_def start_pool_def stop_worker_def start_worker_def at_pc_def)
  have "pool_step ?parse stopped_gate_pool PStart (?wp1, [])" by (rule ps_start)
  moreover have "worker_step ?parse ?w1 (WCheck 1) (check_cancelled 1 ?w1, [])" using pool(2) by (rule ws_check)
  then have "pool_step ?parse ?wp1 (PWorker 0 (WCheck 1)) (?wp2, [])"
    using ps_worker [of 0 ?wp1 "WCheck 1" ?parse "check_cancelled 1 ?w1" "[]"] pool(1) by (simp add: own_action_def)
  ultimately have run: "runs (pool_moves ?parse) stopped_gate_pool [(PStart, []), (PWorker 0 (WCheck 1), [])] ?wp2"
    by (auto simp: pool_moves_def)
  have "length (wpWorkers ?wp2) = 1" using pool(1) by simp
  with run stopped_pool_is_dead [OF run pool(3)] show ?thesis by blast
qed

end
