(* ===== verification/TaskManager.thy ===== *)
theory TaskManager
  imports CircularTradeBuffer Recovery Symbols QuestDB WorkerPool
begin

text \<open>
  The enhanced task manager of \<open>internal/websocket/enhanced_task_manager.go\<close>, the centre of the
  program: it builds the worker pools from the subscription lists, takes the trades their workers
  deliver into the trade buffer and the QuestDB pipeline, extracts a collection from the buffer when
  a listing is announced, and hands the pools to the recovery scheduler.

  The clock, the orders in which the map of pools is visited and the outcome of the connection to
  QuestDB are arguments.  \<open>AvgLatency\<close>, \<open>UptimePercent\<close> and \<open>MessagesPerSecond\<close> are never
  written by the code and are left out; \<open>ErrorRate\<close> is a rational number.
\<close>

section \<open>State\<close>

record exchange_config =
  ecEnabled :: bool
  ecSpotEndpoint :: string
  ecFuturesEndpoint :: string
  ecMaxSymbols :: int
  ecRetryCooldown :: int
  ecMaxRetries :: int
  ecConnectionTimeout :: int
  ecReadTimeout :: int
  ecWriteTimeout :: int

record exchanges_config =
  cfgBinance :: exchange_config
  cfgBybit :: exchange_config
  cfgOKX :: exchange_config
  cfgKuCoin :: exchange_config
  cfgPhemex :: exchange_config
  cfgGate :: exchange_config

record tm_exchange_stats =
  esExchange :: string
  esTotalWorkers :: int
  esActiveWorkers :: int
  esTotalSymbols :: int
  esTotalMessages :: int
  esErrorRate :: rat

record tm_stats =
  tmTotalPools :: int
  tmActivePools :: int
  tmTotalWorkers :: int
  tmActiveWorkers :: int
  tmTotalSymbols :: int
  tmTotalMessages :: int
  tmLastHealthCheck :: gotime
  tmLastCollection :: gotime
  tmCollectionActive :: bool
  tmExchangeStats :: "(string, tm_exchange_stats) gomap"

record 'f task_manager =
  tmExchangesConfig :: exchanges_config
  tmSymbolsConfig :: symbols_config
  tmBuffer :: trade_buffer
  tmQuest :: "'f questdb option"
  tmPools :: "(string, worker_pool) gomap"
  tmRecovery :: system
  tmCollection :: "collection_event option"
  tmTimer :: bool
  tmStats :: tm_stats
  tmRunning :: bool
  tmCancelled :: bool
  tmStored :: "collection_event list"
  tmListings :: "listing_event list"

definition zero_exchange_stats :: tm_exchange_stats where
  "zero_exchange_stats =
     \<lparr>esExchange = '''', esTotalWorkers = 0, esActiveWorkers = 0, esTotalSymbols = 0, esTotalMessages = 0,
      esErrorRate = 0\<rparr>"

definition exchange_stats_of :: "string \<Rightarrow> (string, tm_exchange_stats) gomap \<Rightarrow> tm_exchange_stats" where
  "exchange_stats_of ex m = (case mget m ex of None \<Rightarrow> zero_exchange_stats | Some es \<Rightarrow> es)"

definition upd_stats :: "(tm_stats \<Rightarrow> tm_stats) \<Rightarrow> 'f task_manager \<Rightarrow> 'f task_manager" where
  "upd_stats f tm = tm\<lparr>tmStats := f (tmStats tm)\<rparr>"

section \<open>Building the pools\<close>

definition tm_exchanges :: "string list" where
  "tm_exchanges = [''binance'', ''bybit'', ''okx'', ''kucoin'', ''phemex'', ''gate'']"

definition tm_markets :: "string list" where
  "tm_markets = [''spot'', ''futures'']"

definition exchange_config_of :: "exchanges_config \<Rightarrow> string \<Rightarrow> exchange_config option" where
  "exchange_config_of cfgs ex =
     (if ex = ''binance'' then Some (cfgBinance cfgs)
      else if ex = ''bybit'' then Some (cfgBybit cfgs)
      else if ex = ''okx'' then Some (cfgOKX cfgs)
      else if ex = ''kucoin'' then Some (cfgKuCoin cfgs)
      else if ex = ''phemex'' then Some (cfgPhemex cfgs)
      else if ex = ''gate'' then Some (cfgGate cfgs)
      else None)"

definition worker_config_for :: "exchanges_config \<Rightarrow> string \<Rightarrow> worker_config" where
  "worker_config_for cfgs ex =
     (case exchange_config_of cfgs ex of
        None \<Rightarrow> get_exchange_worker_config ex
      | Some c \<Rightarrow> mk_worker_config (ecMaxSymbols c) 10 (20 * second) (ecConnectionTimeout c) 5 (1 * second))"

definition symbols_for :: "string \<Rightarrow> string \<Rightarrow> symbols_config \<Rightarrow> string list" where
  "symbols_for ex mk sc =
     (case mget (SubscriptionLists sc) (exchange_key ex mk) of
        Some symbols \<Rightarrow> symbols
      | None \<Rightarrow> [''BTCUSDT'', ''ETHUSDT'', ''SOLUSDT''])"

text \<open>The callbacks of a pool exist before its workers look for them only in the case of
  \<open>OnTradeEvent\<close>, which is set again on every worker; \<open>OnError\<close> of the workers stays nil.\<close>

definition setup_pool_callbacks :: "worker_pool \<Rightarrow> worker_pool" where
  "setup_pool_callbacks pool =
     pool\<lparr>wpHasOnTrade := True, wpWorkers := map (\<lambda>w. w\<lparr>wHasOnTrade := True\<rparr>) (wpWorkers pool),
         wpHasOnError := True\<rparr>"

definition init_pool :: "gotime \<Rightarrow> string \<times> string \<Rightarrow> 'f task_manager \<times> int \<times> int \<Rightarrow> 'f task_manager \<times> int \<times> int" where
  "init_pool now key acc =
     (case (key, acc) of ((ex, mk), tm, totalSymbols, totalWorkers) \<Rightarrow>
        if exchange_config_of (tmExchangesConfig tm) ex = None then acc
        else
          (let poolID = exchange_key ex mk; symbols = symbols_for ex mk (tmSymbolsConfig tm) in
           if length symbols = 0 then acc
           else
             (let pool = setup_pool_callbacks
                    (new_worker_pool now ex mk symbols (worker_config_for (tmExchangesConfig tm) ex))
              in (tm\<lparr>tmPools := mput poolID pool (tmPools tm)\<rparr>,
                  totalSymbols + int (length symbols), totalWorkers + wpTotalWorkers pool))))"

definition initialize_worker_pools :: "gotime \<Rightarrow> 'f task_manager \<Rightarrow> 'f task_manager" where
  "initialize_worker_pools now tm =
     (case fold (init_pool now) (List.product tm_exchanges tm_markets) (tm, 0, 0) of
        (tm', totalSymbols, totalWorkers) \<Rightarrow>
          upd_stats (\<lambda>st. st\<lparr>tmTotalPools := int (length (tmPools tm')), tmTotalWorkers := totalWorkers,
            tmTotalSymbols := totalSymbols\<rparr>) tm')"

text \<open>\<open>quest\<close> is \<^const>\<open>None\<close> when QuestDB is disabled, otherwise its configuration and the error of
  the connection; \<open>os_read\<close>, \<open>dec\<close> and \<open>disk\<close> belong to the backup file.\<close>

definition new_task_manager ::
  "('d \<Rightarrow> 'd option) \<Rightarrow> ('d \<Rightarrow> backup_data option) \<Rightarrow> gotime \<Rightarrow> exchanges_config \<Rightarrow> symbols_config \<Rightarrow>
     (quest_config \<times> string option) option \<Rightarrow> 'd option \<Rightarrow> string + 'f task_manager \<times> 'd option" where
  "new_task_manager os_read dec now cfgs sc quest disk =
     (case load_from_backup os_read dec now (new_buffer now) disk of (e, b, disk') \<Rightarrow>
        case quest of
          Some (qcfg, Some err) \<Rightarrow> Inl (''failed to initialize QuestDB manager: '' @ err)
        | _ \<Rightarrow>
            Inr (initialize_worker_pools now
              \<lparr>tmExchangesConfig = cfgs, tmSymbolsConfig = sc, tmBuffer = b,
               tmQuest = map_option (\<lambda>q. new_questdb_manager (fst q)) quest, tmPools = [],
               tmRecovery = initial_system, tmCollection = None, tmTimer = False,
               tmStats = \<lparr>tmTotalPools = 0, tmActivePools = 0, tmTotalWorkers = 0, tmActiveWorkers = 0,
                 tmTotalSymbols = 0, tmTotalMessages = 0, tmLastHealthCheck = now, tmLastCollection = zero_time,
                 tmCollectionActive = False, tmExchangeStats = []\<rparr>,
               tmRunning = False, tmCancelled = False, tmStored = [], tmListings = []\<rparr>, disk'))"

section \<open>Trades\<close>

definition count_trade :: "string \<Rightarrow> tm_stats \<Rightarrow> tm_stats" where
  "count_trade ex st =
     (let es = (case mget (tmExchangeStats st) ex of
                  Some es \<Rightarrow> es | None \<Rightarrow> zero_exchange_stats\<lparr>esExchange := ex\<rparr>)
      in st\<lparr>tmTotalMessages := tmTotalMessages st + 1,
            tmExchangeStats := mput ex (es\<lparr>esTotalMessages := esTotalMessages es + 1\<rparr>) (tmExchangeStats st)\<rparr>)"

definition count_dropped :: "string \<Rightarrow> tm_stats \<Rightarrow> tm_stats" where
  "count_dropped ex st =
     (case mget (tmExchangeStats st) ex of
        None \<Rightarrow> st
      | Some es \<Rightarrow> st\<lparr>tmExchangeStats := mput ex (es\<lparr>esErrorRate := esErrorRate es + 1 / 1000\<rparr>) (tmExchangeStats st)\<rparr>)"

text \<open>\<open>storeTradeEvent\<close> sets the exchange and the market in the trade it is given, which is then the
  trade sent to QuestDB.\<close>

definition collect_live :: "string \<Rightarrow> string \<Rightarrow> trade_event \<Rightarrow> 'f task_manager \<Rightarrow> trade_event \<times> 'f task_manager" where
  "collect_live ex mk t tm =
     (case tmCollection tm of
        None \<Rightarrow> (t, tm)
      | Some ce \<Rightarrow>
          (let t' = t\<lparr>Exchange := ex, MarketType := mk\<rparr>
           in (t', tm\<lparr>tmCollection := Some (add_trade t' ce)\<rparr>)))"

definition buffer_trade :: "string \<Rightarrow> trade_event \<Rightarrow> 'f task_manager \<Rightarrow> 'f task_manager" where
  "buffer_trade key t tm =
     (case store_trade_event key t (tmBuffer tm) of
        Inl _ \<Rightarrow> tm
      | Inr b \<Rightarrow> tm\<lparr>tmBuffer := b\<rparr>)"

definition handle_trade_event :: "string \<Rightarrow> string \<Rightarrow> trade_event \<Rightarrow> 'f task_manager \<Rightarrow> 'f task_manager" where
  "handle_trade_event ex mk t tm =
     (case collect_live ex mk t (buffer_trade (exchange_key ex mk) t (upd_stats (count_trade ex) tm)) of
        (t', tm1) \<Rightarrow>
          (case tmQuest tm1 of
             None \<Rightarrow> tm1
           | Some qm \<Rightarrow>
               (case quest_add_trade t' qm of
                  (success, qm') \<Rightarrow>
                    (let tm2 = tm1\<lparr>tmQuest := Some qm'\<rparr>
                     in if success then tm2 else upd_stats (count_dropped ex) tm2))))"

text \<open>What the callbacks of a pool do in the task manager.\<close>

fun tm_callback :: "gotime \<Rightarrow> string \<Rightarrow> string \<Rightarrow> callback \<Rightarrow> 'f task_manager \<Rightarrow> 'f task_manager" where
  "tm_callback now ex mk (OnTrade t) tm = handle_trade_event ex mk t tm"
| "tm_callback now ex mk (OnErr e) tm =
     tm\<lparr>tmRecovery := (tmRecovery tm)\<lparr>sched := handle_error now ex mk (Some e) (sched (tmRecovery tm))\<rparr>\<rparr>"
| "tm_callback now ex mk (OnConnected i) tm =
     upd_stats (\<lambda>st. st\<lparr>tmActiveWorkers := tmActiveWorkers st + 1\<rparr>) tm"
| "tm_callback now ex mk (OnDisconnected i) tm =
     upd_stats (\<lambda>st. if tmActiveWorkers st > 0 then st\<lparr>tmActiveWorkers := tmActiveWorkers st - 1\<rparr> else st) tm"

section \<open>Starting and stopping\<close>

definition start_one :: "gotime \<Rightarrow> string \<times> worker_pool \<Rightarrow> 'f task_manager \<Rightarrow> 'f task_manager" where
  "start_one now entry tm =
     (case entry of (poolID, pool) \<Rightarrow>
        tm\<lparr>tmPools := mput poolID (start_pool pool) (tmPools tm),
           tmRecovery := (tmRecovery tm)
             \<lparr>sched := register_exchange now (wpExchange pool) (wpMarket pool) True (sched (tmRecovery tm))\<rparr>\<rparr>)"

definition start_task_manager ::
  "((string, worker_pool) gomap \<Rightarrow> (string, worker_pool) gomap) \<Rightarrow> gotime \<Rightarrow> 'f task_manager \<Rightarrow>
     string option \<times> 'f task_manager" where
  "start_task_manager ord now tm =
     (if tmRunning tm then (Some ''enhanced task manager is already running'', tm)
      else
        (let tm1 = tm\<lparr>tmRunning := True,
               tmRecovery := (tmRecovery tm)\<lparr>sched := start_scheduler (sched (tmRecovery tm))\<rparr>\<rparr>
         in (None, fold (start_one now) (ord (tmPools tm1)) tm1)))"

text \<open>\<open>Stop\<close> cancels the pipeline of QuestDB; its goroutines then end by their own steps.\<close>

definition stop_task_manager ::
  "bool \<Rightarrow> (backup_data \<Rightarrow> 'd option) \<Rightarrow> ('d \<Rightarrow> 'd option \<Rightarrow> bool \<times> 'd option) \<Rightarrow> gotime \<Rightarrow>
     'f task_manager \<Rightarrow> 'd option \<Rightarrow> 'f task_manager \<times> 'd option" where
  "stop_task_manager mkdir enc os_write now tm disk =
     (if \<not> tmRunning tm then (tm, disk)
      else
        (case close_buffer mkdir enc os_write now (tmBuffer tm) disk of (b, disk') \<Rightarrow>
           (tm\<lparr>tmRunning := False,
               tmRecovery := (tmRecovery tm)\<lparr>sched := stop_scheduler (sched (tmRecovery tm))\<rparr>,
               tmPools := map (\<lambda>(k, pool). (k, stop_pool pool)) (tmPools tm),
               tmBuffer := b, tmQuest := map_option quest_cancel (tmQuest tm), tmCancelled := True\<rparr>, disk')))"

text \<open>The reconnect callback of a pool: up to the pause, and after it.  No pool is ever removed, so the
  lookup of the first part decides for both.\<close>

definition reconnect_stop :: "string \<Rightarrow> 'f task_manager \<Rightarrow> string option \<times> 'f task_manager" where
  "reconnect_stop poolID tm =
     (case mget (tmPools tm) poolID of
        None \<Rightarrow> (Some (''worker pool not found for '' @ poolID), tm)
      | Some pool \<Rightarrow> (None, tm\<lparr>tmPools := mput poolID (stop_pool pool) (tmPools tm)\<rparr>))"

definition reconnect_start :: "string \<Rightarrow> 'f task_manager \<Rightarrow> string option \<times> 'f task_manager" where
  "reconnect_start poolID tm =
     (case mget (tmPools tm) poolID of
        None \<Rightarrow> (Some (''worker pool not found for '' @ poolID), tm)
      | Some pool \<Rightarrow> (None, tm\<lparr>tmPools := mput poolID (start_pool pool) (tmPools tm)\<rparr>))"

section \<open>Collecting a listing\<close>

definition collection_keys :: "string list" where
  "collection_keys =
     [''binance_spot'', ''binance_futures'', ''bybit_spot'', ''bybit_futures'', ''okx_spot'', ''okx_futures'',
      ''kucoin_spot'', ''kucoin_futures'', ''gate_spot'', ''gate_futures'', ''phemex_spot'', ''phemex_futures'']"

definition add_targets :: "string \<Rightarrow> trade_event list \<Rightarrow> collection_event \<Rightarrow> collection_event" where
  "add_targets key trades ce =
     fold (\<lambda>t ce. if is_target_symbol (ceSymbol ce) (Symbol t) then add_trade_from_buffer key t ce else ce) trades ce"

text \<open>A query that fails leaves the slices of its key as they are; one that never returned would be
  \<^const>\<open>None\<close>.\<close>

fun extract_all ::
  "(string \<Rightarrow> gotime) \<Rightarrow> gotime \<Rightarrow> gotime \<Rightarrow> string list \<Rightarrow> collection_event \<times> trade_buffer \<Rightarrow>
     (collection_event \<times> trade_buffer) option" where
  "extract_all clk startT endT [] (ce, b) = Some (ce, b)"
| "extract_all clk startT endT (key # ks) (ce, b) =
     (case get_trade_events (clk key) key startT endT b of
        None \<Rightarrow> None
      | Some (Inl e) \<Rightarrow> extract_all clk startT endT ks (ce, b)
      | Some (Inr (trades, b')) \<Rightarrow> extract_all clk startT endT ks (add_targets key trades ce, b'))"

text \<open>The title ends in the UTF-8 bytes of the Korean for "listing event".\<close>

definition listing_event_words :: string where
  "listing_event_words =
     [CHR 0x20, CHR 0xEC, CHR 0x83, CHR 0x81, CHR 0xEC, CHR 0x9E, CHR 0xA5, CHR 0x20, CHR 0xEC, CHR 0x9D,
      CHR 0xB4, CHR 0xEB, CHR 0xB2, CHR 0xA4, CHR 0xED, CHR 0x8A, CHR 0xB8]"

definition internal_listing :: "string \<Rightarrow> gotime \<Rightarrow> gotime \<Rightarrow> listing_event" where
  "internal_listing sm trig detected =
     \<lparr>evID = '''', evTitle = sm @ listing_event_words, evSymbol = sm, evMarkets = [''KRW''], AnnouncedAt = trig,
      DetectedAt = detected, NoticeURL = ''internal://pumpwatch'', evTriggerTime = trig, IsKRWListing = True\<rparr>"

definition start_data_collection ::
  "gotime \<Rightarrow> (string \<Rightarrow> gotime) \<Rightarrow> string \<Rightarrow> gotime \<Rightarrow> 'f task_manager \<Rightarrow> (string option \<times> 'f task_manager) option" where
  "start_data_collection now clk sm trig tm =
     (case tmCollection tm of
        Some ce \<Rightarrow> Some (Some (''data collection already active for symbol: '' @ ceSymbol ce), tm)
      | None \<Rightarrow>
          (case extract_all clk (trig + (- 20 * second)) (trig + 20 * second) collection_keys
                  (new_collection_event now sm trig, tmBuffer tm) of
             None \<Rightarrow> None
           | Some (ce, b) \<Rightarrow>
               Some (None, upd_stats (\<lambda>st. st\<lparr>tmLastCollection := now, tmCollectionActive := False\<rparr>)
                 (tm\<lparr>tmBuffer := b, tmStored := tmStored tm @ [ce],
                     tmListings := (if tmQuest tm = None then tmListings tm
                       else tmListings tm @ [internal_listing sm trig now])\<rparr>))))"

definition complete_data_collection :: "'f task_manager \<Rightarrow> 'f task_manager" where
  "complete_data_collection tm =
     upd_stats (\<lambda>st. st\<lparr>tmCollectionActive := False\<rparr>) (tm\<lparr>tmCollection := None, tmTimer := False\<rparr>)"

section \<open>Health\<close>

definition add_pool_health :: "worker_pool \<Rightarrow> tm_stats \<Rightarrow> tm_stats" where
  "add_pool_health pool st =
     (let ps = get_pool_stats pool;
          es = exchange_stats_of (wpExchange pool) (tmExchangeStats st)
      in st\<lparr>tmActivePools := (if psActiveWorkers ps > 0 then tmActivePools st + 1 else tmActivePools st),
            tmActiveWorkers := tmActiveWorkers st + psActiveWorkers ps,
            tmExchangeStats := mput (wpExchange pool)
              (es\<lparr>esExchange := wpExchange pool, esActiveWorkers := esActiveWorkers es + psActiveWorkers ps,
                  esTotalMessages := psTotalMessages ps\<rparr>) (tmExchangeStats st)\<rparr>)"

definition reset_health :: "gotime \<Rightarrow> tm_stats \<Rightarrow> tm_stats" where
  "reset_health now st =
     st\<lparr>tmLastHealthCheck := now, tmActivePools := 0, tmActiveWorkers := 0,
        tmExchangeStats := map (\<lambda>(k, es). (k, es\<lparr>esActiveWorkers := 0\<rparr>)) (tmExchangeStats st)\<rparr>"

definition perform_health_check ::
  "((string, worker_pool) gomap \<Rightarrow> (string, worker_pool) gomap) \<Rightarrow> gotime \<Rightarrow> 'f task_manager \<Rightarrow> 'f task_manager" where
  "perform_health_check ord now tm =
     upd_stats (\<lambda>st. fold (\<lambda>(k, pool). add_pool_health pool) (ord (tmPools tm)) (reset_health now st)) tm"

definition get_all_pool_stats :: "'f task_manager \<Rightarrow> (string, pool_stats) gomap" where
  "get_all_pool_stats tm = map (\<lambda>(k, pool). (k, get_pool_stats pool)) (tmPools tm)"

definition get_tm_recovery_stats :: "'f task_manager \<Rightarrow> recovery_stats" where
  "get_tm_recovery_stats tm = get_recovery_stats (sched (tmRecovery tm))"

section \<open>The running program\<close>

text \<open>The goroutines of the task manager and of the components it owns, interleaved: the workers of the
  pools, whose callbacks run in their goroutines, the cache refresh, the pipeline of QuestDB, the
  health check, the recovery scheduler with its reconnection goroutines, and the extraction asked for
  by the monitor.\<close>

datatype 'm tm_action =
    TStart gotime
  | TPool gotime string nat "'m worker_action"
  | TRefresh gotime
  | TQuest quest_action
  | THealth gotime
  | TCheck gotime
  | TReconnect recon
  | TReconnected gotime recon
  | TCollect gotime "string \<Rightarrow> gotime" string gotime
  | TComplete
  | TStop gotime

definition set_recovery :: "system \<Rightarrow> 'f task_manager \<Rightarrow> 'f task_manager" where
  "set_recovery s tm = tm\<lparr>tmRecovery := s\<rparr>"

inductive tm_step ::
  "('m \<Rightarrow> parse_error + trade_event list) \<Rightarrow> (string \<Rightarrow> 'f option) \<Rightarrow> 'f task_manager \<Rightarrow>
     'm tm_action \<times> callback list \<Rightarrow> 'f task_manager \<Rightarrow> bool"
  for parse pf where
  ts_start: "iter_order ord \<Longrightarrow> tm_step parse pf tm (TStart now, []) (snd (start_task_manager ord now tm))"
| ts_pool: "mget (tmPools tm) key = Some pool \<Longrightarrow> pool_step parse pool (PWorker k a) (pool', cbs) \<Longrightarrow>
    tm_step parse pf tm (TPool now key k a, cbs)
      (fold (tm_callback now (wpExchange pool) (wpMarket pool)) cbs (tm\<lparr>tmPools := mput key pool' (tmPools tm)\<rparr>))"
| ts_refresh: "update_hot_cache now (tmBuffer tm) = Some b \<Longrightarrow>
    tm_step parse pf tm (TRefresh now, []) (tm\<lparr>tmBuffer := b\<rparr>)"
| ts_quest: "tmQuest tm = Some qm \<Longrightarrow> quest_step pf qm qa qm' \<Longrightarrow> (\<forall>t. qa \<noteq> AddTrade t) \<Longrightarrow>
    tm_step parse pf tm (TQuest qa, []) (tm\<lparr>tmQuest := Some qm'\<rparr>)"
| ts_health: "iter_order ord \<Longrightarrow> tm_step parse pf tm (THealth now, []) (perform_health_check ord now tm)"
| ts_check: "tickerRunning (sched (tmRecovery tm)) \<Longrightarrow> recon_step (tmRecovery tm) (Check now) s' \<Longrightarrow>
    tm_step parse pf tm (TCheck now, []) (set_recovery s' tm)"
| ts_reconnect: "recon_step (tmRecovery tm) (Recovery.Begin g) s' \<Longrightarrow>
    tm_step parse pf tm (TReconnect g, []) (snd (reconnect_stop (fst g) (set_recovery s' tm)))"
| ts_reconnected: "reconnect_start (fst g) tm = (e, tm1) \<Longrightarrow> recon_step (tmRecovery tm1) (Finish now e g) s' \<Longrightarrow>
    tm_step parse pf tm (TReconnected now g, []) (set_recovery s' tm1)"
| ts_collect: "start_data_collection now clk sm trig tm = Some (e, tm') \<Longrightarrow>
    tm_step parse pf tm (TCollect now clk sm trig, []) tm'"
| ts_complete: "tm_step parse pf tm (TComplete, []) (complete_data_collection tm)"
| ts_stop: "stop_task_manager mkdir enc os_write now tm (disk :: string option) = (tm', disk') \<Longrightarrow>
    tm_step parse pf tm (TStop now, []) tm'"

inductive_cases tm_stepE: "tm_step parse pf tm l tm'"


end
