(* ===== verification/TaskManagerProps.thy ===== *)
theory TaskManagerProps
  imports TaskManager WorkerPoolProps ListingExtraction
begin

text \<open>
  Properties of the running program: every trade a worker counts is in the buffer under the key of its
  pool, a listing is extracted from it exactly, no error of a worker reaches the recovery system, and
  what a health check reports.
\<close>

section \<open>Callbacks of a worker\<close>

fun cb_trades :: "callback list \<Rightarrow> trade_event list" where
  "cb_trades [] = []"
| "cb_trades (OnTrade t # cbs) = t # cb_trades cbs"
| "cb_trades (_ # cbs) = cb_trades cbs"

definition no_errors :: "callback list \<Rightarrow> bool" where
  "no_errors cbs = (\<forall>e. OnErr e \<notin> set cbs)"

definition tm_worker_ok :: "worker \<Rightarrow> bool" where
  "tm_worker_ok w = (wHasOnTrade w \<and> \<not> wHasOnError w)"

lemma worker_step_callbacks:
  assumes "worker_step parse w a (w', cbs)" "tm_worker_ok w"
  shows "tm_worker_ok w' \<and> no_errors cbs \<and> wMessageCount w' = wMessageCount w + int (length (cb_trades cbs))"
  using assms(1)
proof (cases rule: worker_step.cases)
  case (ws_dial i env)
  then show ?thesis
    using assms(2)
    by (auto simp: dial_worker_def handle_connection_error_def tm_worker_ok_def session_defs no_errors_def
        split: prod.splits option.splits)
next
  case (ws_loop_turn i now r)
  then show ?thesis
    using assms(2) by (auto simp: turn_loop_def tm_worker_ok_def session_defs no_errors_def split: prod.splits)
next
  case (ws_receive i now)
  then show ?thesis
    using assms(2) by (auto simp: receive_trade_def tm_worker_ok_def session_defs no_errors_def split: list.splits)
next
  case (ws_limiter i now)
  then show ?thesis
    using assms(2) by (auto simp: ask_limiter_def tm_worker_ok_def session_defs no_errors_def split: prod.splits)
qed (use assms(2) in \<open>auto simp: start_worker_def stop_worker_def check_cancelled_def mark_connected_def
      connection_lost_def check_loop_def tm_worker_ok_def session_defs no_errors_def\<close>)

section \<open>Pools\<close>

definition pool_safe :: "string \<Rightarrow> worker_pool \<Rightarrow> bool" where
  "pool_safe k pool = (k = exchange_key (wpExchange pool) (wpMarket pool) \<and> (\<forall>w\<in>set (wpWorkers pool). tm_worker_ok w))"

lemma fold_pool_callback [simp]:
  "wpExchange (fold pool_callback cbs wp) = wpExchange wp" "wpMarket (fold pool_callback cbs wp) = wpMarket wp"
  "wpWorkers (fold pool_callback cbs wp) = wpWorkers wp"
proof (induction cbs arbitrary: wp)
  case (Cons c cbs)
  { case 1 show ?case using Cons(1) by (cases c) auto }
  { case 2 show ?case using Cons(2) by (cases c) auto }
  { case 3 show ?case using Cons(3) by (cases c) auto }
qed simp_all

lemma sum_list_update_diff:
  fixes f :: "'a \<Rightarrow> int"
  shows "i < length xs \<Longrightarrow> sum_list (map f (xs[i := x])) = sum_list (map f xs) + f x - f (xs ! i)"
proof (induction xs arbitrary: i)
  case (Cons a xs)
  then show ?case by (cases i) auto
qed simp

lemma pool_worker_step:
  assumes "pool_step parse pool (PWorker k a) (pool', cbs)" "pool_safe key pool"
  shows "pool_safe key pool' \<and> no_errors cbs \<and> wpExchange pool' = wpExchange pool \<and> wpMarket pool' = wpMarket pool \<and>
    pool_total_messages pool' = pool_total_messages pool + int (length (cb_trades cbs))"
  using assms(1)
proof (cases rule: pool_step.cases)
  case (ps_worker w')
  then have ok: "tm_worker_ok (wpWorkers pool ! k)" using assms(2) by (auto simp: pool_safe_def)
  from worker_step_callbacks [OF ps_worker(4) ok] ps_worker assms(2) show ?thesis
    by (auto simp: pool_safe_def pool_total_messages_def sum_list_update_diff dest: in_update)
qed

lemma start_stop_pool:
  "pool_safe k pool \<Longrightarrow> pool_safe k (start_pool pool) \<and> pool_safe k (stop_pool pool)"
  "pool_total_messages (start_pool pool) = pool_total_messages pool"
  "pool_total_messages (stop_pool pool) = pool_total_messages pool"
  by (auto simp: pool_safe_def start_pool_def stop_pool_def tm_worker_ok_def start_worker_def stop_worker_def
      pool_total_messages_def comp_def)

lemma map_filter_set: "y \<in> set (List.map_filter f xs) \<Longrightarrow> \<exists>x\<in>set xs. f x = Some y"
  by (induction xs) (auto simp: List.map_filter_simps split: option.splits)

lemma new_pool_safe:
  "pool_safe (exchange_key ex mk) (setup_pool_callbacks (new_worker_pool now ex mk syms config)) \<and>
   pool_total_messages (setup_pool_callbacks (new_worker_pool now ex mk syms config)) = 0"
proof -
  have w: "\<not> wHasOnError w \<and> wMessageCount w = 0" if "w \<in> set (wpWorkers (new_worker_pool now ex mk syms config))" for w
  proof -
    from that obtain i where "create_worker now i (empty_pool ex mk syms config) = Some w"
      by (auto simp: new_worker_pool_eq dest: map_filter_set)
    then show ?thesis by (auto simp: create_worker_def Let_def empty_pool_def split: if_splits)
  qed
  moreover have "sum_list (map (wMessageCount \<circ> wHasOnTrade_update (\<lambda>_. True)) ws) = 0"
    if "\<forall>w\<in>set ws. wMessageCount w = 0" for ws
    using that by (induction ws) auto
  moreover have "wpExchange (new_worker_pool now ex mk syms config) = ex" "wpMarket (new_worker_pool now ex mk syms config) = mk"
    by (simp_all add: new_worker_pool_eq empty_pool_def)
  ultimately show ?thesis
    by (auto simp: pool_safe_def setup_pool_callbacks_def tm_worker_ok_def pool_total_messages_def)
qed

section \<open>The invariant of the task manager\<close>

definition recovery_quiet :: "system \<Rightarrow> bool" where
  "recovery_quiet s = (spawned s = [] \<and> inflight s = [] \<and> (\<forall>(k, m)\<in>set (exchanges (sched s)). State m = StateHealthy))"

definition tm_safe :: "'f task_manager \<Rightarrow> bool" where
  "tm_safe tm = (wf_map (tmPools tm) \<and> (\<forall>(k, pool)\<in>set (tmPools tm). pool_safe k pool) \<and>
     recovery_quiet (tmRecovery tm) \<and> tmCollection tm = None)"

text \<open>\<open>hist\<close> lists the trades the workers delivered, with the key of their pool.\<close>

definition tm_logged :: "(string \<times> trade_event) list \<Rightarrow> 'f task_manager \<Rightarrow> bool" where
  "tm_logged hist tm = (ctb_run hist (tmBuffer tm) \<and> tmTotalMessages (tmStats tm) = int (length hist) \<and>
     (\<forall>(k, pool)\<in>set (tmPools tm). int (length (log_of hist k)) = pool_total_messages pool))"

lemma set_mput: "(k', v') \<in> set (mput k v m) \<Longrightarrow> (k' = k \<and> v' = v) \<or> (k', v') \<in> set m"
  by (induction m) (auto split: if_splits)

lemma set_mput_wf: "wf_map m \<Longrightarrow> (k', v') \<in> set (mput k v m) \<Longrightarrow> (k' = k \<and> v' = v) \<or> (k' \<noteq> k \<and> (k', v') \<in> set m)"
proof (induction m)
  case (Cons e m)
  then show ?case by (cases e) (force simp: wf_map_def split: if_splits)
qed simp

lemma upd_stats_simps [simp]:
  "tmBuffer (upd_stats f tm) = tmBuffer tm" "tmPools (upd_stats f tm) = tmPools tm"
  "tmRecovery (upd_stats f tm) = tmRecovery tm" "tmCollection (upd_stats f tm) = tmCollection tm"
  "tmStats (upd_stats f tm) = f (tmStats tm)" "tmQuest (upd_stats f tm) = tmQuest tm"
  by (simp_all add: upd_stats_def)

lemma count_simps [simp]:
  "tmTotalMessages (count_trade ex st) = tmTotalMessages st + 1"
  "tmTotalMessages (count_dropped ex st) = tmTotalMessages st"
  by (simp_all add: count_trade_def count_dropped_def Let_def split: option.split)

lemma buffer_trade_simps [simp]:
  "tmPools (buffer_trade key t tm) = tmPools tm" "tmRecovery (buffer_trade key t tm) = tmRecovery tm"
  "tmCollection (buffer_trade key t tm) = tmCollection tm" "tmStats (buffer_trade key t tm) = tmStats tm"
  "tmQuest (buffer_trade key t tm) = tmQuest tm"
  by (simp_all add: buffer_trade_def split: sum.split)

lemma handle_trade_frame:
  assumes "tmCollection tm = None"
  shows "tmPools (handle_trade_event ex mk t tm) = tmPools tm" "tmRecovery (handle_trade_event ex mk t tm) = tmRecovery tm"
    "tmCollection (handle_trade_event ex mk t tm) = None"
    "tmBuffer (handle_trade_event ex mk t tm) = tmBuffer (buffer_trade (exchange_key ex mk) t tm)"
    "tmTotalMessages (tmStats (handle_trade_event ex mk t tm)) = tmTotalMessages (tmStats tm) + 1"
  using assms
  by (simp_all add: handle_trade_event_def collect_live_def Let_def buffer_trade_def
      split: option.split prod.split sum.split if_split)

lemma buffer_trade_run:
  assumes "ctb_run hist (tmBuffer tm)"
  shows "ctb_run (hist @ [(key, t)]) (tmBuffer (buffer_trade key t tm))"
proof -
  have "\<not> closed (tmBuffer tm)" using ctb_run_inv [OF assms] by (simp add: run_inv_def)
  then have "store_trade_event key t (tmBuffer tm) = Inr (direct_write key t (tmBuffer tm))"
    by (simp add: store_trade_event_def)
  with run_store [OF assms this] show ?thesis by (simp add: buffer_trade_def)
qed

lemma callbacks_frame:
  assumes "no_errors cbs" "tmCollection tm = None"
  shows "tmPools (fold (tm_callback now ex mk) cbs tm) = tmPools tm \<and>
    tmRecovery (fold (tm_callback now ex mk) cbs tm) = tmRecovery tm \<and>
    tmCollection (fold (tm_callback now ex mk) cbs tm) = None \<and>
    tmTotalMessages (tmStats (fold (tm_callback now ex mk) cbs tm)) = tmTotalMessages (tmStats tm) + int (length (cb_trades cbs))"
  using assms
proof (induction cbs arbitrary: tm)
  case (Cons c cbs)
  have rest: "no_errors cbs" and c: "\<forall>e. c \<noteq> OnErr e" using Cons.prems(1) by (auto simp: no_errors_def)
  have "tmPools (tm_callback now ex mk c tm) = tmPools tm" "tmRecovery (tm_callback now ex mk c tm) = tmRecovery tm"
      "tmCollection (tm_callback now ex mk c tm) = None"
      "tmTotalMessages (tmStats (tm_callback now ex mk c tm)) = tmTotalMessages (tmStats tm) + int (length (cb_trades [c]))"
    using c Cons.prems(2) by (cases c; simp add: handle_trade_frame)+
  moreover have "length (cb_trades (c # cbs)) = length (cb_trades [c]) + length (cb_trades cbs)" by (cases c) simp_all
  ultimately show ?case using Cons.IH [OF rest] by simp
qed simp

lemma callbacks_run:
  assumes "no_errors cbs" "tmCollection tm = None" "ctb_run hist (tmBuffer tm)"
  shows "ctb_run (hist @ map (Pair (exchange_key ex mk)) (cb_trades cbs)) (tmBuffer (fold (tm_callback now ex mk) cbs tm))"
  using assms
proof (induction cbs arbitrary: tm hist)
  case (Cons c cbs)
  have rest: "no_errors cbs" using Cons.prems(1) by (auto simp: no_errors_def)
  have none: "tmCollection (tm_callback now ex mk c tm) = None"
    using Cons.prems(1,2) by (cases c) (auto simp: handle_trade_frame no_errors_def)
  have run: "ctb_run (hist @ map (Pair (exchange_key ex mk)) (cb_trades [c])) (tmBuffer (tm_callback now ex mk c tm))"
    using Cons.prems by (cases c) (auto simp: handle_trade_frame buffer_trade_run no_errors_def)
  have "cb_trades (c # cbs) = cb_trades [c] @ cb_trades cbs" by (cases c) simp_all
  with Cons.IH [OF rest none run] show ?case by simp
qed simp


section \<open>Steps\<close>

lemma quiet_check:
  assumes "recovery_quiet s" "recon_step s (Check now) s'"
  shows "recovery_quiet s'"
  using assms(2)
proof cases
  case chk
  have "check_recovery_opportunities now (sched s) = []"
    using assms(1) by (auto simp: check_recovery_opportunities_def recovery_quiet_def filter_empty_conv)
  with chk assms(1) show ?thesis by (simp add: recovery_quiet_def)
qed

lemma quiet_register: "recovery_quiet s \<Longrightarrow> recovery_quiet (s\<lparr>sched := register_exchange now ex mk cb (sched s)\<rparr>)"
  by (auto simp: recovery_quiet_def register_exchange_def Let_def dest!: set_mput)

lemma start_one_safe:
  assumes "tm_safe tm" "pool_safe k pool"
  shows "tm_safe (start_one now (k, pool) tm)"
  using assms quiet_register [of "tmRecovery tm"]
  by (auto simp: tm_safe_def start_one_def start_stop_pool dest!: set_mput)

lemma fold_start_safe:
  "tm_safe tm \<Longrightarrow> (\<forall>(k, pool)\<in>set es. pool_safe k pool) \<Longrightarrow> tm_safe (fold (start_one now) es tm)"
  by (induction es arbitrary: tm) (auto simp: start_one_safe)

lemma start_manager_safe:
  assumes "tm_safe tm" "iter_order ord"
  shows "tm_safe (snd (start_task_manager ord now tm))"
proof -
  let ?tm = "tm\<lparr>tmRunning := True, tmRecovery := (tmRecovery tm)\<lparr>sched := start_scheduler (sched (tmRecovery tm))\<rparr>\<rparr>"
  have "set (ord (tmPools tm)) = set (tmPools tm)" using assms(2) unfolding iter_order_def by (metis mset_eq_setD)
  moreover have "tm_safe ?tm" using assms(1) by (simp add: tm_safe_def recovery_quiet_def start_scheduler_def)
  ultimately show ?thesis
    using assms(1) fold_start_safe [of ?tm "ord (tmPools tm)" now] by (auto simp: start_task_manager_def Let_def tm_safe_def)
qed

lemma put_pool_safe:
  assumes "tm_safe tm" "pool_safe k pool"
  shows "tm_safe (tm\<lparr>tmPools := mput k pool (tmPools tm)\<rparr>)"
  using assms by (auto simp: tm_safe_def dest!: set_mput)

lemma extract_all_buffer:
  "ctb_run hist b \<Longrightarrow> extract_all clk s e ks (ce, b) = Some (ce', b') \<Longrightarrow> ctb_run hist b'"
proof (induction ks arbitrary: ce b)
  case (Cons k ks)
  then show ?case by (auto split: option.splits sum.splits intro: run_query)
qed simp

lemma collect_frame:
  assumes "start_data_collection now clk sm trig tm = Some (e, tm')" "tmCollection tm = None"
  shows "tmPools tm' = tmPools tm \<and> tmRecovery tm' = tmRecovery tm \<and> tmCollection tm' = None \<and>
    tmTotalMessages (tmStats tm') = tmTotalMessages (tmStats tm) \<and>
    (ctb_run hist (tmBuffer tm) \<longrightarrow> ctb_run hist (tmBuffer tm'))"
  using assms by (auto simp: start_data_collection_def split: option.splits dest: extract_all_buffer)

lemma health_frame [simp]:
  "tmPools (perform_health_check ord now tm) = tmPools tm" "tmRecovery (perform_health_check ord now tm) = tmRecovery tm"
  "tmCollection (perform_health_check ord now tm) = tmCollection tm" "tmBuffer (perform_health_check ord now tm) = tmBuffer tm"
  by (simp_all add: perform_health_check_def)

lemma fold_health_messages:
  "tmTotalMessages (fold (\<lambda>(k, pool). add_pool_health pool) es st) = tmTotalMessages st"
  by (induction es arbitrary: st) (auto simp: add_pool_health_def Let_def)

lemma map_pools_wf: "wf_map (map (\<lambda>(k, p). (k, f p)) m) = wf_map m"
  by (simp add: wf_map_def comp_def case_prod_beta)

lemma tm_step_safe:
  assumes "tm_step parse pf tm l tm'" "tm_safe tm"
  shows "tm_safe tm'"
  using assms(1)
proof (cases rule: tm_step.cases)
  case (ts_pool key pool k a pool' cbs now)
  have safe: "pool_safe key pool" using assms(2) ts_pool(3) by (auto simp: tm_safe_def dest!: map_of_SomeD)
  from pool_worker_step [OF ts_pool(4) safe]
  have p: "pool_safe key pool'" "no_errors cbs" by simp_all
  let ?tm = "tm\<lparr>tmPools := mput key pool' (tmPools tm)\<rparr>"
  have "tm_safe ?tm" using put_pool_safe [OF assms(2) p(1)] .
  with callbacks_frame [OF p(2), of ?tm now "wpExchange pool" "wpMarket pool"] ts_pool(2) assms(2)
  show ?thesis by (simp add: tm_safe_def)
next
  case (ts_start ord now)
  then show ?thesis using start_manager_safe [OF assms(2)] by simp
next
  case (ts_check now s')
  then show ?thesis using quiet_check [of "tmRecovery tm" now s'] assms(2) by (simp add: tm_safe_def set_recovery_def)
next
  case (ts_reconnect g s')
  then show ?thesis using assms(2) by (auto simp: tm_safe_def recovery_quiet_def elim: recon_step.cases)
next
  case (ts_reconnected g e tm1 now s')
  then have "tmRecovery tm1 = tmRecovery tm" by (auto simp: reconnect_start_def split: option.splits)
  with ts_reconnected(4) assms(2) show ?thesis by (auto simp: tm_safe_def recovery_quiet_def elim: recon_step.cases)
next
  case (ts_collect now clk sm trig e)
  then show ?thesis using collect_frame [OF ts_collect(2)] assms(2) by (simp add: tm_safe_def)
next
  case (ts_stop mkdir enc os_write now disk disk')
  then show ?thesis
    using assms(2)
    by (auto simp: stop_task_manager_def tm_safe_def recovery_quiet_def stop_scheduler_def map_pools_wf start_stop_pool
        split: prod.splits if_splits)
qed (use assms(2) in \<open>auto simp: tm_safe_def complete_data_collection_def\<close>)


text \<open>The trades a step delivers, and those of a run.\<close>

fun step_trades :: "'m tm_action \<times> callback list \<Rightarrow> (string \<times> trade_event) list" where
  "step_trades (TPool now key k a, cbs) = map (Pair key) (cb_trades cbs)"
| "step_trades _ = []"

definition delivered :: "('m tm_action \<times> callback list) list \<Rightarrow> (string \<times> trade_event) list" where
  "delivered as = concat (map step_trades as)"

text \<open>The clock of a cache refresh lies between 2001 and 2262, and the manager is not stopped.\<close>

fun live_label :: "'m tm_action \<times> callback list \<Rightarrow> bool" where
  "live_label (TRefresh now, cbs) = sane_clock now"
| "live_label (TStop now, cbs) = False"
| "live_label _ = True"

lemma log_of_append: "log_of (h @ h') k = log_of h k @ log_of h' k"
  by (simp add: log_of_def)

lemma log_of_pairs: "log_of (map (Pair k') ts) k = (if k' = k then ts else [])"
  by (auto simp: log_of_def comp_def)

lemma start_one_logged:
  assumes "tm_logged hist tm" "int (length (log_of hist k)) = pool_total_messages pool"
  shows "tm_logged hist (start_one now (k, pool) tm)"
  using assms by (auto simp: tm_logged_def start_one_def start_stop_pool dest!: set_mput)

lemma fold_start_logged:
  "tm_logged hist tm \<Longrightarrow> (\<forall>(k, pool)\<in>set es. int (length (log_of hist k)) = pool_total_messages pool) \<Longrightarrow>
     tm_logged hist (fold (start_one now) es tm)"
  by (induction es arbitrary: tm) (auto simp: start_one_logged)

lemma start_manager_logged:
  assumes "tm_logged hist tm" "iter_order ord"
  shows "tm_logged hist (snd (start_task_manager ord now tm))"
proof -
  let ?tm = "tm\<lparr>tmRunning := True, tmRecovery := (tmRecovery tm)\<lparr>sched := start_scheduler (sched (tmRecovery tm))\<rparr>\<rparr>"
  have "set (ord (tmPools tm)) = set (tmPools tm)" using assms(2) unfolding iter_order_def by (metis mset_eq_setD)
  moreover have "tm_logged hist ?tm" using assms(1) by (simp add: tm_logged_def)
  ultimately show ?thesis
    using assms(1) fold_start_logged [of hist ?tm "ord (tmPools tm)" now]
    by (auto simp: start_task_manager_def Let_def tm_logged_def)
qed

lemma pool_step_logged:
  assumes "tm_logged hist tm" "tm_safe tm" "mget (tmPools tm) key = Some pool"
    and "pool_step parse pool (PWorker k a) (pool', cbs)"
  shows "tm_logged (hist @ map (Pair key) (cb_trades cbs))
    (fold (tm_callback now (wpExchange pool) (wpMarket pool)) cbs (tm\<lparr>tmPools := mput key pool' (tmPools tm)\<rparr>))"
proof -
  have mem: "(key, pool) \<in> set (tmPools tm)" using assms(3) by (rule map_of_SomeD)
  with assms(2) have safe: "pool_safe key pool" by (auto simp: tm_safe_def)
  from pool_worker_step [OF assms(4) safe]
  have p: "no_errors cbs" "pool_total_messages pool' = pool_total_messages pool + int (length (cb_trades cbs))" by simp_all
  let ?tm = "tm\<lparr>tmPools := mput key pool' (tmPools tm)\<rparr>"
  have none: "tmCollection ?tm = None" and run: "ctb_run hist (tmBuffer ?tm)"
    using assms(1,2) by (simp_all add: tm_safe_def tm_logged_def)
  have wf: "wf_map (tmPools tm)" using assms(2) by (simp add: tm_safe_def)
  have "int (length (log_of (hist @ map (Pair key) (cb_trades cbs)) k')) = pool_total_messages q"
    if "(k', q) \<in> set (mput key pool' (tmPools tm))" for k' q
    using set_mput_wf [OF wf that] mem assms(1) p(2)
    by (auto simp: tm_logged_def log_of_append log_of_pairs)
  with callbacks_frame [OF p(1) none, of now "wpExchange pool" "wpMarket pool"]
    callbacks_run [OF p(1) none run, of "wpExchange pool" "wpMarket pool" now] assms(1) safe
  show ?thesis by (auto simp: tm_logged_def pool_safe_def)
qed

lemma tm_step_logged:
  assumes "tm_step parse pf tm l tm'" "tm_safe tm" "tm_logged hist tm" "live_label l"
  shows "tm_logged (hist @ step_trades l) tm'"
  using assms(1)
proof (cases rule: tm_step.cases)
  case (ts_pool key pool k a pool' cbs now)
  then show ?thesis using pool_step_logged [OF assms(3,2)] by simp
next
  case (ts_start ord now)
  then show ?thesis using start_manager_logged [OF assms(3)] by simp
next
  case (ts_refresh now b)
  then have "sane_clock now" using assms(4) by simp
  with ts_refresh assms(3) show ?thesis by (auto simp: tm_logged_def intro: run_refresh)
next
  case (ts_collect now clk sm trig e)
  then show ?thesis using collect_frame [OF ts_collect(2), of hist] assms(2,3) by (simp add: tm_logged_def tm_safe_def)
next
  case (ts_health ord now)
  then show ?thesis using assms(3)
    by (simp add: tm_logged_def) (simp add: perform_health_check_def fold_health_messages reset_health_def)
next
  case (ts_reconnect g s')
  then show ?thesis
    using assms(2) by (auto simp: tm_safe_def recovery_quiet_def elim: recon_step.cases)
next
  case (ts_reconnected g e tm1 now s')
  then have "tmRecovery tm1 = tmRecovery tm" by (auto simp: reconnect_start_def split: option.splits)
  with ts_reconnected(4) assms(2) show ?thesis by (auto simp: tm_safe_def recovery_quiet_def elim: recon_step.cases)
qed (use assms(3,4) in \<open>auto simp: tm_logged_def complete_data_collection_def set_recovery_def\<close>)

lemma tm_runs:
  assumes "runs (tm_step parse pf) tm as tm'" "tm_safe tm"
  shows "tm_safe tm'" "tm_logged hist tm \<Longrightarrow> (\<forall>l\<in>set as. live_label l) \<Longrightarrow> tm_logged (hist @ delivered as) tm'"
proof -
  show "tm_safe tm'" using assms by (rule runs_invariant) (rule tm_step_safe)
  show "tm_logged (hist @ delivered as) tm'" if "tm_logged hist tm" "\<forall>l\<in>set as. live_label l"
    using assms that
  proof (induction as arbitrary: tm hist)
    case (Cons l as)
    from Cons.prems(1) obtain tm1 where s: "tm_step parse pf tm l tm1" and rest: "runs (tm_step parse pf) tm1 as tm'" by auto
    have "tm_safe tm1" by (rule tm_step_safe [OF s Cons.prems(2)])
    moreover have "tm_logged (hist @ step_trades l) tm1" using tm_step_logged [OF s Cons.prems(2,3)] Cons.prems(4) by simp
    ultimately show ?case using Cons.IH [OF rest, of "hist @ step_trades l"] Cons.prems(4) by (simp add: delivered_def)
  qed (simp add: delivered_def)
qed

section \<open>The initial state\<close>

lemma init_pool_safe:
  assumes "tm_safe tm" "\<forall>(k, pool)\<in>set (tmPools tm). pool_total_messages pool = 0"
    "init_pool now key (tm, a, b) = (tm', a', b')"
  shows "tm_safe tm' \<and> (\<forall>(k, pool)\<in>set (tmPools tm'). pool_total_messages pool = 0) \<and>
    tmBuffer tm' = tmBuffer tm \<and> tmTotalMessages (tmStats tm') = tmTotalMessages (tmStats tm)"
  using assms put_pool_safe [OF assms(1)] new_pool_safe
  by (auto simp: init_pool_def Let_def split: if_splits prod.splits dest!: set_mput)

lemma fold_init_safe:
  "tm_safe tm \<Longrightarrow> (\<forall>(k, pool)\<in>set (tmPools tm). pool_total_messages pool = 0) \<Longrightarrow>
     fold (init_pool now) keys (tm, a, b) = (tm', a', b') \<Longrightarrow>
     tm_safe tm' \<and> (\<forall>(k, pool)\<in>set (tmPools tm'). pool_total_messages pool = 0) \<and>
     tmBuffer tm' = tmBuffer tm \<and> tmTotalMessages (tmStats tm') = tmTotalMessages (tmStats tm)"
proof (induction keys arbitrary: tm a b)
  case (Cons key keys)
  obtain tm1 a1 b1 where s: "init_pool now key (tm, a, b) = (tm1, a1, b1)" by (metis prod_cases3)
  from init_pool_safe [OF Cons.prems(1,2) s] Cons.IH [of tm1 a1 b1] Cons.prems(3) s show ?case by simp
qed simp

lemma new_manager_safe:
  fixes tm :: "'f task_manager"
  assumes "new_task_manager os_read dec now cfgs sc quest disk = Inr (tm, disk')"
  shows "tm_safe tm" "disk = None \<Longrightarrow> tm_logged [] tm"
proof -
  let ?tm = "\<lambda>b. \<lparr>tmExchangesConfig = cfgs, tmSymbolsConfig = sc, tmBuffer = b,
     tmQuest = map_option (\<lambda>q. new_questdb_manager (fst q)) quest, tmPools = [],
     tmRecovery = initial_system, tmCollection = None, tmTimer = False,
     tmStats = \<lparr>tmTotalPools = 0, tmActivePools = 0, tmTotalWorkers = 0, tmActiveWorkers = 0,
       tmTotalSymbols = 0, tmTotalMessages = 0, tmLastHealthCheck = now, tmLastCollection = zero_time,
       tmCollectionActive = False, tmExchangeStats = []\<rparr>,
     tmRunning = False, tmCancelled = False, tmStored = [], tmListings = []\<rparr> :: 'f task_manager"
  obtain b where b: "tm = initialize_worker_pools now (?tm b)" "disk = None \<Longrightarrow> b = new_buffer now"
    using assms by (auto simp: new_task_manager_def load_from_backup_def split: prod.splits option.splits if_splits)
  have i: "tm_safe (?tm b)"
    by (simp add: tm_safe_def recovery_quiet_def initial_system_def new_scheduler_def)
  obtain tm1 x y where f: "fold (init_pool now) (List.product tm_exchanges tm_markets) (?tm b, 0, 0) = (tm1, x, y)"
    by (metis prod_cases3)
  from fold_init_safe [OF i _ f]
  have r: "tm_safe tm1" "\<forall>(k, pool)\<in>set (tmPools tm1). pool_total_messages pool = 0" "tmBuffer tm1 = b"
      "tmTotalMessages (tmStats tm1) = 0" by simp_all
  have tm: "tm = upd_stats (\<lambda>st. st\<lparr>tmTotalPools := int (length (tmPools tm1)), tmTotalWorkers := y, tmTotalSymbols := x\<rparr>) tm1"
    using b(1) f by (simp add: initialize_worker_pools_def)
  with r(1) show "tm_safe tm" by (simp add: tm_safe_def)
  show "tm_logged [] tm" if "disk = None"
    using r tm b(2) [OF that] by (auto simp: tm_logged_def log_of_def run_new)
qed


section \<open>Properties\<close>

lemma runs_labels:
  assumes "runs step s as s'" "I s"
    and "\<And>s a s1. step s a s1 \<Longrightarrow> I s \<Longrightarrow> I s1 \<and> Q a"
  shows "\<forall>a\<in>set as. Q a"
  using assms by (induction as arbitrary: s) auto

lemma no_reconnect_step:
  assumes "tm_step parse pf tm l tm'" "tm_safe tm"
  shows "fst l \<noteq> TReconnect g"
  using assms by (cases rule: tm_step.cases) (auto simp: tm_safe_def recovery_quiet_def elim: recon_step.cases)

text \<open>C4. No error of a worker ever reaches the recovery system.  In every run of the program, over any
  network and any interleaving, each exchange registered with the scheduler stays healthy, no
  reconnection goroutine is ever spawned and no pool is ever reconnected: the workers copy the nil
  \<open>OnError\<close> of their pool before the task manager sets it.\<close>

theorem recovery_never_triggered:
  assumes "new_task_manager os_read dec now cfgs sc quest disk = Inr (tm, disk')"
    and "runs (tm_step parse pf) tm as tm'"
  shows "(\<forall>k m. mget (exchanges (sched (tmRecovery tm'))) k = Some m \<longrightarrow> State m = StateHealthy) \<and>
    spawned (tmRecovery tm') = [] \<and> (\<forall>l\<in>set as. \<forall>g. fst l \<noteq> TReconnect g)"
proof -
  have safe: "tm_safe tm" by (rule new_manager_safe(1) [OF assms(1)])
  have "tm_safe tm'" by (rule tm_runs(1) [OF assms(2) safe])
  moreover have "\<forall>l\<in>set as. \<forall>g. fst l \<noteq> TReconnect g"
    using assms(2) safe by (rule runs_labels) (simp add: tm_step_safe no_reconnect_step)
  ultimately show ?thesis by (auto simp: tm_safe_def recovery_quiet_def dest: map_of_SomeD)
qed


lemma add_targets_slice:
  assumes "k \<in> set slice_keys"
  shows "slice_of k (add_targets key trades ce) =
      slice_of k ce @ (if k = key then filter (\<lambda>t. is_target_symbol (ceSymbol ce) (Symbol t)) trades else []) \<and>
    ceSymbol (add_targets key trades ce) = ceSymbol ce \<and> ceTriggerTime (add_targets key trades ce) = ceTriggerTime ce"
  using assms
  by (induction trades arbitrary: ce) (auto simp: add_targets_def slice_of_from_buffer from_buffer_meta)

lemma extract_all_spec:
  assumes "ctb_run hist b" "distinct ks" "set ks \<subseteq> set slice_keys"
    and "1000000000000000 < s" "s \<le> e" "e < 2 ^ 63" "e div second - s div second < bucket_count"
    and "\<forall>k \<in> set ks. get_from_hot_cache (clk k) k s e b = None"
  shows "\<exists>ce' b'. extract_all clk s e ks (ce, b) = Some (ce', b') \<and> ceSymbol ce' = ceSymbol ce \<and> ceTriggerTime ce' = ceTriggerTime ce \<and>
    (\<forall>k \<in> set slice_keys. slice_of k ce' = slice_of k ce @
       (if k \<in> set ks then filter (\<lambda>t. is_target_symbol (ceSymbol ce) (Symbol t)) (range_trades hist k s e) else []))"
  using assms(1-3,8)
proof (induction ks arbitrary: b ce)
  case (Cons key ks)
  let ?tr = "range_trades hist key s e"
  let ?ce = "add_targets key ?tr ce"
  have q: "get_trade_events (clk key) key s e b = Some (Inr (?tr, hit_cold b))"
    using cold_query [OF Cons.prems(1) assms(4-7)] Cons.prems(4) by (simp add: range_trades_def)
  have hot: "\<forall>k \<in> set ks. get_from_hot_cache (clk k) k s e (hit_cold b) = None"
    using Cons.prems(4) hot_lookup_cong [of "hit_cold b" b] by simp
  have key: "key \<in> set slice_keys" "key \<notin> set ks" using Cons.prems(2,3) by auto
  obtain ce' b' where ih: "extract_all clk s e ks (?ce, hit_cold b) = Some (ce', b')" "ceSymbol ce' = ceSymbol ?ce" "ceTriggerTime ce' = ceTriggerTime ?ce"
    "\<forall>k \<in> set slice_keys. slice_of k ce' = slice_of k ?ce @
       (if k \<in> set ks then filter (\<lambda>t. is_target_symbol (ceSymbol ?ce) (Symbol t)) (range_trades hist k s e) else [])"
    using Cons.IH [OF run_query [OF Cons.prems(1) q] _ _ hot, of ?ce] Cons.prems(2,3) by auto
  have "ceSymbol ?ce = ceSymbol ce" "ceTriggerTime ?ce = ceTriggerTime ce" using add_targets_slice [OF key(1)] by simp_all
  with ih key(2) add_targets_slice q show ?case by auto
qed simp

lemma collection_keys_slices: "set collection_keys = set slice_keys" "distinct collection_keys"
  by (auto simp: collection_keys_def slice_keys_def)

lemma handed_collection:
  assumes "new_task_manager os_read dec now0 cfgs sc quest None = Inr (tm, disk')"
    and "runs (tm_step parse pf) tm as tm'" "\<forall>l\<in>set as. live_label l"
    and "1000000000000000 < trig + (- 20 * second)" "trig + 20 * second < 2 ^ 63"
    and "\<forall>k \<in> set collection_keys.
      get_from_hot_cache (clk k) k (trig + (- 20 * second)) (trig + 20 * second) (tmBuffer tm') = None"
  shows "\<exists>ce tm''. start_data_collection now clk sm trig tm' = Some (None, tm'') \<and>
    tmStored tm'' = tmStored tm' @ [ce] \<and> ceSymbol ce = sm \<and> ceTriggerTime ce = trig \<and>
    (\<forall>k \<in> set collection_keys. slice_of k ce = filter (\<lambda>t. is_target_symbol sm (Symbol t))
       (range_trades (delivered as) k (trig + (- 20 * second)) (trig + 20 * second)))"
proof -
  let ?s = "trig + (- 20 * second)" and ?e = "trig + 20 * second"
  have safe: "tm_safe tm" by (rule new_manager_safe(1) [OF assms(1)])
  have "tm_logged ([] @ delivered as) tm'"
    using tm_runs(2) [OF assms(2) safe new_manager_safe(2) [OF assms(1) refl] assms(3)] .
  then have run: "ctb_run (delivered as) (tmBuffer tm')" by (simp add: tm_logged_def)
  have none: "tmCollection tm' = None" using tm_runs(1) [OF assms(2) safe] by (simp add: tm_safe_def)
  have le: "?s \<le> ?e" by (simp add: second_def)
  have new: "ceSymbol (new_collection_event now sm trig) = sm" "ceTriggerTime (new_collection_event now sm trig) = trig" "\<And>k. slice_of k (new_collection_event now sm trig) = []"
    by (simp_all add: new_collection_event_def) (simp_all add: empty_collection_def)
  from extract_all_spec [OF run collection_keys_slices(2) _ assms(4) le assms(5) window_span assms(6),
      of "new_collection_event now sm trig"]
  obtain ce b where "extract_all clk ?s ?e collection_keys (new_collection_event now sm trig, tmBuffer tm') = Some (ce, b)"
      "ceSymbol ce = sm" "ceTriggerTime ce = trig"
      "\<forall>k \<in> set collection_keys. slice_of k ce = filter (\<lambda>t. is_target_symbol sm (Symbol t)) (range_trades (delivered as) k ?s ?e)"
    using collection_keys_slices(1) new by auto
  then show ?thesis
    by (intro exI [of _ ce]) (simp add: start_data_collection_def none upd_stats_def)
qed


section \<open>A sample run\<close>

text \<open>A configuration that subscribes one symbol, on Gate spot.\<close>

definition sample_exchange_config :: exchange_config where
  "sample_exchange_config = \<lparr>ecEnabled = True, ecSpotEndpoint = '''', ecFuturesEndpoint = '''', ecMaxSymbols = 50,
     ecRetryCooldown = 0, ecMaxRetries = 3, ecConnectionTimeout = 0, ecReadTimeout = 0, ecWriteTimeout = 0\<rparr>"

definition sample_exchanges :: exchanges_config where
  "sample_exchanges = \<lparr>cfgBinance = sample_exchange_config, cfgBybit = sample_exchange_config, cfgOKX = sample_exchange_config,
     cfgKuCoin = sample_exchange_config, cfgPhemex = sample_exchange_config, cfgGate = sample_exchange_config\<rparr>"

definition sample_symbols :: symbols_config where
  "sample_symbols = \<lparr>scVersion = ''1.0'', UpdatedAt = 0, UpbitKRWSymbols = [], Exchanges = [],
     SubscriptionLists = (''gate_spot'', [''BTCUSDT'']) # map (\<lambda>k. (k, [])) collection_keys\<rparr>"

lemma sample_exchange_config_of: "exchange_config_of sample_exchanges ex = (if ex \<in> set tm_exchanges then Some sample_exchange_config else None)"
  by (auto simp: exchange_config_of_def sample_exchanges_def tm_exchanges_def)

lemma sample_symbols_for:
  "symbols_for ''gate'' ''spot'' sample_symbols = [''BTCUSDT'']"
  "(ex, mk) \<in> set (List.product tm_exchanges tm_markets) \<Longrightarrow> (ex, mk) \<noteq> (''gate'', ''spot'') \<Longrightarrow>
     symbols_for ex mk sample_symbols = []"
  by (auto simp: symbols_for_def sample_symbols_def exchange_key_def collection_keys_def tm_exchanges_def tm_markets_def)

lemma init_others:
  assumes "\<forall>key\<in>set keys. key \<in> set (List.product tm_exchanges tm_markets) \<and> key \<noteq> (''gate'', ''spot'')"
    and "tmExchangesConfig tm = sample_exchanges" "tmSymbolsConfig tm = sample_symbols"
  shows "fold (init_pool now) keys (tm, a, b) = (tm, a, b)"
  using assms
proof (induction keys)
  case (Cons key keys)
  obtain ex mk where k: "key = (ex, mk)" by fastforce
  with Cons.prems have "symbols_for ex mk sample_symbols = []" by (intro sample_symbols_for(2)) simp_all
  with Cons k show ?case by (simp add: init_pool_def)
qed simp


definition sole :: "string \<Rightarrow> worker \<Rightarrow> 'f task_manager \<Rightarrow> bool" where
  "sole key w tm = (tm_safe tm \<and> hotCache (tmBuffer tm) = [] \<and>
     (\<exists>pool. mget (tmPools tm) key = Some pool \<and> wpWorkers pool = [w]))"

definition trading_worker :: worker where
  "trading_worker = gate_worker\<lparr>wHasOnTrade := True\<rparr>"

lemma sample_pool:
  "wpWorkers (setup_pool_callbacks (new_worker_pool 0 ''gate'' ''spot'' [''BTCUSDT''] (worker_config_for sample_exchanges ''gate''))) =
     [trading_worker]"
proof -
  let ?c = "worker_config_for sample_exchanges ''gate''"
  have c: "?c = mk_worker_config 50 10 (20 * second) 0 5 (1 * second)"
    by (simp add: worker_config_for_def sample_exchange_config_of tm_exchanges_def sample_exchange_config_def)
  then have m: "0 < wcMaxSymbols ?c" by (simp add: mk_worker_config_def)
  have g: "''gate'' \<in> set exchanges6" by (simp add: exchanges6_def)
  have t: "nat (wpTotalWorkers (empty_pool ''gate'' ''spot'' [''BTCUSDT''] ?c)) = 1"
    by (simp add: c empty_pool_def mk_worker_config_def num_workers_def)
  have "nth_worker 0 (empty_pool ''gate'' ''spot'' [''BTCUSDT''] ?c) 0 = gate_worker"
    by (simp add: nth_worker_def c empty_pool_def mk_worker_config_def new_connector_def gate_worker_def mk_worker_def
        get_exchange_worker_config_def)
  then show ?thesis
    using new_worker_pool_workers(1) [OF g m, of 0 "''spot''" "[''BTCUSDT'']"] t
    by (simp add: setup_pool_callbacks_def trading_worker_def)
qed

lemma sample_manager_exists:
  "\<exists>tm :: nat task_manager. new_task_manager (\<lambda>_ :: string. None) (\<lambda>_. None) 0 sample_exchanges sample_symbols None None =
     Inr (tm, None) \<and> sole ''gate_spot'' trading_worker tm \<and> (\<exists>pool. tmPools tm = [(''gate_spot'', pool)]) \<and> \<not> tmRunning tm"
proof -
  let ?gate = "(''gate'', ''spot'')"
  obtain tm :: "nat task_manager" where
    tm: "new_task_manager (\<lambda>_ :: string. None) (\<lambda>_. None) 0 sample_exchanges sample_symbols None None = Inr (tm, None)"
    by (simp add: new_task_manager_def load_from_backup_def)
  define tm0 :: "nat task_manager" where "tm0 = \<lparr>tmExchangesConfig = sample_exchanges, tmSymbolsConfig = sample_symbols,
     tmBuffer = new_buffer 0, tmQuest = None, tmPools = [],
     tmRecovery = initial_system, tmCollection = None, tmTimer = False,
     tmStats = \<lparr>tmTotalPools = 0, tmActivePools = 0, tmTotalWorkers = 0, tmActiveWorkers = 0,
       tmTotalSymbols = 0, tmTotalMessages = 0, tmLastHealthCheck = 0, tmLastCollection = zero_time,
       tmCollectionActive = False, tmExchangeStats = []\<rparr>,
     tmRunning = False, tmCancelled = False, tmStored = [], tmListings = []\<rparr>"
  define pool where "pool = setup_pool_callbacks
    (new_worker_pool 0 ''gate'' ''spot'' [''BTCUSDT''] (worker_config_for sample_exchanges ''gate''))"
  define before where "before = filter (\<lambda>k. fst k \<noteq> ''gate'') (List.product tm_exchanges tm_markets)"
  have keys: "List.product tm_exchanges tm_markets = before @ [?gate] @ [(''gate'', ''futures'')]"
    by (simp add: before_def tm_exchanges_def tm_markets_def)
  have cfg: "tmExchangesConfig tm0 = sample_exchanges" "tmSymbolsConfig tm0 = sample_symbols" "tmPools tm0 = []"
      "tmBuffer tm0 = new_buffer 0" by (simp_all add: tm0_def)
  have b: "fold (init_pool 0) before (tm0, 0, 0) = (tm0, 0, 0)"
    using cfg by (intro init_others) (auto simp: before_def)
  let ?tm1 = "tm0\<lparr>tmPools := [(''gate_spot'', pool)]\<rparr>"
  have g: "init_pool 0 ?gate (tm0, 0, 0) = (?tm1, 1, wpTotalWorkers pool)"
    using cfg sample_symbols_for(1)
    by (simp add: init_pool_def Let_def sample_exchange_config_of tm_exchanges_def pool_def exchange_key_def)
  have a: "fold (init_pool 0) [(''gate'', ''futures'')] (?tm1, x, y) = (?tm1, x, y)" for x y
    using cfg by (intro init_others) (simp_all add: tm_exchanges_def tm_markets_def)
  have "tm = initialize_worker_pools 0 tm0"
    using tm by (simp add: new_task_manager_def load_from_backup_def tm0_def)
  then have pools: "tmPools tm = [(''gate_spot'', pool)]" "tmBuffer tm = new_buffer 0" "\<not> tmRunning tm"
    using b g a cfg by (simp_all add: initialize_worker_pools_def keys) (simp add: upd_stats_def tm0_def)
  have "tm_safe tm" by (rule new_manager_safe(1) [OF tm])
  with tm pools sample_pool show ?thesis by (auto simp: sole_def new_buffer_def pool_def)
qed


lemma callbacks_hot:
  assumes "no_errors cbs" "tmCollection tm = None"
  shows "hotCache (tmBuffer (fold (tm_callback now ex mk) cbs tm)) = hotCache (tmBuffer tm)"
  using assms
proof (induction cbs arbitrary: tm)
  case (Cons c cbs)
  have rest: "no_errors cbs" using Cons.prems(1) by (auto simp: no_errors_def)
  have "tmCollection (tm_callback now ex mk c tm) = None"
      "hotCache (tmBuffer (tm_callback now ex mk c tm)) = hotCache (tmBuffer tm)"
    using Cons.prems by (cases c; auto simp: handle_trade_frame no_errors_def buffer_trade_def store_trade_event_def)+
  with Cons.IH [OF rest] show ?case by simp
qed simp

text \<open>A step of the only worker of a pool is a step of the program.\<close>

lemma sole_step:
  assumes "sole key w tm" "worker_step parse w a (w', cbs)" "own_action a"
  shows "\<exists>tm'. tm_step parse pf tm (TPool now key 0 a, cbs) tm' \<and> sole key w' tm'"
proof -
  obtain pool where pool: "tm_safe tm" "hotCache (tmBuffer tm) = []" "mget (tmPools tm) key = Some pool" "wpWorkers pool = [w]"
    using assms(1) by (auto simp: sole_def)
  let ?pool = "fold pool_callback cbs (pool\<lparr>wpWorkers := (wpWorkers pool)[0 := w']\<rparr>)"
  let ?tm = "tm\<lparr>tmPools := mput key ?pool (tmPools tm)\<rparr>"
  let ?tm' = "fold (tm_callback now (wpExchange pool) (wpMarket pool)) cbs ?tm"
  have p: "pool_step parse pool (PWorker 0 a) (?pool, cbs)"
    using assms(2,3) pool(4) by (intro ps_worker) simp_all
  have step: "tm_step parse pf tm (TPool now key 0 a, cbs) ?tm'" by (rule ts_pool [OF pool(3) p])
  have "pool_safe key pool" using pool(1,3) by (auto simp: tm_safe_def dest!: map_of_SomeD)
  then have e: "no_errors cbs" using pool_worker_step [OF p] by blast
  have none: "tmCollection ?tm = None" using pool(1) by (simp add: tm_safe_def)
  have "sole key w' ?tm'"
    using callbacks_frame [OF e none, of now "wpExchange pool" "wpMarket pool"] callbacks_hot [OF e none]
      tm_step_safe [OF step pool(1)] pool(2,4)
    by (simp add: sole_def mget_mput)
  with step show ?thesis by blast
qed

lemma sole_runs:
  "runs (worker_moves parse) w las w' \<Longrightarrow> sole key w tm \<Longrightarrow> \<forall>l\<in>set las. own_action (fst l) \<Longrightarrow>
     \<exists>tm'. runs (tm_step parse pf) tm (map (\<lambda>(a, cbs). (TPool now key 0 a, cbs)) las) tm' \<and> sole key w' tm'"
proof (induction las arbitrary: w tm)
  case (Cons l las)
  from Cons.prems(1) obtain w1 where s: "worker_moves parse w l w1" and rest: "runs (worker_moves parse) w1 las w'" by auto
  have "worker_step parse w (fst l) (w1, snd l)" using s by (simp add: worker_moves_def)
  moreover have "own_action (fst l)" using Cons.prems(3) by simp
  ultimately obtain tm1 where t: "tm_step parse pf tm (TPool now key 0 (fst l), snd l) tm1" "sole key w1 tm1"
    using sole_step [OF Cons.prems(2), of parse "fst l" w1 "snd l" pf now] by blast
  from Cons.IH [OF rest t(2)] Cons.prems(3) t(1) show ?case by (cases l) auto
qed simp

text \<open>Starting the program starts the only worker.\<close>

lemma sole_start:
  assumes "sole key w tm" "tmPools tm = [(key, pool)]" "\<not> tmRunning tm"
  shows "\<exists>tm'. tm_step parse pf tm (TStart now, []) tm' \<and> sole key (start_worker w) tm'"
proof -
  have step: "tm_step parse pf tm (TStart now, []) (snd (start_task_manager id now tm))" by (rule ts_start) simp
  have "tm_safe (snd (start_task_manager id now tm))" using tm_step_safe [OF step] assms(1) by (simp add: sole_def)
  with step assms show ?thesis
    by (intro exI [of _ "snd (start_task_manager id now tm)"])
       (auto simp: sole_def start_task_manager_def Let_def start_one_def start_pool_def)
qed


text \<open>A run of the worker that connects, reads one trade and delivers it.\<close>

definition sample_parse :: "nat \<Rightarrow> parse_error + trade_event list" where
  "sample_parse n = Inr [sample_trade (1700000000000 + int n) ''BTCUSDT'']"

definition sample_labels :: "(nat worker_action \<times> callback list) list" where
  "sample_labels =
     [(WCheck 0, []), (WLimiter 0 5, []), (WDial 0 good_dial, []), (WLinked 0, [OnConnected 0]),
      (WLoopCheck 0, []), (WLoopTurn 0 6 (ReadText 7), []),
      (WReceive 0 8, [OnTrade (sample_trade 1700000000007 ''BTCUSDT'')])]"

lemma gate_worker_connects:
  "wSymbols w = [''BTCUSDT''] \<Longrightarrow> wConnector w = new_base_connector ''gate'' ''spot'' ''wss://api.gateio.ws/ws/v4/'' 1 \<Longrightarrow>
     \<exists>c. is_connected c \<and> dial_worker i good_dial w = (goto_pc i Linked (w\<lparr>wConnector := c\<rparr>), [])"
  by (intro exI [of _ "(new_base_connector ''gate'' ''spot'' ''wss://api.gateio.ws/ws/v4/'' 1)
        \<lparr>cOpen := True, IsActive := True, cLastMessage := 5, SubscribedSymbols := [''BTCUSDT''], writes := 1,
          wire := [ChannelMsg ''spot.trades'' ''subscribe'' [format_symbol ''BTCUSDT'' ''gate'' ''spot'']]\<rparr>"])
     (simp add: dial_worker_def good_dial_def connect_def connect_with_def connect_websocket_def gate_subscribe_def
        subscribe_with_def new_base_connector_def gate_messages_def is_connected_def send_message_def)

lemma trading_worker_run: "\<exists>w'. runs (worker_moves sample_parse) (start_worker trading_worker) sample_labels w'"
proof -
  let ?t = "sample_trade 1700000000007 ''BTCUSDT''"
  let ?w1 = "start_worker trading_worker"
  let ?w2 = "check_cancelled 0 ?w1"
  let ?w3 = "ask_limiter 0 5 ?w2"
  have w1: "at_pc ?w1 0 AtCheck" by (simp add: trading_worker_def start_worker_def at_pc_def)
  have w3: "wSymbols ?w3 = [''BTCUSDT'']" "at_pc ?w2 0 AtLimiter" "at_pc ?w3 0 AtDial" "wID ?w3 = 0"
      "wConnector ?w3 = new_base_connector ''gate'' ''spot'' ''wss://api.gateio.ws/ws/v4/'' 1" "length (sessions ?w3) = 1"
      "wHasOnTrade ?w3" "\<not> wDone ?w3"
    by (simp_all add: trading_worker_def start_worker_def check_cancelled_def ask_limiter_def session_defs allow_cases Let_def)
  obtain c where c: "is_connected c" "dial_worker 0 good_dial ?w3 = (goto_pc 0 Linked (?w3\<lparr>wConnector := c\<rparr>), [])"
    using gate_worker_connects [OF w3(1,5)] by blast
  let ?w4 = "goto_pc 0 Linked (?w3\<lparr>wConnector := c\<rparr>)"
  let ?w5 = "fst (mark_connected 0 ?w4)"
  let ?w6 = "check_loop 0 ?w5"
  let ?w7 = "turn_loop sample_parse 0 6 (ReadText 7) ?w6"
  let ?w8 = "fst (receive_trade 0 8 ?w7)"
  have len: "0 < length (sessions ?w3)" using w3(6) by simp
  have w5: "at_pc ?w4 0 Linked" "mark_connected 0 ?w4 = (?w5, [OnConnected 0])" "0 < length (sessions ?w5)"
      "sLoop (sessions ?w5 ! 0) = LoopCheck" "wConnector ?w5 = c" "wHasOnTrade ?w5" "\<not> wDone ?w5"
      "sPc (sessions ?w5 ! 0) = Processing" "sChan (sessions ?w5 ! 0) = []"
    using w3(4,7,8) len by (simp_all add: session_defs mark_connected_def)
  have w6: "0 < length (sessions ?w6)" "sLoop (sessions ?w6 ! 0) = LoopRead" "wConnector ?w6 = c" "wHasOnTrade ?w6"
      "sPc (sessions ?w6 ! 0) = Processing" "sChan (sessions ?w6 ! 0) = []"
    using w5 by (simp_all add: check_loop_def session_defs)
  have "message_loop_turn sample_parse 6 (ReadText 7) c [] = (c\<lparr>cLastMessage := 6, cTotalMessages := cTotalMessages c + 1\<rparr>, [?t])"
    using c(1) by (simp add: message_loop_turn_def read_message_def is_connected_def sample_parse_def channel_size_def)
  then have w7: "at_pc ?w7 0 Processing" "sChan (sessions ?w7 ! 0) = [?t]" "wHasOnTrade ?w7"
    using w6 by (simp_all add: turn_loop_def session_defs)
  have w8: "receive_trade 0 8 ?w7 = (?w8, [OnTrade ?t])" using w7 by (simp add: receive_trade_def)
  have "worker_step sample_parse ?w1 (WCheck 0) (?w2, [])" using w1 by (rule ws_check)
  moreover have "worker_step sample_parse ?w2 (WLimiter 0 5) (?w3, [])" using w3(2) by (rule ws_limiter)
  moreover have "worker_step sample_parse ?w3 (WDial 0 good_dial) (?w4, [])"
    using ws_dial [OF w3(3), of sample_parse good_dial] c(2) by simp
  moreover have "worker_step sample_parse ?w4 (WLinked 0) (?w5, [OnConnected 0])"
    using ws_linked [OF w5(1), of sample_parse] w5(2) by simp
  moreover have "worker_step sample_parse ?w5 (WLoopCheck 0) (?w6, [])" using w5(3,4) by (rule ws_loop_check)
  moreover have "worker_step sample_parse ?w6 (WLoopTurn 0 6 (ReadText 7)) (?w7, [])" using w6(1,2) by (rule ws_loop_turn)
  moreover have "worker_step sample_parse ?w7 (WReceive 0 8) (?w8, [OnTrade ?t])"
    using ws_receive [OF w7(1), of sample_parse 8] w7(2) w8 by simp
  ultimately show ?thesis
    unfolding sample_labels_def by (auto simp: worker_moves_def intro!: exI)
qed

definition sample_run :: "(nat tm_action \<times> callback list) list" where
  "sample_run = (TStart 0, []) # map (\<lambda>(a, cbs). (TPool 0 ''gate_spot'' 0 a, cbs)) sample_labels"

lemma sample_run_exists:
  "\<exists>(tm :: nat task_manager) tm'. new_task_manager (\<lambda>_ :: string. None) (\<lambda>_. None) 0 sample_exchanges sample_symbols None None =
     Inr (tm, None) \<and> runs (tm_step sample_parse pf) tm sample_run tm' \<and> hotCache (tmBuffer tm') = []"
proof -
  obtain tm :: "nat task_manager" and pool where
    tm: "new_task_manager (\<lambda>_ :: string. None) (\<lambda>_. None) 0 sample_exchanges sample_symbols None None = Inr (tm, None)"
      "sole ''gate_spot'' trading_worker tm" "tmPools tm = [(''gate_spot'', pool)]" "\<not> tmRunning tm"
    using sample_manager_exists by blast
  obtain tm1 where one: "tm_step sample_parse pf tm (TStart 0, []) tm1" "sole ''gate_spot'' (start_worker trading_worker) tm1"
    using sole_start [OF tm(2-4)] by blast
  obtain w' where w': "runs (worker_moves sample_parse) (start_worker trading_worker) sample_labels w'"
    using trading_worker_run by blast
  have "\<forall>l\<in>set sample_labels. own_action (fst l)" by (simp add: sample_labels_def own_action_def)
  from sole_runs [OF w' one(2) this, of pf 0] obtain tm' where
    "runs (tm_step sample_parse pf) tm1 (map (\<lambda>(a, cbs). (TPool 0 ''gate_spot'' 0 a, cbs)) sample_labels) tm'"
    "sole ''gate_spot'' w' tm'" by blast
  with one tm(1) show ?thesis unfolding sample_run_def by (auto simp: sole_def)
qed

lemma sample_run_delivers:
  "delivered sample_run = [(''gate_spot'', sample_trade 1700000000007 ''BTCUSDT'')]" "\<forall>l\<in>set sample_run. live_label l"
  by (simp_all add: delivered_def sample_run_def sample_labels_def)


theorem recovery_never_triggered_witness:
  "\<exists>(tm :: nat task_manager) tm'. runs (tm_step sample_parse (\<lambda>_. None)) tm sample_run tm' \<and> spawned (tmRecovery tm') = []"
proof -
  obtain tm tm' :: "nat task_manager" where
    tm: "new_task_manager (\<lambda>_ :: string. None) (\<lambda>_. None) 0 sample_exchanges sample_symbols None None = Inr (tm, None)"
    and run: "runs (tm_step sample_parse (\<lambda>_. None)) tm sample_run tm'"
    using sample_run_exists by blast
  from recovery_never_triggered [OF tm run] run show ?thesis by blast
qed



section \<open>Health checks\<close>

definition pools_of :: "string \<Rightarrow> (string \<times> worker_pool) list \<Rightarrow> worker_pool list" where
  "pools_of ex es = filter (\<lambda>p. wpExchange p = ex) (map snd es)"

lemma pools_of_simps [simp]:
  "pools_of ex [] = []" "pools_of ex ((k, p) # es) = (if wpExchange p = ex then p # pools_of ex es else pools_of ex es)"
  by (simp_all add: pools_of_def)

lemma add_pool_simps:
  "tmActivePools (add_pool_health pool st) = tmActivePools st + (if wpActiveWorkers pool > 0 then 1 else 0)"
  "tmActiveWorkers (add_pool_health pool st) = tmActiveWorkers st + wpActiveWorkers pool"
  "mget (tmExchangeStats (add_pool_health pool st)) ex =
     (if ex = wpExchange pool then Some ((exchange_stats_of ex (tmExchangeStats st))
        \<lparr>esExchange := ex, esActiveWorkers := esActiveWorkers (exchange_stats_of ex (tmExchangeStats st)) + wpActiveWorkers pool,
         esTotalMessages := pool_total_messages pool\<rparr>)
      else mget (tmExchangeStats st) ex)"
  by (simp_all add: add_pool_health_def Let_def get_pool_stats_def mget_mput)

lemma fold_health:
  "tmActivePools (fold (\<lambda>(k, pool). add_pool_health pool) es st) =
     tmActivePools st + int (length (filter (\<lambda>e. wpActiveWorkers (snd e) > 0) es)) \<and>
   tmActiveWorkers (fold (\<lambda>(k, pool). add_pool_health pool) es st) = tmActiveWorkers st + sum_list (map (wpActiveWorkers \<circ> snd) es) \<and>
   esActiveWorkers (exchange_stats_of ex (tmExchangeStats (fold (\<lambda>(k, pool). add_pool_health pool) es st))) =
     esActiveWorkers (exchange_stats_of ex (tmExchangeStats st)) + sum_list (map wpActiveWorkers (pools_of ex es)) \<and>
   esTotalMessages (exchange_stats_of ex (tmExchangeStats (fold (\<lambda>(k, pool). add_pool_health pool) es st))) =
     (if pools_of ex es = [] then esTotalMessages (exchange_stats_of ex (tmExchangeStats st))
      else pool_total_messages (last (pools_of ex es)))"
proof (induction es arbitrary: st)
  case (Cons e es)
  obtain k pool where e: "e = (k, pool)" by fastforce
  have "exchange_stats_of ex (tmExchangeStats (add_pool_health pool st)) =
     (if ex = wpExchange pool then (exchange_stats_of ex (tmExchangeStats st))
        \<lparr>esExchange := ex, esActiveWorkers := esActiveWorkers (exchange_stats_of ex (tmExchangeStats st)) + wpActiveWorkers pool,
         esTotalMessages := pool_total_messages pool\<rparr>
      else exchange_stats_of ex (tmExchangeStats st))"
    by (simp add: exchange_stats_of_def add_pool_simps)
  with Cons.IH [of "add_pool_health pool st"] show ?case by (auto simp: e add_pool_simps)
qed simp

lemma reset_health_simps:
  "tmActivePools (reset_health now st) = 0" "tmActiveWorkers (reset_health now st) = 0"
  "esActiveWorkers (exchange_stats_of ex (tmExchangeStats (reset_health now st))) = 0"
proof -
  have "mget (map (\<lambda>(k, es). (k, es\<lparr>esActiveWorkers := 0\<rparr>)) m) ex = map_option (\<lambda>es. es\<lparr>esActiveWorkers := 0\<rparr>) (mget m ex)"
    for m :: "(string, tm_exchange_stats) gomap"
    by (induction m) auto
  then show "esActiveWorkers (exchange_stats_of ex (tmExchangeStats (reset_health now st))) = 0"
    by (simp add: reset_health_def exchange_stats_of_def zero_exchange_stats_def split: option.split)
qed (simp_all add: reset_health_def)

text \<open>What a health check reports.  Whatever order the pools are visited in, the active workers of
  the manager and of each exchange are the sums over the pools and the active pools are counted, but
  the messages of an exchange are those of its pool visited last, not of its spot and futures pools
  together.\<close>

theorem health_check_report:
  assumes "iter_order ord" "st = tmStats (perform_health_check ord now tm)"
  shows "tmActivePools st = int (length (filter (\<lambda>e. wpActiveWorkers (snd e) > 0) (tmPools tm))) \<and>
    tmActiveWorkers st = sum_list (map (wpActiveWorkers \<circ> snd) (tmPools tm)) \<and>
    esActiveWorkers (exchange_stats_of ex (tmExchangeStats st)) = sum_list (map wpActiveWorkers (pools_of ex (tmPools tm))) \<and>
    (pools_of ex (ord (tmPools tm)) \<noteq> [] \<longrightarrow>
      esTotalMessages (exchange_stats_of ex (tmExchangeStats st)) = pool_total_messages (last (pools_of ex (ord (tmPools tm)))))"
proof -
  have perm: "mset (ord (tmPools tm)) = mset (tmPools tm)" using assms(1) by (simp add: iter_order_def)
  have "sum_list (map f (ord (tmPools tm))) = sum_list (map f (tmPools tm))" for f :: "string \<times> worker_pool \<Rightarrow> int"
    by (metis perm mset_map sum_mset_sum_list)
  note sums = this [of "wpActiveWorkers \<circ> snd"]
  have "size (mset (filter P (ord (tmPools tm)))) = size (mset (filter P (tmPools tm)))" for P
    by (simp only: mset_filter perm)
  then have "length (filter P (ord (tmPools tm))) = length (filter P (tmPools tm))" for P
    by (simp only: size_mset)
  note counts = this [of "\<lambda>e. wpActiveWorkers (snd e) > 0"]
  have "mset (pools_of ex (ord (tmPools tm))) = mset (pools_of ex (tmPools tm))"
    by (simp only: pools_of_def mset_filter mset_map perm)
  then have "sum_mset (mset (map wpActiveWorkers (pools_of ex (ord (tmPools tm))))) =
      sum_mset (mset (map wpActiveWorkers (pools_of ex (tmPools tm))))"
    by (simp only: mset_map)
  then have ex: "sum_list (map wpActiveWorkers (pools_of ex (ord (tmPools tm)))) = sum_list (map wpActiveWorkers (pools_of ex (tmPools tm)))"
    by (simp only: sum_mset_sum_list)
  have st: "st = fold (\<lambda>(k, pool). add_pool_health pool) (ord (tmPools tm)) (reset_health now (tmStats tm))"
    by (simp only: assms(2) perform_health_check_def upd_stats_simps)
  from fold_health [of "ord (tmPools tm)" "reset_health now (tmStats tm)" ex, folded st]
  show ?thesis by (simp only: sums counts ex reset_health_simps) simp
qed

definition sample_health_pool :: "string \<Rightarrow> int \<Rightarrow> worker_pool" where
  "sample_health_pool mk n = (empty_pool ''gate'' mk [] (get_exchange_worker_config ''gate''))
     \<lparr>wpActiveWorkers := 1, wpWorkers := [gate_worker\<lparr>wMessageCount := n\<rparr>]\<rparr>"

theorem health_check_report_witness:
  "\<exists>(tm :: nat task_manager) st. tmPools tm = [(''gate_spot'', sample_health_pool ''spot'' 70), (''gate_futures'', sample_health_pool ''futures'' 5)] \<and>
     st = tmStats (perform_health_check id 0 tm) \<and> tmActiveWorkers st = 2 \<and>
     esTotalMessages (exchange_stats_of ''gate'' (tmExchangeStats st)) = 5"
proof -
  obtain tm0 :: "nat task_manager" where True by simp
  let ?tm = "tm0\<lparr>tmPools := [(''gate_spot'', sample_health_pool ''spot'' 70), (''gate_futures'', sample_health_pool ''futures'' 5)]\<rparr>"
  have "pools_of ''gate'' (tmPools ?tm) = [sample_health_pool ''spot'' 70, sample_health_pool ''futures'' 5]"
    by (simp add: sample_health_pool_def empty_pool_def)
  moreover have "wpActiveWorkers (sample_health_pool mk n) = 1" "pool_total_messages (sample_health_pool mk n) = n" for mk n
    by (simp_all add: sample_health_pool_def pool_total_messages_def)
  ultimately show ?thesis
    using health_check_report [of id "tmStats (perform_health_check id 0 ?tm)" 0 ?tm "''gate''", OF iter_order_id refl]
    by (intro exI [of _ ?tm] exI [of _ "tmStats (perform_health_check id 0 ?tm)"]) simp
qed

end
