(* ===== verification/GoFloat.thy ===== *)
theory GoFloat
  imports Prelude
begin

text \<open>
  \<open>float64\<close> with the conversions of \<open>strconv\<close> and \<open>fmt\<close> that the program uses on prices and
  volumes.  A finite value is the exact rational: the rounding of a result to 53 bits and its overflow
  are left out, the infinities and the NaN, which \<open>ParseFloat\<close> can return, are not.
\<close>

section \<open>Values and operations\<close>

datatype gofloat = Fin rat | PosInf | NegInf | NaN

fun f_add :: "gofloat \<Rightarrow> gofloat \<Rightarrow> gofloat" where
  "f_add (Fin a) (Fin b) = Fin (a + b)"
| "f_add NaN y = NaN"
| "f_add x NaN = NaN"
| "f_add PosInf NegInf = NaN"
| "f_add NegInf PosInf = NaN"
| "f_add PosInf y = PosInf"
| "f_add x PosInf = PosInf"
| "f_add NegInf y = NegInf"
| "f_add x NegInf = NegInf"

fun f_neg :: "gofloat \<Rightarrow> gofloat" where
  "f_neg (Fin a) = Fin (- a)"
| "f_neg PosInf = NegInf"
| "f_neg NegInf = PosInf"
| "f_neg NaN = NaN"

definition f_sub :: "gofloat \<Rightarrow> gofloat \<Rightarrow> gofloat" where
  "f_sub x y = f_add x (f_neg y)"

text \<open>An infinity with the sign of a rational; the sign of zero has no meaning here.\<close>

definition signed_inf :: "rat \<Rightarrow> gofloat" where
  "signed_inf a = (if a > 0 then PosInf else if a < 0 then NegInf else NaN)"

fun f_mul :: "gofloat \<Rightarrow> gofloat \<Rightarrow> gofloat" where
  "f_mul (Fin a) (Fin b) = Fin (a * b)"
| "f_mul NaN y = NaN"
| "f_mul x NaN = NaN"
| "f_mul (Fin a) PosInf = signed_inf a"
| "f_mul (Fin a) NegInf = signed_inf (- a)"
| "f_mul PosInf (Fin b) = signed_inf b"
| "f_mul NegInf (Fin b) = signed_inf (- b)"
| "f_mul PosInf PosInf = PosInf"
| "f_mul PosInf NegInf = NegInf"
| "f_mul NegInf PosInf = NegInf"
| "f_mul NegInf NegInf = PosInf"

fun f_div :: "gofloat \<Rightarrow> gofloat \<Rightarrow> gofloat" where
  "f_div (Fin a) (Fin b) = (if b = 0 then signed_inf a else Fin (a / b))"
| "f_div NaN y = NaN"
| "f_div x NaN = NaN"
| "f_div (Fin a) y = Fin 0"
| "f_div PosInf (Fin b) = (if b < 0 then NegInf else PosInf)"
| "f_div NegInf (Fin b) = (if b < 0 then PosInf else NegInf)"
| "f_div x y = NaN"

fun f_less :: "gofloat \<Rightarrow> gofloat \<Rightarrow> bool" where
  "f_less (Fin a) (Fin b) = (a < b)"
| "f_less NaN y = False"
| "f_less x NaN = False"
| "f_less NegInf y = (y \<noteq> NegInf)"
| "f_less x PosInf = (x \<noteq> PosInf)"
| "f_less x y = False"

text \<open>\<open>x <= y\<close>, which is not the negation of \<open>y < x\<close> for a NaN.\<close>

definition f_leq :: "gofloat \<Rightarrow> gofloat \<Rightarrow> bool" where
  "f_leq x y = (x \<noteq> NaN \<and> y \<noteq> NaN \<and> \<not> f_less y x)"

definition is_inf :: "gofloat \<Rightarrow> bool" where
  "is_inf x = (x = PosInf \<or> x = NegInf)"

definition is_nan :: "gofloat \<Rightarrow> bool" where
  "is_nan x = (x = NaN)"

fun is_fin :: "gofloat \<Rightarrow> bool" where
  "is_fin (Fin a) = True"
| "is_fin x = False"

definition f_sum :: "gofloat list \<Rightarrow> gofloat" where
  "f_sum xs = fold (\<lambda>v s. f_add s v) xs (Fin 0)"

lemma f_add_commute: "f_add x y = f_add y x"
  by (cases x; cases y) (simp_all add: add.commute)

lemma f_add_assoc: "f_add (f_add x y) z = f_add x (f_add y z)"
  by (cases x; cases y; cases z) (simp_all add: add.assoc)

lemma f_add_left_commute: "f_add x (f_add y z) = f_add y (f_add x z)"
  by (metis f_add_assoc f_add_commute)

lemmas f_add_ac = f_add_assoc f_add_commute f_add_left_commute

lemma f_add_zero [simp]: "f_add (Fin 0) x = x" "f_add x (Fin 0) = x"
  by (cases x; simp)+

lemma f_sum_acc: "fold (\<lambda>v s. f_add s v) xs s0 = f_add s0 (f_sum xs)"
proof (induction xs arbitrary: s0)
  case (Cons x xs)
  have "f_sum (x # xs) = f_add x (f_sum xs)"
    unfolding f_sum_def using Cons [of "f_add (Fin 0) x"] by (simp add: f_sum_def)
  with Cons [of "f_add s0 x"] show ?case by (simp add: f_add_assoc)
qed (simp add: f_sum_def)

lemma f_sum_Nil [simp]: "f_sum [] = Fin 0"
  by (simp add: f_sum_def)

lemma f_sum_Cons [simp]: "f_sum (x # xs) = f_add x (f_sum xs)"
  using f_sum_acc [of xs x] by (simp add: f_sum_def)

lemma f_sum_append: "f_sum (xs @ ys) = f_add (f_sum xs) (f_sum ys)"
  by (induction xs) (simp_all add: f_add_assoc)

lemma f_sum_perm: "mset xs = mset ys \<Longrightarrow> f_sum xs = f_sum ys"
proof (induction xs arbitrary: ys)
  case (Cons x xs)
  then have "x \<in> set ys" by (metis list.set_intros(1) set_mset_mset)
  then obtain us vs where ys: "ys = us @ x # vs" by (meson split_list)
  with Cons.prems have "mset xs = mset (us @ vs)" by simp
  then have "f_sum xs = f_sum (us @ vs)" by (rule Cons.IH)
  then show ?case by (simp add: ys f_sum_append f_add_ac)
qed simp

section \<open>Text\<close>

text \<open>Rounding to the nearest integer, ties to even.\<close>

definition round_even :: "rat \<Rightarrow> int" where
  "round_even q =
     (let f = \<lfloor>q\<rfloor>; r = q - of_int f in
      if r < 1 / 2 then f else if r > 1 / 2 then f + 1 else if even f then f else f + 1)"

definition zero_pad :: "nat \<Rightarrow> string \<Rightarrow> string" where
  "zero_pad k s = replicate (k - length s) (CHR ''0'') @ s"

text \<open>\<open>fmt.Sprintf\<close> with \<open>%.8f\<close>.\<close>

fun fixed8 :: "gofloat \<Rightarrow> string" where
  "fixed8 (Fin q) =
     (let n = nat (round_even (\<bar>q\<bar> * 10 ^ 8)) in
      (if q < 0 then ''-'' else '''') @ show_nat (n div 10 ^ 8) @ ''.'' @ zero_pad 8 (show_nat (n mod 10 ^ 8)))"
| "fixed8 PosInf = ''+Inf''"
| "fixed8 NegInf = ''-Inf''"
| "fixed8 NaN = ''NaN''"

text \<open>The exponent part of a decimal literal: \<^const>\<open>None\<close> when the text is not one.\<close>

definition parse_exponent :: "string \<Rightarrow> int option" where
  "parse_exponent s =
     (if s = [] then Some 0
      else if hd s = CHR ''e'' \<or> hd s = CHR ''E'' then
        (let r = tl s;
             neg = (r \<noteq> [] \<and> hd r = CHR ''-'');
             ds = (if r \<noteq> [] \<and> (hd r = CHR ''-'' \<or> hd r = CHR ''+'') then tl r else r)
         in if ds \<noteq> [] \<and> list_all is_digit ds
            then Some (if neg then - int (digits_val ds) else int (digits_val ds)) else None)
      else None)"

definition scale10 :: "nat \<Rightarrow> int \<Rightarrow> rat" where
  "scale10 m e = (if e \<ge> 0 then of_nat m * 10 ^ nat e else of_nat m / 10 ^ nat (- e))"

text \<open>\<open>strconv.ParseFloat(s, 64)\<close>: the value and whether there was no error.  A syntax error gives
  zero, a value beyond the range of the type an infinity and an error.  The hexadecimal literals and
  the underscores that \<open>ParseFloat\<close> accepts too are read as syntax errors; no exchange sends them.\<close>

definition parse_unsigned :: "string \<Rightarrow> gofloat \<times> bool" where
  "parse_unsigned r =
     (let ip = takeWhile is_digit r;
          r1 = dropWhile is_digit r;
          dot = (r1 \<noteq> [] \<and> hd r1 = CHR ''.'');
          fp = (if dot then takeWhile is_digit (tl r1) else []);
          r2 = (if dot then dropWhile is_digit (tl r1) else r1)
      in if ip @ fp = [] then (Fin 0, False)
         else (case parse_exponent r2 of
                 None \<Rightarrow> (Fin 0, False)
               | Some e \<Rightarrow>
                   (let v = scale10 (digits_val (ip @ fp)) (e - int (length fp)) in
                    if v \<ge> 2 ^ 1024 - 2 ^ 970 then (PosInf, False) else (Fin v, True))))"

definition parse_float :: "string \<Rightarrow> gofloat \<times> bool" where
  "parse_float s =
     (let neg = (s \<noteq> [] \<and> hd s = CHR ''-'');
          signed = (s \<noteq> [] \<and> (hd s = CHR ''-'' \<or> hd s = CHR ''+''));
          r = (if signed then tl s else s)
      in if to_lower r = ''inf'' \<or> to_lower r = ''infinity'' then ((if neg then NegInf else PosInf), True)
         else if \<not> signed \<and> to_lower r = ''nan'' then (NaN, True)
         else (case parse_unsigned r of (v, good) \<Rightarrow> ((if neg then f_neg v else v), good)))"

text \<open>The two uses in the program: the value when there is no error, the value whatever the error.\<close>

definition float_opt :: "string \<Rightarrow> gofloat option" where
  "float_opt s = (case parse_float s of (v, good) \<Rightarrow> if good then Some v else None)"

definition float_val :: "string \<Rightarrow> gofloat" where
  "float_val s = fst (parse_float s)"

end
