(* ===== verification/StorageTypes.thy ===== *)
theory StorageTypes
  imports GoFloat CollectionEvent
begin

text \<open>
  The data structures of \<open>internal/storage/manager.go\<close> that the pump analyzer produces and the storage
  manager writes.
\<close>

record pump_event =
  peExchange :: string
  peMarketType :: string
  peSymbol :: string
  peStartTime :: gotime
  peEndTime :: gotime
  peDuration :: int
  peStartPrice :: string
  pePeakPrice :: string
  pePriceChange :: gofloat
  peVolume :: string
  peTradeCount :: nat
  peTriggerTime :: gotime
  peRelativeTimeMs :: int

record analysis_summary =
  asTotalExchanges :: nat
  asMaxPriceChange :: gofloat
  asFirstPumpExchange :: string
  asPumpDuration :: int
  asTotalVolume :: string

record exchange_result =
  erExchange :: string
  erMarketType :: string
  erTotalTrades :: nat
  erTotalVolume :: gofloat
  erPumpEventsCount :: nat
  erFirstTradeTime :: int
  erLastTradeTime :: int

record pump_analysis =
  paPumpEvents :: "pump_event list"
  paSummary :: analysis_summary
  paExchangeResults :: "(string, exchange_result) gomap"

record analysis_metadata =
  amSymbol :: string
  amTriggerTime :: gotime
  amAnalysisTime :: gotime
  amTotalExchanges :: nat
  amTotalPumpEvents :: nat
  amMaxPriceChange :: gofloat
  amVersion :: string

record user_analysis =
  uaUserID :: string
  uaFirstTradeTime :: gotime
  uaLastTradeTime :: gotime
  uaTradingDuration :: int
  uaStartPrice :: string
  uaEndPrice :: string
  uaAveragePrice :: string
  uaTotalUSDTVolume :: string
  uaTotalQuantity :: string
  uaTradeCount :: nat
  uaExchangeTrades :: "(string, nat) gomap"
  uaRelativeTimeMs :: int
  uaUserRank :: nat

record user_behavior =
  ubAverageTrades :: gofloat
  ubAverageVolume :: string
  ubMedianEntryTime :: int
  ubEarlyTraders :: nat
  ubRegularTraders :: nat
  ubLateTraders :: nat
  ubHighVolumeTraders :: nat

record exchange_insight =
  eiExchangeName :: string
  eiFirstPumpTime :: gotime
  eiRelativePumpTime :: int
  eiPumpEventCount :: nat
  eiMaxPriceChange :: gofloat
  eiAveragePriceChange :: gofloat
  eiUserCount :: nat
  eiTotalVolume :: string
  eiAverageUserVolume :: string
  eiFastestUserTime :: int
  eiUserBehavior :: user_behavior

record exchange_comparison =
  ecFastest :: string
  ecSlowest :: string
  ecMostActive :: string
  ecHighestVolume :: string
  ecReactionTimeSpread :: int
  ecRanking :: "string list"

record refined_analysis =
  raPumpEvents :: "pump_event list"
  raUserAnalysis :: "user_analysis list"
  raSummary :: analysis_summary
  raTopUsers :: "user_analysis list"
  raInsights :: "exchange_insight list"
  raComparison :: exchange_comparison
  raWindowStart :: gotime
  raWindowEnd :: gotime
  raWindowDuration :: int

text \<open>The metadata of a listing event.\<close>

record listing_metadata =
  lmSymbol :: string
  lmTitle :: string
  lmMarkets :: "string list"
  lmAnnouncedAt :: gotime
  lmDetectedAt :: gotime
  lmNoticeURL :: string
  lmTriggerTime :: gotime
  lmIsKRWListing :: bool
  lmStoredAt :: gotime

definition zero_behavior :: user_behavior where
  "zero_behavior =
     \<lparr>ubAverageTrades = Fin 0, ubAverageVolume = '''', ubMedianEntryTime = 0, ubEarlyTraders = 0,
      ubRegularTraders = 0, ubLateTraders = 0, ubHighVolumeTraders = 0\<rparr>"

definition zero_comparison :: exchange_comparison where
  "zero_comparison =
     \<lparr>ecFastest = '''', ecSlowest = '''', ecMostActive = '''', ecHighestVolume = '''',
      ecReactionTimeSpread = 0, ecRanking = []\<rparr>"

text \<open>\<open>time.Time.Sub\<close> saturates at the limits of a \<open>Duration\<close>; \<open>Milliseconds\<close> truncates.\<close>

definition time_sub :: "gotime \<Rightarrow> gotime \<Rightarrow> int" where
  "time_sub a b = max (- (2 ^ 63)) (min (2 ^ 63 - 1) (a - b))"

definition milliseconds :: "int \<Rightarrow> int" where
  "milliseconds d = d sdiv 1000000"

text \<open>\<open>time.UnixMilli\<close>.\<close>

definition of_milli :: "int \<Rightarrow> gotime" where
  "of_milli ms = ms * 1000000"

lemma unix_milli_of_milli [simp]: "unix_milli (of_milli ms) = ms"
  by (simp add: unix_milli_def of_milli_def)

lemma of_milli_less [simp]: "of_milli a < of_milli b \<longleftrightarrow> a < b"
  by (simp add: of_milli_def)

lemma time_sub_self [simp]: "time_sub a a = 0" "milliseconds 0 = 0"
  by (simp_all add: time_sub_def milliseconds_def)

text \<open>\<open>sort.Slice\<close> with a less function: some permutation in which no element is followed by a
  smaller one.  The sort is not stable.\<close>

definition sorts :: "('a \<Rightarrow> 'a \<Rightarrow> bool) \<Rightarrow> ('a list \<Rightarrow> 'a list) \<Rightarrow> bool" where
  "sorts lt f = (\<forall>xs. mset (f xs) = mset xs \<and> sorted_wrt (\<lambda>a b. \<not> lt b a) (f xs))"

lemma sorts_mset: "sorts lt f \<Longrightarrow> mset (f xs) = mset xs"
  by (simp add: sorts_def)

lemma sorts_set: "sorts lt f \<Longrightarrow> set (f xs) = set xs"
  by (metis sorts_mset set_mset_mset)

lemma sorts_length: "sorts lt f \<Longrightarrow> length (f xs) = length xs"
  by (metis sorts_mset size_mset)

lemma sorts_Nil: "sorts lt f \<Longrightarrow> f [] = []"
  using sorts_length [of lt f "[]"] by simp

lemma sorts_sorted: "sorts (\<lambda>a b. k a < k b) f \<Longrightarrow> sorted (map k (f xs))" for k :: "'a \<Rightarrow> int"
  by (simp add: sorts_def sorted_map not_less)

lemma sorts_sort_key: "sorts (\<lambda>a b. k a < k b) (sort_key k)" for k :: "'a \<Rightarrow> int"
  using sorted_sort_key [of k, unfolded sorted_map] by (simp add: sorts_def not_less)

text \<open>When the keys are distinct the result is the same for every sort.\<close>

lemma sorts_unique:
  fixes k :: "'a \<Rightarrow> int"
  assumes s: "sorts (\<lambda>a b. k a < k b) f" and d: "distinct (map k xs)" and p: "mset xs = mset ys"
  shows "f xs = sort_key k ys"
proof -
  have m: "mset (f xs) = mset (sort_key k ys)" using s p by (simp add: sorts_mset)
  have "mset (map k (f xs)) = mset (map k (sort_key k ys))" by (simp only: mset_map m)
  then have "sort (map k (f xs)) = sort (map k (sort_key k ys))"
    by (metis sorted_list_of_multiset_mset)
  then have "map k (f xs) = map k (sort_key k ys)"
    by (simp add: sorted_sort_id sorts_sorted [OF s])
  moreover have "inj_on k (set (f xs))"
    using d s by (simp add: distinct_map sorts_set)
  moreover have "set (f xs) = set (sort_key k ys)" using m by (metis set_mset_mset)
  ultimately show ?thesis by (metis map_inj_on Un_absorb)
qed

section \<open>Slices of a collection\<close>

text \<open>The slice of a market rewritten in place.\<close>

definition put_slice :: "string \<Rightarrow> trade_event list \<Rightarrow> collection_event \<Rightarrow> collection_event" where
  "put_slice k ts ce =
     (if k = ''binance_spot'' then ce\<lparr>BinanceSpot := ts\<rparr>
      else if k = ''binance_futures'' then ce\<lparr>BinanceFutures := ts\<rparr>
      else if k = ''bybit_spot'' then ce\<lparr>BybitSpot := ts\<rparr>
      else if k = ''bybit_futures'' then ce\<lparr>BybitFutures := ts\<rparr>
      else if k = ''okx_spot'' then ce\<lparr>OKXSpot := ts\<rparr>
      else if k = ''okx_futures'' then ce\<lparr>OKXFutures := ts\<rparr>
      else if k = ''kucoin_spot'' then ce\<lparr>KuCoinSpot := ts\<rparr>
      else if k = ''kucoin_futures'' then ce\<lparr>KuCoinFutures := ts\<rparr>
      else if k = ''phemex_spot'' then ce\<lparr>PhemexSpot := ts\<rparr>
      else if k = ''phemex_futures'' then ce\<lparr>PhemexFutures := ts\<rparr>
      else if k = ''gate_spot'' then ce\<lparr>GateSpot := ts\<rparr>
      else if k = ''gate_futures'' then ce\<lparr>GateFutures := ts\<rparr>
      else ce)"

end
