(* ===== verification/PumpAnalyzer.thy ===== *)
theory PumpAnalyzer
  imports StorageTypes
begin

text \<open>
  The pump analyzer, \<open>internal/analyzer/pump_analyzer.go\<close>: windows of one second, the pump events of
  each of the twelve slices of a collection, the summary, and the refined analysis with its users,
  exchange insights and comparison.

  The sorts and the iteration order of a map are fields of a \<open>go_env\<close>; \<open>env_ok\<close> says what Go
  promises of them.  A sort works in place: the collection comes back with its slices sorted.
\<close>

section \<open>State and environment\<close>

record pump_analyzer =
  minPumpPercentage :: gofloat
  timeWindowSize :: int
  minTradesRequired :: nat
  totalAnalyses :: int
  totalPumpsDetected :: int
  lastAnalysis :: gotime

definition new_pump_analyzer :: pump_analyzer where
  "new_pump_analyzer =
     \<lparr>minPumpPercentage = Fin 3, timeWindowSize = 1 * second, minTradesRequired = 5,
      totalAnalyses = 0, totalPumpsDetected = 0, lastAnalysis = zero_time\<rparr>"

record time_window =
  twStart :: int
  twEnd :: int
  twTrades :: "trade_event list"

record go_env =
  sortTrades :: "trade_event list \<Rightarrow> trade_event list"
  sortUsers :: "user_analysis list \<Rightarrow> user_analysis list"
  sortInsights :: "exchange_insight list \<Rightarrow> exchange_insight list"
  groupOrder :: "(string, trade_event list) gomap \<Rightarrow> (string, trade_event list) gomap"

text \<open>The less functions of the code; an exchange without a pump sorts last.\<close>

definition trade_before :: "trade_event \<Rightarrow> trade_event \<Rightarrow> bool" where
  "trade_before s t = (Timestamp s < Timestamp t)"

definition user_before :: "user_analysis \<Rightarrow> user_analysis \<Rightarrow> bool" where
  "user_before u v = (uaFirstTradeTime u < uaFirstTradeTime v)"

definition insight_before :: "exchange_insight \<Rightarrow> exchange_insight \<Rightarrow> bool" where
  "insight_before i j =
     (if eiFirstPumpTime i = zero_time then False
      else if eiFirstPumpTime j = zero_time then True
      else eiFirstPumpTime i < eiFirstPumpTime j)"

definition env_ok :: "go_env \<Rightarrow> bool" where
  "env_ok env = (sorts trade_before (sortTrades env) \<and> sorts user_before (sortUsers env) \<and>
     sorts insight_before (sortInsights env) \<and> iter_order (groupOrder env))"

section \<open>Time windows\<close>

text \<open>The loop of \<open>createTimeWindows\<close>: the windows saved, the current one and its end.  The size is in
  milliseconds; the current window is never empty when it is saved.\<close>

definition window_step ::
  "int \<Rightarrow> trade_event \<Rightarrow> time_window list \<times> time_window option \<times> int \<Rightarrow> time_window list \<times> time_window option \<times> int" where
  "window_step sz t = (\<lambda>(ws, cur, endT).
     (let (ws1, w, endT1) =
        (case cur of
           Some w \<Rightarrow>
             if Timestamp t \<ge> endT then
               (let start = wrap64 ((Timestamp t sdiv sz) * sz) in
                (if twTrades w \<noteq> [] then ws @ [w] else ws,
                 \<lparr>twStart = start, twEnd = wrap64 (start + sz), twTrades = []\<rparr>, wrap64 (start + sz)))
             else (ws, w, endT)
         | None \<Rightarrow>
             (let start = wrap64 ((Timestamp t sdiv sz) * sz) in
              (ws, \<lparr>twStart = start, twEnd = wrap64 (start + sz), twTrades = []\<rparr>, wrap64 (start + sz))))
      in (ws1, Some (w\<lparr>twTrades := twTrades w @ [t]\<rparr>), endT1)))"

definition create_time_windows :: "trade_event list \<Rightarrow> int \<Rightarrow> time_window list" where
  "create_time_windows trades wsize =
     (if trades = [] then []
      else (let sz = milliseconds wsize in
        (case fold (window_step sz) trades ([], None, wrap64 (Timestamp (trades ! 0) + sz)) of
           (ws, Some w, _) \<Rightarrow> if twTrades w \<noteq> [] then ws @ [w] else ws
         | (ws, None, _) \<Rightarrow> ws)))"

section \<open>Pumps of one market\<close>

definition prices_of :: "trade_event list \<Rightarrow> gofloat list" where
  "prices_of ts = List.map_filter (\<lambda>t. float_opt (Price t)) ts"

definition volumes_of :: "trade_event list \<Rightarrow> gofloat list" where
  "volumes_of ts = List.map_filter (\<lambda>t. float_opt (Quantity t)) ts"

definition min_price :: "gofloat list \<Rightarrow> gofloat" where
  "min_price ps = fold (\<lambda>p m. if f_less p m then p else m) ps (ps ! 0)"

definition max_price :: "gofloat list \<Rightarrow> gofloat" where
  "max_price ps = fold (\<lambda>p m. if f_less m p then p else m) ps (ps ! 0)"

definition analyze_time_window ::
  "pump_analyzer \<Rightarrow> string \<Rightarrow> string \<Rightarrow> string \<Rightarrow> time_window \<Rightarrow> gotime \<Rightarrow> pump_event option" where
  "analyze_time_window pa ex mt sm w trig =
     (if length (twTrades w) < minTradesRequired pa then None
      else (let prices = prices_of (twTrades w); volumes = volumes_of (twTrades w) in
        if prices = [] then None
        else (let mn = min_price prices; mx = max_price prices; total = f_sum volumes in
          if f_leq mn (Fin 0) then None
          else (let change = f_mul (f_div (f_sub mx mn) mn) (Fin 100) in
            if is_inf change \<or> is_nan change then None
            else if f_less change (minPumpPercentage pa) then None
            else Some
              \<lparr>peExchange = ex, peMarketType = mt, peSymbol = sm, peStartTime = of_milli (twStart w),
               peEndTime = of_milli (twEnd w), peDuration = wrap64 (twEnd w - twStart w),
               peStartPrice = fixed8 mn, pePeakPrice = fixed8 mx, pePriceChange = change,
               peVolume = fixed8 total, peTradeCount = length (twTrades w), peTriggerTime = trig,
               peRelativeTimeMs = wrap64 (twStart w - unix_milli trig)\<rparr>))))"

definition analyze_windows ::
  "pump_analyzer \<Rightarrow> string \<Rightarrow> string \<Rightarrow> string \<Rightarrow> gotime \<Rightarrow> time_window list \<Rightarrow> pump_event list \<times> gofloat" where
  "analyze_windows pa ex mt sm trig ws =
     fold (\<lambda>w (events, total).
       if length (twTrades w) < minTradesRequired pa then (events, total)
       else ((case analyze_time_window pa ex mt sm w trig of Some e \<Rightarrow> events @ [e] | None \<Rightarrow> events),
             fold (\<lambda>v s. f_add s v) (volumes_of (twTrades w)) total)) ws ([], Fin 0)"

text \<open>\<open>analyzeExchangeMarket\<close>: the events, the result, and the slice as the sort leaves it.\<close>

definition analyze_exchange_market ::
  "go_env \<Rightarrow> pump_analyzer \<Rightarrow> string \<Rightarrow> string \<Rightarrow> string \<Rightarrow> trade_event list \<Rightarrow> gotime \<Rightarrow>
     pump_event list \<times> exchange_result option \<times> trade_event list" where
  "analyze_exchange_market env pa ex mt sm trades trig =
     (if length trades < minTradesRequired pa then ([], None, trades)
      else (let trades = sortTrades env trades;
                ws = create_time_windows trades (timeWindowSize pa);
                (events, total) = analyze_windows pa ex mt sm trig ws
            in (events,
                Some \<lparr>erExchange = ex, erMarketType = mt, erTotalTrades = length trades, erTotalVolume = total,
                      erPumpEventsCount = length events, erFirstTradeTime = Timestamp (trades ! 0),
                      erLastTradeTime = Timestamp (trades ! (length trades - 1))\<rparr>,
                trades)))"

section \<open>Summary\<close>

definition market_key :: "pump_event \<Rightarrow> string" where
  "market_key p = peExchange p @ ''_'' @ peMarketType p"

record summary_state =
  ssMax :: gofloat
  ssFirst :: string
  ssEarliest :: gotime
  ssLatest :: gotime
  ssTotal :: gofloat

definition summary_step :: "pump_event list \<Rightarrow> nat \<times> pump_event \<Rightarrow> summary_state \<Rightarrow> summary_state" where
  "summary_step events = (\<lambda>(i, p) s.
     \<lparr>ssMax = (if f_less (ssMax s) (pePriceChange p) then pePriceChange p else ssMax s),
      ssFirst = (if i = 0 \<or> peRelativeTimeMs p < peRelativeTimeMs (events ! 0) then market_key p else ssFirst s),
      ssEarliest = (if i = 0 \<or> peStartTime p < ssEarliest s then peStartTime p else ssEarliest s),
      ssLatest = (if i = 0 \<or> peEndTime p > ssLatest s then peEndTime p else ssLatest s),
      ssTotal = (case float_opt (peVolume p) of Some v \<Rightarrow> f_add (ssTotal s) v | None \<Rightarrow> ssTotal s)\<rparr>)"

definition generate_analysis_summary ::
  "pump_event list \<Rightarrow> (string, exchange_result) gomap \<Rightarrow> analysis_summary" where
  "generate_analysis_summary events results =
     (let summary = \<lparr>asTotalExchanges = length results, asMaxPriceChange = Fin 0, asFirstPumpExchange = '''',
                     asPumpDuration = 0, asTotalVolume = ''''\<rparr> in
      if events = [] then summary
      else (let s = fold (summary_step events) (zip [0..<length events] events)
                  \<lparr>ssMax = Fin 0, ssFirst = '''', ssEarliest = zero_time, ssLatest = zero_time, ssTotal = Fin 0\<rparr> in
        summary\<lparr>asMaxPriceChange := ssMax s, asFirstPumpExchange := ssFirst s, asTotalVolume := fixed8 (ssTotal s),
          asPumpDuration := (if ssLatest s \<noteq> zero_time \<and> ssEarliest s \<noteq> zero_time
                             then milliseconds (time_sub (ssLatest s) (ssEarliest s)) else 0)\<rparr>))"

definition parse_exchange_market :: "string \<Rightarrow> string \<times> string" where
  "parse_exchange_market em =
     (let parts = split_char (CHR ''_'') em in
      if length parts \<ge> 2 then (parts ! 0, parts ! 1) else (em, ''unknown''))"

section \<open>Analysis of a collection\<close>

definition analyzed_markets :: "string list" where
  "analyzed_markets =
     [''binance_spot'', ''binance_futures'', ''bybit_spot'', ''bybit_futures'', ''okx_spot'', ''okx_futures'',
      ''kucoin_spot'', ''kucoin_futures'', ''phemex_spot'', ''phemex_futures'', ''gate_spot'', ''gate_futures'']"

definition analyze_market ::
  "go_env \<Rightarrow> pump_analyzer \<Rightarrow> string \<Rightarrow> pump_event list \<times> (string, exchange_result) gomap \<times> collection_event \<Rightarrow>
     pump_event list \<times> (string, exchange_result) gomap \<times> collection_event" where
  "analyze_market env pa name = (\<lambda>(events, results, ce).
     (let trades = slice_of name ce in
      if trades = [] then (events, results, ce)
      else (let (ex, mt) = parse_exchange_market name;
                (pumps, result, trades) = analyze_exchange_market env pa ex mt (ceSymbol ce) trades (ceTriggerTime ce);
                ce = put_slice name trades ce
            in if pumps \<noteq> []
               then (events @ pumps, (case result of Some r \<Rightarrow> mput name r results | None \<Rightarrow> results), ce)
               else (events, results, ce))))"

text \<open>The conversion of the results to the structures of the storage package copies each field.\<close>

definition analyze_pumps ::
  "go_env \<Rightarrow> gotime \<Rightarrow> pump_analyzer \<Rightarrow> collection_event option \<Rightarrow>
     (string + pump_analysis) \<times> pump_analyzer \<times> collection_event option" where
  "analyze_pumps env now pa arg =
     (case arg of
        None \<Rightarrow> (Inl ''collection event is nil'', pa, None)
      | Some ce \<Rightarrow>
          (case fold (analyze_market env pa) analyzed_markets ([], [], ce) of
             (events, results, ce') \<Rightarrow>
               (Inr \<lparr>paPumpEvents = events, paSummary = generate_analysis_summary events results,
                     paExchangeResults = results\<rparr>,
                pa\<lparr>totalAnalyses := totalAnalyses pa + 1,
                   totalPumpsDetected := totalPumpsDetected pa + int (length events), lastAnalysis := now\<rparr>,
                Some ce')))"

section \<open>Users\<close>

definition find_earliest_pump_time :: "pump_event list \<Rightarrow> gotime" where
  "find_earliest_pump_time events =
     (if events = [] then zero_time
      else fold (\<lambda>p t. if peStartTime p < t then peStartTime p else t) (tl events) (peStartTime (events ! 0)))"

definition collect_all_trades :: "collection_event \<Rightarrow> gotime \<Rightarrow> gotime \<Rightarrow> trade_event list" where
  "collect_all_trades ce start stop =
     concat (map (\<lambda>k. filter (\<lambda>t. Timestamp t \<ge> unix_milli start \<and> Timestamp t \<le> unix_milli stop) (slice_of k ce))
       analyzed_markets)"

definition group_trades_by_user :: "trade_event list \<Rightarrow> (string, trade_event list) gomap" where
  "group_trades_by_user trades = group_by (\<lambda>t. show_int (Timestamp t)) trades"

definition mcount :: "('k, nat) gomap \<Rightarrow> 'k \<Rightarrow> nat" where
  "mcount m k = (case mget m k of None \<Rightarrow> 0 | Some n \<Rightarrow> n)"

definition calculate_user_stats :: "string \<Rightarrow> trade_event list \<Rightarrow> gotime \<Rightarrow> user_analysis" where
  "calculate_user_stats uid trades pumpStart =
     (let firstT = trades ! 0;
          lastT = trades ! (length trades - 1);
          first_time = of_milli (Timestamp firstT);
          last_time = of_milli (Timestamp lastT);
          usdt = f_sum (map (\<lambda>t. f_mul (float_val (Price t)) (float_val (Quantity t))) trades);
          qty = f_sum (map (\<lambda>t. float_val (Quantity t)) trades);
          counts = fold (\<lambda>t m. let k = Exchange t @ ''_'' @ MarketType t in mput k (mcount m k + 1) m) trades [];
          average = (if f_less (Fin 0) qty then f_div usdt qty else Fin 0)
      in \<lparr>uaUserID = uid, uaFirstTradeTime = first_time, uaLastTradeTime = last_time,
          uaTradingDuration = milliseconds (time_sub last_time first_time),
          uaStartPrice = fixed8 (float_val (Price firstT)), uaEndPrice = fixed8 (float_val (Price lastT)),
          uaAveragePrice = fixed8 average, uaTotalUSDTVolume = fixed8 usdt, uaTotalQuantity = fixed8 qty,
          uaTradeCount = length trades, uaExchangeTrades = counts,
          uaRelativeTimeMs = milliseconds (time_sub first_time pumpStart), uaUserRank = 0\<rparr>)"

definition analyze_users ::
  "go_env \<Rightarrow> (string, trade_event list) gomap \<Rightarrow> gotime \<Rightarrow> user_analysis list" where
  "analyze_users env groups pumpStart =
     concat (map (\<lambda>(uid, trades). if trades = [] then []
                   else [calculate_user_stats uid (sortTrades env trades) pumpStart]) (groupOrder env groups))"

text \<open>\<open>getUserID\<close> for the log line: \<^const>\<open>None\<close> when slicing a shorter identifier panics.\<close>

definition get_user_id :: "user_analysis list \<Rightarrow> nat \<Rightarrow> string option" where
  "get_user_id users i =
     (if i < length users
      then (if length (uaUserID (users ! i)) < 8 then None else Some (take 8 (uaUserID (users ! i))))
      else Some ''N/A'')"

section \<open>Exchange insights\<close>

definition median_entry_time :: "int list \<Rightarrow> int" where
  "median_entry_time entries =
     (let ts = sort entries; n = length ts in
      if n > 0 then
        (if n mod 2 = 0 then wrap64 (ts ! (n div 2 - 1) + ts ! (n div 2)) sdiv 2 else ts ! (n div 2))
      else 0)"

definition calculate_user_behavior :: "user_analysis list \<Rightarrow> user_behavior" where
  "calculate_user_behavior users =
     (if users = [] then zero_behavior
      else (let trades = sum_list (map uaTradeCount users);
                volumes = List.map_filter (\<lambda>u. float_opt (uaTotalUSDTVolume u)) users;
                entry = map uaRelativeTimeMs users;
                n = Fin (of_nat (length users))
            in \<lparr>ubAverageTrades = f_div (Fin (of_nat trades)) n,
                ubAverageVolume = fixed8 (f_div (f_sum volumes) n),
                ubMedianEntryTime = median_entry_time entry,
                ubEarlyTraders = length (filter (\<lambda>r. r \<le> 1000) entry),
                ubRegularTraders = length (filter (\<lambda>r. \<not> r \<le> 1000 \<and> r \<le> 5000) entry),
                ubLateTraders = length (filter (\<lambda>r. \<not> r \<le> 1000 \<and> \<not> r \<le> 5000) entry),
                ubHighVolumeTraders = length (filter (\<lambda>v. f_less (Fin 1000) v) volumes)\<rparr>))"

definition first_pump_time :: "pump_event list \<Rightarrow> gotime" where
  "first_pump_time events =
     fold (\<lambda>p t. if t = zero_time \<or> peStartTime p < t then peStartTime p else t) events zero_time"

definition max_change :: "pump_event list \<Rightarrow> gofloat" where
  "max_change events =
     fold (\<lambda>p m. if f_less m (pePriceChange p) then pePriceChange p else m) events (Fin 0)"

definition trades_on :: "string \<Rightarrow> user_analysis \<Rightarrow> bool" where
  "trades_on ex u = (mcount (uaExchangeTrades u) (ex @ ''_spot'') > 0 \<or>
     mcount (uaExchangeTrades u) (ex @ ''_futures'') > 0)"

definition calculate_exchange_insight ::
  "string \<Rightarrow> pump_event list \<Rightarrow> user_analysis list \<Rightarrow> gotime \<Rightarrow> exchange_insight" where
  "calculate_exchange_insight ex events users pumpStart =
     (let evs = filter (\<lambda>p. peExchange p = ex) events;
          us = filter (trades_on ex) users;
          first = first_pump_time evs;
          volume = f_sum (List.map_filter (\<lambda>u. float_opt (uaTotalUSDTVolume u)) us)
      in \<lparr>eiExchangeName = ex, eiFirstPumpTime = first,
          eiRelativePumpTime =
            (if first \<noteq> zero_time \<and> pumpStart \<noteq> zero_time
             then (let r = milliseconds (time_sub first pumpStart) in if r < 0 then 0 else r) else 0),
          eiPumpEventCount = length evs, eiMaxPriceChange = max_change evs,
          eiAveragePriceChange =
            (if evs \<noteq> [] then f_div (f_sum (map pePriceChange evs)) (Fin (of_nat (length evs))) else Fin 0),
          eiUserCount = length us, eiTotalVolume = fixed8 volume,
          eiAverageUserVolume = fixed8 (if us \<noteq> [] then f_div volume (Fin (of_nat (length us))) else Fin 0),
          eiFastestUserTime = fold (\<lambda>u f. if uaRelativeTimeMs u < f then uaRelativeTimeMs u else f) us 999999999,
          eiUserBehavior = calculate_user_behavior us\<rparr>)"

definition analyzed_exchanges :: "string list" where
  "analyzed_exchanges = [''binance'', ''okx'', ''bybit'', ''kucoin'', ''phemex'', ''gate'']"

definition analyze_exchange_insights ::
  "pump_event list \<Rightarrow> user_analysis list \<Rightarrow> gotime \<Rightarrow> exchange_insight list" where
  "analyze_exchange_insights events users pumpStart =
     filter (\<lambda>i. eiPumpEventCount i > 0 \<or> eiUserCount i > 0)
       (map (\<lambda>ex. calculate_exchange_insight ex events users pumpStart) analyzed_exchanges)"

section \<open>Comparison of the exchanges\<close>

text \<open>The insights come back in the order of the sort, which works on the caller's slice.\<close>

definition most_active :: "exchange_insight list \<Rightarrow> string" where
  "most_active is =
     fst (fold (\<lambda>i (name, best). if eiUserCount i > best then (eiExchangeName i, eiUserCount i) else (name, best)) is ('''', 0))"

definition highest_volume :: "exchange_insight list \<Rightarrow> string" where
  "highest_volume is =
     fst (fold (\<lambda>i (name, best). case float_opt (eiTotalVolume i) of
         Some v \<Rightarrow> if f_less best v then (eiExchangeName i, v) else (name, best)
       | None \<Rightarrow> (name, best)) is ('''', Fin 0))"

definition analyze_exchange_comparison ::
  "go_env \<Rightarrow> exchange_insight list \<Rightarrow> exchange_comparison \<times> exchange_insight list" where
  "analyze_exchange_comparison env insights =
     (if insights = [] then (zero_comparison, [])
      else (let is = sortInsights env insights;
                pumped = filter (\<lambda>i. eiFirstPumpTime i \<noteq> zero_time) is;
                (fastest, t0) = fold (\<lambda>i (name, t). if name = '''' then (eiExchangeName i, eiFirstPumpTime i) else (name, t))
                                  pumped ('''', zero_time);
                (slowest, t1) = fold (\<lambda>i _. (eiExchangeName i, eiFirstPumpTime i)) pumped ('''', zero_time)
            in (\<lparr>ecFastest = fastest, ecSlowest = slowest, ecMostActive = most_active is,
                 ecHighestVolume = highest_volume is,
                 ecReactionTimeSpread = (if t0 \<noteq> zero_time \<and> t1 \<noteq> zero_time then milliseconds (time_sub t1 t0) else 0),
                 ecRanking = map eiExchangeName pumped\<rparr>, is)))"

section \<open>Refined analysis\<close>

definition refined_without_users :: "pump_analysis \<Rightarrow> refined_analysis" where
  "refined_without_users an =
     \<lparr>raPumpEvents = paPumpEvents an, raUserAnalysis = [], raSummary = paSummary an, raTopUsers = [],
      raInsights = [], raComparison = zero_comparison, raWindowStart = zero_time, raWindowEnd = zero_time,
      raWindowDuration = 0\<rparr>"

definition rank_users :: "user_analysis list \<Rightarrow> user_analysis list" where
  "rank_users us = map (\<lambda>(i, u). u\<lparr>uaUserRank := i + 1\<rparr>) (zip [0..<length us] us)"

text \<open>\<open>AnalyzeRefinedPumps\<close>; \<^const>\<open>None\<close> is the panic of the log line.  The statistics are updated a
  second time, after \<open>AnalyzePumps\<close> has counted the same analysis.\<close>

definition analyze_refined_pumps ::
  "go_env \<Rightarrow> gotime \<Rightarrow> pump_analyzer \<Rightarrow> collection_event option \<Rightarrow>
     ((string + refined_analysis) \<times> pump_analyzer \<times> collection_event option) option" where
  "analyze_refined_pumps env now pa arg =
     (if arg = None then Some (Inl ''collection event is nil'', pa, None)
      else (case analyze_pumps env now pa arg of
        (Inl e, pa1, arg1) \<Rightarrow> Some (Inl (''failed to get basic pump analysis: '' @ e), pa1, arg1)
      | (Inr an, pa1, None) \<Rightarrow> Some (Inr (refined_without_users an), pa1, None)
      | (Inr an, pa1, Some ce) \<Rightarrow>
          (if paPumpEvents an = [] then Some (Inr (refined_without_users an), pa1, Some ce)
           else (let start = find_earliest_pump_time (paPumpEvents an) in
             if start = zero_time then Some (Inl ''failed to determine pump start time'', pa1, Some ce)
             else (let stop = start + 10 * second; trades = collect_all_trades ce start stop in
               if trades = [] then Some (Inr (refined_without_users an), pa1, Some ce)
               else (let users = rank_users (sortUsers env (analyze_users env (group_trades_by_user trades) start));
                         top = take 10 users
                     in if get_user_id top 0 = None \<or> get_user_id top 1 = None \<or> get_user_id top 2 = None then None
                        else (case analyze_exchange_comparison env
                                     (analyze_exchange_insights (paPumpEvents an) users start) of
                          (comparison, insights) \<Rightarrow>
                            Some (Inr \<lparr>raPumpEvents = paPumpEvents an, raUserAnalysis = users, raSummary = paSummary an,
                                       raTopUsers = top, raInsights = insights, raComparison = comparison,
                                       raWindowStart = start, raWindowEnd = stop,
                                       raWindowDuration = milliseconds (time_sub stop start)\<rparr>,
                                  pa1\<lparr>totalAnalyses := totalAnalyses pa1 + 1,
                                      totalPumpsDetected := totalPumpsDetected pa1 + int (length (paPumpEvents an)),
                                      lastAnalysis := now\<rparr>,
                                  Some ce))))))))"

record pump_analyzer_stats =
  paTotalAnalyses :: int
  paTotalPumpsDetected :: int
  paLastAnalysis :: gotime
  paMinPumpPercentage :: gofloat
  paTimeWindowSize :: int
  paMinTradesRequired :: nat

definition get_analyzer_stats :: "pump_analyzer \<Rightarrow> pump_analyzer_stats" where
  "get_analyzer_stats pa =
     \<lparr>paTotalAnalyses = totalAnalyses pa, paTotalPumpsDetected = totalPumpsDetected pa,
      paLastAnalysis = lastAnalysis pa, paMinPumpPercentage = minPumpPercentage pa,
      paTimeWindowSize = timeWindowSize pa, paMinTradesRequired = minTradesRequired pa\<rparr>"

end
