(* ===== verification/GoTime.thy ===== *)
theory GoTime
  imports GoFloat
begin

text \<open>
  The calendar of the \<open>time\<close> package as far as the layout \<open>20060102_150405\<close> needs it: the civil date of
  a day by the cycles of 400, 100, 4 and 1 years, and back.
\<close>

section \<open>Days and dates\<close>

definition leap_year :: "int \<Rightarrow> bool" where
  "leap_year y = (y mod 4 = 0 \<and> (y mod 100 \<noteq> 0 \<or> y mod 400 = 0))"

definition month_lengths :: "int \<Rightarrow> int list" where
  "month_lengths y = [31, if leap_year y then 29 else 28, 31, 30, 31, 30, 31, 31, 30, 31, 30, 31]"

text \<open>The month and the day of a day of the year, both from one.\<close>

fun split_month :: "int list \<Rightarrow> int \<Rightarrow> nat \<times> int" where
  "split_month [] d = (1, d + 1)"
| "split_month (l # ls) d =
     (if d < l \<or> ls = [] then (1, d + 1) else (case split_month ls (d - l) of (m, k) \<Rightarrow> (Suc m, k)))"

text \<open>The year and the day of the year of a day counted from the first of January of year 1.\<close>

definition year_of_day :: "int \<Rightarrow> int \<times> int" where
  "year_of_day d =
     (let n400 = d div 146097; d1 = d mod 146097;
          n100 = min 3 (d1 div 36524); d2 = d1 - 36524 * n100;
          n4 = d2 div 1461; d3 = d2 - 1461 * n4;
          n1 = min 3 (d3 div 365)
      in (400 * n400 + 100 * n100 + 4 * n4 + n1 + 1, d3 - 365 * n1))"

definition days_before_year :: "int \<Rightarrow> int" where
  "days_before_year y =
     (let p = y - 1 in 146097 * (p div 400) + 36524 * (p mod 400 div 100) + 1461 * (p mod 100 div 4) + 365 * (p mod 4))"

definition day_of_date :: "int \<Rightarrow> nat \<Rightarrow> int \<Rightarrow> int" where
  "day_of_date y m k = days_before_year y + sum_list (take (m - 1) (month_lengths y)) + k - 1"

text \<open>The days from year 1 to the Unix epoch.\<close>

definition epoch_days :: int where
  "epoch_days = 719162"

section \<open>The layout 20060102\_150405\<close>

definition pad_num :: "nat \<Rightarrow> int \<Rightarrow> string" where
  "pad_num k n = (if n < 0 then ''-'' @ zero_pad k (show_nat (nat (- n))) else zero_pad k (show_nat (nat n)))"

text \<open>\<open>Time.Format\<close>, in a location \<open>off\<close> seconds east of Greenwich.\<close>

definition format_stamp :: "int \<Rightarrow> gotime \<Rightarrow> string" where
  "format_stamp off t =
     (let secs = t div 1000000000 + off; sod = secs mod 86400;
          (y, yd) = year_of_day (secs div 86400 + epoch_days); (m, k) = split_month (month_lengths y) yd
      in pad_num 4 y @ pad_num 2 (int m) @ pad_num 2 k @ ''_'' @
         pad_num 2 (sod div 3600) @ pad_num 2 (sod div 60 mod 60) @ pad_num 2 (sod mod 60))"

definition take_num :: "nat \<Rightarrow> string \<Rightarrow> (int \<times> string) option" where
  "take_num k s =
     (if length s \<ge> k \<and> list_all is_digit (take k s) then Some (int (digits_val (take k s)), drop k s) else None)"

text \<open>After the seconds \<open>Parse\<close> accepts a fraction, a dot or comma and digits, of which nine count.\<close>

definition take_fraction :: "string \<Rightarrow> int \<times> string" where
  "take_fraction s =
     (if length s \<ge> 2 \<and> (hd s = CHR ''.'' \<or> hd s = CHR '','') \<and> is_digit (s ! 1) then
        (let ds = takeWhile is_digit (tl s); n = take 9 ds in
         (int (digits_val n) * 10 ^ (9 - length n), dropWhile is_digit (tl s)))
      else (0, s))"

text \<open>\<open>time.Parse\<close>, which takes the text as a time of UTC.  A one-digit hour, which \<open>Parse\<close> accepts,
  leaves a text that no minute begins, so two digits are asked for here.\<close>

definition parse_stamp :: "string \<Rightarrow> gotime option" where
  "parse_stamp s0 =
     (case take_num 4 s0 of None \<Rightarrow> None | Some (y, s1) \<Rightarrow>
     (case take_num 2 s1 of None \<Rightarrow> None | Some (m, s2) \<Rightarrow>
     (case take_num 2 s2 of None \<Rightarrow> None | Some (k, s3) \<Rightarrow>
     (if s3 = [] \<or> hd s3 \<noteq> CHR ''_'' then None else
     (case take_num 2 (tl s3) of None \<Rightarrow> None | Some (h, s4) \<Rightarrow>
     (case take_num 2 s4 of None \<Rightarrow> None | Some (mi, s5) \<Rightarrow>
     (case take_num 2 s5 of None \<Rightarrow> None | Some (sec, s6) \<Rightarrow>
     (case take_fraction s6 of (nano, s7) \<Rightarrow>
      if m < 1 \<or> 12 < m \<or> h \<ge> 24 \<or> mi \<ge> 60 \<or> sec \<ge> 60 \<or> s7 \<noteq> [] then None
      else if k < 1 \<or> k > month_lengths y ! nat (m - 1) then None
      else Some ((((day_of_date y (nat m) k - epoch_days) * 24 + h) * 60 + mi) * 60000000000 + sec * 1000000000 + nano)))))))))"

section \<open>Dates come back\<close>

lemma rem_unique: "x = q * n + r \<Longrightarrow> 0 \<le> r \<Longrightarrow> r < n \<Longrightarrow> x mod n = r" for x q n r :: int
  by simp

lemma quo_unique: "x = q * n + r \<Longrightarrow> 0 \<le> r \<Longrightarrow> r < n \<Longrightarrow> x div n = q" for x q n r :: int
  by simp

lemma capped_div:
  fixes c k x :: int
  assumes "0 < c" "0 \<le> k" "0 \<le> x" "x \<le> c * (k + 1)"
  shows "0 \<le> min k (x div c) \<and> min k (x div c) \<le> k \<and> 0 \<le> x - c * min k (x div c) \<and>
    (min k (x div c) < k \<longrightarrow> x - c * min k (x div c) < c) \<and> x - c * min k (x div c) \<le> c"
proof (cases "x div c \<le> k")
  case True
  then have "min k (x div c) = x div c" "x - c * min k (x div c) = x mod c"
    by (simp_all add: minus_mult_div_eq_mod)
  with assms True pos_mod_bound [of c x] less_imp_le [OF pos_mod_bound [of c x]] show ?thesis by (simp add: pos_imp_zdiv_nonneg_iff)
next
  case False
  then have m: "min k (x div c) = k" and "k + 1 \<le> x div c" by simp_all
  then have "c * (k + 1) \<le> c * (x div c)" using assms(1) by (intro mult_left_mono) simp_all
  also have "\<dots> \<le> x" using minus_mult_div_eq_mod [of x c] pos_mod_sign [OF assms(1), of x] by linarith
  finally have "x - c * k = c" using assms(4) by (simp add: algebra_simps)
  with assms have "x - c * k = c" by (simp add: algebra_simps)
  with assms show ?thesis unfolding m by simp
qed

lemma year_of_day_back:
  assumes "year_of_day d = (y, yd)"
  shows "days_before_year y + yd = d" "0 \<le> yd" "yd < 365 + (if leap_year y then 1 else 0)"
proof -
  define n400 d1 where "n400 = d div 146097" and "d1 = d mod 146097"
  define n100 where "n100 = min 3 (d1 div 36524)"
  define d2 where "d2 = d1 - 36524 * n100"
  define n4 where "n4 = d2 div 1461"
  define d3 where "d3 = d2 - 1461 * n4"
  define n1 where "n1 = min 3 (d3 div 365)"
  have y: "y = 400 * n400 + 100 * n100 + 4 * n4 + n1 + 1" and yd: "yd = d3 - 365 * n1"
    using assms unfolding year_of_day_def Let_def
    by (simp_all only: prod.inject flip: n400_def d1_def n100_def d2_def n4_def d3_def n1_def)
  have d1: "0 \<le> d1" "d1 < 146097" and d: "d = 146097 * n400 + d1" by (simp_all add: d1_def n400_def)
  note c100 = capped_div [of 36524 3 d1, folded n100_def, folded d2_def, simplified]
  have n100: "0 \<le> n100" "n100 \<le> 3" using c100 d1 by simp_all
  have d2: "0 \<le> d2" "n100 < 3 \<Longrightarrow> d2 < 36524" "d2 < 36525" using c100 d1 by simp_all
  have n4: "0 \<le> n4" "n4 \<le> 24" 
    using zdiv_mono1 [of d2 36524 1461] d2(1,3) by (simp_all add: n4_def pos_imp_zdiv_nonneg_iff)
  have "d3 = d2 mod 1461" unfolding d3_def n4_def by (rule minus_mult_div_eq_mod)
  then have d3: "0 \<le> d3" "d3 < 1461" by simp_all
  have d3': "n100 < 3 \<Longrightarrow> n4 = 24 \<Longrightarrow> d3 < 1460" using d2(2) by (simp add: d3_def)
  note c1 = capped_div [of 365 3 d3, folded n1_def, folded yd, simplified]
  have n1: "0 \<le> n1" "n1 \<le> 3" using c1 d3 by simp_all
  have yd_bounds: "0 \<le> yd" "n1 < 3 \<Longrightarrow> yd < 365" "yd \<le> 365" using c1 d3 by simp_all
  show "0 \<le> yd" by (rule yd_bounds)
  have p: "y - 1 = n400 * 400 + (100 * n100 + 4 * n4 + n1)" by (simp add: y)
  have r: "0 \<le> 100 * n100 + 4 * n4 + n1" "100 * n100 + 4 * n4 + n1 < 400" using n100 n4 n1 by linarith+
  have m400: "(y - 1) div 400 = n400" "(y - 1) mod 400 = 100 * n100 + 4 * n4 + n1"
    using quo_unique [OF p r] rem_unique [OF p r] .
  have q100: "(100 * n100 + 4 * n4 + n1) div 100 = n100"
    using n4 n1 quo_unique [of "100 * n100 + 4 * n4 + n1" n100 100 "4 * n4 + n1"] by simp
  have m100: "(y - 1) mod 100 = 4 * n4 + n1" "(y - 1) mod 4 = n1"
    using rem_unique [of "y - 1" "4 * n400 + n100" 100 "4 * n4 + n1"]
      rem_unique [of "y - 1" "100 * n400 + 25 * n100 + n4" 4 n1] n4 n1 by (simp_all add: y)
  have q4: "(4 * n4 + n1) div 4 = n4" using n1 quo_unique [of "4 * n4 + n1" n4 4 n1] by simp
  show "days_before_year y + yd = d"
    unfolding days_before_year_def Let_def m400 m100 q100 q4 by (simp add: d yd d3_def d2_def)
  show "yd < 365 + (if leap_year y then 1 else 0)"
  proof (cases "yd = 365")
    case True
    then have n1_3: "n1 = 3" using yd_bounds(2) n1 by linarith
    then have "d3 = 1460" using yd True by simp
    then have last: "n4 \<noteq> 24 \<or> n100 = 3" using d3' n100 by linarith
    from n1_3 have y': "y = 400 * n400 + 100 * n100 + 4 * n4 + 4" by (simp add: y)
    then have "y mod 4 = 0" using rem_unique [of y "100 * n400 + 25 * n100 + n4 + 1" 4 0] by simp
    moreover have "y mod 100 \<noteq> 0 \<or> y mod 400 = 0"
    proof (cases "n4 = 24")
      case True
      with last have "y = 400 * (n400 + 1)" by (simp add: y')
      then show ?thesis using rem_unique [of y "n400 + 1" 400 0] by simp
    next
      case False
      then have "y mod 100 = 4 * n4 + 4"
        using rem_unique [of y "4 * n400 + n100" 100 "4 * n4 + 4"] n4 by (simp add: y')
      then show ?thesis using n4 by simp
    qed
    ultimately show ?thesis using True by (simp add: leap_year_def)
  next
    case False
    then show ?thesis using yd_bounds(3) by simp
  qed
qed

lemma year_range:
  assumes "year_of_day d = (y, yd)" "0 \<le> d" "d < 3652059"
  shows "1 \<le> y" "y \<le> 9999"
proof -
  note b = year_of_day_back [OF assms(1)]
  define a q r w where "a = (y - 1) div 400" and "q = (y - 1) mod 400 div 100"
    and "r = (y - 1) mod 100 div 4" and "w = (y - 1) mod 4"
  have m: "0 \<le> q" "0 \<le> r" "0 \<le> w" by (simp_all add: q_def r_def w_def)
  have u: "q \<le> 3" "r \<le> 24" "w \<le> 3"
    using zdiv_mono1 [of "(y - 1) mod 400" 399 100] zdiv_mono1 [of "(y - 1) mod 100" 99 4]
      pos_mod_bound [of 400 "y - 1"] pos_mod_bound [of 100 "y - 1"] pos_mod_bound [of 4 "y - 1"]
    by (simp_all add: q_def r_def w_def)
  have dby: "146097 * a + 36524 * q + 1461 * r + 365 * w + yd = d"
    using b(1) by (simp add: days_before_year_def Let_def a_def q_def r_def w_def)
  have yd: "yd \<le> 365" using b(3) by (simp split: if_splits)
  show "1 \<le> y"
  proof (rule ccontr)
    assume "\<not> 1 \<le> y"
    then have "a \<le> -1" unfolding a_def using zdiv_mono1 [of "y - 1" "-1" 400] by simp
    then show False using dby u yd assms(2) by linarith
  qed
  show "y \<le> 9999"
  proof (rule ccontr)
    assume "\<not> y \<le> 9999"
    then consider "y = 10000" | "10000 \<le> y - 1" by linarith
    then show False
    proof cases
      case 1
      then have "a = 24" "q = 3" "r = 24" "w = 3" by (simp_all add: a_def q_def r_def w_def)
      then show False using dby b(2) assms(3) by simp
    next
      case 2
      then have "25 \<le> a" unfolding a_def using zdiv_mono1 [of 10000 "y - 1" 400] by simp
      then show False using dby m b(2) assms(3) by linarith
    qed
  qed
qed

lemma split_month_back:
  assumes "split_month ls d = (m, k)" "0 \<le> d" "d < sum_list ls" "\<forall>l\<in>set ls. 0 < l"
  shows "1 \<le> m \<and> m \<le> length ls \<and> sum_list (take (m - 1) ls) + k - 1 = d \<and> 1 \<le> k \<and> k \<le> ls ! (m - 1)"
  using assms
proof (induction ls arbitrary: d m)
  case (Cons l ls)
  show ?case
  proof (cases "d < l \<or> ls = []")
    case True
    then show ?thesis using Cons.prems by auto
  next
    case False
    then obtain m' where m: "split_month ls (d - l) = (m', k)" "m = Suc m'"
      using Cons.prems(1) by (auto split: prod.splits)
    have "1 \<le> m' \<and> m' \<le> length ls \<and> sum_list (take (m' - 1) ls) + k - 1 = d - l \<and> 1 \<le> k \<and> k \<le> ls ! (m' - 1)"
      by (rule Cons.IH) (use m False Cons.prems in auto)
    then show ?thesis by (cases m') (auto simp: m(2))
  qed
qed simp

lemma month_lengths_facts:
  "length (month_lengths y) = 12" "sum_list (month_lengths y) = 365 + (if leap_year y then 1 else 0)"
  "\<forall>l\<in>set (month_lengths y). 0 < l \<and> l \<le> 31"
  by (simp_all add: month_lengths_def)

section \<open>The stamp comes back\<close>

lemma show_nat_length: "n < 10 ^ k \<Longrightarrow> 0 < k \<Longrightarrow> length (show_nat n) \<le> k"
proof (induction k arbitrary: n)
  case (Suc k)
  show ?case
  proof (cases "n < 10")
    case True
    then show ?thesis by (subst show_nat.simps) simp
  next
    case False
    then have "0 < k" using Suc.prems by (cases k) auto
    moreover have "n div 10 < 10 ^ k" using Suc.prems(1) by (simp add: less_mult_imp_div_less mult.commute)
    ultimately have "length (show_nat (n div 10)) \<le> k" using Suc.IH by blast
    with False show ?thesis by (subst show_nat.simps) simp
  qed
qed simp

lemma digits_val_zeros: "digits_val (replicate n (CHR ''0'') @ s) = digits_val s"
  by (induction n) (simp_all add: digits_val_def digit_val_def)

lemma take_num_pad:
  assumes "0 \<le> n" "n < 10 ^ k" "0 < k"
  shows "take_num k (pad_num k n @ s) = Some (n, s)"
proof -
  let ?d = "show_nat (nat n)"
  have "nat n < 10 ^ k" using assms(1,2) by (simp add: nat_less_iff)
  then have len: "length ?d \<le> k" using assms(3) by (rule show_nat_length)
  have p: "pad_num k n = replicate (k - length ?d) (CHR ''0'') @ ?d"
    using assms(1) by (simp add: pad_num_def zero_pad_def)
  have "length (pad_num k n) = k" "list_all is_digit (pad_num k n)"
    using len show_nat_digits [of "nat n"] digit_digit_char(1) [of 0] by (auto simp: p list_all_iff digit_char_def)
  moreover have "int (digits_val (pad_num k n)) = n" using assms(1) by (simp add: p digits_val_zeros)
  ultimately show ?thesis by (simp add: take_num_def)
qed

lemma date_parts:
  assumes "- 62135596800 \<le> secs" "secs < 253402300800"
  obtains y yd m k where
    "year_of_day (secs div 86400 + epoch_days) = (y, yd)" "split_month (month_lengths y) yd = (m, k)"
    "1 \<le> y" "y \<le> 9999" "1 \<le> m" "m \<le> 12" "1 \<le> k" "k \<le> month_lengths y ! (m - 1)" "k \<le> 31"
    "day_of_date y m k = secs div 86400 + epoch_days"
proof -
  obtain y yd where y: "year_of_day (secs div 86400 + epoch_days) = (y, yd)" by fastforce
  obtain m k where m: "split_month (month_lengths y) yd = (m, k)" by fastforce
  have "0 \<le> secs div 86400 + epoch_days" "secs div 86400 + epoch_days < 3652059"
    using assms zdiv_mono1 [of "- 62135596800" secs 86400] zdiv_mono1 [of secs 253402300799 86400]
    by (simp_all add: epoch_days_def)
  note range = year_range [OF y this]
  note b = year_of_day_back [OF y]
  have s: "1 \<le> m \<and> m \<le> 12 \<and> sum_list (take (m - 1) (month_lengths y)) + k - 1 = yd \<and> 1 \<le> k \<and> k \<le> month_lengths y ! (m - 1)"
    using split_month_back [OF m b(2)] b(3) month_lengths_facts [of y] by auto
  then have "month_lengths y ! (m - 1) \<in> set (month_lengths y)" by (intro nth_mem) (simp add: month_lengths_facts(1), linarith)
  then have "k \<le> 31" using s month_lengths_facts(3) [of y] by force
  moreover have "day_of_date y m k = secs div 86400 + epoch_days"
    using s b(1) by (simp add: day_of_date_def)
  ultimately show thesis using that [OF y m] range s by blast
qed

lemma format_stamp_parts:
  assumes "- 62135596800 \<le> secs" "secs < 253402300800" "secs = t div 1000000000 + off"
  obtains y m k where
    "format_stamp off t = pad_num 4 y @ pad_num 2 (int m) @ pad_num 2 k @ ''_'' @ pad_num 2 (secs mod 86400 div 3600) @
       pad_num 2 (secs mod 86400 div 60 mod 60) @ pad_num 2 (secs mod 86400 mod 60)"
    "1 \<le> y" "y \<le> 9999" "1 \<le> m" "m \<le> 12" "1 \<le> k" "k \<le> month_lengths y ! (m - 1)" "k \<le> 31"
    "day_of_date y m k = secs div 86400 + epoch_days"
  using that by (rule date_parts [OF assms(1,2)]) (simp add: format_stamp_def Let_def flip: assms(3))

text \<open>The seconds of a day as hours, minutes and seconds.\<close>

lemma clock_parts:
  fixes sod :: int
  assumes "0 \<le> sod" "sod < 86400"
  shows "0 \<le> sod div 3600" "sod div 3600 < 24" "0 \<le> sod div 60 mod 60" "sod div 60 mod 60 < 60"
    "0 \<le> sod mod 60" "sod mod 60 < 60" "(sod div 3600 * 60 + sod div 60 mod 60) * 60 + sod mod 60 = sod"
proof -
  have "sod div 3600 = sod div 60 div 60" by (simp add: zdiv_zmult2_eq)
  then show "(sod div 3600 * 60 + sod div 60 mod 60) * 60 + sod mod 60 = sod" by simp
qed (use assms in \<open>auto simp: pos_imp_zdiv_nonneg_iff\<close>)

lemma pad_num_nonempty: "0 \<le> n \<Longrightarrow> \<exists>c s. pad_num k n = c # s \<and> is_digit c"
  using show_nat_digits [of "nat n"] show_nat_nonempty [of "nat n"]
  by (cases "k - length (show_nat (nat n))"; cases "show_nat (nat n)")
    (auto simp: pad_num_def zero_pad_def is_digit_def)

lemma stamp_roundtrip:
  assumes "- 62135596800 \<le> t div 1000000000 + off" "t div 1000000000 + off < 253402300800"
  shows "parse_stamp (format_stamp off t) = Some ((t div 1000000000 + off) * 1000000000)"
proof -
  let ?s = "t div 1000000000 + off"
  obtain y m k where f: "format_stamp off t = pad_num 4 y @ pad_num 2 (int m) @ pad_num 2 k @ ''_'' @
       pad_num 2 (?s mod 86400 div 3600) @ pad_num 2 (?s mod 86400 div 60 mod 60) @ pad_num 2 (?s mod 86400 mod 60)"
    and r: "1 \<le> y" "y \<le> 9999" "1 \<le> m" "m \<le> 12" "1 \<le> k" "k \<le> month_lengths y ! (m - 1)" "k \<le> 31"
    and day: "day_of_date y m k = ?s div 86400 + epoch_days"
    using format_stamp_parts [OF assms refl] by metis
  define sod where "sod = ?s mod 86400"
  have sod: "0 \<le> sod" "sod < 86400" by (simp_all add: sod_def)
  note h = clock_parts [OF sod]
  have parts: "sod = (sod div 3600 * 60 + sod div 60 mod 60) * 60 + sod mod 60"
    using h(7) by simp
  have "parse_stamp (format_stamp off t) =
      Some ((((day_of_date y m k - epoch_days) * 24 + sod div 3600) * 60 + sod div 60 mod 60) * 60000000000 +
        sod mod 60 * 1000000000)"
    using r h(1-6) unfolding parse_stamp_def f sod_def [symmetric]
    by (simp add: take_num_pad take_num_pad [where s = "[]", simplified] take_fraction_def nat_diff_distrib' not_le)
  also have "(((day_of_date y m k - epoch_days) * 24 + sod div 3600) * 60 + sod div 60 mod 60) * 60000000000 +
        sod mod 60 * 1000000000 = (?s div 86400 * 86400 + sod) * 1000000000"
    unfolding day using parts by (simp add: algebra_simps)
  finally show ?thesis by (simp add: sod_def)
qed

end
