(* ===== verification/StorageManager.thy ===== *)
theory StorageManager
  imports PumpAnalyzer ListingEvent GoTime
begin

text \<open>
  The storage manager, \<open>internal/storage/manager.go\<close>: the files it writes for a listing, a collection
  and its analysis, and the removal of old directories.

  A path is the list of its components.  The disk has directories and files; a file holds the value
  whose JSON text was written, or is torn when a write stopped half way.  The operating system is the
  function \<open>io\<close>: what each call answers is not known to the program.  \<open>jlen\<close> is the length of the JSON
  text of a value.
\<close>

section \<open>Disk\<close>

type_synonym path = "string list"

datatype stored =
    SListing listing_metadata
  | STrades "trade_event list"
  | SAnalysis pump_analysis
  | SPumps "pump_event list"
  | SSummary analysis_summary
  | SRefined refined_analysis
  | SUsers "user_analysis list"
  | SMetadata analysis_metadata
  | SExchange exchange_result "pump_event list"

datatype content = Json stored | Torn

record disk =
  dDirs :: "path list"
  dFiles :: "(path, content) gomap"

datatype io_call =
    MkdirAll path
  | WriteFile path
  | Rename path path
  | Stat path
  | RemoveFile path
  | ReadDir path
  | RemoveAll path

datatype outcome = Done | Failed string | Partial string

type_synonym os = "io_call \<Rightarrow> outcome"

section \<open>State\<close>

record storage_config =
  stEnabled :: bool
  stDataDir :: path
  stRawDataEnabled :: bool
  stRefinedEnabled :: bool
  stRetentionDays :: int

record storage_stats =
  stListingEvents :: int
  stRawFiles :: int
  stRefinedFiles :: int
  stDataSize :: int
  stLastWrite :: gotime
  stLastCleanup :: gotime

record 'a storage_manager =
  smConfig :: storage_config
  smAnalysisEnabled :: bool
  smBaseDir :: path
  smAnalyzer :: "'a option"
  smStats :: storage_stats
  smDisk :: disk

type_synonym 'a step = "'a storage_manager \<Rightarrow> string option \<times> 'a storage_manager"

text \<open>Steps in sequence up to the first that returns an error, and an error wrapped by \<open>fmt.Errorf\<close>.\<close>

fun run_steps :: "('s \<Rightarrow> string option \<times> 's) list \<Rightarrow> 's \<Rightarrow> string option \<times> 's" where
  "run_steps [] s = (None, s)"
| "run_steps (f # fs) s = (case f s of (Some e, s') \<Rightarrow> (Some e, s') | (None, s') \<Rightarrow> run_steps fs s')"

definition wrap_error :: "string \<Rightarrow> ('s \<Rightarrow> string option \<times> 's) \<Rightarrow> 's \<Rightarrow> string option \<times> 's" where
  "wrap_error msg f s = (case f s of (Some e, s') \<Rightarrow> (Some (msg @ e), s') | (None, s') \<Rightarrow> (None, s'))"

definition upd_storage_stats :: "(storage_stats \<Rightarrow> storage_stats) \<Rightarrow> 'a storage_manager \<Rightarrow> 'a storage_manager" where
  "upd_storage_stats f sm = sm\<lparr>smStats := f (smStats sm)\<rparr>"

definition upd_disk :: "(disk \<Rightarrow> disk) \<Rightarrow> 'a storage_manager \<Rightarrow> 'a storage_manager" where
  "upd_disk f sm = sm\<lparr>smDisk := f (smDisk sm)\<rparr>"

definition count_step :: "(storage_stats \<Rightarrow> storage_stats) \<Rightarrow> 'a step" where
  "count_step f sm = (None, upd_storage_stats f sm)"

definition add_raw_files :: "int \<Rightarrow> storage_stats \<Rightarrow> storage_stats" where
  "add_raw_files n st = st\<lparr>stRawFiles := stRawFiles st + n\<rparr>"

definition add_refined_files :: "int \<Rightarrow> storage_stats \<Rightarrow> storage_stats" where
  "add_refined_files n st = st\<lparr>stRefinedFiles := stRefinedFiles st + n\<rparr>"

section \<open>Writing\<close>

definition put_file :: "path \<Rightarrow> content \<Rightarrow> disk \<Rightarrow> disk" where
  "put_file p c d = d\<lparr>dFiles := mput p c (dFiles d)\<rparr>"

definition del_file :: "path \<Rightarrow> disk \<Rightarrow> disk" where
  "del_file p d = d\<lparr>dFiles := mdel p (dFiles d)\<rparr>"

text \<open>\<open>os.MkdirAll\<close> creates the directory and its parents; it may fail with the parents made.\<close>

definition mkdir_all :: "os \<Rightarrow> path \<Rightarrow> 'a step" where
  "mkdir_all io p sm =
     (case io (MkdirAll p) of
        Done \<Rightarrow> (None, upd_disk (\<lambda>d. d\<lparr>dDirs := dDirs d @ filter (\<lambda>q. q \<notin> set (dDirs d)) (prefixes p)\<rparr>) sm)
      | Failed e \<Rightarrow> (Some e, sm)
      | Partial e \<Rightarrow> (Some e, upd_disk (\<lambda>d. d\<lparr>dDirs := dDirs d @ filter (\<lambda>q. q \<notin> set (dDirs d)) (prefixes (butlast p))\<rparr>) sm))"

text \<open>What \<open>encoding/json\<close> refuses: a float that is not finite.\<close>

definition summary_floats :: "analysis_summary \<Rightarrow> gofloat list" where
  "summary_floats s = [asMaxPriceChange s]"

definition insight_floats :: "exchange_insight \<Rightarrow> gofloat list" where
  "insight_floats i = [eiMaxPriceChange i, eiAveragePriceChange i, ubAverageTrades (eiUserBehavior i)]"

fun floats_of :: "stored \<Rightarrow> gofloat list" where
  "floats_of (SListing m) = []"
| "floats_of (STrades ts) = []"
| "floats_of (SAnalysis an) =
     map pePriceChange (paPumpEvents an) @ summary_floats (paSummary an) @
     map (\<lambda>kr. erTotalVolume (snd kr)) (paExchangeResults an)"
| "floats_of (SPumps ps) = map pePriceChange ps"
| "floats_of (SSummary s) = summary_floats s"
| "floats_of (SRefined ra) =
     map pePriceChange (raPumpEvents ra) @ summary_floats (raSummary ra) @ concat (map insight_floats (raInsights ra))"
| "floats_of (SUsers us) = []"
| "floats_of (SMetadata m) = [amMaxPriceChange m]"
| "floats_of (SExchange r ps) = erTotalVolume r # map pePriceChange ps"

definition json_error :: "stored \<Rightarrow> string option" where
  "json_error v =
     (case find (\<lambda>x. \<not> is_fin x) (floats_of v) of
        None \<Rightarrow> None | Some x \<Rightarrow> Some (''json: unsupported value: '' @ fixed8 x))"

definition tmp_path :: "path \<Rightarrow> path" where
  "tmp_path p = butlast p @ [last p @ ''.tmp'']"

text \<open>\<open>writeJSONFile\<close>: \<open>sanitizeJSONData\<close> returns its argument, so it has no part here.\<close>

definition write_json_file :: "os \<Rightarrow> (stored \<Rightarrow> int) \<Rightarrow> path \<Rightarrow> stored \<Rightarrow> 'a step" where
  "write_json_file io jlen p v sm =
     (case json_error v of
        Some e \<Rightarrow> (Some (''JSON marshal failed: '' @ e), sm)
      | None \<Rightarrow>
          (case io (WriteFile (tmp_path p)) of
             Failed e \<Rightarrow> (Some (''temp file write failed: '' @ e), sm)
           | Partial e \<Rightarrow> (Some (''temp file write failed: '' @ e), upd_disk (put_file (tmp_path p) Torn) sm)
           | Done \<Rightarrow>
               (let sm1 = upd_disk (put_file (tmp_path p) (Json v)) sm;
                    renamed = (\<lambda>e. (Some (''atomic rename failed: '' @ e),
                      if io (RemoveFile (tmp_path p)) = Done then upd_disk (del_file (tmp_path p)) sm1 else sm1))
                in (case io (Rename (tmp_path p) p) of
                      Failed e \<Rightarrow> renamed e
                    | Partial e \<Rightarrow> renamed e
                    | Done \<Rightarrow>
                        (let sm2 = upd_disk (put_file p (Json v) \<circ> del_file (tmp_path p)) sm1 in
                         (None, if io (Stat p) = Done
                                then upd_storage_stats (\<lambda>st. st\<lparr>stDataSize := stDataSize st + jlen v\<rparr>) sm2
                                else sm2))))))"

section \<open>Creation\<close>

definition ensure_directories :: "os \<Rightarrow> 'a step" where
  "ensure_directories io sm =
     run_steps (map (\<lambda>d. wrap_error (''failed to create directory '' @ concat d @ '': '') (mkdir_all io d))
       [smBaseDir sm, smBaseDir sm @ [''logs'']]) sm"

definition new_storage_manager :: "os \<Rightarrow> gotime \<Rightarrow> storage_config \<Rightarrow> bool \<Rightarrow> disk \<Rightarrow> 'a storage_manager" where
  "new_storage_manager io now config analysis d =
     snd (ensure_directories io
       \<lparr>smConfig = config, smAnalysisEnabled = analysis, smBaseDir = stDataDir config, smAnalyzer = None,
        smStats = \<lparr>stListingEvents = 0, stRawFiles = 0, stRefinedFiles = 0, stDataSize = 0,
                   stLastWrite = zero_time, stLastCleanup = now\<rparr>,
        smDisk = d\<rparr>)"

definition set_analyzer :: "'a option \<Rightarrow> 'a storage_manager \<Rightarrow> 'a storage_manager" where
  "set_analyzer a sm = sm\<lparr>smAnalyzer := a\<rparr>"

section \<open>Listings\<close>

text \<open>\<open>off\<close> is the offset of the location the time carries, in seconds.\<close>

definition get_event_directory :: "int \<Rightarrow> string \<Rightarrow> gotime \<Rightarrow> 'a storage_manager \<Rightarrow> path" where
  "get_event_directory off symbol t sm = smBaseDir sm @ [symbol @ ''_'' @ format_stamp off t]"

definition store_listing_event ::
  "os \<Rightarrow> (stored \<Rightarrow> int) \<Rightarrow> int \<Rightarrow> gotime \<Rightarrow> listing_event \<Rightarrow> 'a step" where
  "store_listing_event io jlen off now ev sm =
     (if \<not> stEnabled (smConfig sm) then (Some ''storage is disabled'', sm)
      else (let dir = get_event_directory off (evSymbol ev) (AnnouncedAt ev) sm;
                metadata = \<lparr>lmSymbol = evSymbol ev, lmTitle = evTitle ev, lmMarkets = evMarkets ev,
                  lmAnnouncedAt = AnnouncedAt ev, lmDetectedAt = DetectedAt ev, lmNoticeURL = NoticeURL ev,
                  lmTriggerTime = evTriggerTime ev, lmIsKRWListing = IsKRWListing ev, lmStoredAt = now\<rparr>
            in run_steps
                 [wrap_error ''failed to create event directory: '' (mkdir_all io dir),
                  wrap_error ''failed to write metadata: ''
                    (write_json_file io jlen (dir @ [''metadata.json'']) (SListing metadata)),
                  count_step (\<lambda>st. st\<lparr>stListingEvents := stListingEvents st + 1, stLastWrite := now\<rparr>)] sm))"

section \<open>Raw data\<close>

definition stored_exchanges :: "collection_event \<Rightarrow> (string \<times> trade_event list \<times> trade_event list) list" where
  "stored_exchanges ce =
     [(''binance'', BinanceSpot ce, BinanceFutures ce), (''okx'', OKXSpot ce, OKXFutures ce),
      (''bybit'', BybitSpot ce, BybitFutures ce), (''kucoin'', KuCoinSpot ce, KuCoinFutures ce),
      (''phemex'', PhemexSpot ce, PhemexFutures ce), (''gate'', GateSpot ce, GateFutures ce)]"

definition store_exchange_raw ::
  "os \<Rightarrow> (stored \<Rightarrow> int) \<Rightarrow> path \<Rightarrow> string \<times> trade_event list \<times> trade_event list \<Rightarrow> 'a step" where
  "store_exchange_raw io jlen rawDir = (\<lambda>(name, spot, futures).
     run_steps
       [wrap_error (''failed to create '' @ name @ '' directory: '') (mkdir_all io (rawDir @ [name])),
        wrap_error (''failed to write '' @ name @ '' spot data: '')
          (write_json_file io jlen (rawDir @ [name, ''spot.json'']) (STrades spot)),
        count_step (add_raw_files 1),
        wrap_error (''failed to write '' @ name @ '' futures data: '')
          (write_json_file io jlen (rawDir @ [name, ''futures.json'']) (STrades futures)),
        count_step (add_raw_files 1)])"

definition store_raw_data :: "os \<Rightarrow> (stored \<Rightarrow> int) \<Rightarrow> path \<Rightarrow> collection_event \<Rightarrow> 'a step" where
  "store_raw_data io jlen rawDir ce = run_steps (map (store_exchange_raw io jlen rawDir) (stored_exchanges ce))"

section \<open>Analysis of a collection\<close>

text \<open>The interface \<open>PumpAnalyzer\<close>: a result can be nil; the analyzer keeps a state, and may reorder the
  slices of the collection it is given.  \<open>ord\<close> is the order in which the map of results is visited.\<close>

type_synonym 'a analyze = "'a \<Rightarrow> collection_event option \<Rightarrow> (string + pump_analysis option) \<times> 'a \<times> collection_event option"

definition exchange_pump_file :: "os \<Rightarrow> (stored \<Rightarrow> int) \<Rightarrow> path \<Rightarrow> pump_analysis \<Rightarrow> string \<times> exchange_result \<Rightarrow>
    'a storage_manager \<Rightarrow> 'a storage_manager" where
  "exchange_pump_file io jlen refinedDir an = (\<lambda>(k, r) sm.
     if erPumpEventsCount r > 0
     then snd (write_json_file io jlen (refinedDir @ [k @ ''_pumps.json''])
            (SExchange r (filter (\<lambda>p. market_key p = k) (paPumpEvents an))) sm)
     else sm)"

definition perform_pump_analysis ::
  "'a analyze \<Rightarrow> ((string, exchange_result) gomap \<Rightarrow> (string, exchange_result) gomap) \<Rightarrow> os \<Rightarrow> (stored \<Rightarrow> int) \<Rightarrow>
     'a \<Rightarrow> path \<Rightarrow> collection_event \<times> 'a storage_manager \<Rightarrow> string option \<times> collection_event \<times> 'a storage_manager" where
  "perform_pump_analysis analyze ord io jlen a refinedDir = (\<lambda>(ce, sm).
     (case analyze a (Some ce) of (r, a', arg) \<Rightarrow>
       (let ce' = (case arg of None \<Rightarrow> ce | Some c \<Rightarrow> c); sm1 = sm\<lparr>smAnalyzer := Some a'\<rparr> in
        (case r of
           Inl e \<Rightarrow> (Some (''pump analysis failed: '' @ e), ce', sm1)
         | Inr None \<Rightarrow> (Some ''pump analysis returned nil result'', ce', sm1)
         | Inr (Some an) \<Rightarrow>
             (case run_steps
                 [wrap_error ''failed to write pump analysis: ''
                    (write_json_file io jlen (refinedDir @ [''pump_analysis.json'']) (SAnalysis an)),
                  (if paPumpEvents an \<noteq> []
                   then wrap_error ''failed to write pump events: ''
                     (write_json_file io jlen (refinedDir @ [''pump_events.json'']) (SPumps (paPumpEvents an)))
                   else Pair None),
                  wrap_error ''failed to write analysis summary: ''
                    (write_json_file io jlen (refinedDir @ [''summary.json'']) (SSummary (paSummary an))),
                  (\<lambda>s. (None, fold (exchange_pump_file io jlen refinedDir an) (ord (paExchangeResults an)) s)),
                  count_step (add_refined_files (int (length (paExchangeResults an)) + 3))] sm1 of
                (e, sm2) \<Rightarrow> (e, ce', sm2))))))"

definition store_collection_event ::
  "'a analyze \<Rightarrow> ((string, exchange_result) gomap \<Rightarrow> (string, exchange_result) gomap) \<Rightarrow> os \<Rightarrow> (stored \<Rightarrow> int) \<Rightarrow>
     int \<Rightarrow> gotime \<Rightarrow> collection_event \<Rightarrow> 'a storage_manager \<Rightarrow> string option \<times> collection_event \<times> 'a storage_manager" where
  "store_collection_event analyze ord io jlen off now ce sm =
     (if \<not> stEnabled (smConfig sm) then (Some ''storage is disabled'', ce, sm)
      else (let dir = get_event_directory off (ceSymbol ce) (ceTriggerTime ce) sm; rawDir = dir @ [''raw''] in
        (case run_steps
            [wrap_error ''failed to create raw directory: '' (mkdir_all io rawDir),
             (if stRawDataEnabled (smConfig sm)
              then wrap_error ''failed to store raw data: '' (store_raw_data io jlen rawDir ce) else Pair None),
             (if stRefinedEnabled (smConfig sm)
              then wrap_error ''failed to create refined directory: '' (mkdir_all io (dir @ [''refined''])) else Pair None)] sm of
           (Some e, sm1) \<Rightarrow> (Some e, ce, sm1)
         | (None, sm1) \<Rightarrow>
             (let (ce', sm2) =
                (case smAnalyzer sm1 of
                   Some a \<Rightarrow>
                     if stRefinedEnabled (smConfig sm) \<and> smAnalysisEnabled sm1
                     then snd (perform_pump_analysis analyze ord io jlen a (dir @ [''refined'']) (ce, sm1))
                     else (ce, sm1)
                 | None \<Rightarrow> (ce, sm1))
              in (None, ce', upd_storage_stats (\<lambda>st. st\<lparr>stLastWrite := now\<rparr>) sm2)))))"

section \<open>Analysis results of the callers\<close>

definition store_pump_analysis ::
  "os \<Rightarrow> (stored \<Rightarrow> int) \<Rightarrow> int \<Rightarrow> gotime \<Rightarrow> string \<Rightarrow> gotime \<Rightarrow> pump_analysis \<Rightarrow> 'a step" where
  "store_pump_analysis io jlen off now symbol trig an sm =
     (if \<not> stEnabled (smConfig sm) \<or> \<not> stRefinedEnabled (smConfig sm) then (Some ''refined data storage is disabled'', sm)
      else (let dir = get_event_directory off symbol trig sm @ [''refined''] in
        run_steps
          [wrap_error ''failed to create refined directory: '' (mkdir_all io dir),
           wrap_error ''failed to write pump events: ''
             (write_json_file io jlen (dir @ [''pump_events.json'']) (SPumps (paPumpEvents an))),
           wrap_error ''failed to write summary: ''
             (write_json_file io jlen (dir @ [''summary.json'']) (SSummary (paSummary an))),
           wrap_error ''failed to write analysis metadata: ''
             (write_json_file io jlen (dir @ [''analysis_metadata.json'']) (SMetadata
               \<lparr>amSymbol = symbol, amTriggerTime = trig, amAnalysisTime = now,
                amTotalExchanges = asTotalExchanges (paSummary an), amTotalPumpEvents = length (paPumpEvents an),
                amMaxPriceChange = asMaxPriceChange (paSummary an), amVersion = ''2.0''\<rparr>)),
           count_step (\<lambda>st. (add_refined_files 3 st)\<lparr>stLastWrite := now\<rparr>)] sm))"

definition refined_metadata :: "gotime \<Rightarrow> string \<Rightarrow> nat \<Rightarrow> string \<Rightarrow> gotime \<Rightarrow> refined_analysis \<Rightarrow> analysis_metadata" where
  "refined_metadata now symbol exchanges version start ra =
     \<lparr>amSymbol = symbol, amTriggerTime = start, amAnalysisTime = now, amTotalExchanges = exchanges,
      amTotalPumpEvents = length (raPumpEvents ra), amMaxPriceChange = asMaxPriceChange (raSummary ra),
      amVersion = version\<rparr>"

definition store_aggregated_analysis :: "os \<Rightarrow> (stored \<Rightarrow> int) \<Rightarrow> gotime \<Rightarrow> path \<Rightarrow> refined_analysis \<Rightarrow> 'a step" where
  "store_aggregated_analysis io jlen now dir ra =
     run_steps
       [wrap_error ''failed to write refined analysis: '' (write_json_file io jlen (dir @ [''refined_analysis.json'']) (SRefined ra)),
        wrap_error ''failed to write top users: '' (write_json_file io jlen (dir @ [''top_users.json'']) (SUsers (raTopUsers ra))),
        wrap_error ''failed to write pump events: '' (write_json_file io jlen (dir @ [''pump_events.json'']) (SPumps (raPumpEvents ra))),
        wrap_error ''failed to write summary: '' (write_json_file io jlen (dir @ [''summary.json'']) (SSummary (raSummary ra))),
        wrap_error ''failed to write analysis metadata: ''
          (write_json_file io jlen (dir @ [''analysis_metadata.json''])
            (SMetadata (refined_metadata now ''aggregated'' (asTotalExchanges (raSummary ra)) ''2.1'' (raWindowStart ra) ra))),
        count_step (add_refined_files 5)]"

text \<open>The map of a user is looked up under the bare name of the exchange.\<close>

definition filter_analysis_for_exchange :: "refined_analysis \<Rightarrow> string \<Rightarrow> refined_analysis" where
  "filter_analysis_for_exchange ra ex =
     (let pumps = filter (\<lambda>p. peExchange p = ex) (raPumpEvents ra);
          users = filter (\<lambda>u. case mget (uaExchangeTrades u) ex of Some n \<Rightarrow> n > 0 | None \<Rightarrow> False) (raUserAnalysis ra)
      in \<lparr>raPumpEvents = pumps, raUserAnalysis = users,
          raSummary = \<lparr>asTotalExchanges = 1, asMaxPriceChange = max_change pumps, asFirstPumpExchange = ex,
            asPumpDuration = asPumpDuration (raSummary ra), asTotalVolume = asTotalVolume (raSummary ra)\<rparr>,
          raTopUsers = (if length users > 10 then take 10 users else users),
          raInsights = [], raComparison = zero_comparison,
          raWindowStart = raWindowStart ra, raWindowEnd = raWindowEnd ra, raWindowDuration = raWindowDuration ra\<rparr>)"

definition store_exchange_analysis ::
  "os \<Rightarrow> (stored \<Rightarrow> int) \<Rightarrow> gotime \<Rightarrow> path \<Rightarrow> refined_analysis \<Rightarrow> string \<Rightarrow> 'a step" where
  "store_exchange_analysis io jlen now refinedDir ra ex sm =
     (let dir = refinedDir @ [ex]; xa = filter_analysis_for_exchange ra ex in
      (case wrap_error (''failed to create '' @ ex @ '' refined directory: '') (mkdir_all io dir) sm of
         (Some e, sm1) \<Rightarrow> (Some e, sm1)
       | (None, sm1) \<Rightarrow>
           if raPumpEvents xa = [] \<and> raUserAnalysis xa = [] then (None, sm1)
           else run_steps
             [wrap_error (''failed to write '' @ ex @ '' analysis: '') (write_json_file io jlen (dir @ [''analysis.json'']) (SRefined xa)),
              (if raTopUsers xa \<noteq> []
               then wrap_error (''failed to write '' @ ex @ '' top users: '')
                 (write_json_file io jlen (dir @ [''top_users.json'']) (SUsers (raTopUsers xa)))
               else Pair None),
              wrap_error (''failed to write '' @ ex @ '' metadata: '')
                (write_json_file io jlen (dir @ [''metadata.json''])
                  (SMetadata (refined_metadata now ex 1 ''2.1-exchange'' (raWindowStart ra) xa))),
              count_step (add_refined_files 3)] sm1))"

definition store_per_exchange_analysis :: "os \<Rightarrow> (stored \<Rightarrow> int) \<Rightarrow> gotime \<Rightarrow> path \<Rightarrow> refined_analysis \<Rightarrow> 'a step" where
  "store_per_exchange_analysis io jlen now refinedDir ra =
     run_steps (map (store_exchange_analysis io jlen now refinedDir ra)
       [''binance'', ''okx'', ''bybit'', ''kucoin'', ''phemex'', ''gate''])"

definition store_refined_analysis ::
  "os \<Rightarrow> (stored \<Rightarrow> int) \<Rightarrow> int \<Rightarrow> gotime \<Rightarrow> string \<Rightarrow> gotime \<Rightarrow> refined_analysis \<Rightarrow> 'a step" where
  "store_refined_analysis io jlen off now symbol trig ra sm =
     (if \<not> stEnabled (smConfig sm) \<or> \<not> stRefinedEnabled (smConfig sm) then (Some ''refined data storage is disabled'', sm)
      else (let dir = get_event_directory off symbol trig sm @ [''refined''] in
        run_steps
          [wrap_error ''failed to create refined directory: '' (mkdir_all io dir),
           wrap_error ''failed to store aggregated analysis: '' (store_aggregated_analysis io jlen now dir ra),
           wrap_error ''failed to store per-exchange analysis: '' (store_per_exchange_analysis io jlen now dir ra),
           count_step (\<lambda>st. st\<lparr>stLastWrite := now\<rparr>)] sm))"

section \<open>Retention\<close>

definition extract_timestamp_from_dir :: "string \<Rightarrow> gotime" where
  "extract_timestamp_from_dir name =
     (let parts = split_char (CHR ''_'') name; n = length parts in
      if n \<ge> 3 then
        (case parse_stamp (parts ! (n - 2) @ ''_'' @ parts ! (n - 1)) of Some t \<Rightarrow> t | None \<Rightarrow> zero_time)
      else zero_time)"

definition remove_tree :: "path \<Rightarrow> disk \<Rightarrow> disk" where
  "remove_tree p d =
     d\<lparr>dDirs := filter (\<lambda>q. \<not> prefix p q) (dDirs d), dFiles := filter (\<lambda>f. \<not> prefix p (fst f)) (dFiles d)\<rparr>"

text \<open>A removal that stops half way leaves the directories.\<close>

definition remove_old_dir :: "os \<Rightarrow> gotime \<Rightarrow> path \<Rightarrow> disk \<Rightarrow> disk" where
  "remove_old_dir io cutoff p d =
     (let t = extract_timestamp_from_dir (last p) in
      if t \<noteq> zero_time \<and> t < cutoff then
        (case io (RemoveAll p) of
           Done \<Rightarrow> remove_tree p d
         | Failed e \<Rightarrow> d
         | Partial e \<Rightarrow> d\<lparr>dFiles := filter (\<lambda>f. \<not> prefix p (fst f)) (dFiles d)\<rparr>)
      else d)"

definition subdirs :: "path \<Rightarrow> disk \<Rightarrow> path list" where
  "subdirs base d = filter (\<lambda>q. q \<noteq> [] \<and> butlast q = base) (dDirs d)"

definition cleanup_old_data :: "os \<Rightarrow> gotime \<Rightarrow> 'a step" where
  "cleanup_old_data io now sm =
     (if stRetentionDays (smConfig sm) \<le> 0 then (None, sm)
      else (let cutoff = now - stRetentionDays (smConfig sm) * 24 * hour;
                read_failed = (\<lambda>e. (Some (''failed to read base directory: '' @ e), sm))
            in (case io (ReadDir (smBaseDir sm)) of
                  Failed e \<Rightarrow> read_failed e
                | Partial e \<Rightarrow> read_failed e
                | Done \<Rightarrow>
                    (None, upd_storage_stats (\<lambda>st. st\<lparr>stLastCleanup := now\<rparr>)
                      (upd_disk (\<lambda>d. fold (remove_old_dir io cutoff) (subdirs (smBaseDir sm) d) d) sm)))))"

definition close_storage :: "os \<Rightarrow> gotime \<Rightarrow> 'a storage_manager \<Rightarrow> 'a storage_manager" where
  "close_storage io now sm =
     (if stRetentionDays (smConfig sm) > 0 then snd (cleanup_old_data io now sm) else sm)"

definition get_storage_stats :: "'a storage_manager \<Rightarrow> storage_stats" where
  "get_storage_stats sm = smStats sm"

text \<open>The analyzer that \<open>main.go\<close> hands over; its result is never nil.\<close>

definition code_analyzer :: "go_env \<Rightarrow> gotime \<Rightarrow> pump_analyzer analyze" where
  "code_analyzer env now pa arg =
     (case analyze_pumps env now pa arg of
        (Inl e, pa', arg') \<Rightarrow> (Inl e, pa', arg')
      | (Inr an, pa', arg') \<Rightarrow> (Inr (Some an), pa', arg'))"

end
