(* ===== verification/PumpAnalyzerProps.thy ===== *)
theory PumpAnalyzerProps
  imports PumpAnalyzer
begin

text \<open>
  What the pump analyzer computes: its windows are the seconds of the clock, its pump events depend on
  nothing but the set of trades of a second, and the refined analysis ranks the millisecond groups.
\<close>

section \<open>Windows are seconds\<close>

definition sec_of :: "trade_event \<Rightarrow> int" where
  "sec_of t = Timestamp t div 1000"

definition second_window :: "trade_event list \<Rightarrow> int \<Rightarrow> time_window" where
  "second_window ts k =
     \<lparr>twStart = k * 1000, twEnd = k * 1000 + 1000, twTrades = filter (\<lambda>t. sec_of t = k) ts\<rparr>"

definition seconds :: "trade_event list \<Rightarrow> int list" where
  "seconds ts = remdups_adj (map sec_of ts)"

definition clocked :: "trade_event \<Rightarrow> bool" where
  "clocked t = (0 \<le> Timestamp t \<and> Timestamp t < 2 ^ 62)"

lemma remdups_adj_snoc:
  "remdups_adj (xs @ [x]) = (if xs \<noteq> [] \<and> last xs = x then remdups_adj xs else remdups_adj xs @ [x])"
proof (induction xs rule: remdups_adj.induct)
  case (3 y z xs)
  then show ?case by (cases "y = z") auto
qed simp_all

lemma seconds_Nil [simp]: "seconds [] = []"
  by (simp add: seconds_def)

lemma seconds_snoc:
  "seconds (ts @ [t]) = (if ts \<noteq> [] \<and> sec_of (last ts) = sec_of t then seconds ts else seconds ts @ [sec_of t])"
  by (auto simp: seconds_def remdups_adj_snoc last_map)

lemma set_seconds [simp]: "set (seconds ts) = sec_of ` set ts"
  by (simp add: seconds_def)

lemma sec_of_mono: "Timestamp s \<le> Timestamp t \<Longrightarrow> sec_of s \<le> sec_of t"
  by (simp add: sec_of_def zdiv_mono1)

lemma sorted_sec: "sorted (map Timestamp ts) \<Longrightarrow> sorted (map sec_of ts)"
  by (simp add: sorted_map) (erule sorted_wrt_mono_rel [rotated], simp add: sec_of_mono)

lemma remdups_adj_sorted_distinct: "sorted xs \<Longrightarrow> distinct (remdups_adj xs)" for xs :: "int list"
proof (induction xs rule: remdups_adj.induct)
  case (3 x y xs)
  then have "x \<noteq> y \<Longrightarrow> x \<notin> set (y # xs)" by force
  with 3 show ?case by simp
qed simp_all

lemma seconds_sorted: "sorted (map Timestamp ts) \<Longrightarrow> sorted (seconds ts) \<and> distinct (seconds ts)"
  using sorted_sec [of ts] by (simp add: seconds_def sorted_remdups_adj remdups_adj_sorted_distinct)

lemma seconds_last:
  assumes "ts \<noteq> []"
  shows "\<exists>ks. seconds ts = ks @ [sec_of (last ts)]"
  using assms
proof (induction ts rule: rev_induct)
  case (snoc t ts)
  show ?case
  proof (cases "ts = []")
    case False
    then obtain ks where "seconds ts = ks @ [sec_of (last ts)]" using snoc.IH by blast
    then show ?thesis by (auto simp: seconds_snoc)
  qed (simp add: seconds_def)
qed simp

lemma window_bounds:
  assumes "clocked t"
  shows "wrap64 ((Timestamp t sdiv 1000) * 1000) = sec_of t * 1000"
    and "wrap64 (sec_of t * 1000 + 1000) = sec_of t * 1000 + 1000"
proof -
  have b: "0 \<le> sec_of t * 1000" "sec_of t * 1000 \<le> Timestamp t" "Timestamp t < 2 ^ 62"
    using assms by (auto simp: sec_of_def clocked_def)
  have "Timestamp t sdiv 1000 = sec_of t" using assms by (simp add: sdiv_nonneg sec_of_def clocked_def)
  then show "wrap64 ((Timestamp t sdiv 1000) * 1000) = sec_of t * 1000"
    using b by simp
  show "wrap64 (sec_of t * 1000 + 1000) = sec_of t * 1000 + 1000"
    using b by simp
qed

lemma sec_of_less_end: "Timestamp t \<ge> k * 1000 + 1000 \<longleftrightarrow> k < sec_of t"
  unfolding sec_of_def by linarith

lemma window_step_in:
  "\<not> Timestamp t \<ge> e \<Longrightarrow> window_step 1000 t (ws, Some w, e) = (ws, Some (w\<lparr>twTrades := twTrades w @ [t]\<rparr>), e)"
  by (simp add: window_step_def)

lemma window_step_new:
  assumes "clocked t"
  shows "window_step 1000 t ([], None, e) = ([], Some (second_window [t] (sec_of t)), sec_of t * 1000 + 1000)"
    and "Timestamp t \<ge> e \<Longrightarrow> twTrades w \<noteq> [] \<Longrightarrow>
      window_step 1000 t (ws, Some w, e) = (ws @ [w], Some (second_window [t] (sec_of t)), sec_of t * 1000 + 1000)"
  using window_bounds [OF assms] by (simp_all add: window_step_def second_window_def Let_def)

lemma second_window_snoc:
  "k \<noteq> sec_of t \<Longrightarrow> second_window (ts @ [t]) k = second_window ts k"
  "second_window (ts @ [t]) (sec_of t) =
     (second_window ts (sec_of t))\<lparr>twTrades := twTrades (second_window ts (sec_of t)) @ [t]\<rparr>"
  by (simp_all add: second_window_def)

lemma second_window_fresh:
  "\<forall>u\<in>set ts. sec_of u < sec_of t \<Longrightarrow> second_window (ts @ [t]) (sec_of t) = second_window [t] (sec_of t)"
  by (force simp: second_window_def filter_empty_conv)

lemma second_window_simps [simp]:
  "twStart (second_window ts k) = k * 1000" "twEnd (second_window ts k) = k * 1000 + 1000"
  "twTrades (second_window ts k) = filter (\<lambda>t. sec_of t = k) ts"
  by (simp_all add: second_window_def)

lemma window_loop:
  assumes "ts \<noteq> []" "sorted (map Timestamp ts)" "\<forall>t\<in>set ts. clocked t"
  shows "\<exists>ws w. fold (window_step 1000) ts ([], None, e0) = (ws, Some w, twEnd w) \<and>
    ws @ [w] = map (second_window ts) (seconds ts)"
  using assms
proof (induction ts rule: rev_induct)
  case (snoc t ts)
  let ?k = "sec_of t"
  have c: "clocked t" using snoc.prems by simp
  show ?case
  proof (cases "ts = []")
    case True
    then show ?thesis by (simp add: window_step_new [OF c] seconds_def)
  next
    case False
    let ?l = "sec_of (last ts)"
    have st: "sorted (map Timestamp ts)" using snoc.prems by (simp add: sorted_append)
    with snoc.IH False snoc.prems obtain ws w where
      ih: "fold (window_step 1000) ts ([], None, e0) = (ws, Some w, twEnd w)"
        "ws @ [w] = map (second_window ts) (seconds ts)" by auto
    obtain ks where ks: "seconds ts = ks @ [?l]" using seconds_last [OF False] by blast
    then have w: "w = second_window ts ?l" and ws: "ws = map (second_window ts) ks"
      using ih(2) by simp_all
    have le: "?l \<le> ?k"
      using snoc.prems(2) False by (intro sec_of_mono) (simp add: sorted_append)
    have below: "k < ?l" if "k \<in> set ks" for k
      using seconds_sorted [OF st] that unfolding ks by (auto simp: sorted_append order_less_le)
    have all: "\<forall>u\<in>set ts. sec_of u \<le> ?l"
    proof
      fix u assume "u \<in> set ts"
      then have "sec_of u \<in> set (seconds ts)" by simp
      then show "sec_of u \<le> ?l" unfolding ks using below by (auto intro: less_imp_le)
    qed
    have old: "map (second_window (ts @ [t])) ks = ws"
      unfolding ws by (rule map_cong) (use second_window_snoc(1) below le in force)+
    show ?thesis
    proof (cases "?l = ?k")
      case True
      then have "\<not> Timestamp t \<ge> twEnd w" using sec_of_less_end [of ?k t] by (simp add: w)
      then show ?thesis
        using True False old second_window_snoc(2) [of ts t]
        by (simp add: ih(1) window_step_in seconds_snoc ks w)
    next
      case neq: False
      have "last ts \<in> set ts" using False by simp
      then have "twTrades w \<noteq> []" unfolding w by (auto simp: filter_empty_conv)
      moreover have "Timestamp t \<ge> twEnd w" using le neq sec_of_less_end [of ?l t] by (simp add: w)
      moreover have "second_window (ts @ [t]) ?k = second_window [t] ?k"
        by (rule second_window_fresh) (use all le neq in force)
      ultimately show ?thesis
        using neq False old second_window_snoc(1) [of ?l t ts]
        by (simp add: ih(1) window_step_new [OF c] seconds_snoc ks) (simp add: w)
    qed
  qed
qed simp

lemma windows_are_seconds:
  assumes "sorted (map Timestamp ts)" "\<forall>t\<in>set ts. clocked t"
  shows "create_time_windows ts second = map (second_window ts) (seconds ts)"
proof (cases "ts = []")
  case False
  have sz: "milliseconds second = 1000" by (simp add: milliseconds_def second_def sdiv_nonneg)
  from window_loop [OF False assms] obtain ws w where
    l: "fold (window_step 1000) ts ([], None, wrap64 (Timestamp (ts ! 0) + 1000)) = (ws, Some w, twEnd w)"
      "ws @ [w] = map (second_window ts) (seconds ts)" by blast
  have "w \<in> second_window ts ` set (seconds ts)" using l(2) by (metis list.set_map in_set_conv_decomp)
  then have "twTrades w \<noteq> []" by (auto simp: filter_empty_conv)
  with l False show ?thesis by (simp add: create_time_windows_def sz)
qed (simp add: create_time_windows_def)

section \<open>What makes a second a pump\<close>

definition finite_prices :: "trade_event list \<Rightarrow> bool" where
  "finite_prices ts = (\<forall>t\<in>set ts. case float_opt (Price t) of Some v \<Rightarrow> is_fin v | None \<Rightarrow> True)"

definition rational_prices :: "trade_event list \<Rightarrow> rat list" where
  "rational_prices ts =
     List.map_filter (\<lambda>t. case float_opt (Price t) of Some (Fin q) \<Rightarrow> Some q | _ \<Rightarrow> None) ts"

lemma prices_of_rational: "finite_prices ts \<Longrightarrow> prices_of ts = map Fin (rational_prices ts)"
proof (induction ts)
  case (Cons t ts)
  then have ih: "prices_of ts = map Fin (rational_prices ts)" by (simp add: finite_prices_def)
  show ?case
  proof (cases "float_opt (Price t)")
    case None
    with ih show ?thesis by (simp add: prices_of_def rational_prices_def List.map_filter_simps)
  next
    case (Some v)
    then obtain q where "v = Fin q" using Cons.prems by (cases v) (auto simp: finite_prices_def)
    with Some ih show ?thesis by (simp add: prices_of_def rational_prices_def List.map_filter_simps)
  qed
qed (simp add: prices_of_def rational_prices_def List.map_filter_simps)

lemma min_price_Fin: "qs \<noteq> [] \<Longrightarrow> min_price (map Fin qs) = Fin (Min (set qs))"
proof -
  have "fold (\<lambda>p m. if f_less p m then p else m) (map Fin qs) (Fin q0) = Fin (fold min qs q0)" for q0
    by (induction qs arbitrary: q0) (auto simp: min_def)
  moreover have "fold min qs (hd qs) = Min (set qs)" if "qs \<noteq> []"
  proof -
    from that obtain a l where qs: "qs = a # l" by (cases qs) auto
    have "fold min l a = Min (set (a # l))" by (rule Min.set_eq_fold [symmetric])
    then show ?thesis by (simp only: qs list.sel fold_simps min.idem)
  qed
  ultimately show "qs \<noteq> [] \<Longrightarrow> min_price (map Fin qs) = Fin (Min (set qs))"
    by (simp add: min_price_def hd_conv_nth)
qed

lemma max_price_Fin: "qs \<noteq> [] \<Longrightarrow> max_price (map Fin qs) = Fin (Max (set qs))"
proof -
  have "fold (\<lambda>p m. if f_less m p then p else m) (map Fin qs) (Fin q0) = Fin (fold max qs q0)" for q0
    by (induction qs arbitrary: q0) (auto simp: max_def)
  moreover have "fold max qs (hd qs) = Max (set qs)" if "qs \<noteq> []"
  proof -
    from that obtain a l where qs: "qs = a # l" by (cases qs) auto
    have "fold max l a = Max (set (a # l))" by (rule Max.set_eq_fold [symmetric])
    then show ?thesis by (simp only: qs list.sel fold_simps max.idem)
  qed
  ultimately show "qs \<noteq> [] \<Longrightarrow> max_price (map Fin qs) = Fin (Max (set qs))"
    by (simp add: max_price_def hd_conv_nth)
qed

text \<open>The price change in percent of a window whose prices are \<open>qs\<close>.\<close>

definition change_of :: "rat list \<Rightarrow> rat" where
  "change_of qs = (Max (set qs) - Min (set qs)) / Min (set qs) * 100"

lemma analyze_time_window_finite:
  assumes "finite_prices (twTrades w)"
  shows "analyze_time_window pa ex mt sm w trig =
    (let qs = rational_prices (twTrades w) in
     if length (twTrades w) < minTradesRequired pa \<or> qs = [] \<or> Min (set qs) \<le> 0 \<or>
        f_less (Fin (change_of qs)) (minPumpPercentage pa) then None
     else Some
       \<lparr>peExchange = ex, peMarketType = mt, peSymbol = sm, peStartTime = of_milli (twStart w),
        peEndTime = of_milli (twEnd w), peDuration = wrap64 (twEnd w - twStart w),
        peStartPrice = fixed8 (Fin (Min (set qs))), pePeakPrice = fixed8 (Fin (Max (set qs))),
        pePriceChange = Fin (change_of qs), peVolume = fixed8 (f_sum (volumes_of (twTrades w))),
        peTradeCount = length (twTrades w), peTriggerTime = trig,
        peRelativeTimeMs = wrap64 (twStart w - unix_milli trig)\<rparr>)"
proof (cases "rational_prices (twTrades w) = []")
  case True
  then show ?thesis by (simp add: analyze_time_window_def prices_of_rational [OF assms])
next
  case False
  define m M where "m = Min (set (rational_prices (twTrades w)))" and "M = Max (set (rational_prices (twTrades w)))"
  have "min_price (prices_of (twTrades w)) = Fin m" "max_price (prices_of (twTrades w)) = Fin M"
    "prices_of (twTrades w) \<noteq> []"
    unfolding prices_of_rational [OF assms] m_def M_def
    by (rule min_price_Fin [OF False], rule max_price_Fin [OF False], use False in simp)
  moreover have "f_mul (f_div (f_sub (Fin M) (Fin m)) (Fin m)) (Fin 100) = Fin ((M - m) / m * 100)" if "\<not> m \<le> 0"
    using that by (simp add: f_sub_def)
  moreover have "f_leq (Fin m) (Fin 0) = (m \<le> 0)" by (simp add: f_leq_def not_less)
  ultimately show ?thesis
    using False by (simp only: analyze_time_window_def Let_def change_of_def m_def [symmetric] M_def [symmetric])
      (simp add: is_inf_def is_nan_def)
qed

lemma map_filter_perm: "mset xs = mset ys \<Longrightarrow> mset (List.map_filter f xs) = mset (List.map_filter f ys)"
  unfolding List.map_filter_def mset_map mset_filter by simp

lemma window_perm:
  assumes "mset (twTrades w) = mset (twTrades v)" "twStart w = twStart v" "twEnd w = twEnd v"
    and "finite_prices (twTrades w)"
  shows "analyze_time_window pa ex mt sm w trig = analyze_time_window pa ex mt sm v trig"
proof -
  let ?w = "twTrades w" and ?v = "twTrades v"
  have st: "set ?w = set ?v" and ln: "length ?w = length ?v"
    using assms(1) by (metis set_mset_mset) (metis assms(1) size_mset)
  then have fin: "finite_prices ?v" using assms(4) by (simp add: finite_prices_def)
  have "mset (rational_prices ?w) = mset (rational_prices ?v)"
    unfolding rational_prices_def by (rule map_filter_perm [OF assms(1)])
  then have q: "set (rational_prices ?w) = set (rational_prices ?v)"
      "(rational_prices ?w = []) = (rational_prices ?v = [])"
    by (metis set_mset_mset) (metis \<open>mset (rational_prices ?w) = _\<close> mset_zero_iff)
  have "f_sum (volumes_of ?w) = f_sum (volumes_of ?v)"
    unfolding volumes_of_def by (rule f_sum_perm [OF map_filter_perm [OF assms(1)]])
  then show ?thesis
    unfolding analyze_time_window_finite [OF assms(4)] analyze_time_window_finite [OF fin] Let_def change_of_def
    by (simp only: q ln assms(2,3))
qed

section \<open>The pumps of a market\<close>

lemma analyze_windows_fst:
  "fst (analyze_windows pa ex mt sm trig ws) =
     List.map_filter (\<lambda>w. analyze_time_window pa ex mt sm w trig) ws"
proof -
  have short: "length (twTrades w) < minTradesRequired pa \<Longrightarrow> analyze_time_window pa ex mt sm w trig = None" for w
    by (simp add: analyze_time_window_def)
  let ?f = "\<lambda>w (events, total).
       if length (twTrades w) < minTradesRequired pa then (events, total)
       else ((case analyze_time_window pa ex mt sm w trig of Some e \<Rightarrow> events @ [e] | None \<Rightarrow> events),
             fold (\<lambda>v s. f_add s v) (volumes_of (twTrades w)) total)"
  have "fst (fold ?f ws acc) = fst acc @ List.map_filter (\<lambda>w. analyze_time_window pa ex mt sm w trig) ws" for acc
    by (induction ws arbitrary: acc) (auto simp: List.map_filter_simps short split: option.split prod.splits)
  from this [of "([], Fin 0)"] show ?thesis by (simp add: analyze_windows_def)
qed

lemma env_sortTrades:
  assumes "env_ok env"
  shows "mset (sortTrades env ts) = mset ts" "set (sortTrades env ts) = set ts"
    "length (sortTrades env ts) = length ts" "sorted (map Timestamp (sortTrades env ts))"
proof -
  have s: "sorts (\<lambda>a b. Timestamp a < Timestamp b) (sortTrades env)"
    using assms by (simp add: env_ok_def trade_before_def [abs_def])
  show "mset (sortTrades env ts) = mset ts" "set (sortTrades env ts) = set ts"
    "length (sortTrades env ts) = length ts" "sorted (map Timestamp (sortTrades env ts))"
    using sorts_mset [OF s] sorts_set [OF s] sorts_length [OF s] sorts_sorted [OF s] by simp_all
qed

lemma analyzer_defaults [simp]:
  "minPumpPercentage new_pump_analyzer = Fin 3" "timeWindowSize new_pump_analyzer = second"
  "minTradesRequired new_pump_analyzer = 5"
  by (simp_all add: new_pump_analyzer_def)

definition clock_seconds :: "trade_event list \<Rightarrow> int list" where
  "clock_seconds ts = sort (remdups (map sec_of ts))"

lemma seconds_of_sorted:
  assumes "env_ok env"
  shows "seconds (sortTrades env ts) = clock_seconds ts"
proof (rule sorted_distinct_set_unique)
  show "sorted (seconds (sortTrades env ts))" "distinct (seconds (sortTrades env ts))"
    using seconds_sorted [OF env_sortTrades(4) [OF assms]] by simp_all
  show "set (seconds (sortTrades env ts)) = set (clock_seconds ts)"
    by (simp add: clock_seconds_def env_sortTrades(2) [OF assms])
qed (simp_all add: clock_seconds_def)

text \<open>The pump events of a market as a function of its set of trades.\<close>

definition market_pumps :: "pump_analyzer \<Rightarrow> string \<Rightarrow> string \<Rightarrow> string \<Rightarrow> trade_event list \<Rightarrow> gotime \<Rightarrow> pump_event list" where
  "market_pumps pa ex mt sm trades trig =
     List.map_filter (\<lambda>k. analyze_time_window pa ex mt sm (second_window trades k) trig) (clock_seconds trades)"

lemma market_pumps_spec:
  assumes env: "env_ok env" and size: "timeWindowSize pa = second"
    and c: "\<forall>t\<in>set trades. clocked t" and fin: "finite_prices trades"
  shows "fst (analyze_exchange_market env pa ex mt sm trades trig) = market_pumps pa ex mt sm trades trig"
proof (cases "length trades < minTradesRequired pa")
  case True
  have "length (filter P trades) < minTradesRequired pa" for P
    using True by (meson le_less_trans length_filter_le)
  then have "analyze_time_window pa ex mt sm (second_window trades k) trig = None" for k
    by (simp add: analyze_time_window_def)
  then have "market_pumps pa ex mt sm trades trig = []" by (simp add: market_pumps_def List.map_filter_def)
  with True show ?thesis by (simp add: analyze_exchange_market_def)
next
  case False
  let ?s = "sortTrades env trades"
  note s = env_sortTrades [OF env, of trades]
  have w: "create_time_windows ?s second = map (second_window ?s) (clock_seconds trades)"
    using windows_are_seconds [of ?s] s c seconds_of_sorted [OF env, of trades] by simp
  have same: "analyze_time_window pa ex mt sm (second_window ?s k) trig =
      analyze_time_window pa ex mt sm (second_window trades k) trig" for k
    by (rule window_perm) (use s fin in \<open>auto simp: finite_prices_def\<close>)
  from False show ?thesis
    by (simp add: analyze_exchange_market_def Let_def split_beta analyze_windows_fst w size market_pumps_def
        List.map_filter_def same comp_def filter_map)
qed

lemma market_sorted_slice:
  "snd (snd (analyze_exchange_market env pa ex mt sm trades trig)) =
     (if length trades < minTradesRequired pa then trades else sortTrades env trades)"
  by (simp add: analyze_exchange_market_def Let_def split_beta)

lemma market_result:
  assumes "fst (analyze_exchange_market env pa ex mt sm trades trig) \<noteq> []"
  obtains r where "fst (snd (analyze_exchange_market env pa ex mt sm trades trig)) = Some r"
    "erExchange r = ex" "erMarketType r = mt"
    "erPumpEventsCount r = length (fst (analyze_exchange_market env pa ex mt sm trades trig))"
  using assms by (auto simp: analyze_exchange_market_def Let_def split_beta split: if_splits)

section \<open>The pumps of a collection\<close>

lemma slice_of_put_slice:
  "k \<in> set analyzed_markets \<Longrightarrow> slice_of k' (put_slice k ts ce) = (if k' = k then ts else slice_of k' ce)"
proof (cases "k' \<in> set slice_keys")
  case True
  then show ?thesis
    unfolding slice_keys_def list.set insert_iff empty_iff by (elim disjE; simp add: put_slice_def)
next
  case False
  moreover assume "k \<in> set analyzed_markets"
  then have "k \<in> set slice_keys" by (auto simp: analyzed_markets_def slice_keys_def)
  ultimately show ?thesis by (auto simp: slice_of_unknown)
qed

lemma put_slice_simps [simp]:
  "ceSymbol (put_slice k ts ce) = ceSymbol ce" "ceTriggerTime (put_slice k ts ce) = ceTriggerTime ce"
  by (simp_all add: put_slice_def)

lemma parse_market_key: "k \<in> set analyzed_markets \<Longrightarrow>
    fst (parse_exchange_market k) @ ''_'' @ snd (parse_exchange_market k) = k"
  by (auto simp: analyzed_markets_def parse_exchange_market_def)

definition market_of :: "go_env \<Rightarrow> pump_analyzer \<Rightarrow> collection_event \<Rightarrow> string \<Rightarrow>
    pump_event list \<times> exchange_result option \<times> trade_event list" where
  "market_of env pa ce k =
     analyze_exchange_market env pa (fst (parse_exchange_market k)) (snd (parse_exchange_market k)) (ceSymbol ce)
       (slice_of k ce) (ceTriggerTime ce)"

lemma market_of_empty:
  "slice_of k ce = [] \<Longrightarrow> 0 < minTradesRequired pa \<Longrightarrow> market_of env pa ce k = ([], None, [])"
  by (simp add: market_of_def analyze_exchange_market_def)

lemma market_of_event:
  assumes "p \<in> set (fst (market_of env pa ce k))" "k \<in> set analyzed_markets"
  shows "market_key p = k" "peExchange p = fst (parse_exchange_market k)"
proof -
  from assms(1) obtain w where
    "analyze_time_window pa (fst (parse_exchange_market k)) (snd (parse_exchange_market k)) (ceSymbol ce) w
       (ceTriggerTime ce) = Some p"
    by (auto simp: market_of_def analyze_exchange_market_def Let_def split_beta analyze_windows_fst
        List.map_filter_def split: if_splits)
  then have "peExchange p = fst (parse_exchange_market k)" "peMarketType p = snd (parse_exchange_market k)"
    by (auto simp: analyze_time_window_def Let_def split: if_splits)
  with parse_market_key [OF assms(2)] show "market_key p = k" "peExchange p = fst (parse_exchange_market k)"
    by (simp_all add: market_key_def)
qed

lemma analyze_market_step:
  assumes "0 < minTradesRequired pa" "k \<in> set analyzed_markets"
  shows "\<exists>ce'. analyze_market env pa k (events, results, ce) =
      (events @ fst (market_of env pa ce k),
       (if fst (market_of env pa ce k) = [] then results
        else mput k (the (fst (snd (market_of env pa ce k)))) results), ce') \<and>
      ceSymbol ce' = ceSymbol ce \<and> ceTriggerTime ce' = ceTriggerTime ce \<and>
      (\<forall>k'. slice_of k' ce' = (if k' = k then snd (snd (market_of env pa ce k)) else slice_of k' ce))"
proof (cases "slice_of k ce = []")
  case True
  then show ?thesis using market_of_empty [OF True assms(1)] by (auto simp: analyze_market_def)
next
  case False
  let ?m = "market_of env pa ce k"
  have "fst ?m \<noteq> [] \<Longrightarrow> \<exists>r. fst (snd ?m) = Some r"
    unfolding market_of_def by (erule market_result) blast
  with False show ?thesis
    by (intro exI [of _ "put_slice k (snd (snd ?m)) ce"])
      (auto simp: analyze_market_def Let_def split_beta slice_of_put_slice [OF assms(2)] simp flip: market_of_def)
qed

lemma mput_fresh: "k \<notin> set (map fst m) \<Longrightarrow> mput k v m = m @ [(k, v)]"
  by (induction m) auto

lemma analyze_markets:
  assumes "0 < minTradesRequired pa" "set ks \<subseteq> set analyzed_markets" "distinct ks"
    and "set (map fst results) \<inter> set ks = {}"
  shows "\<exists>ce'. fold (analyze_market env pa) ks (events, results, ce) =
      (events @ concat (map (\<lambda>k. fst (market_of env pa ce k)) ks),
       results @ map (\<lambda>k. (k, the (fst (snd (market_of env pa ce k)))))
         (filter (\<lambda>k. fst (market_of env pa ce k) \<noteq> []) ks), ce') \<and>
      ceSymbol ce' = ceSymbol ce \<and> ceTriggerTime ce' = ceTriggerTime ce \<and>
      (\<forall>k. slice_of k ce' = (if k \<in> set ks then snd (snd (market_of env pa ce k)) else slice_of k ce))"
  using assms(2-)
proof (induction ks arbitrary: events results ce)
  case (Cons k ks)
  let ?m = "\<lambda>ce k. market_of env pa ce k"
  let ?r = "if fst (?m ce k) = [] then results else mput k (the (fst (snd (?m ce k)))) results"
  obtain ce1 where st: "analyze_market env pa k (events, results, ce) = (events @ fst (?m ce k), ?r, ce1)"
      "ceSymbol ce1 = ceSymbol ce" "ceTriggerTime ce1 = ceTriggerTime ce"
      "\<forall>k'. slice_of k' ce1 = (if k' = k then snd (snd (?m ce k)) else slice_of k' ce)"
    using analyze_market_step [OF assms(1), of k env events results ce] Cons.prems by auto
  have same: "?m ce1 k' = ?m ce k'" if "k' \<noteq> k" for k' using that st by (simp add: market_of_def)
  have r: "?r = results @ (if fst (?m ce k) = [] then [] else [(k, the (fst (snd (?m ce k))))])"
    using Cons.prems by (simp add: mput_fresh)
  have fresh: "set (map fst ?r) \<inter> set ks = {}" using Cons.prems unfolding r by auto
  have eq: "\<forall>k'\<in>set ks. ?m ce1 k' = ?m ce k'"
    by (intro ballI same) (use Cons.prems(2) in auto)
  have maps: "map (\<lambda>k. fst (?m ce1 k)) ks = map (\<lambda>k. fst (?m ce k)) ks"
      "map (\<lambda>k. (k, the (fst (snd (?m ce1 k))))) (filter (\<lambda>k. fst (?m ce1 k) \<noteq> []) ks) =
       map (\<lambda>k. (k, the (fst (snd (?m ce k))))) (filter (\<lambda>k. fst (?m ce k) \<noteq> []) ks)"
    using eq by (simp_all cong: map_cong filter_cong)
  obtain ce' where "fold (analyze_market env pa) ks (events @ fst (?m ce k), ?r, ce1) =
      (((events @ fst (?m ce k)) @ concat (map (\<lambda>k. fst (?m ce1 k)) ks)),
       ?r @ map (\<lambda>k. (k, the (fst (snd (?m ce1 k))))) (filter (\<lambda>k. fst (?m ce1 k) \<noteq> []) ks), ce')"
      "ceSymbol ce' = ceSymbol ce1" "ceTriggerTime ce' = ceTriggerTime ce1"
      "\<forall>k. slice_of k ce' = (if k \<in> set ks then snd (snd (?m ce1 k)) else slice_of k ce1)"
    using Cons.IH [of ?r "events @ fst (?m ce k)" ce1] Cons.prems fresh by auto
  with st eq Cons.prems show ?case unfolding maps r by auto
qed auto

text \<open>What \<open>AnalyzePumps\<close> returns, market by market.\<close>

definition pumped_markets :: "go_env \<Rightarrow> pump_analyzer \<Rightarrow> collection_event \<Rightarrow> string list" where
  "pumped_markets env pa ce = filter (\<lambda>k. fst (market_of env pa ce k) \<noteq> []) analyzed_markets"

lemma analyze_pumps_result:
  assumes "0 < minTradesRequired pa"
  obtains ce' where "analyze_pumps env now pa (Some ce) =
      (let events = concat (map (\<lambda>k. fst (market_of env pa ce k)) analyzed_markets);
           results = map (\<lambda>k. (k, the (fst (snd (market_of env pa ce k))))) (pumped_markets env pa ce)
       in (Inr \<lparr>paPumpEvents = events, paSummary = generate_analysis_summary events results,
                paExchangeResults = results\<rparr>,
           pa\<lparr>totalAnalyses := totalAnalyses pa + 1,
              totalPumpsDetected := totalPumpsDetected pa + int (length events), lastAnalysis := now\<rparr>, Some ce'))"
    "ceSymbol ce' = ceSymbol ce" "ceTriggerTime ce' = ceTriggerTime ce"
    "\<And>k. slice_of k ce' = (if k \<in> set analyzed_markets then snd (snd (market_of env pa ce k)) else [])"
proof -
  have d: "distinct analyzed_markets" by (simp add: analyzed_markets_def)
  have u: "k \<notin> set analyzed_markets \<Longrightarrow> slice_of k ce = []" for k
    by (rule slice_of_unknown) (auto simp: analyzed_markets_def slice_keys_def)
  from analyze_markets [OF assms _ d, of "[]" env "[]" ce] u that show ?thesis
    by (auto simp: analyze_pumps_def pumped_markets_def Let_def)
qed

section \<open>Which seconds are pumps\<close>

definition trades_in :: "int \<Rightarrow> trade_event list \<Rightarrow> trade_event list" where
  "trades_in k ts = filter (\<lambda>t. sec_of t = k) ts"

text \<open>At least five trades in the second, and the highest price at least three percent above the lowest,
  which is positive.  The order of the trades plays no part.\<close>

definition is_pump :: "trade_event list \<Rightarrow> bool" where
  "is_pump ts = (let qs = rational_prices ts in
     5 \<le> length ts \<and> qs \<noteq> [] \<and> 0 < Min (set qs) \<and> 103 * Min (set qs) \<le> 100 * Max (set qs))"

lemma change_small_iff: "0 < (m::rat) \<Longrightarrow> (M - m) / m * 100 < 3 \<longleftrightarrow> 100 * M < 103 * m"
  by (simp add: divide_less_eq field_simps)

lemma pump_condition:
  "(l < 5 \<or> e \<or> m \<le> 0 \<or> (M - m) / m * 100 < 3) \<longleftrightarrow> \<not> (5 \<le> l \<and> \<not> e \<and> 0 < m \<and> 103 * m \<le> 100 * M)"
  for m M :: rat and l :: nat
proof (cases "0 < m")
  case True
  then show ?thesis unfolding change_small_iff [OF True] by auto
qed auto

lemma second_is_pump:
  assumes "finite_prices (trades_in k ts)"
  shows "analyze_time_window new_pump_analyzer ex mt sm (second_window ts k) trig =
     (if is_pump (trades_in k ts) then analyze_time_window new_pump_analyzer ex mt sm (second_window ts k) trig else None)"
    and "is_pump (trades_in k ts) \<Longrightarrow>
      \<exists>p. analyze_time_window new_pump_analyzer ex mt sm (second_window ts k) trig = Some p \<and>
        market_key p = ex @ ''_'' @ mt \<and> peStartTime p = of_milli (k * 1000) \<and> peTradeCount p = length (trades_in k ts)"
proof -
  let ?ts = "trades_in k ts" and ?qs = "rational_prices (trades_in k ts)"
  have w: "twTrades (second_window ts k) = ?ts" by (simp add: trades_in_def)
  note a = analyze_time_window_finite [of "second_window ts k", unfolded w, OF assms, of new_pump_analyzer ex mt sm trig]
  have i: "(length ?ts < 5 \<or> ?qs = [] \<or> Min (set ?qs) \<le> 0 \<or> f_less (Fin (change_of ?qs)) (Fin 3)) \<longleftrightarrow> \<not> is_pump ?ts"
    unfolding is_pump_def Let_def change_of_def f_less.simps by (rule pump_condition)
  show "analyze_time_window new_pump_analyzer ex mt sm (second_window ts k) trig =
     (if is_pump ?ts then analyze_time_window new_pump_analyzer ex mt sm (second_window ts k) trig else None)"
    unfolding a Let_def analyzer_defaults i by simp
  show "is_pump ?ts \<Longrightarrow>
      \<exists>p. analyze_time_window new_pump_analyzer ex mt sm (second_window ts k) trig = Some p \<and>
        market_key p = ex @ ''_'' @ mt \<and> peStartTime p = of_milli (k * 1000) \<and> peTradeCount p = length ?ts"
    unfolding a Let_def analyzer_defaults i by (simp add: market_key_def)
qed

lemma market_pumps_seconds:
  assumes "finite_prices ts"
  shows "map (\<lambda>p. (market_key p, peStartTime p, peTradeCount p)) (market_pumps new_pump_analyzer ex mt sm ts trig) =
    map (\<lambda>k. (ex @ ''_'' @ mt, of_milli (k * 1000), length (trades_in k ts)))
      (filter (\<lambda>k. is_pump (trades_in k ts)) (clock_seconds ts))"
proof -
  have fin: "finite_prices (trades_in k ts)" for k using assms by (simp add: finite_prices_def trades_in_def)
  have "map (\<lambda>p. (market_key p, peStartTime p, peTradeCount p))
      (List.map_filter (\<lambda>k. analyze_time_window new_pump_analyzer ex mt sm (second_window ts k) trig) ks) =
    map (\<lambda>k. (ex @ ''_'' @ mt, of_milli (k * 1000), length (trades_in k ts))) (filter (\<lambda>k. is_pump (trades_in k ts)) ks)" for ks
  proof (induction ks)
    case (Cons k ks)
    show ?case
    proof (cases "is_pump (trades_in k ts)")
      case True
      from second_is_pump(2) [OF fin True, of ex mt sm trig] Cons True show ?thesis
        by (auto simp: List.map_filter_simps)
    next
      case False
      then have "analyze_time_window new_pump_analyzer ex mt sm (second_window ts k) trig = None"
        using second_is_pump(1) [OF fin, of ex mt sm k trig] by simp
      with Cons False show ?thesis by (simp add: List.map_filter_simps)
    qed
  qed (simp add: List.map_filter_simps)
  then show ?thesis by (simp add: market_pumps_def)
qed

lemma pump_seconds:
  assumes "env_ok env"
    and "\<forall>k\<in>set analyzed_markets. finite_prices (slice_of k ce) \<and> (\<forall>t\<in>set (slice_of k ce). clocked t)"
  shows "\<exists>an pa' ce'. analyze_pumps env now new_pump_analyzer (Some ce) = (Inr an, pa', Some ce') \<and>
    map (\<lambda>p. (market_key p, peStartTime p, peTradeCount p)) (paPumpEvents an) =
      concat (map (\<lambda>m. map (\<lambda>k. (m, of_milli (k * 1000), length (trades_in k (slice_of m ce))))
        (filter (\<lambda>k. is_pump (trades_in k (slice_of m ce))) (clock_seconds (slice_of m ce)))) analyzed_markets)"
proof -
  let ?ev = "\<lambda>m. fst (market_of env new_pump_analyzer ce m)"
  have 0: "0 < minTradesRequired new_pump_analyzer" by simp
  obtain an pa' ce' where an: "analyze_pumps env now new_pump_analyzer (Some ce) = (Inr an, pa', Some ce')"
      "paPumpEvents an = concat (map ?ev analyzed_markets)"
    by (rule analyze_pumps_result [OF 0, of env now ce]) (simp add: Let_def)
  have "map (\<lambda>p. (market_key p, peStartTime p, peTradeCount p)) (?ev m) =
      map (\<lambda>k. (m, of_milli (k * 1000), length (trades_in k (slice_of m ce))))
        (filter (\<lambda>k. is_pump (trades_in k (slice_of m ce))) (clock_seconds (slice_of m ce)))"
    if "m \<in> set analyzed_markets" for m
    using assms that market_pumps_spec [OF assms(1), of new_pump_analyzer "slice_of m ce"]
      market_pumps_seconds [of "slice_of m ce"] parse_market_key [OF that]
    by (simp add: market_of_def)
  then show ?thesis using an by (auto simp: map_concat comp_def cong: map_cong)
qed


section \<open>Users are milliseconds\<close>

definition milli_times :: "trade_event list \<Rightarrow> int list" where
  "milli_times ts = sort (remdups (map Timestamp ts))"

definition trades_at :: "int \<Rightarrow> trade_event list \<Rightarrow> trade_event list" where
  "trades_at ms ts = filter (\<lambda>t. Timestamp t = ms) ts"

definition user_of :: "go_env \<Rightarrow> gotime \<Rightarrow> trade_event list \<Rightarrow> int \<Rightarrow> user_analysis" where
  "user_of env start ts ms = calculate_user_stats (show_int ms) (sortTrades env (trades_at ms ts)) start"

lemma milli_times_facts [simp]:
  "set (milli_times ts) = Timestamp ` set ts" "distinct (milli_times ts)" "sorted (milli_times ts)"
  by (simp_all add: milli_times_def)

lemma groups_by_milli:
  "mset (group_trades_by_user ts) = mset (map (\<lambda>ms. (show_int ms, trades_at ms ts)) (milli_times ts))"
proof -
  let ?g = "group_trades_by_user ts" and ?c = "map (\<lambda>ms. (show_int ms, trades_at ms ts)) (milli_times ts)"
  have wf: "wf_map ?g" by (simp add: group_trades_by_user_def)
  have val: "mslice ?g (show_int ms) = trades_at ms ts" for ms
    by (simp add: group_trades_by_user_def mslice_group_by trades_at_def)
  have keys: "set (map fst ?g) = show_int ` Timestamp ` set ts"
    using keys_group_by [of "\<lambda>t. show_int (Timestamp t)" ts]
    by (simp add: group_trades_by_user_def mkeys_def image_image)
  have "set ?g = set ?c"
  proof (intro equalityI subsetI)
    fix e assume e: "e \<in> set ?g"
    then have "fst e \<in> set (map fst ?g)" by simp
    then obtain ms where ms: "ms \<in> Timestamp ` set ts" "fst e = show_int ms" unfolding keys by blast
    moreover have "snd e = mslice ?g (fst e)" using mslice_in [OF wf, of "fst e" "snd e"] e by simp
    ultimately show "e \<in> set ?c" using val by (auto simp: image_iff prod_eq_iff)
  next
    fix e assume "e \<in> set ?c"
    then obtain ms where ms: "ms \<in> Timestamp ` set ts" "e = (show_int ms, trades_at ms ts)" by auto
    then have "show_int ms \<in> set (map fst ?g)" unfolding keys by blast
    then obtain v where "(show_int ms, v) \<in> set ?g" by auto
    then show "e \<in> set ?g" using mslice_in [OF wf] val ms by metis
  qed
  moreover have "distinct ?g" using wf distinct_map by (auto simp: wf_map_def)
  moreover have "distinct ?c" by (simp add: distinct_map inj_on_def)
  ultimately show ?thesis by (metis set_eq_iff_mset_eq_distinct)
qed

lemma user_stats_times:
  assumes "env_ok env" "trades_at ms ts \<noteq> []"
  shows "uaFirstTradeTime (user_of env start ts ms) = of_milli ms" "uaTradingDuration (user_of env start ts ms) = 0"
    "uaTradeCount (user_of env start ts ms) = length (trades_at ms ts)" "uaUserID (user_of env start ts ms) = show_int ms"
proof -
  let ?s = "sortTrades env (trades_at ms ts)"
  note s = env_sortTrades [OF assms(1), of "trades_at ms ts"]
  have ne: "0 < length ?s" using s(3) assms(2) by simp
  have at: "Timestamp (?s ! i) = ms" if "i < length ?s" for i
    using nth_mem [OF that] s(2) by (auto simp: trades_at_def)
  show "uaFirstTradeTime (user_of env start ts ms) = of_milli ms" "uaTradingDuration (user_of env start ts ms) = 0"
    "uaTradeCount (user_of env start ts ms) = length (trades_at ms ts)" "uaUserID (user_of env start ts ms) = show_int ms"
    using at [of 0] at [of "length ?s - 1"] ne s(3) by (simp_all add: user_of_def calculate_user_stats_def Let_def)
qed

lemma milli_times_nonempty: "ms \<in> set (milli_times ts) \<Longrightarrow> trades_at ms ts \<noteq> []"
  by (auto simp: trades_at_def filter_empty_conv)

lemma mset_concat_map: "mset (concat (map f xs)) = (\<Sum>x\<in>#mset xs. mset (f x))"
  by (induction xs) simp_all

lemma sorted_users:
  assumes "env_ok env"
  shows "sortUsers env (analyze_users env (group_trades_by_user ts) start) = map (user_of env start ts) (milli_times ts)"
proof -
  let ?g = "group_trades_by_user ts" and ?u = "user_of env start ts"
  let ?f = "\<lambda>(uid, trades). if trades = [] then [] else [calculate_user_stats uid (sortTrades env trades) start]"
  have p: "mset (groupOrder env ?g) = mset (map (\<lambda>ms. (show_int ms, trades_at ms ts)) (milli_times ts))"
    using assms groups_by_milli [of ts] by (simp add: env_ok_def iter_order_def)
  have "mset (analyze_users env ?g start) =
      mset (concat (map (\<lambda>ms. ?f (show_int ms, trades_at ms ts)) (milli_times ts)))"
    unfolding analyze_users_def mset_concat_map p by (simp add: mset_concat_map multiset.map_comp comp_def)
  also have "map (\<lambda>ms. ?f (show_int ms, trades_at ms ts)) (milli_times ts) = map (\<lambda>ms. [?u ms]) (milli_times ts)"
    using milli_times_nonempty [of _ ts] by (simp add: user_of_def)
  finally have m: "mset (analyze_users env ?g start) = mset (map ?u (milli_times ts))" by simp
  have times: "map uaFirstTradeTime (map ?u (milli_times ts)) = map of_milli (milli_times ts)"
    using user_stats_times(1) [OF assms milli_times_nonempty] by simp
  have sorted: "sorted (map uaFirstTradeTime (map ?u (milli_times ts)))"
    unfolding times using milli_times_facts(3) [of ts] by (simp add: sorted_map of_milli_def sorted_wrt_map)
  have "distinct (map uaFirstTradeTime (map ?u (milli_times ts)))"
    unfolding times by (simp add: distinct_map inj_on_def of_milli_def)
  then have "distinct (map uaFirstTradeTime (analyze_users env ?g start))"
    using m by (metis mset_map mset_eq_imp_distinct_iff)
  then have "sortUsers env (analyze_users env ?g start) = sort_key uaFirstTradeTime (map ?u (milli_times ts))"
    using sorts_unique [of uaFirstTradeTime "sortUsers env"] m assms
    by (simp add: env_ok_def user_before_def [abs_def])
  with sorted show ?thesis by (simp add: sort_key_id_if_sorted)
qed

lemma rank_users_facts:
  "map uaUserRank (rank_users us) = [1..<Suc (length us)]" "length (rank_users us) = length us"
  "(\<And>u n. f (u\<lparr>uaUserRank := n\<rparr>) = f u) \<Longrightarrow> map f (rank_users us) = map f us"
proof -
  have "map uaUserRank (rank_users us) = map (\<lambda>z. Suc (fst z)) (zip [0..<length us] us)"
    by (simp add: rank_users_def split_beta comp_def)
  also have "\<dots> = map Suc (map fst (zip [0..<length us] us))" by (simp only: map_map comp_def)
  also have "\<dots> = [1..<Suc (length us)]" by (simp add: map_Suc_upt del: upt_Suc)
  finally show "map uaUserRank (rank_users us) = [1..<Suc (length us)]" .
  show "length (rank_users us) = length us" by (simp add: rank_users_def)
  assume "\<And>u n. f (u\<lparr>uaUserRank := n\<rparr>) = f u"
  then have "map f (rank_users us) = map f (map snd (zip [0..<length us] us))"
    by (simp only: rank_users_def split_beta map_map comp_def)
  then show "map f (rank_users us) = map f us" by (simp only: map_snd_zip length_upt diff_zero)
qed

text \<open>The cases in which the refined analysis lists users.\<close>

lemma refined_users:
  assumes "analyze_refined_pumps env now pa (Some ce) = Some (Inr ra, pa', Some ce')" "raUserAnalysis ra \<noteq> []"
  shows "raUserAnalysis ra = rank_users (sortUsers env (analyze_users env (group_trades_by_user
      (collect_all_trades ce' (raWindowStart ra) (raWindowStart ra + 10 * second))) (raWindowStart ra)))"
    and "raTopUsers ra = take 10 (raUserAnalysis ra)"
proof -
  obtain events results ce1 where "fold (analyze_market env pa) analyzed_markets ([], [], ce) = (events, results, ce1)"
    using prod_cases3 by blast
  then obtain an pa1 where a: "analyze_pumps env now pa (Some ce) = (Inr an, pa1, Some ce1)"
    by (simp add: analyze_pumps_def)
  show "raUserAnalysis ra = rank_users (sortUsers env (analyze_users env (group_trades_by_user
      (collect_all_trades ce' (raWindowStart ra) (raWindowStart ra + 10 * second))) (raWindowStart ra)))"
    and "raTopUsers ra = take 10 (raUserAnalysis ra)"
    using assms by (auto simp: analyze_refined_pumps_def a Let_def refined_without_users_def
        split: if_splits prod.splits)
qed

text \<open>The users of a refined analysis are the distinct milliseconds of the trades collected in the
  ten seconds from the first pump, ranked from one in the order of time: whatever the iteration order
  of the map of users and whatever the sorts do.  Each has exactly the trades of its millisecond, so
  its trading duration, the time from its first trade to its last, is always zero.\<close>

theorem users_are_milliseconds:
  assumes "env_ok env" and "analyze_refined_pumps env now pa (Some ce) = Some (Inr ra, pa', Some ce')"
    and "raUserAnalysis ra \<noteq> []"
  shows "map (\<lambda>u. (uaUserID u, uaFirstTradeTime u, uaTradeCount u, uaTradingDuration u)) (raUserAnalysis ra) =
    (let ts = collect_all_trades ce' (raWindowStart ra) (raWindowStart ra + 10 * second)
     in map (\<lambda>ms. (show_int ms, of_milli ms, length (trades_at ms ts), 0)) (milli_times ts)) \<and>
    map uaUserRank (raUserAnalysis ra) = [1..<Suc (length (raUserAnalysis ra))]"
proof -
  let ?start = "raWindowStart ra"
  let ?ts = "collect_all_trades ce' ?start (?start + 10 * second)"
  have ra: "raUserAnalysis ra = rank_users (map (user_of env ?start ?ts) (milli_times ?ts))"
    using refined_users(1) [OF assms(2,3)] sorted_users [OF assms(1), of ?ts ?start] by simp
  have "map (\<lambda>u. (uaUserID u, uaFirstTradeTime u, uaTradeCount u, uaTradingDuration u)) (raUserAnalysis ra) =
      map (\<lambda>u. (uaUserID u, uaFirstTradeTime u, uaTradeCount u, uaTradingDuration u))
        (map (user_of env ?start ?ts) (milli_times ?ts))"
    unfolding ra by (rule rank_users_facts(3)) simp
  also have "\<dots> = map (\<lambda>ms. (show_int ms, of_milli ms, length (trades_at ms ?ts), 0)) (milli_times ?ts)"
    using user_stats_times [OF assms(1) milli_times_nonempty] by simp
  finally show ?thesis using rank_users_facts(1,2) by (simp add: ra Let_def)
qed

section \<open>A sample collection\<close>

definition by_pump_time :: "exchange_insight list \<Rightarrow> exchange_insight list" where
  "by_pump_time is =
     sort_key eiFirstPumpTime (filter (\<lambda>i. eiFirstPumpTime i \<noteq> zero_time) is) @
     filter (\<lambda>i. eiFirstPumpTime i = zero_time) is"

definition std_env :: go_env where
  "std_env = \<lparr>sortTrades = sort_key Timestamp, sortUsers = sort_key uaFirstTradeTime,
     sortInsights = by_pump_time, groupOrder = rev\<rparr>"

lemma std_env_ok: "env_ok std_env"
proof -
  have "mset (by_pump_time is) = mset is" for "is"
  proof -
    have "mset (filter P is) + mset (filter (\<lambda>x. \<not> P x) is) = mset is" for P
      by (induction "is") simp_all
    from this [of "\<lambda>i. eiFirstPumpTime i \<noteq> zero_time"] show ?thesis by (simp add: by_pump_time_def)
  qed
  moreover have "sorted_wrt (\<lambda>a b. \<not> insight_before b a) (by_pump_time is)" for "is"
  proof -
    have s: "sorted_wrt (\<lambda>a b. eiFirstPumpTime a \<le> eiFirstPumpTime b)
        (sort_key eiFirstPumpTime (filter (\<lambda>i. eiFirstPumpTime i \<noteq> zero_time) is))"
      using sorted_sort_key [of eiFirstPumpTime] by (simp only: sorted_map)
    have "sorted_wrt (\<lambda>a b. \<not> insight_before b a) (filter (\<lambda>i. eiFirstPumpTime i = zero_time) is)"
      by (induction "is") (auto simp: insight_before_def)
    with sorted_wrt_mono_rel [OF _ s, of "\<lambda>a b. \<not> insight_before b a"] show ?thesis
      by (auto simp: by_pump_time_def sorted_wrt_append insight_before_def)
  qed
  ultimately show ?thesis
    using sorts_sort_key [of Timestamp] sorts_sort_key [of uaFirstTradeTime]
    by (simp add: env_ok_def std_env_def sorts_def trade_before_def [abs_def] user_before_def [abs_def])
qed

definition priced_trade :: "int \<Rightarrow> string \<Rightarrow> trade_event" where
  "priced_trade ms p = \<lparr>Exchange = ''gate'', MarketType = ''spot'', Symbol = ''TIAUSDT'', TradeID = '''',
     Price = p, Quantity = ''2'', Side = ''sell'', Timestamp = ms, CollectedAt = 0, TriggerTime = 0,
     IsBuyerMaker = False, QuoteQty = ''''\<rparr>"

text \<open>A price that falls from 100 to 96 within one second.\<close>

definition falling_trades :: "trade_event list" where
  "falling_trades = [priced_trade 1700000000100 ''100'', priced_trade 1700000000100 ''99.5'',
     priced_trade 1700000000200 ''98'', priced_trade 1700000000300 ''97'', priced_trade 1700000000400 ''96'']"

definition falling_collection :: collection_event where
  "falling_collection = put_slice ''gate_spot'' falling_trades
     (empty_collection ''TIA'' (of_milli 1700000000000) (of_milli 1699999980000) (of_milli 1700000020000) 0)"

lemma parse_sample:
  "float_opt ''100'' = Some (Fin 100)" "float_opt ''99.5'' = Some (Fin (199 / 2))" "float_opt ''98'' = Some (Fin 98)"
  "float_opt ''97'' = Some (Fin 97)" "float_opt ''96'' = Some (Fin 96)" "float_opt ''2'' = Some (Fin 2)"
  by (simp_all add: float_opt_def parse_float_def parse_unsigned_def parse_exponent_def scale10_def digits_val_def
      digit_val_def is_digit_def to_lower_def lower_char_def Let_def)

lemma falling_slices:
  "slice_of ''gate_spot'' falling_collection = falling_trades"
  "k \<noteq> ''gate_spot'' \<Longrightarrow> slice_of k falling_collection = []"
proof -
  have g: "''gate_spot'' \<in> set analyzed_markets" by (simp add: analyzed_markets_def)
  have e: "slice_of k (empty_collection a b c d e) = []" for k a b c d e
    by (simp add: slice_defs empty_collection_def)
  show "slice_of ''gate_spot'' falling_collection = falling_trades"
    "k \<noteq> ''gate_spot'' \<Longrightarrow> slice_of k falling_collection = []"
    by (simp_all only: falling_collection_def slice_of_put_slice [OF g] e if_True if_False refl)
qed

lemma falling_seconds:
  "clock_seconds falling_trades = [1700000000]" "trades_in 1700000000 falling_trades = falling_trades"
  by (simp_all add: clock_seconds_def falling_trades_def priced_trade_def sec_of_def trades_in_def)

lemma falling_prices:
  "rational_prices falling_trades = [100, 199 / 2, 98, 97, 96]" "finite_prices falling_trades"
  by (simp_all add: rational_prices_def finite_prices_def falling_trades_def priced_trade_def List.map_filter_simps
      parse_sample)

lemma falling_is_pump: "is_pump falling_trades"
  unfolding is_pump_def Let_def falling_prices by (simp add: falling_trades_def)

lemma falling_ok:
  "\<forall>k\<in>set analyzed_markets. finite_prices (slice_of k falling_collection) \<and>
     (\<forall>t\<in>set (slice_of k falling_collection). clocked t)"
proof
  fix k
  show "finite_prices (slice_of k falling_collection) \<and> (\<forall>t\<in>set (slice_of k falling_collection). clocked t)"
  proof (cases "k = ''gate_spot''")
    case True
    show ?thesis unfolding True falling_slices(1)
      using falling_prices(2) by (simp add: falling_trades_def priced_trade_def clocked_def)
  next
    case False
    show ?thesis unfolding falling_slices(2) [OF False] by (simp add: finite_prices_def)
  qed
qed

lemma falling_pumped:
  "concat (map (\<lambda>m. map (\<lambda>k. (m, of_milli (k * 1000), length (trades_in k (slice_of m falling_collection))))
     (filter (\<lambda>k. is_pump (trades_in k (slice_of m falling_collection))) (clock_seconds (slice_of m falling_collection))))
     analyzed_markets) = [(''gate_spot'', of_milli 1700000000000, 5)]"
proof -
  have e: "clock_seconds [] = []" by (simp add: clock_seconds_def)
  have n: "length falling_trades = 5" by (simp add: falling_trades_def)
  show ?thesis
    unfolding analyzed_markets_def by (simp add: falling_slices e falling_seconds falling_is_pump n del: slice_of_lit)
qed


text \<open>When a pump was found, its start and the trades of the window determine the refined analysis.\<close>

lemma refined_exists:
  assumes "analyze_pumps env now pa (Some ce) = (Inr an, pa1, Some ce1)" "paPumpEvents an \<noteq> []"
    and "find_earliest_pump_time (paPumpEvents an) = start" "start \<noteq> zero_time"
    and "collect_all_trades ce1 start (start + 10 * second) = ts" "ts \<noteq> []"
    and "rank_users (sortUsers env (analyze_users env (group_trades_by_user ts) start)) = users"
    and "\<forall>u\<in>set users. 8 \<le> length (uaUserID u)"
  shows "\<exists>ra pa'. analyze_refined_pumps env now pa (Some ce) = Some (Inr ra, pa', Some ce1) \<and>
    raUserAnalysis ra = users \<and> raWindowStart ra = start"
proof -
  have id: "get_user_id (take 10 users) i \<noteq> None" for i
    using assms(8) nth_mem [of i "take 10 users"] in_set_takeD [of _ 10 users]
    by (fastforce simp: get_user_id_def)
  then show ?thesis
    using assms(1-7) by (auto simp: analyze_refined_pumps_def Let_def split: prod.split)
qed

lemma falling_market:
  assumes "analyze_pumps std_env 0 new_pump_analyzer (Some falling_collection) = (Inr an, pa', Some ce')"
  shows "collect_all_trades ce' (of_milli 1700000000000) (of_milli 1700000000000 + 10 * second) = falling_trades"
proof -
  have 0: "0 < minTradesRequired new_pump_analyzer" by simp
  have sl: "slice_of k ce' = slice_of k falling_collection" if k: "k \<in> set analyzed_markets" for k
  proof -
    have "slice_of k ce' = snd (snd (market_of std_env new_pump_analyzer falling_collection k))"
      by (rule analyze_pumps_result [OF 0, of std_env 0 falling_collection]) (use assms k in \<open>simp add: Let_def\<close>)
    moreover have "sortTrades std_env falling_trades = falling_trades"
      by (simp add: std_env_def) (rule sort_key_id_if_sorted, simp add: falling_trades_def priced_trade_def)
    ultimately show ?thesis
      using falling_slices by (cases "k = ''gate_spot''") (simp_all add: market_of_def market_sorted_slice del: slice_of_lit)
  qed
  have "filter (\<lambda>t. Timestamp t \<ge> 1700000000000 \<and> Timestamp t \<le> 1700000010000) falling_trades = falling_trades"
    by (simp add: falling_trades_def priced_trade_def)
  moreover have "unix_milli (of_milli 1700000000000 + 10 * second) = 1700000010000"
    by (simp add: unix_milli_def of_milli_def second_def)
  moreover have "map (\<lambda>k. filter P (slice_of k ce')) analyzed_markets =
      map (\<lambda>k. filter P (slice_of k falling_collection)) analyzed_markets" for P
    using sl by simp
  ultimately show ?thesis
    unfolding collect_all_trades_def
    by (simp add: falling_slices analyzed_markets_def del: slice_of_lit)
qed

lemma all_map_eq: "map f xs = ys \<Longrightarrow> \<forall>y\<in>set ys. P y \<Longrightarrow> \<forall>x\<in>set xs. P (f x)"
  by auto

lemma falling_refined:
  "\<exists>ra pa' ce'. analyze_refined_pumps std_env 0 new_pump_analyzer (Some falling_collection) = Some (Inr ra, pa', Some ce') \<and>
     raUserAnalysis ra \<noteq> [] \<and> raWindowStart ra = of_milli 1700000000000 \<and>
     collect_all_trades ce' (raWindowStart ra) (raWindowStart ra + 10 * second) = falling_trades"
proof -
  let ?s = "of_milli 1700000000000"
  obtain an pa' ce' where an: "analyze_pumps std_env 0 new_pump_analyzer (Some falling_collection) = (Inr an, pa', Some ce')"
      "map (\<lambda>p. (market_key p, peStartTime p, peTradeCount p)) (paPumpEvents an) = [(''gate_spot'', ?s, 5)]"
    using pump_seconds [OF std_env_ok falling_ok, of 0] unfolding falling_pumped by (elim exE conjE) (rule that)
  then have f: "find_earliest_pump_time (paPumpEvents an) = ?s" and ne: "paPumpEvents an \<noteq> []"
    by (auto simp: find_earliest_pump_time_def)
  note ts = falling_market [OF an(1)]
  let ?u = "rank_users (sortUsers std_env (analyze_users std_env (group_trades_by_user falling_trades) ?s))"
  have u: "?u = rank_users (map (user_of std_env ?s falling_trades) (milli_times falling_trades))"
    by (simp add: sorted_users [OF std_env_ok])
  have m: "milli_times falling_trades = [1700000000100, 1700000000200, 1700000000300, 1700000000400]"
    by (simp add: milli_times_def falling_trades_def priced_trade_def)
  have "map uaUserID ?u = map uaUserID (map (user_of std_env ?s falling_trades) (milli_times falling_trades))"
    unfolding u by (rule rank_users_facts(3)) simp
  also have "\<dots> = map show_int (milli_times falling_trades)"
    using user_stats_times(4) [OF std_env_ok milli_times_nonempty] by simp
  finally have "map uaUserID ?u = map show_int [1700000000100, 1700000000200, 1700000000300, 1700000000400]"
    unfolding m .
  then have len: "\<forall>v\<in>set ?u. 8 \<le> length (uaUserID v)"
    by (rule all_map_eq [where P = "\<lambda>w. 8 \<le> length w"]) (simp add: show_int_def show_nat.simps)
  have "?u \<noteq> []" unfolding u m by (simp add: rank_users_def)
  moreover have "?s \<noteq> zero_time" by (simp add: of_milli_def zero_time_def)
  moreover have "falling_trades \<noteq> []" by (simp add: falling_trades_def)
  ultimately show ?thesis
    using refined_exists [OF an(1) ne f _ ts _ refl len] ts by fastforce
qed

theorem users_are_milliseconds_witness:
  "\<exists>ra pa' ce'. analyze_refined_pumps std_env 0 new_pump_analyzer (Some falling_collection) = Some (Inr ra, pa', Some ce') \<and>
     map (\<lambda>u. (uaUserID u, uaFirstTradeTime u, uaTradeCount u, uaTradingDuration u)) (raUserAnalysis ra) =
       map (\<lambda>ms. (show_int ms, of_milli ms, length (trades_at ms falling_trades), 0)) (milli_times falling_trades)"
proof -
  obtain ra pa' ce' where r: "analyze_refined_pumps std_env 0 new_pump_analyzer (Some falling_collection) = Some (Inr ra, pa', Some ce')"
      "raUserAnalysis ra \<noteq> []" "raWindowStart ra = of_milli 1700000000000"
      "collect_all_trades ce' (raWindowStart ra) (raWindowStart ra + 10 * second) = falling_trades"
    using falling_refined by blast
  show ?thesis
    using users_are_milliseconds [OF std_env_ok r(1,2), unfolded Let_def r(4)] r(1) by blast
qed

section \<open>The summary\<close>

text \<open>The loop compares every event with the first one of the list, not with the earliest seen so far.\<close>

lemma summary_first:
  assumes "events = e # es"
  shows "ssFirst (fold (summary_step events) (zip [0..<length events] events) s0) =
    market_key (last (e # filter (\<lambda>p. peRelativeTimeMs p < peRelativeTimeMs e) es))"
proof -
  have loop: "ssFirst (fold (summary_step events) (zip [i..<i + length xs] xs) s) =
      (if filter (\<lambda>p. peRelativeTimeMs p < peRelativeTimeMs e) xs = [] then ssFirst s
       else market_key (last (filter (\<lambda>p. peRelativeTimeMs p < peRelativeTimeMs e) xs)))" if "0 < i" for i xs s
    using that
  proof (induction xs arbitrary: i s)
    case (Cons x xs)
    have z: "zip [i..<i + length (x # xs)] (x # xs) = (i, x) # zip [Suc i..<Suc i + length xs] xs"
      by (simp add: upt_conv_Cons del: upt_Suc)
    show ?case
      using Cons.IH [of "Suc i" "summary_step events (i, x) s"] Cons.prems
      unfolding z fold_simps by (simp add: summary_step_def assms)
  qed simp
  have z: "zip [0..<length events] events = (0, e) # zip [1..<1 + length es] es"
    by (simp add: assms upt_conv_Cons del: upt_Suc)
  show ?thesis
    using loop [of 1 es "summary_step events (0, e) s0"] unfolding z fold_simps by (simp add: summary_step_def)
qed

text \<open>The summary names as the exchange of the first pump the market of the last event of the list
  that starts earlier than the event at its head, or the market of the head when there is none; that
  market need not be the one with the earliest pump.\<close>

theorem first_pump_exchange:
  "asFirstPumpExchange (generate_analysis_summary events results) =
     (case events of [] \<Rightarrow> ''''
      | e # es \<Rightarrow> market_key (last (e # filter (\<lambda>p. peRelativeTimeMs p < peRelativeTimeMs e) es)))"
proof (cases events)
  case (Cons e es)
  then have "events \<noteq> []" by simp
  then have "asFirstPumpExchange (generate_analysis_summary events results) =
      market_key (last (e # filter (\<lambda>p. peRelativeTimeMs p < peRelativeTimeMs e) es))"
    by (simp add: generate_analysis_summary_def Let_def summary_first [OF Cons])
  then show ?thesis by (simp only: Cons list.case)
qed (simp add: generate_analysis_summary_def)

end
