(* ===== verification/StorageProps.thy ===== *)
theory StorageProps
  imports StorageManager PumpAnalyzerProps Transitions
begin

text \<open>
  What the storage manager leaves on the disk: writes are all or nothing, files hold what their names
  say, the raw files of a collection are its slices, and the retention looks at the name of a directory.
\<close>

section \<open>Files touched by a step\<close>

definition fget :: "path \<Rightarrow> 'a storage_manager \<Rightarrow> content option" where
  "fget p sm = mget (dFiles (smDisk sm)) p"

definition under :: "path \<Rightarrow> path set" where
  "under d = {q. prefix d q}"

text \<open>The step changes no file outside \<open>P\<close>, nor the configuration, the directory and the analyzer.\<close>

definition touches :: "path set \<Rightarrow> 'a step \<Rightarrow> bool" where
  "touches P f = (\<forall>s. (\<forall>q. q \<notin> P \<longrightarrow> fget q (snd (f s)) = fget q s) \<and>
     smConfig (snd (f s)) = smConfig s \<and> smBaseDir (snd (f s)) = smBaseDir s \<and>
     smAnalyzer (snd (f s)) = smAnalyzer s \<and> smAnalysisEnabled (snd (f s)) = smAnalysisEnabled s)"

named_theorems touch "what a step touches"

lemma fget_simps [simp]:
  "fget p (upd_storage_stats f sm) = fget p sm" "fget p (sm\<lparr>smAnalyzer := a\<rparr>) = fget p sm"
  "fget p (upd_disk (put_file q c) sm) = (if p = q then Some c else fget p sm)"
  "fget p (upd_disk (del_file q) sm) = (if p = q then None else fget p sm)"
  by (simp_all add: fget_def upd_storage_stats_def upd_disk_def put_file_def del_file_def mget_mput mget_mdel)

lemma upd_disk_comp: "upd_disk (f \<circ> g) sm = upd_disk f (upd_disk g sm)"
  by (simp add: upd_disk_def)

lemma upd_frame [simp]:
  "smConfig (upd_disk f sm) = smConfig sm" "smBaseDir (upd_disk f sm) = smBaseDir sm"
  "smAnalyzer (upd_disk f sm) = smAnalyzer sm" "smAnalysisEnabled (upd_disk f sm) = smAnalysisEnabled sm"
  "smConfig (upd_storage_stats h sm) = smConfig sm" "smBaseDir (upd_storage_stats h sm) = smBaseDir sm"
  "smAnalyzer (upd_storage_stats h sm) = smAnalyzer sm"
  "smAnalysisEnabled (upd_storage_stats h sm) = smAnalysisEnabled sm"
  "smDisk (upd_storage_stats h sm) = smDisk sm"
  by (simp_all add: upd_disk_def upd_storage_stats_def)

lemma tmp_path_neq: "tmp_path p \<noteq> p" "p \<noteq> tmp_path p"
proof -
  show "tmp_path p \<noteq> p"
    by (cases p rule: rev_cases) (simp_all add: tmp_path_def)
  then show "p \<noteq> tmp_path p" by metis
qed

lemma tmp_path_snoc [simp]: "tmp_path (d @ [x]) = d @ [x @ ''.tmp'']" "tmp_path (d @ [y, x]) = d @ [y, x @ ''.tmp'']"
  by (simp_all add: tmp_path_def butlast_append)

lemma touches_id [touch]: "touches P (Pair None)"
  by (simp add: touches_def)

lemma touches_count [touch]: "touches P (count_step f)"
  by (simp add: touches_def count_step_def)

lemma touches_mkdir [touch]: "touches P (mkdir_all io p)"
  by (simp add: touches_def mkdir_all_def fget_def upd_disk_def split: outcome.split)

lemma touches_wrap [touch]: "touches P f \<Longrightarrow> touches P (wrap_error msg f)"
  by (simp add: touches_def wrap_error_def split: prod.split option.split) (metis snd_conv)

lemma touches_write: "touches {p, tmp_path p} (write_json_file io jlen p v)"
  using tmp_path_neq [of p]
  by (auto simp: touches_def write_json_file_def Let_def upd_disk_comp split: option.split outcome.split)

lemma touches_mono: "touches P f \<Longrightarrow> P \<subseteq> Q \<Longrightarrow> touches Q f"
  unfolding touches_def by blast

lemma touches_write_under [touch]:
  "p \<noteq> [] \<Longrightarrow> butlast p \<in> under d \<Longrightarrow> touches (under d) (write_json_file io jlen p v)"
proof (rule touches_mono [OF touches_write])
  assume "p \<noteq> []" "butlast p \<in> under d"
  then show "{p, tmp_path p} \<subseteq> under d"
    by (cases p rule: rev_cases) (auto simp: under_def)
qed

lemma touches_run [touch]: "list_all (touches P) fs \<Longrightarrow> touches P (run_steps fs)"
proof (induction fs)
  case (Cons f fs)
  then have "touches P f" "touches P (run_steps fs)" by simp_all
  then show ?case
    by (simp add: touches_def split: prod.split option.split) (metis snd_conv)
qed (simp add: touches_def)

lemma touches_if [touch]: "(c \<Longrightarrow> touches P f) \<Longrightarrow> (\<not> c \<Longrightarrow> touches P g) \<Longrightarrow> touches P (if c then f else g)"
  by simp

lemma touchesD: "touches P f \<Longrightarrow> f s = (e, s') \<Longrightarrow> q \<notin> P \<Longrightarrow> fget q s' = fget q s"
  unfolding touches_def by (metis snd_conv)

lemma touches_frame:
  "touches P f \<Longrightarrow> f s = (e, s') \<Longrightarrow> smConfig s' = smConfig s \<and> smBaseDir s' = smBaseDir s \<and>
     smAnalyzer s' = smAnalyzer s \<and> smAnalysisEnabled s' = smAnalysisEnabled s"
  unfolding touches_def by (metis snd_conv)

section \<open>A write\<close>

lemma write_json_result:
  assumes "write_json_file io jlen p v sm = (e, sm')"
  shows "fget p sm' = (if e = None then Some (Json v) else fget p sm)"
  using assms tmp_path_neq [of p]
  by (auto simp: write_json_file_def Let_def upd_disk_comp split: option.splits outcome.splits if_splits)

text \<open>C24. Writing a file is all or nothing, however the disk fails: without an error the file holds the
  value, with an error it is what it was, and no other file changes but the temporary one.\<close>

theorem write_is_atomic:
  assumes "write_json_file io jlen p v sm = (e, sm')"
  shows "fget p sm' = (if e = None then Some (Json v) else fget p sm) \<and>
    (\<forall>q. q \<noteq> p \<and> q \<noteq> tmp_path p \<longrightarrow> fget q sm' = fget q sm)"
  using write_json_result [OF assms] touchesD [OF touches_write assms] by auto

section \<open>Steps in sequence\<close>

lemma run_steps_append:
  "run_steps (fs @ gs) s = (case run_steps fs s of (Some e, s') \<Rightarrow> (Some e, s') | (None, s') \<Rightarrow> run_steps gs s')"
  by (induction fs arbitrary: s) (auto split: prod.splits option.splits)

lemma run_steps_None:
  "run_steps (f # fs) s = (None, s') \<longleftrightarrow> (\<exists>s1. f s = (None, s1) \<and> run_steps fs s1 = (None, s'))"
  by (auto split: prod.splits option.splits)

lemma run_steps_keep:
  assumes "run_steps fs s = (e, s')" "list_all (touches P) fs" "q \<notin> P"
  shows "fget q s' = fget q s"
  using touchesD [OF touches_run [OF assms(2)] assms(1,3)] .

text \<open>What one step of a successful sequence establishes and the later ones do not touch holds at the end.\<close>

lemma run_steps_establish:
  assumes "run_steps (fs @ f # gs) s = (None, s')"
    and "\<And>s1 s2. f s1 = (None, s2) \<Longrightarrow> fget q s2 = Some c"
    and "list_all (touches P) gs" "q \<notin> P"
  shows "fget q s' = Some c"
proof -
  from assms(1) obtain s1 s2 where "f s1 = (None, s2)" "run_steps gs s2 = (None, s')"
    unfolding run_steps_append run_steps_None by (auto split: prod.splits option.splits)
  with assms(2) run_steps_keep [OF _ assms(3,4)] show ?thesis by metis
qed

lemma wrap_None: "wrap_error msg f s = (None, s') \<longleftrightarrow> f s = (None, s')"
  by (auto simp: wrap_error_def split: prod.splits option.splits)

section \<open>Steps that succeed\<close>

lemma json_ok_iff: "json_error v = None \<longleftrightarrow> (\<forall>x\<in>set (floats_of v). is_fin x)"
proof -
  have "json_error v = None \<longleftrightarrow> find (\<lambda>x. \<not> is_fin x) (floats_of v) = None"
    by (simp add: json_error_def split: option.split)
  then show ?thesis by (auto simp: find_None_iff)
qed

definition succeeds :: "'a step \<Rightarrow> bool" where
  "succeeds f = (\<forall>s. \<exists>s'. f s = (None, s'))"

lemma succeeds_wrap: "succeeds f \<Longrightarrow> succeeds (wrap_error msg f)"
  by (simp add: succeeds_def wrap_None)

lemma succeeds_simple: "succeeds (Pair None)" "succeeds (count_step g)" "\<forall>c. io c = Done \<Longrightarrow> succeeds (mkdir_all io p)"
  by (simp_all add: succeeds_def count_step_def mkdir_all_def)

lemma succeeds_write: "\<forall>c. io c = Done \<Longrightarrow> json_error v = None \<Longrightarrow> succeeds (write_json_file io jlen p v)"
  by (simp add: succeeds_def write_json_file_def Let_def)

lemma succeeds_run: "list_all succeeds fs \<Longrightarrow> succeeds (run_steps fs)"
  by (induction fs) (simp_all add: succeeds_def run_steps.simps, metis (mono_tags) case_prod_conv option.simps(4))

lemmas succeeds = succeeds_wrap succeeds_simple succeeds_write

section \<open>Names and contents\<close>

declare run_steps.simps [simp del]

text \<open>The kind of value a file name stands for.\<close>

fun file_named :: "stored \<Rightarrow> string \<Rightarrow> bool" where
  "file_named (SListing m) n = (n = ''metadata.json'')"
| "file_named (STrades ts) n = (n = ''spot.json'' \<or> n = ''futures.json'')"
| "file_named (SAnalysis an) n = (n = ''pump_analysis.json'')"
| "file_named (SPumps ps) n = (n = ''pump_events.json'')"
| "file_named (SSummary s) n = (n = ''summary.json'')"
| "file_named (SRefined ra) n = (n = ''refined_analysis.json'' \<or> n = ''analysis.json'')"
| "file_named (SUsers us) n = (n = ''top_users.json'')"
| "file_named (SMetadata m) n = (n = ''analysis_metadata.json'' \<or> n = ''metadata.json'')"
| "file_named (SExchange r ps) n = has_suffix n ''_pumps.json''"

definition disk_typed :: "'a storage_manager \<Rightarrow> bool" where
  "disk_typed sm = (\<forall>p c. fget p sm = Some c \<longrightarrow>
     has_suffix (last p) ''.tmp'' \<or> (\<exists>v. c = Json v \<and> file_named v (last p)))"

definition keeps_typed :: "'a step \<Rightarrow> bool" where
  "keeps_typed f = (\<forall>s. disk_typed s \<longrightarrow> disk_typed (snd (f s)))"

named_theorems typed "steps that keep the disk typed"

lemma typed_write [typed]:
  assumes "file_named v (last p)"
  shows "keeps_typed (write_json_file io jlen p v)"
  unfolding keeps_typed_def
proof (intro allI impI)
  fix s :: "'a storage_manager"
  assume d: "disk_typed s"
  obtain e s' where w: "write_json_file io jlen p v s = (e, s')" by fastforce
  show "disk_typed (snd (write_json_file io jlen p v s))"
    unfolding disk_typed_def w snd_conv
  proof (intro allI impI)
    fix q c
    assume q: "fget q s' = Some c"
    show "has_suffix (last q) ''.tmp'' \<or> (\<exists>v. c = Json v \<and> file_named v (last q))"
    proof (cases "q = p \<or> q = tmp_path p")
      case True
      then show ?thesis
      proof
        assume "q = p"
        with q write_json_result [OF w] assms d show ?thesis by (auto simp: disk_typed_def split: if_splits)
      qed (simp add: tmp_path_def)
    next
      case False
      with touchesD [OF touches_write w, of q] q d show ?thesis by (simp add: disk_typed_def)
    qed
  qed
qed

lemma typed_touches: "touches {} f \<Longrightarrow> keeps_typed f"
  by (simp add: keeps_typed_def touches_def disk_typed_def)

lemma typed_simple [typed]:
  "keeps_typed (Pair None)" "keeps_typed (count_step f)" "keeps_typed (mkdir_all io p)"
  by (rule typed_touches, rule touch)+

lemma typed_wrap [typed]: "keeps_typed f \<Longrightarrow> keeps_typed (wrap_error msg f)"
  by (simp add: keeps_typed_def wrap_error_def split: prod.split option.split) (metis snd_conv)

lemma typed_if [typed]: "(c \<Longrightarrow> keeps_typed f) \<Longrightarrow> (\<not> c \<Longrightarrow> keeps_typed g) \<Longrightarrow> keeps_typed (if c then f else g)"
  by simp

lemma typed_run [typed]: "list_all keeps_typed fs \<Longrightarrow> keeps_typed (run_steps fs)"
proof (induction fs)
  case (Cons f fs)
  then have "keeps_typed f" "keeps_typed (run_steps fs)" by simp_all
  then show ?case
    by (simp add: keeps_typed_def run_steps.simps split: prod.split option.split) (metis snd_conv)
qed (simp add: keeps_typed_def run_steps.simps)

lemma typedD: "keeps_typed f \<Longrightarrow> f s = (e, s') \<Longrightarrow> disk_typed s \<Longrightarrow> disk_typed s'"
  unfolding keeps_typed_def by (metis snd_conv)

lemma typed_at: "keeps_typed f \<Longrightarrow> disk_typed s \<Longrightarrow> disk_typed (snd (f s))"
  unfolding keeps_typed_def by blast

lemma typed_same_disk: "smDisk s' = smDisk s \<Longrightarrow> disk_typed s' = disk_typed s"
  by (simp add: disk_typed_def fget_def)

lemma typed_listing_steps:
  "keeps_typed (run_steps [wrap_error x (mkdir_all io d),
     wrap_error y (write_json_file io jlen (d @ [''metadata.json'']) (SListing m)), count_step f])"
  by (intro typed) (simp add: typed)

lemma typed_store_listing: "keeps_typed (store_listing_event io jlen off now ev)"
  unfolding keeps_typed_def store_listing_event_def Let_def
  by (auto simp del: append_assoc intro!: typed_at [OF typed_listing_steps])

lemma typed_store_raw: "keeps_typed (store_raw_data io jlen rawDir ce)"
  unfolding store_raw_data_def store_exchange_raw_def
  by (intro typed) (auto simp: list_all_iff intro!: typed)

lemma typed_pump_steps:
  "keeps_typed (run_steps
     [wrap_error a (mkdir_all io d), wrap_error b (write_json_file io jlen (d @ [''pump_events.json'']) (SPumps ps)),
      wrap_error c (write_json_file io jlen (d @ [''summary.json'']) (SSummary su)),
      wrap_error e (write_json_file io jlen (d @ [''analysis_metadata.json'']) (SMetadata m)), count_step f])"
  by (intro typed) (simp add: typed)

lemma typed_store_pump: "keeps_typed (store_pump_analysis io jlen off now symbol trig an)"
  unfolding keeps_typed_def store_pump_analysis_def Let_def
  by (auto simp del: append_assoc intro!: typed_at [OF typed_pump_steps])

lemma typed_exchange_steps:
  "keeps_typed (run_steps
     [wrap_error a (write_json_file io jlen (d @ [''analysis.json'']) (SRefined xa)),
      (if c then wrap_error b (write_json_file io jlen (d @ [''top_users.json'']) (SUsers us)) else Pair None),
      wrap_error e (write_json_file io jlen (d @ [''metadata.json'']) (SMetadata m)), count_step f])"
  by (intro typed) (simp add: typed)

lemma typed_exchange_analysis: "keeps_typed (store_exchange_analysis io jlen now dir ra ex)"
  unfolding keeps_typed_def
proof (intro allI impI)
  fix s :: "'a storage_manager"
  assume d: "disk_typed s"
  obtain e s1 where s1: "wrap_error (''failed to create '' @ ex @ '' refined directory: '') (mkdir_all io (dir @ [ex])) s = (e, s1)"
    by fastforce
  then have d1: "disk_typed s1" using typedD [OF typed_wrap [OF typed_simple(3)] _ d] by blast
  let ?xa = "filter_analysis_for_exchange ra ex"
  have split: "disk_typed (snd (case (e, s1) of (Some e, sm1) \<Rightarrow> (Some e, sm1)
       | (None, sm1) \<Rightarrow> if c then (None, sm1) else f sm1))" if "keeps_typed f" for c and f :: "'a step"
    using typed_at [OF that d1] d1 by (simp split: option.split)
  show "disk_typed (snd (store_exchange_analysis io jlen now dir ra ex s))"
    unfolding store_exchange_analysis_def Let_def s1 by (rule split, rule typed_exchange_steps)
qed

lemma typed_aggregated: "keeps_typed (store_aggregated_analysis io jlen now dir ra)"
  unfolding store_aggregated_analysis_def by (intro typed) (simp add: typed)

lemma typed_per_exchange: "keeps_typed (store_per_exchange_analysis io jlen now dir ra)"
  unfolding store_per_exchange_analysis_def by (intro typed) (simp add: typed_exchange_analysis)

lemma typed_refined_steps:
  "keeps_typed (run_steps
     [wrap_error x (mkdir_all io d), wrap_error y (store_aggregated_analysis io jlen now d ra),
      wrap_error z (store_per_exchange_analysis io jlen now d ra), count_step f])"
  by (intro typed) (simp add: typed typed_aggregated typed_per_exchange)

lemma typed_store_refined: "keeps_typed (store_refined_analysis io jlen off now symbol trig ra)"
  unfolding keeps_typed_def store_refined_analysis_def Let_def
  by (auto simp del: append_assoc intro!: typed_at [OF typed_refined_steps])

lemma typed_pump_files: "disk_typed s \<Longrightarrow> disk_typed (fold (exchange_pump_file io jlen d an) krs s)"
proof (induction krs arbitrary: s)
  case (Cons kr krs)
  have "disk_typed (exchange_pump_file io jlen d an kr s)"
    using Cons.prems by (cases kr) (auto simp: exchange_pump_file_def intro!: typed_at [OF typed_write])
  with Cons.IH show ?case by simp
qed simp

lemma typed_perform_steps:
  "keeps_typed (run_steps
     [wrap_error x (write_json_file io jlen (d @ [''pump_analysis.json'']) (SAnalysis an)),
      (if paPumpEvents an \<noteq> []
       then wrap_error y (write_json_file io jlen (d @ [''pump_events.json'']) (SPumps (paPumpEvents an)))
       else Pair None),
      wrap_error z (write_json_file io jlen (d @ [''summary.json'']) (SSummary (paSummary an))),
      (\<lambda>s. (None, fold (exchange_pump_file io jlen d an) krs s)), count_step f])"
proof -
  have "keeps_typed (\<lambda>s. (None, fold (exchange_pump_file io jlen d an) krs s))"
    by (simp add: keeps_typed_def typed_pump_files)
  then show ?thesis by (intro typed) (simp add: typed)
qed

lemma typed_perform:
  assumes "perform_pump_analysis analyze ord io jlen a d (ce, s) = (e, ce', s')" "disk_typed s"
  shows "disk_typed s'"
proof -
  have d: "disk_typed (s\<lparr>smAnalyzer := x\<rparr>)" for x using assms(2) by (simp add: disk_typed_def)
  from assms(1) show ?thesis
    using typedD [OF typed_perform_steps _ d] d
    by (auto simp: perform_pump_analysis_def Let_def simp del: append_assoc split: prod.splits sum.splits option.splits)
qed

lemma typed_collection_steps:
  "keeps_typed (run_steps
     [wrap_error x (mkdir_all io d),
      (if b then wrap_error y (store_raw_data io jlen d ce) else Pair None),
      (if c then wrap_error z (mkdir_all io d') else Pair None)])"
  by (intro typed) (simp add: typed typed_store_raw)

text \<open>The stages of a successful \<open>StoreCollectionEvent\<close>.\<close>

definition collection_steps ::
  "os \<Rightarrow> (stored \<Rightarrow> int) \<Rightarrow> path \<Rightarrow> collection_event \<Rightarrow> storage_config \<Rightarrow> 'a step" where
  "collection_steps io jlen dir ce cfg =
     run_steps
       [wrap_error ''failed to create raw directory: '' (mkdir_all io (dir @ [''raw''])),
        (if stRawDataEnabled cfg
         then wrap_error ''failed to store raw data: '' (store_raw_data io jlen (dir @ [''raw'']) ce) else Pair None),
        (if stRefinedEnabled cfg
         then wrap_error ''failed to create refined directory: '' (mkdir_all io (dir @ [''refined''])) else Pair None)]"

lemma store_collection_stages:
  assumes "store_collection_event analyze ord io jlen off now ce sm = (e, ce', sm')" "stEnabled (smConfig sm)"
    and "dir = get_event_directory off (ceSymbol ce) (ceTriggerTime ce) sm"
  obtains sm1 sm2 where "collection_steps io jlen dir ce (smConfig sm) sm = (e, sm1)"
    "e = None \<Longrightarrow> sm' = upd_storage_stats (\<lambda>st. st\<lparr>stLastWrite := now\<rparr>) sm2"
    "e \<noteq> None \<Longrightarrow> sm' = sm1"
    "e = None \<Longrightarrow> \<not> (\<exists>a. smAnalyzer sm1 = Some a \<and> stRefinedEnabled (smConfig sm) \<and> smAnalysisEnabled sm1) \<and> sm2 = sm1 \<and> ce' = ce \<or>
       (\<exists>a err. smAnalyzer sm1 = Some a \<and> stRefinedEnabled (smConfig sm) \<and> smAnalysisEnabled sm1 \<and>
       perform_pump_analysis analyze ord io jlen a (dir @ [''refined'']) (ce, sm1) = (err, ce', sm2))"
proof -
  obtain e1 sm1 where s1: "collection_steps io jlen dir ce (smConfig sm) sm = (e1, sm1)" by fastforce
  note u = assms(1) [unfolded store_collection_event_def Let_def, folded assms(3), folded collection_steps_def, unfolded s1]
  show thesis
  proof (cases e1)
    case (Some x)
    then have "e = Some x" "sm' = sm1" using u assms(2) by auto
    with s1 Some that [of sm1 sm1] u assms(2) show thesis by auto
  next
    case None
    show thesis
    proof (cases "\<exists>a. smAnalyzer sm1 = Some a \<and> stRefinedEnabled (smConfig sm) \<and> smAnalysisEnabled sm1")
      case True
      then obtain a where a: "smAnalyzer sm1 = Some a" "stRefinedEnabled (smConfig sm)" "smAnalysisEnabled sm1" by blast
      obtain err cx sm2 where p: "perform_pump_analysis analyze ord io jlen a (dir @ [''refined'']) (ce, sm1) = (err, cx, sm2)"
        using prod_cases3 by blast
      then have "e = None" "ce' = cx" "sm' = upd_storage_stats (\<lambda>st. st\<lparr>stLastWrite := now\<rparr>) sm2"
        using u assms(2) None a by auto
      with s1 None p a that [of sm1 sm2] show thesis by blast
    next
      case False
      then have "e = None" "ce' = ce" "sm' = upd_storage_stats (\<lambda>st. st\<lparr>stLastWrite := now\<rparr>) sm1"
        using u assms(2) None by (auto split: option.splits if_splits)
      with s1 None False show thesis by (intro that [of sm1 sm1]) (simp_all del: not_ex)
    qed
  qed
qed

lemma typed_stats: "disk_typed (upd_storage_stats f s) = disk_typed s"
  by (simp add: disk_typed_def)

lemma typed_store_collection:
  assumes "store_collection_event analyze ord io jlen off now ce sm = (e, ce', sm')" "disk_typed sm"
  shows "disk_typed sm'"
proof (cases "stEnabled (smConfig sm)")
  case True
  let ?dir = "get_event_directory off (ceSymbol ce) (ceTriggerTime ce) sm"
  from store_collection_stages [OF assms(1) True refl] obtain sm1 sm2 where
    st: "collection_steps io jlen ?dir ce (smConfig sm) sm = (e, sm1)"
      "e = None \<Longrightarrow> sm' = upd_storage_stats (\<lambda>st. st\<lparr>stLastWrite := now\<rparr>) sm2" "e \<noteq> None \<Longrightarrow> sm' = sm1"
      "e = None \<Longrightarrow> sm2 = sm1 \<and> ce' = ce \<or> (\<exists>a err. perform_pump_analysis analyze ord io jlen a (?dir @ [''refined'']) (ce, sm1) = (err, ce', sm2))"
    by metis
  have d1: "disk_typed sm1" by (rule typedD [OF typed_collection_steps st(1) [unfolded collection_steps_def] assms(2)])
  then have "e = None \<Longrightarrow> disk_typed sm2" using st(4) by (auto intro: typed_perform)
  with d1 show ?thesis using st(2,3) by (cases e) (auto simp: typed_stats)
next
  case False
  with assms show ?thesis by (simp add: store_collection_event_def)
qed

lemma mget_not_under: "mget (filter (\<lambda>f. \<not> prefix p (fst f)) m) q = (if prefix p q then None else mget m q)"
  by (induction m) auto

lemma remove_old_dir_files:
  "mget (dFiles (remove_old_dir io cutoff p d)) q =
     (if extract_timestamp_from_dir (last p) \<noteq> zero_time \<and> extract_timestamp_from_dir (last p) < cutoff \<and>
         (\<forall>e. io (RemoveAll p) \<noteq> Failed e) \<and> prefix p q then None else mget (dFiles d) q)"
  by (auto simp: remove_old_dir_def Let_def remove_tree_def mget_not_under split: outcome.split)

lemma removals_files:
  "mget (dFiles (fold (remove_old_dir io cutoff) ps d)) q = mget (dFiles d) q \<or>
   mget (dFiles (fold (remove_old_dir io cutoff) ps d)) q = None"
proof (induction ps arbitrary: d)
  case (Cons p ps)
  have "mget (dFiles (remove_old_dir io cutoff p d)) q \<in> {mget (dFiles d) q, None}"
    by (simp add: remove_old_dir_files)
  with Cons.IH [of "remove_old_dir io cutoff p d"] show ?case by auto
qed simp

lemma typed_cleanup: "keeps_typed (cleanup_old_data io now)"
  unfolding keeps_typed_def
proof (intro allI impI)
  fix sm :: "'a storage_manager"
  assume d: "disk_typed sm"
  have "disk_typed (upd_disk (\<lambda>d. fold (remove_old_dir io cutoff) (f d) d) sm)" for cutoff f
    unfolding disk_typed_def
  proof (intro allI impI)
    fix q c
    assume "fget q (upd_disk (\<lambda>d. fold (remove_old_dir io cutoff) (f d) d) sm) = Some c"
    then have "fget q sm = Some c"
      using removals_files [of io cutoff "f (smDisk sm)" "smDisk sm" q] by (simp add: fget_def upd_disk_def)
    with d show "has_suffix (last q) ''.tmp'' \<or> (\<exists>v. c = Json v \<and> file_named v (last q))"
      by (simp add: disk_typed_def)
  qed
  with d show "disk_typed (snd (cleanup_old_data io now sm))"
    by (auto simp: cleanup_old_data_def Let_def typed_stats split: outcome.split)
qed

section \<open>Runs of the storage manager\<close>

text \<open>Its mutex makes each operation one step; the answers of the operating system, the clock and the
  order of a map are new at each.\<close>

datatype storage_action =
    StoreListing listing_event
  | StoreCollection collection_event
  | StorePumps string gotime pump_analysis
  | StoreRefined string gotime refined_analysis
  | Analyzer
  | Closed

inductive storage_step :: "'a analyze \<Rightarrow> 'a storage_manager \<Rightarrow> storage_action \<Rightarrow> 'a storage_manager \<Rightarrow> bool" for analyze where
  ss_listing: "storage_step analyze sm (StoreListing ev) (snd (store_listing_event io jlen off now ev sm))"
| ss_collection: "store_collection_event analyze ord io jlen off now ce sm = (e, ce', sm') \<Longrightarrow>
    storage_step analyze sm (StoreCollection ce) sm'"
| ss_pumps: "storage_step analyze sm (StorePumps symbol t an) (snd (store_pump_analysis io jlen off now symbol t an sm))"
| ss_refined: "storage_step analyze sm (StoreRefined symbol t ra) (snd (store_refined_analysis io jlen off now symbol t ra sm))"
| ss_analyzer: "storage_step analyze sm Analyzer (set_analyzer a sm)"
| ss_closed: "storage_step analyze sm Closed (close_storage io now sm)"

inductive_cases storage_stepE: "storage_step analyze sm a sm'"

lemma storage_step_typed: "storage_step analyze sm a sm' \<Longrightarrow> disk_typed sm \<Longrightarrow> disk_typed sm'"
proof (induction rule: storage_step.induct)
  case (ss_analyzer sm a)
  then show ?case by (simp add: set_analyzer_def disk_typed_def fget_def)
next
  case (ss_closed sm io now)
  then show ?case by (auto simp: close_storage_def intro: typed_at [OF typed_cleanup])
qed (auto intro: typed_at typed_store_listing typed_store_pump typed_store_refined typed_store_collection)

lemma new_storage_disk:
  "fget p (new_storage_manager io now config analysis d :: 'a storage_manager) = mget (dFiles d) p"
  "smConfig (new_storage_manager io now config analysis d :: 'a storage_manager) = config"
  "smBaseDir (new_storage_manager io now config analysis d :: 'a storage_manager) = stDataDir config"
proof -
  let ?s0 = "\<lparr>smConfig = config, smAnalysisEnabled = analysis, smBaseDir = stDataDir config, smAnalyzer = None,
        smStats = \<lparr>stListingEvents = 0, stRawFiles = 0, stRefinedFiles = 0, stDataSize = 0,
                   stLastWrite = zero_time, stLastCleanup = now\<rparr>, smDisk = d\<rparr> :: 'a storage_manager"
  have "touches {} (run_steps (map (\<lambda>d. wrap_error (''failed to create directory '' @ concat d @ '': '') (mkdir_all io d)) ds))"
    for ds by (intro touch) (auto simp: list_all_iff intro!: touch)
  from this [of "[smBaseDir ?s0, smBaseDir ?s0 @ [''logs'']]", unfolded touches_def, THEN spec, of ?s0]
  show "fget p (new_storage_manager io now config analysis d :: 'a storage_manager) = mget (dFiles d) p"
    "smConfig (new_storage_manager io now config analysis d :: 'a storage_manager) = config"
    "smBaseDir (new_storage_manager io now config analysis d :: 'a storage_manager) = stDataDir config"
    unfolding new_storage_manager_def ensure_directories_def by (simp_all add: fget_def)
qed

text \<open>C11. In every run of the storage manager, from an empty disk and whatever system calls fail, a file
  holds a complete value of the kind its name stands for; only temporary files can be torn or left over.\<close>

theorem disk_stays_typed:
  assumes "runs (storage_step analyze) (new_storage_manager io now config analysis d) as sm" "dFiles d = []"
    and "fget p sm = Some c" "\<not> has_suffix (last p) ''.tmp''"
  shows "\<exists>v. c = Json v \<and> file_named v (last p)"
proof -
  have "disk_typed (new_storage_manager io now config analysis d)"
    by (simp add: disk_typed_def new_storage_disk assms(2))
  then have "disk_typed sm" using runs_invariant [OF assms(1)] storage_step_typed by metis
  with assms(3,4) show ?thesis by (auto simp: disk_typed_def)
qed

section \<open>The raw files of a collection\<close>

definition raw_path :: "path \<Rightarrow> string \<Rightarrow> path" where
  "raw_path dir k = dir @ [''raw'', fst (parse_exchange_market k), snd (parse_exchange_market k) @ ''.json'']"

lemma in_under [simp]:
  "d \<in> under d" "butlast (d @ [x]) \<in> under d" "butlast (d @ [y, x]) \<in> under (d @ [y])" "butlast (d @ [y, x]) \<in> under d"
  by (simp_all add: under_def butlast_append)

lemma touches_exchange_raw [touch]: "touches (under (rawDir @ [fst e])) (store_exchange_raw io jlen rawDir e)"
  by (cases e) (auto simp: store_exchange_raw_def intro!: touch)

lemma write_ok: "write_json_file io jlen p v s = (None, s') \<Longrightarrow> fget p s' = Some (Json v)"
  using write_json_result by fastforce

lemma exchange_raw_result:
  assumes "store_exchange_raw io jlen rawDir (name, spot, futures) s = (None, s')"
  shows "fget (rawDir @ [name, ''spot.json'']) s' = Some (Json (STrades spot))"
    and "fget (rawDir @ [name, ''futures.json'']) s' = Some (Json (STrades futures))"
proof -
  let ?w = "\<lambda>n ts. write_json_file io jlen (rawDir @ [name, n]) (STrades ts)"
  from assms obtain s1 s2 s3 where st: "?w ''spot.json'' spot s1 = (None, s2)"
      "?w ''futures.json'' futures (upd_storage_stats (add_raw_files 1) s2) = (None, s3)"
      "s' = upd_storage_stats (add_raw_files 1) s3"
    by (auto simp: store_exchange_raw_def run_steps.simps wrap_None count_step_def split: prod.splits option.splits)
  have "fget (rawDir @ [name, ''spot.json'']) s3 = fget (rawDir @ [name, ''spot.json'']) s2"
    using touchesD [OF touches_write st(2), of "rawDir @ [name, ''spot.json'']"] by simp
  with write_ok [OF st(1)] write_ok [OF st(2)] st(3)
  show "fget (rawDir @ [name, ''spot.json'']) s' = Some (Json (STrades spot))"
    "fget (rawDir @ [name, ''futures.json'']) s' = Some (Json (STrades futures))" by simp_all
qed

lemma stored_exchanges_facts:
  "distinct (map fst (stored_exchanges ce))"
  "k \<in> set analyzed_markets \<Longrightarrow> \<exists>spot futures. (fst (parse_exchange_market k), spot, futures) \<in> set (stored_exchanges ce) \<and>
     (snd (parse_exchange_market k) = ''spot'' \<and> spot = slice_of k ce \<or>
      snd (parse_exchange_market k) = ''futures'' \<and> futures = slice_of k ce)"
  by (simp add: stored_exchanges_def) (auto simp: analyzed_markets_def parse_exchange_market_def stored_exchanges_def)

lemma raw_data_result:
  fixes s :: "'a storage_manager"
  assumes "store_raw_data io jlen (dir @ [''raw'']) ce s = (None, s')" "k \<in> set analyzed_markets"
  shows "fget (raw_path dir k) s' = Some (Json (STrades (slice_of k ce)))"
proof -
  let ?ex = "fst (parse_exchange_market k)" and ?f = "store_exchange_raw io jlen (dir @ [''raw'']) :: _ \<Rightarrow> 'a step"
  obtain spot futures where e: "(?ex, spot, futures) \<in> set (stored_exchanges ce)"
      "snd (parse_exchange_market k) = ''spot'' \<and> spot = slice_of k ce \<or>
       snd (parse_exchange_market k) = ''futures'' \<and> futures = slice_of k ce"
    using stored_exchanges_facts(2) [OF assms(2)] by blast
  then obtain us vs where l: "stored_exchanges ce = us @ (?ex, spot, futures) # vs" by (meson split_list)
  have run: "run_steps (map ?f us @ ?f (?ex, spot, futures) # map ?f vs) s = (None, s')"
    using assms(1) by (simp add: store_raw_data_def l)
  have est: "fget (raw_path dir k) s2 = Some (Json (STrades (slice_of k ce)))"
    if "?f (?ex, spot, futures) s1 = (None, s2)" for s1 s2
    using exchange_raw_result [OF that] e(2) by (auto simp: raw_path_def)
  have names: "?ex \<notin> fst ` set vs" using stored_exchanges_facts(1) [of ce] unfolding l by simp
  let ?P = "{q. raw_path dir k \<noteq> q}"
  have "touches ?P (?f v)" if "v \<in> set vs" for v
    by (rule touches_mono [OF touches_exchange_raw])
      (use that names in \<open>auto simp: under_def raw_path_def prefix_def\<close>)
  then have "list_all (touches ?P) (map ?f vs)" by (simp add: list_all_iff)
  from run_steps_establish [OF run est this] show ?thesis by simp
qed

lemma collection_steps_raw:
  assumes "collection_steps io jlen dir ce cfg s = (None, s')" "stRawDataEnabled cfg" "k \<in> set analyzed_markets"
  shows "fget (raw_path dir k) s' = Some (Json (STrades (slice_of k ce)))"
proof -
  let ?r = "if stRefinedEnabled cfg then wrap_error ''failed to create refined directory: '' (mkdir_all io (dir @ [''refined''])) else Pair None"
  from assms(1,2) obtain s1 s2 where
    "store_raw_data io jlen (dir @ [''raw'']) ce s1 = (None, s2)" "?r s2 = (None, s')"
    by (auto simp: collection_steps_def run_steps.simps wrap_None split: prod.splits option.splits)
  moreover have "touches {} ?r" by (intro touch)
  ultimately show ?thesis using raw_data_result [OF _ assms(3)] touchesD by fastforce
qed

lemma collection_succeeds:
  assumes "\<forall>c. io c = Done"
  shows "succeeds (collection_steps io jlen dir ce cfg)"
  unfolding collection_steps_def store_raw_data_def store_exchange_raw_def
  by (intro succeeds_run) (auto simp: succeeds assms list_all_iff json_ok_iff intro!: succeeds succeeds_run)

lemma touches_collection: "touches UNIV (collection_steps io jlen dir ce cfg)"
  unfolding collection_steps_def store_raw_data_def
  by (intro touch) (auto simp: list_all_iff intro!: touch touches_mono [OF touches_exchange_raw])

lemma touches_pump_file: "touches (under d) (\<lambda>s. (None, exchange_pump_file io jlen d an kr s))"
proof (cases kr)
  case (Pair k r)
  let ?v = "SExchange r (filter (\<lambda>p. market_key p = k) (paPumpEvents an))"
  have "touches (under d) (write_json_file io jlen (d @ [k @ ''_pumps.json'']) ?v :: 'a step)"
    by (intro touch) simp_all
  then show "touches (under d) (\<lambda>s :: 'a storage_manager. (None, exchange_pump_file io jlen d an kr s))"
    by (simp add: Pair exchange_pump_file_def touches_def)
qed

lemma touches_pump_files [touch]: "touches (under d) (\<lambda>s. (None, fold (exchange_pump_file io jlen d an) krs s))"
proof (induction krs)
  case (Cons kr krs)
  with touches_pump_file [of d io jlen an kr] show ?case by (simp add: touches_def)
qed (simp add: touches_def)

lemma touches_perform_steps:
  "touches (under d) (run_steps
     [wrap_error x (write_json_file io jlen (d @ [''pump_analysis.json'']) (SAnalysis an)),
      (if paPumpEvents an \<noteq> []
       then wrap_error y (write_json_file io jlen (d @ [''pump_events.json'']) (SPumps (paPumpEvents an)))
       else Pair None),
      wrap_error z (write_json_file io jlen (d @ [''summary.json'']) (SSummary (paSummary an))),
      (\<lambda>s. (None, fold (exchange_pump_file io jlen d an) krs s)), count_step f])"
  by (intro touch) (simp add: touch)

lemmas perform_steps_keep = touchesD [OF touches_perform_steps]

lemma perform_keeps:
  assumes "perform_pump_analysis analyze ord io jlen a d (ce, s) = (e, ce', s')" "q \<notin> under d"
  shows "fget q s' = fget q s"
  using assms
  by (auto simp: perform_pump_analysis_def Let_def dest!: perform_steps_keep simp del: append_assoc split: prod.splits sum.splits option.splits)

lemma collection_raw_files:
  assumes "store_collection_event analyze ord io jlen off now ce sm = (None, ce', sm')"
    and "stEnabled (smConfig sm)" "stRawDataEnabled (smConfig sm)" "k \<in> set analyzed_markets"
  shows "fget (raw_path (get_event_directory off (ceSymbol ce) (ceTriggerTime ce) sm) k) sm' =
    Some (Json (STrades (slice_of k ce)))"
proof -
  let ?dir = "get_event_directory off (ceSymbol ce) (ceTriggerTime ce) sm"
  from store_collection_stages [OF assms(1,2) refl] obtain sm1 sm2 where
    st: "collection_steps io jlen ?dir ce (smConfig sm) sm = (None, sm1)"
      "sm' = upd_storage_stats (\<lambda>st. st\<lparr>stLastWrite := now\<rparr>) sm2"
      "sm2 = sm1 \<and> ce' = ce \<or> (\<exists>a err. perform_pump_analysis analyze ord io jlen a (?dir @ [''refined'']) (ce, sm1) = (err, ce', sm2))"
    by metis
  have "raw_path ?dir k \<notin> under (?dir @ [''refined''])" by (auto simp: raw_path_def under_def)
  with st(3) have "fget (raw_path ?dir k) sm2 = fget (raw_path ?dir k) sm1" by (auto dest: perform_keeps)
  with collection_steps_raw [OF st(1) assms(3,4)] show ?thesis by (simp add: st(2))
qed

text \<open>When a collection is stored without an error, each of its twelve slices is on the disk, in the
  order of arrival, in the file of its exchange and market: the analysis that follows, whatever it does
  to the slices and whatever of its own writes fail, changes none of the raw files.\<close>

theorem raw_files_hold_slices:
  assumes "store_collection_event analyze ord io jlen off now ce sm = (None, ce', sm')"
    and "stEnabled (smConfig sm)" "stRawDataEnabled (smConfig sm)" "k \<in> set analyzed_markets"
  shows "fget (raw_path (get_event_directory off (ceSymbol ce) (ceTriggerTime ce) sm) k) sm' =
    Some (Json (STrades (slice_of k ce)))"
  using assms by (rule collection_raw_files)

section \<open>Retention\<close>

lemma split_char_join: "split_char c (a @ c # b) = split_char c a @ split_char c b"
proof (induction a)
  case (Cons x a)
  then show ?case by (cases "split_char c a") auto
qed simp

lemma pad_num_plain: "0 \<le> n \<Longrightarrow> CHR ''_'' \<notin> set (pad_num k n)"
proof -
  assume "0 \<le> n"
  moreover have "CHR ''_'' \<notin> set (show_nat m)" for m
    using show_nat_digits [of m] by (force simp: list_all_iff is_digit_def)
  ultimately show ?thesis by (simp add: pad_num_def zero_pad_def)
qed

definition stamp_ok :: "int \<Rightarrow> gotime \<Rightarrow> bool" where
  "stamp_ok off t = (- 62135596800 < t div 1000000000 + off \<and> t div 1000000000 + off < 253402300800)"

text \<open>The instant whose UTC clock shows what the clock of the location showed.\<close>

definition wall_clock :: "int \<Rightarrow> gotime \<Rightarrow> gotime" where
  "wall_clock off t = (t div 1000000000 + off) * 1000000000"

lemma extract_stamp:
  assumes "stamp_ok off t"
  shows "extract_timestamp_from_dir (symbol @ ''_'' @ format_stamp off t) = wall_clock off t"
proof -
  let ?s = "t div 1000000000 + off"
  have b: "- 62135596800 \<le> ?s" "?s < 253402300800" using assms by (simp_all add: stamp_ok_def)
  from format_stamp_parts [OF b refl] obtain y m k where
    f: "format_stamp off t = (pad_num 4 y @ pad_num 2 (int m) @ pad_num 2 k) @ CHR ''_'' #
         (pad_num 2 (?s mod 86400 div 3600) @ pad_num 2 (?s mod 86400 div 60 mod 60) @ pad_num 2 (?s mod 86400 mod 60))"
      and r: "1 \<le> y" "1 \<le> k"
    by (metis append_Cons append_Nil append_assoc)
  define u v where "u = pad_num 4 y @ pad_num 2 (int m) @ pad_num 2 k"
    and "v = pad_num 2 (?s mod 86400 div 3600) @ pad_num 2 (?s mod 86400 div 60 mod 60) @ pad_num 2 (?s mod 86400 mod 60)"
  have plain: "CHR ''_'' \<notin> set u" "CHR ''_'' \<notin> set v"
    using r pad_num_plain by (auto simp: u_def v_def pos_imp_zdiv_nonneg_iff)
  have uv: "format_stamp off t = u @ CHR ''_'' # v" using f by (simp add: u_def v_def)
  have "split_char (CHR ''_'') (symbol @ ''_'' @ format_stamp off t) = split_char (CHR ''_'') symbol @ [u, v]"
    unfolding uv using split_char_join [of "CHR ''_''" symbol] split_char_join [of "CHR ''_''" u] split_char_none plain by simp
  moreover obtain x xs where "split_char (CHR ''_'') symbol = x # xs" by (meson split_char_nonempty neq_Nil_conv)
  ultimately show ?thesis
    using stamp_roundtrip [OF b] by (simp add: extract_timestamp_from_dir_def Let_def nth_append uv wall_clock_def)
qed

lemma cleanup_fold:
  assumes "\<forall>p\<in>set ps. length p = n" "length d = n" "d \<in> set ps" "prefix d q"
    and "\<forall>p. io (RemoveAll p) = Done"
  shows "mget (dFiles (fold (remove_old_dir io cutoff) ps s)) q =
    (if extract_timestamp_from_dir (last d) \<noteq> zero_time \<and> extract_timestamp_from_dir (last d) < cutoff
     then None else mget (dFiles s) q)"
proof -
  let ?old = "extract_timestamp_from_dir (last d) \<noteq> zero_time \<and> extract_timestamp_from_dir (last d) < cutoff"
  have "mget (dFiles (fold (remove_old_dir io cutoff) ps s)) q =
    (if ?old \<and> d \<in> set ps then None else mget (dFiles s) q)" if "\<forall>p\<in>set ps. length p = n" for ps s
    using that
  proof (induction ps arbitrary: s)
    case (Cons p ps)
    have "length p = length d" using Cons.prems assms(2) by simp
    moreover obtain r where "q = d @ r" using assms(4) by (auto simp: prefix_def)
    ultimately have eq: "prefix p q \<longleftrightarrow> p = d" by (auto simp: prefix_def append_eq_append_conv)
    show ?case using Cons by (auto simp: remove_old_dir_files eq assms(4,5))
  qed simp
  with assms(1,3) show ?thesis by simp
qed

lemma cleanup_event_dir:
  assumes "cleanup_old_data io now sm = (e, sm')" "stRetentionDays (smConfig sm) > 0" "\<forall>c. io c = Done"
    and "dir = get_event_directory off symbol t sm" "dir \<in> set (dDirs (smDisk sm))" "stamp_ok off t" "prefix dir q"
  shows "fget q sm' =
    (if wall_clock off t < now - stRetentionDays (smConfig sm) * 24 * hour then None else fget q sm)"
proof -
  let ?cutoff = "now - stRetentionDays (smConfig sm) * 24 * hour"
  let ?ps = "subdirs (smBaseDir sm) (smDisk sm)"
  have len: "\<forall>p\<in>set ?ps. length p = length (smBaseDir sm) + 1" by (auto simp: subdirs_def) (metis length_append_singleton append_butlast_last_id)
  have dir: "length dir = length (smBaseDir sm) + 1" "dir \<in> set ?ps" "last dir = symbol @ ''_'' @ format_stamp off t"
    using assms(4,5) by (auto simp: get_event_directory_def subdirs_def)
  have z: "wall_clock off t \<noteq> zero_time" using assms(6) by (auto simp: wall_clock_def stamp_ok_def zero_time_def)
  have "sm' = upd_storage_stats (\<lambda>st. st\<lparr>stLastCleanup := now\<rparr>)
      (upd_disk (\<lambda>d. fold (remove_old_dir io ?cutoff) (subdirs (smBaseDir sm) d) d) sm)"
    using assms(1,2) assms(3) by (auto simp: cleanup_old_data_def Let_def)
  then have "fget q sm' = mget (dFiles (fold (remove_old_dir io ?cutoff) ?ps (smDisk sm))) q"
    by (simp add: fget_def upd_disk_def upd_storage_stats_def)
  also have "\<dots> = (if wall_clock off t < ?cutoff then None else fget q sm)"
    using cleanup_fold [OF len dir(1,2) assms(7), of io ?cutoff "smDisk sm"] assms(3) z
    unfolding dir(3) extract_stamp [OF assms(6)] fget_def by simp
  finally show ?thesis .
qed

text \<open>Closing the storage manager removes the files below the directory of an event exactly when the
  clock of the event's location, read as a clock of UTC, is older than the retention: the name of a
  directory carries the local time and is parsed as UTC, so an event of a location east of Greenwich
  outlives the retention by the offset of its location.\<close>

theorem retention_reads_local_as_utc:
  assumes "stRetentionDays (smConfig sm) > 0" "\<forall>c. io c = Done"
    and "dir = get_event_directory off symbol t sm" "dir \<in> set (dDirs (smDisk sm))" "stamp_ok off t" "prefix dir q"
  shows "fget q (close_storage io now sm) =
    (if wall_clock off t < now - stRetentionDays (smConfig sm) * 24 * hour then None else fget q sm)"
proof -
  obtain e sm' where c: "cleanup_old_data io now sm = (e, sm')" by fastforce
  show ?thesis using cleanup_event_dir [OF c assms] assms(1) by (simp add: close_storage_def c)
qed

section \<open>The users of an exchange\<close>

lemma counted_keys:
  "k \<in> set (map fst (uaExchangeTrades (calculate_user_stats uid ts start))) \<Longrightarrow> CHR ''_'' \<in> set k"
proof -
  let ?step = "\<lambda>t m. let k = Exchange t @ ''_'' @ MarketType t in mput k (mcount m k + 1) m"
  have "fst ` set m \<subseteq> {k. CHR ''_'' \<in> set k} \<Longrightarrow> fst ` set (fold ?step ts m) \<subseteq> {k. CHR ''_'' \<in> set k}" for m
  proof (induction ts arbitrary: m)
    case (Cons t ts)
    have "fst ` set (?step t m) \<subseteq> {k. CHR ''_'' \<in> set k}"
      using Cons.prems unfolding Let_def dom_update by simp
    from Cons.IH [OF this] show ?case by simp
  qed simp
  from this [of "[]"] show "k \<in> set (map fst (uaExchangeTrades (calculate_user_stats uid ts start))) \<Longrightarrow> CHR ''_'' \<in> set k"
    by (auto simp: calculate_user_stats_def Let_def)
qed

lemma rank_users_trades: "u \<in> set (rank_users us) \<Longrightarrow> \<exists>v\<in>set us. uaExchangeTrades u = uaExchangeTrades v"
  by (auto simp: rank_users_def dest!: set_zip_rightD)

lemma refined_user_keys:
  assumes "env_ok env" "analyze_refined_pumps env now pa (Some ce) = Some (Inr ra, pa', Some ce')"
    and "u \<in> set (raUserAnalysis ra)" "CHR ''_'' \<notin> set k"
  shows "mget (uaExchangeTrades u) k = None"
proof -
  let ?ts = "collect_all_trades ce' (raWindowStart ra) (raWindowStart ra + 10 * second)"
  have "raUserAnalysis ra \<noteq> []" using assms(3) by auto
  from refined_users(1) [OF assms(2) this] sorted_users [OF assms(1)]
  have "raUserAnalysis ra = rank_users (map (user_of env (raWindowStart ra) ?ts) (milli_times ?ts))" by simp
  with assms(3) obtain ms where "uaExchangeTrades u = uaExchangeTrades (user_of env (raWindowStart ra) ?ts ms)"
    using rank_users_trades by fastforce
  then have "k \<notin> set (map fst (uaExchangeTrades u))" using counted_keys assms(4) unfolding user_of_def by metis
  then show ?thesis by (simp add: map_of_eq_None_iff)
qed

lemma filtered_users_empty:
  assumes "env_ok env" "analyze_refined_pumps env now pa (Some ce) = Some (Inr ra, pa', Some ce')"
    and "CHR ''_'' \<notin> set ex"
  shows "raUserAnalysis (filter_analysis_for_exchange ra ex) = []" "raTopUsers (filter_analysis_for_exchange ra ex) = []"
  using refined_user_keys [OF assms(1,2) _ assms(3)]
  by (auto simp: filter_analysis_for_exchange_def Let_def filter_empty_conv)

lemma avoid_under: "\<not> prefix d q \<Longrightarrow> under d \<subseteq> - {q}"
  by (auto simp: under_def)

lemma touches_write_other: "p \<noteq> q \<Longrightarrow> tmp_path p \<noteq> q \<Longrightarrow> touches (- {q}) (write_json_file io jlen p v)"
  by (rule touches_mono [OF touches_write]) auto

lemma touches_case:
  assumes "touches P g" "\<And>s1. touches P (h s1)"
  shows "touches P (\<lambda>s. case g s of (Some e, s1) \<Rightarrow> (Some e, s1) | (None, s1) \<Rightarrow> h s1 s1)"
  using assms by (simp add: touches_def split: prod.split option.split) (metis snd_conv)

lemma touches_unless: "touches P f \<Longrightarrow> touches P (\<lambda>s. if c then (None, s) else f s)"
  by (simp add: touches_def)

lemma exchange_steps_touch:
  "touches (under d) (run_steps
     [wrap_error a (write_json_file io jlen (d @ [''analysis.json'']) (SRefined xa)),
      (if c then wrap_error b (write_json_file io jlen (d @ [''top_users.json'']) (SUsers us)) else Pair None),
      wrap_error e (write_json_file io jlen (d @ [''metadata.json'']) (SMetadata m)), count_step f])"
  by (intro touch) (simp add: touch)

lemma touches_exchange_analysis: "touches (under (dir @ [ex])) (store_exchange_analysis io jlen now dir ra ex)"
  unfolding store_exchange_analysis_def Let_def
  by (rule touches_case, intro touch, rule touches_unless, rule exchange_steps_touch)

lemma exchange_without_users:
  assumes "raTopUsers (filter_analysis_for_exchange ra ex) = []"
  shows "touches (- {dir @ [ex, ''top_users.json'']}) (store_exchange_analysis io jlen now dir ra ex)"
  unfolding store_exchange_analysis_def Let_def assms
  by (rule touches_case, intro touch, rule touches_unless, rule touches_run)
    (auto intro!: touch touches_write_other)

lemma touches_aggregated_other:
  "length q \<noteq> Suc (length dir) \<Longrightarrow> touches (- {q}) (store_aggregated_analysis io jlen now dir ra)"
  unfolding store_aggregated_analysis_def
  by (intro touch) (auto intro!: touch touches_write_other)

text \<open>The per-exchange analysis never lists a user: the map of a user is keyed by exchange and
  market, the filter looks it up under the bare exchange, so storing an analysis the analyzer made
  leaves the file of the top users of every exchange as it was.\<close>

theorem exchange_users_never_stored:
  assumes "env_ok env" "analyze_refined_pumps env now0 pa (Some ce) = Some (Inr ra, pa', Some ce')"
    and "store_refined_analysis io jlen off now symbol trig ra sm = (e, sm')" "ex \<in> set analyzed_exchanges"
    and "q = get_event_directory off symbol trig sm @ [''refined'', ex, ''top_users.json'']"
  shows "fget q sm' = fget q sm"
proof (cases "\<not> stEnabled (smConfig sm) \<or> \<not> stRefinedEnabled (smConfig sm)")
  case True
  with assms(3) show ?thesis by (simp add: store_refined_analysis_def)
next
  case False
  let ?dir = "get_event_directory off symbol trig sm @ [''refined'']"
  have x: "touches (- {q}) (store_exchange_analysis io jlen now ?dir ra x)" if "x \<in> set analyzed_exchanges" for x
  proof (cases "x = ex")
    case True
    have "CHR ''_'' \<notin> set ex" using assms(4) by (auto simp: analyzed_exchanges_def)
    from filtered_users_empty(2) [OF assms(1,2) this] show ?thesis
      using exchange_without_users [of ra ex ?dir] by (simp add: True assms(5))
  next
    case False
    then show ?thesis
      by (intro touches_mono [OF touches_exchange_analysis] avoid_under) (auto simp: assms(5) prefix_def)
  qed
  have per: "touches (- {q}) (store_per_exchange_analysis io jlen now ?dir ra)"
    unfolding store_per_exchange_analysis_def
    by (intro touch) (use x in \<open>auto simp: list_all_iff analyzed_exchanges_def\<close>)
  have agg: "touches (- {q}) (store_aggregated_analysis io jlen now ?dir ra)"
    by (rule touches_aggregated_other) (simp add: assms(5))
  have "touches (- {q}) (run_steps
     [wrap_error a (mkdir_all io ?dir), wrap_error b (store_aggregated_analysis io jlen now ?dir ra),
      wrap_error c (store_per_exchange_analysis io jlen now ?dir ra), count_step f])" for a b c f
    by (intro touch) (simp add: touch per agg)
  then show ?thesis
    using assms(3) False touchesD by (fastforce simp: store_refined_analysis_def Let_def)
qed

section \<open>A sample store\<close>

definition working_disk :: os where
  "working_disk = (\<lambda>_. Done)"

definition no_rename :: os where
  "no_rename c = (case c of Rename p q \<Rightarrow> Failed ''permission denied'' | _ \<Rightarrow> Done)"

definition sample_config :: "bool \<Rightarrow> storage_config" where
  "sample_config refined = \<lparr>stEnabled = True, stDataDir = [''data''], stRawDataEnabled = True,
     stRefinedEnabled = refined, stRetentionDays = 1\<rparr>"

definition sample_store :: "bool \<Rightarrow> 'a option \<Rightarrow> disk \<Rightarrow> 'a storage_manager" where
  "sample_store refined a d = \<lparr>smConfig = sample_config refined, smAnalysisEnabled = True, smBaseDir = [''data''],
     smAnalyzer = a, smStats = \<lparr>stListingEvents = 0, stRawFiles = 0, stRefinedFiles = 0, stDataSize = 0,
       stLastWrite = zero_time, stLastCleanup = zero_time\<rparr>, smDisk = d\<rparr>"

definition one_file :: "path list \<Rightarrow> path \<Rightarrow> stored \<Rightarrow> disk" where
  "one_file ds p v = \<lparr>dDirs = ds, dFiles = [(p, Json v)]\<rparr>"

lemma sample_simps [simp]:
  "working_disk c = Done" "smConfig (sample_store b a d) = sample_config b" "smAnalyzer (sample_store b a d) = a"
  "smBaseDir (sample_store b a d) = [''data'']" "smDisk (sample_store b a d) = d" "smAnalysisEnabled (sample_store b a d)"
  "stEnabled (sample_config b)" "stRawDataEnabled (sample_config b)" "stRefinedEnabled (sample_config b) = b"
  "stRetentionDays (sample_config b) = 1"
  by (simp_all add: working_disk_def sample_store_def sample_config_def)

theorem write_is_atomic_witness:
  "\<exists>e sm'. write_json_file no_rename (\<lambda>_. 2) [''data'', ''spot.json''] (STrades [])
       (sample_store False (None :: unit option) (one_file [] [''data'', ''spot.json''] (STrades falling_trades))) = (Some e, sm') \<and>
     fget [''data'', ''spot.json''] sm' = Some (Json (STrades falling_trades))"
proof -
  let ?s = "sample_store False (None :: unit option) (one_file [] [''data'', ''spot.json''] (STrades falling_trades))"
  let ?p = "[''data'', ''spot.json'']"
  have "json_error (STrades []) = None" by (simp add: json_ok_iff)
  then obtain e sm' where w: "write_json_file no_rename (\<lambda>_. 2) ?p (STrades []) ?s = (Some e, sm')"
    by (auto simp: write_json_file_def no_rename_def Let_def)
  moreover have "fget ?p ?s = Some (Json (STrades falling_trades))" by (simp add: fget_def one_file_def)
  ultimately show ?thesis using write_is_atomic [OF w] by simp
qed

definition sample_listing :: listing_event where
  "sample_listing = \<lparr>evID = ''1'', evTitle = ''TIA listed'', evSymbol = ''TIA'', evMarkets = [''KRW''], AnnouncedAt = 0,
     DetectedAt = 0, NoticeURL = [], evTriggerTime = 0, IsKRWListing = True\<rparr>"

theorem disk_stays_typed_witness:
  "\<exists>sm v. runs (storage_step (\<lambda>a ce. (Inl ''none'', a, ce)))
       (new_storage_manager working_disk 0 (sample_config False) False \<lparr>dDirs = [], dFiles = []\<rparr> :: unit storage_manager)
       [StoreListing sample_listing] sm \<and>
     fget [''data'', ''TIA_'' @ format_stamp 0 0, ''metadata.json''] sm = Some (Json v) \<and> file_named v ''metadata.json''"
proof -
  let ?s0 = "new_storage_manager working_disk 0 (sample_config False) False \<lparr>dDirs = [], dFiles = []\<rparr> :: unit storage_manager"
  let ?s1 = "snd (store_listing_event working_disk (\<lambda>_. 1) 0 0 sample_listing ?s0)"
  let ?p = "[''data'', ''TIA_'' @ format_stamp 0 0, ''metadata.json'']"
  have r: "runs (storage_step (\<lambda>a ce. (Inl ''none'', a, ce))) ?s0 [StoreListing sample_listing] ?s1"
    by (auto intro!: ss_listing)
  have base: "smBaseDir ?s0 = [''data'']" "smConfig ?s0 = sample_config False"
    unfolding new_storage_disk by (simp_all add: sample_config_def)
  have js: "json_error (SListing m) = None" for m by (simp add: json_ok_iff)
  obtain c where c: "fget ?p ?s1 = Some c"
    using js by (auto simp: store_listing_event_def Let_def base run_steps.simps wrap_error_def mkdir_all_def
        write_json_file_def upd_disk_comp count_step_def get_event_directory_def sample_listing_def)
  obtain v where "c = Json v" "file_named v (last ?p)"
    using disk_stays_typed [OF r _ c] by (auto simp: has_suffix_def)
  with r c show ?thesis by auto
qed

definition sample_dir :: path where
  "sample_dir = [''data'', ''TIA_'' @ format_stamp 0 (of_milli 1700000000000)]"

lemma falling_frame [simp]:
  "ceSymbol falling_collection = ''TIA''" "ceTriggerTime falling_collection = of_milli 1700000000000"
  "get_event_directory 0 ''TIA'' (of_milli 1700000000000) (sample_store b a d) = sample_dir"
  by (simp_all add: falling_collection_def empty_collection_def get_event_directory_def sample_dir_def)

theorem raw_files_hold_slices_witness:
  "\<exists>ce' sm'. store_collection_event (\<lambda>a ce. (Inl ''none'', a, ce)) id working_disk (\<lambda>_. 1) 0 0 falling_collection
       (sample_store False (None :: unit option) \<lparr>dDirs = [], dFiles = []\<rparr>) = (None, ce', sm') \<and>
     fget (sample_dir @ [''raw'', ''gate'', ''spot.json'']) sm' = Some (Json (STrades falling_trades))"
proof -
  let ?s = "sample_store False (None :: unit option) \<lparr>dDirs = [], dFiles = []\<rparr>"
  obtain e ce' sm' where w: "store_collection_event (\<lambda>a ce. (Inl ''none'', a, ce)) id working_disk (\<lambda>_. 1) 0 0 falling_collection ?s = (e, ce', sm')"
    using prod_cases3 by blast
  have ok: "\<forall>c. working_disk c = Done" by simp
  obtain sm1 where "collection_steps working_disk (\<lambda>_. 1) sample_dir falling_collection (sample_config False) ?s = (None, sm1)"
    using collection_succeeds [OF ok] unfolding succeeds_def by blast
  with store_collection_stages [OF w _ refl] have e: "e = None" by auto
  have "parse_exchange_market ''gate_spot'' = (''gate'', ''spot'')" by (simp add: parse_exchange_market_def)
  then show ?thesis
    using raw_files_hold_slices [OF w [unfolded e], of "''gate_spot''"] w e
    by (simp add: raw_path_def analyzed_markets_def falling_slices del: slice_of_lit)
qed

theorem retention_reads_local_as_utc_witness:
  "fget [''data'', ''TIA_'' @ format_stamp 3600 0, ''raw''] (sample_store False (None :: unit option)
       (one_file [[''data'', ''TIA_'' @ format_stamp 3600 0]] [''data'', ''TIA_'' @ format_stamp 3600 0, ''raw''] (STrades []))) \<noteq> None \<and>
   fget [''data'', ''TIA_'' @ format_stamp 3600 0, ''raw''] (close_storage working_disk (48 * hour) (sample_store False (None :: unit option)
       (one_file [[''data'', ''TIA_'' @ format_stamp 3600 0]] [''data'', ''TIA_'' @ format_stamp 3600 0, ''raw''] (STrades [])))) = None"
proof -
  let ?d = "[''data'', ''TIA_'' @ format_stamp 3600 0]"
  let ?s = "sample_store False (None :: unit option) (one_file [?d] (?d @ [''raw'']) (STrades []))"
  have d: "?d = get_event_directory 3600 ''TIA'' 0 ?s" by (simp add: get_event_directory_def)
  have "stamp_ok 3600 0" "wall_clock 3600 0 < 48 * hour - 1 * 24 * hour"
    by (simp_all add: stamp_ok_def wall_clock_def hour_def minute_def second_def)
  with retention_reads_local_as_utc [OF _ _ d, of working_disk "?d @ [''raw'']" "48 * hour"] show ?thesis
    by (simp add: one_file_def fget_def prefix_def)
qed

theorem exchange_users_never_stored_witness:
  "\<exists>ra pa' ce' e sm'. analyze_refined_pumps std_env 0 new_pump_analyzer (Some falling_collection) = Some (Inr ra, pa', Some ce') \<and>
     raTopUsers ra \<noteq> [] \<and>
     store_refined_analysis working_disk (\<lambda>_. 1) 0 0 ''TIA'' (of_milli 1700000000000) ra
       (sample_store True (None :: unit option) \<lparr>dDirs = [], dFiles = []\<rparr>) = (e, sm') \<and>
     fget (sample_dir @ [''refined'', ''gate'', ''top_users.json'']) sm' = None"
proof -
  let ?s = "sample_store True (None :: unit option) \<lparr>dDirs = [], dFiles = []\<rparr>"
  obtain ra pa' ce' where r: "analyze_refined_pumps std_env 0 new_pump_analyzer (Some falling_collection) = Some (Inr ra, pa', Some ce')"
      "raUserAnalysis ra \<noteq> []" using falling_refined by blast
  obtain e sm' where w: "store_refined_analysis working_disk (\<lambda>_. 1) 0 0 ''TIA'' (of_milli 1700000000000) ra ?s = (e, sm')"
    by fastforce
  have "raTopUsers ra \<noteq> []" using r by (auto simp: analyze_refined_pumps_def refined_without_users_def Let_def split: prod.splits sum.splits option.splits if_splits)
  moreover have "''gate'' \<in> set analyzed_exchanges" by (simp add: analyzed_exchanges_def)
  moreover have "fget q ?s = None" for q by (simp add: fget_def)
  ultimately show ?thesis
    using exchange_users_never_stored [OF std_env_ok r(1) w _ refl, of "''gate''"] r(1) w by auto
qed

end
