(* ===== verification/StorageAnalysis.thy ===== *)
theory StorageAnalysis
  imports StorageProps
begin

text \<open>
  The analysis of a stored collection: what the storage manager asks of its analyzer, the analyzer of
  \<open>main.go\<close> as a provider of it, and the file each market with a pump gets.
\<close>

section \<open>The analyzer as the storage manager sees it\<close>

text \<open>What the storage manager relies on: the results name each market once, and count its events.\<close>

locale pump_provider =
  fixes analyze :: "'a analyze" and ready :: "'a \<Rightarrow> bool"
  assumes results_distinct:
      "ready a \<Longrightarrow> analyze a (Some ce) = (Inr (Some an), a', arg) \<Longrightarrow> wf_map (paExchangeResults an)"
    and results_count:
      "ready a \<Longrightarrow> analyze a (Some ce) = (Inr (Some an), a', arg) \<Longrightarrow> (k, r) \<in> set (paExchangeResults an) \<Longrightarrow>
         erPumpEventsCount r = length (filter (\<lambda>p. market_key p = k) (paPumpEvents an)) \<and> 0 < erPumpEventsCount r"
begin

lemma pump_files_fold:
  fixes s :: "'a storage_manager"
  assumes "\<forall>c. io c = Done" "json_error (SAnalysis an) = None"
    and "distinct (map fst krs)" "\<forall>(k, r)\<in>set krs. (k, r) \<in> set (paExchangeResults an) \<and> 0 < erPumpEventsCount r"
    and "(k, r) \<in> set krs"
  shows "fget (d @ [k @ ''_pumps.json'']) (fold (exchange_pump_file io jlen d an) krs s) =
    Some (Json (SExchange r (filter (\<lambda>p. market_key p = k) (paPumpEvents an))))"
proof -
  from assms(5) obtain us vs where krs: "krs = us @ (k, r) # vs" by (meson split_list)
  let ?q = "d @ [k @ ''_pumps.json'']"
  let ?v = "SExchange r (filter (\<lambda>p. market_key p = k) (paPumpEvents an))"
  have r: "(k, r) \<in> set (paExchangeResults an)" "0 < erPumpEventsCount r" using assms(4,5) by auto
  have "json_error ?v = None" using assms(2) r(1) by (force simp: json_ok_iff)
  then have w: "fget ?q (snd (write_json_file io jlen ?q ?v s1)) = Some (Json ?v)" for s1
    by (simp add: write_json_file_def Let_def assms(1) upd_disk_comp)
  have keep: "touches (- {?q}) (\<lambda>s :: 'a storage_manager. (None, fold (exchange_pump_file io jlen d an) vs s))"
    if "k \<notin> fst ` set vs" using that
  proof (induction vs)
    case (Cons kr vs)
    obtain k' r' where kr: "kr = (k', r')" by fastforce
    with Cons.prems have ne: "k' \<noteq> k" by auto
    let ?w = "write_json_file io jlen (d @ [k' @ ''_pumps.json'']) (SExchange r' (filter (\<lambda>p. market_key p = k') (paPumpEvents an))) :: 'a step"
    have suffix: "k' @ ''_pumps.json.tmp'' \<noteq> k @ ''_pumps.json''"
    proof
      assume "k' @ ''_pumps.json.tmp'' = k @ ''_pumps.json''"
      then have "last (k' @ ''_pumps.json.tmp'') = last (k @ ''_pumps.json'')" by (simp only:)
      then show False by simp
    qed
    have "touches (- {?q}) ?w"
      by (rule touches_write_other) (use ne suffix in simp_all)
    with Cons show ?case by (simp add: kr exchange_pump_file_def touches_def)
  qed (simp add: touches_def)
  have "k \<notin> fst ` set vs" using assms(3) by (simp add: krs)
  from keep [OF this, unfolded touches_def, THEN spec] w r(2) show ?thesis
    by (simp add: krs exchange_pump_file_def)
qed

lemma performed_pump_files:
  assumes "perform_pump_analysis analyze ord io jlen a d (ce, s) = (e, ce', s')" "ready a"
    and "analyze a (Some ce) = (Inr (Some an), a', arg)" "\<forall>c. io c = Done" "json_error (SAnalysis an) = None"
    and "iter_order ord" "(k, r) \<in> set (paExchangeResults an)"
  shows "e = None \<and> fget (d @ [k @ ''_pumps.json'']) s' =
    Some (Json (SExchange r (filter (\<lambda>p. market_key p = k) (paPumpEvents an))))"
proof -
  let ?krs = "ord (paExchangeResults an)"
  have perm: "mset ?krs = mset (paExchangeResults an)" using assms(6) by (simp add: iter_order_def)
  then have set: "set ?krs = set (paExchangeResults an)" by (metis set_mset_mset)
  have "distinct (map fst ?krs)"
    using results_distinct [OF assms(2,3)] wf_map_perm [OF perm] by (simp add: wf_map_def)
  moreover have "\<forall>(k, r)\<in>set ?krs. (k, r) \<in> set (paExchangeResults an) \<and> 0 < erPumpEventsCount r"
    using results_count [OF assms(2,3)] by (auto simp: set)
  ultimately have f: "fget (d @ [k @ ''_pumps.json'']) (fold (exchange_pump_file io jlen d an) ?krs s1) =
      Some (Json (SExchange r (filter (\<lambda>p. market_key p = k) (paPumpEvents an))))" for s1 :: "'a storage_manager"
    by (rule pump_files_fold [OF assms(4,5)]) (use assms(7) set in simp_all)
  let ?w = "\<lambda>n v. write_json_file io jlen (d @ [n]) v :: 'a step"
  let ?fs = "[wrap_error ''failed to write pump analysis: '' (?w ''pump_analysis.json'' (SAnalysis an)),
      (if paPumpEvents an \<noteq> [] then wrap_error ''failed to write pump events: '' (?w ''pump_events.json'' (SPumps (paPumpEvents an)))
       else Pair None),
      wrap_error ''failed to write analysis summary: '' (?w ''summary.json'' (SSummary (paSummary an)))]"
  let ?gs = "[(\<lambda>s. (None, fold (exchange_pump_file io jlen d an) ?krs s)),
      count_step (add_refined_files (int (length (paExchangeResults an)) + 3))]"
  have js: "json_error (SPumps (paPumpEvents an)) = None" "json_error (SSummary (paSummary an)) = None"
    using assms(5) by (auto simp: json_ok_iff)
  have "succeeds (run_steps ?fs)"
    by (rule succeeds_run) (use js assms(4,5) in \<open>simp add: succeeds\<close>)
  then obtain s3 where "run_steps ?fs (s\<lparr>smAnalyzer := Some a'\<rparr>) = (None, s3)" unfolding succeeds_def by blast
  then have "run_steps (?fs @ ?gs) (s\<lparr>smAnalyzer := Some a'\<rparr>) =
      (None, upd_storage_stats (add_refined_files (int (length (paExchangeResults an)) + 3))
        (fold (exchange_pump_file io jlen d an) ?krs s3))"
    unfolding run_steps_append by (simp add: run_steps.simps count_step_def)
  with assms(1) f show ?thesis
    by (auto simp: perform_pump_analysis_def assms(3) Let_def)
qed

end

lemma stages_with_analyzer:
  assumes "store_collection_event analyze ord io jlen off now ce sm = (e, ce', sm')" "stEnabled (smConfig sm)"
    and "dir = get_event_directory off (ceSymbol ce) (ceTriggerTime ce) sm"
    and "collection_steps io jlen dir ce (smConfig sm) sm = (None, sm1)"
    and "stRefinedEnabled (smConfig sm)" "smAnalysisEnabled sm" "smAnalyzer sm = Some a"
  shows "\<exists>err sm2. sm' = upd_storage_stats (\<lambda>st. st\<lparr>stLastWrite := now\<rparr>) sm2 \<and>
    perform_pump_analysis analyze ord io jlen a (dir @ [''refined'']) (ce, sm1) = (err, ce', sm2)"
proof -
  have fr: "smAnalyzer sm1 = Some a" "smAnalysisEnabled sm1"
    using touches_frame [OF touches_collection assms(4)] assms(6,7) by simp_all
  from store_collection_stages [OF assms(1,2,3)] obtain sx sm2 where
    st: "collection_steps io jlen dir ce (smConfig sm) sm = (e, sx)"
      "e = None \<Longrightarrow> sm' = upd_storage_stats (\<lambda>st. st\<lparr>stLastWrite := now\<rparr>) sm2"
      "e = None \<Longrightarrow> \<not> (\<exists>a. smAnalyzer sx = Some a \<and> stRefinedEnabled (smConfig sm) \<and> smAnalysisEnabled sx) \<and> sm2 = sx \<and> ce' = ce \<or>
       (\<exists>a err. smAnalyzer sx = Some a \<and> stRefinedEnabled (smConfig sm) \<and> smAnalysisEnabled sx \<and>
       perform_pump_analysis analyze ord io jlen a (dir @ [''refined'']) (ce, sx) = (err, ce', sm2))"
    by metis
  from st(1) assms(4) have "e = None" "sx = sm1" by simp_all
  with st(2,3) fr assms(5) show ?thesis by auto
qed

lemma market_events_of:
  assumes "k \<in> set analyzed_markets"
  shows "filter (\<lambda>p. market_key p = k) (concat (map (\<lambda>m. fst (market_of env pa ce m)) analyzed_markets)) =
    fst (market_of env pa ce k)"
proof -
  have "filter (\<lambda>p. market_key p = k) (concat (map (\<lambda>m. fst (market_of env pa ce m)) ms)) =
      (if k \<in> set ms then fst (market_of env pa ce k) else [])"
    if "distinct ms" "set ms \<subseteq> set analyzed_markets" for ms
    using that
  proof (induction ms)
    case (Cons m ms)
    have "filter (\<lambda>p. market_key p = k) (fst (market_of env pa ce m)) =
        (if m = k then fst (market_of env pa ce k) else [])"
      using market_of_event(1) [of _ env pa ce m] Cons.prems(2) by (auto simp: filter_empty_conv intro!: filter_True)
    with Cons show ?case by auto
  qed simp
  from this [of analyzed_markets] assms show ?thesis by (simp add: analyzed_markets_def)
qed

lemma code_analyzer_result:
  assumes "0 < minTradesRequired pa" "code_analyzer env now pa (Some ce) = (Inr (Some an), pa', arg)"
  shows "paPumpEvents an = concat (map (\<lambda>m. fst (market_of env pa ce m)) analyzed_markets)"
    and "paExchangeResults an = map (\<lambda>k. (k, the (fst (snd (market_of env pa ce k))))) (pumped_markets env pa ce)"
proof -
  have a: "analyze_pumps env now pa (Some ce) = (Inr an, pa', arg)"
    using assms(2) by (auto simp: code_analyzer_def split: prod.splits sum.splits)
  show "paPumpEvents an = concat (map (\<lambda>m. fst (market_of env pa ce m)) analyzed_markets)"
    by (rule analyze_pumps_result [OF assms(1), of env now ce]) (use a in \<open>auto simp: Let_def\<close>)
  show "paExchangeResults an = map (\<lambda>k. (k, the (fst (snd (market_of env pa ce k))))) (pumped_markets env pa ce)"
    by (rule analyze_pumps_result [OF assms(1), of env now ce]) (use a in \<open>auto simp: Let_def\<close>)
qed

lemma pumped_result:
  assumes "k \<in> set (pumped_markets env pa ce)"
  shows "erPumpEventsCount (the (fst (snd (market_of env pa ce k)))) = length (fst (market_of env pa ce k))"
    "fst (market_of env pa ce k) \<noteq> []" "k \<in> set analyzed_markets"
proof -
  show ne: "fst (market_of env pa ce k) \<noteq> []" and "k \<in> set analyzed_markets"
    using assms by (simp_all add: pumped_markets_def)
  obtain r where "fst (snd (market_of env pa ce k)) = Some r" "erPumpEventsCount r = length (fst (market_of env pa ce k))"
    unfolding market_of_def by (rule market_result [OF ne [unfolded market_of_def]])
  then show "erPumpEventsCount (the (fst (snd (market_of env pa ce k)))) = length (fst (market_of env pa ce k))" by simp
qed

lemma code_results:
  assumes "0 < minTradesRequired a" "code_analyzer env now a (Some ce) = (Inr (Some an), a', arg)"
  shows "wf_map (paExchangeResults an)"
    and "(k, r) \<in> set (paExchangeResults an) \<Longrightarrow>
      erPumpEventsCount r = length (filter (\<lambda>p. market_key p = k) (paPumpEvents an)) \<and> 0 < erPumpEventsCount r"
proof -
  have "distinct (pumped_markets env a ce)"
    unfolding pumped_markets_def by (rule distinct_filter) (simp add: analyzed_markets_def)
  moreover have "map fst (map (\<lambda>k. (k, f k)) ks) = ks" for f :: "string \<Rightarrow> exchange_result" and ks
    by (induction ks) simp_all
  ultimately show "wf_map (paExchangeResults an)"
    unfolding code_analyzer_result(2) [OF assms] wf_map_def by (simp only:)
  assume "(k, r) \<in> set (paExchangeResults an)"
  then have k: "k \<in> set (pumped_markets env a ce)" and r: "r = the (fst (snd (market_of env a ce k)))"
    unfolding code_analyzer_result(2) [OF assms] by (simp_all only: set_map image_iff prod.inject) blast+
  show "erPumpEventsCount r = length (filter (\<lambda>p. market_key p = k) (paPumpEvents an)) \<and> 0 < erPumpEventsCount r"
    unfolding code_analyzer_result(1) [OF assms] market_events_of [OF pumped_result(3) [OF k]] r pumped_result(1) [OF k]
    using pumped_result(2) [OF k] by (simp only: length_greater_0_conv simp_thms)
qed

interpretation code: pump_provider "code_analyzer env now" "\<lambda>pa. 0 < minTradesRequired pa" for env now
  by unfold_locales (fact code_results)+

section \<open>An analysis can be written\<close>

definition finite_quantities :: "trade_event list \<Rightarrow> bool" where
  "finite_quantities ts = list_all is_fin (volumes_of ts)"

lemma volumes_subset: "set us \<subseteq> set ts \<Longrightarrow> set (volumes_of us) \<subseteq> set (volumes_of ts)"
  by (auto simp: volumes_of_def List.map_filter_def)

lemma quantities_subset: "finite_quantities ts \<Longrightarrow> set us \<subseteq> set ts \<Longrightarrow> finite_quantities us"
  unfolding finite_quantities_def list_all_iff using volumes_subset [of us ts] by blast

lemma fold_add_fin: "is_fin s \<Longrightarrow> list_all is_fin xs \<Longrightarrow> is_fin (fold (\<lambda>v s. f_add s v) xs s)"
proof (induction xs arbitrary: s)
  case (Cons x xs)
  then have "is_fin (f_add s x)" by (cases s; cases x) simp_all
  with Cons show ?case by simp
qed simp

lemma window_step_trades:
  assumes "window_step sz t (ws, cur, endT) = (ws', cur', endT')"
    and "\<forall>w\<in>set ws. set (twTrades w) \<subseteq> A" "\<forall>w. cur = Some w \<longrightarrow> set (twTrades w) \<subseteq> A" "t \<in> A"
  shows "(\<forall>w\<in>set ws'. set (twTrades w) \<subseteq> A) \<and> (\<forall>w. cur' = Some w \<longrightarrow> set (twTrades w) \<subseteq> A)"
  using assms by (cases cur) (auto simp: window_step_def Let_def subset_iff split: if_splits)

lemma windows_fold_trades:
  assumes "fold (window_step sz) ts (ws, cur, endT) = (ws', cur', endT')"
    and "\<forall>w\<in>set ws. set (twTrades w) \<subseteq> A" "\<forall>w. cur = Some w \<longrightarrow> set (twTrades w) \<subseteq> A" "set ts \<subseteq> A"
  shows "(\<forall>w\<in>set ws'. set (twTrades w) \<subseteq> A) \<and> (\<forall>w. cur' = Some w \<longrightarrow> set (twTrades w) \<subseteq> A)"
  using assms
proof (induction ts arbitrary: ws cur endT)
  case (Cons t ts)
  obtain ws1 cur1 end1 where st: "window_step sz t (ws, cur, endT) = (ws1, cur1, end1)" using prod_cases3 by blast
  from window_step_trades [OF st Cons.prems(2,3)] Cons.prems(4) have
    "\<forall>w\<in>set ws1. set (twTrades w) \<subseteq> A" "\<forall>w. cur1 = Some w \<longrightarrow> set (twTrades w) \<subseteq> A" by auto
  with Cons.IH [of ws1 cur1 end1] Cons.prems(1,4) st show ?case by simp
qed auto

lemma windows_trades: "w \<in> set (create_time_windows ts wsize) \<Longrightarrow> set (twTrades w) \<subseteq> set ts"
proof -
  assume w: "w \<in> set (create_time_windows ts wsize)"
  obtain ws cur e where f: "fold (window_step (milliseconds wsize)) ts ([], None, wrap64 (Timestamp (ts ! 0) + milliseconds wsize)) = (ws, cur, e)"
    using prod_cases3 by blast
  from windows_fold_trades [OF f, of "set ts"] w f show ?thesis
    by (auto simp: create_time_windows_def Let_def split: option.splits if_splits)
qed

lemma windows_total_fin:
  assumes "\<forall>w\<in>set ws. finite_quantities (twTrades w)"
  shows "is_fin (snd (analyze_windows pa ex mt sm trig ws))"
proof -
  let ?f = "\<lambda>w (events, total).
       if length (twTrades w) < minTradesRequired pa then (events, total)
       else ((case analyze_time_window pa ex mt sm w trig of Some e \<Rightarrow> events @ [e] | None \<Rightarrow> events),
             fold (\<lambda>v s. f_add s v) (volumes_of (twTrades w)) total)"
  have "is_fin (snd (fold ?f ws (es, total)))" if "is_fin total" for es total
    using that assms
  proof (induction ws arbitrary: es total)
    case (Cons w ws)
    obtain es' total' where st: "?f w (es, total) = (es', total')" by fastforce
    then have "is_fin total'"
      using Cons.prems fold_add_fin by (auto simp: finite_quantities_def split: if_splits)
    with Cons st show ?case by (simp only: fold.simps comp_apply) simp
  qed simp
  then show ?thesis by (simp add: analyze_windows_def)
qed

lemma market_total_fin:
  assumes "env_ok env" "finite_quantities (slice_of k ce)" "fst (market_of env pa ce k) \<noteq> []"
  shows "is_fin (erTotalVolume (the (fst (snd (market_of env pa ce k)))))"
proof -
  let ?ts = "sortTrades env (slice_of k ce)"
  have "set ?ts = set (slice_of k ce)" using env_sortTrades(1) [OF assms(1)] by (metis set_mset_mset)
  then have "\<forall>w\<in>set (create_time_windows ?ts z). finite_quantities (twTrades w)" for z
    using windows_trades quantities_subset [OF assms(2)] by blast
  from windows_total_fin [OF this] assms(3) show ?thesis
    by (auto simp: market_of_def analyze_exchange_market_def Let_def split_beta split: if_splits)
qed

lemma market_change_fin: "p \<in> set (fst (market_of env pa ce k)) \<Longrightarrow> is_fin (pePriceChange p)"
proof -
  assume "p \<in> set (fst (market_of env pa ce k))"
  then obtain ex mt sm w trig where "analyze_time_window pa ex mt sm w trig = Some p"
    by (auto simp: market_of_def analyze_exchange_market_def Let_def split_beta analyze_windows_fst
        List.map_filter_def split: if_splits)
  then have "\<not> is_inf (pePriceChange p) \<and> \<not> is_nan (pePriceChange p)"
    by (auto simp: analyze_time_window_def Let_def split: if_splits)
  then show ?thesis by (cases "pePriceChange p") (simp_all add: is_inf_def is_nan_def)
qed

lemma summary_max_fin:
  assumes "\<forall>p\<in>set events. is_fin (pePriceChange p)"
  shows "is_fin (asMaxPriceChange (generate_analysis_summary events results))"
proof -
  have "is_fin (ssMax (fold (summary_step es) xs s))" if "is_fin (ssMax s)" "\<forall>x\<in>set xs. is_fin (pePriceChange (snd x))" for es xs s
    using that by (induction xs arbitrary: s) (auto simp: summary_step_def split_beta)
  moreover have "\<forall>x\<in>set (zip [0..<length events] events). is_fin (pePriceChange (snd x))"
    using assms by (auto dest!: set_zip_rightD)
  ultimately show ?thesis by (simp add: generate_analysis_summary_def Let_def)
qed

lemma analysis_writable:
  assumes "env_ok env" "0 < minTradesRequired pa" "\<forall>k\<in>set analyzed_markets. finite_quantities (slice_of k ce)"
  obtains an pa' arg where "code_analyzer env now pa (Some ce) = (Inr (Some an), pa', arg)" "json_error (SAnalysis an) = None"
proof -
  let ?ev = "concat (map (\<lambda>k. fst (market_of env pa ce k)) analyzed_markets)"
  let ?re = "map (\<lambda>k. (k, the (fst (snd (market_of env pa ce k))))) (pumped_markets env pa ce)"
  let ?an = "\<lparr>paPumpEvents = ?ev, paSummary = generate_analysis_summary ?ev ?re, paExchangeResults = ?re\<rparr>"
  have ev: "\<forall>p\<in>set ?ev. is_fin (pePriceChange p)" using market_change_fin by auto
  have "\<forall>kr\<in>set ?re. is_fin (erTotalVolume (snd kr))"
    using market_total_fin [OF assms(1)] assms(3) by (auto simp: pumped_markets_def)
  with ev summary_max_fin [OF ev, of ?re] have "json_error (SAnalysis ?an) = None"
    by (auto simp: json_ok_iff summary_floats_def)
  moreover obtain pa' arg where "code_analyzer env now pa (Some ce) = (Inr (Some ?an), pa', arg)"
    by (rule analyze_pumps_result [OF assms(2), of env now ce]) (auto simp: code_analyzer_def Let_def)
  ultimately show thesis by (rule that [rotated])
qed

section \<open>The pump files\<close>



end
