(* ===== verification/EndToEnd.thy ===== *)
theory EndToEnd
  imports TaskManagerProps StorageAnalysis
begin

text \<open>
  From the messages of the exchanges to the disk: the pipeline of the task manager and the storage
  manager together.
\<close>

lemma markets_are_keys: "set analyzed_markets = set collection_keys"
  by (auto simp: analyzed_markets_def collection_keys_def)




end
