(* ===== verification/GoBytes.thy ===== *)
theory GoBytes
  imports GoFloat "HOL-Library.Word"
begin

text \<open>
  Byte streams: \<open>encoding/binary\<close> in little-endian order on a \<open>bytes.Buffer\<close> and a \<open>bytes.Reader\<close>, and the
  layout of a 64-bit float.  A read that finds too few bytes consumes them and leaves its variable zero.
\<close>

type_synonym bytes = "8 word list"

section \<open>Little-endian numbers\<close>

fun bytes_of :: "nat \<Rightarrow> nat \<Rightarrow> bytes" where
  "bytes_of 0 x = []"
| "bytes_of (Suc n) x = word_of_nat x # bytes_of n (x div 256)"

fun val_of :: "bytes \<Rightarrow> nat" where
  "val_of [] = 0"
| "val_of (b # bs) = unat b + 256 * val_of bs"

lemma length_bytes_of [simp]: "length (bytes_of n x) = n"
  by (induction n arbitrary: x) simp_all

lemma val_bytes: "val_of (bytes_of n x) = x mod 256 ^ n"
proof (induction n arbitrary: x)
  case (Suc n)
  have "unat (word_of_nat x :: 8 word) = x mod 256" by (simp add: unsigned_of_nat take_bit_eq_mod)
  then show ?case
    using Suc [of "x div 256"] mod_mult2_eq [of x 256 "256 ^ n"] by simp
qed simp

lemma val_bytes_id: "x < 256 ^ n \<Longrightarrow> val_of (bytes_of n x) = x"
  by (simp add: val_bytes)

section \<open>Writing and reading\<close>

definition write_word :: "nat \<Rightarrow> 'a::len word \<Rightarrow> bytes" where
  "write_word n w = bytes_of n (unat w)"

definition read_word :: "nat \<Rightarrow> bytes \<Rightarrow> 'a::len word \<times> bytes" where
  "read_word n bs = (if length bs < n then (0, []) else (word_of_nat (val_of (take n bs)), drop n bs))"

text \<open>\<open>bytes.Reader.Read\<close> into an array of \<open>n\<close> bytes: what is missing stays zero.\<close>

definition read_bytes :: "nat \<Rightarrow> bytes \<Rightarrow> bytes \<times> bytes" where
  "read_bytes n bs = (take n bs @ replicate (n - length bs) 0, drop n bs)"

fun read_words :: "nat \<Rightarrow> nat \<Rightarrow> bytes \<Rightarrow> 'a::len word list \<times> bytes" where
  "read_words n 0 bs = ([], bs)"
| "read_words n (Suc k) bs =
     (let (w, bs1) = read_word n bs; (ws, bs2) = read_words n k bs1 in (w # ws, bs2))"

lemma read_write_word:
  fixes w :: "'a::len word"
  assumes "LENGTH('a) = 8 * n"
  shows "read_word n (write_word n w @ rest) = (w, rest)"
proof -
  have "unat w < 256 ^ n" using unsigned_less [of w] assms by (simp add: power_mult)
  then show ?thesis by (simp add: read_word_def write_word_def val_bytes_id)
qed

lemma read_write_words:
  fixes ws :: "'a::len word list"
  assumes "LENGTH('a) = 8 * n"
  shows "read_words n (length ws) (concat (map (write_word n) ws) @ rest) = (ws, rest)"
  by (induction ws) (simp_all add: read_write_word [OF assms])

lemma read_back_bytes: "read_bytes (length bs) (bs @ rest) = (bs, rest)"
  by (simp add: read_bytes_def)

lemma length_read_words: "length (fst (read_words n k bs)) = k"
  by (induction k arbitrary: bs) (simp_all add: split_beta Let_def)

section \<open>Floats\<close>

text \<open>The sign, the exponent and the fraction of a double.\<close>

definition double_parts :: "64 word \<Rightarrow> nat \<times> nat \<times> nat" where
  "double_parts w = (unat w div 2 ^ 63, unat w div 2 ^ 52 mod 2048, unat w mod 2 ^ 52)"

definition double_of_parts :: "nat \<Rightarrow> nat \<Rightarrow> nat \<Rightarrow> 64 word" where
  "double_of_parts s e m = word_of_nat (s * 2 ^ 63 + e * 2 ^ 52 + m)"

definition from_bits :: "64 word \<Rightarrow> gofloat" where
  "from_bits w =
     (case double_parts w of (s, e, m) \<Rightarrow>
        if e = 2047 then (if m \<noteq> 0 then NaN else if s = 0 then PosInf else NegInf)
        else Fin ((if s = 0 then 1 else - 1) *
          (if e = 0 then of_nat m / 2 ^ 1074 else of_nat (2 ^ 52 + m) * 2 ^ (e - 1) / 2 ^ 1074)))"

text \<open>The exponent of a magnitude counted in units of the smallest float, with \<open>2 ^ 53\<close> halved away.\<close>

fun halvings :: "nat \<Rightarrow> rat \<Rightarrow> nat" where
  "halvings 0 a = 0"
| "halvings (Suc n) a = (if a < 2 ^ 53 then 0 else Suc (halvings n (a / 2)))"

definition to_bits :: "gofloat \<Rightarrow> 64 word" where
  "to_bits x =
     (case x of
        NaN \<Rightarrow> double_of_parts 0 2047 (2 ^ 51 + 1)
      | PosInf \<Rightarrow> double_of_parts 0 2047 0
      | NegInf \<Rightarrow> double_of_parts 1 2047 0
      | Fin q \<Rightarrow>
          (let s = if q < 0 then 1 else 0; a = \<bar>q\<bar> * 2 ^ 1074 in
           if a < 2 ^ 52 then double_of_parts s 0 (nat (round_even a))
           else (let h = halvings 2046 a in
             double_of_parts s (h + 1) (nat (round_even (a / 2 ^ h)) - 2 ^ 52))))"

definition is_double :: "gofloat \<Rightarrow> bool" where
  "is_double x = (from_bits (to_bits x) = x)"

lemma parts_of_parts:
  assumes "s < 2" "e < 2048" "m < 2 ^ 52"
  shows "double_parts (double_of_parts s e m) = (s, e, m)"
proof -
  let ?n = "s * 2 ^ 63 + e * 2 ^ 52 + m"
  have "?n < 2 ^ 64" using assms by simp
  then have "take_bit 64 ?n = ?n" by (rule take_bit_nat_eq_self)
  then have u: "unat (double_of_parts s e m) = ?n"
    unfolding double_of_parts_def unsigned_of_nat by simp
  have n: "?n = (s * 2 ^ 11 + e) * 2 ^ 52 + m" by simp
  have "?n div 2 ^ 52 = s * 2 ^ 11 + e" "?n mod 2 ^ 52 = m"
    unfolding n using assms(3) by (simp_all only: div_mult_self3 mod_mult_self3 div_less mod_less add_0_right)
  moreover have "?n div 2 ^ 63 = s" using assms(2,3) by simp
  ultimately show ?thesis using assms(2) by (simp add: double_parts_def u)
qed

lemma parts_range:
  assumes "double_parts w = (s, e, m)"
  shows "s < 2" "e < 2048" "m < 2 ^ 52"
proof -
  have "unat w < 2 ^ 64" using unsigned_less [of w] by simp
  then show "s < 2" "e < 2048" "m < 2 ^ 52" using assms by (auto simp: double_parts_def)
qed

lemma halvings_scaled: "2 ^ 52 \<le> b \<Longrightarrow> b < 2 ^ 53 \<Longrightarrow> k \<le> n \<Longrightarrow> halvings n (b * 2 ^ k) = k"
proof (induction k arbitrary: n)
  case (Suc k)
  then obtain n' where n: "n = Suc n'" by (cases n) auto
  have "(2::rat) ^ 53 \<le> b * 2 * 2 ^ k"
    using Suc.prems(1) mult_mono [of "2 ^ 53" "b * 2" 1 "2 ^ k"] by simp
  then show ?case using Suc.IH [of n'] Suc.prems by (simp add: n mult.assoc)
next
  case 0
  then show ?case by (cases n) simp_all
qed

lemma round_even_of_nat: "round_even (of_nat m) = int m"
  by (simp add: round_even_def)

text \<open>Every double is what its bits say; NaN and the two zeros have one encoding each.\<close>

lemma doubles_roundtrip: "is_double (from_bits w)"
proof -
  obtain s e m where p: "double_parts w = (s, e, m)" by (cases "double_parts w") auto
  note r = parts_range [OF p]
  let ?sg = "if s = 0 then 1 else - 1 :: rat"
  consider "e = 2047" | "e = 0" | "0 < e" "e < 2047" using r(2) by linarith
  then show ?thesis
  proof cases
    case 1
    then have "from_bits w = (if m \<noteq> 0 then NaN else if s = 0 then PosInf else NegInf)" by (simp add: from_bits_def p)
    then show ?thesis by (auto simp: is_double_def to_bits_def from_bits_def parts_of_parts)
  next
    case 2
    have fb: "from_bits w = Fin (?sg * (of_nat m / 2 ^ 1074))" by (simp add: from_bits_def p 2)
    have a: "\<bar>?sg * (of_nat m / 2 ^ 1074)\<bar> * 2 ^ 1074 = (of_nat m :: rat)" by (simp add: abs_mult)
    have "(of_nat m :: rat) < 2 ^ 52" using r(3) by (metis of_nat_less_iff of_nat_numeral of_nat_power)
    then have tb: "to_bits (from_bits w) = double_of_parts (if ?sg * (of_nat m / 2 ^ 1074) < 0 then 1 else 0) 0 m"
      unfolding fb to_bits_def by (simp only: gofloat.case a Let_def round_even_of_nat nat_int if_True)
    have sg: "(if ?sg * (of_nat m / 2 ^ 1074) < 0 then 1 else 0) * m = s * m" "s = 0 \<or> s = 1"
      using r(1) by (auto simp: divide_less_0_iff)
    show ?thesis
      unfolding is_double_def tb using r(3) sg
      by (cases "m = 0"; cases "s = 0") (auto simp: from_bits_def parts_of_parts p 2 divide_less_0_iff)
  next
    case 3
    let ?b = "of_nat (2 ^ 52 + m) :: rat"
    have fb: "from_bits w = Fin (?sg * (?b * 2 ^ (e - 1) / 2 ^ 1074))" using 3 by (simp add: from_bits_def p)
    have bp: "0 < ?b" "2 ^ 52 \<le> ?b" by simp_all
    have "(of_nat m :: rat) < 2 ^ 52" using r(3) by (metis of_nat_less_iff of_nat_numeral of_nat_power)
    then have b53: "?b < 2 ^ 53" by simp
    have a: "\<bar>?sg * (?b * 2 ^ (e - 1) / 2 ^ 1074)\<bar> * 2 ^ 1074 = ?b * 2 ^ (e - 1)" by (simp add: abs_mult)
    have h: "halvings 2046 (?b * 2 ^ (e - 1)) = e - 1" by (rule halvings_scaled [OF bp(2) b53]) (use 3 in simp)
    have big: "\<not> ?b * 2 ^ (e - 1) < 2 ^ 52" using bp mult_mono [of "2 ^ 52" "?b" 1 "2 ^ (e - 1)"] by simp
    have mant: "nat (round_even (?b * 2 ^ (e - 1) / 2 ^ (e - 1))) - 2 ^ 52 = m"
      using round_even_of_nat [of "2 ^ 52 + m"] by simp
    have neg: "?sg * (?b * 2 ^ (e - 1) / 2 ^ 1074) < 0 \<longleftrightarrow> s \<noteq> 0"
    proof -
      have "0 < ?b * 2 ^ (e - 1) / 2 ^ 1074" using bp(1) by (intro divide_pos_pos mult_pos_pos) simp_all
      then show ?thesis by (cases "s = 0") (simp_all only: if_True if_False mult_1 mult_minus1 neg_less_0_iff_less not_less_iff_gr_or_eq simp_thms)
    qed
    have "to_bits (from_bits w) = double_of_parts (if s \<noteq> 0 then 1 else 0) (e - 1 + 1) m"
      unfolding fb to_bits_def by (simp only: gofloat.case a Let_def h big mant neg if_False)
    moreover have "(if s \<noteq> 0 then 1 else 0) = s" "e - 1 + 1 = e" using r(1) 3 by simp_all
    ultimately have "to_bits (from_bits w) = double_of_parts s e m" by (simp only:)
    then show ?thesis unfolding is_double_def from_bits_def by (simp add: parts_of_parts [OF r] p)
  qed
qed

end
