(* ===== verification/DeltaCompressor.thy ===== *)
theory DeltaCompressor
  imports GoBytes StorageTypes CircularTradeBuffer "HOL-Library.Monad_Syntax"
begin

text \<open>
  The delta compression of trades, \<open>internal/buffer/delta_compressor.go\<close>.

  Map orders (\<open>ord\<close>), the sort (\<open>srt\<close>) and the text of a float (\<open>ff\<close>, \<open>strconv.FormatFloat\<close> with the
  shortest precision) are arguments.  A conversion of a float to an integer that is out of range is that of
  amd64.  \<^const>\<open>None\<close> is a panic: a negative length, or an index beyond an array.
\<close>

unbundle bit_operations_syntax

record delta_compressor =
  dcBasePrice :: gofloat
  dcBaseTime :: int
  dcPriceScale :: int

record compressed_data =
  cdBasePrice :: gofloat
  cdBaseTime :: int
  cdPriceScale :: int
  cdCount :: int
  cdPriceDeltas :: "16 word list"
  cdTimeDeltas :: "16 word list"
  cdVolumes :: "32 word list"
  cdSymbols :: bytes
  cdExchanges :: bytes
  cdMarketTypes :: bytes
  cdSides :: bytes

record symbol_mapping =
  UniqueSymbols :: "string list"
  SymbolMap :: "(string, 8 word) gomap"

definition new_delta_compressor :: delta_compressor where
  "new_delta_compressor = \<lparr>dcBasePrice = Fin 0, dcBaseTime = 0, dcPriceScale = 1000000\<rparr>"

text \<open>The integer part of a float.\<close>

definition f_trunc :: "gofloat \<Rightarrow> int" where
  "f_trunc x =
     (case x of
        Fin q \<Rightarrow> (let n = (if q \<ge> 0 then \<lfloor>q\<rfloor> else \<lceil>q\<rceil>) in if \<bar>n\<bar> < 2 ^ 63 then n else 0)
      | _ \<Rightarrow> 0)"

section \<open>Labels\<close>

definition create_symbol_mapping :: "(string list \<Rightarrow> string list) \<Rightarrow> trade_event list \<Rightarrow> symbol_mapping" where
  "create_symbol_mapping ord ts =
     (let us = ord (remdups (map Symbol ts))
      in \<lparr>UniqueSymbols = us, SymbolMap = map (\<lambda>(i, s). (s, word_of_nat i)) (zip [0..<length us] us)\<rparr>)"

definition label_index :: "(string, 8 word) gomap \<Rightarrow> string \<Rightarrow> 8 word" where
  "label_index m s = (case mget m s of Some w \<Rightarrow> w | None \<Rightarrow> 0)"

definition compress_symbols :: "symbol_mapping \<Rightarrow> trade_event list \<Rightarrow> bytes" where
  "compress_symbols mp ts = map (\<lambda>t. label_index (SymbolMap mp) (Symbol t)) ts"

definition compress_exchanges :: "trade_event list \<Rightarrow> bytes" where
  "compress_exchanges ts =
     map (\<lambda>t. label_index [(''binance'', 0), (''bybit'', 1), (''okx'', 2), (''kucoin'', 3), (''gate'', 4), (''phemex'', 5)]
       (Exchange t)) ts"

definition compress_market_types :: "trade_event list \<Rightarrow> bytes" where
  "compress_market_types ts = map (\<lambda>t. label_index [(''spot'', 0), (''futures'', 1), (''margin'', 2)] (MarketType t)) ts"

text \<open>Eight sides to a byte.\<close>

definition compress_sides :: "trade_event list \<Rightarrow> bytes" where
  "compress_sides ts =
     fold (\<lambda>(i, t) bs. if Side t = ''sell'' then bs[i div 8 := (bs ! (i div 8)) OR push_bit (i mod 8) 1] else bs)
       (zip [0..<length ts] ts) (replicate ((length ts + 7) div 8) 0)"

section \<open>Compression\<close>

definition compress_step :: "nat \<times> trade_event \<Rightarrow> delta_compressor \<times> compressed_data \<Rightarrow> delta_compressor \<times> compressed_data" where
  "compress_step = (\<lambda>(i, t) (dc, cd).
     (case (float_opt (Price t), float_opt (Quantity t)) of
        (Some price, Some quantity) \<Rightarrow>
          (let delta = f_mul (f_sub price (dcBasePrice dc)) (Fin (of_int (dcPriceScale dc)));
               far = (f_less (Fin 32767) delta \<or> f_less delta (Fin (- 32768)));
               dc1 = (if far then dc\<lparr>dcBasePrice := price\<rparr> else dc);
               cd1 = (if far then cd\<lparr>cdBasePrice := price\<rparr> else cd);
               cd2 = cd1\<lparr>cdPriceDeltas := (cdPriceDeltas cd1)[i := (if far then 0 else word_of_int (f_trunc delta))]\<rparr>;
               ms = wrap64 (Timestamp t - dcBaseTime dc1) sdiv 1000000;
               late = ms > 65535;
               dc2 = (if late then dc1\<lparr>dcBaseTime := Timestamp t\<rparr> else dc1);
               cd3 = (if late then cd2\<lparr>cdBaseTime := Timestamp t\<rparr> else cd2);
               cd4 = cd3\<lparr>cdTimeDeltas := (cdTimeDeltas cd3)[i := (if late then 0 else word_of_int ms)]\<rparr>
           in (dc2, cd4\<lparr>cdVolumes := (cdVolumes cd4)[i := word_of_int (f_trunc (f_mul quantity (Fin 1000000)))]\<rparr>))
      | _ \<Rightarrow> (dc, cd)))"

definition write_array :: "nat \<Rightarrow> 'a::len word list \<Rightarrow> bytes" where
  "write_array n ws = write_word 4 (word_of_nat (length ws) :: 32 word) @ concat (map (write_word n) ws)"

definition write_byte_array :: "bytes \<Rightarrow> bytes" where
  "write_byte_array bs = write_word 4 (word_of_nat (length bs) :: 32 word) @ bs"

definition string_bytes :: "string \<Rightarrow> bytes" where
  "string_bytes s = map of_char s"

definition write_strings :: "string list \<Rightarrow> bytes" where
  "write_strings ss =
     write_word 4 (word_of_nat (length ss) :: 32 word) @ concat (map (\<lambda>s. write_byte_array (string_bytes s)) ss)"

definition serialize_to_binary :: "compressed_data \<Rightarrow> symbol_mapping \<Rightarrow> bytes" where
  "serialize_to_binary cd mp =
     write_word 8 (to_bits (cdBasePrice cd)) @ write_word 8 (word_of_int (cdBaseTime cd) :: 64 word) @
     write_word 4 (word_of_int (cdPriceScale cd) :: 32 word) @ write_word 4 (word_of_int (cdCount cd) :: 32 word) @
     write_strings (UniqueSymbols mp) @
     write_array 2 (cdPriceDeltas cd) @ write_array 2 (cdTimeDeltas cd) @ write_array 4 (cdVolumes cd) @
     write_byte_array (cdSymbols cd) @ write_byte_array (cdExchanges cd) @
     write_byte_array (cdMarketTypes cd) @ write_byte_array (cdSides cd)"

text \<open>The text of the error of \<open>strconv.ParseFloat\<close> is left out.\<close>

definition compress ::
  "(trade_event list \<Rightarrow> trade_event list) \<Rightarrow> (string list \<Rightarrow> string list) \<Rightarrow> trade_event list \<Rightarrow> delta_compressor \<Rightarrow>
     (string + bytes) \<times> delta_compressor" where
  "compress srt ord trades dc =
     (if trades = [] then (Inl ''no trades to compress'', dc)
      else (let ts = srt trades in
        (case float_opt (Price (ts ! 0)) of
           None \<Rightarrow> (Inl ''failed to parse base price'', dc)
         | Some price \<Rightarrow>
             (let dc1 = dc\<lparr>dcBasePrice := price, dcBaseTime := Timestamp (ts ! 0)\<rparr>;
                  n = length ts;
                  cd0 = \<lparr>cdBasePrice = price, cdBaseTime = Timestamp (ts ! 0), cdPriceScale = dcPriceScale dc,
                    cdCount = int n, cdPriceDeltas = replicate n 0, cdTimeDeltas = replicate n 0,
                    cdVolumes = replicate n 0, cdSymbols = [], cdExchanges = [], cdMarketTypes = [], cdSides = []\<rparr>;
                  mp = create_symbol_mapping ord ts;
                  (dc2, cd) = fold compress_step (zip [0..<n] ts) (dc1, cd0)
              in (Inr (serialize_to_binary
                    (cd\<lparr>cdSymbols := compress_symbols mp ts, cdExchanges := compress_exchanges ts,
                       cdMarketTypes := compress_market_types ts, cdSides := compress_sides ts\<rparr>) mp), dc2)))))"

section \<open>Decompression\<close>

text \<open>An \<open>int32\<close> length and the array of that many elements; a negative length panics.\<close>

definition read_count :: "bytes \<Rightarrow> (nat \<times> bytes) option" where
  "read_count bs =
     (case read_word 4 bs of (l, bs1) \<Rightarrow> let k = sint (l :: 32 word) in if k < 0 then None else Some (nat k, bs1))"

definition read_array :: "nat \<Rightarrow> bytes \<Rightarrow> ('a::len word list \<times> bytes) option" where
  "read_array n bs = do { (k, bs1) \<leftarrow> read_count bs; Some (read_words n k bs1) }"

definition read_byte_array :: "bytes \<Rightarrow> (bytes \<times> bytes) option" where
  "read_byte_array bs = do { (k, bs1) \<leftarrow> read_count bs; Some (read_bytes k bs1) }"

definition bytes_string :: "bytes \<Rightarrow> string" where
  "bytes_string bs = map (\<lambda>b. char_of (unat b)) bs"

fun read_strings :: "nat \<Rightarrow> bytes \<Rightarrow> (string list \<times> bytes) option" where
  "read_strings 0 bs = Some ([], bs)"
| "read_strings (Suc k) bs = do {
     (s, bs1) \<leftarrow> read_byte_array bs;
     (ss, bs2) \<leftarrow> read_strings k bs1;
     Some (bytes_string s # ss, bs2) }"

definition index_symbols :: "string list \<Rightarrow> (string, 8 word) gomap" where
  "index_symbols ss = fold (\<lambda>(i, s) m. mput s (word_of_nat i) m) (zip [0..<length ss] ss) []"

definition deserialize_from_binary :: "bytes \<Rightarrow> (compressed_data \<times> symbol_mapping) option" where
  "deserialize_from_binary bs0 =
     (let (base, bs1) = read_word 8 bs0; (t, bs2) = read_word 8 bs1;
          (scale, bs3) = read_word 4 bs2; (count, bs4) = read_word 4 bs3 in do {
        (k, bs5) \<leftarrow> read_count bs4;
        (ss, bs6) \<leftarrow> read_strings k bs5;
        (ps, bs7) \<leftarrow> read_array 2 bs6;
        (tds, bs8) \<leftarrow> read_array 2 bs7;
        (vs, bs9) \<leftarrow> read_array 4 bs8;
        (sy, bs10) \<leftarrow> read_byte_array bs9;
        (es, bs11) \<leftarrow> read_byte_array bs10;
        (ms, bs12) \<leftarrow> read_byte_array bs11;
        (sd, bs13) \<leftarrow> read_byte_array bs12;
        Some (\<lparr>cdBasePrice = from_bits base, cdBaseTime = sint (t :: 64 word), cdPriceScale = sint (scale :: 32 word),
               cdCount = sint (count :: 32 word), cdPriceDeltas = ps, cdTimeDeltas = tds, cdVolumes = vs,
               cdSymbols = sy, cdExchanges = es, cdMarketTypes = ms, cdSides = sd\<rparr>,
              \<lparr>UniqueSymbols = ss, SymbolMap = index_symbols ss\<rparr>) })"

definition decompress_label :: "string list \<Rightarrow> bytes \<Rightarrow> nat \<Rightarrow> string" where
  "decompress_label names bs i =
     (if i < length bs \<and> unat (bs ! i) < length names then names ! unat (bs ! i) else [])"

definition exchange_names :: "string list" where
  "exchange_names = [''binance'', ''bybit'', ''okx'', ''kucoin'', ''gate'', ''phemex'']"

definition market_names :: "string list" where
  "market_names = [''spot'', ''futures'', ''margin'']"

definition decompress_side :: "bytes \<Rightarrow> nat \<Rightarrow> string" where
  "decompress_side bs i =
     (if i div 8 < length bs \<and> drop_bit (i mod 8) (bs ! (i div 8)) AND 1 = 1 then ''sell'' else ''buy'')"

definition decompress_trade :: "(gofloat \<Rightarrow> string) \<Rightarrow> compressed_data \<Rightarrow> symbol_mapping \<Rightarrow> nat \<Rightarrow> trade_event" where
  "decompress_trade ff cd mp i = zero_trade
     \<lparr>Price := ff (f_add (cdBasePrice cd) (f_div (Fin (of_int (sint (cdPriceDeltas cd ! i)))) (Fin (of_int (cdPriceScale cd))))),
      Timestamp := wrap64 (cdBaseTime cd + uint (cdTimeDeltas cd ! i) * 1000000),
      Quantity := ff (f_div (Fin (of_nat (unat (cdVolumes cd ! i)))) (Fin 1000000)),
      Symbol := decompress_label (UniqueSymbols mp) (cdSymbols cd) i,
      Exchange := decompress_label exchange_names (cdExchanges cd) i,
      MarketType := decompress_label market_names (cdMarketTypes cd) i,
      Side := decompress_side (cdSides cd) i\<rparr>"

text \<open>The error of the code never occurs: its deserialization returns none.\<close>

definition decompress :: "(gofloat \<Rightarrow> string) \<Rightarrow> bytes \<Rightarrow> trade_event list option" where
  "decompress ff data =
     (if data = [] then Some []
      else do {
        (cd, mp) \<leftarrow> deserialize_from_binary data;
        if cdCount cd < 0 \<or> int (length (cdPriceDeltas cd)) < cdCount cd \<or> int (length (cdTimeDeltas cd)) < cdCount cd \<or>
           int (length (cdVolumes cd)) < cdCount cd
        then None
        else Some (map (decompress_trade ff cd mp) [0..<nat (cdCount cd)]) })"

end
