(* ===== verification/RingBuffer.thy ===== *)
theory RingBuffer
  imports StorageTypes CircularTradeBuffer
begin

text \<open>
  The ring of recent trades, \<open>internal/buffer/circular_buffer.go\<close>.

  A method may return, panic (an index out of range, a division by zero) or block for ever: the mutex of
  Go is not reentrant, so a method that takes the lock it holds never returns.
\<close>

section \<open>Outcomes and the lock\<close>

datatype 'a run = Returned 'a | Panicked | Blocked

fun and_then :: "'a run \<Rightarrow> ('a \<Rightarrow> 'b run) \<Rightarrow> 'b run" where
  "and_then (Returned x) f = f x"
| "and_then Panicked f = Panicked"
| "and_then Blocked f = Blocked"

record ring =
  rbData :: "trade_event list"
  rbCapacity :: nat
  rbWritePos :: nat
  rbReadPos :: nat
  rbFull :: bool
  rbSize :: nat
  rbTimeIndex :: "(int, nat) gomap"
  rbClosed :: bool
  rbLocked :: bool

text \<open>The body of a method between \<open>Lock\<close> and the deferred \<open>Unlock\<close>, and between \<open>RLock\<close> and \<open>RUnlock\<close>.\<close>

definition with_lock :: "(ring \<Rightarrow> ('a \<times> ring) run) \<Rightarrow> ring \<Rightarrow> ('a \<times> ring) run" where
  "with_lock body r =
     (if rbLocked r then Blocked
      else and_then (body (r\<lparr>rbLocked := True\<rparr>)) (\<lambda>(x, r'). Returned (x, r'\<lparr>rbLocked := False\<rparr>)))"

definition with_rlock :: "(ring \<Rightarrow> 'a run) \<Rightarrow> ring \<Rightarrow> 'a run" where
  "with_rlock body r = (if rbLocked r then Blocked else body r)"

definition new_ring :: "nat \<Rightarrow> ring" where
  "new_ring cap = \<lparr>rbData = replicate cap zero_trade, rbCapacity = cap, rbWritePos = 0, rbReadPos = 0, rbFull = False,
     rbSize = 0, rbTimeIndex = [], rbClosed = False, rbLocked = False\<rparr>"

section \<open>Storing\<close>

definition store_body :: "trade_event \<Rightarrow> ring \<Rightarrow> (string option \<times> ring) run" where
  "store_body t r =
     (if rbClosed r then Returned (Some ''circular buffer is closed'', r)
      else if rbWritePos r \<ge> length (rbData r) \<or> rbCapacity r = 0 then Panicked
      else (let r1 = r\<lparr>rbData := (rbData r)[rbWritePos r := t],
                       rbTimeIndex := mput (Timestamp t) (rbWritePos r) (rbTimeIndex r),
                       rbWritePos := (rbWritePos r + 1) mod rbCapacity r\<rparr>;
                r2 = (if rbWritePos r1 = rbReadPos r1
                      then (if rbFull r1
                            then r1\<lparr>rbTimeIndex := mdel (Timestamp (rbData r1 ! rbReadPos r1)) (rbTimeIndex r1),
                                    rbReadPos := (rbReadPos r1 + 1) mod rbCapacity r1\<rparr>
                            else r1\<lparr>rbFull := True\<rparr>)
                      else r1)
            in Returned (None, if \<not> rbFull r2 then r2\<lparr>rbSize := rbSize r2 + 1\<rparr> else r2)))"

definition ring_store :: "trade_event \<Rightarrow> ring \<Rightarrow> (string option \<times> ring) run" where
  "ring_store t = with_lock (store_body t)"

section \<open>Reading\<close>

text \<open>The loop over \<open>n\<close> slots from \<open>pos\<close>.\<close>

fun ring_slots :: "nat \<Rightarrow> nat \<Rightarrow> ring \<Rightarrow> trade_event list" where
  "ring_slots 0 pos r = []"
| "ring_slots (Suc n) pos r = rbData r ! pos # ring_slots n ((pos + 1) mod rbCapacity r) r"

definition ring_visible :: "ring \<Rightarrow> trade_event list" where
  "ring_visible r = ring_slots (rbSize r) (rbReadPos r) r"

definition ring_range :: "gotime \<Rightarrow> gotime \<Rightarrow> ring \<Rightarrow> (string + trade_event list) run" where
  "ring_range startT endT = with_rlock (\<lambda>r.
     Returned (if rbClosed r then Inl ''circular buffer is closed''
       else Inr (filter (in_milli_range (unix_nano startT sdiv 1000000) (unix_nano endT sdiv 1000000)) (ring_visible r))))"

definition ring_size :: "ring \<Rightarrow> nat run" where
  "ring_size = with_rlock (\<lambda>r. Returned (rbSize r))"

definition ring_capacity :: "ring \<Rightarrow> nat" where
  "ring_capacity r = rbCapacity r"

definition ring_is_full :: "ring \<Rightarrow> bool run" where
  "ring_is_full = with_rlock (\<lambda>r. Returned (rbFull r))"

definition ring_is_empty :: "ring \<Rightarrow> bool run" where
  "ring_is_empty = with_rlock (\<lambda>r. Returned (rbSize r = 0))"

definition ring_memory :: "ring \<Rightarrow> int run" where
  "ring_memory = with_rlock (\<lambda>r. Returned (int (rbCapacity r * 200) + int (length (rbTimeIndex r)) * 16))"

definition last_pos :: "ring \<Rightarrow> nat" where
  "last_pos r = (if rbWritePos r = 0 then rbCapacity r - 1 else rbWritePos r - 1)"

definition latest_trade :: "ring \<Rightarrow> (string + trade_event) run" where
  "latest_trade = with_rlock (\<lambda>r.
     Returned (if rbClosed r then Inl ''circular buffer is closed''
       else if rbSize r = 0 then Inl ''buffer is empty'' else Inr (rbData r ! last_pos r)))"

definition oldest_trade :: "ring \<Rightarrow> (string + trade_event) run" where
  "oldest_trade = with_rlock (\<lambda>r.
     Returned (if rbClosed r then Inl ''circular buffer is closed''
       else if rbSize r = 0 then Inl ''buffer is empty'' else Inr (rbData r ! rbReadPos r)))"

definition find_by_timestamp :: "int \<Rightarrow> ring \<Rightarrow> trade_event option run" where
  "find_by_timestamp ts = with_rlock (\<lambda>r.
     Returned (if rbClosed r then None
       else (case mget (rbTimeIndex r) ts of None \<Rightarrow> None | Some pos \<Rightarrow> Some (rbData r ! pos))))"

definition ring_time_range :: "ring \<Rightarrow> (string + gotime \<times> gotime) run" where
  "ring_time_range = with_rlock (\<lambda>r.
     Returned (if rbClosed r then Inl ''circular buffer is closed''
       else if rbSize r = 0 then Inl ''buffer is empty''
       else Inr (wrap64 (Timestamp (rbData r ! rbReadPos r) * 1000000), wrap64 (Timestamp (rbData r ! last_pos r) * 1000000))))"

section \<open>Removal\<close>

text \<open>The loop of \<open>ExtractOldTrades\<close> at its \<open>i\<close>-th turn, with \<open>n\<close> turns left: the trades taken, the new read
  position and the ring.\<close>

fun extract_loop :: "nat \<Rightarrow> nat \<Rightarrow> int \<Rightarrow> trade_event list \<Rightarrow> nat \<Rightarrow> ring \<Rightarrow> trade_event list \<times> nat \<times> ring" where
  "extract_loop 0 i cutoff old newPos r = (old, newPos, r)"
| "extract_loop (Suc n) i cutoff old newPos r =
     (let pos = (rbReadPos r + i) mod rbCapacity r; t = rbData r ! pos in
      if Timestamp t < cutoff
      then extract_loop n (i + 1) cutoff (old @ [t]) ((pos + 1) mod rbCapacity r)
             (r\<lparr>rbTimeIndex := mdel (Timestamp t) (rbTimeIndex r), rbData := (rbData r)[pos := zero_trade],
                rbSize := rbSize r - 1\<rparr>)
      else (old, newPos, r))"

definition extract_body :: "gotime \<Rightarrow> ring \<Rightarrow> (trade_event list \<times> ring) run" where
  "extract_body cutoff r =
     Returned (if rbClosed r \<or> rbSize r = 0 then ([], r)
       else (case extract_loop (rbSize r) 0 (unix_nano cutoff sdiv 1000000) [] (rbReadPos r) r of
         (old, newPos, r1) \<Rightarrow>
           (let r2 = r1\<lparr>rbReadPos := newPos\<rparr> in
            (old, if rbSize r2 < rbCapacity r2 then r2\<lparr>rbFull := False\<rparr> else r2))))"

definition extract_old_trades :: "gotime \<Rightarrow> ring \<Rightarrow> (trade_event list \<times> ring) run" where
  "extract_old_trades cutoff = with_lock (extract_body cutoff)"

definition clear_ring :: "ring \<Rightarrow> (unit \<times> ring) run" where
  "clear_ring = with_lock (\<lambda>r. Returned ((), r\<lparr>rbWritePos := 0, rbReadPos := 0, rbSize := 0, rbFull := False,
     rbTimeIndex := [], rbData := replicate (length (rbData r)) zero_trade\<rparr>))"

text \<open>\<open>Close\<close> calls \<open>Clear\<close> while it holds the lock.\<close>

definition close_ring :: "ring \<Rightarrow> (unit \<times> ring) run" where
  "close_ring = with_lock (\<lambda>r. clear_ring (r\<lparr>rbClosed := True\<rparr>))"

record ring_stats =
  rsCapacity :: nat
  rsSize :: nat
  rsFull :: bool
  rsEmpty :: bool
  rsMemory :: int
  rsClosed :: bool
  rsSpan :: "(gotime \<times> gotime) option"

text \<open>The nested read locks are granted: no writer waits in a sequential run.  The span in seconds follows
  from the two times.\<close>

definition ring_get_stats :: "ring \<Rightarrow> ring_stats run" where
  "ring_get_stats = with_rlock (\<lambda>r.
     and_then (ring_memory r) (\<lambda>m.
       and_then (if rbSize r > 0 then ring_time_range r else Returned (Inl [])) (\<lambda>span.
         Returned \<lparr>rsCapacity = rbCapacity r, rsSize = rbSize r, rsFull = rbFull r, rsEmpty = (rbSize r = 0), rsMemory = m,
           rsClosed = rbClosed r, rsSpan = (case span of Inl e \<Rightarrow> None | Inr ts \<Rightarrow> Some ts)\<rparr>)))"

end
