(* ===== verification/CompressedRing.thy ===== *)
theory CompressedRing
  imports DeltaCompressor RingBuffer
begin

text \<open>
  The ring of compressed blocks, \<open>internal/buffer/compressed_ring.go\<close>.  Each method runs under the lock of
  the ring; the lock of a block is taken only inside it and adds nothing.
\<close>

record codec_env =
  cvSort :: "trade_event list \<Rightarrow> trade_event list"
  cvOrder :: "string list \<Rightarrow> string list"
  cvFormat :: "gofloat \<Rightarrow> string"
  cvGroups :: "(int, trade_event list) gomap \<Rightarrow> (int, trade_event list) gomap"

record compressed_block =
  bkStartTime :: int
  bkEndTime :: int
  bkEventCount :: nat
  bkCompressedSize :: nat
  bkIsEmpty :: bool
  bkData :: bytes
  bkPriceRange :: "gofloat \<times> gofloat"
  bkVolumeSum :: gofloat
  bkUniqueSymbols :: "string list"

record compressed_ring =
  crBlocks :: "compressed_block list"
  crCapacity :: nat
  crTimeIndex :: "(int, int) gomap"
  crClosed :: bool
  crCompressor :: delta_compressor

definition block_duration :: int where
  "block_duration = 30 * second"

definition empty_block :: compressed_block where
  "empty_block = \<lparr>bkStartTime = 0, bkEndTime = 0, bkEventCount = 0, bkCompressedSize = 0, bkIsEmpty = True, bkData = [],
     bkPriceRange = (Fin 0, Fin 0), bkVolumeSum = Fin 0, bkUniqueSymbols = []\<rparr>"

definition new_compressed_ring :: "nat \<Rightarrow> compressed_ring" where
  "new_compressed_ring cap = \<lparr>crBlocks = replicate cap empty_block, crCapacity = cap, crTimeIndex = [], crClosed = False,
     crCompressor = new_delta_compressor\<rparr>"

section \<open>A block\<close>

definition decompress_block :: "codec_env \<Rightarrow> compressed_block \<Rightarrow> trade_event list run" where
  "decompress_block env b =
     (if bkIsEmpty b \<or> bkCompressedSize b = 0 then Returned []
      else (case decompress (cvFormat env) (bkData b) of None \<Rightarrow> Panicked | Some ts \<Rightarrow> Returned ts))"

text \<open>The trades whose price and quantity parse.\<close>

definition priced :: "trade_event list \<Rightarrow> (gofloat \<times> gofloat \<times> string) list" where
  "priced ts = List.map_filter (\<lambda>t. case (float_opt (Price t), float_opt (Quantity t)) of
     (Some p, Some q) \<Rightarrow> Some (p, q, Symbol t) | _ \<Rightarrow> None) ts"

definition block_metadata :: "codec_env \<Rightarrow> gofloat \<Rightarrow> trade_event list \<Rightarrow> compressed_block \<Rightarrow> compressed_block" where
  "block_metadata env first ts b =
     (let ps = priced ts in b
        \<lparr>bkPriceRange := (fold (\<lambda>(p, _) m. if f_less p m then p else m) ps first,
                          fold (\<lambda>(p, _) m. if f_less m p then p else m) ps first),
         bkVolumeSum := f_sum (map (\<lambda>(p, q, s). q) ps),
         bkUniqueSymbols := cvOrder env (remdups (map (\<lambda>(p, q, s). s) ps))\<rparr>)"

definition store_in_block ::
  "codec_env \<Rightarrow> trade_event list \<Rightarrow> compressed_block \<times> delta_compressor \<Rightarrow>
     (string option \<times> compressed_block \<times> delta_compressor) run" where
  "store_in_block env trades = (\<lambda>(b, dc).
     if trades = [] then Returned (None, b, dc)
     else and_then (if bkCompressedSize b > 0 then decompress_block env b else Returned []) (\<lambda>existing.
       let ts = cvSort env (existing @ trades) in
       (case compress (cvSort env) (cvOrder env) ts dc of
          (Inl e, dc1) \<Rightarrow> Returned (Some (''compression failed: '' @ e), b, dc1)
        | (Inr data, dc1) \<Rightarrow>
            (let b1 = b\<lparr>bkData := data, bkCompressedSize := length data, bkEventCount := length ts\<rparr> in
             (case float_opt (Price (ts ! 0)) of
                None \<Rightarrow> Returned (Some ''failed to parse price'', b1, dc1)
              | Some first \<Rightarrow> Returned (None, block_metadata env first ts b1, dc1))))))"

section \<open>Storing\<close>

definition get_block_index :: "int \<Rightarrow> compressed_ring \<Rightarrow> int" where
  "get_block_index ts cr = (ts sdiv block_duration) smod int (crCapacity cr)"

text \<open>A block is initialised by its first trade; the group goes into the block of index \<open>k\<close>.\<close>

definition store_group :: "codec_env \<Rightarrow> int \<times> trade_event list \<Rightarrow> compressed_ring \<Rightarrow> (string option \<times> compressed_ring) run" where
  "store_group env = (\<lambda>(k, ts) cr.
     if crCapacity cr = 0 \<or> k < 0 \<or> k \<ge> int (length (crBlocks cr)) then Panicked
     else (let b0 = crBlocks cr ! nat k;
               start = wrap64 ((Timestamp (ts ! 0) sdiv block_duration) * block_duration);
               b = (if bkIsEmpty b0 then b0\<lparr>bkStartTime := start, bkEndTime := wrap64 (start + block_duration), bkIsEmpty := False\<rparr>
                    else b0);
               idx = (if bkIsEmpty b0 then mput start k (crTimeIndex cr) else crTimeIndex cr)
           in and_then (store_in_block env ts (b, crCompressor cr)) (\<lambda>(e, b1, dc).
                Returned (e, cr\<lparr>crBlocks := (crBlocks cr)[nat k := b1], crTimeIndex := idx, crCompressor := dc\<rparr>))))"

definition cold_store :: "codec_env \<Rightarrow> trade_event \<Rightarrow> compressed_ring \<Rightarrow> (string option \<times> compressed_ring) run" where
  "cold_store env t cr =
     (if crClosed cr then Returned (Some ''compressed ring is closed'', cr)
      else store_group env (get_block_index (Timestamp t) cr, [t]) cr)"

fun store_groups :: "codec_env \<Rightarrow> (int \<times> trade_event list) list \<Rightarrow> compressed_ring \<Rightarrow> (string option \<times> compressed_ring) run" where
  "store_groups env [] cr = Returned (None, cr)"
| "store_groups env (g # gs) cr = and_then (store_group env g cr) (\<lambda>(e, cr1).
     case e of Some m \<Rightarrow> Returned (Some (''failed to compress block: '' @ m), cr1) | None \<Rightarrow> store_groups env gs cr1)"

definition compress_and_store :: "codec_env \<Rightarrow> trade_event list \<Rightarrow> compressed_ring \<Rightarrow> (string option \<times> compressed_ring) run" where
  "compress_and_store env trades cr =
     (if crClosed cr then Returned (Some ''compressed ring is closed'', cr)
      else if trades = [] then Returned (None, cr)
      else if crCapacity cr = 0 then Panicked
      else store_groups env (cvGroups env (group_by (\<lambda>t. get_block_index (Timestamp t) cr) trades)) cr)"

section \<open>Reading\<close>

fun read_blocks :: "codec_env \<Rightarrow> int \<Rightarrow> int \<Rightarrow> compressed_block list \<Rightarrow> trade_event list run" where
  "read_blocks env lo hi [] = Returned []"
| "read_blocks env lo hi (b # bs) = and_then
     (if \<not> bkIsEmpty b \<and> bkEndTime b \<ge> lo \<and> bkStartTime b \<le> hi
      then and_then (decompress_block env b) (\<lambda>ts. Returned (filter (in_milli_range lo hi) ts))
      else Returned [])
     (\<lambda>ts. and_then (read_blocks env lo hi bs) (\<lambda>us. Returned (ts @ us)))"

definition cold_range :: "codec_env \<Rightarrow> gotime \<Rightarrow> gotime \<Rightarrow> compressed_ring \<Rightarrow> (string + trade_event list) run" where
  "cold_range env startT endT cr =
     (if crClosed cr then Returned (Inl ''compressed ring is closed'')
      else and_then (read_blocks env (unix_nano startT sdiv 1000000) (unix_nano endT sdiv 1000000) (crBlocks cr))
        (\<lambda>ts. Returned (Inr (cvSort env ts))))"

definition cold_size :: "compressed_ring \<Rightarrow> nat" where
  "cold_size cr = length (filter (\<lambda>b. \<not> bkIsEmpty b) (crBlocks cr))"

definition cold_memory :: "compressed_ring \<Rightarrow> int" where
  "cold_memory cr =
     sum_list (map (\<lambda>b. int (bkCompressedSize b) + int (length (bkUniqueSymbols b) * 20))
       (filter (\<lambda>b. \<not> bkIsEmpty b) (crBlocks cr))) + int (length (crTimeIndex cr) * 16)"

definition close_cold :: "compressed_ring \<Rightarrow> compressed_ring" where
  "close_cold cr = cr\<lparr>crClosed := True, crBlocks := map (\<lambda>_. empty_block) (crBlocks cr), crTimeIndex := []\<rparr>"

record cold_stats =
  csCapacity :: nat
  csActiveBlocks :: nat
  csTotalEvents :: nat
  csCompressedSize :: nat
  csOriginalSize :: nat
  csRatio :: gofloat
  csMemory :: int
  csClosed :: bool

definition cold_get_stats :: "compressed_ring \<Rightarrow> cold_stats" where
  "cold_get_stats cr =
     (let bs = filter (\<lambda>b. \<not> bkIsEmpty b) (crBlocks cr);
          size = sum_list (map bkCompressedSize bs); orig = sum_list (map (\<lambda>b. bkEventCount b * 200) bs)
      in \<lparr>csCapacity = crCapacity cr, csActiveBlocks = length bs, csTotalEvents = sum_list (map bkEventCount bs),
          csCompressedSize = size, csOriginalSize = orig,
          csRatio = (if orig > 0 then f_div (Fin (of_nat size)) (Fin (of_nat orig)) else Fin 0),
          csMemory = cold_memory cr, csClosed = crClosed cr\<rparr>)"

definition get_block_info :: "int \<Rightarrow> compressed_ring \<Rightarrow> compressed_block option" where
  "get_block_info i cr = (if i < 0 \<or> i \<ge> int (crCapacity cr) then None else Some (crBlocks cr ! nat i))"

end
