(* ===== verification/ExtendedBuffer.thy ===== *)
theory ExtendedBuffer
  imports CompressedRing CollectionEvent
begin

text \<open>
  The ten-minute buffer of a hot ring and a cold ring per market, \<open>internal/buffer/extended_buffer.go\<close>, and
  its manager with a plain list as fallback, \<open>internal/buffer/buffer_manager.go\<close>.  Clock readings are
  arguments, and so are the orders of the maps.
\<close>

section \<open>State\<close>

record extended_stats =
  xsTotalEvents :: int
  xsHotEvents :: int
  xsColdEvents :: int
  xsMemoryUsage :: int
  xsCompressionRate :: gofloat

record extended_buffer =
  xbTotalDuration :: int
  xbHotDuration :: int
  xbColdDuration :: int
  xbHot :: "(string, ring) gomap"
  xbCold :: "(string, compressed_ring) gomap"
  xbStats :: extended_stats
  xbStartTime :: gotime
  xbActive :: bool
  xbCancelled :: bool
  xbRatio :: gofloat

definition extended_exchanges :: "string list" where
  "extended_exchanges = [''binance'', ''bybit'', ''okx'', ''kucoin'', ''gate'', ''phemex'']"

definition extended_keys :: "string list" where
  "extended_keys = concat (map (\<lambda>ex. [ex @ ''_spot'', ex @ ''_futures'']) extended_exchanges)"

definition new_extended_buffer :: "gotime \<Rightarrow> int \<Rightarrow> extended_buffer run" where
  "new_extended_buffer now dur =
     (let hot = (if dur sdiv 5 < 2 * minute then 2 * minute else dur sdiv 5);
          cold = wrap64 (dur - hot);
          cap = (hot sdiv second) * 5000; blocks = cold sdiv block_duration
      in if cap < 0 \<or> blocks < 0 then Panicked
         else Returned \<lparr>xbTotalDuration = dur, xbHotDuration = hot, xbColdDuration = cold,
           xbHot = map (\<lambda>k. (k, new_ring (nat cap))) extended_keys,
           xbCold = map (\<lambda>k. (k, new_compressed_ring (nat blocks))) extended_keys,
           xbStats = \<lparr>xsTotalEvents = 0, xsHotEvents = 0, xsColdEvents = 0, xsMemoryUsage = 0, xsCompressionRate = Fin 0\<rparr>,
           xbStartTime = now, xbActive = True, xbCancelled = False, xbRatio = Fin (7 / 10)\<rparr>)"

section \<open>Storing\<close>

definition upd_xstats :: "(extended_stats \<Rightarrow> extended_stats) \<Rightarrow> extended_buffer \<Rightarrow> extended_buffer" where
  "upd_xstats f xb = xb\<lparr>xbStats := f (xbStats xb)\<rparr>"

definition move_to_cold :: "codec_env \<Rightarrow> string \<Rightarrow> trade_event \<Rightarrow> extended_buffer \<Rightarrow> (string option \<times> extended_buffer) run" where
  "move_to_cold env ex t xb =
     (case mget (xbCold xb) ex of
        None \<Rightarrow> Returned (Some (''cold buffer not found for exchange: '' @ ex), xb)
      | Some cr \<Rightarrow> and_then (cold_store env t cr) (\<lambda>(e, cr1).
          let xb1 = xb\<lparr>xbCold := mput ex cr1 (xbCold xb)\<rparr> in
          Returned (e, if e = None
            then upd_xstats (\<lambda>st. st\<lparr>xsTotalEvents := xsTotalEvents st + 1, xsColdEvents := xsColdEvents st + 1\<rparr>) xb1 else xb1)))"

definition xb_store :: "codec_env \<Rightarrow> gotime \<Rightarrow> string \<Rightarrow> trade_event \<Rightarrow> extended_buffer \<Rightarrow> (string option \<times> extended_buffer) run" where
  "xb_store env now ex t xb =
     (if \<not> xbActive xb then Returned (Some ''buffer is not active'', xb)
      else if time_sub now (wrap64 (Timestamp t * 1000000)) \<le> xbHotDuration xb
      then (case mget (xbHot xb) ex of
          Some r \<Rightarrow> and_then (ring_store t r) (\<lambda>(e, r1).
            let xb1 = xb\<lparr>xbHot := mput ex r1 (xbHot xb)\<rparr> in
            Returned (e, if e = None
              then upd_xstats (\<lambda>st. st\<lparr>xsTotalEvents := xsTotalEvents st + 1, xsHotEvents := xsHotEvents st + 1\<rparr>) xb1 else xb1))
        | None \<Rightarrow> move_to_cold env ex t xb)
      else move_to_cold env ex t xb)"

section \<open>Reading\<close>

definition xb_range :: "codec_env \<Rightarrow> gotime \<Rightarrow> string \<Rightarrow> gotime \<Rightarrow> gotime \<Rightarrow> extended_buffer \<Rightarrow> (string + trade_event list) run" where
  "xb_range env now ex startT endT xb =
     (let hotStart = now - xbHotDuration xb in
      and_then (if endT > hotStart then (case mget (xbHot xb) ex of
             Some r \<Rightarrow> ring_range (if startT > hotStart then startT else hotStart) endT r | None \<Rightarrow> Returned (Inr []))
           else Returned (Inr [])) (\<lambda>hot. case hot of Inl e \<Rightarrow> Returned (Inl e) | Inr hs \<Rightarrow>
      and_then (if startT < hotStart then (case mget (xbCold xb) ex of
             Some cr \<Rightarrow> cold_range env startT (if endT < hotStart then endT else hotStart) cr | None \<Rightarrow> Returned (Inr []))
           else Returned (Inr [])) (\<lambda>cold. case cold of Inl e \<Rightarrow> Returned (Inl e) | Inr cs \<Rightarrow>
      Returned (Inr (cvSort env (hs @ cs))))))"

definition bare_collection :: "string \<Rightarrow> gotime \<Rightarrow> collection_event" where
  "bare_collection sm trig = (empty_collection sm trig (trig + (- 20 * second)) (trig + 20 * second) zero_time)"

text \<open>The loop over the exchanges: both slices of an exchange are set when neither read fails.  \<open>read\<close> is the
  query with the clock of each call.\<close>

fun fill_collection :: "(string \<Rightarrow> (string + trade_event list) run) \<Rightarrow> string list \<Rightarrow> collection_event \<Rightarrow> collection_event run" where
  "fill_collection rd [] ce = Returned ce"
| "fill_collection rd (ex # exs) ce =
     and_then (rd (ex @ ''_spot'')) (\<lambda>s. case s of Inl e \<Rightarrow> fill_collection rd exs ce | Inr spot \<Rightarrow>
       and_then (rd (ex @ ''_futures'')) (\<lambda>f. case f of Inl e \<Rightarrow> fill_collection rd exs ce | Inr futures \<Rightarrow>
         fill_collection rd exs (put_slice (ex @ ''_futures'') futures (put_slice (ex @ ''_spot'') spot ce))))"

definition xb_to_collection :: "codec_env \<Rightarrow> (string \<Rightarrow> gotime) \<Rightarrow> string \<Rightarrow> gotime \<Rightarrow> extended_buffer \<Rightarrow> collection_event run" where
  "xb_to_collection env clk sm trig xb =
     fill_collection (\<lambda>k. xb_range env (clk k) k (trig + (- 20 * second)) (trig + 20 * second) xb)
       extended_exchanges (bare_collection sm trig)"

section \<open>Maintenance\<close>

definition maintain_market :: "codec_env \<Rightarrow> gotime \<Rightarrow> string \<Rightarrow> extended_buffer \<Rightarrow> extended_buffer run" where
  "maintain_market env cutoff k xb =
     (case mget (xbHot xb) k of
        None \<Rightarrow> Returned xb
      | Some r \<Rightarrow> and_then (extract_old_trades cutoff r) (\<lambda>(old, r1).
          let xb1 = xb\<lparr>xbHot := mput k r1 (xbHot xb)\<rparr> in
          if old = [] then Returned xb1
          else (case mget (xbCold xb) k of
              None \<Rightarrow> Returned xb1
            | Some cr \<Rightarrow> and_then (compress_and_store env old cr) (\<lambda>(e, cr1). Returned (xb1\<lparr>xbCold := mput k cr1 (xbCold xb)\<rparr>)))))"

fun maintain_markets :: "codec_env \<Rightarrow> gotime \<Rightarrow> string list \<Rightarrow> extended_buffer \<Rightarrow> extended_buffer run" where
  "maintain_markets env cutoff [] xb = Returned xb"
| "maintain_markets env cutoff (k # ks) xb = and_then (maintain_market env cutoff k xb) (maintain_markets env cutoff ks)"

definition update_xstats :: "extended_buffer \<Rightarrow> extended_buffer" where
  "update_xstats xb =
     (let hot = int (sum_list (map (rbSize \<circ> snd) (xbHot xb))); cold = int (sum_list (map (cold_size \<circ> snd) (xbCold xb)));
          mem = sum_list (map (\<lambda>(k, r). int (rbCapacity r * 200) + int (length (rbTimeIndex r)) * 16) (xbHot xb)) +
                sum_list (map (cold_memory \<circ> snd) (xbCold xb))
      in upd_xstats (\<lambda>st. st\<lparr>xsHotEvents := hot, xsColdEvents := cold, xsTotalEvents := hot + cold, xsMemoryUsage := mem,
           xsCompressionRate := (if cold > 0 then xbRatio xb else xsCompressionRate st)\<rparr>) xb)"

definition perform_xmaintenance :: "codec_env \<Rightarrow> gotime \<Rightarrow> string list \<Rightarrow> extended_buffer \<Rightarrow> extended_buffer run" where
  "perform_xmaintenance env now ks xb =
     and_then (maintain_markets env (now - xbHotDuration xb) ks xb) (\<lambda>xb1. Returned (update_xstats xb1))"

text \<open>\<open>Close\<close> closes the hot rings, in the order \<open>ks\<close> of the map, and then the cold ones.\<close>

fun close_rings :: "string list \<Rightarrow> extended_buffer \<Rightarrow> extended_buffer run" where
  "close_rings [] xb = Returned xb"
| "close_rings (k # ks) xb =
     (case mget (xbHot xb) k of
        None \<Rightarrow> close_rings ks xb
      | Some r \<Rightarrow> and_then (close_ring r) (\<lambda>(_, r1). close_rings ks (xb\<lparr>xbHot := mput k r1 (xbHot xb)\<rparr>)))"

definition close_extended :: "string list \<Rightarrow> extended_buffer \<Rightarrow> extended_buffer run" where
  "close_extended ks xb =
     and_then (close_rings ks (xb\<lparr>xbActive := False, xbCancelled := True\<rparr>)) (\<lambda>xb1.
       Returned (xb1\<lparr>xbCold := map (\<lambda>(k, cr). (k, close_cold cr)) (xbCold xb1)\<rparr>))"

end
