(* ===== verification/BufferManager.thy ===== *)
theory BufferManager
  imports ExtendedBuffer
begin

text \<open>
  The manager of the extended buffer, \<open>internal/buffer/buffer_manager.go\<close>: it stores in the extended buffer
  and falls back to a plain list per market when that fails.  The latencies it measures are arguments.
\<close>

record manager_stats =
  msTradesStored :: int
  msTradesRetrieved :: int
  msBufferHits :: int
  msCompressionHits :: int
  msMemoryUsage :: int
  msCompressionRatio :: gofloat
  msLatency :: int
  msStorageErrors :: int
  msRetrievalErrors :: int

record buffer_manager =
  bmExtended :: "extended_buffer option"
  bmEnabled :: bool
  bmFallback :: bool
  bmDuration :: int
  bmStats :: manager_stats
  bmLegacyMode :: bool
  bmLegacy :: "(string, trade_event list) gomap"
  bmCancelled :: bool

text \<open>\<open>conf\<close> is the configured duration when it is given and parses.\<close>

definition new_buffer_manager :: "gotime \<Rightarrow> int option \<Rightarrow> buffer_manager run" where
  "new_buffer_manager now conf =
     (let dur = (case conf of Some d \<Rightarrow> d | None \<Rightarrow> 10 * minute) in
      and_then (new_extended_buffer now dur) (\<lambda>xb. Returned
        \<lparr>bmExtended = Some xb, bmEnabled = True, bmFallback = True, bmDuration = dur,
         bmStats = \<lparr>msTradesStored = 0, msTradesRetrieved = 0, msBufferHits = 0, msCompressionHits = 0, msMemoryUsage = 0,
           msCompressionRatio = Fin 0, msLatency = 0, msStorageErrors = 0, msRetrievalErrors = 0\<rparr>,
         bmLegacyMode = False, bmLegacy = [], bmCancelled = False\<rparr>))"

definition upd_mstats :: "(manager_stats \<Rightarrow> manager_stats) \<Rightarrow> buffer_manager \<Rightarrow> buffer_manager" where
  "upd_mstats f bm = bm\<lparr>bmStats := f (bmStats bm)\<rparr>"

section \<open>The fallback\<close>

definition max_legacy_size :: nat where
  "max_legacy_size = 100000"

definition store_legacy :: "string \<Rightarrow> trade_event \<Rightarrow> buffer_manager \<Rightarrow> buffer_manager" where
  "store_legacy ex t bm =
     (let old = mslice (bmLegacy bm) ex;
          kept = (if length old \<ge> max_legacy_size then drop (max_legacy_size div 10) old else old)
      in upd_mstats (\<lambda>st. st\<lparr>msTradesStored := msTradesStored st + 1\<rparr>) (bm\<lparr>bmLegacy := mput ex (kept @ [t]) (bmLegacy bm)\<rparr>))"

definition legacy_range :: "string \<Rightarrow> gotime \<Rightarrow> gotime \<Rightarrow> buffer_manager \<Rightarrow> trade_event list \<times> buffer_manager" where
  "legacy_range ex startT endT bm =
     (case mget (bmLegacy bm) ex of
        None \<Rightarrow> ([], bm)
      | Some trades \<Rightarrow>
          (let ts = filter (in_milli_range (unix_nano startT sdiv 1000000) (unix_nano endT sdiv 1000000)) trades in
           (ts, upd_mstats (\<lambda>st. st\<lparr>msTradesRetrieved := msTradesRetrieved st + int (length ts)\<rparr>) bm)))"

definition legacy_collection :: "string \<Rightarrow> gotime \<Rightarrow> buffer_manager \<Rightarrow> collection_event \<times> buffer_manager" where
  "legacy_collection sm trig bm =
     fold (\<lambda>k (ce, bm). case legacy_range k (trig + (- 20 * second)) (trig + 20 * second) bm of
         (ts, bm1) \<Rightarrow> (put_slice k ts ce, bm1)) extended_keys (bare_collection sm trig, bm)"

section \<open>Operations\<close>

definition bm_store :: "codec_env \<Rightarrow> gotime \<Rightarrow> int \<Rightarrow> string \<Rightarrow> trade_event \<Rightarrow> buffer_manager \<Rightarrow> (string option \<times> buffer_manager) run" where
  "bm_store env now lat ex t bm =
     and_then
       (case (bmEnabled bm, bmExtended bm) of
          (True, Some xb) \<Rightarrow> and_then (xb_store env now ex t xb) (\<lambda>(e, xb1).
            let bm1 = bm\<lparr>bmExtended := Some xb1\<rparr> in
            (case e of
               None \<Rightarrow> Returned (None, upd_mstats (\<lambda>st. st\<lparr>msTradesStored := msTradesStored st + 1\<rparr>) bm1)
             | Some m \<Rightarrow>
                 (let bm2 = upd_mstats (\<lambda>st. st\<lparr>msStorageErrors := msStorageErrors st + 1\<rparr>) bm1 in
                  if \<not> bmFallback bm2 then Returned (Some (''extended buffer storage failed: '' @ m), bm2)
                  else Returned (None, store_legacy ex t bm2))))
        | _ \<Rightarrow> Returned (None, store_legacy ex t bm))
       (\<lambda>(e, bm1). Returned (e, upd_mstats (\<lambda>st. st\<lparr>msLatency := lat\<rparr>) bm1))"

text \<open>\<open>now\<close> is the clock of the extended buffer and \<open>now1\<close> the one that tells a hot hit.\<close>

definition is_hot_hit :: "gotime \<Rightarrow> gotime \<Rightarrow> bool" where
  "is_hot_hit now1 requested = (time_sub now1 requested \<le> 2 * minute)"

definition bm_range :: "codec_env \<Rightarrow> gotime \<Rightarrow> gotime \<Rightarrow> int \<Rightarrow> string \<Rightarrow> gotime \<Rightarrow> gotime \<Rightarrow> buffer_manager \<Rightarrow>
    ((string + trade_event list) \<times> buffer_manager) run" where
  "bm_range env now now1 lat ex startT endT bm =
     and_then
       (case (bmEnabled bm, bmExtended bm) of
          (True, Some xb) \<Rightarrow> and_then (xb_range env now ex startT endT xb) (\<lambda>res. case res of
              Inr ts \<Rightarrow> Returned (Inr ts, upd_mstats (\<lambda>st. (if is_hot_hit now1 startT
                  then st\<lparr>msBufferHits := msBufferHits st + 1\<rparr> else st\<lparr>msCompressionHits := msCompressionHits st + 1\<rparr>)
                \<lparr>msTradesRetrieved := msTradesRetrieved st + int (length ts)\<rparr>) bm)
            | Inl m \<Rightarrow>
                (let bm1 = upd_mstats (\<lambda>st. st\<lparr>msRetrievalErrors := msRetrievalErrors st + 1\<rparr>) bm in
                 if \<not> bmFallback bm1 then Returned (Inl (''extended buffer retrieval failed: '' @ m), bm1)
                 else (case legacy_range ex startT endT bm1 of (ts, bm2) \<Rightarrow> Returned (Inr ts, bm2))))
        | _ \<Rightarrow> (case legacy_range ex startT endT bm of (ts, bm1) \<Rightarrow> Returned (Inr ts, bm1)))
       (\<lambda>(res, bm1). Returned (res, upd_mstats (\<lambda>st. st\<lparr>msLatency := lat\<rparr>) bm1))"

text \<open>The conversion of the extended buffer never returns an error.\<close>

definition bm_to_collection :: "codec_env \<Rightarrow> (string \<Rightarrow> gotime) \<Rightarrow> string \<Rightarrow> gotime \<Rightarrow> buffer_manager \<Rightarrow>
    (collection_event \<times> buffer_manager) run" where
  "bm_to_collection env clk sm trig bm =
     (case (bmEnabled bm, bmExtended bm) of
        (True, Some xb) \<Rightarrow> and_then (xb_to_collection env clk sm trig xb) (\<lambda>ce. Returned (ce, bm))
      | _ \<Rightarrow> Returned (legacy_collection sm trig bm))"

definition enable_extended :: "string list \<Rightarrow> gotime \<Rightarrow> bool \<Rightarrow> buffer_manager \<Rightarrow> buffer_manager run" where
  "enable_extended ks now enable bm =
     (if enable = bmEnabled bm then Returned bm
      else (let bm1 = bm\<lparr>bmEnabled := enable, bmLegacyMode := \<not> enable\<rparr> in
        (case (enable, bmExtended bm1) of
           (True, None) \<Rightarrow> and_then (new_extended_buffer now (bmDuration bm1)) (\<lambda>xb. Returned (bm1\<lparr>bmExtended := Some xb\<rparr>))
         | (False, Some xb) \<Rightarrow> and_then (close_extended ks xb) (\<lambda>_. Returned (bm1\<lparr>bmExtended := None\<rparr>))
         | _ \<Rightarrow> Returned bm1)))"

definition bm_get_stats :: "buffer_manager \<Rightarrow> manager_stats" where
  "bm_get_stats bm =
     (case (bmEnabled bm, bmExtended bm) of
        (True, Some xb) \<Rightarrow> (bmStats bm)\<lparr>msMemoryUsage := xsMemoryUsage (xbStats xb),
          msCompressionRatio := xsCompressionRate (xbStats xb)\<rparr>
      | _ \<Rightarrow> (bmStats bm)\<lparr>msMemoryUsage := int (sum_list (map (length \<circ> snd) (bmLegacy bm)) * 200)\<rparr>)"

definition bm_maintenance :: "gotime \<Rightarrow> buffer_manager \<Rightarrow> buffer_manager" where
  "bm_maintenance now bm =
     (let cutoff = unix_nano (now - bmDuration bm) sdiv 1000000;
          bm1 = (if bmLegacyMode bm
                 then bm\<lparr>bmLegacy := map (\<lambda>(k, ts). (k, filter (\<lambda>t. Timestamp t \<ge> cutoff) ts)) (bmLegacy bm)\<rparr> else bm)
      in (case (bmEnabled bm1, bmExtended bm1) of
            (True, Some xb) \<Rightarrow> upd_mstats (\<lambda>st. st\<lparr>msMemoryUsage := xsMemoryUsage (xbStats xb),
              msCompressionRatio := xsCompressionRate (xbStats xb)\<rparr>) bm1
          | _ \<Rightarrow> bm1))"

definition bm_close :: "string list \<Rightarrow> buffer_manager \<Rightarrow> buffer_manager run" where
  "bm_close ks bm =
     (let bm1 = bm\<lparr>bmCancelled := True\<rparr> in
      and_then (case bmExtended bm1 of
          None \<Rightarrow> Returned bm1
        | Some xb \<Rightarrow> and_then (close_extended ks xb) (\<lambda>xb1. Returned (bm1\<lparr>bmExtended := Some xb1\<rparr>)))
        (\<lambda>bm2. Returned (bm2\<lparr>bmLegacy := []\<rparr>)))"

end
