(* ===== verification/DeltaCompressorProps.thy ===== *)
theory DeltaCompressorProps
  imports DeltaCompressor
begin

text \<open>
  What the delta compression keeps: the byte format is read back exactly, the labels survive, prices
  survive to six decimals near the first one, and times and large quantities do not.
\<close>

section \<open>The byte format\<close>

lemma sint_of_int_id:
  "- (2 ^ 63) \<le> x \<Longrightarrow> x < 2 ^ 63 \<Longrightarrow> sint (word_of_int x :: 64 word) = x"
  "- (2 ^ 31) \<le> x \<Longrightarrow> x < 2 ^ 31 \<Longrightarrow> sint (word_of_int x :: 32 word) = x"
  "- (2 ^ 15) \<le> x \<Longrightarrow> x < 2 ^ 15 \<Longrightarrow> sint (word_of_int x :: 16 word) = x"
  by (simp_all add: signed_of_int signed_take_bit_int_eq_self)

lemma sint_of_nat31: "n < 2 ^ 31 \<Longrightarrow> sint (word_of_nat n :: 32 word) = int n"
proof -
  assume "n < 2 ^ 31"
  then have "int n < 2 ^ 31" by (metis of_nat_less_iff of_nat_numeral of_nat_power)
  then have "sint (word_of_int (int n) :: 32 word) = int n" by (intro sint_of_int_id) simp_all
  then show ?thesis by simp
qed

lemma read_count_back:
  assumes "n < 2 ^ 31"
  shows "read_count (write_word 4 (word_of_nat n :: 32 word) @ rest) = Some (n, rest)"
  using read_write_word [of 4 "word_of_nat n :: 32 word" rest] sint_of_nat31 [OF assms] by (simp add: read_count_def Let_def)

lemma read_array_back:
  fixes ws :: "'a::len word list"
  assumes "LENGTH('a) = 8 * n" "length ws < 2 ^ 31"
  shows "read_array n (write_array n ws @ rest) = Some (ws, rest)"
  using read_count_back [OF assms(2)] read_write_words [OF assms(1)] by (simp add: read_array_def write_array_def)

lemma read_byte_array_back: "length bs < 2 ^ 31 \<Longrightarrow> read_byte_array (write_byte_array bs @ rest) = Some (bs, rest)"
  using read_count_back [of "length bs"] by (simp add: read_byte_array_def write_byte_array_def read_back_bytes)

lemma string_bytes_back: "bytes_string (string_bytes s) = s"
proof -
  have "char_of (unat (of_char c :: 8 word)) = c" for c
  proof -
    have "word_of_nat (of_char c) = (of_char c :: 8 word)" by (rule of_nat_of_char)
    then have "unat (of_char c :: 8 word) = unat (word_of_nat (of_char c) :: 8 word)" by (simp only:)
    also have "\<dots> = take_bit 8 (of_char c)" by (simp only: unsigned_of_nat of_nat_id) simp
    also have "\<dots> = of_char c" by (rule take_bit_nat_eq_self) simp
    finally show ?thesis by simp
  qed
  then show ?thesis by (simp add: bytes_string_def string_bytes_def comp_def)
qed

lemma read_strings_back:
  "\<forall>s\<in>set ss. length s < 2 ^ 31 \<Longrightarrow>
   read_strings (length ss) (concat (map (\<lambda>s. write_byte_array (string_bytes s)) ss) @ rest) = Some (ss, rest)"
proof (induction ss)
  case (Cons s ss)
  have "length (string_bytes s) < 2 ^ 31" using Cons.prems by (simp add: string_bytes_def)
  with Cons show ?case by (simp add: read_byte_array_back string_bytes_back)
qed simp

definition fits :: "compressed_data \<Rightarrow> symbol_mapping \<Rightarrow> bool" where
  "fits cd mp = (- (2 ^ 63) \<le> cdBaseTime cd \<and> cdBaseTime cd < 2 ^ 63 \<and>
     - (2 ^ 31) \<le> cdPriceScale cd \<and> cdPriceScale cd < 2 ^ 31 \<and> - (2 ^ 31) \<le> cdCount cd \<and> cdCount cd < 2 ^ 31 \<and>
     length (UniqueSymbols mp) < 2 ^ 31 \<and> (\<forall>s\<in>set (UniqueSymbols mp). length s < 2 ^ 31) \<and>
     length (cdPriceDeltas cd) < 2 ^ 31 \<and> length (cdTimeDeltas cd) < 2 ^ 31 \<and> length (cdVolumes cd) < 2 ^ 31 \<and>
     length (cdSymbols cd) < 2 ^ 31 \<and> length (cdExchanges cd) < 2 ^ 31 \<and> length (cdMarketTypes cd) < 2 ^ 31 \<and>
     length (cdSides cd) < 2 ^ 31)"

lemma serialized_reads_back:
  assumes "fits cd mp"
  shows "deserialize_from_binary (serialize_to_binary cd mp) =
    Some (cd\<lparr>cdBasePrice := from_bits (to_bits (cdBasePrice cd))\<rparr>,
      \<lparr>UniqueSymbols = UniqueSymbols mp, SymbolMap = index_symbols (UniqueSymbols mp)\<rparr>)"
proof -
  note b = assms [unfolded fits_def]
  have w: "read_word 8 (write_word 8 w @ r) = (w, r)" "read_word 4 (write_word 4 v @ r) = (v, r)"
    for w :: "64 word" and v :: "32 word" and r by (simp_all add: read_write_word)
  have "read_word 4 (write_word 4 v @ r) = (v, r)" for v :: "32 word" and r by (simp add: read_write_word)
  then show ?thesis
    using b unfolding deserialize_from_binary_def serialize_to_binary_def write_strings_def Let_def
    by (simp add: w read_count_back read_strings_back read_array_back read_byte_array_back sint_of_int_id
        read_byte_array_back [where rest = "[]", simplified])
qed

section \<open>Trades near the first one\<close>

definition fin_val :: "gofloat option \<Rightarrow> rat" where
  "fin_val x = (case x of Some (Fin q) \<Rightarrow> q | _ \<Rightarrow> 0)"

definition r_trunc :: "rat \<Rightarrow> int" where
  "r_trunc q = (if q \<ge> 0 then \<lfloor>q\<rfloor> else \<lceil>q\<rceil>)"

text \<open>A trade whose price and time fit in the deltas to \<open>p0\<close> and \<open>t0\<close>: \<open>0.0327\<close> and eighteen hours of
  nanoseconds, which the code takes the milliseconds for.\<close>

definition near :: "rat \<Rightarrow> int \<Rightarrow> trade_event \<Rightarrow> bool" where
  "near p0 t0 t =
     (float_opt (Price t) = Some (Fin (fin_val (float_opt (Price t)))) \<and>
      float_opt (Quantity t) = Some (Fin (fin_val (float_opt (Quantity t)))) \<and>
      - 32768 \<le> (fin_val (float_opt (Price t)) - p0) * 1000000 \<and> (fin_val (float_opt (Price t)) - p0) * 1000000 \<le> 32767 \<and>
      0 \<le> fin_val (float_opt (Quantity t)) \<and> fin_val (float_opt (Quantity t)) < 2 ^ 43 \<and>
      t0 \<le> Timestamp t \<and> Timestamp t - t0 < 65536000000)"

definition price_delta :: "rat \<Rightarrow> trade_event \<Rightarrow> int" where
  "price_delta p0 t = r_trunc ((fin_val (float_opt (Price t)) - p0) * 1000000)"

definition time_delta :: "int \<Rightarrow> trade_event \<Rightarrow> int" where
  "time_delta t0 t = (Timestamp t - t0) div 1000000"

definition micro_quantity :: "trade_event \<Rightarrow> int" where
  "micro_quantity t = \<lfloor>fin_val (float_opt (Quantity t)) * 1000000\<rfloor>"

lemma r_trunc_bounds: "of_int a \<le> q \<Longrightarrow> q \<le> of_int b \<Longrightarrow> a \<le> r_trunc q \<and> r_trunc q \<le> b"
  by (auto simp: r_trunc_def le_floor_iff ceiling_le_iff) linarith+

lemma f_trunc_Fin: "\<bar>r_trunc q\<bar> < 2 ^ 63 \<Longrightarrow> f_trunc (Fin q) = r_trunc q"
  by (simp add: f_trunc_def r_trunc_def Let_def)

lemma near_bounds:
  assumes "near p0 t0 t"
  shows "- 32768 \<le> price_delta p0 t" "price_delta p0 t \<le> 32767" "0 \<le> time_delta t0 t" "time_delta t0 t \<le> 65535"
    "0 \<le> micro_quantity t" "micro_quantity t < 2 ^ 63"
proof -
  note n = assms [unfolded near_def]
  show "- 32768 \<le> price_delta p0 t" "price_delta p0 t \<le> 32767"
    using r_trunc_bounds [of "- 32768" "(fin_val (float_opt (Price t)) - p0) * 1000000" 32767] n
    by (simp_all add: price_delta_def)
  show "0 \<le> time_delta t0 t" using n by (simp add: time_delta_def pos_imp_zdiv_nonneg_iff)
  show "time_delta t0 t \<le> 65535"
    using n zdiv_mono1 [of "Timestamp t - t0" 65535999999 1000000] by (simp add: time_delta_def)
  show "0 \<le> micro_quantity t" using n by (simp add: micro_quantity_def)
  show "micro_quantity t < 2 ^ 63" using n by (simp add: micro_quantity_def floor_less_iff)
qed

lemma step_near:
  assumes "near p0 t0 t" "dcBasePrice dc = Fin p0" "dcBaseTime dc = t0" "dcPriceScale dc = 1000000"
  shows "compress_step (i, t) (dc, cd) = (dc, cd
    \<lparr>cdPriceDeltas := (cdPriceDeltas cd)[i := word_of_int (price_delta p0 t)],
     cdTimeDeltas := (cdTimeDeltas cd)[i := word_of_int (time_delta t0 t)],
     cdVolumes := (cdVolumes cd)[i := word_of_int (micro_quantity t)]\<rparr>)"
proof -
  obtain p q where pq: "float_opt (Price t) = Some (Fin p)" "float_opt (Quantity t) = Some (Fin q)"
    using assms(1) unfolding near_def by blast
  note b = near_bounds [OF assms(1)]
  have n: "- 32768 \<le> (p - p0) * 1000000" "(p - p0) * 1000000 \<le> 32767" "0 \<le> q" "t0 \<le> Timestamp t"
      "Timestamp t - t0 < 65536000000"
    using assms(1) unfolding near_def by (simp_all add: pq fin_val_def)
  have d: "f_mul (f_sub (Fin p) (Fin p0)) (Fin 1000000) = Fin ((p - p0) * 1000000)"
    by (simp add: f_sub_def)
  have ft: "f_trunc (Fin ((p - p0) * 1000000)) = price_delta p0 t"
    using b(1,2) unfolding price_delta_def pq fin_val_def by (simp add: f_trunc_Fin)
  have fq: "f_trunc (f_mul (Fin q) (Fin 1000000)) = micro_quantity t"
    using b(5,6) n(3) unfolding micro_quantity_def pq fin_val_def by (simp add: f_trunc_def Let_def)
  have far: "\<not> (f_less (Fin 32767) (Fin ((p - p0) * 1000000)) \<or> f_less (Fin ((p - p0) * 1000000)) (Fin (- 32768)))"
    using n(1,2) by simp
  have ms: "wrap64 (Timestamp t - t0) sdiv 1000000 = time_delta t0 t" "\<not> time_delta t0 t > 65535"
    using n(4,5) b(4) by (simp_all add: wrap64_id sdiv_nonneg time_delta_def)
  have sc: "(Fin (of_int 1000000)) = Fin 1000000" by simp
  show ?thesis
    unfolding compress_step_def case_prod_conv pq option.case Let_def assms(2-4) sc d ft fq
    by (simp only: far ms if_False assms(3)) simp
qed

lemma update_next: "k < length ts \<Longrightarrow>
  (map f (take k ts) @ replicate (length ts - k) x)[k := f (ts ! k)] = map f (take (Suc k) ts) @ replicate (length ts - Suc k) x"
  by (simp add: take_Suc_conv_app_nth list_update_append Suc_diff_Suc [symmetric])

lemma fold_near:
  assumes "\<forall>t\<in>set ts. near p0 t0 t" "dcBasePrice dc = Fin p0" "dcBaseTime dc = t0" "dcPriceScale dc = 1000000"
    and "cdPriceDeltas cd = replicate (length ts) 0" "cdTimeDeltas cd = replicate (length ts) 0"
    and "cdVolumes cd = replicate (length ts) 0"
  shows "fold compress_step (zip [0..<length ts] ts) (dc, cd) = (dc, cd
    \<lparr>cdPriceDeltas := map (\<lambda>t. word_of_int (price_delta p0 t)) ts,
     cdTimeDeltas := map (\<lambda>t. word_of_int (time_delta t0 t)) ts,
     cdVolumes := map (\<lambda>t. word_of_int (micro_quantity t)) ts\<rparr>)"
proof -
  let ?r = "\<lambda>k. length ts - k"
  have "k \<le> length ts \<Longrightarrow> fold compress_step (take k (zip [0..<length ts] ts)) (dc, cd) = (dc, cd
    \<lparr>cdPriceDeltas := map (\<lambda>t. word_of_int (price_delta p0 t)) (take k ts) @ replicate (?r k) 0,
     cdTimeDeltas := map (\<lambda>t. word_of_int (time_delta t0 t)) (take k ts) @ replicate (?r k) 0,
     cdVolumes := map (\<lambda>t. word_of_int (micro_quantity t)) (take k ts) @ replicate (?r k) 0\<rparr>)" for k
  proof (induction k)
    case (Suc k)
    then have "near p0 t0 (ts ! k)" "k < length ts" using assms(1) by simp_all
    note up = this(2) and snoc = update_next [OF this(2), where x = 0]
    have "take (Suc k) (zip [0..<length ts] ts) = take k (zip [0..<length ts] ts) @ [(k, ts ! k)]"
      using up by (simp add: take_Suc_conv_app_nth)
    with Suc \<open>near p0 t0 (ts ! k)\<close> show ?case
      using snoc [of "\<lambda>t. word_of_int (price_delta p0 t) :: 16 word"] snoc [of "\<lambda>t. word_of_int (time_delta t0 t) :: 16 word"]
        snoc [of "\<lambda>t. word_of_int (micro_quantity t) :: 32 word"]
      by (simp add: step_near [OF _ assms(2-4)])
  next
    case 0
    have "cd = cd\<lparr>cdPriceDeltas := cdPriceDeltas cd, cdTimeDeltas := cdTimeDeltas cd, cdVolumes := cdVolumes cd\<rparr>" by simp
    with assms(5-7) show ?case by simp
  qed
  from this [of "length ts"] show ?thesis by simp
qed

section \<open>Labels\<close>

definition side_bit :: "nat \<times> trade_event \<Rightarrow> bytes \<Rightarrow> bytes" where
  "side_bit = (\<lambda>(i, t) bs. if Side t = ''sell'' then bs[i div 8 := (bs ! (i div 8)) OR push_bit (i mod 8) 1] else bs)"

lemma side_bit_at:
  assumes "j < length bs" "b < 8"
  shows "bit (side_bit (k, t) bs ! j) b \<longleftrightarrow> bit (bs ! j) b \<or> (Side t = ''sell'' \<and> j = k div 8 \<and> b = k mod 8)"
proof -
  have "bit (2 ^ n :: 8 word) b \<longleftrightarrow> n = b" for n using assms(2) by (auto simp: bit_exp_iff)
  with assms(1) show ?thesis
    by (cases "k div 8 = j") (auto simp: side_bit_def bit_or_iff nth_list_update_eq nth_list_update_neq)
qed

lemma length_side_bit: "length (side_bit x bs) = length bs"
  by (simp add: side_bit_def split_beta)

lemma fold_side_bits:
  assumes "k \<le> length ts" "length bs = (length ts + 7) div 8"
    and "\<forall>j < length bs. \<forall>b < 8. \<not> bit (bs ! j) b"
  shows "length (fold side_bit (take k (zip [0..<length ts] ts)) bs) = length bs \<and>
    (\<forall>j < length bs. \<forall>b < 8. bit (fold side_bit (take k (zip [0..<length ts] ts)) bs ! j) b \<longleftrightarrow>
       8 * j + b < k \<and> Side (ts ! (8 * j + b)) = ''sell'')"
  using assms(1)
proof (induction k)
  case (Suc k)
  let ?bs = "fold side_bit (take k (zip [0..<length ts] ts)) bs"
  from Suc have k: "k < length ts" and ih: "length ?bs = length bs"
    "\<And>j b. j < length bs \<Longrightarrow> b < 8 \<Longrightarrow> bit (?bs ! j) b \<longleftrightarrow> 8 * j + b < k \<and> Side (ts ! (8 * j + b)) = ''sell''"
    by auto
  have t: "fold side_bit (take (Suc k) (zip [0..<length ts] ts)) bs = side_bit (k, ts ! k) ?bs"
    using k by (simp add: take_Suc_conv_app_nth)
  have "bit (side_bit (k, ts ! k) ?bs ! j) b \<longleftrightarrow> 8 * j + b < Suc k \<and> Side (ts ! (8 * j + b)) = ''sell''"
    if "j < length bs" "b < 8" for j b
  proof -
    have idx: "8 * j + b = k \<longleftrightarrow> j = k div 8 \<and> b = k mod 8" using that(2) by auto
    have "bit (side_bit (k, ts ! k) ?bs ! j) b \<longleftrightarrow>
        bit (?bs ! j) b \<or> (Side (ts ! k) = ''sell'' \<and> j = k div 8 \<and> b = k mod 8)"
      using side_bit_at [of j ?bs] that ih(1) by simp
    then show ?thesis using ih(2) [OF that] idx by (auto simp: less_Suc_eq)
  qed
  with ih(1) show ?case by (simp add: t length_side_bit)
qed (use assms(3) in auto)

lemma and_one_bit: "drop_bit m w AND 1 = 1 \<longleftrightarrow> bit w m" for w :: "8 word"
  by (simp add: and_one_eq bit_iff_odd_drop_bit odd_iff_mod_2_eq_one)

lemma sides_back:
  assumes "i < length ts"
  shows "decompress_side (compress_sides ts) i = (if Side (ts ! i) = ''sell'' then ''sell'' else ''buy'')"
proof -
  let ?z = "replicate ((length ts + 7) div 8) (0 :: 8 word)"
  have c: "compress_sides ts = fold side_bit (take (length ts) (zip [0..<length ts] ts)) ?z"
    by (simp add: compress_sides_def side_bit_def)
  have "length (compress_sides ts) = (length ts + 7) div 8"
    "\<And>j b. j < (length ts + 7) div 8 \<Longrightarrow> b < 8 \<Longrightarrow> bit (compress_sides ts ! j) b \<longleftrightarrow>
       8 * j + b < length ts \<and> Side (ts ! (8 * j + b)) = ''sell''"
    using fold_side_bits [of "length ts" ts ?z] unfolding c by auto
  moreover have "i div 8 < (length ts + 7) div 8" using assms by auto
  moreover have "8 * (i div 8) + i mod 8 = i" "i mod 8 < 8" by simp_all
  ultimately show ?thesis using assms by (simp add: decompress_side_def and_one_bit)
qed

lemma exchange_back:
  "i < length ts \<Longrightarrow> Exchange (ts ! i) \<in> set exchange_names \<Longrightarrow>
   decompress_label exchange_names (compress_exchanges ts) i = Exchange (ts ! i)"
  by (auto simp: decompress_label_def compress_exchanges_def exchange_names_def label_index_def)

lemma market_back:
  "i < length ts \<Longrightarrow> MarketType (ts ! i) \<in> set market_names \<Longrightarrow>
   decompress_label market_names (compress_market_types ts) i = MarketType (ts ! i)"
  by (auto simp: decompress_label_def compress_market_types_def market_names_def label_index_def)

lemma mget_indexed:
  "distinct us \<Longrightarrow> j < length us \<Longrightarrow> mget (map (\<lambda>(i, s). (s, f i)) (zip [k..<k + length us] us)) (us ! j) = Some (f (k + j))"
proof (induction us arbitrary: k j)
  case (Cons u us)
  have z: "zip [k..<k + length (u # us)] (u # us) = (k, u) # zip [Suc k..<Suc k + length us] us"
    by (simp add: upt_rec)
  show ?case
  proof (cases j)
    case (Suc j')
    with Cons have "us ! j' \<noteq> u" by (auto simp: in_set_conv_nth)
    with Suc Cons.IH [of j' "Suc k"] Cons.prems show ?thesis unfolding z by simp
  next
    case 0
    then show ?thesis unfolding z by simp
  qed
qed simp

lemma symbols_back:
  assumes "mset (ord (remdups (map Symbol ts))) = mset (remdups (map Symbol ts))"
    and "card (Symbol ` set ts) \<le> 256" "i < length ts"
  shows "decompress_label (UniqueSymbols (create_symbol_mapping ord ts)) (compress_symbols (create_symbol_mapping ord ts) ts) i =
    Symbol (ts ! i)"
proof -
  let ?us = "ord (remdups (map Symbol ts))"
  have d: "distinct ?us" using assms(1) by (metis distinct_remdups mset_eq_imp_distinct_iff)
  have set: "set ?us = Symbol ` set ts" using mset_eq_setD [OF assms(1)] by simp
  have len: "length ?us \<le> 256" using assms(2) distinct_card [OF d] set by simp
  obtain j where j: "j < length ?us" "?us ! j = Symbol (ts ! i)"
    using assms(3) set by (metis in_set_conv_nth image_eqI nth_mem)
  then have "mget (map (\<lambda>(i, s). (s, word_of_nat i :: 8 word)) (zip [0..<length ?us] ?us)) (Symbol (ts ! i)) = Some (word_of_nat j)"
    using mget_indexed [OF d j(1), of "\<lambda>i. word_of_nat i :: 8 word" 0] by simp
  moreover have "unat (word_of_nat j :: 8 word) = j" using j(1) len by (simp add: unsigned_of_nat take_bit_nat_eq_self)
  ultimately show ?thesis
    using assms(3) j
    by (simp add: decompress_label_def compress_symbols_def create_symbol_mapping_def Let_def label_index_def)
qed

section \<open>Compression and decompression\<close>

definition labelled :: "trade_event \<Rightarrow> bool" where
  "labelled t = (Exchange t \<in> set exchange_names \<and> MarketType t \<in> set market_names \<and>
     (Side t = ''buy'' \<or> Side t = ''sell'') \<and> length (Symbol t) < 2 ^ 31)"

text \<open>What is left of a trade: the labels, the price to six decimals above the stored base, the time in
  steps of a million milliseconds, and the quantity in millionths modulo \<open>2 ^ 32\<close>.\<close>

definition survivor :: "(gofloat \<Rightarrow> string) \<Rightarrow> rat \<Rightarrow> int \<Rightarrow> trade_event \<Rightarrow> trade_event" where
  "survivor ff p0 t0 t = zero_trade
     \<lparr>Price := ff (f_add (from_bits (to_bits (Fin p0))) (Fin (of_int (price_delta p0 t) / 1000000))),
      Timestamp := t0 + time_delta t0 t * 1000000,
      Quantity := ff (Fin (of_int (micro_quantity t mod 2 ^ 32) / 1000000)),
      Symbol := Symbol t, Exchange := Exchange t, MarketType := MarketType t, Side := Side t\<rparr>"

lemma decompress_survivor:
  assumes "near p0 t0 (ts ! i)" "labelled (ts ! i)" "i < length ts" "Timestamp (ts ! i) < 2 ^ 63" "- (2 ^ 63) \<le> t0"
    and "mset (ord (remdups (map Symbol ts))) = mset (remdups (map Symbol ts))" "card (Symbol ` set ts) \<le> 256"
    and "cdBasePrice cd = from_bits (to_bits (Fin p0))" "cdBaseTime cd = t0" "cdPriceScale cd = 1000000"
    and "cdPriceDeltas cd = map (\<lambda>t. word_of_int (price_delta p0 t)) ts"
    and "cdTimeDeltas cd = map (\<lambda>t. word_of_int (time_delta t0 t)) ts"
    and "cdVolumes cd = map (\<lambda>t. word_of_int (micro_quantity t)) ts"
    and "UniqueSymbols mp = UniqueSymbols (create_symbol_mapping ord ts)"
    and "cdSymbols cd = compress_symbols (create_symbol_mapping ord ts) ts" "cdExchanges cd = compress_exchanges ts"
    and "cdMarketTypes cd = compress_market_types ts" "cdSides cd = compress_sides ts"
  shows "decompress_trade ff cd mp i = survivor ff p0 t0 (ts ! i)"
proof -
  let ?t = "ts ! i"
  note b = near_bounds [OF assms(1)] and l = assms(2) [unfolded labelled_def]
  have pd: "sint (word_of_int (price_delta p0 ?t) :: 16 word) = price_delta p0 ?t"
    by (rule sint_of_int_id(3)) (use b(1,2) in simp_all)
  have td: "uint (word_of_int (time_delta t0 ?t) :: 16 word) = time_delta t0 ?t"
    using b(3,4) by (simp add: unsigned_of_int take_bit_int_eq_self)
  have "int (unat (word_of_int (micro_quantity ?t) :: 32 word)) = micro_quantity ?t mod 2 ^ 32"
    by (simp add: unsigned_of_int take_bit_eq_mod)
  then have mq: "(of_nat (unat (word_of_int (micro_quantity ?t) :: 32 word)) :: rat) = of_int (micro_quantity ?t mod 2 ^ 32)"
    by (metis of_int_of_nat_eq)
  have "time_delta t0 ?t * 1000000 \<le> Timestamp ?t - t0" unfolding time_delta_def
    using div_mod_decomp_int [of "Timestamp ?t - t0" 1000000] pos_mod_sign [of 1000000 "Timestamp ?t - t0"] by linarith
  then have w: "wrap64 (t0 + time_delta t0 ?t * 1000000) = t0 + time_delta t0 ?t * 1000000"
    using assms(4,5) b(3) by (intro wrap64_id) auto
  have f: "f_div (Fin a) (Fin (of_int 1000000)) = Fin (a / 1000000)" "f_div (Fin a) (Fin 1000000) = Fin (a / 1000000)" for a
    by simp_all
  have sd: "decompress_side (compress_sides ts) i = Side ?t" using sides_back [OF assms(3)] l by auto
  show ?thesis
    unfolding decompress_trade_def survivor_def assms(8-18) nth_map [OF assms(3)] pd td mq f w sd
      exchange_back [OF assms(3) l [THEN conjunct1]] market_back [OF assms(3) l [THEN conjunct2, THEN conjunct1]]
      symbols_back [of ord ts i, OF assms(6,7,3)] by (rule refl)
qed

lemma compress_near:
  assumes "trades \<noteq> []" "\<forall>t\<in>set (srt trades). near p0 t0 t" "float_opt (Price (srt trades ! 0)) = Some (Fin p0)"
    and "Timestamp (srt trades ! 0) = t0"
  shows "\<exists>cd. compress srt ord trades new_delta_compressor =
      (Inr (serialize_to_binary cd (create_symbol_mapping ord (srt trades))),
       \<lparr>dcBasePrice = Fin p0, dcBaseTime = t0, dcPriceScale = 1000000\<rparr>) \<and>
    cd = \<lparr>cdBasePrice = Fin p0, cdBaseTime = t0, cdPriceScale = 1000000, cdCount = int (length (srt trades)),
      cdPriceDeltas = map (\<lambda>t. word_of_int (price_delta p0 t)) (srt trades),
      cdTimeDeltas = map (\<lambda>t. word_of_int (time_delta t0 t)) (srt trades),
      cdVolumes = map (\<lambda>t. word_of_int (micro_quantity t)) (srt trades),
      cdSymbols = compress_symbols (create_symbol_mapping ord (srt trades)) (srt trades),
      cdExchanges = compress_exchanges (srt trades), cdMarketTypes = compress_market_types (srt trades),
      cdSides = compress_sides (srt trades)\<rparr>"
  using assms(1,3,4) fold_near [OF assms(2)]
  by (simp add: compress_def new_delta_compressor_def Let_def)

lemma fits_near:
  assumes "length ts < 2 ^ 31" "\<forall>t\<in>set ts. labelled t" "- (2 ^ 63) \<le> t0" "t0 < 2 ^ 63"
    and "mset (ord (remdups (map Symbol ts))) = mset (remdups (map Symbol ts))"
  shows "fits \<lparr>cdBasePrice = p, cdBaseTime = t0, cdPriceScale = 1000000, cdCount = int (length ts),
      cdPriceDeltas = map f ts, cdTimeDeltas = map g ts, cdVolumes = map h ts,
      cdSymbols = compress_symbols mp ts, cdExchanges = compress_exchanges ts,
      cdMarketTypes = compress_market_types ts, cdSides = compress_sides ts\<rparr> (create_symbol_mapping ord ts)"
proof -
  let ?us = "ord (remdups (map Symbol ts))"
  have "length ?us = length (remdups (map Symbol ts))" using mset_eq_length [OF assms(5)] .
  also have "\<dots> \<le> length ts" using length_remdups_leq [of "map Symbol ts"] by simp
  finally have us: "length ?us < 2 ^ 31" using assms(1) by linarith
  have "set ?us = Symbol ` set ts" using mset_eq_setD [OF assms(5)] by simp
  then have sym: "\<forall>s\<in>set ?us. length s < 2 ^ 31" using assms(2) by (auto simp: labelled_def)
  have "length (compress_sides ts) = (length ts + 7) div 8"
  proof -
    have "length (fold side_bit xs bs) = length bs" for xs bs
      by (induction xs arbitrary: bs) (simp_all add: length_side_bit)
    then show ?thesis by (simp add: compress_sides_def flip: side_bit_def)
  qed
  moreover have "int (length ts) < 2 ^ 31" using assms(1) by (metis of_nat_less_iff of_nat_numeral of_nat_power)
  ultimately show ?thesis
    using assms(1,3,4) us sym
    by (simp add: fits_def compress_symbols_def compress_exchanges_def compress_market_types_def create_symbol_mapping_def Let_def)
qed

lemma bytes_of_Nil: "bytes_of n x = [] \<longleftrightarrow> n = 0"
  by (cases n) simp_all

lemma compressed_back:
  assumes "mset (srt trades) = mset trades" "mset (ord (remdups (map Symbol (srt trades)))) = mset (remdups (map Symbol (srt trades)))"
    and "trades \<noteq> []" "length trades < 2 ^ 31" "card (Symbol ` set trades) \<le> 256"
    and "float_opt (Price (srt trades ! 0)) = Some (Fin p0)" "Timestamp (srt trades ! 0) = t0"
    and "\<forall>t\<in>set trades. near p0 t0 t \<and> labelled t \<and> Timestamp t < 2 ^ 63" "- (2 ^ 63) \<le> t0"
  shows "\<exists>data dc. compress srt ord trades new_delta_compressor = (Inr data, dc) \<and>
    decompress ff data = Some (map (survivor ff p0 t0) (srt trades))"
proof -
  let ?ts = "srt trades" and ?mp = "create_symbol_mapping ord (srt trades)"
  have set: "set ?ts = set trades" and len: "length ?ts = length trades"
    using mset_eq_setD [OF assms(1)] mset_eq_length [OF assms(1)] by simp_all
  have "\<forall>t\<in>set ?ts. near p0 t0 t" using assms(8) set by simp
  then obtain cd where c: "compress srt ord trades new_delta_compressor = (Inr (serialize_to_binary cd ?mp),
       \<lparr>dcBasePrice = Fin p0, dcBaseTime = t0, dcPriceScale = 1000000\<rparr>)"
    and cd: "cd = \<lparr>cdBasePrice = Fin p0, cdBaseTime = t0, cdPriceScale = 1000000, cdCount = int (length ?ts),
      cdPriceDeltas = map (\<lambda>t. word_of_int (price_delta p0 t)) ?ts,
      cdTimeDeltas = map (\<lambda>t. word_of_int (time_delta t0 t)) ?ts,
      cdVolumes = map (\<lambda>t. word_of_int (micro_quantity t)) ?ts,
      cdSymbols = compress_symbols ?mp ?ts, cdExchanges = compress_exchanges ?ts,
      cdMarketTypes = compress_market_types ?ts, cdSides = compress_sides ?ts\<rparr>"
    using compress_near [where srt = srt and trades = trades and ord = ord, OF assms(3) _ assms(6,7)] by blast
  let ?cd = "cd\<lparr>cdBasePrice := from_bits (to_bits (cdBasePrice cd))\<rparr>"
  let ?mq = "\<lparr>UniqueSymbols = UniqueSymbols ?mp, SymbolMap = index_symbols (UniqueSymbols ?mp)\<rparr>"
  have ne: "?ts \<noteq> []" using assms(3) len by auto
  then have "?ts ! 0 \<in> set trades" using set nth_mem [of 0 ?ts] by simp
  then have "t0 < 2 ^ 63" using assms(7,8) by auto
  then have "fits cd ?mp" unfolding cd using assms(4,8,9) set len by (intro fits_near assms(2)) simp_all
  from serialized_reads_back [OF this]
  have d: "deserialize_from_binary (serialize_to_binary cd ?mp) = Some (?cd, ?mq)" .
  have "decompress_trade ff ?cd ?mq i = survivor ff p0 t0 (?ts ! i)" if "i < length ?ts" for i
  proof -
    have "?ts ! i \<in> set trades" using that set nth_mem by blast
    then show ?thesis
      using assms(8,9) that set assms(5) by (intro decompress_survivor [where ord = ord and ts = ?ts] assms(2)) (auto simp: cd)
  qed
  then have "map (decompress_trade ff ?cd ?mq) [0..<length ?ts] = map (survivor ff p0 t0) ?ts"
    by (intro nth_equalityI) simp_all
  moreover have "serialize_to_binary cd ?mp \<noteq> []" by (simp add: serialize_to_binary_def write_word_def bytes_of_Nil)
  ultimately show ?thesis using c d by (simp add: decompress_def cd)
qed


definition coin_trade :: "int \<Rightarrow> string \<Rightarrow> string \<Rightarrow> trade_event" where
  "coin_trade ms price qty = zero_trade\<lparr>Exchange := ''gate'', MarketType := ''spot'', Symbol := ''TIAUSDT'',
     Price := price, Quantity := qty, Side := ''sell'', Timestamp := ms\<rparr>"

lemma parse_coin:
  "float_opt ''100'' = Some (Fin 100)" "float_opt ''100.01'' = Some (Fin (10001 / 100))" "float_opt ''2'' = Some (Fin 2)"
  "float_opt ''5000'' = Some (Fin 5000)"
  by (simp_all add: float_opt_def parse_float_def parse_unsigned_def parse_exponent_def scale10_def digits_val_def
      digit_val_def is_digit_def to_lower_def lower_char_def Let_def)

lemma coin_near:
  "near 100 1700000000000 (coin_trade 1700000000000 ''100'' ''2'')" "labelled (coin_trade ms price qty)"
  "near 100 1700000000000 (coin_trade 1700000005000 ''100.01'' ''5000'')"
  by (simp_all add: near_def labelled_def coin_trade_def parse_coin fin_val_def exchange_names_def market_names_def)


end
