(* ===== verification/RingBufferProps.thy ===== *)
theory RingBufferProps
  imports RingBuffer
begin

text \<open>
  What a query of the ring of recent trades sees after any number of stores: all of them until it is full,
  then a mixture of the newest and the older ones in the wrong order for one turn, and from then on the
  newest ones, one less than the capacity.
\<close>

primrec store_all :: "trade_event list \<Rightarrow> ring \<Rightarrow> ring run" where
  "store_all [] r = Returned r"
| "store_all (t # ts) r = and_then (ring_store t r) (\<lambda>(e, r'). store_all ts r')"

lemma and_then_assoc: "and_then (and_then x f) g = and_then x (\<lambda>y. and_then (f y) g)"
  by (cases x) simp_all

lemma store_all_snoc: "store_all (ts @ [t]) r = and_then (store_all ts r) (\<lambda>r'. and_then (ring_store t r') (\<lambda>(e, r''). Returned r''))"
  by (induction ts arbitrary: r) (simp_all add: and_then_assoc case_prod_unfold)

text \<open>The ring after \<open>n\<close> stores: each of the last \<open>c\<close> trades is in the slot of its number.\<close>

definition ring_holds :: "nat \<Rightarrow> trade_event list \<Rightarrow> ring \<Rightarrow> bool" where
  "ring_holds c ts r = (let n = length ts in
     rbCapacity r = c \<and> length (rbData r) = c \<and> \<not> rbClosed r \<and> \<not> rbLocked r \<and>
     rbWritePos r = n mod c \<and> rbReadPos r = (if n < 2 * c then 0 else Suc n mod c) \<and>
     rbFull r = (c \<le> n) \<and> rbSize r = min n (c - 1) \<and>
     (\<forall>k<n. n \<le> k + c \<longrightarrow> rbData r ! (k mod c) = ts ! k))"

lemma mod_slots_differ: "k < n \<Longrightarrow> n < k + c \<Longrightarrow> k mod c \<noteq> n mod (c::nat)"
proof
  assume a: "k < n" "n < k + c" "k mod c = n mod c"
  then have "c dvd n - k" by (metis mod_eq_dvd_iff_nat less_imp_le)
  moreover have "0 < n - k" "n - k < c" using a by simp_all
  ultimately show False using nat_dvd_not_less by blast
qed

lemma turn_over:
  assumes "0 < c" "n < 2 * c"
  shows "Suc n mod c = 0 \<longleftrightarrow> Suc n = c \<or> Suc n = 2 * (c::nat)"
proof
  assume "Suc n mod c = 0"
  then obtain q where q: "Suc n = c * q" by auto
  have "c * q \<le> c * 2" using q assms(2) by linarith
  with assms(1) have "q \<le> 2" by simp
  moreover have "q \<noteq> 0" using q by (intro notI) simp
  ultimately have "q = 1 \<or> q = 2" by linarith
  with q show "Suc n = c \<or> Suc n = 2 * c" by auto
next
  assume "Suc n = c \<or> Suc n = 2 * c"
  then show "Suc n mod c = 0" by (elim disjE; simp only:) simp_all
qed

lemma store_holds:
  assumes "0 < c" "ring_holds c ts r"
  shows "\<exists>r'. ring_store t r = Returned (None, r') \<and> ring_holds c (ts @ [t]) r'"
proof -
  let ?n = "length ts"
  note h = assms(2) [unfolded ring_holds_def Let_def]
  have w: "rbWritePos r < c" using h assms(1) by simp
  let ?d = "(rbData r)[?n mod c := t]"
  have d: "?d ! (k mod c) = (ts @ [t]) ! k" if "k < Suc ?n" "Suc ?n \<le> k + c" for k
  proof (cases "k = ?n")
    case False
    then have "?n mod c \<noteq> k mod c" using mod_slots_differ [of k ?n c] that by auto
    then show ?thesis using h that False by (simp add: nth_append)
  qed (use h w in simp)
  have m: "\<not> c \<le> ?n mod c" using mod_less_divisor [OF assms(1), of ?n] by linarith
  have next_pos: "(?n mod c + 1) mod c = Suc ?n mod c" using mod_Suc_eq [of ?n c] by simp
  consider "Suc ?n < c" | "Suc ?n = c" | "c \<le> ?n" "Suc ?n < 2 * c" | "Suc ?n = 2 * c" "c \<le> ?n" | "2 * c \<le> ?n" by linarith
  then show ?thesis
  proof cases
    case 1
    then have "Suc ?n mod c \<noteq> 0" by simp
    with 1 show ?thesis using h w d next_pos m by (simp add: ring_store_def with_lock_def store_body_def ring_holds_def Let_def)
  next
    case 2
    then show ?thesis using h w d next_pos m by (simp add: ring_store_def with_lock_def store_body_def ring_holds_def Let_def)
  next
    case 3
    then have "Suc ?n mod c \<noteq> 0" using turn_over [OF assms(1), of ?n] by simp
    with 3 show ?thesis using h w d next_pos m by (simp add: ring_store_def with_lock_def store_body_def ring_holds_def Let_def)
  next
    case 4
    then have z: "Suc ?n mod c = 0" by simp
    then have "Suc (Suc ?n) mod c = Suc 0 mod c" by (simp add: mod_Suc)
    with 4 z show ?thesis using h w d next_pos m by (simp add: ring_store_def with_lock_def store_body_def ring_holds_def Let_def)
  next
    case 5
    have "(Suc ?n mod c + 1) mod c = Suc (Suc ?n) mod c" using mod_Suc_eq [of "Suc ?n" c] by simp
    with 5 show ?thesis using h w d next_pos m assms(1) by (simp add: ring_store_def with_lock_def store_body_def ring_holds_def Let_def)
  qed
qed

lemma all_stored: "0 < c \<Longrightarrow> \<exists>r. store_all ts (new_ring c) = Returned r \<and> ring_holds c ts r"
proof (induction ts rule: rev_induct)
  case Nil
  then show ?case by (simp add: ring_holds_def new_ring_def)
next
  case (snoc t ts)
  then obtain r where "store_all ts (new_ring c) = Returned r" "ring_holds c ts r" by blast
  with store_holds [OF snoc.prems, of ts r t] show ?case by (auto simp: store_all_snoc)
qed

section \<open>What is visible\<close>

lemma ring_slots_map: "pos < rbCapacity r \<Longrightarrow> ring_slots n pos r = map (\<lambda>i. rbData r ! ((pos + i) mod rbCapacity r)) [0..<n]"
proof (induction n arbitrary: pos)
  case (Suc n)
  have "(pos + 1) mod rbCapacity r < rbCapacity r" using Suc.prems by simp
  from Suc.IH [OF this] have "ring_slots n ((pos + 1) mod rbCapacity r) r =
      map (\<lambda>i. rbData r ! ((pos + Suc i) mod rbCapacity r)) [0..<n]"
    by (simp add: mod_simps)
  with Suc.prems show ?case by (simp add: upt_conv_Cons map_Suc_upt [symmetric] comp_def del: upt_Suc)
qed simp

definition seen :: "nat \<Rightarrow> 'a list \<Rightarrow> 'a list" where
  "seen c ts =
     (let n = length ts in
      if n < c then ts
      else if n < 2 * c then take (c - 1) (drop c ts @ drop (n - c) (take c ts))
      else drop (n - (c - 1)) ts)"

lemma visible_seen:
  assumes "0 < c" "ring_holds c ts r"
  shows "ring_visible r = seen c ts"
proof -
  let ?n = "length ts"
  note h = assms(2) [unfolded ring_holds_def Let_def]
  have "rbReadPos r < rbCapacity r" using h assms(1) by simp
  then have v: "ring_visible r = map (\<lambda>i. rbData r ! ((rbReadPos r + i) mod c)) [0..<min ?n (c - 1)]"
    using h by (simp add: ring_visible_def ring_slots_map)
  have slot: "rbData r ! (k mod c) = ts ! k" if "k < ?n" "?n \<le> k + c" for k using h that by blast
  consider "?n < c" | "c \<le> ?n" "?n < 2 * c" | "2 * c \<le> ?n" by linarith
  then show ?thesis
  proof cases
    case 1
    then show ?thesis unfolding v seen_def using h slot by (intro nth_equalityI) (auto simp: Let_def)
  next
    case 2
    have "rbData r ! i = (if c + i < ?n then ts ! (c + i) else ts ! i)" if "i < c - 1" for i
      using slot [of "c + i"] slot [of i] that 2 by auto
    then show ?thesis unfolding v seen_def using h 2 assms(1)
      by (intro nth_equalityI) (auto simp: Let_def nth_append)
  next
    case 3
    have "rbData r ! ((Suc ?n mod c + i) mod c) = ts ! (?n - (c - 1) + i)" if "i < c - 1" for i
    proof -
      let ?k = "?n - (c - 1) + i"
      have "Suc ?n + i = ?k + c" using that 3 by simp
      then have "(Suc ?n mod c + i) mod c = ?k mod c" by (metis mod_add_left_eq mod_add_self2)
      then show ?thesis using slot [of ?k] that 3 by simp
    qed
    then show ?thesis unfolding v seen_def using h 3 assms(1)
      by (intro nth_equalityI) (auto simp: Let_def)
  qed
qed

text \<open>C32. After any number of stores into a new ring of \<open>c\<close> slots a query returns the trades of its range
  among all of them while there are fewer than \<open>c\<close>; from the \<open>c\<close>-th store to the one before the \<open>2 c\<close>-th it
  sees the newest trades before older ones and always misses the \<open>c\<close>-th; and from then on it sees the last
  \<open>c - 1\<close>.\<close>

theorem ring_query:
  assumes "0 < c"
  shows "\<exists>r. store_all ts (new_ring c) = Returned r \<and>
    ring_range startT endT r =
      Returned (Inr (filter (in_milli_range (unix_nano startT sdiv 1000000) (unix_nano endT sdiv 1000000)) (seen c ts)))"
proof -
  obtain r where r: "store_all ts (new_ring c) = Returned r" "ring_holds c ts r" using all_stored [OF assms] by blast
  then show ?thesis
    using visible_seen [OF assms r(2)] by (simp add: ring_range_def with_rlock_def ring_holds_def Let_def)
qed

text \<open>The fourth trade stored in a ring of three slots comes first, and the third is not seen.\<close>

theorem ring_query_witness:
  "\<exists>r. store_all (map (\<lambda>n. zero_trade\<lparr>Timestamp := n\<rparr>) [1, 2, 3, 4]) (new_ring 3) = Returned r \<and>
     ring_range 0 1000000000 r = Returned (Inr (map (\<lambda>n. zero_trade\<lparr>Timestamp := n\<rparr>) [4, 2]))"
proof -
  have r: "unix_nano 0 sdiv 1000000 = 0" "unix_nano 1000000000 sdiv 1000000 = 1000"
    by (simp_all add: unix_nano_def sdiv_nonneg)
  from ring_query [of 3 "map (\<lambda>n. zero_trade\<lparr>Timestamp := n\<rparr>) [1, 2, 3, 4]" 0 1000000000, unfolded r]
  show ?thesis by (simp add: seen_def in_milli_range_def numeral_3_eq_3)
qed

text \<open>\<open>Close\<close> waits for a lock it holds.\<close>

lemma close_blocks: "close_ring r = Blocked"
  by (simp add: close_ring_def clear_ring_def with_lock_def)

end
