(* ===== verification/MemoryBufferProps.thy ===== *)
theory MemoryBufferProps
  imports BufferManager DeltaCompressorProps RingBufferProps Transitions
begin

text \<open>
  The cold ring takes milliseconds for nanoseconds, so its blocks of thirty seconds last a year; a query of
  it returns the trades of a block all together or not at all; and the manager can never leave the extended
  buffer, whose closing waits for itself.
\<close>

section \<open>One block a year\<close>

text \<open>The timestamps of one block: thirty thousand million milliseconds.\<close>

definition in_year :: "int \<Rightarrow> trade_event \<Rightarrow> bool" where
  "in_year q t = (0 \<le> q \<and> q * block_duration \<le> Timestamp t \<and> Timestamp t < (q + 1) * block_duration)"

lemma block_duration_pos: "0 < block_duration"
  by (simp add: block_duration_def second_def)

lemma year_quotient: "in_year q t \<Longrightarrow> Timestamp t sdiv block_duration = q"
proof -
  assume y: "in_year q t"
  then have "0 \<le> q * block_duration" using block_duration_pos by (simp add: in_year_def)
  with y have "0 \<le> Timestamp t" by (simp add: in_year_def)
  moreover have "Timestamp t div block_duration = q"
    using y by (intro int_div_pos_eq [where r = "Timestamp t - block_duration * q"])
      (simp_all add: in_year_def algebra_simps)
  ultimately show ?thesis using block_duration_pos by (simp add: sdiv_nonneg)
qed

definition year_block :: "int \<Rightarrow> nat \<Rightarrow> nat" where
  "year_block q cap = nat (q mod int cap)"

lemma year_index:
  assumes "in_year q t" "0 < crCapacity cr"
  shows "get_block_index (Timestamp t) cr = int (year_block q (crCapacity cr))" "year_block q (crCapacity cr) < crCapacity cr"
proof -
  have "0 \<le> q" using assms(1) by (simp add: in_year_def)
  moreover have "0 \<le> q mod int (crCapacity cr)" "q mod int (crCapacity cr) < int (crCapacity cr)" using assms(2) by simp_all
  ultimately show "get_block_index (Timestamp t) cr = int (year_block q (crCapacity cr))" "year_block q (crCapacity cr) < crCapacity cr"
    using assms by (simp_all add: get_block_index_def year_quotient smod_nonneg year_block_def nat_less_iff)
qed

text \<open>Only the block of the year is in use.\<close>

definition one_block :: "int \<Rightarrow> nat \<Rightarrow> compressed_ring \<Rightarrow> bool" where
  "one_block q cap cr = (crCapacity cr = cap \<and> length (crBlocks cr) = cap \<and>
     (\<forall>i<cap. i \<noteq> year_block q cap \<longrightarrow> bkIsEmpty (crBlocks cr ! i)))"

lemma store_group_one_block:
  assumes "one_block q cap cr" "store_group env (int (year_block q cap), ts) cr = Returned (e, cr')"
  shows "one_block q cap cr'"
proof -
  let ?k = "year_block q cap"
  from assms obtain b where "cr' = cr\<lparr>crBlocks := (crBlocks cr)[?k := b], crTimeIndex := crTimeIndex cr', crCompressor := crCompressor cr'\<rparr>"
    by (auto simp: store_group_def Let_def elim!: and_then.elims split: if_splits)
  with assms(1) show ?thesis by (cases cr, cases cr') (auto simp: one_block_def nth_list_update)
qed

lemma store_groups_one_block:
  "one_block q cap cr \<Longrightarrow> \<forall>g\<in>set gs. fst g = int (year_block q cap) \<Longrightarrow> store_groups env gs cr = Returned (e, cr') \<Longrightarrow>
   one_block q cap cr'"
proof (induction gs arbitrary: cr)
  case (Cons g gs)
  obtain k ts where g: "g = (k, ts)" by fastforce
  from Cons.prems(3) obtain e1 cr1 where s: "store_group env g cr = Returned (e1, cr1)"
    and r: "(case e1 of Some m \<Rightarrow> Returned (Some (''failed to compress block: '' @ m), cr1) | None \<Rightarrow> store_groups env gs cr1) = Returned (e, cr')"
    by (cases "store_group env g cr") auto
  have "one_block q cap cr1" using store_group_one_block [OF Cons.prems(1)] s Cons.prems(2) by (simp add: g)
  with r Cons.IH [of cr1] Cons.prems(2) show ?case by (auto split: option.splits)
qed simp

text \<open>The operations on a cold ring, with the codec of the moment.\<close>

datatype cold_action = StoredCold trade_event | StoredAll "trade_event list" | ClosedCold

inductive cold_step :: "compressed_ring \<Rightarrow> cold_action \<Rightarrow> compressed_ring \<Rightarrow> bool" where
  cs_store: "cold_store env t cr = Returned (e, cr') \<Longrightarrow> cold_step cr (StoredCold t) cr'"
| cs_all: "compress_and_store env ts cr = Returned (e, cr') \<Longrightarrow> iter_order (cvGroups env) \<Longrightarrow> cold_step cr (StoredAll ts) cr'"
| cs_close: "cold_step cr ClosedCold (close_cold cr)"

fun action_trades :: "cold_action \<Rightarrow> trade_event list" where
  "action_trades (StoredCold t) = [t]"
| "action_trades (StoredAll ts) = ts"
| "action_trades ClosedCold = []"

lemma cold_step_one_block:
  assumes "cold_step cr a cr'" "one_block q cap cr" "0 < cap" "\<forall>t\<in>set (action_trades a). in_year q t"
  shows "one_block q cap cr'"
  using assms(1)
proof cases
  case (cs_store env t e)
  then show ?thesis
    using assms(2-4) store_group_one_block [OF assms(2)] year_index(1) [of q t cr]
    by (auto simp: cold_store_def one_block_def split: if_splits)
next
  case (cs_all env ts e)
  have cap: "crCapacity cr = cap" using assms(2) by (simp add: one_block_def)
  let ?gs = "cvGroups env (group_by (\<lambda>t. get_block_index (Timestamp t) cr) ts)"
  have all: "\<forall>g\<in>set ?gs. fst g = int (year_block q cap)"
  proof
    fix g
    assume "g \<in> set ?gs"
    have "set ?gs = set (group_by (\<lambda>t. get_block_index (Timestamp t) cr) ts)"
      using cs_all(3) unfolding iter_order_def by (metis set_mset_mset)
    then have "fst g \<in> (\<lambda>t. get_block_index (Timestamp t) cr) ` set ts"
      using \<open>g \<in> set ?gs\<close> keys_group_by [of "\<lambda>t. get_block_index (Timestamp t) cr" ts] by (auto simp: mkeys_def)
    then show "fst g = int (year_block q cap)" using year_index(1) [of q _ cr] assms(3,4) cs_all(1) cap by auto
  qed
  with cs_all(2) show ?thesis
    using store_groups_one_block [OF assms(2) all] assms(2) by (auto simp: compress_and_store_def split: if_splits)
next
  case cs_close
  then show ?thesis using assms(2) by (simp add: one_block_def close_cold_def empty_block_def)
qed

text \<open>However many trades of one year a cold ring is given, one by one or in batches, at most one of its
  blocks is in use: the blocks of thirty seconds are computed as if the milliseconds of a trade were
  nanoseconds.\<close>

theorem one_block_a_year:
  assumes "runs cold_step (new_compressed_ring cap) as cr" "0 < cap"
    and "\<forall>a\<in>set as. \<forall>t\<in>set (action_trades a). in_year q t"
  shows "cold_size cr \<le> 1"
proof -
  have "one_block q cap (new_compressed_ring cap)" by (simp add: one_block_def new_compressed_ring_def empty_block_def)
  then have b: "one_block q cap cr"
    using runs_invariant [OF assms(1), where I = "one_block q cap"] cold_step_one_block [OF _ _ assms(2)] assms(3) by blast
  have "filter (\<lambda>b. \<not> bkIsEmpty b) (crBlocks cr) = map ((!) (crBlocks cr)) (filter (\<lambda>i. \<not> bkIsEmpty (crBlocks cr ! i)) [0..<cap])"
    using b by (metis (mono_tags, lifting) filter_cong filter_map map_nth one_block_def comp_apply)
  moreover have "set (filter (\<lambda>i. \<not> bkIsEmpty (crBlocks cr ! i)) [0..<cap]) \<subseteq> {year_block q cap}"
    using b by (auto simp: one_block_def)
  then have "length (filter (\<lambda>i. \<not> bkIsEmpty (crBlocks cr ! i)) [0..<cap]) \<le> 1"
    using card_mono [of "{year_block q cap}" "set (filter (\<lambda>i. \<not> bkIsEmpty (crBlocks cr ! i)) [0..<cap])"]
    by (simp add: distinct_card [symmetric])
  ultimately show ?thesis by (simp add: cold_size_def)
qed

section \<open>A query of the cold ring\<close>

lemma group_by_one: "\<forall>x\<in>set xs. key x = k \<Longrightarrow> xs \<noteq> [] \<Longrightarrow> group_by key xs = [(k, xs)]"
proof -
  have "fold (\<lambda>x m. mput (key x) (mslice m (key x) @ [x]) m) xs [(k, ys)] = [(k, ys @ xs)]" if "\<forall>x\<in>set xs. key x = k" for xs ys
    using that by (induction xs arbitrary: ys) (simp_all add: mslice_def)
  then show "\<forall>x\<in>set xs. key x = k \<Longrightarrow> xs \<noteq> [] \<Longrightarrow> group_by key xs = [(k, xs)]"
    by (cases xs) (simp_all add: group_by_def mslice_def)
qed

lemma read_blocks_empty: "\<forall>b\<in>set bs. bkIsEmpty b \<Longrightarrow> read_blocks env lo hi bs = Returned []"
  by (induction bs) simp_all

lemma read_blocks_append:
  "read_blocks env lo hi (as @ bs) =
    and_then (read_blocks env lo hi as) (\<lambda>ts. and_then (read_blocks env lo hi bs) (\<lambda>us. Returned (ts @ us)))"
proof (induction as)
  case Nil
  then show ?case by (cases "read_blocks env lo hi bs") simp_all
next
  case (Cons a as)
  show ?case by (simp add: Cons and_then_assoc del: append_assoc) (simp add: append_assoc)
qed

lemma read_one_block:
  assumes "k < length bs" "\<forall>i<length bs. i \<noteq> k \<longrightarrow> bkIsEmpty (bs ! i)"
  shows "read_blocks env lo hi bs = read_blocks env lo hi [bs ! k]"
proof -
  have bs: "bs = take k bs @ bs ! k # drop (Suc k) bs" using assms(1) by (simp add: id_take_nth_drop)
  have "\<forall>b\<in>set (take k bs). bkIsEmpty b" "\<forall>b\<in>set (drop (Suc k) bs). bkIsEmpty b"
    using assms by (auto simp: in_set_conv_nth)
  then have e: "read_blocks env lo hi (take k bs) = Returned []" "read_blocks env lo hi (drop (Suc k) bs) = Returned []"
    by (simp_all add: read_blocks_empty)
  have "read_blocks env lo hi bs = read_blocks env lo hi (take k bs @ [bs ! k] @ drop (Suc k) bs)" using bs by simp
  also have "\<dots> = read_blocks env lo hi [bs ! k]"
    unfolding read_blocks_append e by (cases "read_blocks env lo hi [bs ! k]") simp_all
  finally show ?thesis .
qed

text \<open>What a batch of trades near the first one leaves in an empty block.\<close>

lemma store_in_empty_block:
  assumes "mset (cvSort env trades) = mset trades" "mset (cvSort env (cvSort env trades)) = mset trades"
    and "mset (cvOrder env (remdups (map Symbol (cvSort env (cvSort env trades))))) =
      mset (remdups (map Symbol (cvSort env (cvSort env trades))))"
    and "trades \<noteq> []" "length trades < 2 ^ 31" "card (Symbol ` set trades) \<le> 256"
    and "float_opt (Price (cvSort env (cvSort env trades) ! 0)) = Some (Fin p0)"
    and "Timestamp (cvSort env (cvSort env trades) ! 0) = t0"
    and "\<forall>t\<in>set trades. near p0 t0 t \<and> labelled t \<and> Timestamp t < 2 ^ 63" "- (2 ^ 63) \<le> t0"
    and "bkCompressedSize b = 0" "\<not> bkIsEmpty b"
  shows "\<exists>b' dc. store_in_block env trades (b, new_delta_compressor) = Returned (None, b', dc) \<and>
    bkStartTime b' = bkStartTime b \<and> bkEndTime b' = bkEndTime b \<and> \<not> bkIsEmpty b' \<and>
    decompress_block env b' = Returned (map (survivor (cvFormat env) p0 t0) (cvSort env (cvSort env trades)))"
proof -
  let ?ts = "cvSort env trades"
  have ts: "?ts \<noteq> []" "length ?ts = length trades" "set ?ts = set trades"
    using assms(4) mset_eq_length [OF assms(1)] mset_eq_setD [OF assms(1)] by auto
  have "mset (cvSort env ?ts) = mset ?ts" using assms(1,2) by simp
  from compressed_back [where srt = "cvSort env" and ord = "cvOrder env" and trades = ?ts and ff = "cvFormat env",
      OF this assms(3) ts(1) _ _ assms(7,8) _ assms(10)] assms(5,6,9) ts
  obtain data dc where c: "compress (cvSort env) (cvOrder env) ?ts new_delta_compressor = (Inr data, dc)"
      "decompress (cvFormat env) data = Some (map (survivor (cvFormat env) p0 t0) (cvSort env ?ts))"
    by auto
  have "data \<noteq> []"
  proof
    assume "data = []"
    with c(2) have "cvSort env ?ts = []" by (simp add: decompress_def)
    with assms(2,4) show False by simp
  qed
  have "\<exists>p. float_opt (Price (?ts ! 0)) = Some p"
    using assms(9) ts nth_mem [of 0 ?ts] unfolding near_def by (metis length_greater_0_conv)
  then obtain p where "float_opt (Price (?ts ! 0)) = Some p" by blast
  with c \<open>data \<noteq> []\<close> assms(4,11,12) show ?thesis
    by (simp add: store_in_block_def Let_def block_metadata_def decompress_block_def)
qed

lemma cold_batch:
  assumes "\<forall>ts. mset (cvSort env ts) = mset ts" "\<forall>ss. mset (cvOrder env ss) = mset ss" "iter_order (cvGroups env)"
    and "trades \<noteq> []" "length trades < 2 ^ 31" "card (Symbol ` set trades) \<le> 256" "0 < cap"
    and "float_opt (Price (cvSort env (cvSort env trades) ! 0)) = Some (Fin p0)"
    and "Timestamp (cvSort env (cvSort env trades) ! 0) = t0"
    and "\<forall>t\<in>set trades. near p0 t0 t \<and> labelled t \<and> in_year q t \<and> Timestamp t < 2 ^ 62 \<and> Timestamp t < t0 + 1000000"
  shows "\<exists>cr us. compress_and_store env trades (new_compressed_ring cap) = Returned (None, cr) \<and>
    cold_range env startT endT cr = Returned (Inr us) \<and>
    mset us = (if unix_nano startT sdiv 1000000 \<le> t0 \<and> t0 \<le> unix_nano endT sdiv 1000000
               then image_mset (survivor (cvFormat env) p0 t0) (mset trades) else {#})"
proof -
  let ?cr = "new_compressed_ring cap" and ?k = "year_block q cap" and ?sv = "survivor (cvFormat env) p0 t0"
  let ?ts = "cvSort env (cvSort env trades)" and ?lo = "unix_nano startT sdiv 1000000" and ?hi = "unix_nano endT sdiv 1000000"
  have cap: "crCapacity ?cr = cap" by (simp add: new_compressed_ring_def)
  have set: "set ?ts = set trades" and ne: "?ts \<noteq> []" using assms(1,4) by (metis set_mset_mset, metis mset_zero_iff)
  have first: "?ts ! 0 \<in> set trades" "trades ! 0 \<in> set trades" using set ne assms(4) nth_mem [of 0 ?ts] by auto
  have idx: "\<forall>t\<in>set trades. get_block_index (Timestamp t) ?cr = int ?k" "?k < cap"
    using year_index [of q _ ?cr] assms(7,10) first(1) unfolding cap by auto
  have groups: "cvGroups env (group_by (\<lambda>t. get_block_index (Timestamp t) ?cr) trades) = [(int ?k, trades)]"
    using assms(3) group_by_one [OF idx(1) assms(4)] unfolding iter_order_def
    by (metis mset_single_iff_right mset.simps(1,2) add_mset_eq_single)
  let ?b = "empty_block\<lparr>bkStartTime := q * block_duration, bkEndTime := q * block_duration + block_duration, bkIsEmpty := False\<rparr>"
  have t0: "in_year q (?ts ! 0)" "in_year q (trades ! 0)" "t0 < 2 ^ 62" using assms(9,10) first by auto
  then have q: "0 \<le> q * block_duration" "q * block_duration \<le> t0" "t0 < q * block_duration + block_duration"
    using assms(9) block_duration_pos by (auto simp: in_year_def distrib_right)
  then have wr: "wrap64 (q * block_duration) = q * block_duration"
      "wrap64 (q * block_duration + block_duration) = q * block_duration + block_duration"
    using t0(3) by (auto intro!: wrap64_id simp: block_duration_def second_def)
  have nr: "\<forall>t\<in>set trades. near p0 t0 t \<and> labelled t \<and> Timestamp t < 2 ^ 63" using assms(10) by auto
  obtain b' dc where b': "store_in_block env trades (?b, new_delta_compressor) = Returned (None, b', dc)"
      "bkStartTime b' = bkStartTime ?b" "bkEndTime b' = bkEndTime ?b" "\<not> bkIsEmpty b'"
      "decompress_block env b' = Returned (map ?sv ?ts)"
    using store_in_empty_block [OF _ _ _ assms(4-6,8,9) nr, of ?b] assms(1,2) q by (auto simp: empty_block_def)
  let ?cr' = "?cr\<lparr>crBlocks := (crBlocks ?cr)[?k := b'], crTimeIndex := mput (q * block_duration) (int ?k) [], crCompressor := dc\<rparr>"
  have "store_group env (int ?k, trades) ?cr = Returned (None, ?cr')"
    using idx(2) year_quotient [OF t0(2)] b'(1)
    by (simp add: store_group_def new_compressed_ring_def Let_def wr empty_block_def)
  then have st: "compress_and_store env trades ?cr = Returned (None, ?cr')"
    using assms(4,7) groups by (simp add: compress_and_store_def cap) (simp add: new_compressed_ring_def)
  have tm: "Timestamp (?sv t) = t0" if "t \<in> set ?ts" for t
    using assms(10) that set by (auto simp: survivor_def time_delta_def near_def div_pos_pos_trivial)
  have "\<forall>i<length (crBlocks ?cr'). i \<noteq> ?k \<longrightarrow> bkIsEmpty (crBlocks ?cr' ! i)"
    by (simp add: new_compressed_ring_def empty_block_def)
  from read_one_block [OF _ this, of env ?lo ?hi] idx(2)
  have rd: "read_blocks env ?lo ?hi (crBlocks ?cr') = read_blocks env ?lo ?hi [b']"
    by (simp add: new_compressed_ring_def)
  have flt: "filter (in_milli_range ?lo ?hi) (map ?sv ?ts) = (if ?lo \<le> t0 \<and> t0 \<le> ?hi then map ?sv ?ts else [])"
    using tm by (auto simp: in_milli_range_def filter_empty_conv intro!: filter_True)
  have "read_blocks env ?lo ?hi [b'] = Returned (if ?lo \<le> t0 \<and> t0 \<le> ?hi then map ?sv ?ts else [])"
    using q b'(2-5) flt by (auto simp: empty_block_def)
  then have "cold_range env startT endT ?cr' = Returned (Inr (cvSort env (if ?lo \<le> t0 \<and> t0 \<le> ?hi then map ?sv ?ts else [])))"
    unfolding cold_range_def rd by (simp add: new_compressed_ring_def)
  moreover have "mset (map ?sv ?ts) = image_mset ?sv (mset trades)" using assms(1) by simp
  ultimately show ?thesis using st assms(1) by auto
qed

text \<open>A batch of trades of one year that is stored in an empty cold ring, with prices near the first one
  and times within a million milliseconds of it, comes back as a whole or not at all: a query returns one
  trade for each if its range contains the time of the earliest trade, and nothing otherwise.\<close>

theorem cold_query_all_or_nothing:
  assumes "\<forall>ts. mset (cvSort env ts) = mset ts" "\<forall>ss. mset (cvOrder env ss) = mset ss" "iter_order (cvGroups env)"
    and "trades \<noteq> []" "length trades < 2 ^ 31" "card (Symbol ` set trades) \<le> 256" "0 < cap"
    and "float_opt (Price (cvSort env (cvSort env trades) ! 0)) = Some (Fin p0)"
    and "Timestamp (cvSort env (cvSort env trades) ! 0) = t0"
    and "\<forall>t\<in>set trades. near p0 t0 t \<and> labelled t \<and> in_year q t \<and> Timestamp t < 2 ^ 62 \<and> Timestamp t < t0 + 1000000"
  shows "\<exists>cr us. compress_and_store env trades (new_compressed_ring cap) = Returned (None, cr) \<and>
    cold_range env startT endT cr = Returned (Inr us) \<and>
    mset us = (if unix_nano startT sdiv 1000000 \<le> t0 \<and> t0 \<le> unix_nano endT sdiv 1000000
               then image_mset (survivor (cvFormat env) p0 t0) (mset trades) else {#})"
  using assms by (rule cold_batch)

section \<open>The manager\<close>

datatype manager_action =
    PutTrade string trade_event
  | GetRange string
  | Convert string
  | Enable bool
  | MaintainManager
  | MaintainBuffer
  | CloseManager

text \<open>The operations that return.  The keys \<open>ks\<close> are those of the map, in the order of the iteration.\<close>

inductive manager_step :: "buffer_manager \<Rightarrow> manager_action \<Rightarrow> buffer_manager \<Rightarrow> bool" where
  mg_put: "bm_store env now lat ex t bm = Returned (e, bm') \<Longrightarrow> manager_step bm (PutTrade ex t) bm'"
| mg_get: "bm_range env now now1 lat ex s u bm = Returned (res, bm') \<Longrightarrow> manager_step bm (GetRange ex) bm'"
| mg_convert: "bm_to_collection env clk sm trig bm = Returned (ce, bm') \<Longrightarrow> manager_step bm (Convert sm) bm'"
| mg_enable: "enable_extended ks now b bm = Returned bm' \<Longrightarrow>
    \<forall>xb. bmExtended bm = Some xb \<longrightarrow> set ks = fst ` set (xbHot xb) \<Longrightarrow> manager_step bm (Enable b) bm'"
| mg_maintain: "manager_step bm MaintainManager (bm_maintenance now bm)"
| mg_buffer: "bmExtended bm = Some xb \<Longrightarrow> perform_xmaintenance env now ks xb = Returned xb' \<Longrightarrow>
    manager_step bm MaintainBuffer (bm\<lparr>bmExtended := Some xb'\<rparr>)"
| mg_close: "bm_close ks bm = Returned bm' \<Longrightarrow>
    \<forall>xb. bmExtended bm = Some xb \<longrightarrow> set ks = fst ` set (xbHot xb) \<Longrightarrow> manager_step bm CloseManager bm'"

definition extended_in_use :: "buffer_manager \<Rightarrow> bool" where
  "extended_in_use bm = (bmEnabled bm \<and> bmFallback bm \<and> \<not> bmLegacyMode bm \<and>
     (\<exists>xb. bmExtended bm = Some xb \<and> xbHot xb \<noteq> []))"

definition stored_count :: "buffer_manager \<Rightarrow> int" where
  "stored_count bm = msTradesStored (bmStats bm)"

lemma mput_nonempty: "mput k v m \<noteq> []"
  by (induction m) auto

lemma and_then_Returned: "and_then x f = Returned y \<longleftrightarrow> (\<exists>z. x = Returned z \<and> f z = Returned y)"
  by (cases x) auto

lemma close_extended_blocks:
  assumes "xbHot xb \<noteq> []" "set ks = fst ` set (xbHot xb)"
  shows "close_extended ks xb = Blocked"
proof -
  obtain k ks' where ks: "ks = k # ks'" using assms by (cases ks) auto
  then have "k \<in> fst ` set (xbHot xb)" using assms(2) by auto
  then obtain r where "mget (xbHot xb) k = Some r" by (metis map_of_eq_None_iff not_None_eq)
  then show ?thesis by (simp add: close_extended_def ks close_blocks)
qed

lemma move_to_cold_hot: "move_to_cold env ex t xb = Returned (e, xb') \<Longrightarrow> xbHot xb' = xbHot xb"
  by (auto simp: move_to_cold_def and_then_Returned upd_xstats_def Let_def split: option.splits if_splits)

lemma xb_store_hot: "xb_store env now ex t xb = Returned (e, xb') \<Longrightarrow> xbHot xb \<noteq> [] \<Longrightarrow> xbHot xb' \<noteq> []"
  by (auto simp: xb_store_def and_then_Returned upd_xstats_def Let_def mput_nonempty dest!: move_to_cold_hot
      split: option.splits if_splits)

lemma maintain_hot: "maintain_markets env cutoff ks xb = Returned xb' \<Longrightarrow> xbHot xb \<noteq> [] \<Longrightarrow> xbHot xb' \<noteq> []"
proof (induction ks arbitrary: xb)
  case (Cons k ks)
  from Cons.prems(1) obtain xb1 where m: "maintain_market env cutoff k xb = Returned xb1"
      "maintain_markets env cutoff ks xb1 = Returned xb'" by (auto simp: and_then_Returned)
  then have "xbHot xb1 \<noteq> []"
    using Cons.prems(2) by (auto simp: maintain_market_def and_then_Returned Let_def mput_nonempty split: option.splits if_splits)
  with Cons.IH m(2) show ?case by blast
qed simp

lemma put_counts:
  assumes "bm_store env now lat ex t bm = Returned (e, bm')" "extended_in_use bm"
  shows "extended_in_use bm' \<and> stored_count bm' = stored_count bm + 1"
proof -
  obtain xb where xb: "bmExtended bm = Some xb" "xbHot xb \<noteq> []" "bmEnabled bm" "bmFallback bm" "\<not> bmLegacyMode bm"
    using assms(2) by (auto simp: extended_in_use_def)
  from assms(1) obtain e1 xb1 where s: "xb_store env now ex t xb = Returned (e1, xb1)"
    by (auto simp: bm_store_def xb and_then_Returned)
  have "xbHot xb1 \<noteq> []" using xb_store_hot [OF s xb(2)] .
  with assms(1) show ?thesis
    by (cases e1) (auto simp: bm_store_def xb s store_legacy_def Let_def upd_mstats_def extended_in_use_def stored_count_def)
qed

lemma range_keeps:
  assumes "bm_range env now now1 lat ex s u bm = Returned (res, bm')" "extended_in_use bm"
  shows "extended_in_use bm' \<and> stored_count bm' = stored_count bm"
proof -
  obtain xb where xb: "bmExtended bm = Some xb" "xbHot xb \<noteq> []" "bmEnabled bm" "bmFallback bm" "\<not> bmLegacyMode bm"
    using assms(2) by (auto simp: extended_in_use_def)
  from assms(1) obtain r where r: "xb_range env now ex s u xb = Returned r"
    by (auto simp: bm_range_def xb and_then_Returned)
  with assms(1) show ?thesis
    by (cases r) (auto simp: bm_range_def xb legacy_range_def Let_def upd_mstats_def extended_in_use_def stored_count_def
        split: option.splits)
qed

lemma manager_step_keeps:
  assumes "manager_step bm a bm'" "extended_in_use bm"
  shows "extended_in_use bm' \<and> a \<noteq> CloseManager \<and> a \<noteq> Enable False \<and>
    stored_count bm' = stored_count bm + (case a of PutTrade ex t \<Rightarrow> 1 | _ \<Rightarrow> 0)"
proof -
  obtain xb where xb: "bmExtended bm = Some xb" "xbHot xb \<noteq> []" "bmEnabled bm" "bmFallback bm" "\<not> bmLegacyMode bm"
    using assms(2) by (auto simp: extended_in_use_def)
  from assms(1) show ?thesis
  proof cases
    case mg_put
    with put_counts [OF mg_put(2) assms(2)] show ?thesis by simp
  next
    case mg_get
    with range_keeps [OF mg_get(2) assms(2)] show ?thesis by simp
  next
    case mg_convert
    then show ?thesis using assms(2) by (auto simp: bm_to_collection_def xb and_then_Returned)
  next
    case (mg_enable ks now b)
    then have "close_extended ks xb = Blocked" using close_extended_blocks xb by blast
    with mg_enable show ?thesis using assms(2) xb by (cases b) (auto simp: enable_extended_def Let_def)
  next
    case mg_maintain
    then show ?thesis
      by (auto simp: bm_maintenance_def xb Let_def upd_mstats_def extended_in_use_def stored_count_def)
  next
    case (mg_buffer xb0 env now ks xb')
    then obtain xb1 where "maintain_markets env (now - xbHotDuration xb) ks xb = Returned xb1" "xb' = update_xstats xb1"
      using xb by (auto simp: perform_xmaintenance_def and_then_Returned)
    moreover have "xbHot (update_xstats xb1) = xbHot xb1" by (simp add: update_xstats_def upd_xstats_def Let_def)
    ultimately have "xbHot xb' \<noteq> []" using maintain_hot xb(2) by metis
    with mg_buffer show ?thesis using xb by (simp add: extended_in_use_def stored_count_def)
  next
    case (mg_close ks)
    then have "close_extended ks xb = Blocked" using close_extended_blocks xb by blast
    with mg_close show ?thesis using xb by (simp add: bm_close_def Let_def)
  qed
qed


section \<open>Samples\<close>

definition sample_codec :: codec_env where
  "sample_codec = \<lparr>cvSort = id, cvOrder = id, cvFormat = fixed8, cvGroups = id\<rparr>"

definition coin_trades :: "trade_event list" where
  "coin_trades = [coin_trade 1700000000000 ''100'' ''2'', coin_trade 1700000005000 ''100.01'' ''5000'']"

lemma coin_batch:
  "\<forall>t\<in>set coin_trades. near 100 1700000000000 t \<and> labelled t \<and> in_year 56 t \<and> Timestamp t < 2 ^ 62 \<and> Timestamp t < 1700000000000 + 1000000"
  "coin_trades \<noteq> []" "length coin_trades < 2 ^ 31" "card (Symbol ` set coin_trades) \<le> 256"
  "float_opt (Price (cvSort sample_codec (cvSort sample_codec coin_trades) ! 0)) = Some (Fin 100)"
  "Timestamp (cvSort sample_codec (cvSort sample_codec coin_trades) ! 0) = 1700000000000"
  using coin_near
  by (simp_all add: coin_trades_def sample_codec_def parse_coin in_year_def block_duration_def second_def)
    (simp_all add: coin_trade_def parse_coin)

lemma sample_codec_orders:
  "\<forall>ts. mset (cvSort sample_codec ts) = mset ts" "\<forall>ss. mset (cvOrder sample_codec ss) = mset ss" "iter_order (cvGroups sample_codec)"
  by (simp_all add: sample_codec_def)

theorem cold_query_all_or_nothing_witness:
  "\<exists>cr. compress_and_store sample_codec coin_trades (new_compressed_ring 16) = Returned (None, cr) \<and>
     cold_range sample_codec 1700000001000000000 1700000010000000000 cr = Returned (Inr [])"
proof -
  have "unix_nano 1700000001000000000 sdiv 1000000 = 1700000001000" by (simp add: unix_nano_def sdiv_nonneg)
  with cold_query_all_or_nothing [OF sample_codec_orders coin_batch(2-4) _ coin_batch(5,6,1), of 16 1700000001000000000 1700000010000000000]
  show ?thesis by auto
qed

theorem one_block_a_year_witness:
  "\<exists>cr. runs cold_step (new_compressed_ring 16) [StoredAll coin_trades, ClosedCold] cr \<and> cold_size cr \<le> 1"
proof -
  obtain cr where c: "compress_and_store sample_codec coin_trades (new_compressed_ring 16) = Returned (None, cr)"
    using cold_batch [OF sample_codec_orders coin_batch(2-4) _ coin_batch(5,6,1), of 16 0 0] by auto
  then have r: "runs cold_step (new_compressed_ring 16) [StoredAll coin_trades, ClosedCold] (close_cold cr)"
    using cs_all [OF c sample_codec_orders(3)] by (auto intro: cs_close)
  have "\<forall>a\<in>set [StoredAll coin_trades, ClosedCold]. \<forall>t\<in>set (action_trades a). in_year 56 t" using coin_batch(1) by auto
  from one_block_a_year [OF r _ this] r show ?thesis by auto
qed


end
