(* ===== verification/SafeWorker.thy ===== *)
theory SafeWorker
  imports WorkerPool Transitions
begin

text \<open>
  The safe worker, \<open>internal/websocket/safe_worker.go\<close>: one goroutine that dials, pings, parses and
  delivers, and a goroutine for each connection that only receives.

  The event loop is a step relation: a step is what runs between two points where the other goroutines can
  act.  \<open>select\<close> takes any case that is ready, so every ready case is a step, also when the context is
  cancelled.  Log lines are left out; a worker without a logger panics in its first line.
\<close>

section \<open>State\<close>

record safe_stats =
  ssMessages :: int
  ssTrades :: int
  ssErrors :: int
  ssReconnects :: int
  ssLastMessage :: int
  ssUptime :: int

text \<open>Where \<open>Start\<close> is: not running, in the select, behind an attempt to connect, or leaving.\<close>

datatype event_pc = NotRunning | Selecting | Attempted | Cleaning

text \<open>Where a receiver is: at the check of the context, at the check of the connection, in the read, behind it
  with a message, leaving, or gone.\<close>

datatype 'm receiver = AtContext | AtLink | Reading | Holding 'm | Ending | Gone

record 'm safe_worker =
  swID :: nat
  swExchange :: string
  swMarket :: string
  swSymbols :: "string list"
  swCancelled :: bool
  swConn :: bool
  swConnected :: bool
  swMessages :: "'m list"
  swTrades :: "trade_event list"
  swTicking :: bool
  swTimer :: "int option"
  swStats :: safe_stats
  swConnector :: connector
  swHasOnTrade :: bool
  swHasOnError :: bool
  swHasOnConnected :: bool
  swPc :: event_pc
  swReceivers :: "'m receiver list"

definition message_channel_size :: nat where
  "message_channel_size = 2000"

definition new_safe_worker :: "nat \<Rightarrow> string \<Rightarrow> string \<Rightarrow> string list \<Rightarrow> connector \<Rightarrow> 'm safe_worker" where
  "new_safe_worker i ex mt syms c =
     \<lparr>swID = i, swExchange = ex, swMarket = mt, swSymbols = syms, swCancelled = False, swConn = False, swConnected = False,
      swMessages = [], swTrades = [], swTicking = True, swTimer = None,
      swStats = \<lparr>ssMessages = 0, ssTrades = 0, ssErrors = 0, ssReconnects = 0, ssLastMessage = 0, ssUptime = 0\<rparr>,
      swConnector = c, swHasOnTrade = False, swHasOnError = False, swHasOnConnected = False,
      swPc = NotRunning, swReceivers = []\<rparr>"

definition upd_safe_stats :: "(safe_stats \<Rightarrow> safe_stats) \<Rightarrow> 'm safe_worker \<Rightarrow> 'm safe_worker" where
  "upd_safe_stats f w = w\<lparr>swStats := f (swStats w)\<rparr>"

definition safe_connected :: "'m safe_worker \<Rightarrow> bool" where
  "safe_connected w = (swConnected w \<and> swConn w)"

definition safe_get_stats :: "'m safe_worker \<Rightarrow> safe_stats" where
  "safe_get_stats w = swStats w"

text \<open>The callbacks are functions of the pool; a worker knows whether they are set.\<close>

definition set_on_trade_event :: "'m safe_worker \<Rightarrow> 'm safe_worker" where
  "set_on_trade_event w = w\<lparr>swHasOnTrade := True\<rparr>"

definition set_on_error :: "'m safe_worker \<Rightarrow> 'm safe_worker" where
  "set_on_error w = w\<lparr>swHasOnError := True\<rparr>"

definition set_on_connected :: "'m safe_worker \<Rightarrow> 'm safe_worker" where
  "set_on_connected w = w\<lparr>swHasOnConnected := True\<rparr>"

section \<open>The event loop\<close>

text \<open>\<open>Start\<close> does nothing when the worker runs; otherwise it enters the loop with a timer that is due.\<close>

definition start_safe :: "'m safe_worker \<Rightarrow> 'm safe_worker" where
  "start_safe w = (if swPc w \<noteq> NotRunning then w else w\<lparr>swPc := Selecting, swTimer := Some 0\<rparr>)"

definition stop_safe :: "'m safe_worker \<Rightarrow> 'm safe_worker" where
  "stop_safe w = w\<lparr>swCancelled := True\<rparr>"

definition attempt_connection :: "dial_env \<Rightarrow> gotime \<Rightarrow> 'm safe_worker \<Rightarrow> 'm safe_worker \<times> callback list" where
  "attempt_connection env now w =
     (if safe_connected w then (w, [])
      else (case connect (dialToken env) (dialResult env) (dialWrites env) (dialTime env) (swSymbols w) (swConnector w) of
          (Some e, c) \<Rightarrow>
            (upd_safe_stats (\<lambda>st. st\<lparr>ssErrors := ssErrors st + 1\<rparr>) (w\<lparr>swConnector := c\<rparr>),
             if swHasOnError w then [OnErr (''worker '' @ show_nat (swID w) @ '' connection failed: '' @ error_text e)] else [])
        | (None, c) \<Rightarrow>
            (upd_safe_stats (\<lambda>st. st\<lparr>ssUptime := unix_nano now, ssReconnects := ssReconnects st + 1\<rparr>)
               (w\<lparr>swConnector := c, swConnected := True, swConn := is_connected c, swReceivers := swReceivers w @ [AtContext]\<rparr>),
             if swHasOnConnected w then [OnConnected (swID w)] else [])))"

text \<open>The timer is set again only when the worker is not connected behind the attempt.\<close>

definition backoff_delay :: "safe_stats \<Rightarrow> int" where
  "backoff_delay st =
     (let d = wrap64 ((ssReconnects st + 1) * second) in if d > 30 * second then 30 * second else d)"

definition rearm :: "'m safe_worker \<Rightarrow> 'm safe_worker" where
  "rearm w = (if safe_connected w then w else w\<lparr>swTimer := Some (backoff_delay (swStats w))\<rparr>)\<lparr>swPc := Selecting\<rparr>"

text \<open>\<open>fails\<close>: the write of the ping frame returns an error.\<close>

definition send_ping :: "bool \<Rightarrow> 'm safe_worker \<Rightarrow> 'm safe_worker" where
  "send_ping fails w = (if safe_connected w \<and> fails then w\<lparr>swConnected := False\<rparr> else w)"

definition process_raw :: "('m \<Rightarrow> parse_error + trade_event list) \<Rightarrow> 'm \<Rightarrow> 'm safe_worker \<Rightarrow> 'm safe_worker" where
  "process_raw parse m w =
     (case parse m of Inl _ \<Rightarrow> w | Inr ts \<Rightarrow> w\<lparr>swTrades := push_events ts (swTrades w)\<rparr>)"

definition deliver_trade :: "trade_event \<Rightarrow> 'm safe_worker \<Rightarrow> 'm safe_worker \<times> callback list" where
  "deliver_trade t w =
     (upd_safe_stats (\<lambda>st. st\<lparr>ssTrades := ssTrades st + 1\<rparr>) w, if swHasOnTrade w then [OnTrade t] else [])"

definition cleanup_safe :: "'m safe_worker \<Rightarrow> 'm safe_worker" where
  "cleanup_safe w = w\<lparr>swTicking := False, swConn := False, swConnected := False, swPc := NotRunning\<rparr>"

section \<open>The receiver\<close>

definition put_receiver :: "nat \<Rightarrow> 'm receiver \<Rightarrow> 'm safe_worker \<Rightarrow> 'm safe_worker" where
  "put_receiver i r w = w\<lparr>swReceivers := (swReceivers w)[i := r]\<rparr>"

definition check_context :: "nat \<Rightarrow> 'm safe_worker \<Rightarrow> 'm safe_worker" where
  "check_context i w = put_receiver i (if swCancelled w then Ending else AtLink) w"

text \<open>\<open>isConnected\<close> and \<open>getConnection\<close> test the same two fields.\<close>

definition check_link :: "nat \<Rightarrow> 'm safe_worker \<Rightarrow> 'm safe_worker" where
  "check_link i w = put_receiver i (if safe_connected w then Reading else Ending) w"

text \<open>The outcome of \<open>ReadMessage\<close>: \<^const>\<open>None\<close> is an error.\<close>

definition receive_one :: "nat \<Rightarrow> gotime \<Rightarrow> 'm option \<Rightarrow> 'm safe_worker \<Rightarrow> 'm safe_worker" where
  "receive_one i now r w =
     (case r of
        None \<Rightarrow> put_receiver i Ending (upd_safe_stats (\<lambda>st. st\<lparr>ssErrors := ssErrors st + 1\<rparr>) w)
      | Some m \<Rightarrow> put_receiver i (Holding m)
          (upd_safe_stats (\<lambda>st. st\<lparr>ssLastMessage := unix_nano now, ssMessages := ssMessages st + 1\<rparr>) w))"

definition queue_message :: "nat \<Rightarrow> 'm \<Rightarrow> 'm safe_worker \<Rightarrow> 'm safe_worker" where
  "queue_message i m w = put_receiver i AtContext
     (if length (swMessages w) < message_channel_size then w\<lparr>swMessages := swMessages w @ [m]\<rparr> else w)"

definition end_receiver :: "nat \<Rightarrow> 'm safe_worker \<Rightarrow> 'm safe_worker" where
  "end_receiver i w = put_receiver i Gone (w\<lparr>swConnected := False\<rparr>)"

section \<open>Steps\<close>

text \<open>A label names the message or the trade the step handles.  \<open>SQueue\<close> and \<open>SDrop\<close> are the two cases of the
  send to the message channel.\<close>

datatype 'm safe_action =
    SStart | SStop | SDial dial_env gotime | SAttempted | SPing bool | SProcess 'm | SDeliver trade_event
  | SDone | SCleanup | SContext nat | SLink nat | SRead nat gotime "'m option" | SQueue nat 'm | SDrop nat 'm | SEnd nat

definition receiver_at :: "'m safe_worker \<Rightarrow> nat \<Rightarrow> 'm receiver \<Rightarrow> bool" where
  "receiver_at w i r = (i < length (swReceivers w) \<and> swReceivers w ! i = r)"

inductive safe_step ::
  "('m \<Rightarrow> parse_error + trade_event list) \<Rightarrow> 'm safe_worker \<Rightarrow> 'm safe_action \<Rightarrow> 'm safe_worker \<times> callback list \<Rightarrow> bool"
  for parse where
  sf_start: "safe_step parse w SStart (start_safe w, [])"
| sf_stop: "safe_step parse w SStop (stop_safe w, [])"
| sf_dial: "swPc w = Selecting \<Longrightarrow> swTimer w = Some d \<Longrightarrow> attempt_connection env now w = (w', cbs) \<Longrightarrow>
    safe_step parse w (SDial env now) (w'\<lparr>swTimer := None, swPc := Attempted\<rparr>, cbs)"
| sf_attempted: "swPc w = Attempted \<Longrightarrow> safe_step parse w SAttempted (rearm w, [])"
| sf_ping: "swPc w = Selecting \<Longrightarrow> swTicking w \<Longrightarrow> safe_step parse w (SPing fails) (send_ping fails w, [])"
| sf_process: "swPc w = Selecting \<Longrightarrow> swMessages w = m # ms \<Longrightarrow>
    safe_step parse w (SProcess m) (process_raw parse m (w\<lparr>swMessages := ms\<rparr>), [])"
| sf_deliver: "swPc w = Selecting \<Longrightarrow> swTrades w = t # ts \<Longrightarrow>
    safe_step parse w (SDeliver t) (deliver_trade t (w\<lparr>swTrades := ts\<rparr>))"
| sf_done: "swPc w = Selecting \<Longrightarrow> swCancelled w \<Longrightarrow> safe_step parse w SDone (w\<lparr>swPc := Cleaning, swTimer := None\<rparr>, [])"
| sf_cleanup: "swPc w = Cleaning \<Longrightarrow> safe_step parse w SCleanup (cleanup_safe w, [])"
| sf_context: "receiver_at w i AtContext \<Longrightarrow> safe_step parse w (SContext i) (check_context i w, [])"
| sf_link: "receiver_at w i AtLink \<Longrightarrow> safe_step parse w (SLink i) (check_link i w, [])"
| sf_read: "receiver_at w i Reading \<Longrightarrow> safe_step parse w (SRead i now r) (receive_one i now r w, [])"
| sf_queue: "receiver_at w i (Holding m) \<Longrightarrow> length (swMessages w) < message_channel_size \<Longrightarrow>
    safe_step parse w (SQueue i m) (queue_message i m w, [])"
| sf_drop: "receiver_at w i (Holding m) \<Longrightarrow> length (swMessages w) \<ge> message_channel_size \<Longrightarrow>
    safe_step parse w (SDrop i m) (queue_message i m w, [])"
| sf_end: "receiver_at w i Ending \<Longrightarrow> safe_step parse w (SEnd i) (end_receiver i w, [])"

inductive_cases safe_stepE: "safe_step parse w a r"

text \<open>A run, with the callbacks left out.\<close>

definition safe_quiet :: "('m \<Rightarrow> parse_error + trade_event list) \<Rightarrow> 'm safe_worker \<Rightarrow> 'm safe_action \<Rightarrow> 'm safe_worker \<Rightarrow> bool" where
  "safe_quiet parse w a w' = (\<exists>cbs. safe_step parse w a (w', cbs))"

end
