(* ===== verification/SafeWorkerPool.thy ===== *)
theory SafeWorkerPool
  imports SafeWorker
begin

text \<open>
  The pool of safe workers, \<open>internal/websocket/safe_worker_pool.go\<close>: the distribution of the symbols, the
  start of a goroutine for each worker, the statistics and the wait for the workers in \<open>Stop\<close>.

  \<open>Start\<close> and \<open>Stop\<close> hold the mutex of the pool from their first line to their return, so at most one of
  them is under way (\<open>spPc\<close>), and \<open>GetStats\<close> and \<open>IsRunning\<close> return only when none is.
\<close>

section \<open>State\<close>

record safe_pool_stats =
  gsTotalWorkers :: int
  gsActiveWorkers :: int
  gsTotalSymbols :: int
  gsTotalMessages :: int
  gsTotalTrades :: int
  gsTotalErrors :: int
  gsLastActivity :: int

record safe_exchange_config =
  xcMaxSymbols :: int
  xcRetryInterval :: int
  xcConnectionTimeout :: int

text \<open>The goroutine of a worker: not begun, in \<open>Start\<close>, or ended.\<close>

datatype go_state = Spawned | Inside | Ended

text \<open>No call under way, \<open>Start\<close> about to launch the worker of a number, or \<open>Stop\<close> in its loop.\<close>

datatype pool_pc = Unlocked | Launching nat | Waiting

text \<open>\<open>spStarted\<close> holds every worker ever started, with its goroutine; \<open>spWorkers\<close> are the places of the
  current ones in it.\<close>

record 'm safe_pool =
  spExchange :: string
  spMarket :: string
  spSymbols :: "string list"
  spCancelled :: bool
  spWorkers :: "nat option list"
  spCount :: nat
  spMaxSymbols :: int
  spConfig :: safe_exchange_config
  spStats :: safe_pool_stats
  spHasOnTrade :: bool
  spHasOnError :: bool
  spRunning :: bool
  spPc :: pool_pc
  spStarted :: "('m safe_worker \<times> go_state) list"

definition wrap32 :: "int \<Rightarrow> int" where
  "wrap32 n = (n + 2 ^ 31) mod 2 ^ 32 - 2 ^ 31"

definition safe_worker_count :: "nat \<Rightarrow> int \<Rightarrow> nat" where
  "safe_worker_count n maxSymbols =
     (let k = n div nat maxSymbols; k1 = (if n mod nat maxSymbols \<noteq> 0 then k + 1 else k)
      in if k1 = 0 then 1 else k1)"

definition max_symbols_of :: "safe_exchange_config \<Rightarrow> int" where
  "max_symbols_of config = (if xcMaxSymbols config \<le> 0 then 100 else xcMaxSymbols config)"

definition new_safe_pool :: "string \<Rightarrow> string \<Rightarrow> string list \<Rightarrow> safe_exchange_config \<Rightarrow> 'm safe_pool" where
  "new_safe_pool ex mt symbols config =
     (let mx = max_symbols_of config; n = safe_worker_count (length symbols) mx
      in \<lparr>spExchange = ex, spMarket = mt, spSymbols = symbols, spCancelled = False, spWorkers = replicate n None,
          spCount = n, spMaxSymbols = mx, spConfig = config,
          spStats = \<lparr>gsTotalWorkers = wrap32 (int n), gsActiveWorkers = 0, gsTotalSymbols = wrap32 (int (length symbols)),
            gsTotalMessages = 0, gsTotalTrades = 0, gsTotalErrors = 0, gsLastActivity = 0\<rparr>,
          spHasOnTrade = False, spHasOnError = False, spRunning = False, spPc = Unlocked, spStarted = []\<rparr>)"

definition upd_pool_stats :: "(safe_pool_stats \<Rightarrow> safe_pool_stats) \<Rightarrow> 'm safe_pool \<Rightarrow> 'm safe_pool" where
  "upd_pool_stats f p = p\<lparr>spStats := f (spStats p)\<rparr>"

definition pool_set_on_trade_event :: "'m safe_pool \<Rightarrow> 'm safe_pool" where
  "pool_set_on_trade_event p = p\<lparr>spHasOnTrade := True\<rparr>"

definition pool_set_on_error :: "'m safe_pool \<Rightarrow> 'm safe_pool" where
  "pool_set_on_error p = p\<lparr>spHasOnError := True\<rparr>"

section \<open>Distribution of the symbols\<close>

text \<open>The loop from worker \<open>i\<close>, with \<open>k\<close> workers left and \<open>startIndex\<close> symbols given out.\<close>

fun distribute_loop :: "nat \<Rightarrow> string list \<Rightarrow> nat \<Rightarrow> nat \<Rightarrow> nat \<Rightarrow> string list list" where
  "distribute_loop cnt symbols 0 i startIndex = []"
| "distribute_loop cnt symbols (Suc k) i startIndex =
     (let n = length symbols; chunkSize = n div cnt + (if i < n mod cnt then 1 else 0) in
      if startIndex < n
      then (let endIndex = min (startIndex + chunkSize) n
            in take (endIndex - startIndex) (drop startIndex symbols) # distribute_loop cnt symbols k (i + 1) endIndex)
      else [] # distribute_loop cnt symbols k (i + 1) startIndex)"

definition distribute_symbols :: "'m safe_pool \<Rightarrow> string list list" where
  "distribute_symbols p =
     (if spSymbols p = [] then replicate (spCount p) []
      else distribute_loop (spCount p) (spSymbols p) (spCount p) 0 0)"

definition create_safe_connector :: "'m safe_pool \<Rightarrow> connector option" where
  "create_safe_connector p = new_connector (spExchange p) (spMarket p) (max_symbols_of (spConfig p))"

section \<open>Start\<close>

text \<open>\<open>Start\<close> takes the lock; the error of a pool that runs is returned at once.\<close>

definition begin_start :: "'m safe_pool \<Rightarrow> string option \<times> 'm safe_pool" where
  "begin_start p = (if spRunning p then (Some ''already running'', p) else (None, p\<lparr>spPc := Launching 0\<rparr>))"

text \<open>One turn of the loop, and its end.  The workers of an exchange without a connector are left out.\<close>

definition launch_worker :: "nat \<Rightarrow> 'm safe_pool \<Rightarrow> 'm safe_pool" where
  "launch_worker i p =
     (let symbols = distribute_symbols p ! i; p1 = p\<lparr>spPc := Launching (i + 1)\<rparr> in
      if length symbols = 0 then p1
      else (case create_safe_connector p of
          None \<Rightarrow> p1
        | Some c \<Rightarrow>
            (let w = set_on_connected (set_on_error (set_on_trade_event
                       (new_safe_worker i (spExchange p) (spMarket p) symbols c)))
             in p1\<lparr>spWorkers := (spWorkers p)[i := Some (length (spStarted p))], spStarted := spStarted p @ [(w, Spawned)]\<rparr>)))"

definition finish_start :: "'m safe_pool \<Rightarrow> 'm safe_pool" where
  "finish_start p = p\<lparr>spRunning := True, spPc := Unlocked\<rparr>"

section \<open>Stop\<close>

definition begin_stop :: "'m safe_pool \<Rightarrow> 'm safe_pool" where
  "begin_stop p = (if \<not> spRunning p then p else p\<lparr>spCancelled := True, spPc := Waiting\<rparr>)"

text \<open>One turn of the loop; \<open>break\<close> in the case of the timer leaves the \<open>select\<close>, not the loop, so the case has
  no effect.\<close>

definition stop_turn :: "'m safe_pool \<Rightarrow> bool \<times> 'm safe_pool" where
  "stop_turn p =
     (if gsActiveWorkers (spStats p) = 0 then (True, p\<lparr>spRunning := False, spPc := Unlocked\<rparr>) else (False, p))"

section \<open>Callbacks and statistics\<close>

definition pool_handle_trade :: "gotime \<Rightarrow> 'm safe_pool \<Rightarrow> 'm safe_pool" where
  "pool_handle_trade now =
     upd_pool_stats (\<lambda>st. st\<lparr>gsTotalTrades := gsTotalTrades st + 1, gsLastActivity := unix_nano now\<rparr>)"

definition pool_handle_error :: "'m safe_pool \<Rightarrow> 'm safe_pool" where
  "pool_handle_error = upd_pool_stats (\<lambda>st. st\<lparr>gsTotalErrors := gsTotalErrors st + 1\<rparr>)"

definition pool_handle_connected :: "gotime \<Rightarrow> 'm safe_pool \<Rightarrow> 'm safe_pool" where
  "pool_handle_connected now = upd_pool_stats (\<lambda>st. st\<lparr>gsLastActivity := unix_nano now\<rparr>)"

text \<open>What a callback of a worker does to the pool, and what the pool passes on.\<close>

fun safe_callback :: "gotime \<Rightarrow> callback \<Rightarrow> 'm safe_pool \<times> callback list \<Rightarrow> 'm safe_pool \<times> callback list" where
  "safe_callback now (OnTrade t) (p, out) = (pool_handle_trade now p, if spHasOnTrade p then out @ [OnTrade t] else out)"
| "safe_callback now (OnErr e) (p, out) = (pool_handle_error p, if spHasOnError p then out @ [OnErr e] else out)"
| "safe_callback now (OnConnected i) (p, out) = (pool_handle_connected now p, out)"
| "safe_callback now (OnDisconnected i) (p, out) = (p, out)"

definition current_workers :: "'m safe_pool \<Rightarrow> 'm safe_worker list" where
  "current_workers p = map (\<lambda>k. fst (spStarted p ! k)) (List.map_filter id (spWorkers p))"

definition safe_pool_get_stats :: "'m safe_pool \<Rightarrow> safe_pool_stats \<times> 'm safe_pool" where
  "safe_pool_get_stats p =
     (let ss = map safe_get_stats (current_workers p);
          p1 = upd_pool_stats (\<lambda>st. st\<lparr>gsTotalMessages := sum_list (map ssMessages ss),
                 gsTotalTrades := sum_list (map ssTrades ss), gsTotalErrors := sum_list (map ssErrors ss)\<rparr>) p
      in (spStats p1, p1))"

definition safe_pool_is_running :: "'m safe_pool \<Rightarrow> bool" where
  "safe_pool_is_running p = spRunning p"

definition get_worker_count :: "'m safe_pool \<Rightarrow> nat" where
  "get_worker_count p = spCount p"

section \<open>Steps\<close>

datatype 'm safe_pool_action =
    PStartCall | PLaunch | PStarted | PStopCall | PStopTurn | PStopped | PGo nat | PWork nat "'m safe_action" gotime
  | PGone nat | PStats safe_pool_stats | PIsRunning bool

text \<open>Only the goroutine of a worker starts it, and nothing stops it.\<close>

definition inner_action :: "'m safe_action \<Rightarrow> bool" where
  "inner_action a = (a \<noteq> SStart \<and> a \<noteq> SStop)"

definition put_started :: "nat \<Rightarrow> 'm safe_worker \<Rightarrow> go_state \<Rightarrow> 'm safe_pool \<Rightarrow> 'm safe_pool" where
  "put_started k w g p = p\<lparr>spStarted := (spStarted p)[k := (w, g)]\<rparr>"

inductive safe_pool_step ::
  "('m \<Rightarrow> parse_error + trade_event list) \<Rightarrow> 'm safe_pool \<Rightarrow> 'm safe_pool_action \<Rightarrow> 'm safe_pool \<times> callback list \<Rightarrow> bool"
  for parse where
  sp_start: "spPc p = Unlocked \<Longrightarrow> safe_pool_step parse p PStartCall (snd (begin_start p), [])"
| sp_launch: "spPc p = Launching i \<Longrightarrow> i < spCount p \<Longrightarrow> safe_pool_step parse p PLaunch (launch_worker i p, [])"
| sp_started: "spPc p = Launching i \<Longrightarrow> i \<ge> spCount p \<Longrightarrow> safe_pool_step parse p PStarted (finish_start p, [])"
| sp_stop: "spPc p = Unlocked \<Longrightarrow> safe_pool_step parse p PStopCall (begin_stop p, [])"
| sp_turn: "spPc p = Waiting \<Longrightarrow> stop_turn p = (False, p') \<Longrightarrow> safe_pool_step parse p PStopTurn (p', [])"
| sp_stopped: "spPc p = Waiting \<Longrightarrow> stop_turn p = (True, p') \<Longrightarrow> safe_pool_step parse p PStopped (p', [])"
| sp_go: "k < length (spStarted p) \<Longrightarrow> spStarted p ! k = (w, Spawned) \<Longrightarrow>
    safe_pool_step parse p (PGo k)
      (put_started k (start_safe w) Inside
        (upd_pool_stats (\<lambda>st. st\<lparr>gsActiveWorkers := gsActiveWorkers st + 1\<rparr>) p), [])"
| sp_work: "k < length (spStarted p) \<Longrightarrow> spStarted p ! k = (w, g) \<Longrightarrow> inner_action a \<Longrightarrow> safe_step parse w a (w', cbs) \<Longrightarrow>
    safe_pool_step parse p (PWork k a now) (fold (safe_callback now) cbs (put_started k w' g p, []))"
| sp_gone: "k < length (spStarted p) \<Longrightarrow> spStarted p ! k = (w, Inside) \<Longrightarrow> swPc w = NotRunning \<Longrightarrow>
    safe_pool_step parse p (PGone k)
      (put_started k w Ended (upd_pool_stats (\<lambda>st. st\<lparr>gsActiveWorkers := gsActiveWorkers st - 1\<rparr>) p), [])"
| sp_stats: "spPc p = Unlocked \<Longrightarrow> safe_pool_get_stats p = (st, p') \<Longrightarrow> safe_pool_step parse p (PStats st) (p', [])"
| sp_is_running: "spPc p = Unlocked \<Longrightarrow> safe_pool_step parse p (PIsRunning (safe_pool_is_running p)) (p, [])"

definition pool_quiet :: "('m \<Rightarrow> parse_error + trade_event list) \<Rightarrow> 'm safe_pool \<Rightarrow> 'm safe_pool_action \<Rightarrow> 'm safe_pool \<Rightarrow> bool" where
  "pool_quiet parse p a p' = (\<exists>cbs. safe_pool_step parse p a (p', cbs))"

end
