(* ===== verification/SafeTaskManager.thy ===== *)
theory SafeTaskManager
  imports SafeWorkerPool TaskManager StorageTypes
begin

text \<open>
  The task manager of the safe pools, \<open>internal/websocket/safe_task_manager.go\<close>.

  A pool that \<open>Start\<close> created stays in \<open>smHeap\<close>; the map of the pools holds its place there, so a pool that a
  later \<open>Start\<close> replaced in the map is still reached by its goroutines and by a \<open>Stop\<close> that has listed it.
  The order of a map is an argument; log lines and the texts of the health report are left out.
\<close>

section \<open>State\<close>

record safe_manager_stats =
  hsTotalPools :: int
  hsTotalWorkers :: int
  hsActiveWorkers :: int
  hsTotalSymbols :: int
  hsTotalMessages :: int
  hsTotalTrades :: int
  hsTotalErrors :: int
  hsLastActivity :: int
  hsUptime :: int

text \<open>\<open>Start\<close>: not under way, about to start the pools of the keys, or in \<open>Start\<close> of a pool.  \<open>Stop\<close>: not
  under way, about to stop pools, in \<open>Stop\<close> of a pool, or in its own loop.\<close>

datatype start_pc = NoStart | StartKeys "string list" | StartIn nat "string list"

datatype stop_pc = NoStop | StopPools "nat list" | StopIn nat "nat list" | StopLoop

record 'm safe_manager =
  smCancelled :: bool
  smPools :: "(string, nat) gomap"
  smHeap :: "'m safe_pool list"
  smConfig :: exchanges_config
  smStats :: safe_manager_stats
  smHasOnTrade :: bool
  smHasOnError :: bool
  smRunning :: bool
  smStart :: start_pc
  smStop :: stop_pc

definition new_safe_manager :: "exchanges_config \<Rightarrow> 'm safe_manager" where
  "new_safe_manager cfg =
     \<lparr>smCancelled = False, smPools = [], smHeap = [], smConfig = cfg,
      smStats = \<lparr>hsTotalPools = 0, hsTotalWorkers = 0, hsActiveWorkers = 0, hsTotalSymbols = 0, hsTotalMessages = 0,
        hsTotalTrades = 0, hsTotalErrors = 0, hsLastActivity = 0, hsUptime = 0\<rparr>,
      smHasOnTrade = False, smHasOnError = False, smRunning = False, smStart = NoStart, smStop = NoStop\<rparr>"

definition upd_manager_stats :: "(safe_manager_stats \<Rightarrow> safe_manager_stats) \<Rightarrow> 'm safe_manager \<Rightarrow> 'm safe_manager" where
  "upd_manager_stats f tm = tm\<lparr>smStats := f (smStats tm)\<rparr>"

definition manager_set_on_trade_event :: "'m safe_manager \<Rightarrow> 'm safe_manager" where
  "manager_set_on_trade_event tm = tm\<lparr>smHasOnTrade := True\<rparr>"

definition manager_set_on_error :: "'m safe_manager \<Rightarrow> 'm safe_manager" where
  "manager_set_on_error tm = tm\<lparr>smHasOnError := True\<rparr>"

section \<open>Creating the pools\<close>

definition default_symbols :: "string \<Rightarrow> string \<Rightarrow> string list" where
  "default_symbols ex mt =
     (if ex = ''binance'' \<or> ex = ''bybit'' then [''BTCUSDT'', ''ETHUSDT'', ''SOLUSDT'']
      else if ex = ''okx'' then
        (if mt = ''spot'' then [''BTC-USDT'', ''ETH-USDT'', ''SOL-USDT'']
         else [''BTC-USDT-SWAP'', ''ETH-USDT-SWAP'', ''SOL-USDT-SWAP''])
      else if ex = ''kucoin'' then
        (if mt = ''spot'' then [''BTC-USDT'', ''ETH-USDT'', ''SOL-USDT''] else [''XBTUSDTM'', ''ETHUSDTM'', ''SOLUSDTM''])
      else if ex = ''gate'' then [''BTC_USDT'', ''ETH_USDT'', ''SOL_USDT'']
      else [])"

text \<open>\<^const>\<open>None\<close> stands for symbol data that could not be loaded.\<close>

definition symbols_of_pool :: "symbols_config option \<Rightarrow> string \<Rightarrow> string \<Rightarrow> string list" where
  "symbols_of_pool data ex mt =
     (let symbols = (case data of Some sc \<Rightarrow> get_subscription_list ex mt sc | None \<Rightarrow> [])
      in if symbols = [] then default_symbols ex mt else symbols)"

definition safe_config_of :: "exchange_config \<Rightarrow> safe_exchange_config" where
  "safe_config_of c = \<lparr>xcMaxSymbols = ecMaxSymbols c, xcRetryInterval = ecRetryCooldown c,
     xcConnectionTimeout = ecConnectionTimeout c\<rparr>"

definition create_safe_pool :: "symbols_config option \<Rightarrow> string \<times> string \<Rightarrow> 'm safe_manager \<Rightarrow> 'm safe_manager" where
  "create_safe_pool data = (\<lambda>(ex, mt) tm.
     (case exchange_config_of (smConfig tm) ex of
        None \<Rightarrow> tm
      | Some c \<Rightarrow>
          (if \<not> ecEnabled c then tm
           else (let symbols = symbols_of_pool data ex mt in
             if symbols = [] then tm
             else (let pool = pool_set_on_error (pool_set_on_trade_event (new_safe_pool ex mt symbols (safe_config_of c)))
               in upd_manager_stats (\<lambda>st. st\<lparr>hsTotalPools := hsTotalPools st + 1,
                      hsTotalWorkers := hsTotalWorkers st + wrap32 (int (get_worker_count pool)),
                      hsTotalSymbols := hsTotalSymbols st + wrap32 (int (length symbols))\<rparr>)
                    (tm\<lparr>smPools := mput (ex @ ''_'' @ mt) (length (smHeap tm)) (smPools tm),
                        smHeap := smHeap tm @ [pool]\<rparr>))))))"

text \<open>\<open>exs\<close> is the order in which the loop visits the map of the exchanges.\<close>

definition create_safe_pools :: "symbols_config option \<Rightarrow> string list \<Rightarrow> 'm safe_manager \<Rightarrow> 'm safe_manager" where
  "create_safe_pools data exs tm = fold (create_safe_pool data) (List.product exs [''spot'', ''futures'']) tm"

section \<open>Start, stop and collection\<close>

text \<open>\<open>Start\<close> up to the loop that starts the pools; \<open>ks\<close> is the order of the map of the pools.\<close>

definition begin_safe_manager ::
  "gotime \<Rightarrow> symbols_config option \<Rightarrow> string list \<Rightarrow> ((string, nat) gomap \<Rightarrow> (string, nat) gomap) \<Rightarrow> 'm safe_manager \<Rightarrow>
     string option \<times> 'm safe_manager" where
  "begin_safe_manager now data exs ord tm =
     (if smRunning tm then (Some ''already running'', tm)
      else (let tm1 = create_safe_pools data exs
                   (upd_manager_stats (\<lambda>st. st\<lparr>hsUptime := unix_nano now\<rparr>) (tm\<lparr>smRunning := True\<rparr>))
            in (None, tm1\<lparr>smStart := StartKeys (mkeys (ord (smPools tm1)))\<rparr>)))"

definition safe_manager_is_running :: "'m safe_manager \<Rightarrow> bool" where
  "safe_manager_is_running tm = smRunning tm"

definition current_pools :: "'m safe_manager \<Rightarrow> 'm safe_pool list" where
  "current_pools tm = map (\<lambda>(k, i). smHeap tm ! i) (smPools tm)"

text \<open>\<open>StartDataCollection\<close> counts the pools that run; it stores nothing and tells no pool.\<close>

definition safe_start_data_collection :: "string \<Rightarrow> gotime \<Rightarrow> 'm safe_manager \<Rightarrow> string option" where
  "safe_start_data_collection symbol trigger tm =
     (if \<not> safe_manager_is_running tm then Some ''SafeTaskManager is not running''
      else if length (filter safe_pool_is_running (current_pools tm)) > 0 then None
      else Some ''no active pool'')"

definition begin_stop_manager :: "((string, nat) gomap \<Rightarrow> (string, nat) gomap) \<Rightarrow> 'm safe_manager \<Rightarrow> 'm safe_manager" where
  "begin_stop_manager ord tm =
     (if \<not> smRunning tm then tm
      else tm\<lparr>smRunning := False, smCancelled := True, smStop := StopPools (map snd (ord (smPools tm)))\<rparr>)"

text \<open>A turn of the last loop of \<open>Stop\<close>; as in the pool the timer only leaves the \<open>select\<close>.\<close>

definition stop_manager_turn :: "'m safe_manager \<Rightarrow> bool \<times> 'm safe_manager" where
  "stop_manager_turn tm =
     (if hsActiveWorkers (smStats tm) = 0 then (True, tm\<lparr>smStop := NoStop\<rparr>) else (False, tm))"

section \<open>Callbacks and statistics\<close>

definition manager_handle_trade :: "gotime \<Rightarrow> 'm safe_manager \<Rightarrow> 'm safe_manager" where
  "manager_handle_trade now =
     upd_manager_stats (\<lambda>st. st\<lparr>hsTotalTrades := hsTotalTrades st + 1, hsLastActivity := unix_nano now\<rparr>)"

definition manager_handle_error :: "'m safe_manager \<Rightarrow> 'm safe_manager" where
  "manager_handle_error = upd_manager_stats (\<lambda>st. st\<lparr>hsTotalErrors := hsTotalErrors st + 1\<rparr>)"

fun manager_safe_callback :: "gotime \<Rightarrow> callback \<Rightarrow> 'm safe_manager \<times> callback list \<Rightarrow> 'm safe_manager \<times> callback list" where
  "manager_safe_callback now (OnTrade t) (tm, out) =
     (manager_handle_trade now tm, if smHasOnTrade tm then out @ [OnTrade t] else out)"
| "manager_safe_callback now (OnErr e) (tm, out) =
     (manager_handle_error tm, if smHasOnError tm then out @ [OnErr e] else out)"
| "manager_safe_callback now _ (tm, out) = (tm, out)"

text \<open>\<open>updatePoolStats\<close> asks every pool that runs for its statistics, which stores them in the pool.\<close>

fun update_pools :: "nat list \<Rightarrow> 'm safe_pool list \<Rightarrow> safe_pool_stats list \<times> 'm safe_pool list" where
  "update_pools [] heap = ([], heap)"
| "update_pools (i # is) heap =
     (if safe_pool_is_running (heap ! i)
      then (let (st, p) = safe_pool_get_stats (heap ! i); (sts, heap') = update_pools is (heap[i := p]) in (st # sts, heap'))
      else update_pools is heap)"

definition update_pool_stats :: "'m safe_manager \<Rightarrow> 'm safe_manager" where
  "update_pool_stats tm =
     (let (sts, heap) = update_pools (map snd (smPools tm)) (smHeap tm)
      in upd_manager_stats (\<lambda>st. st\<lparr>hsTotalMessages := sum_list (map gsTotalMessages sts),
           hsTotalTrades := sum_list (map gsTotalTrades sts), hsTotalErrors := sum_list (map gsTotalErrors sts),
           hsActiveWorkers := sum_list (map gsActiveWorkers sts)\<rparr>) (tm\<lparr>smHeap := heap\<rparr>))"

definition safe_manager_get_stats :: "'m safe_manager \<Rightarrow> safe_manager_stats \<times> 'm safe_manager" where
  "safe_manager_get_stats tm = (let tm1 = update_pool_stats tm in (smStats tm1, tm1))"

definition get_pool_count :: "'m safe_manager \<Rightarrow> nat" where
  "get_pool_count tm = length (smPools tm)"

definition get_pool_info :: "string \<Rightarrow> 'm safe_manager \<Rightarrow> (string + safe_pool_stats) \<times> 'm safe_manager" where
  "get_pool_info k tm =
     (case mget (smPools tm) k of
        None \<Rightarrow> (Inl (''Pool '' @ k @ '' not found''), tm)
      | Some i \<Rightarrow> (case safe_pool_get_stats (smHeap tm ! i) of
          (st, p) \<Rightarrow> (Inr st, tm\<lparr>smHeap := (smHeap tm)[i := p]\<rparr>)))"

definition list_pools :: "((string, nat) gomap \<Rightarrow> (string, nat) gomap) \<Rightarrow> 'm safe_manager \<Rightarrow> string list" where
  "list_pools ord tm = mkeys (ord (smPools tm))"

section \<open>Health\<close>

text \<open>\<open>now\<close> is the clock that tells how long the last activity is ago.\<close>

definition calculate_health_score :: "bool \<Rightarrow> gotime \<Rightarrow> safe_manager_stats \<Rightarrow> gofloat" where
  "calculate_health_score running now st =
     (if \<not> running then Fin 0
      else
        (let s0 = Fin 1;
             s1 = (if hsTotalWorkers st > 0
                   then f_mul s0 (f_div (Fin (of_int (hsActiveWorkers st))) (Fin (of_int (hsTotalWorkers st)))) else s0);
             s2 = (if hsTotalMessages st > 0
                   then f_mul s1 (f_sub (Fin 1) (f_mul (f_div (Fin (of_int (hsTotalErrors st))) (Fin (of_int (hsTotalMessages st)))) (Fin (1 / 2))))
                   else s1);
             s3 = (if hsLastActivity st > 0 \<and> time_sub now (hsLastActivity st) > 10 * minute then f_mul s2 (Fin (1 / 2)) else s2);
             s4 = (if f_less s3 (Fin 0) then Fin 0 else s3)
         in if f_less (Fin 1) s4 then Fin 1 else s4))"

record safe_health =
  shRunning :: bool
  shUptime :: int
  shStats :: safe_manager_stats
  shIdle :: int
  shScore :: gofloat
  shPools :: "(string, bool \<times> safe_pool_stats) gomap"

fun describe_pools :: "(string \<times> nat) list \<Rightarrow> 'm safe_pool list \<Rightarrow> (string, bool \<times> safe_pool_stats) gomap \<times> 'm safe_pool list" where
  "describe_pools [] heap = ([], heap)"
| "describe_pools ((k, i) # ps) heap =
     (let (st, p) = safe_pool_get_stats (heap ! i); (ds, heap') = describe_pools ps (heap[i := p])
      in ((k, safe_pool_is_running p, st) # ds, heap'))"

definition get_safe_health :: "gotime \<Rightarrow> 'm safe_manager \<Rightarrow> safe_health \<times> 'm safe_manager" where
  "get_safe_health now tm =
     (let (st, tm1) = safe_manager_get_stats tm; (ds, heap) = describe_pools (smPools tm1) (smHeap tm1)
      in (\<lparr>shRunning = safe_manager_is_running tm1, shUptime = time_sub now (hsUptime st), shStats = st,
           shIdle = time_sub now (hsLastActivity st),
           shScore = calculate_health_score (safe_manager_is_running tm1) now st, shPools = ds\<rparr>,
          tm1\<lparr>smHeap := heap\<rparr>))"


section \<open>Steps\<close>

text \<open>The loops over the pools in \<open>Start\<close> and \<open>Stop\<close>: where the manager goes when an action of the pool at place
  \<open>i\<close> has left it in state \<open>p\<close>; \<^const>\<open>None\<close> when the manager does not make that call now.\<close>

fun manager_control :: "'m safe_pool_action \<Rightarrow> nat \<Rightarrow> 'm safe_pool \<Rightarrow> 'm safe_manager \<Rightarrow> 'm safe_manager option" where
  "manager_control PStartCall i p tm =
     (case smStart tm of
        StartKeys (k # ks) \<Rightarrow>
          if mget (smPools tm) k = Some i
          then Some (tm\<lparr>smStart := if spPc p = Unlocked then StartKeys ks else StartIn i ks\<rparr>) else None
      | _ \<Rightarrow> None)"
| "manager_control PStarted i p tm =
     (case smStart tm of StartIn j ks \<Rightarrow> if j = i then Some (tm\<lparr>smStart := StartKeys ks\<rparr>) else None | _ \<Rightarrow> None)"
| "manager_control PStopCall i p tm =
     (case smStop tm of
        StopPools (j # js) \<Rightarrow>
          if j = i then Some (tm\<lparr>smStop := if spPc p = Unlocked then StopPools js else StopIn i js\<rparr>) else None
      | _ \<Rightarrow> None)"
| "manager_control PStopped i p tm =
     (case smStop tm of StopIn j js \<Rightarrow> if j = i then Some (tm\<lparr>smStop := StopPools js\<rparr>) else None | _ \<Rightarrow> None)"
| "manager_control _ i p tm = Some tm"

text \<open>\<open>Start\<close> and \<open>Stop\<close> are each called when the last call of the same kind has returned.\<close>

datatype 'm safe_manager_action =
    MStart gotime "symbols_config option" "string list" "(string, nat) gomap \<Rightarrow> (string, nat) gomap"
  | MStarted | MPool nat "'m safe_pool_action" gotime
  | MStop "(string, nat) gomap \<Rightarrow> (string, nat) gomap" | MStopWait | MStopTurn | MStopped
  | MStats | MCollect string gotime "string option"

definition pools_unlocked :: "'m safe_manager \<Rightarrow> bool" where
  "pools_unlocked tm = list_all (\<lambda>p. spPc p = Unlocked) (current_pools tm)"

inductive safe_manager_step ::
  "('m \<Rightarrow> parse_error + trade_event list) \<Rightarrow> 'm safe_manager \<Rightarrow> 'm safe_manager_action \<Rightarrow> 'm safe_manager \<times> callback list \<Rightarrow> bool"
  for parse where
  sm_start: "smStart tm = NoStart \<Longrightarrow> safe_manager_step parse tm (MStart now data exs ord) (snd (begin_safe_manager now data exs ord tm), [])"
| sm_started: "smStart tm = StartKeys [] \<Longrightarrow> safe_manager_step parse tm MStarted (tm\<lparr>smStart := NoStart\<rparr>, [])"
| sm_pool: "i < length (smHeap tm) \<Longrightarrow> safe_pool_step parse (smHeap tm ! i) a (p, cbs) \<Longrightarrow> manager_control a i p tm = Some tm1 \<Longrightarrow>
    safe_manager_step parse tm (MPool i a now)
      (fold (manager_safe_callback now) cbs (tm1\<lparr>smHeap := (smHeap tm)[i := p]\<rparr>, []))"
| sm_stop: "smStop tm = NoStop \<Longrightarrow> safe_manager_step parse tm (MStop ord) (begin_stop_manager ord tm, [])"
| sm_wait: "smStop tm = StopPools [] \<Longrightarrow> safe_manager_step parse tm MStopWait (tm\<lparr>smStop := StopLoop\<rparr>, [])"
| sm_turn: "smStop tm = StopLoop \<Longrightarrow> stop_manager_turn tm = (False, tm') \<Longrightarrow> safe_manager_step parse tm MStopTurn (tm', [])"
| sm_stopped: "smStop tm = StopLoop \<Longrightarrow> stop_manager_turn tm = (True, tm') \<Longrightarrow> safe_manager_step parse tm MStopped (tm', [])"
| sm_stats: "pools_unlocked tm \<Longrightarrow> safe_manager_step parse tm MStats (update_pool_stats tm, [])"
| sm_collect: "pools_unlocked tm \<Longrightarrow>
    safe_manager_step parse tm (MCollect symbol trigger (safe_start_data_collection symbol trigger tm)) (tm, [])"

definition manager_quiet ::
  "('m \<Rightarrow> parse_error + trade_event list) \<Rightarrow> 'm safe_manager \<Rightarrow> 'm safe_manager_action \<Rightarrow> 'm safe_manager \<Rightarrow> bool" where
  "manager_quiet parse tm a tm' = (\<exists>cbs. safe_manager_step parse tm a (tm', cbs))"

end
