(* ===== verification/SafeWorkerProps.thy ===== *)
theory SafeWorkerProps
  imports SafeWorker CircularTradeBuffer "HOL-Library.Sublist" "HOL-Library.Multiset"
begin

text \<open>
  What becomes of the messages and trades of a safe worker, and of its connection.
\<close>

section \<open>The labels of a run\<close>

fun queued_of :: "'m safe_action \<Rightarrow> 'm option" where
  "queued_of (SQueue i m) = Some m" | "queued_of _ = None"

fun dropped_of :: "'m safe_action \<Rightarrow> 'm option" where
  "dropped_of (SDrop i m) = Some m" | "dropped_of _ = None"

fun received_of :: "'m safe_action \<Rightarrow> 'm option" where
  "received_of (SRead i now r) = r" | "received_of _ = None"

fun processed_of :: "'m safe_action \<Rightarrow> 'm option" where
  "processed_of (SProcess m) = Some m" | "processed_of _ = None"

fun delivered_of :: "'m safe_action \<Rightarrow> trade_event option" where
  "delivered_of (SDeliver t) = Some t" | "delivered_of _ = None"

definition history :: "('a \<Rightarrow> 'b option) \<Rightarrow> 'a list \<Rightarrow> 'b list" where
  "history f as = List.map_filter f as"

lemma history_simps [simp]:
  "history f [] = []" "history f (a # as) = (case f a of None \<Rightarrow> [] | Some b \<Rightarrow> [b]) @ history f as"
  "history f (as @ bs) = history f as @ history f bs"
  by (simp_all add: history_def map_filter_simps List.map_filter_def split: option.split)

definition trades_of :: "('m \<Rightarrow> parse_error + trade_event list) \<Rightarrow> 'm \<Rightarrow> trade_event list" where
  "trades_of parse m = (case parse m of Inl _ \<Rightarrow> [] | Inr ts \<Rightarrow> ts)"

fun holds :: "'m receiver \<Rightarrow> 'm list" where
  "holds (Holding m) = [m]" | "holds _ = []"

definition held :: "'m safe_worker \<Rightarrow> 'm multiset" where
  "held w = mset (concat (map holds (swReceivers w)))"

lemma mset_concat_update:
  assumes "i < length rs"
  shows "mset (concat (map f (rs[i := r]))) + mset (f (rs ! i)) = mset (concat (map f rs)) + mset (f r)"
proof -
  have "mset (concat (map f rs)) = mset (concat (map f (take i rs @ rs ! i # drop (Suc i) rs)))"
    using id_take_nth_drop [OF assms] by simp
  then show ?thesis by (simp add: upd_conv_take_nth_drop [OF assms])
qed

lemma held_update:
  "receiver_at w i r0 \<Longrightarrow> swReceivers w' = (swReceivers w)[i := r] \<Longrightarrow>
     held w' + mset (holds r0) = held w + mset (holds r)"
  using mset_concat_update [of i "swReceivers w" holds r] by (auto simp: held_def receiver_at_def)

section \<open>Accounting\<close>

text \<open>What a worker holds agrees with what happened to it.\<close>

definition accounted :: "('m \<Rightarrow> parse_error + trade_event list) \<Rightarrow> 'm safe_action list \<Rightarrow> 'm safe_worker \<Rightarrow> bool" where
  "accounted parse as w =
     (history processed_of as @ swMessages w = history queued_of as \<and>
      mset (history received_of as) = mset (history queued_of as) + mset (history dropped_of as) + held w \<and>
      subseq (history delivered_of as @ swTrades w) (concat (map (trades_of parse) (history processed_of as))) \<and>
      (length (concat (map (trades_of parse) (history processed_of as))) \<le> channel_size \<longrightarrow>
        history delivered_of as @ swTrades w = concat (map (trades_of parse) (history processed_of as))) \<and>
      ssTrades (swStats w) = int (length (history delivered_of as)) \<and>
      ssMessages (swStats w) = int (length (history received_of as)))"

lemma push_events_subseq: "\<exists>us. push_events ts chan = chan @ us \<and> subseq us ts"
proof (induction ts arbitrary: chan)
  case (Cons t ts)
  from Cons.IH [of "if length chan < channel_size then chan @ [t] else chan"] obtain us
    where us: "push_events (t # ts) chan = (if length chan < channel_size then chan @ [t] else chan) @ us" "subseq us ts"
    by auto
  then show ?case by (cases "length chan < channel_size") auto
qed simp

lemma push_events_all: "length chan + length ts \<le> channel_size \<Longrightarrow> push_events ts chan = chan @ ts"
  by (induction ts arbitrary: chan) auto

lemma process_raw_fields:
  "swTrades (process_raw parse m w) = push_events (trades_of parse m) (swTrades w)"
  "swMessages (process_raw parse m w) = swMessages w" "swReceivers (process_raw parse m w) = swReceivers w"
  "swStats (process_raw parse m w) = swStats w"
  by (simp_all add: process_raw_def trades_of_def split: sum.split)

lemma attempt_fields:
  assumes "attempt_connection env now w = (w', cbs)"
  shows "swTrades w' = swTrades w" "swMessages w' = swMessages w" "held w' = held w"
    "ssTrades (swStats w') = ssTrades (swStats w)" "ssMessages (swStats w') = ssMessages (swStats w)"
  using assms by (auto simp: attempt_connection_def upd_safe_stats_def held_def split: if_splits prod.splits option.splits)

lemma safe_accounted_step:
  assumes step: "safe_step parse w a (w', cbs)" and acc: "accounted parse as w"
  shows "accounted parse (as @ [a]) w'"
  using step
proof (cases rule: safe_step.cases)
  case (sf_process m ms)
  let ?p = "concat (map (trades_of parse) (history processed_of as))"
  obtain us where us: "push_events (trades_of parse m) (swTrades w) = swTrades w @ us" "subseq us (trades_of parse m)"
    using push_events_subseq by blast
  have "length ?p + length (trades_of parse m) \<le> channel_size \<Longrightarrow>
      push_events (trades_of parse m) (swTrades w) = swTrades w @ trades_of parse m"
    using acc by (intro push_events_all) (auto simp: accounted_def dest!: arg_cong [where f = length])
  moreover have "subseq ((history delivered_of as @ swTrades w) @ us) (?p @ trades_of parse m)"
    using acc us(2) by (intro list_emb_append_mono) (auto simp: accounted_def)
  ultimately show ?thesis
    using acc sf_process us(1) by (auto simp: accounted_def process_raw_fields held_def)
next
  case (sf_dial d env now w0)
  then show ?thesis using acc attempt_fields [of env now w w0 cbs] by (auto simp: accounted_def held_def)
next
  case (sf_read i now r)
  then have "held w' = held w + (case r of None \<Rightarrow> {#} | Some m \<Rightarrow> {#m#})"
    using held_update [of w i Reading w' "case r of None \<Rightarrow> Ending | Some m \<Rightarrow> Holding m"]
    by (auto simp: receive_one_def put_receiver_def upd_safe_stats_def split: option.splits)
  with acc sf_read show ?thesis
    by (auto simp: accounted_def receive_one_def put_receiver_def upd_safe_stats_def split: option.split)
next
  case (sf_queue i m)
  then have "held w' + {#m#} = held w"
    using held_update [of w i "Holding m" w' AtContext] by (auto simp: queue_message_def put_receiver_def)
  with acc sf_queue show ?thesis
    by (auto simp: accounted_def queue_message_def put_receiver_def)
next
  case (sf_drop i m)
  then have "held w' + {#m#} = held w"
    using held_update [of w i "Holding m" w' AtContext] by (auto simp: queue_message_def put_receiver_def)
  with acc sf_drop show ?thesis
    by (auto simp: accounted_def queue_message_def put_receiver_def)
next
  case (sf_context i)
  then have "held w' = held w"
    using held_update [of w i AtContext w' "if swCancelled w then Ending else AtLink"]
    by (auto simp: check_context_def put_receiver_def)
  with acc sf_context show ?thesis by (auto simp: accounted_def check_context_def put_receiver_def)
next
  case (sf_link i)
  then have "held w' = held w"
    using held_update [of w i AtLink w' "if safe_connected w then Reading else Ending"]
    by (auto simp: check_link_def put_receiver_def)
  with acc sf_link show ?thesis by (auto simp: accounted_def check_link_def put_receiver_def)
next
  case (sf_end i)
  then have "held w' = held w"
    using held_update [of w i Ending w' Gone] by (auto simp: end_receiver_def put_receiver_def)
  with acc sf_end show ?thesis by (auto simp: accounted_def end_receiver_def put_receiver_def)
qed (use acc in \<open>auto simp: accounted_def held_def start_safe_def stop_safe_def rearm_def send_ping_def cleanup_safe_def
      deliver_trade_def upd_safe_stats_def\<close>)


lemma accounted_run:
  "runs (safe_quiet parse) w bs w' \<Longrightarrow> accounted parse as w \<Longrightarrow> accounted parse (as @ bs) w'"
proof (induction bs arbitrary: w as)
  case (Cons b bs)
  then obtain w1 where w1: "safe_quiet parse w b w1" "runs (safe_quiet parse) w1 bs w'" by auto
  then have "accounted parse (as @ [b]) w1" using safe_accounted_step Cons.prems(2) by (auto simp: safe_quiet_def)
  from Cons.IH [OF w1(2) this] show ?case by simp
qed simp

text \<open>C34. In every run of a safe worker the messages it parsed are, with those in its channel, the messages
  its receivers queued, in order; every message received is queued, dropped or in the hands of a receiver; the
  trades delivered and those in the trade channel are a subsequence of the parsed trades, and all of them as
  long as no more than the size of the channel were parsed; the counters are the numbers of messages received
  and of trades delivered.\<close>

theorem safe_worker_accounting:
  assumes "runs (safe_quiet parse) (new_safe_worker k ex mt syms c) as w"
  shows "history processed_of as @ swMessages w = history queued_of as \<and>
    mset (history received_of as) = mset (history queued_of as) + mset (history dropped_of as) + held w \<and>
    subseq (history delivered_of as @ swTrades w) (concat (map (trades_of parse) (history processed_of as))) \<and>
    (length (concat (map (trades_of parse) (history processed_of as))) \<le> channel_size \<longrightarrow>
      history delivered_of as @ swTrades w = concat (map (trades_of parse) (history processed_of as))) \<and>
    ssTrades (safe_get_stats w) = int (length (history delivered_of as)) \<and>
    ssMessages (safe_get_stats w) = int (length (history received_of as))"
proof -
  have "accounted parse [] (new_safe_worker k ex mt syms c :: 'a safe_worker)"
    by (simp add: accounted_def new_safe_worker_def held_def)
  from accounted_run [OF assms this] show ?thesis by (simp add: accounted_def safe_get_stats_def)
qed

section \<open>The connection\<close>

text \<open>The loop is in its select with no timer set.\<close>

definition settled :: "'m safe_worker \<Rightarrow> bool" where
  "settled w = (swPc w = Selecting \<and> swTimer w = None \<and> \<not> swCancelled w)"

lemma settled_step:
  assumes step: "safe_step parse w a (w', cbs)" and s: "settled w" and a: "a \<noteq> SStop"
  shows "settled w'" "a \<noteq> SDial env now" "ssReconnects (swStats w') = ssReconnects (swStats w)"
    "safe_connected w' \<Longrightarrow> safe_connected w"
proof -
  have "settled w' \<and> a \<noteq> SDial env now \<and> ssReconnects (swStats w') = ssReconnects (swStats w) \<and>
      (safe_connected w' \<longrightarrow> safe_connected w)"
    using step by (cases rule: safe_step.cases)
      (use s a in \<open>auto simp: settled_def safe_connected_def start_safe_def send_ping_def process_raw_def deliver_trade_def
         upd_safe_stats_def check_context_def check_link_def receive_one_def queue_message_def end_receiver_def
         put_receiver_def split: sum.split option.split\<close>)
  then show "settled w'" "a \<noteq> SDial env now" "ssReconnects (swStats w') = ssReconnects (swStats w)"
    "safe_connected w' \<Longrightarrow> safe_connected w" by blast+
qed

lemma settled_run:
  "runs (safe_quiet parse) w as w' \<Longrightarrow> settled w \<Longrightarrow> SStop \<notin> set as \<Longrightarrow>
     settled w' \<and> SDial env now \<notin> set as \<and> ssReconnects (swStats w') = ssReconnects (swStats w) \<and>
     (safe_connected w' \<longrightarrow> safe_connected w)"
proof (induction as arbitrary: w)
  case (Cons a as)
  then obtain w1 where w1: "safe_quiet parse w a w1" "runs (safe_quiet parse) w1 as w'" by auto
  then obtain cbs where "safe_step parse w a (w1, cbs)" by (auto simp: safe_quiet_def)
  with settled_step [of parse w a w1 cbs] Cons.prems Cons.IH [OF w1(2)] show ?case by auto
qed simp

text \<open>The timer is empty from the moment the loop leaves the attempt.\<close>

definition timer_ok :: "'m safe_worker \<Rightarrow> bool" where
  "timer_ok w = (swPc w \<noteq> Selecting \<longrightarrow> swTimer w = None)"

lemma timer_ok_step: "safe_step parse w a (w', cbs) \<Longrightarrow> timer_ok w \<Longrightarrow> timer_ok w'"
  by (cases rule: safe_step.cases)
    (auto simp: timer_ok_def start_safe_def stop_safe_def rearm_def send_ping_def process_raw_def deliver_trade_def
       upd_safe_stats_def cleanup_safe_def check_context_def check_link_def receive_one_def queue_message_def
       end_receiver_def put_receiver_def split: sum.splits option.splits if_splits)

lemma uncancelled_run:
  "runs (safe_quiet parse) w as w' \<Longrightarrow> SStop \<notin> set as \<Longrightarrow> \<not> swCancelled w \<Longrightarrow> \<not> swCancelled w'"
proof (induction as arbitrary: w)
  case (Cons a as)
  then obtain w1 where "safe_quiet parse w a w1" and w1': "runs (safe_quiet parse) w1 as w'" by auto
  then obtain cbs where w1: "safe_step parse w a (w1, cbs)" by (auto simp: safe_quiet_def)
  have "\<not> swCancelled w1" using w1
    by (cases rule: safe_step.cases)
      (use Cons.prems in \<open>auto simp: start_safe_def rearm_def send_ping_def process_raw_def deliver_trade_def
         upd_safe_stats_def cleanup_safe_def check_context_def check_link_def receive_one_def queue_message_def
         end_receiver_def put_receiver_def attempt_connection_def split: sum.splits option.splits if_splits prod.splits\<close>)
  with Cons.IH [OF w1'] Cons.prems show ?case by simp
qed simp

lemma rearm_connected: "safe_connected (rearm w) \<Longrightarrow> swPc (rearm w) = Selecting \<and> swTimer (rearm w) = swTimer w"
  by (auto simp: rearm_def safe_connected_def split: if_splits)

lemma settled_after_attempt:
  assumes "runs (safe_quiet parse) (new_safe_worker k ex mt syms c) (as @ [SAttempted]) w0" "safe_connected w0" "SStop \<notin> set as"
  shows "settled w0"
proof -
  obtain w cbs where w: "runs (safe_quiet parse) (new_safe_worker k ex mt syms c) as w" "safe_step parse w SAttempted (w0, cbs)"
    using assms(1) by (auto simp: runs_append safe_quiet_def)
  then have r: "w0 = rearm w" "swPc w = Attempted" by (auto elim: safe_stepE)
  have "timer_ok w" using runs_invariant [OF w(1), where I = timer_ok]
    by (metis timer_ok_step safe_quiet_def timer_ok_def new_safe_worker_def safe_worker.select_convs(11))
  then have "settled w0 \<longleftrightarrow> \<not> swCancelled w" using r rearm_connected [of w] assms(2)
    by (auto simp: settled_def timer_ok_def rearm_def split: if_splits)
  with uncancelled_run [OF w(1) assms(3)] show ?thesis by (simp add: new_safe_worker_def)
qed

text \<open>Once the loop of a safe worker has found the connection open behind an attempt it never dials again
  unless it is stopped: the number of its connections stays, and a connection that is lost stays lost.\<close>

theorem safe_worker_dials_no_more:
  assumes "runs (safe_quiet parse) (new_safe_worker k ex mt syms c) (as @ [SAttempted]) w0" "safe_connected w0"
    and "runs (safe_quiet parse) w0 bs w1" "runs (safe_quiet parse) w1 cs w"
    and "SStop \<notin> set (as @ bs @ cs)"
  shows "SDial env now \<notin> set (bs @ cs) \<and> ssReconnects (safe_get_stats w) = ssReconnects (safe_get_stats w0) \<and>
    (\<not> safe_connected w1 \<longrightarrow> \<not> safe_connected w)"
proof -
  have s0: "settled w0" using settled_after_attempt [OF assms(1,2)] assms(5) by simp
  have s1: "settled w1 \<and> SDial env now \<notin> set bs \<and> ssReconnects (swStats w1) = ssReconnects (swStats w0)"
    using settled_run [OF assms(3) s0] assms(5) by simp
  then show ?thesis using settled_run [OF assms(4)] assms(5) by (auto simp: safe_get_stats_def)
qed


section \<open>A sample run\<close>

text \<open>A worker of Gate connects, receives a message with one trade, delivers it and loses the connection.\<close>

definition gate_connector :: connector where
  "gate_connector = new_base_connector ''gate'' ''spot'' ''wss://api.gateio.ws/ws/v4/'' 1"

definition safe_dial :: dial_env where
  "safe_dial = \<lparr>dialToken = Inl '''', dialResult = None, dialWrites = (\<lambda>_. WriteOk), dialTime = 5\<rparr>"

lemma gate_opens:
  "\<exists>c. connect (Inl '''') None (\<lambda>_. WriteOk) 5 [''BTC_USDT''] gate_connector = (None, c) \<and> is_connected c"
  by (simp add: gate_connector_def connect_def connect_with_def connect_websocket_def gate_subscribe_def
      subscribe_with_def new_base_connector_def gate_messages_def is_connected_def send_message_def)

definition one_trade :: "nat \<Rightarrow> parse_error + trade_event list" where
  "one_trade n = Inr [zero_trade]"

definition gate_safe :: "nat safe_worker" where
  "gate_safe = new_safe_worker 0 ''gate'' ''spot'' [''BTC_USDT''] gate_connector"

lemma gate_safe_attempts:
  "\<exists>w. runs (safe_quiet one_trade) gate_safe [SStart, SDial safe_dial 5, SAttempted] w \<and> safe_connected w \<and>
     swReceivers w = [AtContext] \<and> swPc w = Selecting \<and> swMessages w = [] \<and> swTrades w = [] \<and> \<not> swCancelled w"
proof -
  obtain c where c: "connect (Inl '''') None (\<lambda>_. WriteOk) 5 [''BTC_USDT''] gate_connector = (None, c)" "is_connected c"
    using gate_opens by blast
  let ?w1 = "start_safe gate_safe"
  have s: "safe_quiet one_trade gate_safe SStart ?w1" by (auto simp: safe_quiet_def intro: sf_start)
  have f: "swPc ?w1 = Selecting" "swTimer ?w1 = Some 0" "swSymbols ?w1 = [''BTC_USDT'']" "swConnector ?w1 = gate_connector"
      "\<not> safe_connected ?w1" "swReceivers ?w1 = []" "swMessages ?w1 = []" "swTrades ?w1 = []" "\<not> swCancelled ?w1"
    by (simp_all add: start_safe_def gate_safe_def new_safe_worker_def safe_connected_def)
  obtain w' cbs where a: "attempt_connection safe_dial 5 ?w1 = (w', cbs)" by (cases "attempt_connection safe_dial 5 ?w1")
  let ?w2 = "w'\<lparr>swTimer := None, swPc := Attempted\<rparr>"
  have "safe_quiet one_trade ?w1 (SDial safe_dial 5) ?w2" using sf_dial [OF f(1,2) a] by (auto simp: safe_quiet_def)
  moreover have "safe_quiet one_trade ?w2 SAttempted (rearm ?w2)" by (auto simp: safe_quiet_def intro!: exI sf_attempted)
  ultimately have "runs (safe_quiet one_trade) gate_safe [SStart, SDial safe_dial 5, SAttempted] (rearm ?w2)" using s by auto
  moreover have "safe_connected (rearm ?w2) \<and> swReceivers (rearm ?w2) = [AtContext] \<and> swPc (rearm ?w2) = Selecting \<and>
      swMessages (rearm ?w2) = [] \<and> swTrades (rearm ?w2) = [] \<and> \<not> swCancelled (rearm ?w2)"
    using a c f by (auto simp: attempt_connection_def safe_dial_def upd_safe_stats_def rearm_def safe_connected_def split: if_splits)
  ultimately show ?thesis by blast
qed

lemma quiet_run: "safe_step parse w a (w1, cbs) \<Longrightarrow> runs (safe_quiet parse) w1 as w' \<Longrightarrow> runs (safe_quiet parse) w (a # as) w'"
  by (auto simp: safe_quiet_def)

text \<open>One message from the connection to the callback.\<close>

definition message_steps :: "nat safe_action list" where
  "message_steps = [SContext 0, SLink 0, SRead 0 7 (Some 1), SQueue 0 1, SProcess 1, SDeliver zero_trade]"

lemma gate_safe_receives:
  assumes "safe_connected w" "swReceivers w = [AtContext]" "swPc w = Selecting" "swMessages w = []" "swTrades w = []"
    "\<not> swCancelled w"
  shows "\<exists>w'. runs (safe_quiet one_trade) w message_steps w' \<and> swReceivers w' = [AtContext] \<and> safe_connected w' \<and>
    \<not> swCancelled w'"
proof -
  let ?w1 = "check_context 0 w"
  let ?w2 = "check_link 0 ?w1"
  let ?w3 = "receive_one 0 7 (Some 1) ?w2"
  let ?w4 = "queue_message 0 1 ?w3"
  let ?w5 = "process_raw one_trade 1 (?w4\<lparr>swMessages := []\<rparr>)"
  let ?w6 = "fst (deliver_trade zero_trade (?w5\<lparr>swTrades := []\<rparr>))"
  note defs = check_context_def check_link_def receive_one_def queue_message_def process_raw_def deliver_trade_def
    put_receiver_def receiver_at_def upd_safe_stats_def safe_connected_def message_channel_size_def one_trade_def channel_size_def
  have s1: "safe_step one_trade w (SContext 0) (?w1, [])" by (rule sf_context) (use assms in \<open>simp add: receiver_at_def\<close>)
  have s2: "safe_step one_trade ?w1 (SLink 0) (?w2, [])" by (rule sf_link) (use assms in \<open>simp add: defs\<close>)
  have s3: "safe_step one_trade ?w2 (SRead 0 7 (Some 1)) (?w3, [])" by (rule sf_read) (use assms in \<open>simp add: defs\<close>)
  have s4: "safe_step one_trade ?w3 (SQueue 0 1) (?w4, [])" by (rule sf_queue) (use assms in \<open>simp_all add: defs\<close>)
  have s5: "safe_step one_trade ?w4 (SProcess 1) (?w5, [])" by (rule sf_process) (use assms in \<open>simp_all add: defs\<close>)
  have "safe_step one_trade ?w5 (SDeliver zero_trade) (deliver_trade zero_trade (?w5\<lparr>swTrades := []\<rparr>))"
    by (rule sf_deliver) (use assms in \<open>simp_all add: defs\<close>)
  then obtain cbs where s6: "safe_step one_trade ?w5 (SDeliver zero_trade) (?w6, cbs)" by (metis prod.collapse)
  have "runs (safe_quiet one_trade) w message_steps ?w6"
    unfolding message_steps_def
    by (rule quiet_run [OF s1 quiet_run [OF s2 quiet_run [OF s3 quiet_run [OF s4 quiet_run [OF s5 quiet_run [OF s6]]]]]]) simp
  moreover have "swReceivers ?w6 = [AtContext] \<and> safe_connected ?w6 \<and> \<not> swCancelled ?w6" using assms by (simp add: defs)
  ultimately show ?thesis by blast
qed

theorem safe_worker_accounting_witness:
  "\<exists>w. runs (safe_quiet one_trade) gate_safe ([SStart, SDial safe_dial 5, SAttempted] @ message_steps) w \<and>
     ssTrades (safe_get_stats w) = 1 \<and> swTrades w = []"
proof -
  obtain w0 where w0: "runs (safe_quiet one_trade) gate_safe [SStart, SDial safe_dial 5, SAttempted] w0"
      "safe_connected w0" "swReceivers w0 = [AtContext]" "swPc w0 = Selecting" "swMessages w0 = []" "swTrades w0 = []"
      "\<not> swCancelled w0"
    using gate_safe_attempts by blast
  obtain w where w: "runs (safe_quiet one_trade) w0 message_steps w" using gate_safe_receives [OF w0(2-7)] by blast
  with w0(1) have run: "runs (safe_quiet one_trade) gate_safe ([SStart, SDial safe_dial 5, SAttempted] @ message_steps) w"
    by (auto simp only: runs_append)
  from safe_worker_accounting [OF run [unfolded gate_safe_def]]
  have "ssTrades (safe_get_stats w) = 1 \<and> swTrades w = []"
    by (simp add: message_steps_def trades_of_def one_trade_def channel_size_def)
  with run show ?thesis by blast
qed

theorem safe_worker_dials_no_more_witness:
  "\<exists>w0 w1 w. runs (safe_quiet one_trade) gate_safe [SStart, SDial safe_dial 5, SAttempted] w0 \<and>
     runs (safe_quiet one_trade) w0 message_steps w1 \<and>
     runs (safe_quiet one_trade) w1 [SContext 0, SLink 0, SRead 0 9 None, SEnd 0] w \<and>
     \<not> safe_connected w \<and> ssReconnects (safe_get_stats w) = ssReconnects (safe_get_stats w0)"
proof -
  obtain w0 where w0: "runs (safe_quiet one_trade) gate_safe [SStart, SDial safe_dial 5, SAttempted] w0"
      "safe_connected w0" "swReceivers w0 = [AtContext]" "swPc w0 = Selecting" "swMessages w0 = []" "swTrades w0 = []"
      "\<not> swCancelled w0"
    using gate_safe_attempts by blast
  obtain w1 where w1: "runs (safe_quiet one_trade) w0 message_steps w1" "swReceivers w1 = [AtContext]" "safe_connected w1"
      "\<not> swCancelled w1"
    using gate_safe_receives [OF w0(2-7)] by blast
  let ?v1 = "check_context 0 w1"
  let ?v2 = "check_link 0 ?v1"
  let ?v3 = "receive_one 0 9 None ?v2"
  note defs = check_context_def check_link_def receive_one_def put_receiver_def receiver_at_def upd_safe_stats_def
    safe_connected_def end_receiver_def
  have s1: "safe_step one_trade w1 (SContext 0) (?v1, [])" by (rule sf_context) (use w1 in \<open>simp add: defs\<close>)
  have s2: "safe_step one_trade ?v1 (SLink 0) (?v2, [])" by (rule sf_link) (use w1 in \<open>simp add: defs\<close>)
  have s3: "safe_step one_trade ?v2 (SRead 0 9 None) (?v3, [])" by (rule sf_read) (use w1 in \<open>simp add: defs\<close>)
  have s4: "safe_step one_trade ?v3 (SEnd 0) (end_receiver 0 ?v3, [])" by (rule sf_end) (use w1 in \<open>simp add: defs\<close>)
  have lost: "runs (safe_quiet one_trade) w1 [SContext 0, SLink 0, SRead 0 9 None, SEnd 0] (end_receiver 0 ?v3)"
    by (rule quiet_run [OF s1 quiet_run [OF s2 quiet_run [OF s3 quiet_run [OF s4]]]]) simp
  have "SStop \<notin> set ([SStart, SDial safe_dial 5] @ message_steps @ [SContext 0, SLink 0, SRead 0 9 None, SEnd 0])"
    by (simp add: message_steps_def)
  from safe_worker_dials_no_more [where as = "[SStart, SDial safe_dial 5]", simplified append_Cons append_Nil,
      OF w0(1) [unfolded gate_safe_def] w0(2) w1(1) lost, OF this [simplified append_Cons append_Nil]]
  have "ssReconnects (safe_get_stats (end_receiver 0 ?v3)) = ssReconnects (safe_get_stats w0)" by blast
  moreover have "\<not> safe_connected (end_receiver 0 ?v3)" by (simp add: defs)
  ultimately show ?thesis using w0(1) w1(1) lost by blast
qed

end
