(* ===== verification/SafeWorkerPoolProps.thy ===== *)
theory SafeWorkerPoolProps
  imports SafeWorkerPool SafeWorkerProps
begin

text \<open>
  The distribution of the symbols over the safe workers, and why a pool of them never stops.
\<close>

section \<open>Distribution\<close>

text \<open>Where the chunk of worker \<open>i\<close> begins.\<close>

definition chunk_start :: "nat \<Rightarrow> nat \<Rightarrow> nat \<Rightarrow> nat" where
  "chunk_start n cnt i = i * (n div cnt) + min i (n mod cnt)"

lemma chunk_start_Suc: "chunk_start n cnt (Suc i) = chunk_start n cnt i + (n div cnt + (if i < n mod cnt then 1 else 0))"
  by (simp add: chunk_start_def min_def)

lemma chunk_start_mono: "i \<le> j \<Longrightarrow> chunk_start n cnt i \<le> chunk_start n cnt j"
  by (rule lift_Suc_mono_le [of "chunk_start n cnt"]) (simp_all add: chunk_start_Suc)

lemma chunk_start_last: "0 < cnt \<Longrightarrow> chunk_start n cnt cnt = n"
  by (simp add: chunk_start_def min_absorb2 less_imp_le)

lemma distribute_loop_slices:
  assumes "i + k = cnt" "0 < cnt" "s = chunk_start (length symbols) cnt i"
  shows "distribute_loop cnt symbols k i s =
    map (\<lambda>j. take (chunk_start (length symbols) cnt (Suc j) - chunk_start (length symbols) cnt j)
               (drop (chunk_start (length symbols) cnt j) symbols)) [i..<cnt]"
  using assms
proof (induction k arbitrary: i s)
  case (Suc k)
  let ?n = "length symbols" and ?c = "chunk_start (length symbols) cnt"
  have le: "?c (Suc i) \<le> ?n" using chunk_start_mono [of "Suc i" cnt ?n cnt] chunk_start_last [of cnt ?n] Suc.prems by simp
  have i: "[i..<cnt] = i # [Suc i..<cnt]" using Suc.prems by (simp add: upt_conv_Cons)
  have IH: "distribute_loop cnt symbols k (i + 1) (?c (Suc i)) =
      map (\<lambda>j. take (?c (Suc j) - ?c j) (drop (?c j) symbols)) [Suc i..<cnt]"
    using Suc.IH [of "Suc i" "?c (Suc i)"] Suc.prems by simp
  show ?case
  proof (cases "s < ?n")
    case True
    have "min (s + (?n div cnt + (if i < ?n mod cnt then 1 else 0))) ?n = ?c (Suc i)"
      using le Suc.prems(3) by (simp add: chunk_start_Suc)
    with True IH Suc.prems(3) i show ?thesis by (simp add: Let_def)
  next
    case False
    then have "?c (Suc i) = s" using le chunk_start_mono [of i "Suc i" ?n cnt] Suc.prems(3) by simp
    with False IH Suc.prems(3) i show ?thesis by (simp add: Let_def)
  qed
qed simp

lemma concat_slices:
  assumes "\<And>i j. i \<le> j \<Longrightarrow> c i \<le> c j" "c 0 = (0 :: nat)"
  shows "concat (map (\<lambda>j. take (c (Suc j) - c j) (drop (c j) xs)) [0..<k]) = take (c k) xs"
proof (induction k)
  case (Suc k)
  then show ?case using assms(1) [of k "Suc k"] by (simp add: take_add [symmetric])
qed (simp add: assms(2))

text \<open>Enough workers for the symbols.\<close>

lemma safe_worker_count_enough:
  assumes "0 < mx"
  shows "0 < safe_worker_count n mx" "n \<le> safe_worker_count n mx * nat mx"
    "n > 0 \<Longrightarrow> safe_worker_count n mx \<le> n"
proof -
  let ?m = "nat mx"
  have d: "n = n div ?m * ?m + n mod ?m" and lt: "n mod ?m < ?m" using assms by simp_all
  show "0 < safe_worker_count n mx" by (simp add: safe_worker_count_def Let_def)
  have "n div ?m = 0 \<Longrightarrow> n \<le> ?m" using d lt by simp
  moreover have "n mod ?m \<noteq> 0 \<Longrightarrow> n \<le> (n div ?m + 1) * ?m" unfolding add_mult_distrib using d lt by linarith
  moreover have "n mod ?m = 0 \<Longrightarrow> n \<le> n div ?m * ?m" using d by simp
  ultimately show "n \<le> safe_worker_count n mx * ?m" by (auto simp: safe_worker_count_def Let_def)
  assume n: "n > 0"
  have "n div ?m + (if n mod ?m \<noteq> 0 then 1 else 0) \<le> n"
  proof (cases "?m = 1")
    case False
    with assms have "?m \<ge> 2" by simp
    then have "2 * (n div ?m) \<le> n div ?m * ?m" by simp
    with d have "2 * (n div ?m) + n mod ?m \<le> n" by linarith
    then show ?thesis using n by (cases "n div ?m = 0") auto
  qed simp
  with n show "safe_worker_count n mx \<le> n" by (auto simp: safe_worker_count_def Let_def split: if_splits)
qed


lemma chunk_sizes:
  fixes n cnt mx :: nat
  assumes "n \<le> cnt * mx" "i < cnt"
  shows "n div cnt + (if i < n mod cnt then 1 else 0) \<le> mx" "cnt \<le> n \<Longrightarrow> 0 < n div cnt"
proof -
  have d: "n = n div cnt * cnt + n mod cnt" by (simp only: div_mult_mod_eq)
  have "n div cnt \<le> mx" using div_le_mono [OF assms(1), of cnt] assms(2) by simp
  moreover have "n div cnt \<noteq> mx" if "i < n mod cnt"
  proof
    assume "n div cnt = mx"
    then have "n = mx * cnt + n mod cnt" using d by simp
    with assms(1) that show False by (simp add: mult.commute)
  qed
  ultimately show "n div cnt + (if i < n mod cnt then 1 else 0) \<le> mx" by (cases "i < n mod cnt") auto
  show "0 < n div cnt" if "cnt \<le> n" using that assms(2) by (simp add: div_greater_zero_iff)
qed

lemma distribute_slices:
  assumes "symbols \<noteq> []" "0 < cnt" "n = length symbols"
  shows "distribute_loop cnt symbols cnt 0 0 =
    map (\<lambda>j. take (chunk_start n cnt (Suc j) - chunk_start n cnt j) (drop (chunk_start n cnt j) symbols)) [0..<cnt]"
  using distribute_loop_slices [of 0 cnt cnt 0 symbols] assms by (simp add: chunk_start_def)

lemma slice_length:
  assumes "j < cnt"
  shows "length (take (chunk_start (length xs) cnt (Suc j) - chunk_start (length xs) cnt j) (drop (chunk_start (length xs) cnt j) xs)) =
    length xs div cnt + (if j < length xs mod cnt then 1 else 0)"
proof -
  have "chunk_start (length xs) cnt (Suc j) \<le> length xs"
    using chunk_start_mono [of "Suc j" cnt "length xs" cnt] chunk_start_last [of cnt "length xs"] assms by simp
  then show ?thesis by (simp add: chunk_start_Suc)
qed

text \<open>A pool gives each of its symbols to exactly one worker, in order: no worker has more than the limit of
  the exchange, the first workers have one symbol more than the others, and with any symbol at all no worker has
  none.\<close>

theorem safe_pool_partition:
  fixes p :: "'m safe_pool"
  assumes "p = new_safe_pool ex mt symbols config"
  shows "concat (distribute_symbols p) = symbols \<and> length (distribute_symbols p) = spCount p \<and>
    (\<forall>i<spCount p. int (length (distribute_symbols p ! i)) \<le> max_symbols_of config \<and>
      length (distribute_symbols p ! i) = length symbols div spCount p + (if i < length symbols mod spCount p then 1 else 0) \<and>
      (symbols \<noteq> [] \<longrightarrow> distribute_symbols p ! i \<noteq> []))"
proof -
  let ?mx = "max_symbols_of config" and ?n = "length symbols"
  let ?c = "safe_worker_count ?n ?mx"
  have p: "spCount p = ?c" "spSymbols p = symbols" by (simp_all add: assms new_safe_pool_def Let_def)
  have mx: "0 < ?mx" by (simp add: max_symbols_of_def)
  note enough = safe_worker_count_enough [OF mx, of ?n]
  show ?thesis
  proof (cases "symbols = []")
    case True
    then show ?thesis using p mx by (simp add: distribute_symbols_def)
  next
    case False
    have d: "distribute_symbols p = map (\<lambda>j. take (chunk_start ?n ?c (Suc j) - chunk_start ?n ?c j) (drop (chunk_start ?n ?c j) symbols)) [0..<?c]"
      using distribute_slices [OF False enough(1) refl] False p by (simp add: distribute_symbols_def)
    have "concat (distribute_symbols p) = symbols"
      using concat_slices [of "chunk_start ?n ?c" symbols ?c] chunk_start_mono chunk_start_last [OF enough(1)] d
      by (simp add: chunk_start_def)
    moreover have "int (length (distribute_symbols p ! i)) \<le> ?mx \<and>
        length (distribute_symbols p ! i) = ?n div ?c + (if i < ?n mod ?c then 1 else 0) \<and> distribute_symbols p ! i \<noteq> []"
      if i: "i < ?c" for i
    proof -
      have l: "length (distribute_symbols p ! i) = ?n div ?c + (if i < ?n mod ?c then 1 else 0)"
        using d i slice_length [OF i, of symbols] by simp
      have "length (distribute_symbols p ! i) \<le> nat ?mx" "0 < ?n div ?c"
        using chunk_sizes [OF enough(2) i] enough(3) False l by auto
      with l mx show ?thesis by fastforce
    qed
    moreover have "length (distribute_symbols p) = ?c" using d by simp
    ultimately show ?thesis by (simp only: p) blast
  qed
qed

theorem safe_pool_partition_witness:
  "map length (distribute_symbols (new_safe_pool ''okx'' ''spot'' (replicate 7 ''BTC-USDT'') \<lparr>xcMaxSymbols = 3, xcRetryInterval = 0, xcConnectionTimeout = 0\<rparr> :: nat safe_pool)) = [3, 2, 2] \<and>
   concat (distribute_symbols (new_safe_pool ''okx'' ''spot'' (replicate 7 ''BTC-USDT'') \<lparr>xcMaxSymbols = 3, xcRetryInterval = 0, xcConnectionTimeout = 0\<rparr> :: nat safe_pool)) = replicate 7 ''BTC-USDT''"
proof -
  let ?c = "\<lparr>xcMaxSymbols = 3, xcRetryInterval = 0, xcConnectionTimeout = 0\<rparr>"
  let ?p = "new_safe_pool ''okx'' ''spot'' (replicate 7 ''BTC-USDT'') ?c :: nat safe_pool"
  have n: "spCount ?p = 3" by (simp add: new_safe_pool_def max_symbols_of_def safe_worker_count_def Let_def)
  have eq: "?p = new_safe_pool ''okx'' ''spot'' (replicate 7 ''BTC-USDT'') ?c" ..
  note t = safe_pool_partition [OF eq]
  have "length (distribute_symbols ?p) = 3" using t n by simp
  then obtain a b c where e: "distribute_symbols ?p = [a, b, c]" by (auto simp: numeral_3_eq_3 length_Suc_conv)
  have l: "length (distribute_symbols ?p ! i) = 2 + (if i < 1 then 1 else 0)" if "i < 3" for i
    using t that unfolding n by simp
  have "length a = 3" "length b = 2" "length c = 2" using l [of 0] l [of 1] l [of 2] unfolding e by simp_all
  then have "map length (distribute_symbols ?p) = [3, 2, 2]" unfolding e by simp
  with t show ?thesis by blast
qed


section \<open>A pool never stops\<close>

text \<open>The state of a worker behind its goroutine: nobody cancels it, and once begun it stays in its loop.\<close>

fun goroutine_ok :: "'m safe_worker \<times> go_state \<Rightarrow> bool" where
  "goroutine_ok (w, Spawned) = (\<not> swCancelled w \<and> swPc w = NotRunning)"
| "goroutine_ok (w, Inside) = (\<not> swCancelled w \<and> swPc w \<in> {Selecting, Attempted})"
| "goroutine_ok (w, Ended) = False"

definition inside :: "'m safe_worker \<times> go_state \<Rightarrow> bool" where
  "inside x = (snd x = Inside)"

definition pool_live :: "'m safe_pool \<Rightarrow> bool" where
  "pool_live p = ((\<forall>x\<in>set (spStarted p). goroutine_ok x) \<and>
     gsActiveWorkers (spStats p) = int (length (filter inside (spStarted p))))"

lemma inner_step_ok:
  assumes "safe_step parse w a (w', cbs)" "inner_action a" "goroutine_ok (w, g)"
  shows "goroutine_ok (w', g)"
proof -
  have "\<not> swCancelled w" "swPc w \<noteq> Cleaning" using assms(3) by (cases g; auto)+
  with assms(1,2) have "\<not> swCancelled w' \<and> (swPc w' = NotRunning \<longleftrightarrow> swPc w = NotRunning) \<and> swPc w' \<noteq> Cleaning"
    by (cases rule: safe_step.cases)
      (auto simp: inner_action_def rearm_def send_ping_def process_raw_def deliver_trade_def upd_safe_stats_def
         check_context_def check_link_def receive_one_def queue_message_def end_receiver_def put_receiver_def
         attempt_connection_def split: sum.splits option.splits if_splits prod.splits)
  with assms(3) show ?thesis by (cases g; cases "swPc w'"; cases "swPc w") auto
qed

lemma safe_callback_keeps:
  "spStarted (fst (safe_callback now cb r)) = spStarted (fst r)"
  "gsActiveWorkers (spStats (fst (safe_callback now cb r))) = gsActiveWorkers (spStats (fst r))"
  "spPc (fst (safe_callback now cb r)) = spPc (fst r)" "spRunning (fst (safe_callback now cb r)) = spRunning (fst r)"
  by (cases r; cases cb; simp add: pool_handle_trade_def pool_handle_error_def pool_handle_connected_def upd_pool_stats_def)+

lemma safe_callbacks_keep:
  "spStarted (fst (fold (safe_callback now) cbs r)) = spStarted (fst r)"
  "gsActiveWorkers (spStats (fst (fold (safe_callback now) cbs r))) = gsActiveWorkers (spStats (fst r))"
  "spPc (fst (fold (safe_callback now) cbs r)) = spPc (fst r)" "spRunning (fst (fold (safe_callback now) cbs r)) = spRunning (fst r)"
  by (induction cbs arbitrary: r) (simp_all add: safe_callback_keeps)

lemma safe_length_filter_update:
  assumes "k < length xs"
  shows "int (length (filter P (xs[k := y]))) =
    int (length (filter P xs)) + (if P y then 1 else 0) - (if P (xs ! k) then 1 else 0)"
proof -
  have "length (filter P xs) = length (filter P (take k xs @ xs ! k # drop (Suc k) xs))"
    using id_take_nth_drop [OF assms] by simp
  then show ?thesis by (simp add: upd_conv_take_nth_drop [OF assms])
qed

lemma live_nth: "pool_live p \<Longrightarrow> k < length (spStarted p) \<Longrightarrow> spStarted p ! k = x \<Longrightarrow> goroutine_ok x"
  by (auto simp: pool_live_def)

lemma pool_step_live:
  assumes "safe_pool_step parse p a (p', cbs)" "pool_live p"
  shows "pool_live p'"
  using assms(1)
proof (cases rule: safe_pool_step.cases)
  case (sp_go k w)
  with live_nth [OF assms(2), of k "(w, Spawned)"] assms(2) show ?thesis
    by (auto simp: pool_live_def put_started_def upd_pool_stats_def start_safe_def safe_length_filter_update inside_def
        dest!: set_update_subset_insert [THEN subsetD])
next
  case (sp_work k w g a' w' cbs' now)
  have ok: "goroutine_ok (w, g)" using live_nth [OF assms(2) sp_work(3,4)] .
  have "goroutine_ok (w', g)" using inner_step_ok [OF sp_work(6,5) ok] .
  moreover have p': "p' = fst (fold (safe_callback now) cbs' (put_started k w' g p, []))" using sp_work(2) by (metis fst_conv)
  ultimately show ?thesis using assms(2) sp_work(3,4)
    by (auto simp: pool_live_def safe_callbacks_keep put_started_def safe_length_filter_update inside_def
        dest!: set_update_subset_insert [THEN subsetD])
next
  case (sp_gone k w)
  with live_nth [OF assms(2), of k "(w, Inside)"] show ?thesis by simp
qed (use assms(2) in \<open>auto simp: pool_live_def begin_start_def launch_worker_def finish_start_def begin_stop_def
      stop_turn_def safe_pool_get_stats_def upd_pool_stats_def Let_def inside_def new_safe_worker_def
      set_on_connected_def set_on_error_def set_on_trade_event_def split: option.splits if_splits\<close>)


abbreviation active_workers :: "'m safe_pool \<Rightarrow> int" where
  "active_workers p \<equiv> gsActiveWorkers (spStats p)"

lemma active_grows:
  assumes "safe_pool_step parse p a (p', cbs)" "pool_live p"
  shows "active_workers p \<le> active_workers p'" "a = PGo k \<Longrightarrow> active_workers p' = active_workers p + 1"
    "a = PStopped \<Longrightarrow> active_workers p = 0"
proof -
  have "active_workers p \<le> active_workers p' \<and> (a = PGo k \<longrightarrow> active_workers p' = active_workers p + 1) \<and>
      (a = PStopped \<longrightarrow> active_workers p = 0)"
    using assms(1)
  proof (cases rule: safe_pool_step.cases)
    case (sp_work k w g a' w' cbs' now)
    then have "p' = fst (fold (safe_callback now) cbs' (put_started k w' g p, []))" by (metis fst_conv)
    with sp_work(1) show ?thesis by (simp add: safe_callbacks_keep put_started_def)
  next
    case (sp_gone k w)
    with live_nth [OF assms(2), of k "(w, Inside)"] show ?thesis by simp
  qed (auto simp: begin_start_def launch_worker_def finish_start_def begin_stop_def stop_turn_def
        safe_pool_get_stats_def upd_pool_stats_def put_started_def Let_def split: option.splits if_splits)
  then show "active_workers p \<le> active_workers p'" "a = PGo k \<Longrightarrow> active_workers p' = active_workers p + 1"
    "a = PStopped \<Longrightarrow> active_workers p = 0" by blast+
qed

text \<open>What \<open>Stop\<close> does to the pool while a worker is active.\<close>

lemma waiting_step:
  assumes "safe_pool_step parse p a (p', cbs)" "spPc p = Waiting" "active_workers p \<noteq> 0"
  shows "spPc p' = Waiting" "a \<noteq> PStats st" "a \<noteq> PIsRunning b"
proof -
  have "spPc p' = Waiting \<and> a \<noteq> PStats st \<and> a \<noteq> PIsRunning b"
    using assms(1)
  proof (cases rule: safe_pool_step.cases)
    case (sp_work k w g a' w' cbs' now)
    then have "p' = fst (fold (safe_callback now) cbs' (put_started k w' g p, []))" by (metis fst_conv)
    with sp_work(1) assms(2) show ?thesis by (simp add: safe_callbacks_keep put_started_def)
  qed (use assms(2,3) in \<open>auto simp: stop_turn_def upd_pool_stats_def put_started_def\<close>)
  then show "spPc p' = Waiting" "a \<noteq> PStats st" "a \<noteq> PIsRunning b" by blast+
qed

lemma busy_run:
  "runs (pool_quiet parse) p as p' \<Longrightarrow> pool_live p \<Longrightarrow> active_workers p > 0 \<Longrightarrow>
     pool_live p' \<and> active_workers p' > 0 \<and> PStopped \<notin> set as \<and>
     (spPc p = Waiting \<longrightarrow> spPc p' = Waiting \<and> PStats st \<notin> set as \<and> PIsRunning b \<notin> set as)"
proof (induction as arbitrary: p)
  case (Cons a as)
  then obtain p1 where p1: "pool_quiet parse p a p1" "runs (pool_quiet parse) p1 as p'" by auto
  then obtain cbs where s: "safe_pool_step parse p a (p1, cbs)" by (auto simp: pool_quiet_def)
  have "pool_live p1" "active_workers p1 > 0" "a \<noteq> PStopped"
    using pool_step_live [OF s Cons.prems(2)] active_grows(1,3) [OF s Cons.prems(2)] Cons.prems(3) by auto
  with Cons.IH [OF p1(2)] waiting_step [OF s] Cons.prems(3) show ?case by auto
qed simp

lemma live_run: "runs (pool_quiet parse) p as p' \<Longrightarrow> pool_live p \<Longrightarrow> pool_live p'"
  using pool_step_live by (elim runs_invariant) (auto simp: pool_quiet_def)

lemma new_pool_live: "pool_live (pool_set_on_error (pool_set_on_trade_event (new_safe_pool ex mt symbols config)))"
  by (simp add: pool_live_def new_safe_pool_def pool_set_on_error_def pool_set_on_trade_event_def Let_def)


text \<open>A pool of Gate with one symbol: the calls of a start and a stop.\<close>

definition one_symbol_pool :: "nat safe_pool" where
  "one_symbol_pool = pool_set_on_error (pool_set_on_trade_event
     (new_safe_pool ''gate'' ''spot'' [''BTC_USDT''] \<lparr>xcMaxSymbols = 50, xcRetryInterval = 0, xcConnectionTimeout = 0\<rparr>))"

lemma one_symbol_chunks: "distribute_symbols one_symbol_pool = [[''BTC_USDT'']]" "spCount one_symbol_pool = 1"
  by (simp_all add: one_symbol_pool_def pool_set_on_error_def pool_set_on_trade_event_def new_safe_pool_def
      distribute_symbols_def max_symbols_of_def safe_worker_count_def Let_def)



text \<open>A pool with one worker, from the call of \<open>Start\<close> to its goroutine.\<close>

lemma one_worker_begins:
  assumes "spPc p = Unlocked" "\<not> spRunning p" "spCount p = 1" "spStarted p = []" "distribute_symbols p = [syms]" "syms \<noteq> []"
    "create_safe_connector p \<noteq> None" "active_workers p = 0"
  shows "\<exists>p1 p2 p3 p4. safe_pool_step parse p PStartCall (p1, []) \<and> safe_pool_step parse p1 PLaunch (p2, []) \<and>
    safe_pool_step parse p2 PStarted (p3, []) \<and> safe_pool_step parse p3 (PGo 0) (p4, []) \<and>
    spPc p1 \<noteq> Unlocked \<and> spPc p4 = Unlocked \<and> spRunning p4 \<and> active_workers p4 = 1"
proof -
  let ?p1 = "snd (begin_start p)"
  let ?p2 = "launch_worker 0 ?p1"
  let ?p3 = "finish_start ?p2"
  have "distribute_symbols ?p1 = distribute_symbols p" by (simp add: begin_start_def distribute_symbols_def)
  with assms have p1: "spPc ?p1 = Launching 0" "spCount ?p1 = 1" "spStarted ?p1 = []" "distribute_symbols ?p1 = [syms]"
      "create_safe_connector ?p1 \<noteq> None" "active_workers ?p1 = 0"
    by (simp_all add: begin_start_def create_safe_connector_def)
  then obtain w where p2: "spPc ?p2 = Launching 1" "spCount ?p2 = 1" "spStarted ?p2 = [(w, Spawned)]" "active_workers ?p2 = 0"
    using assms(6) by (auto simp: launch_worker_def Let_def)
  have p3: "spPc ?p3 = Unlocked" "spRunning ?p3" "spStarted ?p3 = [(w, Spawned)]" "active_workers ?p3 = 0"
    using p2 by (simp_all add: finish_start_def)
  let ?p4 = "put_started 0 (start_safe w) Inside (upd_pool_stats (\<lambda>st. st\<lparr>gsActiveWorkers := gsActiveWorkers st + 1\<rparr>) ?p3)"
  have "safe_pool_step parse p PStartCall (?p1, [])" using assms(1) by (rule sp_start)
  moreover have "safe_pool_step parse ?p1 PLaunch (?p2, [])" using p1 by (intro sp_launch) simp_all
  moreover have "safe_pool_step parse ?p2 PStarted (?p3, [])" using p2 by (intro sp_started [where i = 1]) simp_all
  moreover have "safe_pool_step parse ?p3 (PGo 0) (?p4, [])" using p3 by (intro sp_go) simp_all
  moreover have "spPc ?p1 \<noteq> Unlocked" "spPc ?p4 = Unlocked" "spRunning ?p4" "active_workers ?p4 = 1"
    using p1 p3 by (simp_all add: put_started_def upd_pool_stats_def)
  ultimately show ?thesis by blast
qed

end
