(* ===== verification/SafeManagerProps.thy ===== *)
theory SafeManagerProps
  imports SafeTaskManager SafeWorkerPoolProps
begin

text \<open>
  The safe task manager: its health score, and why its \<open>Stop\<close> never returns.
\<close>

section \<open>Health\<close>

text \<open>The score is a finite float between zero and one: no division by zero and no NaN.\<close>

definition finite_float :: "gofloat \<Rightarrow> bool" where
  "finite_float x = (\<exists>q. x = Fin q)"

lemma finite_float_ops [simp]:
  "finite_float (Fin q)" "finite_float x \<Longrightarrow> finite_float y \<Longrightarrow> finite_float (f_mul x y)"
  "finite_float x \<Longrightarrow> finite_float y \<Longrightarrow> finite_float (f_sub x y)"
  "b \<noteq> 0 \<Longrightarrow> finite_float (f_div (Fin a) (Fin b))"
  by (auto simp: finite_float_def f_sub_def)

lemma clamp_range:
  "finite_float x \<Longrightarrow> \<exists>q. (let s = if f_less x (Fin 0) then Fin 0 else x in if f_less (Fin 1) s then Fin 1 else s) = Fin q \<and> 0 \<le> q \<and> q \<le> 1"
  by (auto simp: finite_float_def Let_def)

lemma health_score_range: "\<exists>q. calculate_health_score running now st = Fin q \<and> 0 \<le> q \<and> q \<le> 1"
proof (cases running)
  case True
  then show ?thesis unfolding calculate_health_score_def Let_def [of "Fin 1"] Let_def [of "if hsTotalWorkers st > 0 then _ else _"]
      Let_def [of "if hsTotalMessages st > 0 then _ else _"] Let_def [of "if hsLastActivity st > 0 \<and> _ then _ else _"]
    by (simp only: if_True if_False not_True_eq_False) (rule clamp_range, simp del: f_mul.simps f_div.simps)
qed (simp add: calculate_health_score_def)

section \<open>Stopping\<close>

text \<open>A pool with an active worker that runs or has a call under way.\<close>

definition busy_pool :: "'m safe_pool \<Rightarrow> bool" where
  "busy_pool p = (pool_live p \<and> active_workers p > 0 \<and> (spPc p = Unlocked \<longrightarrow> spRunning p))"

lemma safe_pool_step_busy:
  assumes step: "safe_pool_step parse p a (p', cbs)" and b: "busy_pool p"
  shows "busy_pool p'" "a \<noteq> PStopped" "a = PStopCall \<Longrightarrow> spPc p' = Waiting"
proof -
  have live: "pool_live p" and act: "active_workers p > 0" using b by (simp_all add: busy_pool_def)
  have run: "spPc p' = Unlocked \<longrightarrow> spRunning p'" and st: "a = PStopCall \<longrightarrow> spPc p' = Waiting"
    using step
  proof (atomize (full), cases rule: safe_pool_step.cases)
    case (sp_work k w g a' w' cbs' now)
    then have "p' = fst (fold (safe_callback now) cbs' (put_started k w' g p, []))" by (metis fst_conv)
    with sp_work(1) b show "(spPc p' = Unlocked \<longrightarrow> spRunning p') \<and> (a = PStopCall \<longrightarrow> spPc p' = Waiting)"
      by (simp add: safe_callbacks_keep put_started_def busy_pool_def)
  qed (use b in \<open>auto simp: busy_pool_def begin_start_def launch_worker_def finish_start_def begin_stop_def stop_turn_def
        safe_pool_get_stats_def upd_pool_stats_def put_started_def Let_def split: option.splits if_splits\<close>)
  show "busy_pool p'" using run pool_step_live [OF step live] active_grows(1) [OF step live] act
    by (simp add: busy_pool_def)
  show "a \<noteq> PStopped" using active_grows(3) [OF step live] act by auto
  show "a = PStopCall \<Longrightarrow> spPc p' = Waiting" using st by blast
qed

text \<open>\<open>Stop\<close> has the pool at place \<open>i\<close> before it.\<close>

definition stop_pending :: "nat \<Rightarrow> 'm safe_manager \<Rightarrow> bool" where
  "stop_pending i tm = (case smStop tm of NoStop \<Rightarrow> False | StopPools js \<Rightarrow> i \<in> set js | StopIn j js \<Rightarrow> i = j \<or> i \<in> set js
     | StopLoop \<Rightarrow> False)"

definition stuck_on :: "nat \<Rightarrow> 'm safe_manager \<Rightarrow> bool" where
  "stuck_on i tm = (i < length (smHeap tm) \<and> busy_pool (smHeap tm ! i) \<and> stop_pending i tm)"

lemma manager_callbacks_keep:
  "smHeap (fst (fold (manager_safe_callback now) cbs r)) = smHeap (fst r) \<and>
   smStop (fst (fold (manager_safe_callback now) cbs r)) = smStop (fst r) \<and>
   smPools (fst (fold (manager_safe_callback now) cbs r)) = smPools (fst r)"
proof (induction cbs arbitrary: r)
  case (Cons cb cbs)
  have "smHeap (fst (manager_safe_callback now cb r)) = smHeap (fst r) \<and>
      smStop (fst (manager_safe_callback now cb r)) = smStop (fst r) \<and>
      smPools (fst (manager_safe_callback now cb r)) = smPools (fst r)"
    by (cases r; cases cb) (simp_all add: manager_handle_trade_def manager_handle_error_def upd_manager_stats_def)
  with Cons.IH show ?case by simp
qed simp

lemma create_safe_pools_heap:
  "\<exists>ps. smHeap (create_safe_pools data exs tm) = smHeap tm @ ps \<and> smStop (create_safe_pools data exs tm) = smStop tm"
proof -
  have one: "\<exists>ps. smHeap (create_safe_pool data x tm) = smHeap tm @ ps \<and> smStop (create_safe_pool data x tm) = smStop tm"
    for x and tm :: "'a safe_manager"
    by (cases x) (simp add: create_safe_pool_def upd_manager_stats_def Let_def split: option.split)
  have "\<exists>ps. smHeap (fold (create_safe_pool data) xs tm) = smHeap tm @ ps \<and> smStop (fold (create_safe_pool data) xs tm) = smStop tm"
    for xs and tm :: "'a safe_manager"
  proof (induction xs arbitrary: tm)
    case (Cons x xs)
    then show ?case using one [of x tm] by (metis append.assoc fold_simps(2))
  qed simp
  then show ?thesis by (simp add: create_safe_pools_def)
qed

lemma update_pools_busy:
  "i < length heap \<Longrightarrow> busy_pool (heap ! i) \<Longrightarrow>
     length (snd (update_pools js heap)) = length heap \<and> busy_pool (snd (update_pools js heap) ! i)"
proof (induction js heap rule: update_pools.induct)
  case (2 j js heap)
  obtain st p where s: "safe_pool_get_stats (heap ! j) = (st, p)" by (cases "safe_pool_get_stats (heap ! j)")
  then have "busy_pool p" if "busy_pool (heap ! j)"
    using that by (auto simp: safe_pool_get_stats_def upd_pool_stats_def busy_pool_def pool_live_def Let_def)
  then have b: "busy_pool (heap[j := p] ! i)" using 2(3,4) by (cases "i = j") simp_all
  show ?case
  proof (cases "safe_pool_is_running (heap ! j)")
    case True
    then show ?thesis using 2(1) [OF True s [symmetric] refl] b 2(3) s by (simp add: case_prod_beta Let_def)
  next
    case False
    then show ?thesis using 2(2) [OF False 2(3,4)] by simp
  qed
qed simp

lemma safe_stuck_step:
  assumes "safe_manager_step parse tm a (tm', cbs)" "stuck_on i tm"
  shows "stuck_on i tm'" "a \<noteq> MStopped"
proof -
  have "stuck_on i tm' \<and> a \<noteq> MStopped"
    using assms(1)
  proof (cases rule: safe_manager_step.cases)
    case (sm_start now data exs ord)
    obtain ps where "smHeap (create_safe_pools data exs (upd_manager_stats (\<lambda>st. st\<lparr>hsUptime := unix_nano now\<rparr>) (tm\<lparr>smRunning := True\<rparr>)))
        = smHeap tm @ ps"
        "smStop (create_safe_pools data exs (upd_manager_stats (\<lambda>st. st\<lparr>hsUptime := unix_nano now\<rparr>) (tm\<lparr>smRunning := True\<rparr>))) = smStop tm"
      using create_safe_pools_heap [of data exs "upd_manager_stats (\<lambda>st. st\<lparr>hsUptime := unix_nano now\<rparr>) (tm\<lparr>smRunning := True\<rparr>)"]
      by (auto simp: upd_manager_stats_def)
    with sm_start assms(2) show ?thesis
      by (auto simp: begin_safe_manager_def stuck_on_def stop_pending_def Let_def nth_append)
  next
    case (sm_pool j act p pcbs tm1 now)
    have "tm' = fst (fold (manager_safe_callback now) pcbs (tm1\<lparr>smHeap := (smHeap tm)[j := p]\<rparr>, []))"
      by (simp only: sm_pool(2) [symmetric] fst_conv)
    then have heap: "smHeap tm' = (smHeap tm)[j := p]" and stop: "smStop tm' = smStop tm1"
      using manager_callbacks_keep [of now pcbs "(tm1\<lparr>smHeap := (smHeap tm)[j := p]\<rparr>, [])"]
      by simp_all
    have busy: "busy_pool ((smHeap tm)[j := p] ! i)"
      using safe_pool_step_busy(1) [OF sm_pool(4)] assms(2) sm_pool(3) by (cases "i = j") (auto simp: stuck_on_def)
    have ji: "j = i \<Longrightarrow> act \<noteq> PStopped \<and> (act = PStopCall \<longrightarrow> spPc p = Waiting)"
      using safe_pool_step_busy(2,3) [OF sm_pool(4)] assms(2) by (auto simp: stuck_on_def)
    have "stop_pending i tm1"
      using sm_pool(5) ji assms(2)
      by (cases act) (auto simp: stuck_on_def stop_pending_def split: start_pc.splits stop_pc.splits list.splits if_splits)
    with heap stop busy assms(2) sm_pool(1) show ?thesis by (simp add: stuck_on_def stop_pending_def)
  next
    case sm_stats
    with update_pools_busy [of i "smHeap tm" "map snd (smPools tm)"] assms(2) show ?thesis
      by (auto simp: update_pool_stats_def stuck_on_def stop_pending_def upd_manager_stats_def split: prod.splits)
  qed (use assms(2) in \<open>auto simp: stuck_on_def stop_pending_def\<close>)
  then show "stuck_on i tm'" "a \<noteq> MStopped" by blast+
qed

lemma safe_stuck_run: "runs (manager_quiet parse) tm as tm' \<Longrightarrow> stuck_on i tm \<Longrightarrow> MStopped \<notin> set as \<and> stuck_on i tm'"
proof (induction as arbitrary: tm)
  case (Cons a as)
  then obtain tm1 where tm1: "manager_quiet parse tm a tm1" "runs (manager_quiet parse) tm1 as tm'" by auto
  then obtain cbs where s: "safe_manager_step parse tm a (tm1, cbs)" by (auto simp: manager_quiet_def)
  show ?case using safe_stuck_step [OF s Cons.prems(2)] Cons.IH [OF tm1(2)] by simp
qed simp


text \<open>The pools of the map are in the heap, and every pool of the heap is live.\<close>

definition manager_live :: "'m safe_manager \<Rightarrow> bool" where
  "manager_live tm = ((\<forall>i\<in>snd ` set (smPools tm). i < length (smHeap tm)) \<and> (\<forall>p\<in>set (smHeap tm). pool_live p))"

lemma mput_values: "snd ` set (mput k v m) \<subseteq> insert v (snd ` set m)"
  by (induction m) auto

lemma create_safe_pool_live: "manager_live tm \<Longrightarrow> manager_live (create_safe_pool data x tm)"
proof (cases x)
  case (Pair ex mt)
  assume l: "manager_live tm"
  have "\<forall>i\<in>snd ` set (mput k (length (smHeap tm)) (smPools tm)). i < Suc (length (smHeap tm))" for k
    using l mput_values [of k "length (smHeap tm)" "smPools tm"] by (fastforce simp: manager_live_def)
  with l Pair show ?thesis
    by (auto simp: create_safe_pool_def manager_live_def upd_manager_stats_def Let_def new_pool_live split: option.split)
qed

lemma create_safe_pools_live: "manager_live tm \<Longrightarrow> manager_live (create_safe_pools data exs tm)"
proof -
  have "manager_live tm \<Longrightarrow> manager_live (fold (create_safe_pool data) xs tm)" for xs
    by (induction xs arbitrary: tm) (simp_all add: create_safe_pool_live)
  then show "manager_live tm \<Longrightarrow> manager_live (create_safe_pools data exs tm)" by (simp add: create_safe_pools_def)
qed

lemma update_pools_live:
  "\<forall>p\<in>set heap. pool_live p \<Longrightarrow> \<forall>i\<in>set js. i < length heap \<Longrightarrow>
     length (snd (update_pools js heap)) = length heap \<and> (\<forall>p\<in>set (snd (update_pools js heap)). pool_live p)"
proof (induction js heap rule: update_pools.induct)
  case (2 j js heap)
  obtain st p where s: "safe_pool_get_stats (heap ! j) = (st, p)" by (cases "safe_pool_get_stats (heap ! j)")
  have "pool_live (heap ! j)" using 2(3,4) by simp
  then have "pool_live p" using s by (auto simp: safe_pool_get_stats_def upd_pool_stats_def pool_live_def Let_def)
  then have l: "\<forall>q\<in>set (heap[j := p]). pool_live q" using 2(3) set_update_subset_insert [of heap j p] by blast
  show ?case
  proof (cases "safe_pool_is_running (heap ! j)")
    case True
    then show ?thesis using 2(1) [OF True s [symmetric] refl] l 2(4) s by (simp add: case_prod_beta Let_def)
  next
    case False
    then show ?thesis using 2(2) [OF False 2(3)] 2(4) by simp
  qed
qed simp

lemma manager_control_keeps:
  "manager_control a i p tm = Some tm1 \<Longrightarrow> smPools tm1 = smPools tm \<and> smHeap tm1 = smHeap tm \<and> smRunning tm1 = smRunning tm"
  by (cases a) (auto split: start_pc.splits stop_pc.splits list.splits if_splits)

lemma manager_step_live:
  assumes "safe_manager_step parse tm a (tm', cbs)" "manager_live tm"
  shows "manager_live tm'"
  using assms(1)
proof (cases rule: safe_manager_step.cases)
  case (sm_start now data exs ord)
  then show ?thesis using assms(2) create_safe_pools_live [of "upd_manager_stats (\<lambda>st. st\<lparr>hsUptime := unix_nano now\<rparr>) (tm\<lparr>smRunning := True\<rparr>)"]
    by (auto simp: begin_safe_manager_def Let_def manager_live_def upd_manager_stats_def)
next
  case (sm_pool j act p pcbs tm1 now)
  have "tm' = fst (fold (manager_safe_callback now) pcbs (tm1\<lparr>smHeap := (smHeap tm)[j := p]\<rparr>, []))"
    by (simp only: sm_pool(2) [symmetric] fst_conv)
  then have "smHeap tm' = (smHeap tm)[j := p]" "smPools tm' = smPools tm"
    using manager_callbacks_keep [of now pcbs "(tm1\<lparr>smHeap := (smHeap tm)[j := p]\<rparr>, [])"] manager_control_keeps [OF sm_pool(5)]
    by simp_all
  moreover have "pool_live p" using pool_step_live [OF sm_pool(4)] assms(2) sm_pool(3) by (simp add: manager_live_def)
  ultimately show ?thesis using assms(2) set_update_subset_insert [of "smHeap tm" j p] by (auto simp: manager_live_def)
next
  case sm_stats
  with update_pools_live [of "smHeap tm" "map snd (smPools tm)"] assms(2) show ?thesis
    by (auto simp: update_pool_stats_def manager_live_def upd_manager_stats_def split: prod.splits)
qed (use assms(2) in \<open>fastforce simp: manager_live_def begin_stop_manager_def stop_manager_turn_def split: if_splits\<close>)+

lemma manager_run_live: "runs (manager_quiet parse) tm as tm' \<Longrightarrow> manager_live tm \<Longrightarrow> manager_live tm'"
  using manager_step_live by (elim runs_invariant) (auto simp: manager_quiet_def)

text \<open>When \<open>Stop\<close> of the safe task manager is called while a pool of its map has an active worker, and has been
  started and not stopped, it never returns: no run from there has its return.\<close>

theorem safe_manager_never_stops:
  assumes "runs (manager_quiet parse) (manager_set_on_error (manager_set_on_trade_event (new_safe_manager cfg))) as tm"
    and "smRunning tm" "smStop tm = NoStop" "mget (smPools tm) k = Some i"
    and "active_workers (smHeap tm ! i) \<noteq> 0" "spPc (smHeap tm ! i) = Unlocked \<Longrightarrow> spRunning (smHeap tm ! i)"
    and "iter_order ord" "runs (manager_quiet parse) tm (MStop ord # bs) tm'"
  shows "MStopped \<notin> set bs"
proof -
  have "manager_live (manager_set_on_error (manager_set_on_trade_event (new_safe_manager cfg)) :: 'a safe_manager)"
    by (simp add: manager_live_def manager_set_on_error_def manager_set_on_trade_event_def new_safe_manager_def)
  from manager_run_live [OF assms(1) this] have l: "manager_live tm" .
  have k: "(k, i) \<in> set (smPools tm)" using assms(4) by (simp add: map_of_SomeD)
  then have i: "i < length (smHeap tm)" using l by (force simp: manager_live_def)
  then have "pool_live (smHeap tm ! i)" using l by (simp add: manager_live_def)
  then have b: "busy_pool (smHeap tm ! i)" using assms(5,6) by (auto simp: busy_pool_def pool_live_def)
  obtain tm1 where tm1: "manager_quiet parse tm (MStop ord) tm1" "runs (manager_quiet parse) tm1 bs tm'" using assms(8) by auto
  then have "tm1 = begin_stop_manager ord tm" by (auto simp: manager_quiet_def elim: safe_manager_step.cases)
  moreover have "i \<in> set (map snd (ord (smPools tm)))"
    using k assms(7) by (force simp: iter_order_def dest: mset_eq_setD)
  ultimately have "stuck_on i tm1" using assms(2) i b by (simp add: stuck_on_def stop_pending_def begin_stop_manager_def)
  with safe_stuck_run [OF tm1(2)] show ?thesis by blast
qed


section \<open>A sample run\<close>

text \<open>Only Gate is enabled, and its symbols are the default ones.\<close>

definition exchange_switch :: "bool \<Rightarrow> exchange_config" where
  "exchange_switch b = \<lparr>ecEnabled = b, ecSpotEndpoint = [], ecFuturesEndpoint = [], ecMaxSymbols = 50, ecRetryCooldown = 0,
     ecMaxRetries = 3, ecConnectionTimeout = 0, ecReadTimeout = 0, ecWriteTimeout = 0\<rparr>"

definition only_gate :: exchanges_config where
  "only_gate = \<lparr>cfgBinance = exchange_switch False, cfgBybit = exchange_switch False, cfgOKX = exchange_switch False,
     cfgKuCoin = exchange_switch False, cfgPhemex = exchange_switch False, cfgGate = exchange_switch True\<rparr>"

abbreviation gate_manager :: "nat safe_manager" where
  "gate_manager \<equiv> manager_set_on_error (manager_set_on_trade_event (new_safe_manager only_gate))"

definition gate_pool :: "string \<Rightarrow> nat safe_pool" where
  "gate_pool mt = pool_set_on_error (pool_set_on_trade_event
     (new_safe_pool ''gate'' mt [''BTC_USDT'', ''ETH_USDT'', ''SOL_USDT''] (safe_config_of (exchange_switch True))))"

lemma gate_pool_fields:
  "spPc (gate_pool mt) = Unlocked" "\<not> spRunning (gate_pool mt)" "spCount (gate_pool mt) = 1" "spStarted (gate_pool mt) = []"
  "distribute_symbols (gate_pool mt) = [[''BTC_USDT'', ''ETH_USDT'', ''SOL_USDT'']]"
  "create_safe_connector (gate_pool mt) \<noteq> None" "active_workers (gate_pool mt) = 0"
  by (simp_all add: gate_pool_def pool_set_on_error_def pool_set_on_trade_event_def new_safe_pool_def distribute_symbols_def
      max_symbols_of_def safe_worker_count_def Let_def safe_config_of_def exchange_switch_def create_safe_connector_def
      new_connector_def)

definition gate_started :: "nat safe_manager" where
  "gate_started = snd (begin_safe_manager 0 None [''gate'', ''okx'', ''binance'', ''bybit'', ''phemex'', ''kucoin''] id gate_manager)"

lemma gate_started_fields:
  "smStart gate_started = StartKeys [''gate_spot'', ''gate_futures'']" "smPools gate_started = [(''gate_spot'', 0), (''gate_futures'', 1)]"
  "smHeap gate_started = [gate_pool ''spot'', gate_pool ''futures'']" "smRunning gate_started" "smStop gate_started = NoStop"
  by (simp_all add: gate_started_def begin_safe_manager_def create_safe_pools_def create_safe_pool_def exchange_config_of_def
      manager_set_on_error_def manager_set_on_trade_event_def new_safe_manager_def only_gate_def exchange_switch_def
      symbols_of_pool_def default_symbols_def upd_manager_stats_def gate_pool_def mkeys_def Let_def)

lemma manager_pool_quiet:
  "i < length (smHeap tm) \<Longrightarrow> safe_pool_step parse (smHeap tm ! i) a (p, []) \<Longrightarrow> manager_control a i p tm = Some tm1 \<Longrightarrow>
     manager_quiet parse tm (MPool i a 0) (tm1\<lparr>smHeap := (smHeap tm)[i := p]\<rparr>)"
  using sm_pool [of i tm parse a p "[]" tm1 0] by (auto simp: manager_quiet_def)

lemma gate_manager_runs:
  "\<exists>tm. runs (manager_quiet one_trade) gate_manager
       [MStart 0 None [''gate'', ''okx'', ''binance'', ''bybit'', ''phemex'', ''kucoin''] id, MPool 0 PStartCall 0, MPool 0 PLaunch 0,
        MPool 0 PStarted 0, MPool 0 (PGo 0) 0] tm \<and>
     smRunning tm \<and> smStop tm = NoStop \<and> smPools tm = [(''gate_spot'', 0), (''gate_futures'', 1)] \<and>
     length (smHeap tm) = 2 \<and> active_workers (smHeap tm ! 0) = 1 \<and> spPc (smHeap tm ! 0) = Unlocked \<and> spRunning (smHeap tm ! 0)"
proof -
  obtain p1 p2 p3 p4 where p: "safe_pool_step one_trade (gate_pool ''spot'') PStartCall (p1, [])"
      "safe_pool_step one_trade p1 PLaunch (p2, [])" "safe_pool_step one_trade p2 PStarted (p3, [])"
      "safe_pool_step one_trade p3 (PGo 0) (p4, [])" "spPc p1 \<noteq> Unlocked" "spPc p4 = Unlocked" "spRunning p4" "active_workers p4 = 1"
    using one_worker_begins [of "gate_pool ''spot''" _ one_trade] gate_pool_fields [of "''spot''"] by blast
  let ?other = "gate_pool ''futures''"
  let ?t1 = "gate_started\<lparr>smStart := StartIn 0 [''gate_futures''], smHeap := [p1, ?other]\<rparr>"
  let ?t2 = "?t1\<lparr>smHeap := [p2, ?other]\<rparr>"
  let ?t3 = "?t2\<lparr>smStart := StartKeys [''gate_futures''], smHeap := [p3, ?other]\<rparr>"
  let ?t4 = "?t3\<lparr>smHeap := [p4, ?other]\<rparr>"
  have s0: "manager_quiet one_trade gate_manager (MStart 0 None [''gate'', ''okx'', ''binance'', ''bybit'', ''phemex'', ''kucoin''] id) gate_started"
    using sm_start [of gate_manager one_trade 0 None "[''gate'', ''okx'', ''binance'', ''bybit'', ''phemex'', ''kucoin'']" id]
    by (auto simp: manager_quiet_def gate_started_def manager_set_on_error_def manager_set_on_trade_event_def new_safe_manager_def)
  have s1: "manager_quiet one_trade gate_started (MPool 0 PStartCall 0) ?t1"
    using manager_pool_quiet [of 0 gate_started one_trade PStartCall p1] p gate_started_fields by simp
  have s2: "manager_quiet one_trade ?t1 (MPool 0 PLaunch 0) ?t2"
    using manager_pool_quiet [of 0 ?t1 one_trade PLaunch p2] p by simp
  have s3: "manager_quiet one_trade ?t2 (MPool 0 PStarted 0) ?t3"
    using manager_pool_quiet [of 0 ?t2 one_trade PStarted p3] p by simp
  have s4: "manager_quiet one_trade ?t3 (MPool 0 (PGo 0) 0) ?t4"
    using manager_pool_quiet [of 0 ?t3 one_trade "PGo 0" p4] p by simp
  have "runs (manager_quiet one_trade) gate_manager
       [MStart 0 None [''gate'', ''okx'', ''binance'', ''bybit'', ''phemex'', ''kucoin''] id, MPool 0 PStartCall 0, MPool 0 PLaunch 0,
        MPool 0 PStarted 0, MPool 0 (PGo 0) 0] ?t4"
    unfolding runs.simps using s0 s1 s2 s3 s4 by blast
  moreover have "smRunning ?t4 \<and> smStop ?t4 = NoStop \<and> smPools ?t4 = [(''gate_spot'', 0), (''gate_futures'', 1)] \<and>
     length (smHeap ?t4) = 2 \<and> active_workers (smHeap ?t4 ! 0) = 1 \<and> spPc (smHeap ?t4 ! 0) = Unlocked \<and> spRunning (smHeap ?t4 ! 0)"
    using p(6-8) gate_started_fields by simp
  ultimately show ?thesis by blast
qed

theorem safe_manager_never_stops_witness:
  "\<exists>as tm tm'. runs (manager_quiet one_trade) gate_manager as tm \<and> mget (smPools tm) ''gate_spot'' = Some 0 \<and>
     active_workers (smHeap tm ! 0) = 1 \<and>
     runs (manager_quiet one_trade) tm [MStop id, MPool 0 PStopCall 0, MPool 0 PStopTurn 0] tm' \<and>
     MStopped \<notin> set [MPool 0 PStopCall 0, MPool 0 PStopTurn 0 :: nat safe_manager_action]"
proof -
  obtain as tm where tm: "runs (manager_quiet one_trade) gate_manager as tm" "smRunning tm" "smStop tm = NoStop"
      "smPools tm = [(''gate_spot'', 0), (''gate_futures'', 1)]" "length (smHeap tm) = 2" "active_workers (smHeap tm ! 0) = 1"
      "spPc (smHeap tm ! 0) = Unlocked" "spRunning (smHeap tm ! 0)"
    using gate_manager_runs by blast
  let ?p = "begin_stop (smHeap tm ! 0)"
  let ?t1 = "begin_stop_manager id tm"
  let ?t2 = "?t1\<lparr>smStop := StopIn 0 [1], smHeap := (smHeap tm)[0 := ?p]\<rparr>"
  have p: "spPc ?p = Waiting" "active_workers ?p = 1" using tm by (simp_all add: begin_stop_def)
  have t1: "smStop ?t1 = StopPools [0, 1]" "smHeap ?t1 = smHeap tm" using tm by (simp_all add: begin_stop_manager_def)
  have "manager_quiet one_trade tm (MStop id) ?t1" using sm_stop [OF tm(3), of one_trade id] by (auto simp: manager_quiet_def)
  moreover have "safe_pool_step one_trade (smHeap tm ! 0) PStopCall (?p, [])" using tm(7) by (rule sp_stop)
  then have "manager_quiet one_trade ?t1 (MPool 0 PStopCall 0) ?t2"
    using manager_pool_quiet [of 0 ?t1 one_trade PStopCall ?p] p t1 tm(5) by simp
  moreover have "safe_pool_step one_trade ?p PStopTurn (?p, [])" using p by (intro sp_turn) (simp_all add: stop_turn_def)
  then have "manager_quiet one_trade ?t2 (MPool 0 PStopTurn 0) ?t2"
    using manager_pool_quiet [of 0 ?t2 one_trade PStopTurn ?p] tm(5) by simp
  ultimately have run: "runs (manager_quiet one_trade) tm [MStop id, MPool 0 PStopCall 0, MPool 0 PStopTurn 0] ?t2"
    unfolding runs.simps by blast
  have "MStopped \<notin> set [MPool 0 PStopCall 0, MPool 0 PStopTurn 0 :: nat safe_manager_action]"
    by (rule safe_manager_never_stops [OF tm(1-3) _ _ _ iter_order_id run, where k = "''gate_spot''" and i = 0]) (use tm in simp_all)
  moreover have "mget (smPools tm) ''gate_spot'' = Some 0" using tm(4) by simp
  ultimately show ?thesis using tm(1,6) run by blast
qed

end
