(* ===== verification/ConfigManager.thy ===== *)
theory ConfigManager
  imports SymbolModel GoTime
begin

text \<open>
  The file behind the symbol configuration, \<open>internal/config/yaml_manager.go\<close>: loading with
  defaults, the write to a temporary file that is then renamed, automatic saving, detection of
  external changes, export, import, backup and restore.  Configurations live in a heap, because
  the manager and the filter service of \<open>internal/sync\<close> share one of them by pointer.  The YAML
  codec and the outcome of each system call are arguments.
\<close>

section \<open>The library and the system around the manager\<close>

text \<open>\<open>yaml.Marshal\<close>, and \<open>yaml.Unmarshal\<close> into a value that already has contents.\<close>

record 'b codec =
  marshal :: "symbols_config \<Rightarrow> 'b option"
  unmarshal :: "'b \<Rightarrow> symbols_config \<Rightarrow> symbols_config option"
  byteLen :: "'b \<Rightarrow> nat"

text \<open>\<open>os.WriteFile\<close> succeeds, fails to open the file, or stops in the middle.\<close>

datatype 'b file_write = Wrote | NotOpened string | ShortWrite string 'b

record 'b sys_calls =
  ioNow :: gotime
  statErr :: "string option"
  readErr :: "string option"
  mkdirErr :: "string option"
  writeRes :: "'b file_write"
  ioMtime :: gotime
  renameErr :: "string option"
  removeOk :: bool
  reStatOk :: bool

datatype yaml_error =
    StatFailed string | FileMissing | ReadFailed string | ParseFailed | InvalidConfig config_error
  | MkdirFailed string | MarshalFailed | TempWriteFailed string | RenameFailed string
  | ExportWriteFailed string | BackupFailed yaml_error | RestoreFailed yaml_error

section \<open>State\<close>

text \<open>The heap of configurations, the files with their modification times, and the fields of
  \<open>YAMLConfigManager\<close>.  A ticker is named by its number; \<open>saversStarting\<close> counts the goroutines of
  \<open>StartAutoSave\<close> that have not yet evaluated \<open>ycm.autoSaveTimer.C\<close>, \<open>saversOn\<close> lists the tickers
  the others wait for.\<close>

record 'b yaml_world =
  configs :: "symbols_config list"
  fileMap :: "(string, 'b \<times> gotime) gomap"
  configPath :: string
  configPtr :: nat
  autoSaveTimer :: "nat option"
  lastModified :: gotime
  tickersMade :: nat
  saversStarting :: nat
  saversOn :: "nat list"
  nilTicker :: bool

definition config_of :: "('b, 'z) yaml_world_scheme \<Rightarrow> symbols_config" where
  "config_of w = configs w ! configPtr w"

definition modify_config ::
  "(symbols_config \<Rightarrow> symbols_config) \<Rightarrow> ('b, 'z) yaml_world_scheme \<Rightarrow> ('b, 'z) yaml_world_scheme" where
  "modify_config f w = w\<lparr>configs := (configs w)[configPtr w := f (config_of w)]\<rparr>"

text \<open>A new configuration on the heap, with the manager's pointer on it.\<close>

definition adopt_config :: "symbols_config \<Rightarrow> ('b, 'z) yaml_world_scheme \<Rightarrow> ('b, 'z) yaml_world_scheme" where
  "adopt_config sc w = w\<lparr>configs := configs w @ [sc], configPtr := length (configs w)\<rparr>"

definition put_bytes :: "string \<Rightarrow> 'b \<Rightarrow> gotime \<Rightarrow> ('b, 'z) yaml_world_scheme \<Rightarrow> ('b, 'z) yaml_world_scheme" where
  "put_bytes p data t w = w\<lparr>fileMap := mput p (data, t) (fileMap w)\<rparr>"

definition bytes_at :: "string \<Rightarrow> ('b, 'z) yaml_world_scheme \<Rightarrow> 'b option" where
  "bytes_at p w = map_option fst (mget (fileMap w) p)"

definition new_yaml_manager ::
  "gotime \<Rightarrow> string \<Rightarrow> (string, 'b \<times> gotime) gomap \<Rightarrow> 'b yaml_world" where
  "new_yaml_manager now p fs =
     \<lparr>configs = [new_symbols_config now], fileMap = fs, configPath = p, configPtr = 0,
      autoSaveTimer = None, lastModified = zero_time, tickersMade = 0, saversStarting = 0,
      saversOn = [], nilTicker = False\<rparr>"

section \<open>Saving\<close>

definition yaml_tmp :: "('b, 'z) yaml_world_scheme \<Rightarrow> string" where
  "yaml_tmp w = configPath w @ ''.tmp''"

definition rename_tmp :: "'b \<Rightarrow> 'b sys_calls \<Rightarrow> ('b, 'z) yaml_world_scheme \<Rightarrow>
    yaml_error option \<times> ('b, 'z) yaml_world_scheme" where
  "rename_tmp data io w =
     (case renameErr io of
        Some e \<Rightarrow>
          (Some (RenameFailed e), if removeOk io then w\<lparr>fileMap := mdel (yaml_tmp w) (fileMap w)\<rparr> else w)
      | None \<Rightarrow>
          (let moved = w\<lparr>fileMap := mput (configPath w) (data, ioMtime io) (mdel (yaml_tmp w) (fileMap w))\<rparr>
           in (None, if reStatOk io then moved\<lparr>lastModified := ioMtime io\<rparr> else moved)))"

definition write_tmp :: "'b \<Rightarrow> 'b sys_calls \<Rightarrow> ('b, 'z) yaml_world_scheme \<Rightarrow>
    yaml_error option \<times> ('b, 'z) yaml_world_scheme" where
  "write_tmp data io w =
     (case writeRes io of
        NotOpened e \<Rightarrow> (Some (TempWriteFailed e), w)
      | ShortWrite e part \<Rightarrow> (Some (TempWriteFailed e), put_bytes (yaml_tmp w) part (ioMtime io) w)
      | Wrote \<Rightarrow> rename_tmp data io (put_bytes (yaml_tmp w) data (ioMtime io) w))"

definition yaml_save :: "'b codec \<Rightarrow> 'b sys_calls \<Rightarrow> ('b, 'z) yaml_world_scheme \<Rightarrow>
    yaml_error option \<times> ('b, 'z) yaml_world_scheme" where
  "yaml_save c io w =
     (case mkdirErr io of
        Some e \<Rightarrow> (Some (MkdirFailed e), w)
      | None \<Rightarrow>
          (let w1 = modify_config (\<lambda>sc. sc\<lparr>UpdatedAt := ioNow io\<rparr>) w
           in case marshal c (config_of w1) of
                None \<Rightarrow> (Some MarshalFailed, w1)
              | Some data \<Rightarrow> write_tmp data io w1))"

section \<open>Loading\<close>

text \<open>What \<open>LoadConfig\<close>, \<open>ImportConfig\<close> and \<open>ValidateConfigFile\<close> do with the bytes of a file.\<close>

definition decode_config :: "'b codec \<Rightarrow> gotime \<Rightarrow> 'b \<Rightarrow> yaml_error + symbols_config" where
  "decode_config c now data =
     (case unmarshal c data (new_symbols_config now) of
        None \<Rightarrow> Inl ParseFailed
      | Some sc \<Rightarrow>
          (case validate_strict sc of Some e \<Rightarrow> Inl (InvalidConfig e) | None \<Rightarrow> Inr sc))"

definition read_config :: "'b codec \<Rightarrow> 'b sys_calls \<Rightarrow> string \<Rightarrow> ('b, 'z) yaml_world_scheme \<Rightarrow>
    yaml_error + symbols_config" where
  "read_config c io p w =
     (case readErr io of
        Some e \<Rightarrow> Inl (ReadFailed e)
      | None \<Rightarrow>
          (case bytes_at p w of
             None \<Rightarrow> Inl FileMissing
           | Some data \<Rightarrow> decode_config c (ioNow io) data))"

definition yaml_load :: "'b codec \<Rightarrow> 'b sys_calls \<Rightarrow> ('b, 'z) yaml_world_scheme \<Rightarrow>
    yaml_error option \<times> ('b, 'z) yaml_world_scheme" where
  "yaml_load c io w =
     (case mget (fileMap w) (configPath w) of
        None \<Rightarrow> yaml_save c io (modify_config (initialize_with_defaults (ioNow io)) w)
      | Some (data, mtime) \<Rightarrow>
          (case statErr io of
             Some e \<Rightarrow> (Some (StatFailed e), w)
           | None \<Rightarrow>
               (let w1 = w\<lparr>lastModified := mtime\<rparr>
                in case read_config c io (configPath w) w1 of
                     Inl e \<Rightarrow> (Some e, w1)
                   | Inr sc \<Rightarrow> (None, adopt_config sc w1))))"

definition yaml_update :: "'b codec \<Rightarrow> 'b sys_calls \<Rightarrow> nat \<Rightarrow> ('b, 'z) yaml_world_scheme \<Rightarrow>
    yaml_error option \<times> ('b, 'z) yaml_world_scheme" where
  "yaml_update c io ptr w =
     (case validate_strict (configs w ! ptr) of
        Some e \<Rightarrow> (Some (InvalidConfig e), w)
      | None \<Rightarrow> yaml_save c io (w\<lparr>configPtr := ptr\<rparr>))"

section \<open>External changes\<close>

definition check_file_change :: "'b sys_calls \<Rightarrow> ('b, 'z) yaml_world_scheme \<Rightarrow> yaml_error + bool" where
  "check_file_change io w =
     (case mget (fileMap w) (configPath w) of
        None \<Rightarrow> Inl FileMissing
      | Some (_, mtime) \<Rightarrow>
          (case statErr io of
             Some e \<Rightarrow> Inl (StatFailed e)
           | None \<Rightarrow> Inr (mtime > lastModified w)))"

definition reload_if_changed :: "'b codec \<Rightarrow> 'b sys_calls \<Rightarrow> ('b, 'z) yaml_world_scheme \<Rightarrow>
    yaml_error option \<times> ('b, 'z) yaml_world_scheme" where
  "reload_if_changed c io w =
     (case check_file_change io w of
        Inl e \<Rightarrow> (Some e, w)
      | Inr changed \<Rightarrow> if changed then yaml_load c io w else (None, w))"

section \<open>Automatic saving\<close>

definition start_auto_save :: "('b, 'z) yaml_world_scheme \<Rightarrow> ('b, 'z) yaml_world_scheme" where
  "start_auto_save w =
     w\<lparr>autoSaveTimer := Some (tickersMade w), tickersMade := tickersMade w + 1,
       saversStarting := saversStarting w + 1\<rparr>"

text \<open>The goroutine of \<open>StartAutoSave\<close> reaches its loop and reads the timer: a nil one panics.\<close>

definition saver_enters_loop :: "('b, 'z) yaml_world_scheme \<Rightarrow> ('b, 'z) yaml_world_scheme" where
  "saver_enters_loop w =
     (if saversStarting w = 0 then w
      else case autoSaveTimer w of
        None \<Rightarrow> w\<lparr>saversStarting := saversStarting w - 1, nilTicker := True\<rparr>
      | Some t \<Rightarrow> w\<lparr>saversStarting := saversStarting w - 1, saversOn := t # saversOn w\<rparr>)"

text \<open>Five minutes pass on a ticker.  A stopped ticker, replaced in the field, never fires.\<close>

definition auto_save_tick :: "'b codec \<Rightarrow> 'b sys_calls \<Rightarrow> ('b, 'z) yaml_world_scheme \<Rightarrow> ('b, 'z) yaml_world_scheme" where
  "auto_save_tick c io w =
     (case autoSaveTimer w of
        None \<Rightarrow> w
      | Some t \<Rightarrow> if t \<in> set (saversOn w) then snd (yaml_save c io w) else w)"

definition stop_auto_save :: "('b, 'z) yaml_world_scheme \<Rightarrow> ('b, 'z) yaml_world_scheme" where
  "stop_auto_save w = w\<lparr>autoSaveTimer := None\<rparr>"

section \<open>Export, import, backup, restore\<close>

definition write_export :: "'b \<Rightarrow> 'b sys_calls \<Rightarrow> string \<Rightarrow> ('b, 'z) yaml_world_scheme \<Rightarrow>
    yaml_error option \<times> ('b, 'z) yaml_world_scheme" where
  "write_export data io p w =
     (case mkdirErr io of
        Some e \<Rightarrow> (Some (MkdirFailed e), w)
      | None \<Rightarrow>
          (case writeRes io of
             NotOpened e \<Rightarrow> (Some (ExportWriteFailed e), w)
           | ShortWrite e part \<Rightarrow> (Some (ExportWriteFailed e), put_bytes p part (ioMtime io) w)
           | Wrote \<Rightarrow> (None, put_bytes p data (ioMtime io) w)))"

definition export_config :: "'b codec \<Rightarrow> 'b sys_calls \<Rightarrow> string \<Rightarrow> ('b, 'z) yaml_world_scheme \<Rightarrow>
    yaml_error option \<times> ('b, 'z) yaml_world_scheme" where
  "export_config c io p w =
     (case marshal c (config_of w) of
        None \<Rightarrow> (Some MarshalFailed, w)
      | Some data \<Rightarrow> write_export data io p w)"

definition import_config :: "'b codec \<Rightarrow> 'b sys_calls \<Rightarrow> string \<Rightarrow> ('b, 'z) yaml_world_scheme \<Rightarrow>
    yaml_error option \<times> ('b, 'z) yaml_world_scheme" where
  "import_config c io p w =
     (case read_config c io p w of
        Inl e \<Rightarrow> (Some e, w)
      | Inr sc \<Rightarrow> yaml_save c io (adopt_config sc w))"

text \<open>\<open>off\<close> is the offset of the local time zone in seconds.\<close>

definition backup_path :: "int \<Rightarrow> gotime \<Rightarrow> string \<Rightarrow> string" where
  "backup_path off now p = p @ ''.backup_'' @ format_stamp off now"

definition backup_config :: "'b codec \<Rightarrow> int \<Rightarrow> 'b sys_calls \<Rightarrow> ('b, 'z) yaml_world_scheme \<Rightarrow>
    (yaml_error + string) \<times> ('b, 'z) yaml_world_scheme" where
  "backup_config c off io w =
     (let p = backup_path off (ioNow io) (configPath w)
      in case export_config c io p w of
           (Some e, w1) \<Rightarrow> (Inl (BackupFailed e), w1)
         | (None, w1) \<Rightarrow> (Inr p, w1))"

definition restore_from_backup :: "'b codec \<Rightarrow> int \<Rightarrow> 'b sys_calls \<Rightarrow> 'b sys_calls \<Rightarrow> string \<Rightarrow>
    ('b, 'z) yaml_world_scheme \<Rightarrow> yaml_error option \<times> ('b, 'z) yaml_world_scheme" where
  "restore_from_backup c off io1 io2 p w =
     (case import_config c io2 p (snd (backup_config c off io1 w)) of
        (Some e, w1) \<Rightarrow> (Some (RestoreFailed e), w1)
      | (None, w1) \<Rightarrow> (None, w1))"

section \<open>Summary, template, file check\<close>

record config_summary =
  csVersion :: string
  csLastUpdated :: gotime
  csFilePath :: string
  csFileSize :: nat
  csTotalExchanges :: nat
  csTotalUpbitKRWSymbols :: nat
  csTotalSpotSymbols :: nat
  csTotalFuturesSymbols :: nat
  csTotalSubscriptions :: nat

definition yaml_file_size :: "'b codec \<Rightarrow> 'b sys_calls \<Rightarrow> ('b, 'z) yaml_world_scheme \<Rightarrow> nat" where
  "yaml_file_size c io w =
     (case statErr io of
        Some _ \<Rightarrow> 0
      | None \<Rightarrow> (case bytes_at (configPath w) w of Some data \<Rightarrow> byteLen c data | None \<Rightarrow> 0))"

definition get_config_summary :: "'b codec \<Rightarrow> 'b sys_calls \<Rightarrow> ('b, 'z) yaml_world_scheme \<Rightarrow> config_summary" where
  "get_config_summary c io w =
     (let sc = config_of w; stats = get_symbol_stats sc
      in \<lparr>csVersion = scVersion sc, csLastUpdated = UpdatedAt sc, csFilePath = configPath w,
          csFileSize = yaml_file_size c io w, csTotalExchanges = TotalExchanges stats,
          csTotalUpbitKRWSymbols = TotalUpbitKRWSymbols stats, csTotalSpotSymbols = TotalSpotSymbols stats,
          csTotalFuturesSymbols = TotalFuturesSymbols stats, csTotalSubscriptions = TotalSubscriptions stats\<rparr>)"

definition template_config ::
  "((string, exchange_symbols) gomap \<Rightarrow> (string, exchange_symbols) gomap) \<Rightarrow> gotime \<Rightarrow> symbols_config" where
  "template_config ord now =
     (let sc0 = initialize_with_defaults now (new_symbols_config now);
          sc1 = sc0\<lparr>UpbitKRWSymbols := [''BTC'', ''ETH'', ''XRP'', ''ADA'', ''DOT'']\<rparr>;
          sc2 = (case mget (Exchanges sc1) ''binance'' of
                   None \<Rightarrow> sc1
                 | Some cfg \<Rightarrow>
                     sc1\<lparr>Exchanges := mput ''binance''
                       (cfg\<lparr>SpotSymbols := [''BTCUSDT'', ''ETHUSDT'', ''SOLUSDT''],
                            FuturesSymbols := [''BTCUSDT'', ''ETHUSDT'', ''SOLUSDT'']\<rparr>) (Exchanges sc1)\<rparr>)
      in generate_lists_simple ord now sc2)"

definition write_config_template :: "'b codec \<Rightarrow>
    ((string, exchange_symbols) gomap \<Rightarrow> (string, exchange_symbols) gomap) \<Rightarrow> 'b sys_calls \<Rightarrow> string \<Rightarrow>
    ('b, 'z) yaml_world_scheme \<Rightarrow> yaml_error option \<times> ('b, 'z) yaml_world_scheme" where
  "write_config_template c ord io p w =
     (case marshal c (template_config ord (ioNow io)) of
        None \<Rightarrow> (Some MarshalFailed, w)
      | Some data \<Rightarrow> write_export data io p w)"

definition validate_config_file :: "'b codec \<Rightarrow> 'b sys_calls \<Rightarrow> string \<Rightarrow> ('b, 'z) yaml_world_scheme \<Rightarrow>
    yaml_error option" where
  "validate_config_file c io p w =
     (case read_config c io p w of Inl e \<Rightarrow> Some e | Inr _ \<Rightarrow> None)"

end
