(* ===== verification/SymbolSync.thy ===== *)
theory SymbolSync
  imports ConfigManager
begin

text \<open>
  The filter service of \<open>internal/sync/symbol_filter.go\<close>: one round fetches Upbit's won markets and
  the symbol lists of the six exchanges, writes them into the shared configuration and regenerates
  the subscription lists.  The HTTP replies and the JSON decoders are arguments.
\<close>

section \<open>The addresses (\<open>models.DefaultExchangeAPIConfigs\<close>)\<close>

record exchange_api =
  SpotSymbolsAPI :: string
  FuturesSymbolsAPI :: string
  RateLimit :: int

definition default_exchange_apis :: "(string, exchange_api) gomap" where
  "default_exchange_apis =
     [(''binance'', \<lparr>SpotSymbolsAPI = ''https://api.binance.com/api/v3/exchangeInfo'',
         FuturesSymbolsAPI = ''https://fapi.binance.com/fapi/v1/exchangeInfo'', RateLimit = 1 * second\<rparr>),
      (''bybit'', \<lparr>SpotSymbolsAPI = ''https://api.bybit.com/v5/market/instruments-info?category=spot'',
         FuturesSymbolsAPI = ''https://api.bybit.com/v5/market/instruments-info?category=linear'',
         RateLimit = 1 * second\<rparr>),
      (''kucoin'', \<lparr>SpotSymbolsAPI = ''https://api.kucoin.com/api/v1/symbols'',
         FuturesSymbolsAPI = ''https://api-futures.kucoin.com/api/v1/contracts/active'',
         RateLimit = 1 * second\<rparr>),
      (''okx'', \<lparr>SpotSymbolsAPI = ''https://www.okx.com/api/v5/public/instruments?instType=SPOT'',
         FuturesSymbolsAPI = ''https://www.okx.com/api/v5/public/instruments?instType=FUTURES'',
         RateLimit = 1 * second\<rparr>),
      (''phemex'', \<lparr>SpotSymbolsAPI = ''https://api.phemex.com/exchange/public/cfg/v2/products'',
         FuturesSymbolsAPI = ''https://api.phemex.com/exchange/public/cfg/v2/products'',
         RateLimit = 2 * second\<rparr>),
      (''gate'', \<lparr>SpotSymbolsAPI = ''https://api.gateio.ws/api/v4/spot/currency_pairs'',
         FuturesSymbolsAPI = ''https://api.gateio.ws/api/v4/futures/usdt/contracts'',
         RateLimit = 1 * second\<rparr>)]"

section \<open>Replies and their decoders\<close>

text \<open>The outcome of \<open>httpClient.Get\<close> and of reading the body.\<close>

datatype 'j http = CallFailed string | Responded int "string + 'j"

datatype fetch_error =
    ApiCallFailed string | HttpStatus int | BodyReadFailed string | JsonParseFailed string
  | UnsupportedExchange string

text \<open>The rows of the anonymous structs the parsers decode into.\<close>

record status_row =
  srSymbol :: string
  srStatus :: string

record kucoin_row =
  krSymbol :: string
  krEnableTrading :: bool

record okx_row =
  orInstId :: string
  orState :: string

record phemex_row =
  prSymbol :: string
  prStatus :: string
  prType :: string

record gate_row =
  grID :: string
  grTradeStatus :: string

record contract_row =
  crName :: string
  crInDelisting :: bool

text \<open>\<open>json.Unmarshal\<close> at each of these types: the error or the rows.\<close>

record 'j decoders =
  decMarkets :: "'j \<Rightarrow> string + string list"
  decBinance :: "'j \<Rightarrow> string + status_row list"
  decBybit :: "'j \<Rightarrow> string + status_row list"
  decKucoinSpot :: "'j \<Rightarrow> string + kucoin_row list"
  decKucoinFutures :: "'j \<Rightarrow> string + status_row list"
  decOkx :: "'j \<Rightarrow> string + okx_row list"
  decPhemex :: "'j \<Rightarrow> string + phemex_row list"
  decGateSpot :: "'j \<Rightarrow> string + gate_row list"
  decGateFutures :: "'j \<Rightarrow> string + contract_row list"

text \<open>The steps every fetch begins with.\<close>

definition fetch_body :: "'j http \<Rightarrow> fetch_error + 'j" where
  "fetch_body r =
     (case r of
        CallFailed e \<Rightarrow> Inl (ApiCallFailed e)
      | Responded code body \<Rightarrow>
          if code \<noteq> 200 then Inl (HttpStatus code)
          else (case body of Inl e \<Rightarrow> Inl (BodyReadFailed e) | Inr b \<Rightarrow> Inr b))"

text \<open>Decode, then keep and convert row by row.\<close>

definition parse_rows ::
  "('j \<Rightarrow> string + 'r list) \<Rightarrow> ('r \<Rightarrow> bool) \<Rightarrow> ('r \<Rightarrow> string) \<Rightarrow> 'j \<Rightarrow> fetch_error + string list" where
  "parse_rows dec keep conv body =
     (case dec body of
        Inl e \<Rightarrow> Inl (JsonParseFailed e)
      | Inr rows \<Rightarrow> Inr (map conv (filter keep rows)))"

section \<open>The parsers\<close>

definition parse_binance_symbols :: "'j decoders \<Rightarrow> 'j \<Rightarrow> fetch_error + string list" where
  "parse_binance_symbols d =
     parse_rows (decBinance d) (\<lambda>r. srStatus r = ''TRADING'' \<and> has_suffix (srSymbol r) ''USDT'') srSymbol"

definition parse_bybit_symbols :: "'j decoders \<Rightarrow> 'j \<Rightarrow> fetch_error + string list" where
  "parse_bybit_symbols d =
     parse_rows (decBybit d) (\<lambda>r. srStatus r = ''Trading'' \<and> has_suffix (srSymbol r) ''USDT'') srSymbol"

definition parse_kucoin_symbols :: "'j decoders \<Rightarrow> string \<Rightarrow> 'j \<Rightarrow> fetch_error + string list" where
  "parse_kucoin_symbols d mt =
     (if mt = ''spot''
      then parse_rows (decKucoinSpot d) (\<lambda>r. krEnableTrading r \<and> has_suffix (krSymbol r) ''-USDT'')
             (\<lambda>r. replace_all (krSymbol r) ''-'' [])
      else parse_rows (decKucoinFutures d) (\<lambda>r. srStatus r = ''Open'' \<and> has_suffix (srSymbol r) ''USDTM'')
             (\<lambda>r. replace_all (srSymbol r) ''USDTM'' ''USDT''))"

definition parse_okx_symbols :: "'j decoders \<Rightarrow> 'j \<Rightarrow> fetch_error + string list" where
  "parse_okx_symbols d =
     parse_rows (decOkx d) (\<lambda>r. orState r = ''live'' \<and> has_suffix (orInstId r) ''-USDT'')
       (\<lambda>r. replace_all (orInstId r) ''-'' [])"

definition phemex_wanted :: "string \<Rightarrow> phemex_row \<Rightarrow> bool" where
  "phemex_wanted mt r =
     (prStatus r = ''Listed'' \<and>
      (if mt = ''spot'' \<and> prType r = ''Spot'' then has_suffix (prSymbol r) ''USDT''
       else mt = ''futures'' \<and> prType r = ''Perpetual'' \<and> has_suffix (prSymbol r) ''USD''))"

definition parse_phemex_symbols :: "'j decoders \<Rightarrow> string \<Rightarrow> 'j \<Rightarrow> fetch_error + string list" where
  "parse_phemex_symbols d mt =
     parse_rows (decPhemex d) (phemex_wanted mt)
       (\<lambda>r. if mt = ''spot'' \<and> prType r = ''Spot'' then prSymbol r
            else replace_all (prSymbol r) ''USD'' ''USDT'')"

definition parse_gate_symbols :: "'j decoders \<Rightarrow> string \<Rightarrow> 'j \<Rightarrow> fetch_error + string list" where
  "parse_gate_symbols d mt =
     (if mt = ''spot''
      then parse_rows (decGateSpot d) (\<lambda>r. grTradeStatus r = ''tradable'' \<and> has_suffix (grID r) ''_usdt'')
             (\<lambda>r. to_upper (replace_all (grID r) ''_'' []))
      else parse_rows (decGateFutures d) (\<lambda>r. \<not> crInDelisting r \<and> has_suffix (crName r) ''_USDT'')
             (\<lambda>r. replace_all (crName r) ''_'' []))"

section \<open>Fetching\<close>

text \<open>\<open>web mt url\<close> is the outcome of the request for market \<open>mt\<close> to that address.\<close>

definition parse_symbol_body :: "'j decoders \<Rightarrow> string \<Rightarrow> string \<Rightarrow> 'j \<Rightarrow> fetch_error + string list" where
  "parse_symbol_body d ex mt body =
     (if ex = ''binance'' then parse_binance_symbols d body
      else if ex = ''bybit'' then parse_bybit_symbols d body
      else if ex = ''kucoin'' then parse_kucoin_symbols d mt body
      else if ex = ''okx'' then parse_okx_symbols d body
      else if ex = ''phemex'' then parse_phemex_symbols d mt body
      else if ex = ''gate'' then parse_gate_symbols d mt body
      else Inl (UnsupportedExchange ex))"

definition fetch_symbols_from_api ::
  "'j decoders \<Rightarrow> (string \<Rightarrow> string \<Rightarrow> 'j http) \<Rightarrow> string \<Rightarrow> string \<Rightarrow> string \<Rightarrow> fetch_error + string list" where
  "fetch_symbols_from_api d web ex mt url =
     (case fetch_body (web mt url) of Inl e \<Rightarrow> Inl e | Inr body \<Rightarrow> parse_symbol_body d ex mt body)"

definition upbit_markets_url :: string where
  "upbit_markets_url = ''https://api.upbit.com/v1/market/all''"

definition fetch_upbit_krw_symbols ::
  "'j decoders \<Rightarrow> (string \<Rightarrow> string \<Rightarrow> 'j http) \<Rightarrow> fetch_error + string list" where
  "fetch_upbit_krw_symbols d web =
     (case fetch_body (web ''upbit'' upbit_markets_url) of
        Inl e \<Rightarrow> Inl e
      | Inr body \<Rightarrow>
          parse_rows (decMarkets d) (\<lambda>m. has_prefix m ''KRW-'') (\<lambda>m. trim_prefix m ''KRW-'') body)"

text \<open>An address that is empty is not asked; a failed fetch leaves the nil slice.\<close>

definition fetch_or_nil ::
  "'j decoders \<Rightarrow> (string \<Rightarrow> string \<Rightarrow> 'j http) \<Rightarrow> string \<Rightarrow> string \<Rightarrow> string \<Rightarrow> string list" where
  "fetch_or_nil d web ex mt url =
     (if url = [] then [] else case fetch_symbols_from_api d web ex mt url of Inl _ \<Rightarrow> [] | Inr l \<Rightarrow> l)"

definition sync_exchange_symbols ::
  "'j decoders \<Rightarrow> (string \<Rightarrow> string \<Rightarrow> 'j http) \<Rightarrow> gotime \<Rightarrow> string \<Rightarrow> symbols_config \<Rightarrow>
     fetch_error option \<times> symbols_config" where
  "sync_exchange_symbols d web now ex sc =
     (case mget default_exchange_apis ex of
        None \<Rightarrow> (Some (UnsupportedExchange ex), sc)
      | Some api \<Rightarrow>
          (None, update_exchange_symbols now ex
             (fetch_or_nil d web ex ''spot'' (SpotSymbolsAPI api))
             (fetch_or_nil d web ex ''futures'' (FuturesSymbolsAPI api)) sc))"

section \<open>One round\<close>

type_synonym sync_clock = "(string, gotime) gomap"

text \<open>The body of the loop over \<open>models.DefaultExchangeConfigs\<close>; \<open>clk ex\<close> is the time at which the
  exchange is done.\<close>

definition sync_one ::
  "'j decoders \<Rightarrow> (string \<Rightarrow> string \<Rightarrow> 'j http) \<Rightarrow> (string \<Rightarrow> gotime) \<Rightarrow> string \<Rightarrow>
     sync_clock \<times> symbols_config \<Rightarrow> sync_clock \<times> symbols_config" where
  "sync_one d web clk ex st =
     (case sync_exchange_symbols d web (clk ex) ex (snd st) of
        (Some _, sc) \<Rightarrow> (fst st, sc)
      | (None, sc) \<Rightarrow> (mput ex (clk ex) (fst st), sc))"

text \<open>The orders \<open>ordE\<close> and \<open>ordC\<close> are those of the two map iterations; \<open>now\<close> is the time of the
  first and the last write.\<close>

definition sync_all_symbols ::
  "'j decoders \<Rightarrow> (string \<Rightarrow> string \<Rightarrow> 'j http) \<Rightarrow> (string \<Rightarrow> gotime) \<Rightarrow> gotime \<Rightarrow>
     ((string, exchange_symbols) gomap \<Rightarrow> (string, exchange_symbols) gomap) \<Rightarrow>
     ((string, exchange_symbols) gomap \<Rightarrow> (string, exchange_symbols) gomap) \<Rightarrow>
     sync_clock \<times> symbols_config \<Rightarrow> fetch_error option \<times> sync_clock \<times> symbols_config" where
  "sync_all_symbols d web clk now ordE ordC st =
     (case fetch_upbit_krw_symbols d web of
        Inl e \<Rightarrow> (Some e, st)
      | Inr krw \<Rightarrow>
          (let (ls, sc) = fold (sync_one d web clk) (mkeys (ordE default_exchange_configs))
                            (fst st, set_upbit_krw_symbols now krw (snd st))
           in (None, ls, generate_lists_simple ordC now sc)))"

definition needs_sync :: "gotime \<Rightarrow> string \<Rightarrow> sync_clock \<Rightarrow> bool" where
  "needs_sync now ex ls = (case mget ls ex of None \<Rightarrow> True | Some t \<Rightarrow> now - t > 24 * hour)"

end
