(* ===== verification/SymbolCoordinator.thy ===== *)
theory SymbolCoordinator
  imports SymbolSync
begin

text \<open>
  The coordinator of \<open>internal/sync/symbol_coordinator.go\<close>: it owns the YAML manager, makes a filter
  service over the manager's configuration for every round, saves the result, and repeats this every
  24 hours.  The service holds the configuration by pointer, so what a round writes is what the
  manager saves.
\<close>

section \<open>State\<close>

datatype coord_error =
    AlreadyRunning | SyncFailed fetch_error | SaveFailed yaml_error | DefaultsNotSaved yaml_error
  | YamlError yaml_error

datatype coord_callback =
    CalledOnUpdate symbols_config | CalledOnError coord_error | CalledOnSyncComplete symbol_stats

record 'b coordinator = "'b yaml_world" +
  coordPath :: string
  filterPtr :: "nat option"
  filterClock :: sync_clock
  updateTimer :: "nat option"
  updateTickersMade :: nat
  loopsStarting :: nat
  loopsOn :: "nat list"
  isRunning :: bool
  hasOnUpdate :: bool
  hasOnError :: bool
  hasOnSyncComplete :: bool
  callbackLog :: "coord_callback list"

text \<open>\<open>absPath\<close> is the result of \<open>filepath.Abs\<close>; its error falls back to the given path.\<close>

definition new_coordinator ::
  "string option \<Rightarrow> gotime \<Rightarrow> string \<Rightarrow> (string, 'b \<times> gotime) gomap \<Rightarrow> 'b coordinator" where
  "new_coordinator absPath now p fs =
     (let path = (case absPath of Some a \<Rightarrow> a | None \<Rightarrow> p)
      in yaml_world.extend (new_yaml_manager now path fs)
           \<lparr>coordPath = path, filterPtr = None, filterClock = [], updateTimer = None,
            updateTickersMade = 0, loopsStarting = 0, loopsOn = [], isRunning = False,
            hasOnUpdate = False, hasOnError = False, hasOnSyncComplete = False, callbackLog = []\<rparr>)"

definition set_callbacks :: "bool \<Rightarrow> bool \<Rightarrow> bool \<Rightarrow> 'b coordinator \<Rightarrow> 'b coordinator" where
  "set_callbacks u e s co = co\<lparr>hasOnUpdate := u, hasOnError := e, hasOnSyncComplete := s\<rparr>"

text \<open>\<open>NewSymbolFilterService\<close> over the manager's configuration: a fresh, empty sync clock.\<close>

definition new_filter_service :: "'b coordinator \<Rightarrow> 'b coordinator" where
  "new_filter_service co = co\<lparr>filterPtr := Some (configPtr co), filterClock := []\<rparr>"

definition call_back :: "bool \<Rightarrow> coord_callback \<Rightarrow> 'b coordinator \<Rightarrow> 'b coordinator" where
  "call_back set_cb cb co = (if set_cb then co\<lparr>callbackLog := callbackLog co @ [cb]\<rparr> else co)"

definition filter_config :: "'b coordinator \<Rightarrow> symbols_config option" where
  "filter_config co = map_option (\<lambda>p. configs co ! p) (filterPtr co)"

section \<open>Operations\<close>

definition coord_initialize ::
  "'b codec \<Rightarrow> 'b sys_calls \<Rightarrow> 'b sys_calls \<Rightarrow> 'b coordinator \<Rightarrow> coord_error option \<times> 'b coordinator" where
  "coord_initialize c io1 io2 co =
     (let ready = (\<lambda>co. start_auto_save (new_filter_service co))
      in case yaml_load c io1 co of
           (None, co1) \<Rightarrow> (None, ready co1)
         | (Some _, co1) \<Rightarrow>
             (let defaults = initialize_with_defaults (ioNow io2) (new_symbols_config (ioNow io2));
                  co2 = co1\<lparr>configs := configs co1 @ [defaults]\<rparr>
              in case yaml_update c io2 (length (configs co1)) co2 of
                   (Some e, co3) \<Rightarrow> (Some (DefaultsNotSaved e), co3)
                 | (None, co3) \<Rightarrow> (None, ready co3)))"

text \<open>What one round meets outside: the system calls of the reload and of the save, the exchanges,
  the clock, and the orders of the two map iterations.\<close>

record ('b, 'j) round_env =
  ioReload :: "'b sys_calls"
  ioSave :: "'b sys_calls"
  decoders :: "'j decoders"
  web :: "string \<Rightarrow> string \<Rightarrow> 'j http"
  clockOf :: "string \<Rightarrow> gotime"
  roundNow :: gotime
  ordExchanges :: "(string, exchange_symbols) gomap \<Rightarrow> (string, exchange_symbols) gomap"
  ordConfig :: "(string, exchange_symbols) gomap \<Rightarrow> (string, exchange_symbols) gomap"

definition run_round :: "('b, 'j) round_env \<Rightarrow> symbols_config \<Rightarrow> fetch_error option \<times> sync_clock \<times> symbols_config" where
  "run_round e sc =
     sync_all_symbols (decoders e) (web e) (clockOf e) (roundNow e) (ordExchanges e) (ordConfig e) ([], sc)"

definition sync_now ::
  "'b codec \<Rightarrow> ('b, 'j) round_env \<Rightarrow> 'b coordinator \<Rightarrow> coord_error option \<times> 'b coordinator" where
  "sync_now c e co =
     (let co1 = new_filter_service (snd (reload_if_changed c (ioReload e) co))
      in case run_round e (config_of co1) of
           (Some err, _) \<Rightarrow> (Some (SyncFailed err), co1)
         | (None, ls, sc) \<Rightarrow>
             (let co2 = modify_config (\<lambda>_. sc) (co1\<lparr>filterClock := ls\<rparr>)
              in case yaml_update c (ioSave e) (configPtr co2) co2 of
                   (Some err, co3) \<Rightarrow> (Some (SaveFailed err), co3)
                 | (None, co3) \<Rightarrow>
                     (None, call_back (hasOnSyncComplete co3) (CalledOnSyncComplete (get_symbol_stats (config_of co3)))
                        (call_back (hasOnUpdate co3) (CalledOnUpdate (config_of co3)) co3))))"

text \<open>A round whose error goes to \<open>onError\<close>: the first one in \<open>Start\<close>, the later ones in the loop.\<close>

definition sync_reporting :: "'b codec \<Rightarrow> ('b, 'j) round_env \<Rightarrow> 'b coordinator \<Rightarrow> 'b coordinator" where
  "sync_reporting c e co =
     (case sync_now c e co of
        (None, co1) \<Rightarrow> co1
      | (Some err, co1) \<Rightarrow> call_back (hasOnError co1) (CalledOnError err) co1)"

definition coord_start ::
  "'b codec \<Rightarrow> ('b, 'j) round_env \<Rightarrow> 'b coordinator \<Rightarrow> coord_error option \<times> 'b coordinator" where
  "coord_start c e co =
     (if isRunning co then (Some AlreadyRunning, co)
      else let co1 = sync_reporting c e co
           in (None, co1\<lparr>updateTimer := Some (updateTickersMade co1),
                         updateTickersMade := updateTickersMade co1 + 1, isRunning := True,
                         loopsStarting := loopsStarting co1 + 1\<rparr>))"

text \<open>The goroutine \<open>autoSyncLoop\<close> reaches its loop and reads the timer: a nil one panics.\<close>

definition loop_enters :: "'b coordinator \<Rightarrow> 'b coordinator" where
  "loop_enters co =
     (if loopsStarting co = 0 then co
      else case updateTimer co of
        None \<Rightarrow> co\<lparr>loopsStarting := loopsStarting co - 1, nilTicker := True\<rparr>
      | Some t \<Rightarrow> co\<lparr>loopsStarting := loopsStarting co - 1, loopsOn := t # loopsOn co\<rparr>)"

text \<open>24 hours pass on the ticker.\<close>

definition auto_sync_tick :: "'b codec \<Rightarrow> ('b, 'j) round_env \<Rightarrow> 'b coordinator \<Rightarrow> 'b coordinator" where
  "auto_sync_tick c e co =
     (case updateTimer co of
        None \<Rightarrow> co
      | Some t \<Rightarrow> if t \<in> set (loopsOn co) then sync_reporting c e co else co)"

definition coord_stop :: "'b coordinator \<Rightarrow> 'b coordinator" where
  "coord_stop co =
     (if \<not> isRunning co then co else (stop_auto_save (co\<lparr>updateTimer := None\<rparr>))\<lparr>isRunning := False\<rparr>)"

text \<open>After a restore or an import that succeeded.\<close>

definition adopt_and_report :: "yaml_error option \<times> 'b coordinator \<Rightarrow> coord_error option \<times> 'b coordinator" where
  "adopt_and_report r =
     (case r of
        (Some e, co1) \<Rightarrow> (Some (YamlError e), co1)
      | (None, co1) \<Rightarrow>
          (let co2 = new_filter_service co1
           in (None, call_back (hasOnUpdate co2) (CalledOnUpdate (config_of co2)) co2)))"

definition coord_restore ::
  "'b codec \<Rightarrow> int \<Rightarrow> 'b sys_calls \<Rightarrow> 'b sys_calls \<Rightarrow> string \<Rightarrow> 'b coordinator \<Rightarrow> coord_error option \<times> 'b coordinator" where
  "coord_restore c off io1 io2 p co = adopt_and_report (restore_from_backup c off io1 io2 p co)"

definition coord_import ::
  "'b codec \<Rightarrow> 'b sys_calls \<Rightarrow> string \<Rightarrow> 'b coordinator \<Rightarrow> coord_error option \<times> 'b coordinator" where
  "coord_import c io p co = adopt_and_report (import_config c io p co)"

section \<open>Queries\<close>

definition coord_filtered_symbols :: "string \<Rightarrow> string \<Rightarrow> 'b coordinator \<Rightarrow> string list" where
  "coord_filtered_symbols ex mt co =
     (case filter_config co of None \<Rightarrow> [] | Some sc \<Rightarrow> subscription_list_simple ex mt sc)"

definition coord_stats :: "'b coordinator \<Rightarrow> symbol_stats" where
  "coord_stats co =
     (case filter_config co of
        None \<Rightarrow> \<lparr>TotalExchanges = 0, TotalUpbitKRWSymbols = 0, TotalSpotSymbols = 0,
                  TotalFuturesSymbols = 0, TotalSubscriptions = 0, ssLastUpdated = zero_time\<rparr>
      | Some sc \<Rightarrow> get_symbol_stats sc)"

definition coord_needs_update :: "gotime \<Rightarrow> string \<Rightarrow> 'b coordinator \<Rightarrow> bool" where
  "coord_needs_update now ex co =
     (case filterPtr co of None \<Rightarrow> True | Some _ \<Rightarrow> needs_sync now ex (filterClock co))"

definition coord_upbit_symbols :: "'b coordinator \<Rightarrow> string list" where
  "coord_upbit_symbols co = UpbitKRWSymbols (config_of co)"

definition coord_exchange_symbols :: "string \<Rightarrow> 'b coordinator \<Rightarrow> string list \<times> string list" where
  "coord_exchange_symbols ex co =
     (case mget (Exchanges (config_of co)) ex of
        None \<Rightarrow> ([], [])
      | Some cfg \<Rightarrow> (SpotSymbols cfg, FuturesSymbols cfg))"

definition coord_all_exchanges :: "'b coordinator \<Rightarrow> string list" where
  "coord_all_exchanges co = mkeys (Exchanges (config_of co))"

definition coord_validate :: "'b coordinator \<Rightarrow> config_error option" where
  "coord_validate co = validate_strict (config_of co)"

record health_status =
  hsIsRunning :: bool
  hsLastUpdate :: gotime
  hsConfigPath :: string
  hsTotalExchanges :: nat
  hsTotalSubscriptions :: nat
  hsConfigFileSize :: nat
  hsHasActiveTimer :: bool
  hsNextSyncTime :: gotime

definition next_sync_time :: "'b codec \<Rightarrow> 'b sys_calls \<Rightarrow> 'b coordinator \<Rightarrow> gotime" where
  "next_sync_time c io co =
     (if \<not> isRunning co \<or> updateTimer co = None then zero_time
      else csLastUpdated (get_config_summary c io co) + 24 * hour)"

definition get_health_status :: "'b codec \<Rightarrow> 'b sys_calls \<Rightarrow> 'b coordinator \<Rightarrow> health_status" where
  "get_health_status c io co =
     (let stats = coord_stats co; summary = get_config_summary c io co
      in \<lparr>hsIsRunning = isRunning co, hsLastUpdate = csLastUpdated summary, hsConfigPath = coordPath co,
          hsTotalExchanges = TotalExchanges stats, hsTotalSubscriptions = TotalSubscriptions stats,
          hsConfigFileSize = csFileSize summary, hsHasActiveTimer = (updateTimer co \<noteq> None),
          hsNextSyncTime = next_sync_time c io co\<rparr>)"

section \<open>Runs\<close>

text \<open>What can happen to an initialised coordinator: its operations, its timers, its goroutines,
  the manager's exports, and somebody writing a file.\<close>

datatype ('b, 'j) coord_event =
    StartCalled "('b, 'j) round_env" | StopCalled | SyncCalled "('b, 'j) round_env"
  | SyncTick "('b, 'j) round_env" | SaveTick "'b sys_calls" | SaverEnters | LoopEnters
  | BackupCalled int "'b sys_calls" | ExportCalled "'b sys_calls" string
  | RestoreCalled int "'b sys_calls" "'b sys_calls" string | ImportCalled "'b sys_calls" string
  | CallbacksSet bool bool bool | FileWritten string 'b gotime

fun coord_apply :: "'b codec \<Rightarrow> ('b, 'j) coord_event \<Rightarrow> 'b coordinator \<Rightarrow> 'b coordinator" where
  "coord_apply c (StartCalled e) co = snd (coord_start c e co)"
| "coord_apply c StopCalled co = coord_stop co"
| "coord_apply c (SyncCalled e) co = snd (sync_now c e co)"
| "coord_apply c (SyncTick e) co = auto_sync_tick c e co"
| "coord_apply c (SaveTick io) co = auto_save_tick c io co"
| "coord_apply c SaverEnters co = saver_enters_loop co"
| "coord_apply c LoopEnters co = loop_enters co"
| "coord_apply c (BackupCalled off io) co = snd (backup_config c off io co)"
| "coord_apply c (ExportCalled io p) co = snd (export_config c io p co)"
| "coord_apply c (RestoreCalled off io1 io2 p) co = snd (coord_restore c off io1 io2 p co)"
| "coord_apply c (ImportCalled io p) co = snd (coord_import c io p co)"
| "coord_apply c (CallbacksSet u e s) co = set_callbacks u e s co"
| "coord_apply c (FileWritten p data t) co = put_bytes p data t co"

definition coord_run :: "'b codec \<Rightarrow> ('b, 'j) coord_event list \<Rightarrow> 'b coordinator \<Rightarrow> 'b coordinator" where
  "coord_run c evs co = fold (coord_apply c) evs co"

end
