(* ===== verification/CoordinatorProps.thy ===== *)
theory CoordinatorProps
  imports SymbolCoordinator SymbolProps
begin

text \<open>
  What the symbol coordinator keeps: the configuration in memory and on disk stay valid through any
  run, a backup can be restored, and a round of synchronisation subscribes exactly the pairs whose
  coin Upbit does not list.
\<close>

section \<open>Validity\<close>

definition exchange_sound :: "exchange_symbols \<Rightarrow> bool" where
  "exchange_sound cfg =
     (\<not> (SpotEndpoint cfg = [] \<and> FuturesEndpoint cfg = []) \<and> MaxSymbolsPerConnection cfg > 0 \<and> MaxRetries cfg > 0)"

definition config_sound :: "symbols_config \<Rightarrow> bool" where
  "config_sound sc = (scVersion sc \<noteq> [] \<and> list_all (\<lambda>(_, cfg). exchange_sound cfg) (Exchanges sc))"

lemma validate_exchanges_strict_None:
  "validate_exchanges_strict m = None \<longleftrightarrow> list_all (\<lambda>(_, cfg). exchange_sound cfg) m"
  by (induction m rule: validate_exchanges_strict.induct) (auto simp: exchange_sound_def)

lemma validate_strict_None: "validate_strict sc = None \<longleftrightarrow> config_sound sc \<and> Exchanges sc \<noteq> []"
  by (auto simp: validate_strict_def config_sound_def validate_exchanges_strict_None)

lemma list_all_mput: "list_all P m \<Longrightarrow> P (k, v) \<Longrightarrow> list_all P (mput k v m)"
  by (induction m) auto

lemmas mput_not_Nil [simp] = length_mput

lemma exchange_sound_lists [simp]:
  "exchange_sound (cfg\<lparr>SpotSymbols := a, FuturesSymbols := b, esLastUpdated := t\<rparr>) = exchange_sound cfg"
  by (simp add: exchange_sound_def)

lemma sound_UpdatedAt [simp]: "config_sound (sc\<lparr>UpdatedAt := t\<rparr>) = config_sound sc"
  by (simp add: config_sound_def)

lemma sound_lists [simp]: "config_sound (sc\<lparr>SubscriptionLists := l\<rparr>) = config_sound sc"
  by (simp add: config_sound_def)

lemma sound_new [simp]: "config_sound (new_symbols_config now)"
  by (simp add: config_sound_def new_symbols_config_def)

lemma sound_upbit: "config_sound (set_upbit_krw_symbols now s sc) = config_sound sc"
  by (simp add: config_sound_def set_upbit_krw_symbols_def)

lemma upbit_exchanges [simp]: "Exchanges (set_upbit_krw_symbols now s sc) = Exchanges sc"
  by (simp add: set_upbit_krw_symbols_def)

lemma default_exchanges_sound: "list_all (\<lambda>(_, cfg). exchange_sound cfg) default_exchange_configs"
  by (simp add: default_exchange_configs_def mk_exchange_def exchange_sound_def)

lemma fold_mput_all:
  assumes "list_all P xs" "list_all P m" "\<And>k v. P (k, v) \<Longrightarrow> P (k, g v)"
  shows "list_all P (fold (\<lambda>(k, v). mput k (g v)) xs m)"
  using assms(1,2)
proof (induction xs arbitrary: m)
  case (Cons x xs)
  then show ?case using assms(3) by (cases x) (simp add: list_all_mput)
qed simp

lemma fold_mput_not_Nil: "xs \<noteq> [] \<or> m \<noteq> [] \<Longrightarrow> fold (\<lambda>(k, v). mput k (g v)) xs m \<noteq> []"
proof (induction xs arbitrary: m)
  case (Cons x xs)
  then show ?case by (cases x) simp
qed simp

lemma sound_defaults: "config_sound sc \<Longrightarrow> config_sound (initialize_with_defaults now sc)"
  unfolding config_sound_def initialize_with_defaults_def
  using default_exchanges_sound by (auto intro!: fold_mput_all)

lemma defaults_not_Nil [simp]: "Exchanges (initialize_with_defaults now sc) \<noteq> []"
  unfolding initialize_with_defaults_def
  by (simp add: fold_mput_not_Nil default_exchange_configs_def del: fold_simps)

lemma sound_update_exchange:
  assumes "config_sound sc"
  shows "config_sound (update_exchange_symbols now ex a b sc)"
proof (cases "mget (Exchanges sc) ex")
  case (Some cfg)
  then have "exchange_sound cfg"
    using assms by (auto simp: config_sound_def list_all_iff dest: map_of_SomeD)
  with Some assms show ?thesis
    by (simp add: config_sound_def update_exchange_symbols_def list_all_mput)
qed (use assms in \<open>simp add: update_exchange_symbols_def\<close>)

lemma update_exchange_Nil: "Exchanges (update_exchange_symbols now ex a b sc) = [] \<longleftrightarrow> Exchanges sc = []"
  by (auto simp: update_exchange_symbols_def split: option.splits)

lemma sound_generate [simp]: "config_sound (generate_lists_simple ord now sc) = config_sound sc"
  by (simp add: generate_lists_simple_def Let_def)

lemma generate_exchanges [simp]: "Exchanges (generate_lists_simple ord now sc) = Exchanges sc"
  by (simp add: generate_lists_simple_def Let_def)

section \<open>One round keeps the configuration valid\<close>

lemma sync_one_sound:
  "config_sound (snd st) \<Longrightarrow> config_sound (snd (sync_one d net clk ex st))"
  by (auto simp: sync_one_def sync_exchange_symbols_def sound_update_exchange split: option.splits)

lemma sync_one_Nil: "Exchanges (snd (sync_one d net clk ex st)) = [] \<longleftrightarrow> Exchanges (snd st) = []"
  by (auto simp: sync_one_def sync_exchange_symbols_def update_exchange_Nil split: option.splits)

lemma sync_loop_sound:
  "config_sound (snd st) \<Longrightarrow> config_sound (snd (fold (sync_one d net clk) exs st))"
  by (induction exs arbitrary: st) (auto simp: sync_one_sound)

lemma sync_loop_Nil:
  "Exchanges (snd (fold (sync_one d net clk) exs st)) = [] \<longleftrightarrow> Exchanges (snd st) = []"
  by (induction exs arbitrary: st) (auto simp: sync_one_Nil)

lemma run_round_valid:
  assumes "run_round e sc = (None, ls, sc')" and "validate_strict sc = None"
  shows "validate_strict sc' = None"
proof -
  obtain krw where krw: "fetch_upbit_krw_symbols (decoders e) (web e) = Inr krw"
    using assms(1) by (cases "fetch_upbit_krw_symbols (decoders e) (web e)")
      (auto simp: run_round_def sync_all_symbols_def)
  define st where "st = fold (sync_one (decoders e) (web e) (clockOf e))
    (mkeys (ordExchanges e default_exchange_configs)) ([], set_upbit_krw_symbols (roundNow e) krw sc)"
  have sc': "sc' = generate_lists_simple (ordConfig e) (roundNow e) (snd st)"
    using assms(1) krw by (auto simp: run_round_def sync_all_symbols_def st_def split: prod.splits)
  show ?thesis
    using assms(2) unfolding validate_strict_None sc' st_def
    by (simp add: sync_loop_sound sync_loop_Nil sound_upbit)
qed

section \<open>What every operation of the manager keeps\<close>

definition heap_ok :: "('b, 'z) yaml_world_scheme \<Rightarrow> bool" where
  "heap_ok w = (configPtr w < length (configs w) \<and> list_all config_sound (configs w) \<and>
     Exchanges (config_of w) \<noteq> [])"

text \<open>A complete encoding of a valid configuration.\<close>

definition full_encoding :: "'b codec \<Rightarrow> 'b option \<Rightarrow> bool" where
  "full_encoding c b = (\<exists>sc data. b = Some data \<and> marshal c sc = Some data \<and> validate_strict sc = None)"

definition keeps :: "'b codec \<Rightarrow> ('b, 'z) yaml_world_scheme \<Rightarrow> ('b, 'z) yaml_world_scheme \<Rightarrow> bool" where
  "keeps c w w' = (configPath w' = configPath w \<and>
     (heap_ok w \<longrightarrow> heap_ok w' \<and>
        (bytes_at (configPath w) w' = bytes_at (configPath w) w \<or> full_encoding c (bytes_at (configPath w) w'))))"

lemma keeps_refl [simp]: "keeps c w w"
  by (simp add: keeps_def)

lemma keeps_trans: "keeps c w w' \<Longrightarrow> keeps c w' w'' \<Longrightarrow> keeps c w w''"
  unfolding keeps_def by metis

lemma heap_ok_valid: "heap_ok w \<Longrightarrow> validate_strict (config_of w) = None"
  by (auto simp: heap_ok_def validate_strict_None config_of_def list_all_length)

lemma keeps_same:
  assumes "configs w' = configs w" "configPtr w' = configPtr w" "configPath w' = configPath w"
    "bytes_at (configPath w) w' = bytes_at (configPath w) w"
  shows "keeps c w w'"
  using assms by (simp add: keeps_def heap_ok_def config_of_def)

lemma config_of_modify [simp]:
  "configPtr w < length (configs w) \<Longrightarrow> config_of (modify_config f w) = f (config_of w)"
  by (simp add: config_of_def modify_config_def)

lemma keeps_modify:
  assumes "\<And>sc. config_sound sc \<Longrightarrow> Exchanges sc \<noteq> [] \<Longrightarrow> config_sound (f sc) \<and> Exchanges (f sc) \<noteq> []"
  shows "keeps c w (modify_config f w)"
proof -
  have "heap_ok (modify_config f w)" if ok: "heap_ok w"
  proof -
    have f: "config_sound (f (config_of w)) \<and> Exchanges (f (config_of w)) \<noteq> []"
      using assms heap_ok_valid [OF ok] by (simp add: validate_strict_None)
    have "list_all config_sound ((configs w)[configPtr w := f (config_of w)])"
      using ok f by (auto simp: heap_ok_def list_all_iff dest!: subsetD [OF set_update_subset_insert])
    then show ?thesis
      using ok f unfolding heap_ok_def by (simp add: modify_config_def config_of_def)
  qed
  then show ?thesis
    by (simp add: keeps_def modify_config_def bytes_at_def)
qed

lemma heap_ok_adopt: "heap_ok w \<Longrightarrow> validate_strict sc = None \<Longrightarrow> heap_ok (adopt_config sc w)"
  by (auto simp: heap_ok_def adopt_config_def config_of_def validate_strict_None)

lemma keeps_adopt: "validate_strict sc = None \<Longrightarrow> keeps c w (adopt_config sc w)"
  using heap_ok_adopt [of w sc] by (simp add: keeps_def) (simp add: adopt_config_def bytes_at_def)

lemma tmp_differs [simp]: "yaml_tmp w \<noteq> configPath w" "configPath w \<noteq> yaml_tmp w"
  by (simp_all add: yaml_tmp_def)

lemma heap_ok_cong:
  "configs w' = configs w \<Longrightarrow> configPtr w' = configPtr w \<Longrightarrow> heap_ok w' = heap_ok w"
  by (simp add: heap_ok_def config_of_def)

lemma keeps_write_tmp:
  assumes "heap_ok w \<Longrightarrow> full_encoding c (Some data)"
  shows "keeps c w (snd (write_tmp data io w))"
proof -
  have heap: "heap_ok (snd (write_tmp data io w)) = heap_ok w"
    by (rule heap_ok_cong) (auto simp: write_tmp_def rename_tmp_def put_bytes_def Let_def
        split: file_write.splits option.splits)
  have path: "configPath (snd (write_tmp data io w)) = configPath w"
    by (auto simp: write_tmp_def rename_tmp_def put_bytes_def Let_def split: file_write.splits option.splits)
  have "bytes_at (configPath w) (snd (write_tmp data io w)) \<in> {bytes_at (configPath w) w, Some data}"
    by (auto simp: write_tmp_def rename_tmp_def put_bytes_def Let_def bytes_at_def mget_mput mget_mdel
        yaml_tmp_def split: file_write.splits option.splits)
  with heap path assms show ?thesis
    by (auto simp: keeps_def)
qed

lemma keeps_stamp: "keeps c w (modify_config (\<lambda>sc. sc\<lparr>UpdatedAt := t\<rparr>) w)"
  by (rule keeps_modify) simp

lemma keeps_yaml_save: "keeps c w (snd (yaml_save c io w))"
proof (cases "mkdirErr io")
  case None
  define w1 where "w1 = modify_config (\<lambda>sc. sc\<lparr>UpdatedAt := ioNow io\<rparr>) w"
  have k1: "keeps c w w1"
    unfolding w1_def by (rule keeps_stamp)
  show ?thesis
  proof (cases "marshal c (config_of w1)")
    case None
    with \<open>mkdirErr io = None\<close> k1 show ?thesis by (simp add: yaml_save_def w1_def [symmetric] Let_def)
  next
    case (Some data)
    then have "keeps c w1 (snd (write_tmp data io w1))"
      by (intro keeps_write_tmp) (auto simp: full_encoding_def dest: heap_ok_valid)
    with \<open>mkdirErr io = None\<close> k1 Some show ?thesis
      by (simp add: yaml_save_def w1_def [symmetric] Let_def keeps_trans)
  qed
qed (simp add: yaml_save_def)

lemma keeps_defaults: "keeps c w (modify_config (initialize_with_defaults now) w)"
  by (rule keeps_modify) (simp add: sound_defaults)

lemma read_config_valid: "read_config c io p w = Inr sc \<Longrightarrow> validate_strict sc = None"
  by (auto simp: read_config_def decode_config_def split: option.splits)

lemma keeps_lastModified: "keeps c w (w\<lparr>lastModified := t\<rparr>)"
  by (rule keeps_same) (simp_all add: bytes_at_def)

lemma keeps_yaml_load: "keeps c w (snd (yaml_load c io w))"
proof (cases "mget (fileMap w) (configPath w)")
  case None
  then show ?thesis
    using keeps_trans [OF keeps_defaults keeps_yaml_save] by (simp add: yaml_load_def)
next
  case (Some f)
  obtain data mtime where f: "f = (data, mtime)"
    by (cases f)
  show ?thesis
  proof (cases "statErr io")
    case None
    show ?thesis
    proof (cases "read_config c io (configPath w) (w\<lparr>lastModified := mtime\<rparr>)")
      case (Inl e)
      with Some None show ?thesis
        by (simp add: yaml_load_def Let_def keeps_lastModified f)
    next
      case (Inr sc)
      then have "keeps c w (adopt_config sc (w\<lparr>lastModified := mtime\<rparr>))"
        using keeps_trans [OF keeps_lastModified keeps_adopt] read_config_valid by metis
      with Some None Inr show ?thesis
        by (simp add: yaml_load_def Let_def f)
    qed
  qed (simp add: yaml_load_def Some f)
qed

lemma keeps_reload: "keeps c w (snd (reload_if_changed c io w))"
  by (simp add: reload_if_changed_def keeps_yaml_load split: sum.splits)

lemma keeps_write_export:
  assumes "p \<noteq> configPath w"
  shows "keeps c w (snd (write_export data io p w))"
  by (rule keeps_same) (use assms in \<open>auto simp: write_export_def put_bytes_def bytes_at_def mget_mput
        split: option.splits file_write.splits\<close>)

lemma keeps_export: "p \<noteq> configPath w \<Longrightarrow> keeps c w (snd (export_config c io p w))"
  by (auto simp: export_config_def intro: keeps_write_export split: option.splits)

lemma backup_path_differs [simp]: "backup_path off now p \<noteq> p"
  by (simp add: backup_path_def)

lemma snd_backup: "snd (backup_config c off io w) =
    snd (export_config c io (backup_path off (ioNow io) (configPath w)) w)"
  by (auto simp: backup_config_def Let_def split: prod.splits option.splits)

lemma keeps_backup: "keeps c w (snd (backup_config c off io w))"
  by (simp add: snd_backup keeps_export)

lemma keeps_import: "keeps c w (snd (import_config c io p w))"
proof (cases "read_config c io p w")
  case (Inr sc)
  then show ?thesis
    using keeps_trans [OF keeps_adopt keeps_yaml_save] read_config_valid [OF Inr]
    by (simp add: import_config_def)
qed (simp add: import_config_def)

lemma snd_restore: "snd (restore_from_backup c off io1 io2 p w) =
    snd (import_config c io2 p (snd (backup_config c off io1 w)))"
  by (auto simp: restore_from_backup_def split: prod.splits option.splits)

lemma keeps_restore: "keeps c w (snd (restore_from_backup c off io1 io2 p w))"
  unfolding snd_restore by (rule keeps_trans [OF keeps_backup keeps_import])

lemma keeps_auto_save_tick: "keeps c w (auto_save_tick c io w)"
  by (simp add: auto_save_tick_def keeps_yaml_save split: option.splits)

lemma keeps_timers:
  "keeps c w (start_auto_save w)" "keeps c w (stop_auto_save w)" "keeps c w (saver_enters_loop w)"
  by (rule keeps_same; auto simp: start_auto_save_def stop_auto_save_def saver_enters_loop_def bytes_at_def
      split: option.splits)+

section \<open>What every operation of the coordinator keeps\<close>

lemma keeps_fields:
  "keeps c co (new_filter_service co)" "keeps c co (call_back b cb co)" "keeps c co (set_callbacks u e s co)"
  "keeps c co (loop_enters co)" "keeps c co (co\<lparr>updateTimer := t\<rparr>)" "keeps c co (co\<lparr>isRunning := b\<rparr>)"
  by (rule keeps_same; auto simp: new_filter_service_def call_back_def set_callbacks_def loop_enters_def bytes_at_def
      split: option.splits)+

lemma keeps_yaml_update_same: "keeps c w (snd (yaml_update c io (configPtr w) w))"
  by (simp add: yaml_update_def keeps_yaml_save split: option.splits)

lemma keeps_replace:
  assumes "validate_strict (config_of w) = None \<Longrightarrow> validate_strict sc = None"
  shows "keeps c w (modify_config (\<lambda>_. sc) w)"
proof (cases "heap_ok w")
  case True
  then have "validate_strict sc = None"
    using assms heap_ok_valid [OF True] by simp
  then show ?thesis
    by (intro keeps_modify) (simp add: validate_strict_None)
qed (simp add: keeps_def modify_config_def)

lemma keeps_sync_now: "keeps c co (snd (sync_now c e co))"
proof -
  define co1 where "co1 = new_filter_service (snd (reload_if_changed c (ioReload e) co))"
  have k1: "keeps c co co1"
    unfolding co1_def by (rule keeps_trans [OF keeps_reload keeps_fields(1)])
  obtain err ls sc where r: "run_round e (config_of co1) = (err, ls, sc)"
    by (cases "run_round e (config_of co1)") auto
  show ?thesis
  proof (cases err)
    case (Some er)
    with r k1 show ?thesis by (simp add: sync_now_def co1_def [symmetric] Let_def)
  next
    case None
    define co2 where "co2 = modify_config (\<lambda>_. sc) (co1\<lparr>filterClock := ls\<rparr>)"
    have "keeps c co1 (co1\<lparr>filterClock := ls\<rparr>)"
      by (rule keeps_same) (simp_all add: bytes_at_def)
    moreover have "keeps c (co1\<lparr>filterClock := ls\<rparr>) co2"
      unfolding co2_def using run_round_valid [OF r [unfolded None]]
      by (intro keeps_replace) (simp add: config_of_def)
    ultimately have k2: "keeps c co co2"
      using k1 keeps_trans by blast
    obtain serr co3 where u: "yaml_update c (ioSave e) (configPtr co2) co2 = (serr, co3)"
      by (cases "yaml_update c (ioSave e) (configPtr co2) co2")
    have k3: "keeps c co co3"
      using keeps_trans [OF k2 keeps_yaml_update_same] u by (metis snd_conv)
    show ?thesis
    proof (cases serr)
      case (Some er)
      with r None k3 u show ?thesis
        by (simp add: sync_now_def co1_def [symmetric] co2_def [symmetric] Let_def)
    next
      case None
      with r \<open>err = None\<close> u have
        "snd (sync_now c e co) = call_back (hasOnSyncComplete co3) (CalledOnSyncComplete (get_symbol_stats (config_of co3)))
           (call_back (hasOnUpdate co3) (CalledOnUpdate (config_of co3)) co3)"
        by (simp add: sync_now_def co1_def [symmetric] co2_def [symmetric] Let_def)
      then show ?thesis
        using keeps_trans [OF k3 keeps_trans [OF keeps_fields(2) keeps_fields(2)]] by metis
    qed
  qed
qed

lemma keeps_sync_reporting: "keeps c co (sync_reporting c e co)"
  using keeps_sync_now [of c co e] keeps_trans [OF _ keeps_fields(2)]
  by (auto simp: sync_reporting_def split: prod.splits option.splits)

lemma keeps_start: "keeps c co (snd (coord_start c e co))"
proof -
  have "keeps c co1 (co1\<lparr>updateTimer := t, updateTickersMade := n, isRunning := b, loopsStarting := k\<rparr>)"
    for co1 t n b k by (rule keeps_same) (simp_all add: bytes_at_def)
  then show ?thesis
    using keeps_trans [OF keeps_sync_reporting] by (simp add: coord_start_def Let_def) blast
qed

lemma keeps_stop: "keeps c co (coord_stop co)"
proof -
  have "keeps c co ((stop_auto_save (co\<lparr>updateTimer := None\<rparr>))\<lparr>isRunning := False\<rparr>)"
    by (rule keeps_same) (simp_all add: stop_auto_save_def bytes_at_def)
  then show ?thesis
    by (simp add: coord_stop_def)
qed

lemma keeps_adopt_and_report:
  assumes "keeps c co (snd r)"
  shows "keeps c co (snd (adopt_and_report r))"
  using keeps_trans [OF assms keeps_trans [OF keeps_fields(1) keeps_fields(2)]] assms
  by (auto simp: adopt_and_report_def Let_def split: prod.splits option.splits)

text \<open>An event that does not write to the configuration file behind the manager's back.\<close>

fun spares_file :: "string \<Rightarrow> ('b, 'j) coord_event \<Rightarrow> bool" where
  "spares_file p (ExportCalled io q) = (q \<noteq> p)"
| "spares_file p (FileWritten q data t) = (q \<noteq> p)"
| "spares_file p _ = True"

lemma keeps_put_bytes: "p \<noteq> configPath w \<Longrightarrow> keeps c w (put_bytes p data t w)"
  by (rule keeps_same) (simp_all add: put_bytes_def bytes_at_def mget_mput)

lemma keeps_auto_sync_tick: "keeps c co (auto_sync_tick c e co)"
  by (simp add: auto_sync_tick_def keeps_sync_reporting split: option.splits)

lemma keeps_apply: "spares_file (configPath co) ev \<Longrightarrow> keeps c co (coord_apply c ev co)"
  by (cases ev)
    (simp_all add: coord_restore_def coord_import_def keeps_adopt_and_report keeps_restore keeps_import
      keeps_auto_sync_tick keeps_start keeps_stop keeps_sync_now keeps_auto_save_tick keeps_timers keeps_fields
      keeps_backup keeps_export keeps_put_bytes)

lemma keeps_run: "list_all (spares_file (configPath co)) evs \<Longrightarrow> keeps c co (coord_run c evs co)"
proof (induction evs arbitrary: co)
  case (Cons ev evs)
  then have k: "keeps c co (coord_apply c ev co)"
    by (simp add: keeps_apply)
  then have "configPath (coord_apply c ev co) = configPath co"
    by (simp add: keeps_def)
  with Cons k show ?case
    by (simp add: coord_run_def) (metis keeps_trans)
qed (simp add: coord_run_def)

section \<open>Initialisation\<close>

definition heap_sound :: "('b, 'z) yaml_world_scheme \<Rightarrow> bool" where
  "heap_sound w = (configPtr w < length (configs w) \<and> list_all config_sound (configs w))"

lemma heap_ok_sound: "heap_ok w \<Longrightarrow> heap_sound w"
  by (simp add: heap_ok_def heap_sound_def)

lemma heap_sound_cong:
  "configs w' = configs w \<Longrightarrow> configPtr w' = configPtr w \<Longrightarrow> heap_sound w' = heap_sound w"
  by (simp add: heap_sound_def)

lemma heap_ok_adopt_sound: "heap_sound w \<Longrightarrow> validate_strict sc = None \<Longrightarrow> heap_ok (adopt_config sc w)"
  by (auto simp: heap_ok_def heap_sound_def adopt_config_def config_of_def validate_strict_None)

lemma heap_ok_defaults: "heap_sound w \<Longrightarrow> heap_ok (modify_config (initialize_with_defaults now) w)"
  by (auto simp: heap_ok_def heap_sound_def modify_config_def config_of_def list_all_length nth_list_update
      sound_defaults)

lemma heap_ok_save: "heap_ok w \<Longrightarrow> heap_ok (snd (yaml_save c io w))"
  using keeps_yaml_save by (auto simp: keeps_def)

lemma load_from_sound:
  assumes "heap_sound w"
  shows "heap_sound (snd (yaml_load c io w)) \<and> (fst (yaml_load c io w) = None \<longrightarrow> heap_ok (snd (yaml_load c io w)))"
proof (cases "mget (fileMap w) (configPath w)")
  case None
  then have "heap_ok (snd (yaml_load c io w))"
    by (simp add: yaml_load_def heap_ok_save heap_ok_defaults assms)
  then show ?thesis by (simp add: heap_ok_sound)
next
  case (Some f)
  obtain data mtime where f: "f = (data, mtime)"
    by (cases f)
  let ?w = "w\<lparr>lastModified := mtime\<rparr>"
  have sound: "heap_sound ?w"
    using assms by (simp add: heap_sound_def)
  show ?thesis
  proof (cases "read_config c io (configPath w) ?w")
    case (Inl e)
    then show ?thesis
      using sound assms by (simp add: yaml_load_def Some f Let_def split: option.splits)
  next
    case (Inr sc)
    then have ok: "heap_ok (adopt_config sc ?w)"
      by (intro heap_ok_adopt_sound sound read_config_valid)
    then show ?thesis
      using heap_ok_sound [OF ok] Inr assms by (simp add: yaml_load_def Some f Let_def split: option.splits)
  qed
qed

lemma update_from_sound:
  assumes "heap_sound w" "ptr < length (configs w)" "yaml_update c io ptr w = (None, w')"
  shows "heap_ok w'"
proof -
  have "validate_strict (configs w ! ptr) = None" and w': "w' = snd (yaml_save c io (w\<lparr>configPtr := ptr\<rparr>))"
    using assms(3) by (auto simp: yaml_update_def split: option.splits)
  then have "heap_ok (w\<lparr>configPtr := ptr\<rparr>)"
    using assms by (simp add: heap_ok_def heap_sound_def config_of_def validate_strict_None)
  then show ?thesis
    unfolding w' by (rule heap_ok_save)
qed

lemma heap_sound_new: "heap_sound (new_coordinator a now p fs)"
  by (simp add: heap_sound_def new_coordinator_def new_yaml_manager_def yaml_world.defs Let_def)

lemma initialize_heap_ok:
  assumes "coord_initialize c io1 io2 co0 = (None, co)" "heap_sound co0"
  shows "heap_ok co"
proof -
  have ready: "heap_ok (start_auto_save (new_filter_service co1)) = heap_ok co1" for co1 :: "'a coordinator"
    by (rule heap_ok_cong) (simp_all add: start_auto_save_def new_filter_service_def)
  obtain err co1 where l: "yaml_load c io1 co0 = (err, co1)"
    by (cases "yaml_load c io1 co0")
  show ?thesis
  proof (cases err)
    case None
    then show ?thesis
      using load_from_sound [OF assms(2), of c io1] assms(1) l
      by (auto simp: coord_initialize_def Let_def ready)
  next
    case (Some er)
    define d where "d = initialize_with_defaults (ioNow io2) (new_symbols_config (ioNow io2))"
    have "heap_sound co1"
      using load_from_sound [OF assms(2), of c io1] l by simp
    then have "heap_sound (co1\<lparr>configs := configs co1 @ [d]\<rparr>)"
      by (simp add: heap_sound_def d_def sound_defaults)
    moreover obtain co3 where "yaml_update c io2 (length (configs co1)) (co1\<lparr>configs := configs co1 @ [d]\<rparr>) = (None, co3)"
      and "co = start_auto_save (new_filter_service co3)"
      using assms(1) l Some by (auto simp: coord_initialize_def Let_def d_def split: prod.splits option.splits)
    ultimately show ?thesis
      using update_from_sound ready by fastforce
  qed
qed


section \<open>What a round subscribes\<close>

text \<open>The list one round fetches for a market.\<close>

definition fetched_list :: "('b, 'j) round_env \<Rightarrow> string \<Rightarrow> string \<Rightarrow> string list" where
  "fetched_list e ex mt =
     (case mget default_exchange_apis ex of
        None \<Rightarrow> []
      | Some api \<Rightarrow> fetch_or_nil (decoders e) (web e) ex mt
          (if mt = ''spot'' then SpotSymbolsAPI api else FuturesSymbolsAPI api))"

lemma update_exchange_simps [simp]:
  "UpbitKRWSymbols (update_exchange_symbols now ex a b sc) = UpbitKRWSymbols sc"
  "wf_map (Exchanges sc) \<Longrightarrow> wf_map (Exchanges (update_exchange_symbols now ex a b sc))"
  "ex' \<noteq> ex \<Longrightarrow> mget (Exchanges (update_exchange_symbols now ex a b sc)) ex' = mget (Exchanges sc) ex'"
  by (auto simp: update_exchange_symbols_def mget_mput split: option.splits)

lemma update_exchange_hit:
  "mget (Exchanges sc) ex = Some cfg \<Longrightarrow> mget (Exchanges (update_exchange_symbols now ex a b sc)) ex =
     Some (cfg\<lparr>SpotSymbols := a, FuturesSymbols := b, esLastUpdated := now\<rparr>)"
  by (simp add: update_exchange_symbols_def mget_mput)

lemma sync_one_simps [simp]:
  "UpbitKRWSymbols (snd (sync_one d net clk ex st)) = UpbitKRWSymbols (snd st)"
  "wf_map (Exchanges (snd st)) \<Longrightarrow> wf_map (Exchanges (snd (sync_one d net clk ex st)))"
  by (auto simp: sync_one_def sync_exchange_symbols_def split: option.splits)

lemma sync_one_other:
  "ex' \<noteq> ex \<Longrightarrow> mget (Exchanges (snd (sync_one d net clk ex st))) ex' = mget (Exchanges (snd st)) ex'"
  "ex' \<noteq> ex \<Longrightarrow> mget (fst (sync_one d net clk ex st)) ex' = mget (fst st) ex'"
  by (auto simp: sync_one_def sync_exchange_symbols_def mget_mput split: option.splits)

lemma sync_loop_simps [simp]:
  "UpbitKRWSymbols (snd (fold (sync_one d net clk) exs st)) = UpbitKRWSymbols (snd st)"
  "wf_map (Exchanges (snd st)) \<Longrightarrow> wf_map (Exchanges (snd (fold (sync_one d net clk) exs st)))"
  by (induction exs arbitrary: st) auto

lemma sync_loop_other:
  "ex' \<notin> set exs \<Longrightarrow> mget (Exchanges (snd (fold (sync_one d net clk) exs st))) ex' = mget (Exchanges (snd st)) ex'"
  "ex' \<notin> set exs \<Longrightarrow> mget (fst (fold (sync_one d net clk) exs st)) ex' = mget (fst st) ex'"
  by (induction exs arbitrary: st) (auto simp: sync_one_other)

text \<open>An exchange of the configuration gets the fetched lists, in whatever order the exchanges come.\<close>

lemma sync_loop_hit:
  assumes "distinct exs" "ex \<in> set exs" "mget default_exchange_apis ex = Some api"
    and "mget (Exchanges (snd st)) ex = Some cfg"
  shows "mget (Exchanges (snd (fold (sync_one d net clk) exs st))) ex =
      Some (cfg\<lparr>SpotSymbols := fetch_or_nil d net ex ''spot'' (SpotSymbolsAPI api),
                FuturesSymbols := fetch_or_nil d net ex ''futures'' (FuturesSymbolsAPI api),
                esLastUpdated := clk ex\<rparr>)"
    and "mget (fst (fold (sync_one d net clk) exs st)) ex = Some (clk ex)"
proof -
  obtain xs ys where exs: "exs = xs @ ex # ys" and xs: "ex \<notin> set xs" and ys: "ex \<notin> set ys"
    using assms(1,2) by (auto dest!: split_list)
  let ?st = "fold (sync_one d net clk) xs st"
  have "mget (Exchanges (snd ?st)) ex = Some cfg"
    using sync_loop_other(1) [OF xs, of d net clk st] assms(4) by simp
  then show "mget (Exchanges (snd (fold (sync_one d net clk) exs st))) ex =
      Some (cfg\<lparr>SpotSymbols := fetch_or_nil d net ex ''spot'' (SpotSymbolsAPI api),
                FuturesSymbols := fetch_or_nil d net ex ''futures'' (FuturesSymbolsAPI api),
                esLastUpdated := clk ex\<rparr>)"
    using assms(3) by (simp add: exs sync_loop_other(1) [OF ys] sync_one_def sync_exchange_symbols_def update_exchange_hit)
  show "mget (fst (fold (sync_one d net clk) exs st)) ex = Some (clk ex)"
    using assms(3) by (simp add: exs sync_loop_other(2) [OF ys] sync_one_def sync_exchange_symbols_def mget_mput)
qed

lemma round_Inr:
  assumes "run_round e sc = (None, ls, sc')"
  obtains krw st where "fetch_upbit_krw_symbols (decoders e) (web e) = Inr krw"
    "st = fold (sync_one (decoders e) (web e) (clockOf e)) (mkeys (ordExchanges e default_exchange_configs))
       ([], set_upbit_krw_symbols (roundNow e) krw sc)"
    "ls = fst st" "sc' = generate_lists_simple (ordConfig e) (roundNow e) (snd st)"
proof -
  obtain krw where krw: "fetch_upbit_krw_symbols (decoders e) (web e) = Inr krw"
    using assms by (cases "fetch_upbit_krw_symbols (decoders e) (web e)")
      (auto simp: run_round_def sync_all_symbols_def)
  then show thesis
    using assms that by (auto simp: run_round_def sync_all_symbols_def split: prod.splits)
qed

lemma default_keys:
  assumes "iter_order ord"
  shows "distinct (mkeys (ord default_exchange_configs))"
    and "ex \<in> set (mkeys (ord default_exchange_configs)) \<longleftrightarrow> mget default_exchange_configs ex \<noteq> None"
proof -
  have wf: "wf_map default_exchange_configs"
    by (simp add: wf_map_def default_exchange_configs_def)
  show "distinct (mkeys (ord default_exchange_configs))"
    using iter_order_wf [OF assms] wf by (simp add: wf_map_def mkeys_def)
  show "ex \<in> set (mkeys (ord default_exchange_configs)) \<longleftrightarrow> mget default_exchange_configs ex \<noteq> None"
    using iter_order_mget [OF assms wf] by (simp only: mkeys_iff)
qed

lemma default_api_configured:
  "mget default_exchange_apis ex = Some api \<Longrightarrow> mget default_exchange_configs ex \<noteq> None"
  by (auto simp: default_exchange_apis_def default_exchange_configs_def split: if_splits)

text \<open>The lists after a round.\<close>

lemma round_lists:
  assumes "run_round e sc = (None, ls, sc')" "fetch_upbit_krw_symbols (decoders e) (web e) = Inr krw"
    and "iter_order (ordExchanges e)" "iter_order (ordConfig e)" "wf_map (Exchanges sc)"
    and "mget (Exchanges sc) ex = Some cfg" "mget default_exchange_apis ex = Some api"
    and "mt = ''spot'' \<or> mt = ''futures''"
  shows "subscription_list_simple ex mt sc' = keep_unlisted extract_base_simple krw (fetched_list e ex mt)"
    and "mget ls ex = Some (clockOf e ex)"
proof -
  define st where "st = fold (sync_one (decoders e) (web e) (clockOf e))
    (mkeys (ordExchanges e default_exchange_configs)) ([], set_upbit_krw_symbols (roundNow e) krw sc)"
  have ls: "ls = fst st" and sc': "sc' = generate_lists_simple (ordConfig e) (roundNow e) (snd st)"
    using assms(1,2) by (auto simp: st_def elim!: round_Inr)
  have ex: "ex \<in> set (mkeys (ordExchanges e default_exchange_configs))"
    using default_api_configured [OF assms(7)] default_keys(2) [OF assms(3)] by blast
  have cfg: "mget (Exchanges (snd ([], set_upbit_krw_symbols (roundNow e) krw sc))) ex = Some cfg"
    using assms(6) by simp
  note hit = sync_loop_hit [OF default_keys(1) [OF assms(3)] ex assms(7) cfg]
  show "mget ls ex = Some (clockOf e ex)"
    unfolding ls st_def by (rule hit(2))
  have hit1: "mget (Exchanges (snd st)) ex =
      Some (cfg\<lparr>SpotSymbols := fetch_or_nil (decoders e) (web e) ex ''spot'' (SpotSymbolsAPI api),
                FuturesSymbols := fetch_or_nil (decoders e) (web e) ex ''futures'' (FuturesSymbolsAPI api),
                esLastUpdated := clockOf e ex\<rparr>)"
    unfolding st_def by (rule hit(1))
  have wf: "wf_map (Exchanges (snd st))" and krw: "UpbitKRWSymbols (snd st) = krw"
    using assms(5) by (simp_all add: st_def) (simp add: set_upbit_krw_symbols_def)
  have wf': "wf_map (ordConfig e (Exchanges (snd st)))"
    and same: "mget (ordConfig e (Exchanges (snd st))) ex = mget (Exchanges (snd st)) ex"
    using assms(4) wf by (simp_all add: iter_order_wf iter_order_mget)
  show "subscription_list_simple ex mt sc' = keep_unlisted extract_base_simple krw (fetched_list e ex mt)"
    using assms(8)
  proof
    assume mt: "mt = ''spot''"
    show ?thesis
      using list_puts_spot [OF wf', of _ _ ex]
      by (simp add: mt sc' generate_simple_unfold subscription_list_simple_def fetched_list_def assms(7) same hit1 krw)
  next
    assume mt: "mt = ''futures''"
    show ?thesis
      using list_puts_futures [OF wf', of _ _ ex]
      by (simp add: mt sc' generate_simple_unfold subscription_list_simple_def fetched_list_def assms(7) same hit1 krw)
  qed
qed

text \<open>A successful \<open>SyncNow\<close>: the manager and the service share the configuration the round produced,
  stamped by the save, and the file is its encoding.\<close>

lemma yaml_save_None:
  assumes "yaml_save c io w = (None, w')"
  shows "configs w' = configs (modify_config (\<lambda>sc. sc\<lparr>UpdatedAt := ioNow io\<rparr>) w)" "configPtr w' = configPtr w"
    "configPath w' = configPath w"
    "bytes_at (configPath w) w' = marshal c (config_of w')" "marshal c (config_of w') \<noteq> None"
proof -
  define w1 where "w1 = modify_config (\<lambda>sc. sc\<lparr>UpdatedAt := ioNow io\<rparr>) w"
  obtain data where m: "marshal c (config_of w1) = Some data" and w: "write_tmp data io w1 = (None, w')"
    using assms by (auto simp: yaml_save_def w1_def [symmetric] Let_def split: option.splits)
  have same: "configs w' = configs w1" "configPtr w' = configPtr w1" "configPath w' = configPath w1"
    and b: "bytes_at (configPath w1) w' = Some data"
    using w by (auto simp: write_tmp_def rename_tmp_def put_bytes_def bytes_at_def mget_mput Let_def
        split: file_write.splits option.splits)
  have p: "configPtr w1 = configPtr w" "configPath w1 = configPath w"
    by (simp_all add: w1_def modify_config_def)
  show "configs w' = configs w1" "configPtr w' = configPtr w" "configPath w' = configPath w"
    using same p by simp_all
  have "config_of w' = config_of w1"
    using same by (simp add: config_of_def)
  then show "bytes_at (configPath w) w' = marshal c (config_of w')" "marshal c (config_of w') \<noteq> None"
    using b m p by simp_all
qed

lemma keeps_heap_ok: "keeps c w w' \<Longrightarrow> heap_ok w \<Longrightarrow> heap_ok w'"
  by (simp add: keeps_def)

lemma call_back_simps [simp]:
  "configs (call_back b cb co) = configs co" "configPtr (call_back b cb co) = configPtr co"
  "fileMap (call_back b cb co) = fileMap co" "configPath (call_back b cb co) = configPath co"
  "filterPtr (call_back b cb co) = filterPtr co" "filterClock (call_back b cb co) = filterClock co"
  by (simp_all add: call_back_def)

text \<open>No operation of the manager touches the fields of the coordinator.\<close>

lemma write_tmp_more [simp]:
  "filterPtr (snd (write_tmp data io co)) = filterPtr co"
  "filterClock (snd (write_tmp data io co)) = filterClock co"
  by (simp_all add: write_tmp_def rename_tmp_def put_bytes_def Let_def split: file_write.splits option.splits)

lemma yaml_save_more [simp]:
  "filterPtr (snd (yaml_save c io co)) = filterPtr co" "filterClock (snd (yaml_save c io co)) = filterClock co"
  by (simp_all add: yaml_save_def modify_config_def Let_def split: option.splits)


lemma sync_now_success:
  assumes "sync_now c e co = (None, co')" "heap_ok co"
  obtains ls sc where "run_round e (config_of (snd (reload_if_changed c (ioReload e) co))) = (None, ls, sc)"
    "config_of co' = sc\<lparr>UpdatedAt := ioNow (ioSave e)\<rparr>" "filterPtr co' = Some (configPtr co')"
    "filterClock co' = ls" "bytes_at (configPath co) co' = marshal c (config_of co')"
    "marshal c (config_of co') \<noteq> None"
proof -
  define co0 where "co0 = snd (reload_if_changed c (ioReload e) co)"
  define co1 where "co1 = new_filter_service co0"
  have ok1: "heap_ok co1"
    using keeps_heap_ok [OF keeps_trans [OF keeps_reload keeps_fields(1)] assms(2)] by (simp add: co1_def co0_def)
  obtain ls sc where r: "run_round e (config_of co1) = (None, ls, sc)"
    using assms(1) by (auto simp: sync_now_def co1_def [symmetric] co0_def [symmetric] Let_def
        split: prod.splits option.splits)
  define co2 where "co2 = modify_config (\<lambda>_. sc) (co1\<lparr>filterClock := ls\<rparr>)"
  obtain co3 where u: "yaml_update c (ioSave e) (configPtr co2) co2 = (None, co3)"
    and co': "co' = call_back (hasOnSyncComplete co3) (CalledOnSyncComplete (get_symbol_stats (config_of co3)))
        (call_back (hasOnUpdate co3) (CalledOnUpdate (config_of co3)) co3)"
    using assms(1) r by (auto simp: sync_now_def co1_def [symmetric] co0_def [symmetric] co2_def [symmetric] Let_def
        split: prod.splits option.splits)
  have save: "yaml_save c (ioSave e) co2 = (None, co3)"
    using u by (auto simp: yaml_update_def split: option.splits)
  have ptr: "configPtr co1 < length (configs co1)"
    using ok1 by (simp add: heap_ok_def)
  have sc: "config_of co2 = sc" and ptr2: "configPtr co2 < length (configs co2)" "configPtr co2 = configPtr co1"
    using ptr by (simp_all add: co2_def config_of_def modify_config_def)
  have "config_of co3 = sc\<lparr>UpdatedAt := ioNow (ioSave e)\<rparr>"
    using yaml_save_None(1,2) [OF save] ptr2 sc by (simp add: config_of_def modify_config_def)
  then have cfg: "config_of co' = sc\<lparr>UpdatedAt := ioNow (ioSave e)\<rparr>"
    by (simp add: co' config_of_def)
  have co3': "co3 = snd (yaml_save c (ioSave e) co2)"
    using save by simp
  have "filterPtr co3 = Some (configPtr co1)" "filterClock co3 = ls"
    unfolding co3' by (simp_all add: co2_def modify_config_def co1_def new_filter_service_def)
  then have f: "filterPtr co' = Some (configPtr co')" "filterClock co' = ls"
    using yaml_save_None(2) [OF save] ptr2 by (simp_all add: co')
  have path: "configPath co2 = configPath co"
    using keeps_reload [of c co "ioReload e"]
    by (simp add: co2_def modify_config_def co1_def new_filter_service_def co0_def keeps_def)
  have same: "config_of co' = config_of co3" "\<And>p. bytes_at p co' = bytes_at p co3"
    by (simp_all add: co' config_of_def bytes_at_def)
  have "config_of co1 = config_of co0"
    by (simp add: co1_def new_filter_service_def config_of_def)
  then show thesis
    using that [OF _ cfg f] r yaml_save_None(4,5) [OF save] path same by (simp add: co0_def)
qed

section \<open>Backup and restore\<close>

text \<open>Decoding an encoding gives the configuration back, whatever the target held before.\<close>

definition codec_faithful :: "'b codec \<Rightarrow> bool" where
  "codec_faithful c = (\<forall>sc data t. marshal c sc = Some data \<longrightarrow> unmarshal c data (new_symbols_config t) = Some sc)"

text \<open>No system call fails.\<close>

definition calls_fine :: "'b sys_calls \<Rightarrow> bool" where
  "calls_fine io = (readErr io = None \<and> mkdirErr io = None \<and> writeRes io = Wrote \<and> renameErr io = None)"

lemma read_encoding:
  assumes "codec_faithful c" "readErr io = None" "marshal c sc = Some data" "validate_strict sc = None"
    and "bytes_at p w = Some data"
  shows "read_config c io p w = Inr sc"
  using assms by (simp add: read_config_def decode_config_def codec_faithful_def)

lemma export_fine:
  assumes "calls_fine io" "marshal c (config_of w) = Some data"
  shows "export_config c io p w = (None, put_bytes p data (ioMtime io) w)"
  using assms by (simp add: export_config_def write_export_def calls_fine_def)

lemma bytes_at_put [simp]: "bytes_at q (put_bytes p data t w) = (if q = p then Some data else bytes_at q w)"
  by (simp add: bytes_at_def put_bytes_def mget_mput)

lemma config_of_put [simp]: "config_of (put_bytes p data t w) = config_of w"
  by (simp add: config_of_def put_bytes_def)

lemma save_fine:
  assumes "calls_fine io" "configPtr w < length (configs w)" "marshal c ((config_of w)\<lparr>UpdatedAt := ioNow io\<rparr>) \<noteq> None"
  shows "fst (yaml_save c io w) = None \<and>
     config_of (snd (yaml_save c io w)) = (config_of w)\<lparr>UpdatedAt := ioNow io\<rparr>"
proof -
  obtain data where m: "marshal c ((config_of w)\<lparr>UpdatedAt := ioNow io\<rparr>) = Some data"
    using assms(3) by blast
  have "fst (yaml_save c io w) = None"
    using assms(1,2) m by (simp add: yaml_save_def calls_fine_def Let_def write_tmp_def rename_tmp_def)
  moreover from this have "yaml_save c io w = (None, snd (yaml_save c io w))"
    by (metis prod.collapse)
  ultimately show ?thesis
    using yaml_save_None(1,2) assms(2) by (metis config_of_def config_of_modify modify_config_def
        yaml_world.ext_inject yaml_world.surjective yaml_world.update_convs(1))
qed

lemma config_of_adopt [simp]: "config_of (adopt_config sc w) = sc" "configPtr (adopt_config sc w) < length (configs (adopt_config sc w))"
  by (simp_all add: config_of_def adopt_config_def)

lemma import_encoding:
  assumes "codec_faithful c" "calls_fine io" "marshal c sc = Some data" "validate_strict sc = None"
    and "bytes_at p w = Some data" "marshal c (sc\<lparr>UpdatedAt := ioNow io\<rparr>) \<noteq> None"
  shows "fst (import_config c io p w) = None \<and> config_of (snd (import_config c io p w)) = sc\<lparr>UpdatedAt := ioNow io\<rparr>"
proof -
  have "read_config c io p w = Inr sc"
    using assms by (intro read_encoding) (simp_all add: calls_fine_def)
  then show ?thesis
    using save_fine [of io "adopt_config sc w" c] assms(2,6) by (simp add: import_config_def)
qed

text \<open>A backup can be restored: if the restore happens in another second than the backup, the
  configuration in use afterwards is the one that was backed up, with a new update time.  In the same
  second the safety copy that the restore makes first goes to the very file to be restored, and the
  configuration of before the restore stays.\<close>

theorem restore_after_backup:
  assumes "codec_faithful c" "backup_config c off io0 w = (Inr p, w1)" "calls_fine io0" "heap_ok w"
    and "bytes_at p w2 = bytes_at p w1" "heap_ok w2" "marshal c (config_of w2) = Some data2"
    and "calls_fine io1" "calls_fine io2" "\<forall>t. marshal c ((config_of w)\<lparr>UpdatedAt := t\<rparr>) \<noteq> None"
    and "\<forall>t. marshal c ((config_of w2)\<lparr>UpdatedAt := t\<rparr>) \<noteq> None"
  shows "fst (restore_from_backup c off io1 io2 p w2) = None \<and>
    config_of (snd (restore_from_backup c off io1 io2 p w2)) =
      (config_of (if backup_path off (ioNow io1) (configPath w2) = p then w2 else w))\<lparr>UpdatedAt := ioNow io2\<rparr>"
proof -
  have "marshal c ((config_of w)\<lparr>UpdatedAt := UpdatedAt (config_of w)\<rparr>) \<noteq> None"
    using assms(10) by blast
  then obtain data where data: "marshal c (config_of w) = Some data"
    by auto
  have "bytes_at p w1 = Some data"
    using assms(2) export_fine [OF assms(3) data] by (auto simp: backup_config_def Let_def)
  then have at_p: "bytes_at p w2 = Some data"
    using assms(5) by simp
  define q where "q = backup_path off (ioNow io1) (configPath w2)"
  define w3 where "w3 = put_bytes q data2 (ioMtime io1) w2"
  have w3: "snd (backup_config c off io1 w2) = w3"
    by (simp add: snd_backup export_fine [OF assms(8,7)] w3_def q_def)
  have fst_r: "fst (restore_from_backup c off io1 io2 p w2) = None \<longleftrightarrow> fst (import_config c io2 p w3) = None"
    by (auto simp: restore_from_backup_def w3 split: prod.splits option.splits)
  have snd_r: "snd (restore_from_backup c off io1 io2 p w2) = snd (import_config c io2 p w3)"
    by (simp add: snd_restore w3)
  show ?thesis
  proof (cases "q = p")
    case True
    have "bytes_at p w3 = Some data2"
      by (simp add: w3_def True)
    then show ?thesis
      using import_encoding [OF assms(1,9,7) heap_ok_valid [OF assms(6)]] assms(11) True
      by (simp add: fst_r snd_r q_def)
  next
    case False
    have "bytes_at p w3 = Some data"
      using False at_p by (simp add: w3_def)
    then show ?thesis
      using import_encoding [OF assms(1,9) data heap_ok_valid [OF assms(4)]] assms(10) False
      by (simp add: fst_r snd_r q_def)
  qed
qed

section \<open>What the coordinator does not do\<close>

text \<open>A file that did not parse is not read again until it is written again.\<close>

lemma broken_file_not_retried:
  assumes "mget (fileMap w) (configPath w) = Some f" "statErr io = None" "fst (yaml_load c io w) \<noteq> None"
    and "statErr io' = None"
  shows "check_file_change io' (snd (yaml_load c io w)) = Inr False"
  using assms by (cases f) (auto simp: yaml_load_def check_file_change_def Let_def split: sum.splits)

text \<open>An automatic save replaces an external edit that has not been loaded, and hides it.\<close>

lemma auto_save_hides_edit:
  assumes "autoSaveTimer w = Some t" "t \<in> set (saversOn w)" "calls_fine io" "reStatOk io" "statErr io = None"
    and "configPtr w < length (configs w)" "marshal c ((config_of w)\<lparr>UpdatedAt := ioNow io\<rparr>) = Some data"
  shows "bytes_at (configPath w) (auto_save_tick c io (put_bytes (configPath w) edit mt w)) = Some data \<and>
    check_file_change io (auto_save_tick c io (put_bytes (configPath w) edit mt w)) = Inr False"
proof -
  have "config_of (modify_config f (put_bytes p b mt w)) = f (config_of w)" for f p b
    using assms(6) by (simp add: put_bytes_def config_of_def modify_config_def)
  then show ?thesis
    using assms by (simp add: auto_save_tick_def put_bytes_def yaml_save_def calls_fine_def Let_def write_tmp_def
        rename_tmp_def bytes_at_def mget_mput modify_config_def check_file_change_def yaml_tmp_def)
qed

text \<open>An import whose save fails changes the manager's configuration but not the service's.\<close>

lemma failed_import_splits:
  assumes "read_config c io p co = Inr sc" "mkdirErr io = Some err" "heap_ok co" "filterPtr co = Some (configPtr co)"
  shows "fst (coord_import c io p co) = Some (YamlError (MkdirFailed err)) \<and>
    config_of (snd (coord_import c io p co)) = sc \<and>
    filter_config (snd (coord_import c io p co)) = Some (config_of co)"
  using assms by (simp add: coord_import_def import_config_def yaml_save_def adopt_and_report_def filter_config_def
      config_of_def adopt_config_def nth_append heap_ok_def)

section \<open>A round of synchronisation\<close>

lemma run_round_Inr:
  "fetch_upbit_krw_symbols (decoders e) (web e) = Inr krw \<Longrightarrow> \<exists>ls sc'. run_round e sc = (None, ls, sc')"
  by (simp add: run_round_def sync_all_symbols_def split: prod.splits)

text \<open>When Upbit answers and the save works, \<open>SyncNow\<close> succeeds, whatever the exchanges and the reload do.\<close>

lemma sync_now_fine:
  assumes "heap_ok co" "fetch_upbit_krw_symbols (decoders e) (web e) = Inr krw" "calls_fine (ioSave e)"
    and "\<forall>sc. marshal c sc \<noteq> None"
  shows "fst (sync_now c e co) = None"
proof -
  define co1 where "co1 = new_filter_service (snd (reload_if_changed c (ioReload e) co))"
  have ok1: "heap_ok co1"
    using keeps_heap_ok [OF keeps_trans [OF keeps_reload keeps_fields(1)] assms(1)] by (simp add: co1_def)
  obtain ls sc where r: "run_round e (config_of co1) = (None, ls, sc)"
    using run_round_Inr [OF assms(2)] by blast
  define co2 where "co2 = modify_config (\<lambda>_. sc) (co1\<lparr>filterClock := ls\<rparr>)"
  have ptr: "configPtr co2 < length (configs co2)" and sc: "config_of co2 = sc"
    using ok1 by (simp_all add: co2_def modify_config_def heap_ok_def config_of_def)
  have "validate_strict (config_of co2) = None"
    unfolding sc by (rule run_round_valid [OF r heap_ok_valid [OF ok1]])
  moreover have "fst (yaml_save c (ioSave e) co2) = None"
    using save_fine [OF assms(3) ptr] assms(4) by blast
  ultimately have "fst (yaml_update c (ioSave e) (configPtr co2) co2) = None"
    by (simp add: yaml_update_def config_of_def)
  then show ?thesis
    using r by (auto simp: sync_now_def co1_def [symmetric] co2_def [symmetric] Let_def
        split: prod.splits option.splits)
qed


text \<open>An exchange both of whose requests fail loses its lists and still counts as updated.\<close>

lemma failed_fetch_empties:
  assumes "\<And>url. \<exists>m. web e mt url = CallFailed m"
  shows "fetched_list e ex mt = []"
proof -
  have "fetch_or_nil (decoders e) (web e) ex mt url = []" for url
    using assms [of url] by (auto simp: fetch_or_nil_def fetch_symbols_from_api_def fetch_body_def)
  then show ?thesis
    by (simp add: fetched_list_def split: option.splits)
qed

section \<open>Witnesses\<close>

definition plain_codec :: "symbols_config codec" where
  "plain_codec = \<lparr>marshal = Some, unmarshal = (\<lambda>d _. Some d), byteLen = (\<lambda>_. 1)\<rparr>"

definition sample_calls :: "gotime \<Rightarrow> 'b sys_calls" where
  "sample_calls t = \<lparr>ioNow = t, statErr = None, readErr = None, mkdirErr = None, writeRes = Wrote,
     ioMtime = t, renameErr = None, removeOk = True, reStatOk = True\<rparr>"

definition sample_coord :: "symbols_config coordinator" where
  "sample_coord = snd (coord_initialize plain_codec (sample_calls 5) (sample_calls 6)
     (new_coordinator None 0 ''symbols.yaml'' []))"

text \<open>Binance lists ETHUSDT and SOLUSDT on its spot market, Upbit lists ETH; every other request fails.\<close>

definition sample_env :: "(symbols_config, unit) round_env" where
  "sample_env =
     \<lparr>ioReload = sample_calls 7, ioSave = sample_calls 9,
      decoders = \<lparr>decMarkets = (\<lambda>_. Inr [''KRW-ETH'', ''BTC-XRP'']),
        decBinance = (\<lambda>_. Inr [\<lparr>srSymbol = ''ETHUSDT'', srStatus = ''TRADING''\<rparr>,
                               \<lparr>srSymbol = ''SOLUSDT'', srStatus = ''TRADING''\<rparr>]),
        decBybit = (\<lambda>_. Inr []), decKucoinSpot = (\<lambda>_. Inr []), decKucoinFutures = (\<lambda>_. Inr []),
        decOkx = (\<lambda>_. Inr []), decPhemex = (\<lambda>_. Inr []), decGateSpot = (\<lambda>_. Inr []),
        decGateFutures = (\<lambda>_. Inr [])\<rparr>,
      web = (\<lambda>mt url. if mt = ''upbit'' \<or> mt = ''spot'' \<and> url = ''https://api.binance.com/api/v3/exchangeInfo''
                      then Responded 200 (Inr ()) else CallFailed ''timeout''),
      clockOf = (\<lambda>_. 8), roundNow = 8, ordExchanges = rev, ordConfig = id\<rparr>"

lemma sample_total: "\<forall>sc. marshal plain_codec sc \<noteq> None"
  by (simp add: plain_codec_def)

lemma sample_fine: "calls_fine (sample_calls t)"
  by (simp add: calls_fine_def sample_calls_def)

lemma sample_initialized:
  "coord_initialize plain_codec (sample_calls 5) (sample_calls 6) (new_coordinator None 0 ''symbols.yaml'' []) =
     (None, sample_coord)"
proof -
  have "fst (coord_initialize plain_codec (sample_calls 5) (sample_calls 6) (new_coordinator None 0 ''symbols.yaml'' [])) = None"
    by (simp add: coord_initialize_def yaml_load_def new_coordinator_def new_yaml_manager_def yaml_world.defs
        yaml_save_def modify_config_def plain_codec_def sample_calls_def write_tmp_def rename_tmp_def Let_def
        put_bytes_def)
  then show ?thesis
    by (simp add: sample_coord_def prod_eq_iff)
qed

lemma sample_heap_ok: "heap_ok sample_coord"
  using initialize_heap_ok [OF sample_initialized heap_sound_new] .



lemmas sample_unfold = sample_coord_def coord_initialize_def yaml_load_def new_coordinator_def new_yaml_manager_def
  yaml_world.defs yaml_save_def modify_config_def plain_codec_def sample_calls_def write_tmp_def rename_tmp_def
  Let_def put_bytes_def start_auto_save_def new_filter_service_def config_of_def

lemma plain_config: "config_of sample_coord = (initialize_with_defaults 5 (new_symbols_config 0))\<lparr>UpdatedAt := 5\<rparr>"
  by (simp add: sample_unfold)

lemma sample_reload: "reload_if_changed plain_codec (sample_calls t) sample_coord = (None, sample_coord)"
proof -
  have "check_file_change (sample_calls t) sample_coord = Inr False"
    by (simp add: check_file_change_def sample_unfold)
  then show ?thesis
    by (simp add: reload_if_changed_def)
qed

lemma default_binance: "mget (Exchanges (initialize_with_defaults now (new_symbols_config t))) ''binance'' \<noteq> None"
  by (simp add: initialize_with_defaults_def default_exchange_configs_def mget_mput)

lemma default_wf: "wf_map (Exchanges (initialize_with_defaults now (new_symbols_config t)))"
  by (simp add: initialize_with_defaults_def default_exchange_configs_def new_symbols_config_def wf_map_def)


lemma restore_after_backup_witness:
  "fst (restore_from_backup plain_codec 0 (sample_calls (3 * 10 ^ 9)) (sample_calls 7) (backup_path 0 0 ''symbols.yaml'')
      (snd (backup_config plain_codec 0 (sample_calls 0) sample_coord))) = None"
proof -
  have p: "configPath sample_coord = ''symbols.yaml''"
    by (simp add: sample_unfold)
  have b: "backup_config plain_codec 0 (sample_calls 0) sample_coord =
      (Inr (backup_path 0 0 ''symbols.yaml''), snd (backup_config plain_codec 0 (sample_calls 0) sample_coord))"
    using export_fine [OF sample_fine, of plain_codec sample_coord "config_of sample_coord"]
    by (simp add: backup_config_def Let_def p sample_calls_def plain_codec_def)
  have ok: "heap_ok (snd (backup_config plain_codec 0 (sample_calls 0) sample_coord))"
    using keeps_heap_ok [OF keeps_backup sample_heap_ok] .
  have f: "codec_faithful plain_codec"
    by (simp add: codec_faithful_def plain_codec_def)
  show ?thesis
    using restore_after_backup [OF f b sample_fine sample_heap_ok refl ok _ sample_fine sample_fine] sample_total
    by (simp add: plain_codec_def)
qed

end
