(* ===== verification/SystemConfig.thy ===== *)
theory SystemConfig
  imports TaskManager StorageManager ConfigManager
begin

text \<open>
  The configuration of the program, \<open>internal/config/config.go\<close>: its sections, the defaults, validation,
  loading with the creation of a missing file, and the save through a temporary file.  The YAML codec
  and the outcome of each system call are arguments.
\<close>

section \<open>Sections\<close>

record upbit_config =
  ucEnabled :: bool
  APIURL :: string
  PollInterval :: int
  ucTimeout :: int
  UserAgent :: string

record storage_section = storage_config +
  Compression :: bool
  MaxFileSize :: string
  BackupEnabled :: bool
  BackupInterval :: int

record analysis_config =
  acEnabled :: bool
  ThresholdPercent :: gofloat
  TimeWindow :: int
  MinVolumeRatio :: gofloat
  MaxAnalysisDelay :: int

record collection_config =
  PreTriggerDuration :: int
  CollectionDuration :: int
  PostAnalysisDelay :: int

record system_section =
  LogLevel :: string
  MaxMemoryUsage :: string
  GCInterval :: int
  StatusInterval :: int
  ShutdownTimeout :: int
  StatusReportInterval :: int
  AutoSaveInterval :: int
  PoolStartupDelay :: int
  ProfilingEnabled :: bool
  ProfilingPort :: int
  ExtendedBufferEnabled :: bool
  ExtendedBufferDuration :: string
  BufferCompressionEnabled :: bool
  BufferFallbackEnabled :: bool
  BufferMaintenanceInterval :: string

record connection_config =
  DefaultPingInterval :: int
  DefaultConnectionTimeout :: int
  DefaultRetryDelay :: int
  BatchProcessingDelay :: int
  APIRateLimitDelay :: int

record questdb_section =
  qcEnabled :: bool
  qcHost :: string
  qcPort :: int
  qcDatabase :: string
  qcUser :: string
  qcPassword :: string
  qcBatchSize :: int
  qcFlushInterval :: int
  qcBufferSize :: int
  qcWorkerCount :: int
  qcMaxOpenConns :: int
  qcMaxIdleConns :: int
  qcConnMaxLifetime :: int
  qcMaxRetries :: int
  qcBaseDelay :: int
  qcMaxDelay :: int
  qcBackoffFactor :: gofloat
  qcHybridMode :: bool
  qcCompareResults :: bool
  qcMigrationPhase :: int

record go_config =
  gcUpbit :: upbit_config
  gcExchanges :: exchanges_config
  gcStorage :: storage_section
  gcAnalysis :: analysis_config
  gcCollection :: collection_config
  gcSystem :: system_section
  gcConnection :: connection_config
  gcQuestDB :: questdb_section

section \<open>Defaults\<close>

definition default_exchange :: "string \<Rightarrow> string \<Rightarrow> int \<Rightarrow> int \<Rightarrow> int \<Rightarrow> exchange_config" where
  "default_exchange sp fu mx cooldown retries =
     \<lparr>ecEnabled = True, ecSpotEndpoint = sp, ecFuturesEndpoint = fu, ecMaxSymbols = mx,
      ecRetryCooldown = cooldown, ecMaxRetries = retries, ecConnectionTimeout = 30 * second,
      ecReadTimeout = 60 * second, ecWriteTimeout = 10 * second\<rparr>"

definition default_exchanges :: exchanges_config where
  "default_exchanges =
     \<lparr>cfgBinance = default_exchange ''wss://stream.binance.com:9443/ws'' ''wss://fstream.binance.com/ws''
        100 (30 * second) 5,
      cfgBybit = default_exchange ''wss://stream.bybit.com/v5/public/spot''
        ''wss://stream.bybit.com/v5/public/linear'' 50 (60 * second) 3,
      cfgOKX = default_exchange ''wss://ws.okx.com:8443/ws/v5/public'' ''wss://ws.okx.com:8443/ws/v5/public''
        100 (30 * second) 5,
      cfgKuCoin = default_exchange ''wss://ws-api.kucoin.com/endpoint''
        ''wss://ws-api-futures.kucoin.com/endpoint'' 100 (45 * second) 4,
      cfgPhemex = default_exchange ''wss://ws.phemex.com'' ''wss://ws.phemex.com'' 20 (90 * second) 3,
      cfgGate = default_exchange ''wss://api.gateio.ws/ws/v4/'' ''wss://fx-ws.gateio.ws/v4/ws/usdt''
        100 (30 * second) 5\<rparr>"

definition default_storage :: storage_section where
  "default_storage =
     \<lparr>stEnabled = True, stDataDir = [''data''], stRawDataEnabled = True, stRefinedEnabled = True,
      stRetentionDays = 30, Compression = False, MaxFileSize = ''100MB'', BackupEnabled = True,
      BackupInterval = 24 * hour\<rparr>"

definition default_system :: system_section where
  "default_system =
     \<lparr>LogLevel = ''info'', MaxMemoryUsage = ''16GB'', GCInterval = 5 * minute, StatusInterval = 60 * second,
      ShutdownTimeout = 30 * second, StatusReportInterval = 60 * second, AutoSaveInterval = 5 * minute,
      PoolStartupDelay = 500 * millisecond, ProfilingEnabled = False, ProfilingPort = 6060,
      ExtendedBufferEnabled = False, ExtendedBufferDuration = ''10m'', BufferCompressionEnabled = True,
      BufferFallbackEnabled = True, BufferMaintenanceInterval = ''60s''\<rparr>"

definition default_questdb :: questdb_section where
  "default_questdb =
     \<lparr>qcEnabled = False, qcHost = ''localhost'', qcPort = 8812, qcDatabase = ''qdb'', qcUser = ''admin'',
      qcPassword = ''quest'', qcBatchSize = 1000, qcFlushInterval = 1 * second, qcBufferSize = 50000,
      qcWorkerCount = 4, qcMaxOpenConns = 20, qcMaxIdleConns = 10, qcConnMaxLifetime = 30 * minute,
      qcMaxRetries = 3, qcBaseDelay = 100 * millisecond, qcMaxDelay = 5 * second,
      qcBackoffFactor = Fin 2, qcHybridMode = True, qcCompareResults = False, qcMigrationPhase = 1\<rparr>"

definition new_default_config :: go_config where
  "new_default_config =
     \<lparr>gcUpbit = \<lparr>ucEnabled = True,
        APIURL = ''https://api-manager.upbit.com/api/v1/announcements?os=web&page=1&per_page=20&category=trade'',
        PollInterval = 5 * second, ucTimeout = 10 * second, UserAgent = ''PumpWatch/2.0''\<rparr>,
      gcExchanges = default_exchanges,
      gcStorage = default_storage,
      gcAnalysis = \<lparr>acEnabled = True, ThresholdPercent = Fin 3, TimeWindow = 1 * second,
        MinVolumeRatio = Fin 2, MaxAnalysisDelay = 10 * second\<rparr>,
      gcCollection = \<lparr>PreTriggerDuration = 20 * second, CollectionDuration = 20 * second,
        PostAnalysisDelay = 2 * second\<rparr>,
      gcSystem = default_system,
      gcConnection = \<lparr>DefaultPingInterval = 25 * second, DefaultConnectionTimeout = 30 * second,
        DefaultRetryDelay = 1 * second, BatchProcessingDelay = 500 * millisecond,
        APIRateLimitDelay = 100 * millisecond\<rparr>,
      gcQuestDB = default_questdb\<rparr>"

section \<open>Validation\<close>

datatype go_config_error =
    EmptyAPIURL | PollTooShort | NoExchangeEndpoint string | MaxSymbolsNotPositive string
  | NegativeRetries string | ThresholdNotPositive | WindowTooShort
  | CannotRead string | CannotParse | FailedValidation go_config_error | CannotMarshal
  | CannotWriteTemp string | CannotMove string | CannotCreate go_config_error

text \<open>The map both functions build from the six fields; they visit it in some order \<open>ord\<close>.\<close>

definition exchange_table :: "exchanges_config \<Rightarrow> (string, exchange_config) gomap" where
  "exchange_table ec =
     [(''binance'', cfgBinance ec), (''bybit'', cfgBybit ec), (''okx'', cfgOKX ec),
      (''kucoin'', cfgKuCoin ec), (''phemex'', cfgPhemex ec), (''gate'', cfgGate ec)]"

definition validate_upbit :: "upbit_config \<Rightarrow> go_config_error option" where
  "validate_upbit u =
     (if \<not> ucEnabled u then None
      else if APIURL u = [] then Some EmptyAPIURL
      else if PollInterval u < 1 * second then Some PollTooShort
      else None)"

fun validate_exchange_table :: "(string, exchange_config) gomap \<Rightarrow> go_config_error option" where
  "validate_exchange_table [] = None"
| "validate_exchange_table ((nm, ex) # m) =
     (if \<not> ecEnabled ex then validate_exchange_table m
      else if ecSpotEndpoint ex = [] \<and> ecFuturesEndpoint ex = [] then Some (NoExchangeEndpoint nm)
      else if ecMaxSymbols ex < 1 then Some (MaxSymbolsNotPositive nm)
      else if ecMaxRetries ex < 0 then Some (NegativeRetries nm)
      else validate_exchange_table m)"

definition validate_analysis :: "analysis_config \<Rightarrow> go_config_error option" where
  "validate_analysis a =
     (if \<not> acEnabled a then None
      else if f_leq (ThresholdPercent a) (Fin 0) then Some ThresholdNotPositive
      else if TimeWindow a < 100 * millisecond then Some WindowTooShort
      else None)"

definition validate_config ::
  "((string, exchange_config) gomap \<Rightarrow> (string, exchange_config) gomap) \<Rightarrow> go_config \<Rightarrow> go_config_error option" where
  "validate_config ord cfg =
     (case validate_upbit (gcUpbit cfg) of
        Some e \<Rightarrow> Some e
      | None \<Rightarrow>
          (case validate_exchange_table (ord (exchange_table (gcExchanges cfg))) of
             Some e \<Rightarrow> Some e
           | None \<Rightarrow> validate_analysis (gcAnalysis cfg)))"

definition get_enabled_exchanges ::
  "((string, exchange_config) gomap \<Rightarrow> (string, exchange_config) gomap) \<Rightarrow> go_config \<Rightarrow> string list" where
  "get_enabled_exchanges ord cfg =
     map fst (filter (\<lambda>(_, ex). ecEnabled ex) (ord (exchange_table (gcExchanges cfg))))"

section \<open>The file\<close>

text \<open>\<open>Save\<close>: the temporary file is removed when the rename fails and the removal works.\<close>

definition save_go_config ::
  "(go_config \<Rightarrow> 'b option) \<Rightarrow> 'b file_write \<Rightarrow> string option \<Rightarrow> bool \<Rightarrow> string \<Rightarrow> go_config \<Rightarrow>
     (string, 'b) gomap \<Rightarrow> go_config_error option \<times> (string, 'b) gomap" where
  "save_go_config yaml wr ren removeOK path cfg fs =
     (case yaml cfg of
        None \<Rightarrow> (Some CannotMarshal, fs)
      | Some data \<Rightarrow>
          (let tmp = path @ ''.tmp'' in
           case wr of
             NotOpened e \<Rightarrow> (Some (CannotWriteTemp e), fs)
           | ShortWrite e part \<Rightarrow> (Some (CannotWriteTemp e), mput tmp part fs)
           | Wrote \<Rightarrow>
               (case ren of
                  Some e \<Rightarrow> (Some (CannotMove e), if removeOK then mdel tmp (mput tmp data fs) else mput tmp data fs)
                | None \<Rightarrow> (None, mput path data (mdel tmp fs)))))"

definition load_go_config ::
  "(go_config \<Rightarrow> 'b option) \<Rightarrow> ('b \<Rightarrow> go_config option) \<Rightarrow>
     ((string, exchange_config) gomap \<Rightarrow> (string, exchange_config) gomap) \<Rightarrow>
     string option \<Rightarrow> 'b file_write \<Rightarrow> string option \<Rightarrow> bool \<Rightarrow> string \<Rightarrow> (string, 'b) gomap \<Rightarrow>
     (go_config_error + go_config) \<times> (string, 'b) gomap" where
  "load_go_config yaml unyaml ord rd wr ren removeOK path fs =
     (case mget fs path of
        None \<Rightarrow>
          (case save_go_config yaml wr ren removeOK path new_default_config fs of
             (Some e, fs') \<Rightarrow> (Inl (CannotCreate e), fs')
           | (None, fs') \<Rightarrow> (Inr new_default_config, fs'))
      | Some data \<Rightarrow>
          (case rd of
             Some e \<Rightarrow> (Inl (CannotRead e), fs)
           | None \<Rightarrow>
               (case unyaml data of
                  None \<Rightarrow> (Inl CannotParse, fs)
                | Some cfg \<Rightarrow>
                    (case validate_config ord cfg of
                       Some e \<Rightarrow> (Inl (FailedValidation e), fs)
                     | None \<Rightarrow> (Inr cfg, fs)))))"

section \<open>What loading guarantees\<close>

definition upbit_sound :: "upbit_config \<Rightarrow> bool" where
  "upbit_sound u = (ucEnabled u \<longrightarrow> APIURL u \<noteq> [] \<and> second \<le> PollInterval u)"

definition enabled_sound :: "exchange_config \<Rightarrow> bool" where
  "enabled_sound ex =
     (ecEnabled ex \<longrightarrow> (ecSpotEndpoint ex \<noteq> [] \<or> ecFuturesEndpoint ex \<noteq> []) \<and> 1 \<le> ecMaxSymbols ex \<and> 0 \<le> ecMaxRetries ex)"

definition analysis_sound :: "analysis_config \<Rightarrow> bool" where
  "analysis_sound a =
     (acEnabled a \<longrightarrow> \<not> f_leq (ThresholdPercent a) (Fin 0) \<and> 100 * millisecond \<le> TimeWindow a)"

lemma validate_upbit_None: "validate_upbit u = None \<longleftrightarrow> upbit_sound u"
  by (auto simp: validate_upbit_def upbit_sound_def)

lemma validate_analysis_None: "validate_analysis a = None \<longleftrightarrow> analysis_sound a"
  by (auto simp: validate_analysis_def analysis_sound_def)

lemma validate_exchange_table_None:
  "validate_exchange_table m = None \<longleftrightarrow> (\<forall>ex \<in> snd ` set m. enabled_sound ex)"
  by (induction m rule: validate_exchange_table.induct) (auto simp: enabled_sound_def)

lemma iter_order_set: "iter_order ord \<Longrightarrow> set (ord m) = set m"
  unfolding iter_order_def by (metis mset_eq_setD)

lemma validate_config_None:
  assumes "iter_order ord"
  shows "validate_config ord cfg = None \<longleftrightarrow>
    upbit_sound (gcUpbit cfg) \<and> (\<forall>ex \<in> snd ` set (exchange_table (gcExchanges cfg)). enabled_sound ex) \<and>
    analysis_sound (gcAnalysis cfg)"
proof -
  have "validate_config ord cfg = None \<longleftrightarrow> validate_upbit (gcUpbit cfg) = None \<and>
      validate_exchange_table (ord (exchange_table (gcExchanges cfg))) = None \<and> validate_analysis (gcAnalysis cfg) = None"
    by (simp add: validate_config_def split: option.splits)
  then show ?thesis
    by (simp add: validate_upbit_None validate_analysis_None validate_exchange_table_None iter_order_set [OF assms])
qed

lemma default_config_valid: "iter_order ord \<Longrightarrow> validate_config ord new_default_config = None"
  by (simp add: validate_config_None) (simp add: new_default_config_def upbit_sound_def analysis_sound_def
      exchange_table_def default_exchanges_def default_exchange_def enabled_sound_def f_leq_def second_def millisecond_def)

text \<open>Whatever order the map of exchanges is visited in: a configuration that \<open>Load\<close> returns
  satisfies every rule of the validation; when the file was missing it is the default one, the file
  then holds its encoding, and loading again gives the same; otherwise the file is untouched.\<close>

theorem load_config_valid:
  assumes "iter_order ord" "load_go_config yaml unyaml ord rd wr ren removeOK path fs = (Inr cfg, fs')"
    and "\<forall>data. yaml new_default_config = Some data \<longrightarrow> unyaml data = Some new_default_config"
  shows "upbit_sound (gcUpbit cfg) \<and> (\<forall>ex \<in> snd ` set (exchange_table (gcExchanges cfg)). enabled_sound ex) \<and>
    analysis_sound (gcAnalysis cfg) \<and>
    load_go_config yaml unyaml ord None wr' ren' removeOK' path fs' = (Inr cfg, fs') \<and>
    (mget fs path \<noteq> None \<longrightarrow> fs' = fs)"
proof (cases "mget fs path")
  case None
  then obtain data where cfg: "cfg = new_default_config" and d: "yaml new_default_config = Some data"
    and fs': "fs' = mput path data (mdel (path @ ''.tmp'') fs)"
    using assms(2) by (auto simp: load_go_config_def save_go_config_def Let_def
        split: option.splits file_write.splits prod.splits if_splits)
  have v: "validate_config ord new_default_config = None"
    using default_config_valid [OF assms(1)] .
  then have "load_go_config yaml unyaml ord None wr' ren' removeOK' path fs' = (Inr cfg, fs')"
    using assms(3) d by (simp add: load_go_config_def fs' mget_mput cfg)
  then show ?thesis
    using v None by (simp add: cfg validate_config_None [OF assms(1)])
next
  case (Some data)
  then have l: "unyaml data = Some cfg" "validate_config ord cfg = None" "fs' = fs"
    using assms(2) by (auto simp: load_go_config_def split: option.splits)
  then have "load_go_config yaml unyaml ord None wr' ren' removeOK' path fs' = (Inr cfg, fs')"
    using Some by (simp add: load_go_config_def)
  then show ?thesis
    using l validate_config_None [OF assms(1), of cfg] by simp
qed

lemma load_config_valid_witness:
  "load_go_config Some Some rev None Wrote None True ''c'' [] = (Inr new_default_config, [(''c'', new_default_config)]) \<and>
   upbit_sound (gcUpbit new_default_config)"
proof -
  have l: "load_go_config Some Some rev None Wrote None True ''c'' [] =
      (Inr new_default_config, [(''c'', new_default_config)])"
    by (simp add: load_go_config_def save_go_config_def Let_def)
  show ?thesis
    using l load_config_valid [OF iter_order_rev l] by simp
qed

lemma enabled_exchanges_iff:
  assumes "iter_order ord"
  shows "nm \<in> set (get_enabled_exchanges ord cfg) \<longleftrightarrow>
    (\<exists>ex. (nm, ex) \<in> set (exchange_table (gcExchanges cfg)) \<and> ecEnabled ex)"
  by (force simp: get_enabled_exchanges_def iter_order_set [OF assms])

text \<open>A threshold that is not a number passes the validation.\<close>

lemma nan_threshold_passes: "\<not> f_leq NaN (Fin 0)"
  by (simp add: f_leq_def)

end
