(* ===== verification/ModelsHelpers.thy ===== *)
theory ModelsHelpers
  imports GoTime StorageTypes
begin

text \<open>
  The helpers of the models package, \<open>internal/models/utils.go\<close>, and its own pump event,
  \<open>internal/models/pump_event.go\<close>: prices and volumes as decimal text, percentages with two digits,
  timestamps as text, symbols cut into base and quote, and the classification of a pump by its time
  relative to the announcement.
\<close>

section \<open>Numbers as text\<close>

text \<open>\<open>parseFloat\<close> gives zero for what is not a number.\<close>

definition parse_float_or_zero :: "string \<Rightarrow> gofloat" where
  "parse_float_or_zero s = (case float_opt s of Some v \<Rightarrow> v | None \<Rightarrow> Fin 0)"

text \<open>\<open>fmt.Sprintf\<close> with \<open>%.kf\<close>, for a positive number of digits.\<close>

fun fixed :: "nat \<Rightarrow> gofloat \<Rightarrow> string" where
  "fixed k (Fin q) =
     (let n = nat (round_even (\<bar>q\<bar> * 10 ^ k)) in
      (if q < 0 then ''-'' else '''') @ show_nat (n div 10 ^ k) @ ''.'' @ zero_pad k (show_nat (n mod 10 ^ k)))"
| "fixed k PosInf = ''+Inf''"
| "fixed k NegInf = ''-Inf''"
| "fixed k NaN = ''NaN''"

lemma fixed8_fixed: "fixed8 f = fixed 8 f"
  by (cases f) simp_all

definition format_float :: "gofloat \<Rightarrow> string" where
  "format_float f = fixed 8 f"

definition calculate_percent_change :: "string \<Rightarrow> string \<Rightarrow> string" where
  "calculate_percent_change startPrice endPrice =
     (let start = parse_float_or_zero startPrice; endp = parse_float_or_zero endPrice in
      if start = Fin 0 then ''0.00''
      else fixed 2 (f_mul (f_div (f_sub endp start) start) (Fin 100)))"

definition calculate_spread :: "string \<Rightarrow> string \<Rightarrow> string" where
  "calculate_spread bid ask =
     (let b = parse_float_or_zero bid; a = parse_float_or_zero ask in
      if b = Fin 0 \<or> a = Fin 0 then ''0.00''
      else fixed 4 (f_mul (f_div (f_sub a b) b) (Fin 100)))"

definition get_memory_usage_estimate :: "int \<Rightarrow> int" where
  "get_memory_usage_estimate tradeCount = wrap64 (1024 * 1024 + wrap64 (wrap64 (tradeCount * 12) * 200))"

definition format_memory_size :: "int \<Rightarrow> string" where
  "format_memory_size bytes =
     (if bytes \<ge> 1024 * 1024 * 1024 then fixed 2 (Fin (of_int bytes / (1024 * 1024 * 1024))) @ '' GB''
      else if bytes \<ge> 1024 * 1024 then fixed 2 (Fin (of_int bytes / (1024 * 1024))) @ '' MB''
      else if bytes \<ge> 1024 then fixed 2 (Fin (of_int bytes / 1024)) @ '' KB''
      else show_int bytes @ '' B'')"

section \<open>Ranges of time\<close>

record time_range =
  trStart :: int
  trEnd :: int

definition new_time_range_check :: "int \<Rightarrow> int \<Rightarrow> time_range" where
  "new_time_range_check s e = \<lparr>trStart = s, trEnd = e\<rparr>"

definition is_in_range :: "time_range \<Rightarrow> int \<Rightarrow> bool" where
  "is_in_range r t = (t \<ge> trStart r \<and> t \<le> trEnd r)"

definition get_duration_ms :: "time_range \<Rightarrow> int" where
  "get_duration_ms r = wrap64 (trEnd r - trStart r)"

definition get_duration_seconds :: "time_range \<Rightarrow> gofloat" where
  "get_duration_seconds r = f_div (Fin (of_int (get_duration_ms r))) (Fin 1000)"

section \<open>Timestamps as text\<close>

text \<open>The layout \<open>2006-01-02 15:04:05.000\<close>, in a location \<open>off\<close> seconds east of Greenwich.\<close>

definition format_timestamp :: "int \<Rightarrow> int \<Rightarrow> string" where
  "format_timestamp off timestamp =
     (let t = (timestamp sdiv 1000) * 1000000000 + (timestamp smod 1000) * 1000000;
          secs = t div 1000000000 + off; sod = secs mod 86400;
          (y, yd) = year_of_day (secs div 86400 + epoch_days); (m, k) = split_month (month_lengths y) yd
      in pad_num 4 y @ ''-'' @ pad_num 2 (int m) @ ''-'' @ pad_num 2 k @ '' '' @
         pad_num 2 (sod div 3600) @ '':'' @ pad_num 2 (sod div 60 mod 60) @ '':'' @ pad_num 2 (sod mod 60) @
         ''.'' @ pad_num 3 (t mod 1000000000 div 1000000))"

text \<open>The separators of the layout; a space of the layout takes any number of spaces, but at least one
  unless the text is at its end.\<close>

definition skip_char :: "char \<Rightarrow> string \<Rightarrow> string option" where
  "skip_char c s = (if s \<noteq> [] \<and> hd s = c then Some (tl s) else None)"

definition skip_spaces :: "string \<Rightarrow> string option" where
  "skip_spaces s =
     (if s \<noteq> [] \<and> hd s \<noteq> CHR '' '' then None else Some (dropWhile (\<lambda>c. c = CHR '' '') s))"

text \<open>The hour may have one digit.\<close>

definition take_hour :: "string \<Rightarrow> (int \<times> string) option" where
  "take_hour s = (case take_num 2 s of Some r \<Rightarrow> Some r | None \<Rightarrow> take_num 1 s)"

definition parse_date :: "string \<Rightarrow> ((int \<times> int \<times> int) \<times> string) option" where
  "parse_date s0 =
     (case take_num 4 s0 of None \<Rightarrow> None | Some (y, s1) \<Rightarrow>
     (case skip_char (CHR ''-'') s1 of None \<Rightarrow> None | Some s2 \<Rightarrow>
     (case take_num 2 s2 of None \<Rightarrow> None | Some (m, s3) \<Rightarrow>
     (case skip_char (CHR ''-'') s3 of None \<Rightarrow> None | Some s4 \<Rightarrow>
     (case take_num 2 s4 of None \<Rightarrow> None | Some (k, s5) \<Rightarrow> Some ((y, m, k), s5))))))"

definition parse_clock :: "string \<Rightarrow> ((int \<times> int \<times> int \<times> int) \<times> string) option" where
  "parse_clock s0 =
     (case take_hour s0 of None \<Rightarrow> None | Some (h, s1) \<Rightarrow>
     (case skip_char (CHR '':'') s1 of None \<Rightarrow> None | Some s2 \<Rightarrow>
     (case take_num 2 s2 of None \<Rightarrow> None | Some (mi, s3) \<Rightarrow>
     (case skip_char (CHR '':'') s3 of None \<Rightarrow> None | Some s4 \<Rightarrow>
     (case take_num 2 s4 of None \<Rightarrow> None | Some (sec, s5) \<Rightarrow>
     (if s5 = [] \<or> (hd s5 \<noteq> CHR ''.'' \<and> hd s5 \<noteq> CHR '','') then None
      else case take_num 3 (tl s5) of None \<Rightarrow> None | Some (ms, s6) \<Rightarrow> Some ((h, mi, sec, ms), s6)))))))"

definition parse_timestamp :: "string \<Rightarrow> int option" where
  "parse_timestamp s0 =
     (case parse_date s0 of None \<Rightarrow> None | Some ((y, m, k), s1) \<Rightarrow>
     (case skip_spaces s1 of None \<Rightarrow> None | Some s2 \<Rightarrow>
     (case parse_clock s2 of None \<Rightarrow> None | Some ((h, mi, sec, ms), s3) \<Rightarrow>
      if m < 1 \<or> 12 < m \<or> h \<ge> 24 \<or> mi \<ge> 60 \<or> sec \<ge> 60 \<or> s3 \<noteq> [] then None
      else if k < 1 \<or> k > month_lengths y ! nat (m - 1) then None
      else Some ((((day_of_date y (nat m) k - epoch_days) * 24 + h) * 60 + mi) * 60000 + sec * 1000 + ms))))"

definition generate_file_path :: "int \<Rightarrow> string \<Rightarrow> gotime \<Rightarrow> string" where
  "generate_file_path off symbol t = symbol @ ''_'' @ format_stamp off t"

section \<open>Exchanges and symbols\<close>

definition get_exchange_list :: "string list" where
  "get_exchange_list = [''binance'', ''okx'', ''kucoin'', ''phemex'', ''gate'', ''bybit'']"

definition get_market_types :: "string list" where
  "get_market_types = [''spot'', ''futures'']"

definition is_valid_exchange :: "string \<Rightarrow> bool" where
  "is_valid_exchange ex = (ex \<in> set get_exchange_list)"

definition is_valid_market_type :: "string \<Rightarrow> bool" where
  "is_valid_market_type mt = (mt \<in> set get_market_types)"

definition clean_symbol :: "string \<Rightarrow> string" where
  "clean_symbol s = to_upper (trim_space s)"

definition extract_base_quote :: "string \<Rightarrow> string \<times> string" where
  "extract_base_quote symbol0 =
     (let symbol = clean_symbol symbol0 in
      case find (has_suffix symbol) [''USDT'', ''USDC'', ''BUSD'', ''BTC'', ''ETH'', ''BNB'', ''USD'', ''EUR''] of
        Some q \<Rightarrow> (take (length symbol - length q) symbol, q)
      | None \<Rightarrow>
          if length symbol > 3 then (take (length symbol - 3) symbol, drop (length symbol - 3) symbol)
          else (symbol, ''''))"

section \<open>The pump event of the models package\<close>

record models_pump =
  mpExchange :: string
  mpMarketType :: string
  mpSymbol :: string
  mpStartTime :: int
  mpEndTime :: int
  mpDuration :: int
  mpTriggerTime :: int
  mpRelativeTime :: int
  mpStartPrice :: string
  mpPeakPrice :: string
  mpEndPrice :: string
  mpPriceChange :: string
  mpPeakChange :: string
  mpVolume :: string
  mpQuoteVol :: string
  mpTradeCount :: nat
  mpAvgPrice :: string
  mpPumpType :: string
  mpConfidence :: gofloat
  mpIntensity :: gofloat
  mpVolumeRatio :: gofloat
  mpSpreadImpact :: gofloat
  mpTradeEvents :: "trade_event list"
  mpCreatedAt :: gotime

definition new_models_pump :: "gotime \<Rightarrow> string \<Rightarrow> string \<Rightarrow> string \<Rightarrow> int \<Rightarrow> models_pump" where
  "new_models_pump now ex mt symbol trig =
     \<lparr>mpExchange = ex, mpMarketType = mt, mpSymbol = symbol, mpStartTime = 0, mpEndTime = 0, mpDuration = 0,
      mpTriggerTime = trig, mpRelativeTime = 0, mpStartPrice = [], mpPeakPrice = [], mpEndPrice = [],
      mpPriceChange = [], mpPeakChange = [], mpVolume = [], mpQuoteVol = [], mpTradeCount = 0,
      mpAvgPrice = [], mpPumpType = [], mpConfidence = Fin 0, mpIntensity = Fin 0, mpVolumeRatio = Fin 0,
      mpSpreadImpact = Fin 0, mpTradeEvents = [], mpCreatedAt = now\<rparr>"

definition set_time_range :: "int \<Rightarrow> int \<Rightarrow> models_pump \<Rightarrow> models_pump" where
  "set_time_range s e pe =
     pe\<lparr>mpStartTime := s, mpEndTime := e, mpDuration := wrap64 (e - s),
        mpRelativeTime := wrap64 (s - mpTriggerTime pe) sdiv 1000\<rparr>"

definition set_price_range :: "string \<Rightarrow> string \<Rightarrow> string \<Rightarrow> models_pump \<Rightarrow> models_pump" where
  "set_price_range s pk e pe =
     pe\<lparr>mpStartPrice := s, mpPeakPrice := pk, mpEndPrice := e,
        mpPriceChange := calculate_percent_change s e, mpPeakChange := calculate_percent_change s pk\<rparr>"

text \<open>The loop over the trades keeps the three sums of volume, quote volume and value.\<close>

definition add_volume :: "trade_event \<Rightarrow> gofloat \<times> gofloat \<times> gofloat \<Rightarrow> gofloat \<times> gofloat \<times> gofloat" where
  "add_volume t = (\<lambda>(v, q, w).
     let qty = parse_float_or_zero (Quantity t); price = parse_float_or_zero (Price t)
     in (f_add v qty, f_add q (f_mul qty price), f_add w (f_mul price qty)))"

definition calculate_volume_stats :: "models_pump \<Rightarrow> models_pump" where
  "calculate_volume_stats pe =
     (if mpTradeEvents pe = [] then pe
      else let (v, q, w) = fold add_volume (mpTradeEvents pe) (Fin 0, Fin 0, Fin 0);
               pe1 = pe\<lparr>mpVolume := format_float v, mpQuoteVol := format_float q\<rparr>
           in if f_less (Fin 0) v then pe1\<lparr>mpAvgPrice := format_float (f_div w v)\<rparr> else pe1)"

definition add_trade_events :: "trade_event list \<Rightarrow> models_pump \<Rightarrow> models_pump" where
  "add_trade_events trades pe =
     calculate_volume_stats (pe\<lparr>mpTradeEvents := trades, mpTradeCount := length trades\<rparr>)"

definition calculate_intensity :: "models_pump \<Rightarrow> models_pump" where
  "calculate_intensity pe =
     pe\<lparr>mpIntensity := f_add (f_mul (parse_float_or_zero (mpPriceChange pe)) (Fin (7 / 10)))
                              (f_mul (mpVolumeRatio pe) (Fin (3 / 10)))\<rparr>"

definition is_significant :: "gofloat \<Rightarrow> int \<Rightarrow> models_pump \<Rightarrow> bool" where
  "is_significant minChange minDuration pe =
     (f_leq minChange (parse_float_or_zero (mpPriceChange pe)) \<and> mpDuration pe \<ge> minDuration)"

definition get_time_window :: "models_pump \<Rightarrow> string" where
  "get_time_window pe =
     (let rel = mpRelativeTime pe in
      if rel \<le> -15 then ''early_pump'' else if rel \<le> -10 then ''mid_pump''
      else if rel \<le> -5 then ''late_pump'' else if rel \<le> 0 then ''final_pump'' else ''post_pump'')"

record models_pump_summary =
  msSymbol :: string
  msTriggerTime :: int
  msCollectionStart :: int
  msCollectionEnd :: int
  msTotalPumps :: int
  msExchangePumps :: "(string, int) gomap"
  msMarketTypePumps :: "(string, int) gomap"
  msTimeWindowPumps :: "(string, int) gomap"
  msMaxPriceChange :: string
  msMaxPumpExchange :: string
  msFirstPumpTime :: int
  msLastPumpTime :: int
  msAvgIntensity :: gofloat
  msTotalVolume :: string
  msCreatedAt :: gotime

end
