(* ===== verification/ModelsHelpersProps.thy ===== *)
theory ModelsHelpersProps
  imports ModelsHelpers SymbolFilter
begin

text \<open>
  What the helpers of the models package compute: a timestamp's text read back is the timestamp moved by
  the offset of the local zone, a pair of a coin and USDT is cut where it was joined, and the time window
  of a pump in milliseconds.
\<close>

section \<open>Symbols\<close>

lemma clean_coin_pair:
  assumes "coin_code c"
  shows "clean_symbol (c @ ''USDT'') = c @ ''USDT''"
proof -
  have "c \<noteq> []" "\<forall>x\<in>set c. code_char x"
    using assms by (simp_all add: coin_code_def list_all_iff)
  then have "\<not> is_space (hd c)"
    by (cases c) (auto simp: code_char_def is_space_def is_digit_def)
  then have "trim_space (c @ ''USDT'') = c @ ''USDT''"
    using \<open>c \<noteq> []\<close> by (intro trim_space_id) (auto simp: is_space_def)
  then show ?thesis
    using coin_code_upper [OF assms] by (simp add: clean_symbol_def to_upper_def upper_char_def)
qed

lemma usdt_pair_cut: "coin_code c \<Longrightarrow> extract_base_quote (c @ ''USDT'') = (c, ''USDT'')"
  by (simp add: extract_base_quote_def clean_coin_pair Let_def)

text \<open>The quote BUSD is tried before USD, so the dollar pair of BNB is cut one letter too early.\<close>

lemma bnb_dollar_pair: "extract_base_quote ''BNBUSD'' = (''BN'', ''BUSD'')"
  by (simp add: extract_base_quote_def clean_symbol_def trim_space_def to_upper_def upper_char_def has_suffix_def
      is_space_def)

section \<open>Timestamps\<close>

lemma timestamp_nanos: "(ts sdiv 1000) * 1000000000 + (ts smod 1000) * 1000000 = ts * 1000000" for ts :: int
proof -
  have "(ts sdiv 1000) * 1000 + ts smod 1000 = ts"
    by (rule sdiv_mult_smod_eq)
  then have "((ts sdiv 1000) * 1000 + ts smod 1000) * 1000000 = ts * 1000000"
    by simp
  then show ?thesis
    by (simp add: algebra_simps)
qed

lemma take_hour_pad: "0 \<le> h \<Longrightarrow> h < 24 \<Longrightarrow> take_hour (pad_num 2 h @ s) = Some (h, s)"
  using take_num_pad [of h 2 s] by (simp add: take_hour_def)

lemma parse_date_pad:
  assumes "1 \<le> y" "y \<le> 9999" "1 \<le> m" "m \<le> 12" "1 \<le> k" "k \<le> 31"
  shows "parse_date (pad_num 4 y @ ''-'' @ pad_num 2 (int m) @ ''-'' @ pad_num 2 k @ s) = Some ((y, int m, k), s)"
  using assms by (simp add: parse_date_def take_num_pad skip_char_def)

lemma parse_clock_pad:
  assumes "0 \<le> h" "h < 24" "0 \<le> mi" "mi < 60" "0 \<le> sec" "sec < 60" "0 \<le> ms" "ms < 1000"
  shows "parse_clock (pad_num 2 h @ '':'' @ pad_num 2 mi @ '':'' @ pad_num 2 sec @ ''.'' @ pad_num 3 ms) =
    Some ((h, mi, sec, ms), [])"
  using assms take_num_pad [of ms 3 "[]"] by (simp add: parse_clock_def take_hour_pad take_num_pad skip_char_def)

lemma skip_spaces_pad:
  assumes "0 \<le> h"
  shows "skip_spaces (CHR '' '' # pad_num 2 h @ s) = Some (pad_num 2 h @ s)"
proof -
  obtain c r where "pad_num 2 h = c # r" "is_digit c"
    using pad_num_nonempty [OF assms] by blast
  then show ?thesis
    by (auto simp: skip_spaces_def is_digit_def)
qed

text \<open>The text of a timestamp, made in the local zone and read back as a time of UTC, is the
  timestamp moved by the offset of the zone: only in UTC do the two functions undo each other.\<close>

theorem timestamp_text_shifts:
  assumes "- 62135596800 \<le> ts div 1000 + off" "ts div 1000 + off < 253402300800"
  shows "parse_timestamp (format_timestamp off ts) = Some (ts + off * 1000)"
proof -
  let ?s = "ts div 1000 + off"
  have secs: "(ts * 1000000) div 1000000000 = ts div 1000"
    using div_mult_mult2 [of 1000000 ts 1000] by simp
  have milli: "ts * 1000000 mod 1000000000 div 1000000 = ts mod 1000"
    using mod_mult_mult2 [of ts 1000000 1000] by simp
  define sod where "sod = ?s mod 86400"
  have sod: "0 \<le> sod" "sod < 86400"
    by (simp_all add: sod_def)
  note h = clock_parts [OF sod]
  have ms: "0 \<le> ts mod 1000" "ts mod 1000 < 1000"
    by simp_all
  obtain y yd m k where y: "year_of_day (?s div 86400 + epoch_days) = (y, yd)" "split_month (month_lengths y) yd = (m, k)"
    and r: "1 \<le> y" "y \<le> 9999" "1 \<le> m" "m \<le> 12" "1 \<le> k" "k \<le> month_lengths y ! (m - 1)" "k \<le> 31"
    and day: "day_of_date y m k = ?s div 86400 + epoch_days"
    by (rule date_parts [OF assms])
  have f: "format_timestamp off ts = pad_num 4 y @ ''-'' @ pad_num 2 (int m) @ ''-'' @ pad_num 2 k @
      CHR '' '' # pad_num 2 (sod div 3600) @ '':'' @ pad_num 2 (sod div 60 mod 60) @ '':'' @ pad_num 2 (sod mod 60) @
      ''.'' @ pad_num 3 (ts mod 1000)"
    by (simp add: format_timestamp_def timestamp_nanos Let_def secs milli y sod_def [symmetric])
  have "parse_timestamp (format_timestamp off ts) =
      Some ((((day_of_date y m k - epoch_days) * 24 + sod div 3600) * 60 + sod div 60 mod 60) * 60000 +
        sod mod 60 * 1000 + ts mod 1000)"
    using r h(2,4,6) unfolding f parse_timestamp_def
    by (simp add: parse_date_pad [OF r(1-5,7)] skip_spaces_pad [OF h(1)] parse_clock_pad [OF h(1-6) ms] nat_diff_distrib' not_le
        del: append.simps)
  also have "(((day_of_date y m k - epoch_days) * 24 + sod div 3600) * 60 + sod div 60 mod 60) * 60000 +
        sod mod 60 * 1000 + ts mod 1000 = (?s div 86400 * 86400 + sod) * 1000 + ts mod 1000"
    unfolding day using h(7) by (simp add: algebra_simps)
  also have "\<dots> = ts + off * 1000"
    by (simp add: sod_def algebra_simps)
  finally show ?thesis .
qed

lemma timestamp_text_shifts_witness:
  "parse_timestamp (format_timestamp 32400 1700000000123) = Some (1700000000123 + 32400 * 1000)"
  by (rule timestamp_text_shifts) simp_all

section \<open>The time window of a pump\<close>

lemma sdiv_1000: "x sdiv 1000 = (if 0 \<le> x then x div 1000 else - ((- x) div 1000))" for x :: int
  by (simp add: signed_divide_int_def sgn_if)

text \<open>The window of a pump in milliseconds after the announcement: because the division truncates
  towards zero, a pump that begins in the second after the announcement is still a final pump, and the
  bounds of the earlier windows are sharp.\<close>

theorem pump_window_in_milliseconds:
  assumes "d = s - mpTriggerTime pe" "\<bar>d\<bar> < 2 ^ 63"
  shows "get_time_window (set_time_range s e pe) =
    (if d \<le> -15000 then ''early_pump'' else if d \<le> -10000 then ''mid_pump''
     else if d \<le> -5000 then ''late_pump'' else if d < 1000 then ''final_pump'' else ''post_pump'')"
proof -
  have w: "wrap64 (s - mpTriggerTime pe) = d"
    using assms by (intro trans [OF wrap64_id]) auto
  have "d sdiv 1000 \<le> -15 \<longleftrightarrow> d \<le> -15000" "d sdiv 1000 \<le> -10 \<longleftrightarrow> d \<le> -10000"
    "d sdiv 1000 \<le> -5 \<longleftrightarrow> d \<le> -5000" "d sdiv 1000 \<le> 0 \<longleftrightarrow> d < 1000"
    unfolding sdiv_1000 by (cases "0 \<le> d"; simp; linarith)+
  then show ?thesis
    by (simp add: get_time_window_def set_time_range_def w Let_def)
qed

lemma pump_window_in_milliseconds_witness:
  "get_time_window (set_time_range 10999 12000 (new_models_pump 0 ''okx'' ''spot'' ''TIA-USDT'' 10000)) = ''final_pump''"
  using pump_window_in_milliseconds [of 999 10999 "new_models_pump 0 ''okx'' ''spot'' ''TIA-USDT'' 10000" 12000]
  by (simp add: new_models_pump_def)

end
