(* ===== verification/WsManager.thy ===== *)
theory WsManager
  imports RingBuffer CircuitBreakers Symbols
begin

text \<open>
  The connection manager, the hard-reset guard and the central task manager of the models package,
  \<open>internal/models/websocket_types.go\<close>.  Closing a closed channel panics, and receiving from one always
  succeeds: both happen here, so the channels are part of the state and a method gives a \<^typ>\<open>'a run\<close>.
\<close>

section \<open>Status and errors\<close>

datatype ws_status =
    WsDisconnected | WsConnecting | WsConnected | WsReconnecting | WsError | WsCooldown | WsOther int

fun ws_status_string :: "ws_status \<Rightarrow> string" where
  "ws_status_string WsDisconnected = ''Disconnected''"
| "ws_status_string WsConnecting = ''Connecting''"
| "ws_status_string WsConnected = ''Connected''"
| "ws_status_string WsReconnecting = ''Reconnecting''"
| "ws_status_string WsError = ''Error''"
| "ws_status_string WsCooldown = ''Cooldown''"
| "ws_status_string (WsOther n) = ''Unknown''"

datatype ws_error_type = ErrNetwork | ErrAuth | ErrRateLimit | ErrMarketData | ErrCritical

section \<open>The manager of one connection\<close>

text \<open>The three channels are made and closed together: \<open>wmClosed\<close>.\<close>

record ws_manager =
  wmID :: string
  wmExchange :: string
  wmMarketType :: string
  wmHasConn :: bool
  wmStatus :: ws_status
  wmSymbols :: "string list"
  wmMaxSymbols :: int
  wmRetryCount :: int
  wmMaxRetries :: int
  wmLastError :: "string option"
  wmCooldownUntil :: gotime
  wmMessages :: "string list"
  wmErrors :: "string list"
  wmClosed :: bool
  wmCancelled :: bool
  wmLastMessage :: gotime
  wmTotalMessages :: int
  wmLastPing :: gotime
  wmLastPong :: gotime

definition new_ws_manager :: "gotime \<Rightarrow> string \<Rightarrow> string \<Rightarrow> exchange_symbols \<Rightarrow> ws_manager" where
  "new_ws_manager now ex mt cfg =
     \<lparr>wmID = ex @ ''-'' @ mt, wmExchange = ex, wmMarketType = mt, wmHasConn = False,
      wmStatus = WsDisconnected, wmSymbols = [], wmMaxSymbols = MaxSymbolsPerConnection cfg,
      wmRetryCount = 0, wmMaxRetries = MaxRetries cfg, wmLastError = None, wmCooldownUntil = zero_time,
      wmMessages = [], wmErrors = [], wmClosed = False, wmCancelled = False, wmLastMessage = now,
      wmTotalMessages = 0, wmLastPing = zero_time, wmLastPong = zero_time\<rparr>"

definition ws_set_status :: "ws_status \<Rightarrow> ws_manager \<Rightarrow> ws_manager" where
  "ws_set_status s m = m\<lparr>wmStatus := s\<rparr>"

definition ws_is_healthy :: "gotime \<Rightarrow> ws_manager \<Rightarrow> bool" where
  "ws_is_healthy now m = (now - wmLastMessage m < 30 * second)"

definition ws_should_retry :: "gotime \<Rightarrow> ws_manager \<Rightarrow> bool" where
  "ws_should_retry now m =
     (if wmRetryCount m \<ge> wmMaxRetries m then False
      else if wmStatus m = WsCooldown \<and> now < wmCooldownUntil m then False
      else True)"

definition ws_increment_retry :: "ws_manager \<Rightarrow> ws_manager" where
  "ws_increment_retry m = m\<lparr>wmRetryCount := wmRetryCount m + 1\<rparr>"

definition ws_reset_retry :: "ws_manager \<Rightarrow> ws_manager" where
  "ws_reset_retry m = m\<lparr>wmRetryCount := 0\<rparr>"

definition ws_set_cooldown :: "gotime \<Rightarrow> int \<Rightarrow> ws_manager \<Rightarrow> ws_manager" where
  "ws_set_cooldown now d m = m\<lparr>wmStatus := WsCooldown, wmCooldownUntil := now + d\<rparr>"

definition ws_close :: "ws_manager \<Rightarrow> ws_manager run" where
  "ws_close m =
     (if wmClosed m then Panicked
      else Returned (m\<lparr>wmCancelled := True, wmClosed := True, wmStatus := WsDisconnected\<rparr>))"

section \<open>Hard resets\<close>

record hard_reset =
  hrResetCount :: int
  hrLastReset :: gotime
  hrCooldown :: int
  hrMaxPerHour :: int
  hrCriticalErrors :: "string list"

definition new_hard_reset :: "int \<Rightarrow> int \<Rightarrow> hard_reset" where
  "new_hard_reset maxPerHour cooldown =
     \<lparr>hrResetCount = 0, hrLastReset = zero_time, hrCooldown = cooldown, hrMaxPerHour = maxPerHour,
      hrCriticalErrors = [''connection refused'', ''authentication failed'', ''invalid api key'', ''system overload'']\<rparr>"

text \<open>\<open>err\<close> is the text of the error; a nil error panics once its text is asked for.\<close>

definition should_trigger_hard_reset :: "gotime \<Rightarrow> string option \<Rightarrow> hard_reset \<Rightarrow> bool run" where
  "should_trigger_hard_reset now err h =
     (if hrResetCount h \<ge> hrMaxPerHour h \<and> now - hrLastReset h < hour then Returned False
      else if now - hrLastReset h < hrCooldown h then Returned False
      else (case err of
              None \<Rightarrow> Panicked
            | Some msg \<Rightarrow> Returned (\<exists>p \<in> set (hrCriticalErrors h). contains_str msg p)))"

definition execute_hard_reset :: "gotime \<Rightarrow> hard_reset \<Rightarrow> hard_reset" where
  "execute_hard_reset now h = h\<lparr>hrResetCount := hrResetCount h + 1, hrLastReset := now\<rparr>"

section \<open>The central task manager\<close>

record retry_task =
  rtManagerID :: string
  rtRetryAfter :: gotime
  rtRetryCount :: int
  rtMaxRetries :: int
  rtErrorType :: ws_error_type

definition zero_retry_task :: retry_task where
  "zero_retry_task = \<lparr>rtManagerID = [], rtRetryAfter = zero_time, rtRetryCount = 0, rtMaxRetries = 0,
     rtErrorType = ErrNetwork\<rparr>"

record system_status =
  syConnections :: "(string, ws_status) gomap"
  syPendingRetries :: "retry_task list"
  syMemoryUsage :: int
  syLastHardReset :: gotime
  syTotalEvents :: int
  syBreakerState :: string

record ws_task_manager =
  wtManagers :: "(string, ws_manager) gomap"
  wtTickerOn :: bool
  wtRetryQueue :: "retry_task list"
  wtQueueClosed :: bool
  wtBreaker :: ws_breaker
  wtHardReset :: hard_reset
  wtEmergencyClosed :: bool
  wtCancelled :: bool
  wtTotalMessages :: int
  wtTotalReconnects :: int
  wtTotalHardResets :: int
  wtLastHealthCheck :: gotime

definition new_ws_task_manager :: ws_task_manager where
  "new_ws_task_manager =
     \<lparr>wtManagers = [], wtTickerOn = True, wtRetryQueue = [], wtQueueClosed = False,
      wtBreaker = new_ws_breaker 5 (5 * minute), wtHardReset = new_hard_reset 3 (30 * minute),
      wtEmergencyClosed = False, wtCancelled = False, wtTotalMessages = 0, wtTotalReconnects = 0,
      wtTotalHardResets = 0, wtLastHealthCheck = zero_time\<rparr>"

definition add_manager :: "ws_manager \<Rightarrow> ws_task_manager \<Rightarrow> ws_task_manager" where
  "add_manager m wtm = wtm\<lparr>wtManagers := mput (wmID m) m (wtManagers wtm)\<rparr>"

definition get_manager :: "string \<Rightarrow> ws_task_manager \<Rightarrow> ws_manager option" where
  "get_manager i wtm = mget (wtManagers wtm) i"

text \<open>A sender of the retry queue, of capacity 1000.\<close>

definition queue_retry :: "retry_task \<Rightarrow> ws_task_manager \<Rightarrow> ws_task_manager run" where
  "queue_retry t wtm =
     (if wtQueueClosed wtm then Panicked
      else if length (wtRetryQueue wtm) < 1000 then Returned (wtm\<lparr>wtRetryQueue := wtRetryQueue wtm @ [t]\<rparr>)
      else Blocked)"

text \<open>The loop of \<open>GetSystemStatus\<close>: receive until the queue is empty.  A closed queue is never empty: it
  yields zero tasks for ever.\<close>

partial_function (option) drain_retries :: "bool \<Rightarrow> retry_task list \<Rightarrow> retry_task list \<Rightarrow> retry_task list option" where
  "drain_retries shut q acc =
     (case q of
        t # q' \<Rightarrow> drain_retries shut q' (acc @ [t])
      | [] \<Rightarrow> if shut then drain_retries shut [] (acc @ [zero_retry_task]) else Some acc)"

definition get_system_status :: "ws_task_manager \<Rightarrow> (system_status \<times> ws_task_manager) run" where
  "get_system_status wtm =
     (case drain_retries (wtQueueClosed wtm) (wtRetryQueue wtm) [] of
        None \<Rightarrow> Blocked
      | Some pending \<Rightarrow>
          Returned (\<lparr>syConnections = map (\<lambda>(i, m). (i, wmStatus m)) (wtManagers wtm), syPendingRetries = pending,
             syMemoryUsage = 0, syLastHardReset = hrLastReset (wtHardReset wtm),
             syTotalEvents = wtTotalMessages wtm, syBreakerState = wsState (wtBreaker wtm)\<rparr>,
            wtm\<lparr>wtRetryQueue := []\<rparr>))"

fun close_managers :: "(string \<times> ws_manager) list \<Rightarrow> (string \<times> ws_manager) list run" where
  "close_managers [] = Returned []"
| "close_managers ((i, m) # ms) =
     and_then (ws_close m) (\<lambda>m'. and_then (close_managers ms) (\<lambda>ms'. Returned ((i, m') # ms')))"

text \<open>\<open>ord\<close> is the order in which the map of managers is visited.\<close>

definition ws_shutdown ::
  "((string, ws_manager) gomap \<Rightarrow> (string, ws_manager) gomap) \<Rightarrow> ws_task_manager \<Rightarrow> ws_task_manager run" where
  "ws_shutdown ord wtm =
     and_then (close_managers (ord (wtManagers wtm))) (\<lambda>ms.
       if wtEmergencyClosed wtm \<or> wtQueueClosed wtm then Panicked
       else Returned (wtm\<lparr>wtCancelled := True, wtTickerOn := False, wtManagers := ms,
              wtEmergencyClosed := True, wtQueueClosed := True\<rparr>))"

section \<open>Draining\<close>

lemma drain_open: "drain_retries False q acc = Some (acc @ q)"
proof (induction q arbitrary: acc)
  case Nil
  show ?case by (subst drain_retries.simps) simp
next
  case (Cons t q)
  show ?case by (subst drain_retries.simps) (simp add: Cons.IH)
qed

lemma drain_closed: "drain_retries True q acc = None"
proof -
  have "\<not> shut" if "drain_retries shut q acc = Some r" for shut q acc r
    by (rule drain_retries.raw_induct [OF _ that, of "\<lambda>shut q acc r. \<not> shut"])
      (auto split: list.splits if_splits)
  then show ?thesis
    by (cases "drain_retries True q acc") auto
qed

text \<open>Looking at the status takes the pending retries away: a call reports exactly the queued tasks and
  leaves none, so the next call reports none; after a shutdown the call never returns, and a second
  shutdown panics.\<close>

theorem status_takes_the_retries:
  assumes "\<not> wtQueueClosed wtm"
  shows "(\<exists>st wtm'. get_system_status wtm = Returned (st, wtm') \<and> syPendingRetries st = wtRetryQueue wtm \<and>
      wtRetryQueue wtm' = [] \<and> wtManagers wtm' = wtManagers wtm) \<and>
    (\<forall>wtm'. ws_shutdown ord wtm = Returned wtm' \<longrightarrow> get_system_status wtm' = Blocked \<and>
      (\<forall>ord'. ws_shutdown ord' wtm' = Panicked))"
proof (intro conjI allI impI)
  show "\<exists>st wtm'. get_system_status wtm = Returned (st, wtm') \<and> syPendingRetries st = wtRetryQueue wtm \<and>
      wtRetryQueue wtm' = [] \<and> wtManagers wtm' = wtManagers wtm"
    using assms by (simp add: get_system_status_def drain_open)
next
  fix wtm'
  assume "ws_shutdown ord wtm = Returned wtm'"
  then have closed: "wtQueueClosed wtm'"
    by (cases "close_managers (ord (wtManagers wtm))") (auto simp: ws_shutdown_def split: if_splits)
  then show "get_system_status wtm' = Blocked"
    by (simp add: get_system_status_def drain_closed)
  fix ord'
  have "close_managers ms \<noteq> Blocked" for ms
  proof (induction ms rule: close_managers.induct)
    case (2 i m ms)
    then show ?case by (cases "close_managers ms") (auto simp: ws_close_def)
  qed simp
  then show "ws_shutdown ord' wtm' = Panicked"
    using closed by (cases "close_managers (ord' (wtManagers wtm'))") (auto simp: ws_shutdown_def)
qed

lemma status_takes_the_retries_witness:
  "\<exists>st wtm'. get_system_status (new_ws_task_manager\<lparr>wtRetryQueue := [zero_retry_task]\<rparr>) = Returned (st, wtm') \<and>
     syPendingRetries st = [zero_retry_task] \<and> wtRetryQueue wtm' = []"
  using status_takes_the_retries [of "new_ws_task_manager\<lparr>wtRetryQueue := [zero_retry_task]\<rparr>" id]
  by (simp add: new_ws_task_manager_def) blast

section \<open>The rate of hard resets\<close>

text \<open>A history of guarded resets: each call of \<open>ShouldTriggerHardReset\<close> that says yes is followed by a reset.\<close>

fun reset_history :: "(gotime \<times> string) list \<Rightarrow> hard_reset \<Rightarrow> gotime list" where
  "reset_history [] h = []"
| "reset_history ((t, msg) # es) h =
     (if should_trigger_hard_reset t (Some msg) h = Returned True
      then t # reset_history es (execute_hard_reset t h)
      else reset_history es h)"

lemma reset_spacing:
  "reset_history es h = t # ts \<Longrightarrow> hrLastReset h + hrCooldown h \<le> t \<and>
     (hrMaxPerHour h \<le> hrResetCount h \<longrightarrow> hrLastReset h + hour \<le> t) \<and>
     (\<exists>es'. ts = reset_history es' (execute_hard_reset t h))"
proof (induction es arbitrary: h)
  case (Cons e es)
  then show ?case
    by (cases e) (auto simp: should_trigger_hard_reset_def split: if_splits)
qed simp

text \<open>In any history two resets are at least the cooldown apart, and from the reset that reaches the
  hourly maximum on they are at least an hour apart, for ever: the count is never lowered, so the limit
  per hour is a limit on the life of the process.\<close>

theorem hard_resets_spaced:
  assumes "i + 1 < length (reset_history es h)"
  shows "reset_history es h ! i + hrCooldown h \<le> reset_history es h ! (i + 1) \<and>
    (hrMaxPerHour h \<le> hrResetCount h + int (i + 1) \<longrightarrow>
       reset_history es h ! i + hour \<le> reset_history es h ! (i + 1))"
  using assms
proof (induction i arbitrary: es h)
  case 0
  then obtain t t' ts where ts: "reset_history es h = t # t' # ts"
    by (cases "reset_history es h" rule: remdups_adj.cases) auto
  then obtain es' where es': "reset_history es' (execute_hard_reset t h) = t' # ts"
    using reset_spacing by metis
  show ?case
    using reset_spacing [OF es'] by (simp add: ts) (simp add: execute_hard_reset_def)
next
  case (Suc i)
  then obtain t ts where ts: "reset_history es h = t # ts"
    by (cases "reset_history es h") auto
  then obtain es' where es': "ts = reset_history es' (execute_hard_reset t h)"
    using reset_spacing by blast
  have "i + 1 < length (reset_history es' (execute_hard_reset t h))"
    using Suc.prems ts es' by simp
  from Suc.IH [OF this] show ?case
    using ts es' by (simp add: execute_hard_reset_def add.assoc)
qed

lemma hard_resets_spaced_witness:
  "reset_history [(0, ''system overload''), (10, ''system overload''), (30 * minute, ''system overload'')]
     (new_hard_reset 3 (30 * minute)) = [0, 30 * minute] \<and> 0 + 30 * minute \<le> 30 * minute"
proof -
  have c: "contains_str ''system overload'' ''system overload''"
    using contains_str_append [of "[]" _ "[]"] by simp
  have h: "reset_history [(0, ''system overload''), (10, ''system overload''), (30 * minute, ''system overload'')]
     (new_hard_reset 3 (30 * minute)) = [0, 30 * minute]"
    using c by (simp add: should_trigger_hard_reset_def new_hard_reset_def execute_hard_reset_def zero_time_def
        minute_def hour_def second_def)
  show ?thesis
    using h hard_resets_spaced [of 0 "[(0, ''system overload''), (10, ''system overload''), (30 * minute, ''system overload'')]"
        "new_hard_reset 3 (30 * minute)"] by (simp add: new_hard_reset_def)
qed

end
