(* ===== verification/PerfAnalyzer.thy ===== *)
theory PerfAnalyzer
  imports UpbitMonitor StorageTypes
begin

text \<open>
  The measurement of the polls, \<open>internal/monitor/performance_analyzer.go\<close>: counters and times of the API
  calls, the log of the last ten thousand, success rates, hourly statistics, alerts, the score and the
  saved report.  What the Go runtime reports (memory, goroutines) is an argument of each step; the prose
  of messages is represented by a constructor for each text.
\<close>

section \<open>Data\<close>

record api_metrics =
  amTotalCalls :: int
  amSuccessfulCalls :: int
  amFailedCalls :: int
  amTotalResponseTime :: int
  amAverageResponseTime :: int
  amMinResponseTime :: int
  amMaxResponseTime :: int
  amLastResponseTime :: int
  amTimeoutErrors :: int
  amConnectionErrors :: int
  amHTTPErrors :: int
  amSuccessRate1Min :: gofloat
  amSuccessRate5Min :: gofloat
  amSuccessRate1Hour :: gofloat
  amLastUpdated :: gotime

record system_metrics =
  smCPUUsagePercent :: gofloat
  smGoroutineCount :: int
  smMemoryUsedMB :: int
  smMemoryAllocMB :: int
  smMemorySystemMB :: int
  smGCPauseTimeMS :: gofloat
  smLastUpdated :: gotime

record hourly_stats =
  hsHour :: gotime
  hsAPICallCount :: nat
  hsAverageResponseTime :: gofloat
  hsSuccessRate :: gofloat
  hsAverageCPUUsage :: gofloat
  hsAverageMemoryUsage :: int
  hsDetectedListings :: nat
  hsLongestDelay :: int

record poll_call =
  acTimestamp :: gotime
  acResponseTimeMS :: gofloat
  acStatusCode :: int
  acSuccess :: bool
  acErrorMessage :: string
  acCPUUsage :: gofloat
  acMemoryUsageMB :: int
  acGoroutineCount :: int
  acResponseSize :: int
  acAnnouncementCount :: int
  acNewListingDetected :: bool

record perf_thresholds =
  ptMaxResponseTimeMS :: gofloat
  ptMinSuccessRate :: gofloat
  ptMaxCPUUsage :: gofloat
  ptMaxMemoryUsageMB :: int
  ptMaxConsecutiveFailures :: int

text \<open>What \<open>runtime.ReadMemStats\<close> and \<open>runtime.NumGoroutine\<close> give: bytes, the pause of the last
  collection in nanoseconds, and a number.\<close>

record runtime_sample =
  rsAlloc :: int
  rsTotalAlloc :: int
  rsSys :: int
  rsPauseNs :: int
  rsGoroutines :: int

record perf_analyzer =
  paRunning :: bool
  paApi :: api_metrics
  paSystem :: system_metrics
  paNetworkUpdated :: gotime
  paHourly :: "hourly_stats list"
  paLogs :: "poll_call list"
  paMaxHistory :: nat
  paThresholds :: perf_thresholds
  paLastSave :: gotime

definition new_perf_analyzer :: perf_analyzer where
  "new_perf_analyzer =
     \<lparr>paRunning = False,
      paApi = \<lparr>amTotalCalls = 0, amSuccessfulCalls = 0, amFailedCalls = 0, amTotalResponseTime = 0,
        amAverageResponseTime = 0, amMinResponseTime = hour, amMaxResponseTime = 0, amLastResponseTime = 0,
        amTimeoutErrors = 0, amConnectionErrors = 0, amHTTPErrors = 0, amSuccessRate1Min = Fin 0,
        amSuccessRate5Min = Fin 0, amSuccessRate1Hour = Fin 0, amLastUpdated = zero_time\<rparr>,
      paSystem = \<lparr>smCPUUsagePercent = Fin 0, smGoroutineCount = 0, smMemoryUsedMB = 0, smMemoryAllocMB = 0,
        smMemorySystemMB = 0, smGCPauseTimeMS = Fin 0, smLastUpdated = zero_time\<rparr>,
      paNetworkUpdated = zero_time, paHourly = [], paLogs = [], paMaxHistory = 10000,
      paThresholds = \<lparr>ptMaxResponseTimeMS = Fin 5000, ptMinSuccessRate = Fin 95, ptMaxCPUUsage = Fin 80,
        ptMaxMemoryUsageMB = 8000, ptMaxConsecutiveFailures = 5\<rparr>,
      paLastSave = zero_time\<rparr>"

section \<open>Recording a call\<close>

definition rate_percent :: "nat \<Rightarrow> nat \<Rightarrow> gofloat" where
  "rate_percent good n = f_mul (f_div (Fin (of_nat good)) (Fin (of_nat n))) (Fin 100)"

definition calculate_success_rate :: "gotime \<Rightarrow> poll_call list \<Rightarrow> gofloat" where
  "calculate_success_rate since logs =
     (let recent = filter (\<lambda>c. acTimestamp c > since) logs in
      if length recent = 0 then Fin 100
      else rate_percent (length (filter acSuccess recent)) (length recent))"

definition update_success_rates :: "gotime \<Rightarrow> poll_call list \<Rightarrow> api_metrics \<Rightarrow> api_metrics" where
  "update_success_rates now logs am =
     am\<lparr>amSuccessRate1Min := calculate_success_rate (now - 1 * minute) logs,
        amSuccessRate5Min := calculate_success_rate (now - 5 * minute) logs,
        amSuccessRate1Hour := calculate_success_rate (now - 1 * hour) logs\<rparr>"

definition count_outcome :: "bool \<Rightarrow> int \<Rightarrow> api_metrics \<Rightarrow> api_metrics" where
  "count_outcome success statusCode am =
     (if success then am\<lparr>amSuccessfulCalls := amSuccessfulCalls am + 1\<rparr>
      else let am1 = am\<lparr>amFailedCalls := amFailedCalls am + 1\<rparr> in
           if statusCode = 0 then am1\<lparr>amConnectionErrors := amConnectionErrors am1 + 1\<rparr>
           else if statusCode \<ge> 500 then am1\<lparr>amHTTPErrors := amHTTPErrors am1 + 1\<rparr>
           else if statusCode = 408 then am1\<lparr>amTimeoutErrors := amTimeoutErrors am1 + 1\<rparr>
           else am1)"

definition update_api_metrics ::
  "gotime \<Rightarrow> poll_call list \<Rightarrow> int \<Rightarrow> bool \<Rightarrow> int \<Rightarrow> api_metrics \<Rightarrow> api_metrics" where
  "update_api_metrics now logs responseTime success statusCode am0 =
     (let am1 = am0\<lparr>amTotalCalls := amTotalCalls am0 + 1,
                    amTotalResponseTime := wrap64 (amTotalResponseTime am0 + responseTime),
                    amLastResponseTime := responseTime, amLastUpdated := now\<rparr>;
          am2 = count_outcome success statusCode am1;
          am3 = (if responseTime < amMinResponseTime am2 then am2\<lparr>amMinResponseTime := responseTime\<rparr> else am2);
          am4 = (if responseTime > amMaxResponseTime am3 then am3\<lparr>amMaxResponseTime := responseTime\<rparr> else am3);
          am5 = (if amTotalCalls am4 > 0
                 then am4\<lparr>amAverageResponseTime := amTotalResponseTime am4 sdiv amTotalCalls am4\<rparr> else am4)
      in update_success_rates now logs am5)"

definition cpu_usage :: "runtime_sample \<Rightarrow> gofloat" where
  "cpu_usage rs = f_mul (f_div (Fin (of_int (rsGoroutines rs))) (Fin 1000)) (Fin 100)"

definition megabytes :: "int \<Rightarrow> int" where
  "megabytes b = b div 1024 div 1024"

datatype perf_alert =
    HighResponseTime gofloat | HighMemory int | HighCPU gofloat | LowSuccessRate gofloat

definition check_performance_alerts :: "poll_call \<Rightarrow> perf_analyzer \<Rightarrow> perf_alert list" where
  "check_performance_alerts call pa =
     (let th = paThresholds pa in
      (if f_less (ptMaxResponseTimeMS th) (acResponseTimeMS call) then [HighResponseTime (acResponseTimeMS call)] else []) @
      (if acMemoryUsageMB call > ptMaxMemoryUsageMB th then [HighMemory (acMemoryUsageMB call)] else []) @
      (if f_less (ptMaxCPUUsage th) (acCPUUsage call) then [HighCPU (acCPUUsage call)] else []) @
      (if f_less (amSuccessRate1Min (paApi pa)) (ptMinSuccessRate th)
       then [LowSuccessRate (amSuccessRate1Min (paApi pa))] else []))"

record poll_outcome =
  poStart :: gotime
  poEnd :: gotime
  poStatus :: int
  poSuccess :: bool
  poError :: string
  poSize :: int
  poAnnouncements :: int
  poNewListing :: bool

definition response_time :: "poll_outcome \<Rightarrow> int" where
  "response_time p = time_sub (poEnd p) (poStart p)"

definition detailed_call :: "runtime_sample \<Rightarrow> poll_outcome \<Rightarrow> poll_call" where
  "detailed_call rs p =
     \<lparr>acTimestamp = poStart p, acResponseTimeMS = f_div (Fin (of_int (response_time p))) (Fin 1000000),
      acStatusCode = poStatus p, acSuccess = poSuccess p, acErrorMessage = poError p, acCPUUsage = cpu_usage rs,
      acMemoryUsageMB = megabytes (rsAlloc rs), acGoroutineCount = rsGoroutines rs,
      acResponseSize = poSize p, acAnnouncementCount = poAnnouncements p, acNewListingDetected = poNewListing p\<rparr>"

definition push_call :: "nat \<Rightarrow> poll_call \<Rightarrow> poll_call list \<Rightarrow> poll_call list" where
  "push_call maxHistory c logs =
     (let logs' = logs @ [c] in if length logs' > maxHistory then tl logs' else logs')"

text \<open>The metrics are updated before the call is in the log.\<close>

definition record_api_call ::
  "gotime \<Rightarrow> runtime_sample \<Rightarrow> poll_outcome \<Rightarrow> perf_analyzer \<Rightarrow> perf_alert list \<times> perf_analyzer" where
  "record_api_call now rs p pa =
     (let pa1 = pa\<lparr>paApi := update_api_metrics now (paLogs pa) (response_time p) (poSuccess p) (poStatus p) (paApi pa)\<rparr>;
          call = detailed_call rs p;
          pa2 = pa1\<lparr>paLogs := push_call (paMaxHistory pa1) call (paLogs pa1)\<rparr>
      in (check_performance_alerts call pa2, pa2))"

section \<open>Background\<close>

definition start_analysis :: "perf_analyzer \<Rightarrow> bool \<times> perf_analyzer" where
  "start_analysis pa = (if paRunning pa then (False, pa) else (True, pa\<lparr>paRunning := True\<rparr>))"

definition update_system_metrics :: "gotime \<Rightarrow> runtime_sample \<Rightarrow> perf_analyzer \<Rightarrow> perf_analyzer" where
  "update_system_metrics now rs pa =
     pa\<lparr>paSystem := \<lparr>smCPUUsagePercent = cpu_usage rs, smGoroutineCount = rsGoroutines rs,
          smMemoryUsedMB = megabytes (rsAlloc rs), smMemoryAllocMB = megabytes (rsTotalAlloc rs),
          smMemorySystemMB = megabytes (rsSys rs),
          smGCPauseTimeMS = f_div (Fin (of_int (rsPauseNs rs))) (Fin 1000000), smLastUpdated = now\<rparr>\<rparr>"

definition update_network_metrics :: "gotime \<Rightarrow> perf_analyzer \<Rightarrow> perf_analyzer" where
  "update_network_metrics now pa = pa\<lparr>paNetworkUpdated := now\<rparr>"

text \<open>The conversion of a number of milliseconds to a duration, for a finite value in range.\<close>

definition ms_duration :: "gofloat \<Rightarrow> int" where
  "ms_duration f = (case f of Fin q \<Rightarrow> let x = q * 1000000 in (if x \<ge> 0 then \<lfloor>x\<rfloor> else - \<lfloor>- x\<rfloor>) | _ \<Rightarrow> - (2 ^ 63))"

definition calls_of_hour :: "gotime \<Rightarrow> poll_call list \<Rightarrow> poll_call list" where
  "calls_of_hour h logs = filter (\<lambda>c. acTimestamp c > h \<and> acTimestamp c < h + hour) logs"

definition calculate_hourly_stats :: "gotime \<Rightarrow> poll_call list \<Rightarrow> hourly_stats" where
  "calculate_hourly_stats h logs =
     (let calls = calls_of_hour h logs; n = length calls;
          avg = (\<lambda>f. if n > 0 then f_div (f_sum (map f calls)) (Fin (of_nat n)) else Fin 0)
      in \<lparr>hsHour = h, hsAPICallCount = n, hsAverageResponseTime = avg acResponseTimeMS,
          hsSuccessRate = (if n > 0 then rate_percent (length (filter acSuccess calls)) n else Fin 0),
          hsAverageCPUUsage = avg acCPUUsage,
          hsAverageMemoryUsage = (if n > 0 then sum_list (map acMemoryUsageMB calls) div int n else 0),
          hsDetectedListings = length (filter acNewListingDetected calls),
          hsLongestDelay = fold (\<lambda>c m. if ms_duration (acResponseTimeMS c) > m then ms_duration (acResponseTimeMS c) else m) calls 0\<rparr>)"

text \<open>The start of the hour, in a zone that is \<open>off\<close> seconds east of Greenwich.\<close>

definition hour_start :: "int \<Rightarrow> gotime \<Rightarrow> gotime" where
  "hour_start off now = ((now + off * second) div hour) * hour - off * second"

definition generate_hourly_stats :: "int \<Rightarrow> gotime \<Rightarrow> perf_analyzer \<Rightarrow> perf_analyzer" where
  "generate_hourly_stats off now pa =
     (let h = hour_start off now in
      if paHourly pa = [] \<or> hsHour (last (paHourly pa)) < h then
        let hs = paHourly pa @ [calculate_hourly_stats h (paLogs pa)]
        in pa\<lparr>paHourly := (if length hs > 168 then tl hs else hs)\<rparr>
      else pa)"

section \<open>Report\<close>

definition get_recent_calls :: "nat \<Rightarrow> perf_analyzer \<Rightarrow> poll_call list" where
  "get_recent_calls limit pa =
     (if length (paLogs pa) \<le> limit then paLogs pa else drop (length (paLogs pa) - limit) (paLogs pa))"

definition calculate_performance_score :: "perf_analyzer \<Rightarrow> int" where
  "calculate_performance_score pa =
     (let am = paApi pa; sm = paSystem pa;
          s1 = 100 - (if amAverageResponseTime am > 3 * second then 20
                      else if amAverageResponseTime am > 1 * second then 10 else 0);
          s2 = s1 - (if f_less (amSuccessRate1Min am) (Fin 90) then 30
                     else if f_less (amSuccessRate1Min am) (Fin 95) then 15 else 0);
          s3 = s2 - (if f_less (Fin 80) (smCPUUsagePercent sm) then 15 else 0);
          s4 = s3 - (if smMemoryUsedMB sm > 8000 then 15 else 0)
      in if s4 < 0 then 0 else s4)"

datatype perf_advice = SlowResponses | LowSuccess | MuchMemory | ManyGoroutines

definition generate_recommendations :: "perf_analyzer \<Rightarrow> perf_advice list" where
  "generate_recommendations pa =
     (let am = paApi pa; sm = paSystem pa in
      (if amAverageResponseTime am > 3 * second then [SlowResponses] else []) @
      (if f_less (amSuccessRate1Min am) (Fin 95) then [LowSuccess] else []) @
      (if smMemoryUsedMB sm > 6000 then [MuchMemory] else []) @
      (if smGoroutineCount sm > 100 then [ManyGoroutines] else []))"

record perf_report =
  prApi :: api_metrics
  prSystem :: system_metrics
  prNetworkUpdated :: gotime
  prRecentCalls :: "poll_call list"
  prHourlyTrends :: "hourly_stats list"
  prScore :: int
  prRecommendations :: "perf_advice list"

definition get_performance_report :: "perf_analyzer \<Rightarrow> perf_report" where
  "get_performance_report pa =
     \<lparr>prApi = paApi pa, prSystem = paSystem pa, prNetworkUpdated = paNetworkUpdated pa,
      prRecentCalls = get_recent_calls 100 pa, prHourlyTrends = paHourly pa,
      prScore = calculate_performance_score pa, prRecommendations = generate_recommendations pa\<rparr>"

text \<open>\<open>savePerformanceData\<close>: the encoder fails, or the write.\<close>

definition save_performance_data ::
  "(perf_report \<Rightarrow> 'b option) \<Rightarrow> bool \<Rightarrow> gotime \<Rightarrow> perf_analyzer \<Rightarrow> 'b option \<Rightarrow> bool \<times> perf_analyzer \<times> 'b option" where
  "save_performance_data encode write_ok now pa disk =
     (case encode (get_performance_report pa) of
        None \<Rightarrow> (False, pa, disk)
      | Some data \<Rightarrow>
          if \<not> write_ok then (False, pa, disk) else (True, pa\<lparr>paLastSave := now\<rparr>, Some data))"

text \<open>One tick of the background loop, every thirty seconds.\<close>

definition background_tick ::
  "(perf_report \<Rightarrow> 'b option) \<Rightarrow> bool \<Rightarrow> int \<Rightarrow> gotime \<Rightarrow> runtime_sample \<Rightarrow> perf_analyzer \<Rightarrow> 'b option \<Rightarrow>
     perf_analyzer \<times> 'b option" where
  "background_tick encode write_ok off now rs pa disk =
     (let pa1 = generate_hourly_stats off now (update_network_metrics now (update_system_metrics now rs pa)) in
      if now - paLastSave pa1 > 5 * minute
      then snd (save_performance_data encode write_ok now pa1 disk)
      else (pa1, disk))"

end
