(* ===== verification/PerfAnalyzerProps.thy ===== *)
theory PerfAnalyzerProps
  imports PerfAnalyzer
begin

text \<open>
  What the measurement of the polls says: the counters after any sequence of calls, when an entry of the
  hourly statistics is made and what it covers, and the range of the score.
\<close>

section \<open>The counters\<close>

type_synonym recorded = "gotime \<times> runtime_sample \<times> poll_outcome"

definition record_one :: "recorded \<Rightarrow> perf_analyzer \<Rightarrow> perf_analyzer" where
  "record_one r pa = (case r of (now, rs, p) \<Rightarrow> snd (record_api_call now rs p pa))"

definition record_all :: "recorded list \<Rightarrow> perf_analyzer \<Rightarrow> perf_analyzer" where
  "record_all rs pa = fold record_one rs pa"

definition outcome_of :: "recorded \<Rightarrow> poll_outcome" where
  "outcome_of r = snd (snd r)"

definition call_of :: "recorded \<Rightarrow> poll_call" where
  "call_of r = detailed_call (fst (snd r)) (outcome_of r)"

definition classified :: "poll_outcome \<Rightarrow> bool" where
  "classified p = (\<not> poSuccess p \<and> (poStatus p = 0 \<or> 500 \<le> poStatus p \<or> poStatus p = 408))"

lemma record_all_snoc: "record_all (rs @ [r]) pa = record_one r (record_all rs pa)"
  by (simp add: record_all_def)

lemma count_outcome_simps [simp]:
  "amTotalCalls (count_outcome s c am) = amTotalCalls am"
  "amTotalResponseTime (count_outcome s c am) = amTotalResponseTime am"
  "amMinResponseTime (count_outcome s c am) = amMinResponseTime am"
  "amMaxResponseTime (count_outcome s c am) = amMaxResponseTime am"
  "amAverageResponseTime (count_outcome s c am) = amAverageResponseTime am"
  "amSuccessfulCalls (count_outcome s c am) = amSuccessfulCalls am + (if s then 1 else 0)"
  "amFailedCalls (count_outcome s c am) = amFailedCalls am + (if s then 0 else 1)"
  by (simp_all add: count_outcome_def Let_def)

lemma count_outcome_classes:
  "amConnectionErrors (count_outcome s c am) + amHTTPErrors (count_outcome s c am) + amTimeoutErrors (count_outcome s c am) =
     amConnectionErrors am + amHTTPErrors am + amTimeoutErrors am + (if \<not> s \<and> (c = 0 \<or> 500 \<le> c \<or> c = 408) then 1 else 0)"
  by (simp add: count_outcome_def Let_def)

lemma record_one_logs:
  "paMaxHistory (record_one r pa) = paMaxHistory pa"
  "paLogs (record_one r pa) = push_call (paMaxHistory pa) (call_of r) (paLogs pa)"
  "paHourly (record_one r pa) = paHourly pa"
  by (simp_all add: record_one_def record_api_call_def Let_def call_of_def outcome_of_def split: prod.splits)

lemma record_one_api:
  "paApi (record_one r pa) = update_api_metrics (fst r) (paLogs pa) (response_time (outcome_of r))
     (poSuccess (outcome_of r)) (poStatus (outcome_of r)) (paApi pa)"
  by (simp add: record_one_def record_api_call_def Let_def outcome_of_def split: prod.splits)

lemma push_call_last:
  assumes "0 < k"
  shows "push_call k c (drop (length xs - k) xs) = drop (length (xs @ [c]) - k) (xs @ [c])"
proof (cases "length xs < k")
  case False
  then have "drop (length xs - k) xs \<noteq> []"
    using assms by simp
  then have "tl (drop (length xs - k) xs @ [c]) = drop (Suc (length xs - k)) xs @ [c]"
    by (simp add: drop_Suc tl_drop)
  moreover have "Suc 0 - k = 0"
    using assms by simp
  ultimately show ?thesis
    using False by (simp add: push_call_def Let_def Suc_diff_le)
qed (simp add: push_call_def Let_def)

lemma wrap64_add: "wrap64 (wrap64 a + b) = wrap64 (a + b)" "wrap64 (b + wrap64 a) = wrap64 (b + a)"
  by (simp_all add: wrap64_def mod_simps algebra_simps)

lemma record_all_logs:
  "paMaxHistory (record_all rs new_perf_analyzer) = 10000 \<and>
   paLogs (record_all rs new_perf_analyzer) = drop (length rs - 10000) (map call_of rs)"
proof (induction rs rule: rev_induct)
  case Nil
  show ?case by (simp add: record_all_def new_perf_analyzer_def)
next
  case (snoc r rs)
  then show ?case
    using push_call_last [of 10000 "call_of r" "map call_of rs"]
    by (simp add: record_all_snoc record_one_logs)
qed

definition times_of :: "recorded list \<Rightarrow> int list" where
  "times_of rs = map (\<lambda>r. response_time (outcome_of r)) rs"

text \<open>After any sequence of recorded calls the counters are the numbers of the calls, the successful
  and the failed ones; the three error counters together are the failed calls whose status is zero, 408
  or at least 500; the minimum and the maximum are those of the response times with one hour and zero;
  the average is the wrapped sum divided by the number; and the log holds the last ten thousand calls
  in order.\<close>

theorem poll_accounting:
  "am = paApi (record_all rs new_perf_analyzer) \<Longrightarrow>
    amTotalCalls am = int (length rs) \<and>
    amSuccessfulCalls am = int (length (filter (poSuccess \<circ> outcome_of) rs)) \<and>
    amSuccessfulCalls am + amFailedCalls am = amTotalCalls am \<and>
    amConnectionErrors am + amHTTPErrors am + amTimeoutErrors am = int (length (filter (classified \<circ> outcome_of) rs)) \<and>
    amMinResponseTime am = fold min (times_of rs) hour \<and> amMaxResponseTime am = fold max (times_of rs) 0 \<and>
    amTotalResponseTime am = wrap64 (sum_list (times_of rs)) \<and>
    amAverageResponseTime am = (if rs = [] then 0 else wrap64 (sum_list (times_of rs)) sdiv int (length rs)) \<and>
    paLogs (record_all rs new_perf_analyzer) = drop (length rs - 10000) (map call_of rs)"
proof (induction rs arbitrary: am rule: rev_induct)
  case Nil
  then show ?case by (simp add: record_all_def new_perf_analyzer_def times_of_def)
next
  case (snoc r rs)
  note IH = snoc.IH [OF refl]
  define pa where "pa = record_all rs new_perf_analyzer"
  have am: "am = update_api_metrics (fst r) (paLogs pa) (response_time (outcome_of r))
     (poSuccess (outcome_of r)) (poStatus (outcome_of r)) (paApi pa)"
    using snoc.prems by (simp add: record_all_snoc record_one_api pa_def)
  have classes: "amConnectionErrors am + amHTTPErrors am + amTimeoutErrors am =
      amConnectionErrors (paApi pa) + amHTTPErrors (paApi pa) + amTimeoutErrors (paApi pa) +
        (if classified (outcome_of r) then 1 else 0)"
    using count_outcome_classes unfolding am
    by (simp add: update_api_metrics_def update_success_rates_def Let_def classified_def)
  have rest: "amTotalCalls am = amTotalCalls (paApi pa) + 1"
    "amSuccessfulCalls am = amSuccessfulCalls (paApi pa) + (if poSuccess (outcome_of r) then 1 else 0)"
    "amFailedCalls am = amFailedCalls (paApi pa) + (if poSuccess (outcome_of r) then 0 else 1)"
    "amMinResponseTime am = min (response_time (outcome_of r)) (amMinResponseTime (paApi pa))"
    "amMaxResponseTime am = max (response_time (outcome_of r)) (amMaxResponseTime (paApi pa))"
    "amTotalResponseTime am = wrap64 (amTotalResponseTime (paApi pa) + response_time (outcome_of r))"
    "0 \<le> amTotalCalls (paApi pa) \<Longrightarrow> amAverageResponseTime am = amTotalResponseTime am sdiv amTotalCalls am"
    unfolding am by (simp_all add: update_api_metrics_def update_success_rates_def Let_def)
  show ?case
    using IH rest classes record_all_logs [of "rs @ [r]"]
    by (simp add: pa_def [symmetric] times_of_def wrap64_add add.commute)
qed

lemma poll_accounting_witness:
  "amTotalCalls (paApi (record_all [(9, undefined, \<lparr>poStart = 3, poEnd = 8, poStatus = 0, poSuccess = False,
     poError = ''refused'', poSize = 0, poAnnouncements = 0, poNewListing = False\<rparr>)] new_perf_analyzer)) = 1"
  using poll_accounting [OF refl, of "[(9, undefined, \<lparr>poStart = 3, poEnd = 8, poStatus = 0, poSuccess = False,
     poError = ''refused'', poSize = 0, poAnnouncements = 0, poNewListing = False\<rparr>)]"] by simp

section \<open>The rates lag\<close>

text \<open>The rates after a call are those of the calls before it.\<close>

lemma rate_lags:
  "amSuccessRate1Min (paApi (record_one r pa)) = calculate_success_rate (fst r - minute) (paLogs pa)"
  by (simp add: record_one_api update_api_metrics_def update_success_rates_def Let_def)

section \<open>Hourly statistics\<close>

datatype perf_event = CallRecorded recorded | Ticked gotime runtime_sample

text \<open>The background loop with a disk that never works; the save does not touch what is looked at.\<close>

fun perf_apply :: "int \<Rightarrow> perf_event \<Rightarrow> perf_analyzer \<Rightarrow> perf_analyzer" where
  "perf_apply off (CallRecorded r) pa = record_one r pa"
| "perf_apply off (Ticked now rs) pa = fst (background_tick (\<lambda>_. None :: unit option) False off now rs pa None)"

definition perf_run :: "int \<Rightarrow> perf_event list \<Rightarrow> perf_analyzer" where
  "perf_run off evs = fold (perf_apply off) evs new_perf_analyzer"

fun tick_time :: "perf_event \<Rightarrow> gotime option" where
  "tick_time (Ticked now rs) = Some now"
| "tick_time (CallRecorded r) = None"

definition tick_hours :: "int \<Rightarrow> perf_event list \<Rightarrow> gotime list" where
  "tick_hours off evs = map (hour_start off) (List.map_filter tick_time evs)"

lemma tick_hours_simps [simp]:
  "tick_hours off [] = []"
  "tick_hours off (evs @ [CallRecorded r]) = tick_hours off evs"
  "tick_hours off (evs @ [Ticked now rs]) = tick_hours off evs @ [hour_start off now]"
  by (simp_all add: tick_hours_def map_filter_def)

lemma tick_pa:
  "paHourly (perf_apply off (Ticked now rs) pa) =
     (let h = hour_start off now; hs = paHourly pa @ [calculate_hourly_stats h (paLogs pa)] in
      if paHourly pa = [] \<or> hsHour (last (paHourly pa)) < h then (if length hs > 168 then tl hs else hs)
      else paHourly pa)"
  by (simp add: background_tick_def save_performance_data_def generate_hourly_stats_def update_network_metrics_def
      update_system_metrics_def Let_def)

definition made_by_first_tick :: "int \<Rightarrow> perf_event list \<Rightarrow> hourly_stats \<Rightarrow> bool" where
  "made_by_first_tick off evs e =
     (\<exists>pre now rs post. evs = pre @ Ticked now rs # post \<and> hour_start off now = hsHour e \<and>
        (\<forall>h \<in> set (tick_hours off pre). h < hsHour e) \<and>
        e = calculate_hourly_stats (hsHour e) (paLogs (perf_run off pre)))"

lemma made_extend: "made_by_first_tick off evs e \<Longrightarrow> made_by_first_tick off (evs @ [ev]) e"
  unfolding made_by_first_tick_def by fastforce

lemma perf_run_snoc: "perf_run off (evs @ [ev]) = perf_apply off ev (perf_run off evs)"
  by (simp add: perf_run_def)

text \<open>The newest entry is of the last hour in which the loop ticked.\<close>

lemma hourly_invariant:
  "(\<forall>h \<in> set (tick_hours off evs). paHourly (perf_run off evs) \<noteq> [] \<and> h \<le> hsHour (last (paHourly (perf_run off evs)))) \<and>
   (\<forall>e \<in> set (paHourly (perf_run off evs)). made_by_first_tick off evs e)"
proof (induction evs rule: rev_induct)
  case Nil
  show ?case by (simp add: perf_run_def new_perf_analyzer_def)
next
  case (snoc ev evs)
  show ?case
  proof (cases ev)
    case (CallRecorded r)
    then show ?thesis
      using snoc made_extend by (simp add: perf_run_snoc record_one_logs)
  next
    case (Ticked now rs)
    define pa h where "pa = perf_run off evs" and "h = hour_start off now"
    define new where "new = calculate_hourly_stats h (paLogs pa)"
    show ?thesis
    proof (cases "paHourly pa = [] \<or> hsHour (last (paHourly pa)) < h")
      case False
      then have "paHourly (perf_run off (evs @ [ev])) = paHourly pa"
        by (simp add: perf_run_snoc Ticked tick_pa Let_def pa_def h_def del: perf_apply.simps)
      then show ?thesis
        using snoc made_extend False by (auto simp: Ticked pa_def h_def)
    next
      case True
      define hs where "hs = paHourly pa @ [new]"
      have run: "paHourly (perf_run off (evs @ [ev])) = (if length hs > 168 then tl hs else hs)"
        using True by (simp add: perf_run_snoc Ticked tick_pa Let_def pa_def h_def hs_def new_def del: perf_apply.simps)
      have older: "\<forall>k \<in> set (tick_hours off evs). k < h"
        using snoc True by (auto simp: pa_def)
      have new_hour: "hsHour new = h"
        by (simp add: new_def calculate_hourly_stats_def Let_def)
      have made: "made_by_first_tick off (evs @ [ev]) new"
        unfolding made_by_first_tick_def
        by (rule exI [of _ evs], rule exI [of _ now], rule exI [of _ rs], rule exI [of _ "[]"])
          (use older in \<open>simp add: Ticked new_hour h_def [symmetric]\<close>, simp add: new_def pa_def)
      have sub: "set (if length hs > 168 then tl hs else hs) \<subseteq> insert new (set (paHourly pa))"
        using list.set_sel(2) [of hs] by (auto simp: hs_def)
      have "last (if length hs > 168 then tl hs else hs) = new" "(if length hs > 168 then tl hs else hs) \<noteq> []"
        by (auto simp: hs_def last_tl tl_append split: list.splits)
      then show ?thesis
        using sub made snoc made_extend older new_hour unfolding run by (auto simp: Ticked pa_def h_def less_imp_le)
    qed
  qed
qed

text \<open>An entry of the hourly statistics is made by the first tick of its hour, from the calls that are
  in the log at that tick, and is never changed: with a tick every thirty seconds it covers the first
  half minute of the hour.\<close>

theorem hourly_entry_frozen:
  assumes "e \<in> set (paHourly (perf_run off evs))"
  shows "\<exists>pre now rs post. evs = pre @ Ticked now rs # post \<and> hour_start off now = hsHour e \<and>
        (\<forall>h \<in> set (tick_hours off pre). h < hsHour e) \<and>
        e = calculate_hourly_stats (hsHour e) (paLogs (perf_run off pre))"
  using hourly_invariant [of off evs] assms unfolding made_by_first_tick_def by blast

definition idle_runtime :: runtime_sample where
  "idle_runtime = \<lparr>rsAlloc = 0, rsTotalAlloc = 0, rsSys = 0, rsPauseNs = 0, rsGoroutines = 1\<rparr>"

lemma hourly_entry_frozen_witness:
  "\<exists>pre now rs post. [Ticked (5 * minute) idle_runtime] = pre @ Ticked now rs # post \<and> hour_start 0 now = 0 \<and>
    hsHour (calculate_hourly_stats 0 []) = 0"
proof -
  have e: "calculate_hourly_stats 0 [] \<in> set (paHourly (perf_run 0 [Ticked (5 * minute) idle_runtime]))"
    by (simp add: perf_run_def tick_pa Let_def new_perf_analyzer_def hour_start_def minute_def hour_def second_def
        del: perf_apply.simps)
  show ?thesis
    using hourly_entry_frozen [OF e] by (auto simp: calculate_hourly_stats_def Let_def)
qed

section \<open>The score\<close>

text \<open>The score is one of a few numbers, never below twenty; before the first call it is seventy, because
  a success rate that was never measured counts as zero.\<close>

lemma score_range: "calculate_performance_score pa \<in> {20..100}"
  by (simp add: calculate_performance_score_def Let_def)

lemma score_at_start: "calculate_performance_score new_perf_analyzer = 70"
  by (simp add: calculate_performance_score_def new_perf_analyzer_def Let_def second_def)

end
