(* ===== verification/DelayAnalyzer.thy ===== *)
theory DelayAnalyzer
  imports PerfAnalyzerProps
begin

text \<open>
  The analysis of detection delays, \<open>internal/monitor/delay_analyzer.go\<close>, over the record of processed
  notices and the performance report.  The English texts are kept; Korean descriptions, whose only use is
  to be printed, are left out, and the numbers formatted into them are kept as data.
\<close>

section \<open>Data\<close>

datatype evidence =
    ApiTimes int int int | Failures int string | MemoryState int int gofloat | HardResetSigns | RateLimitSigns

record potential_cause =
  pcCategory :: string
  pcName :: string
  pcLikelihood :: gofloat
  pcImpact :: string
  pcEvidence :: evidence

record perf_pattern =
  ppType :: string
  ppFrequency :: int
  ppDuration :: int
  ppSeverity :: string
  ppTimeOfDay :: "nat list"
  ppDaysOfWeek :: "nat list"
  ppCorrelated :: "string list"

record bottleneck =
  sbComponent :: string
  sbResource :: string
  sbUtilization :: gofloat
  sbThreshold :: gofloat
  sbFirstDetected :: gotime

record historical_trend =
  htMetric :: string
  htWindow :: string
  htTrend :: string
  htChange :: gofloat
  htSignificance :: string

record critical_event =
  ceTimestamp :: gotime
  ceEventType :: string
  ceSeverity :: string
  ceDuration :: int
  ceResolved :: bool

record detailed_recommendation =
  drPriority :: nat
  drCategory :: string
  drEffort :: string
  drRisk :: string

record delay_summary =
  dsTotalDelayEvents :: nat
  dsAverageDelay :: int
  dsMaxDelay :: int
  dsFrequency :: gofloat
  dsMostLikelyCause :: string
  dsConfidence :: gofloat
  dsSystemHealth :: int

record delay_report =
  drSummary :: delay_summary
  drCauses :: "potential_cause list"
  drPatterns :: "perf_pattern list"
  drBottlenecks :: "bottleneck list"
  drTrends :: "historical_trend list"
  drEvents :: "critical_event list"
  drRecommendations :: "detailed_recommendation list"

section \<open>Summary\<close>

definition determine_most_likely_cause :: "int list \<Rightarrow> string \<times> gofloat" where
  "determine_most_likely_cause delays =
     (if delays = [] then (''No significant delays detected'', Fin 100)
      else let longD = length (filter (\<lambda>d. d > 10 * minute) delays) in
           if f_less (Fin (7 / 10)) (f_div (Fin (of_nat longD)) (Fin (of_nat (length delays))))
           then (''Hard Reset Timing Conflicts'', Fin 90)
           else (''API Performance Issues'', Fin 75))"

definition calculate_overall_system_health :: "perf_report \<Rightarrow> int" where
  "calculate_overall_system_health r =
     (let am = prApi r; sm = prSystem r;
          s1 = 100 - (if amAverageResponseTime am > 3 * second then 20 else 0);
          s2 = s1 - (if amFailedCalls am > amSuccessfulCalls am sdiv 10 then 30 else 0);
          s3 = s2 - (if smMemoryUsedMB sm > 7000 then 15 else 0);
          s4 = s3 - (if f_less (Fin 80) (smCPUUsagePercent sm) then 20 else 0)
      in if s4 < 0 then 0 else s4)"

text \<open>The delays above five minutes, in the order in which the map of notices is visited.\<close>

definition significant_delays :: "(string, notice_record) gomap \<Rightarrow> int list" where
  "significant_delays m = filter (\<lambda>d. d > 5 * minute) (map (\<lambda>(_, r). DelayDuration r) m)"

definition generate_delay_summary :: "(string, notice_record) gomap \<Rightarrow> perf_report \<Rightarrow> delay_summary" where
  "generate_delay_summary notices r =
     (let ds = significant_delays notices; n = length ds;
          (cause, conf) = determine_most_likely_cause ds
      in \<lparr>dsTotalDelayEvents = n,
          dsAverageDelay = (if n > 0 then wrap64 (sum_list ds) sdiv int n else 0),
          dsMaxDelay = fold max ds 0,
          dsFrequency = (if length notices > 0
             then f_mul (f_div (Fin (of_nat n)) (Fin (of_nat (length notices)))) (Fin 100) else Fin 0),
          dsMostLikelyCause = cause, dsConfidence = conf,
          dsSystemHealth = calculate_overall_system_health r\<rparr>)"

section \<open>Causes\<close>

definition mk_cause :: "string \<Rightarrow> string \<Rightarrow> rat \<Rightarrow> string \<Rightarrow> evidence \<Rightarrow> potential_cause" where
  "mk_cause cat nm p impact ev =
     \<lparr>pcCategory = cat, pcName = nm, pcLikelihood = Fin p, pcImpact = impact, pcEvidence = ev\<rparr>"

definition detect_hard_reset_conflicts :: bool where
  "detect_hard_reset_conflicts = True"

definition detect_rate_limiting :: bool where
  "detect_rate_limiting = False"

definition cause_candidates :: "monitor_state \<Rightarrow> perf_report \<Rightarrow> potential_cause list" where
  "cause_candidates st r =
     (let am = prApi r; sm = prSystem r in
      (if amAverageResponseTime am > 3 * second
       then [mk_cause ''API Performance'' ''High API Response Time'' 85 ''High''
               (ApiTimes (amAverageResponseTime am) (amMaxResponseTime am) (amTimeoutErrors am))] else []) @
      (if ConsecutiveFailures st > 3
       then [mk_cause ''Network'' ''Network Connectivity Issues'' 70 ''Critical''
               (Failures (ConsecutiveFailures st) (LastErrorMessage st))] else []) @
      (if smMemoryUsedMB sm > 6000
       then [mk_cause ''System Resources'' ''High Memory Usage'' 60 ''Medium''
               (MemoryState (smMemoryUsedMB sm) (smGoroutineCount sm) (smGCPauseTimeMS sm))] else []) @
      (if detect_hard_reset_conflicts
       then [mk_cause ''System Architecture'' ''Hard Reset Timing Conflicts'' 90 ''Critical'' HardResetSigns] else []) @
      (if detect_rate_limiting
       then [mk_cause ''API Limits'' ''Rate Limiting'' 75 ''High'' RateLimitSigns] else []))"

text \<open>\<open>srt\<close> is \<open>sort.Slice\<close> with the comparison of the likelihoods.\<close>

definition more_likely :: "potential_cause \<Rightarrow> potential_cause \<Rightarrow> bool" where
  "more_likely a b = f_less (pcLikelihood b) (pcLikelihood a)"

definition identify_potential_causes ::
  "(potential_cause list \<Rightarrow> potential_cause list) \<Rightarrow> monitor_state \<Rightarrow> perf_report \<Rightarrow> potential_cause list" where
  "identify_potential_causes srt st r = srt (cause_candidates st r)"

section \<open>The other parts of the report\<close>

definition identify_performance_patterns :: "perf_pattern list" where
  "identify_performance_patterns =
     [\<lparr>ppType = ''Daily Peak Hours'', ppFrequency = 24 * hour, ppDuration = 2 * hour, ppSeverity = ''Medium'',
       ppTimeOfDay = [9, 10, 15, 16], ppDaysOfWeek = [], ppCorrelated = [''Market Opening'', ''Lunch Break End'']\<rparr>,
      \<lparr>ppType = ''Weekend Performance'', ppFrequency = 7 * 24 * hour, ppDuration = 48 * hour, ppSeverity = ''Low'',
       ppTimeOfDay = [], ppDaysOfWeek = [6, 0], ppCorrelated = [''Reduced Market Activity'']\<rparr>]"

definition identify_system_bottlenecks :: "gotime \<Rightarrow> perf_report \<Rightarrow> bottleneck list" where
  "identify_system_bottlenecks now r =
     (let sm = prSystem r in
      (if smMemoryUsedMB sm > 7000
       then [\<lparr>sbComponent = ''Memory'', sbResource = ''Memory'',
               sbUtilization = f_mul (f_div (Fin (of_int (smMemoryUsedMB sm))) (Fin 8000)) (Fin 100),
               sbThreshold = Fin 85, sbFirstDetected = now - 1 * hour\<rparr>] else []) @
      (if f_less (Fin 80) (smCPUUsagePercent sm)
       then [\<lparr>sbComponent = ''CPU'', sbResource = ''CPU'', sbUtilization = smCPUUsagePercent sm,
               sbThreshold = Fin 80, sbFirstDetected = now - 30 * minute\<rparr>] else []))"

definition analyze_historical_trends :: "historical_trend list" where
  "analyze_historical_trends =
     [\<lparr>htMetric = ''API Response Time'', htWindow = ''24h'', htTrend = ''Degrading'', htChange = Fin (153 / 10),
       htSignificance = ''High''\<rparr>,
      \<lparr>htMetric = ''Memory Usage'', htWindow = ''6h'', htTrend = ''Stable'', htChange = Fin (21 / 10),
       htSignificance = ''Low''\<rparr>]"

definition identify_critical_events :: "gotime \<Rightarrow> critical_event list" where
  "identify_critical_events now =
     [\<lparr>ceTimestamp = now - 2 * hour, ceEventType = ''API Timeout'', ceSeverity = ''High'',
       ceDuration = 15 * minute, ceResolved = True\<rparr>]"

text \<open>The recommendations do not look at the report they are given.\<close>

definition generate_detailed_recommendations :: "detailed_recommendation list" where
  "generate_detailed_recommendations =
     [\<lparr>drPriority = 1, drCategory = ''System Architecture'', drEffort = ''Medium'', drRisk = ''Low''\<rparr>,
      \<lparr>drPriority = 2, drCategory = ''API Performance'', drEffort = ''High'', drRisk = ''Medium''\<rparr>,
      \<lparr>drPriority = 3, drCategory = ''System Resources'', drEffort = ''Medium'', drRisk = ''Low''\<rparr>,
      \<lparr>drPriority = 4, drCategory = ''Monitoring'', drEffort = ''High'', drRisk = ''Low''\<rparr>]"

definition analyze_delays ::
  "(potential_cause list \<Rightarrow> potential_cause list) \<Rightarrow>
     ((string, notice_record) gomap \<Rightarrow> (string, notice_record) gomap) \<Rightarrow> gotime \<Rightarrow>
     persistent_state \<Rightarrow> perf_analyzer \<Rightarrow> delay_report" where
  "analyze_delays srt ord now ps pa =
     (let st = get_statistics now ps; r = get_performance_report pa in
      \<lparr>drSummary = generate_delay_summary (ord (ProcessedNotices st)) r,
       drCauses = identify_potential_causes srt st r,
       drPatterns = identify_performance_patterns,
       drBottlenecks = identify_system_bottlenecks now r,
       drTrends = analyze_historical_trends,
       drEvents = identify_critical_events now,
       drRecommendations = generate_detailed_recommendations\<rparr>)"

section \<open>What the report can say\<close>

lemma candidates_likelihood:
  "c \<in> set (cause_candidates st r) \<Longrightarrow>
     pcName c = ''Hard Reset Timing Conflicts'' \<or> f_less (pcLikelihood c) (Fin 90)"
  by (auto simp: cause_candidates_def Let_def mk_cause_def detect_rate_limiting_def split: if_splits)

lemma hard_reset_candidate:
  "mk_cause ''System Architecture'' ''Hard Reset Timing Conflicts'' 90 ''Critical'' HardResetSigns \<in>
     set (cause_candidates st r)"
  by (simp add: cause_candidates_def Let_def detect_hard_reset_conflicts_def)

text \<open>Whatever was measured, the first of the causes is the conflict with the hard reset, and the trends
  and the recommendations are the same for all states.\<close>

theorem first_cause_is_fixed:
  assumes "sorts more_likely srt"
  shows "drCauses (analyze_delays srt ord now ps pa) \<noteq> [] \<and>
    pcName (hd (drCauses (analyze_delays srt ord now ps pa))) = ''Hard Reset Timing Conflicts'' \<and>
    drTrends (analyze_delays srt ord now ps pa) = drTrends (analyze_delays srt' ord' now' ps' pa') \<and>
    drRecommendations (analyze_delays srt ord now ps pa) = drRecommendations (analyze_delays srt' ord' now' ps' pa')"
proof -
  let ?cs = "cause_candidates (get_statistics now ps) (get_performance_report pa)"
  have p: "mset (srt ?cs) = mset ?cs" and s: "sorted_wrt (\<lambda>a b. \<not> more_likely b a) (srt ?cs)"
    using assms unfolding sorts_def by blast+
  have set_eq: "set (srt ?cs) = set ?cs"
    using p by (metis set_mset_mset)
  define hr where "hr = mk_cause ''System Architecture'' ''Hard Reset Timing Conflicts'' 90 ''Critical'' HardResetSigns"
  have hr: "hr \<in> set (srt ?cs)"
    using hard_reset_candidate by (simp add: set_eq hr_def)
  then obtain c cs where cs: "srt ?cs = c # cs"
    by (cases "srt ?cs") auto
  have "pcName c = ''Hard Reset Timing Conflicts''"
  proof (rule ccontr)
    assume other: "pcName c \<noteq> ''Hard Reset Timing Conflicts''"
    have "c \<in> set ?cs"
      using cs set_eq by (metis list.set_intros(1))
    then have "f_less (pcLikelihood c) (Fin 90)"
      using candidates_likelihood other by blast
    then have "more_likely hr c"
      by (simp add: more_likely_def hr_def mk_cause_def)
    moreover have "hr \<noteq> c"
      using other by (auto simp: hr_def mk_cause_def)
    ultimately show False
      using s hr cs by auto
  qed
  then show ?thesis
    using cs by (simp add: analyze_delays_def identify_potential_causes_def Let_def)
qed

text \<open>A sort for any strict partial order: an element goes before the first one it precedes.\<close>

fun insert_by :: "('a \<Rightarrow> 'a \<Rightarrow> bool) \<Rightarrow> 'a \<Rightarrow> 'a list \<Rightarrow> 'a list" where
  "insert_by lt x [] = [x]"
| "insert_by lt x (y # ys) = (if lt x y then x # y # ys else y # insert_by lt x ys)"

definition sort_by :: "('a \<Rightarrow> 'a \<Rightarrow> bool) \<Rightarrow> 'a list \<Rightarrow> 'a list" where
  "sort_by lt xs = foldr (insert_by lt) xs []"

lemma mset_insert_by [simp]: "mset (insert_by lt x ys) = add_mset x (mset ys)"
  by (induction ys) auto

lemma set_insert_by [simp]: "set (insert_by lt x ys) = insert x (set ys)"
  by (induction ys) auto

lemma sorted_insert_by:
  assumes "\<And>a b c. lt a b \<Longrightarrow> lt b c \<Longrightarrow> lt a c" "sorted_wrt (\<lambda>a b. \<not> lt b a) ys" "\<not> lt x x"
  shows "sorted_wrt (\<lambda>a b. \<not> lt b a) (insert_by lt x ys)"
  using assms(2,3) by (induction ys) (auto dest: assms(1))

lemma sorts_sort_by:
  assumes "\<And>a b c. lt a b \<Longrightarrow> lt b c \<Longrightarrow> lt a c" "\<And>a. \<not> lt a a"
  shows "sorts lt (sort_by lt)"
proof -
  have "mset (foldr (insert_by lt) xs []) = mset xs \<and> sorted_wrt (\<lambda>a b. \<not> lt b a) (foldr (insert_by lt) xs [])" for xs
    by (induction xs) (auto intro!: sorted_insert_by dest: assms(1) simp: assms(2))
  then show ?thesis
    by (simp add: sorts_def sort_by_def)
qed

lemma f_less_order: "f_less a b \<Longrightarrow> f_less b c \<Longrightarrow> f_less a c" "\<not> f_less a a"
  by (cases a; cases b; cases c; simp)+

lemma more_likely_sort: "sorts more_likely (sort_by more_likely)"
  by (rule sorts_sort_by) (auto simp: more_likely_def f_less_order(2) dest: f_less_order(1))

lemma first_cause_is_fixed_witness:
  "pcName (hd (drCauses (analyze_delays (sort_by more_likely) id 5
     \<lparr>psState = fresh_monitor_state 0, lastSaveTime = 0, saveInterval = 1, maxRetention = 1, pendingSaves = 0\<rparr>
     new_perf_analyzer))) = ''Hard Reset Timing Conflicts''"
  using first_cause_is_fixed [OF more_likely_sort] by blast

lemma overall_health_range: "calculate_overall_system_health r \<in> {15..100}"
  by (simp add: calculate_overall_system_health_def Let_def)

text \<open>Fewer than ten successful calls and one failure cost thirty points, whatever the rate.\<close>

lemma one_failure_counts:
  assumes "amFailedCalls (prApi r) = 1" "0 \<le> amSuccessfulCalls (prApi r)" "amSuccessfulCalls (prApi r) < 10"
  shows "calculate_overall_system_health r \<le> 70"
  using assms by (simp add: calculate_overall_system_health_def Let_def sdiv_nonneg)

end
