(* ===== verification/UpbitNotices.thy ===== *)
theory UpbitNotices
  imports UpbitMonitor
begin

text \<open>
  The earlier version of the announcement monitor, \<open>internal/upbit/parser.go\<close> and \<open>monitor.go\<close>.  Titles
  are lists of Unicode code points, because its patterns contain the range of the Hangul syllables; the
  patterns are matched leftmost-first with backtracking, as Go's \<open>regexp\<close> specifies, and
  \<open>FindAllStringSubmatch\<close> goes on after each match.
\<close>

section \<open>Patterns over code points\<close>

type_synonym rune = nat

definition runes :: "string \<Rightarrow> rune list" where
  "runes s = map of_char s"

text \<open>A literal, a greedy repetition of at least one character of a class, captured, or one of several
  literals, captured.\<close>

datatype ritem = RLit "rune list" | RCap "rune \<Rightarrow> bool" | RAlt "rune list list"

definition starts_with :: "rune list \<Rightarrow> rune list \<Rightarrow> bool" where
  "starts_with l s = (take (length l) s = l)"

fun rmatch :: "ritem list \<Rightarrow> rune list \<Rightarrow> (rune list list \<times> rune list) option"
  and rrep :: "nat \<Rightarrow> ritem list \<Rightarrow> rune list \<Rightarrow> (rune list list \<times> rune list) option"
  and ralt :: "rune list list \<Rightarrow> ritem list \<Rightarrow> rune list \<Rightarrow> (rune list list \<times> rune list) option" where
  "rmatch [] s = Some ([], s)"
| "rmatch (RLit l # r) s = (if starts_with l s then rmatch r (drop (length l) s) else None)"
| "rmatch (RCap c # r) s = rrep (length (takeWhile c s)) r s"
| "rmatch (RAlt ls # r) s = ralt ls r s"
| "rrep k r s =
     (if k = 0 then None
      else (case rmatch r (drop k s) of
              Some (cs, rest) \<Rightarrow> Some (take k s # cs, rest)
            | None \<Rightarrow> rrep (k - 1) r s))"
| "ralt [] r s = None"
| "ralt (l # ls) r s =
     (case (if starts_with l s then rmatch r (drop (length l) s) else None) of
        Some (cs, rest) \<Rightarrow> Some (l # cs, rest)
      | None \<Rightarrow> ralt ls r s)"

fun rfind :: "ritem list \<Rightarrow> rune list \<Rightarrow> (rune list list \<times> rune list) option" where
  "rfind p [] = rmatch p []"
| "rfind p (c # s) = (case rmatch p (c # s) of Some m \<Rightarrow> Some m | None \<Rightarrow> rfind p s)"

text \<open>All matches; the fuel is the number of code points, and every match takes at least one.\<close>

fun rfind_all :: "nat \<Rightarrow> ritem list \<Rightarrow> rune list \<Rightarrow> rune list list list" where
  "rfind_all 0 p s = []"
| "rfind_all (Suc n) p s = (case rfind p s of None \<Rightarrow> [] | Some (cs, rest) \<Rightarrow> cs # rfind_all n p rest)"

definition find_all_submatch :: "ritem list \<Rightarrow> rune list \<Rightarrow> rune list list list" where
  "find_all_submatch p s = rfind_all (length s + 1) p s"

definition r_digit :: "rune \<Rightarrow> bool" where "r_digit c = (48 \<le> c \<and> c \<le> 57)"
definition r_upper :: "rune \<Rightarrow> bool" where "r_upper c = (65 \<le> c \<and> c \<le> 90)"
definition r_lower :: "rune \<Rightarrow> bool" where "r_lower c = (97 \<le> c \<and> c \<le> 122)"
definition r_hangul :: "rune \<Rightarrow> bool" where "r_hangul c = (44032 \<le> c \<and> c \<le> 55203)"

definition coin_name_char :: "rune \<Rightarrow> bool" where
  "coin_name_char c = (r_hangul c \<or> r_upper c \<or> r_lower c \<or> r_digit c)"
definition ticker_char :: "rune \<Rightarrow> bool" where
  "ticker_char c = (r_upper c \<or> r_digit c)"
definition market_char :: "rune \<Rightarrow> bool" where
  "market_char c = (r_upper c \<or> c = 44 \<or> c = 32)"
definition no_close :: "rune \<Rightarrow> bool" where
  "no_close c = (c \<noteq> 41)"

definition r_market :: "rune list" where
  "r_market = [47560, 53011]"

definition r_space_market :: "rune list" where
  "r_space_market = 32 # r_market"

definition pattern_multi :: "ritem list" where
  "pattern_multi = [RCap coin_name_char, RLit [40], RCap ticker_char, RLit [41, 40], RCap no_close,
     RLit (r_space_market @ [41])]"

definition pattern_coins :: "ritem list" where
  "pattern_coins = [RCap coin_name_char, RLit [40], RCap ticker_char, RLit [41]]"

definition pattern_market_paren :: "ritem list" where
  "pattern_market_paren = [RLit [40], RCap market_char, RLit (r_space_market @ [41])]"

definition pattern_market_out :: "ritem list" where
  "pattern_market_out = [RCap market_char, RLit r_space_market]"

definition pattern_single :: "ritem list" where
  "pattern_single = [RCap coin_name_char, RLit [40], RCap ticker_char, RLit [41, 32], RCap market_char,
     RLit r_space_market]"

definition pattern_coin_list :: "ritem list" where
  "pattern_coin_list = [RAlt [runes ''KRW'', runes ''BTC'', runes ''USDT''],
     RLit [32, 47560, 53011, 32, 46356, 51648, 53560, 32, 51088, 49328, 32, 52628, 44032, 32, 40],
     RCap no_close, RLit [41]]"

section \<open>The parser\<close>

record upbit_listing =
  ulSymbol :: "rune list"
  ulMarkets :: "rune list list"

definition r_is_space :: "rune \<Rightarrow> bool" where
  "r_is_space c = (c = 32 \<or> (9 \<le> c \<and> c \<le> 13) \<or> c = 133 \<or> c = 160 \<or> c = 5760 \<or> (8192 \<le> c \<and> c \<le> 8202) \<or>
     c = 8232 \<or> c = 8233 \<or> c = 8239 \<or> c = 8287 \<or> c = 12288)"

definition r_trim :: "rune list \<Rightarrow> rune list" where
  "r_trim s = rev (dropWhile r_is_space (rev (dropWhile r_is_space s)))"

fun r_remove :: "nat \<Rightarrow> rune list \<Rightarrow> rune list \<Rightarrow> rune list" where
  "r_remove 0 old s = s"
| "r_remove (Suc n) old s =
     (if s = [] then []
      else if starts_with old s then r_remove n old (drop (length old) s)
      else hd s # r_remove n old (tl s))"

fun r_split :: "rune \<Rightarrow> rune list \<Rightarrow> rune list list" where
  "r_split d [] = [[]]"
| "r_split d (c # s) =
     (if c = d then [] # r_split d s
      else (case r_split d s of w # ws \<Rightarrow> (c # w) # ws | [] \<Rightarrow> [[c]]))"

fun r_fields_acc :: "rune list \<Rightarrow> rune list \<Rightarrow> rune list list" where
  "r_fields_acc w [] = (if w = [] then [] else [rev w])"
| "r_fields_acc w (c # s) =
     (if r_is_space c then (if w = [] then r_fields_acc [] s else rev w # r_fields_acc [] s)
      else r_fields_acc (c # w) s)"

definition r_fields :: "rune list \<Rightarrow> rune list list" where
  "r_fields s = r_fields_acc [] s"

definition clean_markets :: "rune list \<Rightarrow> rune list list" where
  "clean_markets raw =
     (let s1 = r_remove (length raw) r_market raw;
          s2 = filter (\<lambda>c. c \<noteq> 40) s1;
          s3 = filter (\<lambda>c. c \<noteq> 41) s2;
          s4 = map (\<lambda>c. if c = 44 then 32 else c) s3
      in r_fields (r_trim s4))"

definition coin_list_symbols :: "rune list \<Rightarrow> rune list list" where
  "coin_list_symbols s = filter (\<lambda>w. w \<noteq> [] \<and> w \<noteq> runes ''...'') (map r_trim (r_split 44 s))"

text \<open>The five patterns in turn, from the last one up.\<close>

definition parse_coin_list_title :: "rune list \<Rightarrow> upbit_listing list" where
  "parse_coin_list_title title =
     (case rfind pattern_coin_list title of
        None \<Rightarrow> []
      | Some (cs, _) \<Rightarrow> map (\<lambda>s. \<lparr>ulSymbol = s, ulMarkets = [cs ! 0]\<rparr>) (coin_list_symbols (cs ! 1)))"

definition parse_single_title :: "rune list \<Rightarrow> upbit_listing list" where
  "parse_single_title title =
     (case rfind pattern_single title of
        Some (cs, _) \<Rightarrow> [\<lparr>ulSymbol = cs ! 1, ulMarkets = clean_markets (cs ! 2)\<rparr>]
      | None \<Rightarrow> parse_coin_list_title title)"

definition with_markets :: "rune list \<Rightarrow> rune list list list \<Rightarrow> upbit_listing list" where
  "with_markets raw coins = map (\<lambda>c. \<lparr>ulSymbol = c ! 1, ulMarkets = clean_markets raw\<rparr>) coins"

definition parse_outside_title :: "rune list list list \<Rightarrow> rune list \<Rightarrow> upbit_listing list" where
  "parse_outside_title coins title =
     (case rfind pattern_market_out title of
        Some (cs, _) \<Rightarrow> if coins \<noteq> [] then with_markets (cs ! 0) coins else parse_single_title title
      | None \<Rightarrow> parse_single_title title)"

definition parse_paren_title :: "rune list list list \<Rightarrow> rune list \<Rightarrow> upbit_listing list" where
  "parse_paren_title coins title =
     (case rfind pattern_market_paren title of
        Some (cs, _) \<Rightarrow> if coins \<noteq> [] then with_markets (cs ! 0) coins else parse_outside_title coins title
      | None \<Rightarrow> parse_outside_title coins title)"

definition parse_listings :: "rune list \<Rightarrow> upbit_listing list" where
  "parse_listings title =
     (let multi = find_all_submatch pattern_multi title in
      if multi \<noteq> [] then map (\<lambda>m. \<lparr>ulSymbol = m ! 1, ulMarkets = clean_markets (m ! 2)\<rparr>) multi
      else parse_paren_title (find_all_submatch pattern_coins title) title)"

fun r_contains :: "rune list \<Rightarrow> rune list \<Rightarrow> bool" where
  "r_contains [] p = (p = [])"
| "r_contains (c # s) p = (starts_with p (c # s) \<or> r_contains s p)"

definition listing_keywords :: "rune list list" where
  "listing_keywords =
     [[46356, 51648, 53560, 32, 51088, 49328, 32, 52628, 44032],
      [44144, 47000, 32, 51648, 50896],
      [49888, 44508, 32, 44144, 47000, 51648, 50896],
      [47560, 53011, 32, 52628, 44032],
      [49345, 51109]]"

definition is_listing_notice :: "rune list \<Rightarrow> bool" where
  "is_listing_notice title = (\<exists>k \<in> set listing_keywords. r_contains title k)"

definition get_supported_markets :: "string list" where
  "get_supported_markets = [''KRW'', ''BTC'', ''USDT'']"

definition validate_symbol :: "rune list \<Rightarrow> bool" where
  "validate_symbol s = (2 \<le> length s \<and> length s \<le> 10 \<and> list_all ticker_char s)"

definition extract_symbols_from_title :: "rune list \<Rightarrow> rune list list" where
  "extract_symbols_from_title title =
     filter validate_symbol (map (\<lambda>m. m ! 0) (find_all_submatch [RLit [40], RCap ticker_char, RLit [41]] title))"

section \<open>The time of an announcement\<close>

text \<open>\<open>time.Parse\<close> for a date, a separator, a clock with a fraction (of three digits when the layout has
  it, of any length or absent when it has not), and what follows.\<close>

definition get_blank :: "string \<Rightarrow> string option" where
  "get_blank s = (if s \<noteq> [] \<and> hd s \<noteq> CHR '' '' then None else Some (dropWhile (\<lambda>c. c = CHR '' '') s))"

definition get_milli :: "string \<Rightarrow> (int \<times> string) option" where
  "get_milli s =
     (if s = [] \<or> (hd s \<noteq> CHR ''.'' \<and> hd s \<noteq> CHR '','') then None
      else Option.bind (get_digits 3 (tl s)) (\<lambda>(n, r). Some (n * 1000000, r)))"

definition zone_or_z :: "string \<Rightarrow> (int \<times> string) option" where
  "zone_or_z s = (if s \<noteq> [] \<and> hd s = CHR ''Z'' then Some (0, tl s) else get_zone s)"

definition zone_literal :: "string \<Rightarrow> string \<Rightarrow> (int \<times> string) option" where
  "zone_literal l s = map_option (Pair 0) (get_lit l s)"

definition parse_layout ::
  "(string \<Rightarrow> string option) \<Rightarrow> (string \<Rightarrow> (int \<times> string) option) \<Rightarrow> (string \<Rightarrow> (int \<times> string) option) \<Rightarrow>
     string \<Rightarrow> gotime option" where
  "parse_layout sep fracp zone s0 =
     Option.bind (get_digits 4 s0) (\<lambda>(y, s1). Option.bind (get_lit ''-'' s1) (\<lambda>s2.
     Option.bind (get_digits 2 s2) (\<lambda>(mo, s3). Option.bind (get_lit ''-'' s3) (\<lambda>s4.
     Option.bind (get_digits 2 s4) (\<lambda>(d, s5). Option.bind (sep s5) (\<lambda>s6.
     Option.bind (get_hour s6) (\<lambda>(h, s7). Option.bind (get_lit '':'' s7) (\<lambda>s8.
     Option.bind (get_digits 2 s8) (\<lambda>(mi, s9). Option.bind (get_lit '':'' s9) (\<lambda>s10.
     Option.bind (get_digits 2 s10) (\<lambda>(sec, s11). Option.bind (fracp s11) (\<lambda>(ns, s12).
     Option.bind (zone s12) (\<lambda>(off, s13).
            if mo < 1 \<or> mo > 12 \<or> d < 1 \<or> d > days_in mo y \<or> h \<ge> 24 \<or> mi \<ge> 60 \<or> sec \<ge> 60 \<or> s13 \<noteq> []
            then None
            else Some ((epoch_days y mo d * 86400 + h * 3600 + mi * 60 + sec - off) * second + ns))))))))))))))"

definition time_layouts :: "(string \<Rightarrow> gotime option) list" where
  "time_layouts =
     [parse_layout (get_lit ''T'') (\<lambda>s. Some (get_fraction s)) zone_or_z,
      parse_layout (get_lit ''T'') (\<lambda>s. Some (get_fraction s)) (zone_literal ''+09:00''),
      parse_layout (get_lit ''T'') get_milli (zone_literal ''Z''),
      parse_layout (get_lit ''T'') (\<lambda>s. Some (get_fraction s)) (zone_literal ''Z''),
      parse_layout get_blank (\<lambda>s. Some (get_fraction s)) (zone_literal [])]"

fun first_some :: "('a \<Rightarrow> 'b option) list \<Rightarrow> 'a \<Rightarrow> 'b option" where
  "first_some [] x = None"
| "first_some (f # fs) x = (case f x of Some y \<Rightarrow> Some y | None \<Rightarrow> first_some fs x)"

definition parse_listed_time :: "string \<Rightarrow> gotime option" where
  "parse_listed_time s = first_some time_layouts s"

section \<open>The monitor\<close>

record upbit_notice =
  unTitle :: "rune list"
  unListedAt :: string
  unNewBadge :: bool
  unUpdateBadge :: bool
  unID :: int
  unCategory :: string

record notice_event =
  neSymbol :: "rune list"
  neMarkets :: "rune list list"
  neTitle :: "rune list"
  neListedTime :: gotime
  neDetectedTime :: gotime
  neNoticeURL :: string
  neIsNewNotice :: bool

record notice_monitor =
  nmApiURL :: string
  nmLastCheck :: "(rune list, bool) gomap"
  nmHasCallback :: bool

definition new_notice_monitor :: notice_monitor where
  "new_notice_monitor =
     \<lparr>nmApiURL = ''https://api-manager.upbit.com/api/v1/announcements?os=web&page=1&per_page=20&category=trade'',
      nmLastCheck = [], nmHasCallback = False\<rparr>"

definition set_new_listing_callback :: "notice_monitor \<Rightarrow> notice_monitor" where
  "set_new_listing_callback m = m\<lparr>nmHasCallback := True\<rparr>"

datatype fetch_outcome =
    MakeRequestFailed string | SendFailed string | StatusCode int | DecodeFailed string
  | Decoded bool "upbit_notice list"

datatype notice_error =
    RequestNotMade string | RequestNotSent string | RateLimited | BadHttpStatus int | JsonNotDecoded string
  | ApiUnsuccessful

text \<open>The decoded reply is one with status 200.\<close>

definition fetch_notices :: "fetch_outcome \<Rightarrow> notice_error + upbit_notice list" where
  "fetch_notices r =
     (case r of
        MakeRequestFailed e \<Rightarrow> Inl (RequestNotMade e)
      | SendFailed e \<Rightarrow> Inl (RequestNotSent e)
      | StatusCode c \<Rightarrow> if c = 429 then Inl RateLimited else Inl (BadHttpStatus c)
      | DecodeFailed e \<Rightarrow> Inl (JsonNotDecoded e)
      | Decoded success ns \<Rightarrow> if \<not> success then Inl ApiUnsuccessful else Inr ns)"

definition notices_url :: "gotime \<Rightarrow> notice_monitor \<Rightarrow> string" where
  "notices_url start m =
     nmApiURL m @ ''?cb='' @ show_int (unix_nano start) @ ''_'' @ show_int (unix_nano start smod 100000)"

definition request_headers :: "(string \<times> string) list" where
  "request_headers =
     [(''Accept'', ''text/html,application/xhtml+xml,application/xml;q=0.9,*/*;q=0.8''),
      (''Accept-Language'', ''ko-KR,ko;q=0.8,en-US;q=0.5,en;q=0.3''), (''Connection'', ''keep-alive''),
      (''Host'', ''api-manager.upbit.com''), (''Priority'', ''u=0, i''), (''Sec-Fetch-Dest'', ''document''),
      (''Sec-Fetch-Mode'', ''navigate''), (''Sec-Fetch-Site'', ''none''), (''Sec-Fetch-User'', ''?1''),
      (''Upgrade-Insecure-Requests'', ''1''), (''Cache-Control'', ''no-cache, no-store, must-revalidate''),
      (''Pragma'', ''no-cache''), (''Expires'', ''0''),
      (''User-Agent'', ''Mozilla/5.0 (Windows NT 10.0; Win64; x64; rv:139.0) Gecko/20100101 Firefox/139.0'')]"

definition notice_events :: "gotime \<Rightarrow> gotime \<Rightarrow> upbit_notice \<Rightarrow> upbit_listing list \<Rightarrow> notice_event list" where
  "notice_events now listed n ls =
     map (\<lambda>l. \<lparr>neSymbol = ulSymbol l, neMarkets = ulMarkets l, neTitle = unTitle n, neListedTime = listed,
                neDetectedTime = now, neNoticeURL = ''https://upbit.com/service_center/notice'',
                neIsNewNotice = unNewBadge n\<rparr>) ls"

definition mark_title :: "rune list \<Rightarrow> notice_monitor \<Rightarrow> notice_monitor" where
  "mark_title t m = m\<lparr>nmLastCheck := mput t True (nmLastCheck m)\<rparr>"

definition is_marked :: "rune list \<Rightarrow> notice_monitor \<Rightarrow> bool" where
  "is_marked t m = (mget (nmLastCheck m) t = Some True)"

text \<open>The events are those handed to the callback.\<close>

definition check_notices ::
  "gotime \<Rightarrow> fetch_outcome \<Rightarrow> notice_monitor \<Rightarrow> notice_error option \<times> notice_monitor \<times> notice_event list" where
  "check_notices now r m =
     (case fetch_notices r of
        Inl e \<Rightarrow> (Some e, m, [])
      | Inr [] \<Rightarrow> (None, m, [])
      | Inr (n # _) \<Rightarrow>
          if is_marked (unTitle n) m then (None, m, [])
          else (let listed = (case parse_listed_time (unListedAt n) of Some t \<Rightarrow> t | None \<Rightarrow> now);
                    ls = parse_listings (unTitle n);
                    fire = (now - listed < 15 * second \<and> unNewBadge n \<and> \<not> unUpdateBadge n \<and> ls \<noteq> [])
                in (None, mark_title (unTitle n) m,
                    if fire \<and> nmHasCallback m then notice_events now listed n ls else [])))"

definition get_last_check_count :: "notice_monitor \<Rightarrow> nat" where
  "get_last_check_count m = length (nmLastCheck m)"

definition clear_last_check :: "notice_monitor \<Rightarrow> notice_monitor" where
  "clear_last_check m = m\<lparr>nmLastCheck := []\<rparr>"

text \<open>The ticks of \<open>Start\<close> until the context is cancelled: errors are printed; the events of each check.\<close>

fun notice_ticks :: "(gotime \<times> fetch_outcome) list \<Rightarrow> notice_monitor \<Rightarrow> notice_monitor \<times> notice_event list list" where
  "notice_ticks [] m = (m, [])"
| "notice_ticks ((now, r) # ps) m =
     (case check_notices now r m of (_, m1, evs) \<Rightarrow>
        (case notice_ticks ps m1 of (m2, rest) \<Rightarrow> (m2, evs # rest)))"

definition start_notices ::
  "gotime \<times> fetch_outcome \<Rightarrow> (gotime \<times> fetch_outcome) list \<Rightarrow> notice_monitor \<Rightarrow>
     notice_error option \<times> notice_monitor \<times> notice_event list list" where
  "start_notices first ps m =
     (case check_notices (fst first) (snd first) m of
        (Some e, m1, evs) \<Rightarrow> (Some e, m1, [evs])
      | (None, m1, evs) \<Rightarrow> (case notice_ticks ps m1 of (m2, rest) \<Rightarrow> (None, m2, evs # rest)))"

end
