(* ===== verification/UpbitNoticesProps.thy ===== *)
theory UpbitNoticesProps
  imports UpbitNotices
begin

text \<open>
  What the earlier monitor does: a notice raises its events at most once, only the newest notice of a
  poll is looked at, and one of the five patterns of its parser can never be used.
\<close>

section \<open>Matching\<close>

declare rrep.simps [simp del]

lemma rmatch_lit: "rmatch (RLit l # r) s \<noteq> None \<longleftrightarrow> starts_with l s \<and> rmatch r (drop (length l) s) \<noteq> None"
  by simp

lemma rrep_iff: "rrep k r s \<noteq> None \<longleftrightarrow> (\<exists>j. 0 < j \<and> j \<le> k \<and> rmatch r (drop j s) \<noteq> None)"
proof (induction k)
  case (Suc k)
  then show ?case
    by (subst rrep.simps) (auto simp: le_Suc_eq split: option.splits)
qed (simp add: rrep.simps)

lemma rmatch_cap:
  "rmatch (RCap c # r) s \<noteq> None \<longleftrightarrow> (\<exists>j. 0 < j \<and> j \<le> length (takeWhile c s) \<and> rmatch r (drop j s) \<noteq> None)"
  using rrep_iff by simp

lemma ralt_iff: "ralt ls r s \<noteq> None \<longleftrightarrow> (\<exists>l \<in> set ls. starts_with l s \<and> rmatch r (drop (length l) s) \<noteq> None)"
  by (induction ls) (auto split: option.splits)

lemma rmatch_alt:
  "rmatch (RAlt ls # r) s \<noteq> None \<longleftrightarrow> (\<exists>l \<in> set ls. starts_with l s \<and> rmatch r (drop (length l) s) \<noteq> None)"
  using ralt_iff by simp

lemmas rmatch_iffs = rmatch_lit rmatch_cap rmatch_alt

text \<open>A match of a sequence is a match of its beginning and, later, of its rest.\<close>

lemma rmatch_append: "rmatch (p @ q) s \<noteq> None \<Longrightarrow> rmatch p s \<noteq> None \<and> (\<exists>j. rmatch q (drop j s) \<noteq> None)"
proof (induction p arbitrary: s)
  case Nil
  then show ?case by (metis append_Nil drop0 option.distinct(1) rmatch.simps(1))
next
  case (Cons i p)
  have "\<exists>k. rmatch (p @ q) (drop k s) \<noteq> None \<and> (rmatch p (drop k s) \<noteq> None \<longrightarrow> rmatch (i # p) s \<noteq> None)"
  proof (cases i)
    case (RLit l)
    then show ?thesis
      using Cons.prems rmatch_lit by (metis append_Cons)
  next
    case (RCap c)
    then show ?thesis
      using Cons.prems rmatch_cap by (metis append_Cons)
  next
    case (RAlt ls)
    then show ?thesis
      using Cons.prems rmatch_alt by (metis append_Cons)
  qed
  then obtain k where k: "rmatch (p @ q) (drop k s) \<noteq> None" "rmatch p (drop k s) \<noteq> None \<longrightarrow> rmatch (i # p) s \<noteq> None"
    by blast
  from Cons.IH [OF k(1)] obtain j where "rmatch p (drop k s) \<noteq> None" "rmatch q (drop j (drop k s)) \<noteq> None"
    by blast
  then show ?case
    using k(2) by (metis drop_drop)
qed

text \<open>Equivalent continuations can be exchanged, and a literal can be cut in two.\<close>

lemma rmatch_cong:
  assumes "\<And>t. rmatch q t \<noteq> None \<longleftrightarrow> rmatch q' t \<noteq> None"
  shows "rmatch (p @ q) s \<noteq> None \<longleftrightarrow> rmatch (p @ q') s \<noteq> None"
proof (induction p arbitrary: s)
  case (Cons i p)
  show ?case
    by (cases i) (simp_all only: append_Cons rmatch_iffs Cons.IH)
qed (use assms in simp)

lemma rmatch_lit_append:
  "rmatch (RLit (a @ b) # r) s \<noteq> None \<longleftrightarrow> rmatch (RLit a # RLit b # r) s \<noteq> None"
proof -
  have "starts_with (a @ b) s \<longleftrightarrow> starts_with a s \<and> starts_with b (drop (length a) s)"
  proof
    assume "starts_with (a @ b) s"
    then obtain t where "s = (a @ b) @ t" by (metis append_take_drop_id starts_with_def)
    then show "starts_with a s \<and> starts_with b (drop (length a) s)" by (simp add: starts_with_def)
  qed (simp add: starts_with_def take_add)
  then show ?thesis
    by (simp only: rmatch_lit drop_drop length_append conj_assoc add.commute)
qed

lemma rfind_iff: "rfind p s \<noteq> None \<longleftrightarrow> (\<exists>j. rmatch p (drop j s) \<noteq> None)"
proof (induction s)
  case (Cons c s)
  have "(\<exists>j. rmatch p (drop j (c # s)) \<noteq> None) \<longleftrightarrow> rmatch p (c # s) \<noteq> None \<or> (\<exists>j. rmatch p (drop j s) \<noteq> None)"
    by (metis drop0 drop_Cons' drop_Suc_Cons)
  then show ?case
    using Cons by (simp split: option.split)
qed simp

lemma find_all_nonempty: "find_all_submatch p s \<noteq> [] \<longleftrightarrow> rfind p s \<noteq> None"
  by (simp add: find_all_submatch_def split: option.split)

text \<open>Where the single-coin pattern matches, so do the pattern of a coin and the one of markets outside
  parentheses; these are tried first.\<close>

lemma single_is_covered:
  assumes "rfind pattern_single title \<noteq> None"
  shows "find_all_submatch pattern_coins title \<noteq> [] \<and> rfind pattern_market_out title \<noteq> None"
proof -
  let ?mid = "[RLit [32]]"
  obtain j where j: "rmatch pattern_single (drop j title) \<noteq> None"
    using assms rfind_iff by blast
  have "rmatch (RLit [41, 32] # pattern_market_out) t \<noteq> None \<longleftrightarrow> rmatch (RLit [41] # ?mid @ pattern_market_out) t \<noteq> None" for t
    using rmatch_lit_append [of "[41]" "[32]"] by simp
  then have "rmatch ([RCap coin_name_char, RLit [40], RCap ticker_char] @ RLit [41, 32] # pattern_market_out) (drop j title) \<noteq> None \<longleftrightarrow>
      rmatch ([RCap coin_name_char, RLit [40], RCap ticker_char] @ RLit [41] # ?mid @ pattern_market_out) (drop j title) \<noteq> None"
    by (rule rmatch_cong)
  then have "rmatch (pattern_coins @ ?mid @ pattern_market_out) (drop j title) \<noteq> None"
    using j unfolding pattern_single_def pattern_coins_def pattern_market_out_def by (metis append_Cons append_Nil)
  then have "rmatch pattern_coins (drop j title) \<noteq> None" "\<exists>i. rmatch (?mid @ pattern_market_out) (drop i (drop j title)) \<noteq> None"
    using rmatch_append by blast+
  moreover from this(2) obtain i where "rmatch (?mid @ pattern_market_out) (drop i (drop j title)) \<noteq> None"
    by blast
  then have "\<exists>k. rmatch pattern_market_out (drop k (drop i (drop j title))) \<noteq> None"
    using rmatch_append by blast
  ultimately show ?thesis
    using rfind_iff find_all_nonempty by (metis drop_drop)
qed

text \<open>The parser without its fourth pattern.\<close>

definition without_single :: "rune list \<Rightarrow> upbit_listing list" where
  "without_single title =
     (let multi = find_all_submatch pattern_multi title; coins = find_all_submatch pattern_coins title in
      if multi \<noteq> [] then map (\<lambda>m. \<lparr>ulSymbol = m ! 1, ulMarkets = clean_markets (m ! 2)\<rparr>) multi
      else if coins \<noteq> [] \<and> rfind pattern_market_paren title \<noteq> None
      then with_markets (fst (the (rfind pattern_market_paren title)) ! 0) coins
      else if coins \<noteq> [] \<and> rfind pattern_market_out title \<noteq> None
      then with_markets (fst (the (rfind pattern_market_out title)) ! 0) coins
      else parse_coin_list_title title)"

text \<open>C38. The fourth pattern of the earlier parser, for a single coin and market, is never used: on every
  title the parser does what the other four patterns do.\<close>

theorem single_pattern_unused: "parse_listings title = without_single title"
proof -
  have unused: "parse_single_title title = parse_coin_list_title title"
    if "\<not> (find_all_submatch pattern_coins title \<noteq> [] \<and> rfind pattern_market_out title \<noteq> None)"
    using that single_is_covered [of title] by (auto simp: parse_single_title_def split: option.splits)
  have "parse_outside_title (find_all_submatch pattern_coins title) title =
    (if find_all_submatch pattern_coins title \<noteq> [] \<and> rfind pattern_market_out title \<noteq> None
     then with_markets (fst (the (rfind pattern_market_out title)) ! 0) (find_all_submatch pattern_coins title)
     else parse_coin_list_title title)"
    using unused by (cases "rfind pattern_market_out title") (auto simp: parse_outside_title_def)
  then show ?thesis
    by (cases "rfind pattern_market_paren title")
       (auto simp: parse_listings_def parse_paren_title_def without_single_def Let_def)
qed

section \<open>Events\<close>

lemma check_marks:
  assumes "check_notices now r m = (e, m', evs)"
  shows "is_marked t m \<Longrightarrow> is_marked t m'"
    and "ev \<in> set evs \<Longrightarrow> \<not> is_marked (neTitle ev) m \<and> is_marked (neTitle ev) m'"
  using assms by (auto simp: check_notices_def Let_def mark_title_def is_marked_def mget_mput notice_events_def
      split: sum.splits list.splits if_splits)

lemma ticks_unmarked:
  "notice_ticks ps m = (m', evss) \<Longrightarrow> evs \<in> set evss \<Longrightarrow> ev \<in> set evs \<Longrightarrow> \<not> is_marked (neTitle ev) m"
proof (induction ps arbitrary: m m' evss)
  case (Cons p ps)
  obtain now r where p: "p = (now, r)" by (cases p)
  obtain e m1 evs1 where c: "check_notices now r m = (e, m1, evs1)" by (metis prod_cases3)
  obtain m2 rest where rest: "notice_ticks ps m1 = (m2, rest)" by fastforce
  have "evss = evs1 # rest" using Cons.prems(1) c rest by (simp add: p)
  then show ?case
    using Cons.IH [OF rest] Cons.prems(2,3) check_marks [OF c] by auto
qed simp

text \<open>In any run of the earlier monitor, whatever the replies, two different checks never raise an
  event of the same title.\<close>

theorem notice_events_once:
  assumes "notice_ticks ps m = (m', evss)" "i < j" "j < length evss"
    and "a \<in> set (evss ! i)" "b \<in> set (evss ! j)"
  shows "neTitle a \<noteq> neTitle b"
  using assms
proof (induction ps arbitrary: m m' evss i j)
  case (Cons p ps)
  obtain now r where p: "p = (now, r)" by (cases p)
  obtain e m1 evs1 where c: "check_notices now r m = (e, m1, evs1)" by (metis prod_cases3)
  obtain m2 rest where rest: "notice_ticks ps m1 = (m2, rest)" by fastforce
  have evss: "evss = evs1 # rest" using Cons.prems(1) c rest by (simp add: p)
  obtain j' where j: "j = Suc j'" using Cons.prems(2) by (cases j) auto
  show ?case
  proof (cases i)
    case 0
    then have "is_marked (neTitle a) m1"
      using Cons.prems(4) check_marks(2) [OF c] by (simp add: evss)
    moreover have "\<not> is_marked (neTitle b) m1"
      using ticks_unmarked [OF rest, of "rest ! j'" b] Cons.prems(3,5) by (simp add: evss j)
    ultimately show ?thesis by metis
  next
    case (Suc i')
    then show ?thesis
      using Cons.IH [OF rest, of i' j'] Cons.prems(2-5) by (simp add: evss j)
  qed
qed simp

text \<open>A notice that is not the first of a reply raises nothing.\<close>

lemma only_newest_notice:
  "check_notices now (Decoded ok (n # ns)) m = check_notices now (Decoded ok [n]) m"
  by (simp add: check_notices_def fetch_notices_def)

text \<open>A notice first seen without its badge is marked, and a later poll with the badge raises nothing.\<close>

lemma late_badge_ignored:
  assumes "unNewBadge n = False" "check_notices now (Decoded True [n]) m = (e, m', evs)"
  shows "check_notices now' (Decoded True [n\<lparr>unNewBadge := True\<rparr>]) m' = (None, m', [])"
  using assms by (auto simp: check_notices_def fetch_notices_def Let_def mark_title_def is_marked_def mget_mput
      split: if_splits)

text \<open>The address already has a query, so the second question mark makes the rest a part of the category.\<close>

lemma malformed_query:
  "notices_url start new_notice_monitor =
     ''https://api-manager.upbit.com/api/v1/announcements?os=web&page=1&per_page=20&category=trade?cb='' @
       show_int (unix_nano start) @ ''_'' @ show_int (unix_nano start smod 100000)"
  by (simp add: notices_url_def new_notice_monitor_def)

end
