(* ===== verification/FirstTaskManager.thy ===== *)
theory FirstTaskManager
  imports TaskManager StorageManager Transitions
begin

text \<open>
  The first task manager, \<open>internal/websocket/task_manager.go\<close>: one connection for each exchange and
  market, a goroutine that dials it, goroutines that process its messages, a collection that takes the
  trades as they arrive, and the recovery scheduler with a callback that dials on its own.  A context is
  a number; cancelling it puts it on a list, and the context of the manager cancels all of them.
\<close>

section \<open>State\<close>

datatype conn_status = CsDisconnected | CsConnecting | CsConnected | CsReconnecting | CsFailed | CsOther int

fun conn_status_string :: "conn_status \<Rightarrow> string" where
  "conn_status_string CsDisconnected = ''disconnected''"
| "conn_status_string CsConnecting = ''connecting''"
| "conn_status_string CsConnected = ''connected''"
| "conn_status_string CsReconnecting = ''reconnecting''"
| "conn_status_string CsFailed = ''failed''"
| "conn_status_string (CsOther n) = ''unknown''"

text \<open>A goroutine of \<open>startConnection\<close>: at the top of its loop, about to dial, connected, inside the call
  of \<open>processMessages\<close> with that number, or waiting before the next turn on the context it saw.\<close>

datatype conn_pc = CTop | CDial | CLinked | CProcess nat | CWait nat | CEnded

text \<open>A call of \<open>processMessages\<close> with the context its select waits on, its channel, and the message loop
  it started, which keeps the context it was given.\<close>

datatype reader_pc = RNew | RCheck nat | RRead nat | REnded

record processor =
  prAlive :: bool
  prCtx :: nat
  prChan :: "trade_event list"
  prReader :: reader_pc

record conn_mgr =
  cnExchange :: string
  cnMarket :: string
  cnConnector :: connector
  cnSymbols :: "string list"
  cnStatus :: conn_status
  cnLastError :: "string option"
  cnRetryCount :: int
  cnMaxRetries :: int
  cnLastReconnect :: gotime
  cnLastMessage :: gotime
  cnMessageCount :: int
  cnCtx :: nat
  cnLoops :: "conn_pc list"
  cnProcs :: "processor list"

record first_stats =
  fsActive :: int
  fsReconnecting :: int
  fsFailed :: int
  fsTotalMessages :: int
  fsLastHealthCheck :: gotime
  fsLastCollection :: gotime
  fsCollectionActive :: bool

text \<open>The timer is the instant at which it fires and whether it is armed; \<open>ftCompleting\<close> counts the
  goroutines that are about to complete the collection.\<close>

record 'a first_tm =
  ftExchanges :: exchanges_config
  ftSymbols :: symbols_config
  ftConns :: "(string, conn_mgr) gomap"
  ftRecovery :: system
  ftCollection :: "collection_event option"
  ftTimer :: "(gotime \<times> bool) option"
  ftCompleting :: nat
  ftStats :: first_stats
  ftTicker :: bool
  ftRunning :: bool
  ftRootDone :: bool
  ftNextCtx :: nat
  ftDoneCtx :: "nat list"
  ftStorage :: "'a storage_manager"
  ftAnalyzer :: pump_analyzer

definition ctx_done :: "'a first_tm \<Rightarrow> nat \<Rightarrow> bool" where
  "ctx_done tm c = (ftRootDone tm \<or> c \<in> set (ftDoneCtx tm))"

definition cancel_ctx :: "nat \<Rightarrow> 'a first_tm \<Rightarrow> 'a first_tm" where
  "cancel_ctx c tm = tm\<lparr>ftDoneCtx := c # ftDoneCtx tm\<rparr>"

definition put_conn :: "string \<Rightarrow> conn_mgr \<Rightarrow> 'a first_tm \<Rightarrow> 'a first_tm" where
  "put_conn key cm tm = tm\<lparr>ftConns := mput key cm (ftConns tm)\<rparr>"

definition upd_first_stats :: "(first_stats \<Rightarrow> first_stats) \<Rightarrow> 'a first_tm \<Rightarrow> 'a first_tm" where
  "upd_first_stats f tm = tm\<lparr>ftStats := f (ftStats tm)\<rparr>"

definition set_loop :: "nat \<Rightarrow> conn_pc \<Rightarrow> conn_mgr \<Rightarrow> conn_mgr" where
  "set_loop i pc cm = cm\<lparr>cnLoops := (cnLoops cm)[i := pc]\<rparr>"

definition set_proc :: "nat \<Rightarrow> (processor \<Rightarrow> processor) \<Rightarrow> conn_mgr \<Rightarrow> conn_mgr" where
  "set_proc p f cm = cm\<lparr>cnProcs := (cnProcs cm)[p := f (cnProcs cm ! p)]\<rparr>"

section \<open>Creation\<close>

definition create_connector :: "string \<Rightarrow> string \<Rightarrow> exchange_config \<Rightarrow> connector option" where
  "create_connector ex mk cfg =
     (let maxSymbols = (if ecMaxSymbols cfg = 0 then 100 else ecMaxSymbols cfg)
      in new_connector ex mk maxSymbols)"

definition set_connector_callbacks :: "connector \<Rightarrow> connector" where
  "set_connector_callbacks c = c\<lparr>hasOnError := True\<rparr>"

definition new_conn_mgr :: "gotime \<Rightarrow> string \<Rightarrow> string \<Rightarrow> connector \<Rightarrow> string list \<Rightarrow> int \<Rightarrow> nat \<Rightarrow> conn_mgr" where
  "new_conn_mgr now ex mk c symbols mx ctx =
     \<lparr>cnExchange = ex, cnMarket = mk, cnConnector = c, cnSymbols = symbols, cnStatus = CsDisconnected,
      cnLastError = None, cnRetryCount = 0, cnMaxRetries = mx, cnLastReconnect = zero_time,
      cnLastMessage = now, cnMessageCount = 0, cnCtx = ctx, cnLoops = [], cnProcs = []\<rparr>"

definition init_connection :: "gotime \<Rightarrow> string \<times> string \<Rightarrow> 'a first_tm \<Rightarrow> 'a first_tm" where
  "init_connection now = (\<lambda>(ex, mk) tm.
     (case exchange_config_of (ftExchanges tm) ex of
        None \<Rightarrow> tm
      | Some cfg \<Rightarrow>
          (case create_connector ex mk cfg of
             None \<Rightarrow> tm
           | Some c0 \<Rightarrow>
               (let connID = exchange_key ex mk;
                    cm = new_conn_mgr now ex mk (set_connector_callbacks c0) (symbols_for ex mk (ftSymbols tm))
                           (ecMaxRetries cfg) (ftNextCtx tm);
                    s = ftRecovery tm
                in put_conn connID cm
                     (tm\<lparr>ftNextCtx := ftNextCtx tm + 1,
                         ftRecovery := s\<lparr>sched := register_exchange now ex mk True (sched s)\<rparr>\<rparr>)))))"

definition initialize_connections :: "gotime \<Rightarrow> 'a first_tm \<Rightarrow> 'a first_tm" where
  "initialize_connections now tm = fold (init_connection now) (List.product tm_exchanges tm_markets) tm"

definition new_first_tm ::
  "gotime \<Rightarrow> exchanges_config \<Rightarrow> symbols_config \<Rightarrow> 'a storage_manager \<Rightarrow> pump_analyzer \<Rightarrow> 'a first_tm" where
  "new_first_tm now cfgs sc sto pa =
     initialize_connections now
       \<lparr>ftExchanges = cfgs, ftSymbols = sc, ftConns = [], ftRecovery = initial_system, ftCollection = None,
        ftTimer = None, ftCompleting = 0,
        ftStats = \<lparr>fsActive = 0, fsReconnecting = 0, fsFailed = 0, fsTotalMessages = 0,
          fsLastHealthCheck = now, fsLastCollection = zero_time, fsCollectionActive = False\<rparr>,
        ftTicker = False, ftRunning = False, ftRootDone = False, ftNextCtx = 0, ftDoneCtx = [],
        ftStorage = sto, ftAnalyzer = pa\<rparr>"

section \<open>Start and stop\<close>

definition first_start :: "'a first_tm \<Rightarrow> string option \<times> 'a first_tm" where
  "first_start tm =
     (if ftRunning tm then (Some ''task manager is already running'', tm)
      else
        (let s = ftRecovery tm in
         (None, tm\<lparr>ftRunning := True, ftTicker := True,
                  ftRecovery := s\<lparr>sched := start_scheduler (sched s)\<rparr>,
                  ftConns := map (\<lambda>(k, cm). (k, cm\<lparr>cnLoops := cnLoops cm @ [CTop]\<rparr>)) (ftConns tm)\<rparr>)))"

definition first_stop :: "'a first_tm \<Rightarrow> 'a first_tm" where
  "first_stop tm =
     (if \<not> ftRunning tm then tm
      else
        (let s = ftRecovery tm in
         tm\<lparr>ftRunning := False, ftTicker := False,
            ftRecovery := s\<lparr>sched := stop_scheduler (sched s)\<rparr>,
            ftTimer := map_option (\<lambda>(t, armed). (t, False)) (ftTimer tm),
            ftDoneCtx := map (cnCtx \<circ> snd) (ftConns tm) @ ftDoneCtx tm,
            ftConns := map (\<lambda>(k, cm). (k, cm\<lparr>cnConnector := disconnect (cnConnector cm)\<rparr>)) (ftConns tm),
            ftRootDone := True\<rparr>))"

section \<open>Dialling\<close>

text \<open>The text of an error, with English words for the Korean ones; what counts is the text inside, which
  the recovery scheduler classifies.\<close>

fun dial_error_text :: "connector_error \<Rightarrow> string" where
  "dial_error_text (DialFailed e) = ''connect failed: '' @ e"
| "dial_error_text (SubscribeFailed e) = ''subscribe failed: '' @ dial_error_text e"
| "dial_error_text (TokenFailed e) = ''token failed: '' @ e"
| "dial_error_text (SendFailed e) = ''send failed: '' @ e"
| "dial_error_text (TooManySymbols n m) = ''too many symbols: '' @ show_int n @ ''/'' @ show_int m"
| "dial_error_text NoServer = ''no server''"
| "dial_error_text e = error_text e"

text \<open>\<open>OnError\<close> is called for every error the connector reports while it works.\<close>

definition report_to_recovery :: "gotime \<Rightarrow> conn_mgr \<Rightarrow> string list \<Rightarrow> 'a first_tm \<Rightarrow> 'a first_tm" where
  "report_to_recovery now cm es tm =
     (let s = ftRecovery tm in
      tm\<lparr>ftRecovery := s\<lparr>sched := fold (\<lambda>e. handle_error now (cnExchange cm) (cnMarket cm) (Some e)) es (sched s)\<rparr>\<rparr>)"

definition new_reports :: "conn_mgr \<Rightarrow> connector \<Rightarrow> string list" where
  "new_reports cm c = drop (length (reported (cnConnector cm))) (reported c)"

definition connect_conn :: "dial_env \<Rightarrow> conn_mgr \<Rightarrow> connector_error option \<times> connector" where
  "connect_conn env cm =
     connect (dialToken env) (dialResult env) (dialWrites env) (dialTime env) (cnSymbols cm) (cnConnector cm)"

text \<open>\<open>handleConnectionError\<close>\<close>

definition first_connection_error :: "gotime \<Rightarrow> string \<Rightarrow> string \<Rightarrow> conn_mgr \<Rightarrow> 'a first_tm \<Rightarrow> 'a first_tm" where
  "first_connection_error now key e cm tm =
     upd_first_stats (\<lambda>st. st\<lparr>fsReconnecting := fsReconnecting st + 1\<rparr>)
       (report_to_recovery now cm [e]
         (put_conn key (cm\<lparr>cnLastError := Some e, cnStatus := CsReconnecting\<rparr>) tm))"

text \<open>The turns of \<open>startConnection\<close>: the check of the context, the dial, and what follows a success.\<close>

definition first_top :: "string \<Rightarrow> nat \<Rightarrow> conn_mgr \<Rightarrow> 'a first_tm \<Rightarrow> 'a first_tm" where
  "first_top key i cm tm =
     put_conn key (if ctx_done tm (cnCtx cm) then set_loop i CEnded cm
                   else set_loop i CDial (cm\<lparr>cnStatus := CsConnecting\<rparr>)) tm"

definition first_dial :: "string \<Rightarrow> nat \<Rightarrow> dial_env \<Rightarrow> conn_mgr \<Rightarrow> 'a first_tm \<Rightarrow> 'a first_tm" where
  "first_dial key i env cm tm =
     (case connect_conn env cm of
        (Some e, c) \<Rightarrow>
          first_connection_error (dialTime env) key (dial_error_text e) (set_loop i CTop (cm\<lparr>cnConnector := c\<rparr>))
            (report_to_recovery (dialTime env) cm (new_reports cm c) tm)
      | (None, c) \<Rightarrow>
          put_conn key (set_loop i CLinked (cm\<lparr>cnConnector := c\<rparr>))
            (report_to_recovery (dialTime env) cm (new_reports cm c) tm))"

definition new_processor :: "conn_mgr \<Rightarrow> processor" where
  "new_processor cm = \<lparr>prAlive = True, prCtx = cnCtx cm, prChan = [], prReader = RNew\<rparr>"

definition mark_conn :: "gotime \<Rightarrow> conn_mgr \<Rightarrow> conn_mgr" where
  "mark_conn now cm = cm\<lparr>cnStatus := CsConnected, cnRetryCount := 0, cnLastMessage := now\<rparr>"

definition first_linked :: "gotime \<Rightarrow> string \<Rightarrow> nat \<Rightarrow> conn_mgr \<Rightarrow> 'a first_tm \<Rightarrow> 'a first_tm" where
  "first_linked now key i cm tm =
     (let s = ftRecovery tm;
          cm1 = mark_conn now (set_loop i (CProcess (length (cnProcs cm))) cm)
      in put_conn key (cm1\<lparr>cnProcs := cnProcs cm1 @ [new_processor cm1]\<rparr>)
           (tm\<lparr>ftRecovery := s\<lparr>sched := mark_healthy now (cnExchange cm) (cnMarket cm) (sched s)\<rparr>\<rparr>))"

definition first_lost :: "string \<Rightarrow> nat \<Rightarrow> conn_mgr \<Rightarrow> 'a first_tm \<Rightarrow> 'a first_tm" where
  "first_lost key i cm tm =
     put_conn key (set_loop i (CWait (cnCtx cm)) (cm\<lparr>cnStatus := CsReconnecting\<rparr>)) tm"

section \<open>Messages\<close>

definition first_store :: "string \<Rightarrow> trade_event \<Rightarrow> collection_event \<Rightarrow> collection_event" where
  "first_store connID t ce =
     (if connID = ''binance_spot'' then ce\<lparr>BinanceSpot := BinanceSpot ce @ [t]\<rparr>
      else if connID = ''binance_futures'' then ce\<lparr>BinanceFutures := BinanceFutures ce @ [t]\<rparr>
      else if connID = ''bybit_spot'' then ce\<lparr>BybitSpot := BybitSpot ce @ [t]\<rparr>
      else if connID = ''bybit_futures'' then ce\<lparr>BybitFutures := BybitFutures ce @ [t]\<rparr>
      else if connID = ''okx_spot'' then ce\<lparr>OKXSpot := OKXSpot ce @ [t]\<rparr>
      else if connID = ''okx_futures'' then ce\<lparr>OKXFutures := OKXFutures ce @ [t]\<rparr>
      else if connID = ''kucoin_spot'' then ce\<lparr>KuCoinSpot := KuCoinSpot ce @ [t]\<rparr>
      else if connID = ''kucoin_futures'' then ce\<lparr>KuCoinFutures := KuCoinFutures ce @ [t]\<rparr>
      else if connID = ''phemex_spot'' then ce\<lparr>PhemexSpot := PhemexSpot ce @ [t]\<rparr>
      else if connID = ''phemex_futures'' then ce\<lparr>PhemexFutures := PhemexFutures ce @ [t]\<rparr>
      else if connID = ''gate_spot'' then ce\<lparr>GateSpot := GateSpot ce @ [t]\<rparr>
      else if connID = ''gate_futures'' then ce\<lparr>GateFutures := GateFutures ce @ [t]\<rparr>
      else ce)"

text \<open>The turn of the processor that takes a trade off its channel; it then waits on the context the
  connection has by now.\<close>

definition first_receive :: "gotime \<Rightarrow> string \<Rightarrow> nat \<Rightarrow> trade_event \<Rightarrow> conn_mgr \<Rightarrow> 'a first_tm \<Rightarrow> 'a first_tm" where
  "first_receive now key p t cm tm =
     (let cm1 = (set_proc p (\<lambda>pr. pr\<lparr>prChan := tl (prChan pr), prCtx := cnCtx cm\<rparr>) cm)
            \<lparr>cnMessageCount := cnMessageCount cm + 1, cnLastMessage := now\<rparr>;
          tm1 = upd_first_stats (\<lambda>st. st\<lparr>fsTotalMessages := fsTotalMessages st + 1\<rparr>) (put_conn key cm1 tm)
      in tm1\<lparr>ftCollection := map_option (first_store key t) (ftCollection tm1)\<rparr>)"

definition reader_turn ::
  "('m \<Rightarrow> parse_error + trade_event list) \<Rightarrow> gotime \<Rightarrow> string \<Rightarrow> nat \<Rightarrow> nat \<Rightarrow> 'm read_outcome \<Rightarrow> conn_mgr \<Rightarrow>
     'a first_tm \<Rightarrow> 'a first_tm" where
  "reader_turn parse now key p ctx r cm tm =
     (case message_loop_turn parse now r (cnConnector cm) (prChan (cnProcs cm ! p)) of
        (c, chan) \<Rightarrow>
          put_conn key (set_proc p (\<lambda>pr. pr\<lparr>prChan := chan, prReader := RCheck ctx\<rparr>) (cm\<lparr>cnConnector := c\<rparr>))
            (report_to_recovery now cm (new_reports cm c) tm))"

section \<open>Recovery\<close>

text \<open>The reconnect callback up to its dial, and the dial with its outcome.\<close>

definition first_reconnect :: "string \<Rightarrow> conn_mgr \<Rightarrow> 'a first_tm \<Rightarrow> 'a first_tm" where
  "first_reconnect key cm tm =
     cancel_ctx (cnCtx cm)
       (put_conn key (cm\<lparr>cnConnector := disconnect (cnConnector cm), cnCtx := ftNextCtx tm, cnStatus := CsConnecting\<rparr>)
         (tm\<lparr>ftNextCtx := ftNextCtx tm + 1\<rparr>))"

definition first_reconnected :: "string \<Rightarrow> dial_env \<Rightarrow> conn_mgr \<Rightarrow> 'a first_tm \<Rightarrow> string option \<times> 'a first_tm" where
  "first_reconnected key env cm tm =
     (case connect_conn env cm of
        (Some e, c) \<Rightarrow>
          (Some (''reconnection failed: '' @ dial_error_text e),
           put_conn key (cm\<lparr>cnConnector := c, cnStatus := CsReconnecting, cnLastError := Some (dial_error_text e)\<rparr>)
             (report_to_recovery (dialTime env) cm (new_reports cm c) tm))
      | (None, c) \<Rightarrow>
          (let cm1 = (mark_conn (dialTime env) (cm\<lparr>cnConnector := c\<rparr>))\<lparr>cnLastError := None\<rparr> in
           (None, put_conn key (cm1\<lparr>cnProcs := cnProcs cm1 @ [new_processor cm1]\<rparr>)
              (report_to_recovery (dialTime env) cm (new_reports cm c) tm))))"

section \<open>Collection\<close>

text \<open>\<open>scheduleCollectionCompletion\<close>, at the time \<open>now\<close>.\<close>

definition schedule_completion :: "gotime \<Rightarrow> gotime \<Rightarrow> 'a first_tm \<Rightarrow> 'a first_tm" where
  "schedule_completion now endTime tm =
     (if endTime - now \<le> 0 then tm\<lparr>ftCompleting := ftCompleting tm + 1\<rparr>
      else tm\<lparr>ftTimer := Some (endTime, True)\<rparr>)"

definition first_collect :: "gotime \<Rightarrow> string \<Rightarrow> gotime \<Rightarrow> 'a first_tm \<Rightarrow> string option \<times> 'a first_tm" where
  "first_collect now sm trig tm =
     (case ftCollection tm of
        Some ce \<Rightarrow> (Some (''data collection already active for symbol: '' @ ceSymbol ce), tm)
      | None \<Rightarrow>
          (None, upd_first_stats (\<lambda>st. st\<lparr>fsLastCollection := now, fsCollectionActive := True\<rparr>)
             (schedule_completion now (trig + 20 * second)
               (tm\<lparr>ftCollection := Some (new_collection_event now sm trig)\<rparr>))))"

definition first_analyze ::
  "os \<Rightarrow> (stored \<Rightarrow> int) \<Rightarrow> int \<Rightarrow> go_env \<Rightarrow> gotime \<Rightarrow> collection_event \<Rightarrow> pump_analyzer \<times> 'a storage_manager \<Rightarrow>
     pump_analyzer \<times> 'a storage_manager" where
  "first_analyze io jlen off env now ce = (\<lambda>(pa, sto).
     (case analyze_pumps env now pa (Some ce) of
        (Inl e, pa', _) \<Rightarrow> (pa', sto)
      | (Inr an, pa', _) \<Rightarrow>
          (pa', if paPumpEvents an \<noteq> []
                then snd (store_pump_analysis io jlen off now (ceSymbol ce) (ceTriggerTime ce) an sto) else sto)))"

definition first_complete ::
  "'a analyze \<Rightarrow> ((string, exchange_result) gomap \<Rightarrow> (string, exchange_result) gomap) \<Rightarrow> os \<Rightarrow> (stored \<Rightarrow> int) \<Rightarrow>
     int \<Rightarrow> go_env \<Rightarrow> gotime \<Rightarrow> 'a first_tm \<Rightarrow> 'a first_tm" where
  "first_complete analyze ord io jlen off env now tm =
     (case ftCollection tm of
        None \<Rightarrow> tm
      | Some ce \<Rightarrow>
          (let tm1 = upd_first_stats (\<lambda>st. st\<lparr>fsCollectionActive := False\<rparr>) (tm\<lparr>ftCollection := None\<rparr>) in
           case store_collection_event analyze ord io jlen off now ce (ftStorage tm1) of
             (e, ce1, sto1) \<Rightarrow>
               (case (if total_trade_count ce1 > 0 then first_analyze io jlen off env now ce1 (ftAnalyzer tm1, sto1)
                      else (ftAnalyzer tm1, sto1)) of
                  (pa2, sto2) \<Rightarrow> tm1\<lparr>ftStorage := sto2, ftAnalyzer := pa2, ftTimer := None\<rparr>)))"

section \<open>Health\<close>

text \<open>The order in which the connections are visited does not show: each turn changes its own context and
  counter.\<close>

definition count_status :: "conn_status \<Rightarrow> first_stats \<Rightarrow> first_stats" where
  "count_status status st =
     (case status of
        CsConnected \<Rightarrow> st\<lparr>fsActive := fsActive st + 1\<rparr>
      | CsReconnecting \<Rightarrow> st\<lparr>fsReconnecting := fsReconnecting st + 1\<rparr>
      | CsFailed \<Rightarrow> st\<lparr>fsFailed := fsFailed st + 1\<rparr>
      | _ \<Rightarrow> st)"

definition is_stale :: "gotime \<Rightarrow> conn_mgr \<Rightarrow> bool" where
  "is_stale now cm = (cnStatus cm = CsConnected \<and> now - cnLastMessage cm > 90 * second)"

definition health_one :: "gotime \<Rightarrow> conn_mgr \<Rightarrow> 'a first_tm \<Rightarrow> 'a first_tm" where
  "health_one now cm tm =
     upd_first_stats (count_status (cnStatus cm)) (if is_stale now cm then cancel_ctx (cnCtx cm) tm else tm)"

definition first_health :: "gotime \<Rightarrow> 'a first_tm \<Rightarrow> 'a first_tm" where
  "first_health now tm =
     fold (health_one now) (map snd (ftConns tm))
       (upd_first_stats (\<lambda>st. st\<lparr>fsLastHealthCheck := now, fsActive := 0, fsReconnecting := 0, fsFailed := 0\<rparr>) tm)"

definition get_first_stats :: "'a first_tm \<Rightarrow> first_stats" where
  "get_first_stats tm = ftStats tm"

definition get_connection_statuses :: "'a first_tm \<Rightarrow> (string, conn_status) gomap" where
  "get_connection_statuses tm = map (\<lambda>(k, cm). (k, cnStatus cm)) (ftConns tm)"

definition get_first_recovery_stats :: "'a first_tm \<Rightarrow> recovery_stats" where
  "get_first_recovery_stats tm = get_recovery_stats (sched (ftRecovery tm))"

section \<open>The running manager\<close>

text \<open>The label of a step: a goroutine of a connection is the key of the connection and its number.  A
  failed keep-alive of a connector is \<open>FPing\<close> with its error.\<close>

datatype 'm first_action =
    FStart | FStop
  | FTop string nat | FDial string nat dial_env | FLinked gotime string nat | FLost string nat
  | FGiveUp string nat | FRetry string nat
  | FReceive gotime string nat trade_event | FCancelled string nat
  | FReader string nat | FReaderCheck string nat | FReaderTurn gotime string nat "'m read_outcome"
  | FPing gotime string string
  | FHealth gotime | FCheck gotime | FReconnect recon | FReconnected recon dial_env
  | FCollect gotime string gotime | FTimer gotime | FComplete gotime

definition loop_at :: "conn_mgr \<Rightarrow> nat \<Rightarrow> conn_pc \<Rightarrow> bool" where
  "loop_at cm i pc = (i < length (cnLoops cm) \<and> cnLoops cm ! i = pc)"

definition live_proc :: "conn_mgr \<Rightarrow> nat \<Rightarrow> bool" where
  "live_proc cm p = (p < length (cnProcs cm) \<and> prAlive (cnProcs cm ! p))"

text \<open>The waiting select of \<open>startConnection\<close> sees a cancelled context first: the timer runs at least a
  second.\<close>

inductive first_step ::
  "(string \<Rightarrow> 'm \<Rightarrow> parse_error + trade_event list) \<Rightarrow> 'a first_tm \<Rightarrow> 'm first_action \<Rightarrow> 'a first_tm \<Rightarrow> bool"
  for parse where
  fs_start: "first_step parse tm FStart (snd (first_start tm))"
| fs_stop: "first_step parse tm FStop (first_stop tm)"
| fs_top: "mget (ftConns tm) key = Some cm \<Longrightarrow> loop_at cm i CTop \<Longrightarrow>
    first_step parse tm (FTop key i) (first_top key i cm tm)"
| fs_dial: "mget (ftConns tm) key = Some cm \<Longrightarrow> loop_at cm i CDial \<Longrightarrow>
    first_step parse tm (FDial key i env) (first_dial key i env cm tm)"
| fs_linked: "mget (ftConns tm) key = Some cm \<Longrightarrow> loop_at cm i CLinked \<Longrightarrow>
    first_step parse tm (FLinked now key i) (first_linked now key i cm tm)"
| fs_lost: "mget (ftConns tm) key = Some cm \<Longrightarrow> loop_at cm i (CProcess p) \<Longrightarrow> \<not> live_proc cm p \<Longrightarrow>
    first_step parse tm (FLost key i) (first_lost key i cm tm)"
| fs_giveup: "mget (ftConns tm) key = Some cm \<Longrightarrow> loop_at cm i (CWait c) \<Longrightarrow> ctx_done tm c \<Longrightarrow>
    first_step parse tm (FGiveUp key i) (put_conn key (set_loop i CEnded cm) tm)"
| fs_retry: "mget (ftConns tm) key = Some cm \<Longrightarrow> loop_at cm i (CWait c) \<Longrightarrow> \<not> ctx_done tm c \<Longrightarrow>
    first_step parse tm (FRetry key i) (put_conn key (set_loop i CTop cm) tm)"
| fs_receive: "mget (ftConns tm) key = Some cm \<Longrightarrow> live_proc cm p \<Longrightarrow> prChan (cnProcs cm ! p) = t # ts \<Longrightarrow>
    first_step parse tm (FReceive now key p t) (first_receive now key p t cm tm)"
| fs_cancelled: "mget (ftConns tm) key = Some cm \<Longrightarrow> live_proc cm p \<Longrightarrow> ctx_done tm (prCtx (cnProcs cm ! p)) \<Longrightarrow>
    first_step parse tm (FCancelled key p) (put_conn key (set_proc p (\<lambda>pr. pr\<lparr>prAlive := False\<rparr>) cm) tm)"
| fs_reader: "mget (ftConns tm) key = Some cm \<Longrightarrow> p < length (cnProcs cm) \<Longrightarrow> prReader (cnProcs cm ! p) = RNew \<Longrightarrow>
    first_step parse tm (FReader key p) (put_conn key (set_proc p (\<lambda>pr. pr\<lparr>prReader := RCheck (cnCtx cm)\<rparr>) cm) tm)"
| fs_reader_check: "mget (ftConns tm) key = Some cm \<Longrightarrow> p < length (cnProcs cm) \<Longrightarrow>
    prReader (cnProcs cm ! p) = RCheck c \<Longrightarrow>
    first_step parse tm (FReaderCheck key p)
      (put_conn key (set_proc p (\<lambda>pr. pr\<lparr>prReader := (if ctx_done tm c then REnded else RRead c)\<rparr>) cm) tm)"
| fs_reader_turn: "mget (ftConns tm) key = Some cm \<Longrightarrow> p < length (cnProcs cm) \<Longrightarrow>
    prReader (cnProcs cm ! p) = RRead c \<Longrightarrow>
    first_step parse tm (FReaderTurn now key p r) (reader_turn (parse key) now key p c r cm tm)"
| fs_ping: "mget (ftConns tm) key = Some cm \<Longrightarrow> is_connected (cnConnector cm) \<Longrightarrow>
    first_step parse tm (FPing now key e) (report_to_recovery now cm [e] tm)"
| fs_health: "ftTicker tm \<Longrightarrow> first_step parse tm (FHealth now) (first_health now tm)"
| fs_check: "tickerRunning (sched (ftRecovery tm)) \<Longrightarrow> recon_step (ftRecovery tm) (Check now) s' \<Longrightarrow>
    first_step parse tm (FCheck now) (tm\<lparr>ftRecovery := s'\<rparr>)"
| fs_reconnect: "mget (ftConns tm) (fst g) = Some cm \<Longrightarrow> recon_step (ftRecovery tm) (Recovery.Begin g) s' \<Longrightarrow>
    first_step parse tm (FReconnect g) (first_reconnect (fst g) cm (tm\<lparr>ftRecovery := s'\<rparr>))"
| fs_reconnected: "mget (ftConns tm) (fst g) = Some cm \<Longrightarrow> first_reconnected (fst g) env cm tm = (e, tm1) \<Longrightarrow>
    recon_step (ftRecovery tm1) (Finish (dialTime env) e g) s' \<Longrightarrow>
    first_step parse tm (FReconnected g env) (tm1\<lparr>ftRecovery := s'\<rparr>)"
| fs_collect: "first_step parse tm (FCollect now sm trig) (snd (first_collect now sm trig tm))"
| fs_timer: "ftTimer tm = Some (t, True) \<Longrightarrow> t \<le> now \<Longrightarrow>
    first_step parse tm (FTimer now) (tm\<lparr>ftTimer := Some (t, False), ftCompleting := ftCompleting tm + 1\<rparr>)"
| fs_complete: "ftCompleting tm > 0 \<Longrightarrow> iter_order ord \<Longrightarrow>
    first_step parse tm (FComplete now)
      (first_complete analyze ord io jlen off env now (tm\<lparr>ftCompleting := ftCompleting tm - 1\<rparr>))"

inductive_cases first_stepE: "first_step parse tm a tm'"

end
