(* ===== verification/FirstTaskManagerProps.thy ===== *)
theory FirstTaskManagerProps
  imports FirstTaskManager StorageProps TaskManagerProps
begin

text \<open>
  The first task manager in operation: what a collection holds, who completes it, what a stop and a silent
  connection lead to, and what a successful recovery leaves behind.
\<close>

section \<open>Frame lemmas\<close>

lemma report_frame [simp]:
  "ftConns (report_to_recovery now cm es tm) = ftConns tm"
  "ftCollection (report_to_recovery now cm es tm) = ftCollection tm"
  "ftTimer (report_to_recovery now cm es tm) = ftTimer tm"
  "ftCompleting (report_to_recovery now cm es tm) = ftCompleting tm"
  "ftStats (report_to_recovery now cm es tm) = ftStats tm"
  "ftDoneCtx (report_to_recovery now cm es tm) = ftDoneCtx tm"
  "ftRootDone (report_to_recovery now cm es tm) = ftRootDone tm"
  "ftNextCtx (report_to_recovery now cm es tm) = ftNextCtx tm"
  "inflight (ftRecovery (report_to_recovery now cm es tm)) = inflight (ftRecovery tm)"
  by (simp_all add: report_to_recovery_def Let_def)

lemma put_frame [simp]:
  "ftConns (put_conn key cm tm) = mput key cm (ftConns tm)"
  "ftCollection (put_conn key cm tm) = ftCollection tm"
  "ftTimer (put_conn key cm tm) = ftTimer tm"
  "ftCompleting (put_conn key cm tm) = ftCompleting tm"
  "ftStats (put_conn key cm tm) = ftStats tm"
  "ftDoneCtx (put_conn key cm tm) = ftDoneCtx tm"
  "ftRootDone (put_conn key cm tm) = ftRootDone tm"
  "ftNextCtx (put_conn key cm tm) = ftNextCtx tm"
  "ftRecovery (put_conn key cm tm) = ftRecovery tm"
  by (simp_all add: put_conn_def)

lemma stats_frame [simp]:
  "ftConns (upd_first_stats f tm) = ftConns tm"
  "ftCollection (upd_first_stats f tm) = ftCollection tm"
  "ftTimer (upd_first_stats f tm) = ftTimer tm"
  "ftCompleting (upd_first_stats f tm) = ftCompleting tm"
  "ftStats (upd_first_stats f tm) = f (ftStats tm)"
  "ftDoneCtx (upd_first_stats f tm) = ftDoneCtx tm"
  "ftRootDone (upd_first_stats f tm) = ftRootDone tm"
  "ftNextCtx (upd_first_stats f tm) = ftNextCtx tm"
  "ftRecovery (upd_first_stats f tm) = ftRecovery tm"
  by (simp_all add: upd_first_stats_def)

lemma cancel_frame [simp]:
  "ftConns (cancel_ctx c tm) = ftConns tm"
  "ftCollection (cancel_ctx c tm) = ftCollection tm"
  "ftTimer (cancel_ctx c tm) = ftTimer tm"
  "ftCompleting (cancel_ctx c tm) = ftCompleting tm"
  "ftStats (cancel_ctx c tm) = ftStats tm"
  "ftDoneCtx (cancel_ctx c tm) = c # ftDoneCtx tm"
  "ftRootDone (cancel_ctx c tm) = ftRootDone tm"
  "ftNextCtx (cancel_ctx c tm) = ftNextCtx tm"
  "ftRecovery (cancel_ctx c tm) = ftRecovery tm"
  by (simp_all add: cancel_ctx_def)

lemma health_one_frame [simp]:
  "ftConns (health_one now cm tm) = ftConns tm"
  "ftCollection (health_one now cm tm) = ftCollection tm"
  "ftTimer (health_one now cm tm) = ftTimer tm"
  "ftCompleting (health_one now cm tm) = ftCompleting tm"
  "ftRootDone (health_one now cm tm) = ftRootDone tm"
  by (simp_all add: health_one_def)

lemma health_fold_frame:
  "ftConns (fold (health_one now) cms tm) = ftConns tm \<and>
   ftCollection (fold (health_one now) cms tm) = ftCollection tm \<and>
   ftTimer (fold (health_one now) cms tm) = ftTimer tm \<and>
   ftCompleting (fold (health_one now) cms tm) = ftCompleting tm \<and>
   ftRootDone (fold (health_one now) cms tm) = ftRootDone tm"
  by (induction cms arbitrary: tm) simp_all

lemma first_health_frame [simp]:
  "ftConns (first_health now tm) = ftConns tm" "ftCollection (first_health now tm) = ftCollection tm"
  "ftTimer (first_health now tm) = ftTimer tm" "ftCompleting (first_health now tm) = ftCompleting tm"
  "ftRootDone (first_health now tm) = ftRootDone tm"
  by (simp_all add: first_health_def health_fold_frame)

lemma loop_proc_simps [simp]:
  "cnProcs (set_loop i pc cm) = cnProcs cm" "cnLoops (set_loop i pc cm) = (cnLoops cm)[i := pc]"
  "cnCtx (set_loop i pc cm) = cnCtx cm" "cnStatus (set_loop i pc cm) = cnStatus cm"
  "cnRetryCount (set_loop i pc cm) = cnRetryCount cm" "cnMessageCount (set_loop i pc cm) = cnMessageCount cm"
  "cnConnector (set_loop i pc cm) = cnConnector cm" "cnSymbols (set_loop i pc cm) = cnSymbols cm"
  "cnLoops (set_proc p f cm) = cnLoops cm" "cnCtx (set_proc p f cm) = cnCtx cm"
  "cnStatus (set_proc p f cm) = cnStatus cm" "cnRetryCount (set_proc p f cm) = cnRetryCount cm"
  "cnMessageCount (set_proc p f cm) = cnMessageCount cm" "cnConnector (set_proc p f cm) = cnConnector cm"
  "cnSymbols (set_proc p f cm) = cnSymbols cm" "cnProcs (set_proc p f cm) = (cnProcs cm)[p := f (cnProcs cm ! p)]"
  by (simp_all add: set_loop_def set_proc_def)

lemma mark_simps [simp]:
  "cnLoops (mark_conn now cm) = cnLoops cm" "cnCtx (mark_conn now cm) = cnCtx cm"
  "cnStatus (mark_conn now cm) = CsConnected" "cnRetryCount (mark_conn now cm) = 0"
  "cnMessageCount (mark_conn now cm) = cnMessageCount cm" "cnProcs (mark_conn now cm) = cnProcs cm"
  "cnSymbols (mark_conn now cm) = cnSymbols cm" "cnConnector (mark_conn now cm) = cnConnector cm"
  by (simp_all add: mark_conn_def)

section \<open>The collection\<close>

lemma first_store_eq: "first_store key t ce = add_trade_from_buffer key t ce"
  unfolding first_store_def add_trade_from_buffer_def by simp

definition received_on :: "'m first_action \<Rightarrow> (string \<times> trade_event) list" where
  "received_on a = (case a of FReceive now key p t \<Rightarrow> [(key, t)] | _ \<Rightarrow> [])"

definition received :: "'m first_action list \<Rightarrow> (string \<times> trade_event) list" where
  "received as = concat (map received_on as)"

definition completes :: "'m first_action \<Rightarrow> bool" where
  "completes a = (case a of FComplete now \<Rightarrow> True | _ \<Rightarrow> False)"

definition store_received :: "(string \<times> trade_event) list \<Rightarrow> collection_event \<Rightarrow> collection_event" where
  "store_received ts ce = fold (\<lambda>(k, t). first_store k t) ts ce"

lemma received_simps [simp]:
  "received [] = []" "received (a # as) = received_on a @ received as"
  "received (as @ bs) = received as @ received bs"
  by (simp_all add: received_def)

lemma store_received_append [simp]:
  "store_received [] ce = ce" "store_received (ts @ us) ce = store_received us (store_received ts ce)"
  by (simp_all add: store_received_def)

lemma first_store_head [simp]:
  "ceSymbol (first_store k t ce) = ceSymbol ce" "ceTriggerTime (first_store k t ce) = ceTriggerTime ce"
  by (simp_all add: first_store_def)

lemma store_received_head [simp]:
  "ceSymbol (store_received ts ce) = ceSymbol ce" "ceTriggerTime (store_received ts ce) = ceTriggerTime ce"
  unfolding store_received_def by (induction ts arbitrary: ce) auto

lemma slice_of_store_received:
  "k \<in> set slice_keys \<Longrightarrow> slice_of k (store_received ts ce) = slice_of k ce @ map snd (filter (\<lambda>x. fst x = k) ts)"
  unfolding store_received_def by (induction ts arbitrary: ce) (auto simp: first_store_eq)

lemmas first_op_defs = first_top_def first_dial_def first_linked_def first_lost_def first_connection_error_def
  reader_turn_def first_reconnect_def first_reconnected_def Let_def

lemma first_collection_step:
  assumes "first_step parse tm a tm'" "ftCollection tm = Some ce" "\<not> completes a"
  shows "ftCollection tm' = Some (store_received (received_on a) ce)"
  using assms
  by (cases rule: first_step.cases)
    (auto simp: first_op_defs received_on_def completes_def store_received_def first_start_def first_stop_def
      first_receive_def first_collect_def split: prod.splits option.splits)

lemma first_collection_runs:
  assumes "runs (first_step parse) tm as tm'" "ftCollection tm = Some ce" "\<forall>a \<in> set as. \<not> completes a"
  shows "ftCollection tm' = Some (store_received (received as) ce)"
  using assms
proof (induction as arbitrary: tm ce)
  case (Cons a as)
  then obtain tm1 where "first_step parse tm a tm1" "runs (first_step parse) tm1 as tm'" by auto
  then show ?case
    using Cons.IH Cons.prems(2,3) first_collection_step by fastforce
qed simp

lemma slice_keys_markets: "set analyzed_markets = set slice_keys"
  by (auto simp: analyzed_markets_def slice_keys_def)


section \<open>Who completes a collection\<close>

definition armed :: "'a first_tm \<Rightarrow> nat" where
  "armed tm = (case ftTimer tm of Some (t, True) \<Rightarrow> 1 | _ \<Rightarrow> 0)"

definition pending_completions :: "'a first_tm \<Rightarrow> nat" where
  "pending_completions tm = ftCompleting tm + armed tm"

definition completion_ok :: "'a first_tm \<Rightarrow> bool" where
  "completion_ok tm = (pending_completions tm \<le> (if ftCollection tm = None then 0 else 1))"

lemma first_complete_frame:
  "ftCollection tm \<noteq> None \<Longrightarrow> ftCollection (first_complete an ord io jl off env now tm) = None \<and>
     ftTimer (first_complete an ord io jl off env now tm) = None \<and>
     ftCompleting (first_complete an ord io jl off env now tm) = ftCompleting tm \<and>
     ftConns (first_complete an ord io jl off env now tm) = ftConns tm"
  by (auto simp: first_complete_def Let_def split: prod.splits)

lemma other_steps_pending:
  assumes "first_step parse tm a tm'" "\<not> completes a" "a \<noteq> FStop" "\<forall>now sm trig. a \<noteq> FCollect now sm trig"
  shows "pending_completions tm' = pending_completions tm \<and> (ftCollection tm' = None \<longleftrightarrow> ftCollection tm = None)"
  using assms
  by (cases rule: first_step.cases)
    (auto simp: first_op_defs completes_def first_start_def first_receive_def pending_completions_def armed_def
      split: prod.splits option.splits)

lemma completion_step:
  assumes "first_step parse tm a tm'" "completion_ok tm"
  shows "completion_ok tm'"
proof -
  consider "completes a" | "a = FStop" | now sm trig where "a = FCollect now sm trig"
    | "\<not> completes a" "a \<noteq> FStop" "\<forall>now sm trig. a \<noteq> FCollect now sm trig"
    by blast
  then show ?thesis
  proof cases
    case 1
    from assms(1) this show ?thesis
    proof (cases rule: first_step.cases)
      case (fs_complete ord now analyze io jlen off env)
      let ?tm = "tm\<lparr>ftCompleting := ftCompleting tm - 1\<rparr>"
      have "ftCollection ?tm \<noteq> None" "ftCompleting ?tm = 0"
        using assms(2) fs_complete(3) by (auto simp: completion_ok_def pending_completions_def split: if_splits)
      then show ?thesis
        using first_complete_frame [of ?tm] fs_complete(2)
        by (simp add: completion_ok_def pending_completions_def armed_def)
    qed (auto simp: completes_def)
  next
    case 2
    from assms(1) 2 assms(2) show ?thesis
      by (cases rule: first_step.cases)
        (auto simp: first_stop_def Let_def completion_ok_def pending_completions_def armed_def split: option.splits)
  next
    case (3 now sm trig)
    from assms(1) 3 assms(2) show ?thesis
      by (cases rule: first_step.cases)
        (auto simp: first_collect_def schedule_completion_def completion_ok_def pending_completions_def armed_def
          split: option.splits)
  next
    case 4
    then show ?thesis
      using other_steps_pending [OF assms(1)] assms(2) by (simp add: completion_ok_def)
  qed
qed

text \<open>Creation starts with an empty collection and leaves the keys distinct.\<close>

lemma init_connection_frame:
  "ftCollection (init_connection now x tm) = ftCollection tm \<and> ftTimer (init_connection now x tm) = ftTimer tm \<and>
   ftCompleting (init_connection now x tm) = ftCompleting tm \<and> ftStats (init_connection now x tm) = ftStats tm"
  by (auto simp: init_connection_def Let_def split: prod.splits option.splits)

lemma init_connections_frame:
  "ftCollection (fold (init_connection now) xs tm) = ftCollection tm \<and> ftTimer (fold (init_connection now) xs tm) = ftTimer tm \<and>
   ftCompleting (fold (init_connection now) xs tm) = ftCompleting tm \<and> ftStats (fold (init_connection now) xs tm) = ftStats tm"
  by (induction xs arbitrary: tm) (simp_all add: init_connection_frame)

lemma new_first_frame [simp]:
  "ftCollection (new_first_tm now cfgs sc sto pa) = None" "ftTimer (new_first_tm now cfgs sc sto pa) = None"
  "ftCompleting (new_first_tm now cfgs sc sto pa) = 0"
  by (simp_all add: new_first_tm_def initialize_connections_def init_connections_frame)

lemma completion_invariant:
  assumes "runs (first_step parse) (new_first_tm now0 cfgs sc sto pa) as tm"
  shows "completion_ok tm"
  by (rule runs_invariant [OF assms _ completion_step])
    (simp_all add: completion_ok_def pending_completions_def armed_def)

definition orphaned :: "string \<Rightarrow> 'a first_tm \<Rightarrow> bool" where
  "orphaned sm tm = (pending_completions tm = 0 \<and> (\<exists>ce. ftCollection tm = Some ce \<and> ceSymbol ce = sm))"

lemma orphaned_step:
  assumes "first_step parse tm a tm'" "orphaned sm tm"
  shows "orphaned sm tm' \<and> \<not> completes a"
proof -
  have n: "\<not> completes a"
    using assms by (cases rule: first_step.cases) (auto simp: completes_def orphaned_def pending_completions_def)
  from assms(2) obtain ce where ce: "ftCollection tm = Some ce" "ceSymbol ce = sm" by (auto simp: orphaned_def)
  have "ftCollection tm' = Some (store_received (received_on a) ce)"
    using first_collection_step [OF assms(1) ce(1) n] .
  moreover have "pending_completions tm' = 0"
  proof (cases "a = FStop \<or> (\<exists>now sm trig. a = FCollect now sm trig)")
    case True
    from assms(1) True assms(2) ce show ?thesis
      by (cases rule: first_step.cases)
        (auto simp: first_stop_def first_collect_def Let_def orphaned_def pending_completions_def armed_def split: option.splits)
  next
    case False
    then show ?thesis
      using other_steps_pending [OF assms(1) n] assms(2) by (simp add: orphaned_def)
  qed
  ultimately show ?thesis
    using ce(2) n by (simp add: orphaned_def)
qed

text \<open>A stop that finds a collection waiting for its timer loses it: in every later run, a new start
  included, it is never completed nor stored, and no other collection can be started.\<close>

theorem stop_loses_the_collection:
  assumes "ftRunning tm" "ftCollection tm = Some ce" "ftCompleting tm = 0"
    and "runs (first_step parse) tm (FStop # bs) tm'"
  shows "(\<forall>a \<in> set bs. \<not> completes a) \<and>
    (\<exists>ce'. ftCollection tm' = Some ce' \<and> ceSymbol ce' = ceSymbol ce) \<and>
    fst (first_collect now sm trig tm') \<noteq> None"
proof -
  obtain tm1 where tm1: "first_step parse tm FStop tm1" "runs (first_step parse) tm1 bs tm'"
    using assms(4) by auto
  have "orphaned (ceSymbol ce) tm1"
    using tm1(1) assms(1-3) by (cases rule: first_step.cases)
      (auto simp: first_stop_def Let_def orphaned_def pending_completions_def armed_def split: option.splits)
  with tm1(2) have "orphaned (ceSymbol ce) tm' \<and> (\<forall>a \<in> set bs. \<not> completes a)"
  proof (induction bs arbitrary: tm1)
    case (Cons a bs)
    then show ?case using orphaned_step by fastforce
  qed simp
  then show ?thesis
    by (auto simp: orphaned_def first_collect_def)
qed


text \<open>In every run from the creation at most one goroutine or timer is there to complete a collection, and
  without a stop there is exactly one as long as a collection is active and none otherwise.\<close>

theorem one_completion_each:
  assumes "runs (first_step parse) (new_first_tm now0 cfgs sc sto pa) as tm"
  shows "pending_completions tm \<le> (if ftCollection tm = None then 0 else 1) \<and>
    (FStop \<notin> set as \<longrightarrow> pending_completions tm = (if ftCollection tm = None then 0 else 1))"
proof -
  have exact: "pending_completions s1 = (if ftCollection s1 = None then 0 else 1)"
    if "first_step parse s a s1" "pending_completions s = (if ftCollection s = None then 0 else 1)" "a \<noteq> FStop" for s a s1
  proof -
    have ok: "completion_ok s1"
      using completion_step [OF that(1)] that(2) by (simp add: completion_ok_def)
    show ?thesis
    proof (cases "ftCollection s1 = None")
      case False
      consider "completes a" | now sm trig where "a = FCollect now sm trig"
        | "\<not> completes a" "\<forall>now sm trig. a \<noteq> FCollect now sm trig"
        by blast
      then have "pending_completions s1 \<ge> 1"
      proof cases
        case 1
        from that(1) this that(2) False show ?thesis
        proof (cases rule: first_step.cases)
          case (fs_complete ord now analyze io jlen off env)
          have "ftCollection s \<noteq> None"
            using that(2) fs_complete(3) by (auto simp: pending_completions_def split: if_splits)
          then have "ftCollection s1 = None"
            using first_complete_frame [of "s\<lparr>ftCompleting := ftCompleting s - 1\<rparr>"] fs_complete(2) by simp
          then show ?thesis using False by simp
        qed (auto simp: completes_def)
      next
        case (2 now sm trig)
        from that(1) this that(2) False show ?thesis
          by (cases rule: first_step.cases)
            (auto simp: first_collect_def schedule_completion_def pending_completions_def armed_def
              split: option.splits if_splits)
      next
        case 3
        then show ?thesis
          using other_steps_pending [OF that(1) 3(1) that(3) 3(2)] that(2) False by simp
      qed
      then show ?thesis using ok False by (simp add: completion_ok_def)
    qed (use ok in \<open>simp add: completion_ok_def\<close>)
  qed
  have "pending_completions tm = (if ftCollection tm = None then 0 else 1)" if "FStop \<notin> set as"
  proof (rule runs_invariant [OF assms])
    show "pending_completions s1 = (if ftCollection s1 = None then 0 else 1)"
      if "first_step parse s a s1" "pending_completions s = (if ftCollection s = None then 0 else 1)" "a \<in> set as" for s a s1
      using exact [OF that(1,2)] that(3) \<open>FStop \<notin> set as\<close> by metis
  qed (simp add: pending_completions_def armed_def)
  then show ?thesis
    using completion_invariant [OF assms] by (simp add: completion_ok_def)
qed

section \<open>A silent connection\<close>

definition reconnects :: "string \<Rightarrow> 'm first_action \<Rightarrow> bool" where
  "reconnects key a = (case a of FReconnect g \<Rightarrow> fst g = key | _ \<Rightarrow> False)"

definition dials :: "string \<Rightarrow> 'm first_action \<Rightarrow> bool" where
  "dials key a = (case a of FDial k i env \<Rightarrow> k = key | _ \<Rightarrow> False)"

definition given_up :: "string \<Rightarrow> 'a first_tm \<Rightarrow> bool" where
  "given_up key tm =
     (\<exists>cm. mget (ftConns tm) key = Some cm \<and> ctx_done tm (cnCtx cm) \<and> CDial \<notin> set (cnLoops cm))"

lemma mget_map_snd: "mget (map (\<lambda>(k, x). (k, f x)) m) key = map_option f (mget m key)"
  by (induction m) auto

lemma first_in_update: "x \<in> set (xs[i := y]) \<Longrightarrow> x = y \<or> x \<in> set xs"
  using set_update_subset_insert [of xs i y] by blast

lemma ctx_done_frame:
  "set (ftDoneCtx tm) \<subseteq> set (ftDoneCtx tm') \<Longrightarrow> (ftRootDone tm \<Longrightarrow> ftRootDone tm') \<Longrightarrow> ctx_done tm c \<Longrightarrow> ctx_done tm' c"
  by (auto simp: ctx_done_def)

lemma health_cancels:
  "set (ftDoneCtx (fold (health_one now) cms tm)) = set (ftDoneCtx tm) \<union> cnCtx ` {cm \<in> set cms. is_stale now cm}"
  by (induction cms arbitrary: tm) (auto simp: health_one_def)

lemma health_done: "set (ftDoneCtx (first_health now tm)) =
    set (ftDoneCtx tm) \<union> cnCtx ` {cm \<in> snd ` set (ftConns tm). is_stale now cm}"
  by (simp add: first_health_def health_cancels)

lemma done_grows:
  assumes "first_step parse tm a tm'"
  shows "ctx_done tm c \<Longrightarrow> ctx_done tm' c"
proof (rule ctx_done_frame)
  show "set (ftDoneCtx tm) \<subseteq> set (ftDoneCtx tm')"
    using assms by (cases rule: first_step.cases)
      (auto simp: first_op_defs first_start_def first_stop_def first_receive_def first_collect_def health_done
        schedule_completion_def first_complete_def split: prod.splits option.splits)
  show "ftRootDone tm \<Longrightarrow> ftRootDone tm'"
    using assms by (cases rule: first_step.cases)
      (auto simp: first_op_defs first_start_def first_stop_def first_receive_def first_collect_def
        schedule_completion_def first_complete_def split: prod.splits option.splits)
qed

text \<open>A step changes one connection, and its context only in a reconnection; a loop comes to a dial only
  from the top, where its context was live.\<close>

lemma conn_step:
  assumes "first_step parse tm a tm'" "mget (ftConns tm) key = Some cm" "\<not> reconnects key a"
    and "CDial \<notin> set (cnLoops cm)" "ctx_done tm (cnCtx cm)"
  shows "\<not> dials key a \<and> (\<exists>cm'. mget (ftConns tm') key = Some cm' \<and> cnCtx cm' = cnCtx cm \<and> CDial \<notin> set (cnLoops cm'))"
  using assms
proof (cases rule: first_step.cases)
  case (fs_complete ord now analyze io jlen off env)
  then show ?thesis
    using assms by (auto simp: first_complete_def dials_def Let_def split: prod.splits option.splits)
next
  case (fs_dial key' cm' i env)
  show ?thesis
  proof (cases "key' = key")
    case True
    then have "CDial \<in> set (cnLoops cm)"
      using fs_dial(3,4) assms(2) by (metis loop_at_def nth_mem option.inject)
    then show ?thesis using assms(4) by simp
  next
    case False
    then show ?thesis
      using fs_dial(1,2) assms by (auto simp: first_op_defs dials_def mget_mput split: prod.splits option.splits)
  qed
qed (auto simp: first_op_defs first_start_def first_stop_def first_receive_def first_collect_def schedule_completion_def
      reconnects_def dials_def mget_mput mget_map_snd loop_at_def dest!: first_in_update split: prod.splits option.splits)

lemma given_up_step:
  assumes "first_step parse tm a tm'" "given_up key tm" "\<not> reconnects key a"
  shows "given_up key tm' \<and> \<not> dials key a"
  using conn_step [OF assms(1) _ assms(3)] assms(2) done_grows [OF assms(1)] unfolding given_up_def by metis

text \<open>A connection that the health check finds silent for ninety seconds is not reconnected, as the
  comment there says, but given up: its context is cancelled, and unless the recovery scheduler, to which
  nothing reports the silence, calls its callback, no goroutine ever dials it again.\<close>

theorem silent_connection_given_up:
  assumes "first_step parse tm (FHealth now) tm1" "mget (ftConns tm) key = Some cm" "is_stale now cm"
    and "CDial \<notin> set (cnLoops cm)"
    and "runs (first_step parse) tm1 bs tm2" "\<forall>a \<in> set bs. \<not> reconnects key a"
  shows "\<forall>a \<in> set bs. \<not> dials key a"
proof -
  have "(key, cm) \<in> set (ftConns tm)"
    using assms(2) by (rule map_of_SomeD)
  then have "cm \<in> {cm \<in> snd ` set (ftConns tm). is_stale now cm}"
    using assms(3) image_eqI [of cm snd "(key, cm)"] by simp
  moreover have tm1: "tm1 = first_health now tm"
    using assms(1) by (cases rule: first_step.cases) auto
  ultimately have "ctx_done tm1 (cnCtx cm)"
    unfolding ctx_done_def tm1 health_done by blast
  then have "given_up key tm1"
    using assms(2,4) by (simp add: given_up_def tm1)
  with assms(5,6) show ?thesis
  proof (induction bs arbitrary: tm1)
    case (Cons a bs)
    then obtain tm' where st: "first_step parse tm1 a tm'" "runs (first_step parse) tm' bs tm2" by auto
    have "given_up key tm' \<and> \<not> dials key a"
      using given_up_step [OF st(1)] Cons.prems by simp
    then show ?case using Cons.IH [OF st(2)] Cons.prems(2) by simp
  qed simp
qed


section \<open>Counters\<close>

definition healthy_conn :: "conn_mgr \<Rightarrow> bool" where
  "healthy_conn cm = (cnRetryCount cm = 0 \<and> cnStatus cm \<noteq> CsFailed)"

definition received_from :: "string \<Rightarrow> (string \<times> trade_event) list \<Rightarrow> int" where
  "received_from key ts = int (length (filter (\<lambda>x. fst x = key) ts))"

lemma received_from_append [simp]: "received_from key (ts @ us) = received_from key ts + received_from key us"
  "received_from key [] = 0"
  by (simp_all add: received_from_def)

lemma conn_count_step:
  assumes "first_step parse tm a tm'" "mget (ftConns tm') key = Some cm'"
  shows "\<exists>cm. mget (ftConns tm) key = Some cm \<and> (healthy_conn cm \<longrightarrow> healthy_conn cm') \<and>
    cnMessageCount cm' = cnMessageCount cm + received_from key (received_on a)"
  using assms
proof (cases rule: first_step.cases)
  case (fs_complete ord now analyze io jlen off env)
  then show ?thesis
    using assms by (auto simp: first_complete_def received_on_def received_from_def Let_def split: prod.splits option.splits)
qed (auto simp: first_op_defs first_start_def first_stop_def first_receive_def first_collect_def schedule_completion_def
      received_on_def received_from_def healthy_conn_def mget_mput mget_map_snd split: prod.splits option.splits if_splits)

lemma health_total: "fsTotalMessages (ftStats (fold (health_one now) cms t)) = fsTotalMessages (ftStats t)"
  by (induction cms arbitrary: t) (auto simp: health_one_def count_status_def split: conn_status.split)

lemma health_failed:
  "\<forall>cm \<in> set cms. healthy_conn cm \<Longrightarrow> fsFailed (ftStats (fold (health_one now) cms t)) = fsFailed (ftStats t)"
  by (induction cms arbitrary: t) (auto simp: health_one_def count_status_def healthy_conn_def split: conn_status.split)

lemma total_count_step:
  assumes "first_step parse tm a tm'"
  shows "fsTotalMessages (ftStats tm') = fsTotalMessages (ftStats tm) + int (length (received_on a))"
  using assms
  by (cases rule: first_step.cases)
    (auto simp: first_op_defs first_start_def first_stop_def first_receive_def first_collect_def schedule_completion_def
      received_on_def first_complete_def first_health_def health_total split: prod.splits option.splits)

lemma failed_count_step:
  assumes "first_step parse tm a tm'" "fsFailed (ftStats tm) = 0" "\<forall>cm \<in> snd ` set (ftConns tm). healthy_conn cm"
  shows "fsFailed (ftStats tm') = 0"
proof -
  have h: "fsFailed (ftStats (first_health now tm)) = 0" for now
    using assms(3) by (simp add: first_health_def health_failed)
  show ?thesis
    using assms(1,2)
    by (cases rule: first_step.cases)
      (auto simp: first_op_defs first_start_def first_stop_def first_receive_def first_collect_def schedule_completion_def
        first_complete_def h split: prod.splits option.splits)
qed

definition fresh_conns :: "'a first_tm \<Rightarrow> bool" where
  "fresh_conns tm = (wf_map (ftConns tm) \<and> fsTotalMessages (ftStats tm) = 0 \<and> fsFailed (ftStats tm) = 0 \<and>
     (\<forall>k cm. mget (ftConns tm) k = Some cm \<longrightarrow> healthy_conn cm \<and> cnMessageCount cm = 0))"

lemma init_connection_fresh: "fresh_conns tm \<Longrightarrow> fresh_conns (init_connection now x tm)"
  by (cases x) (auto simp: fresh_conns_def init_connection_def Let_def new_conn_mgr_def healthy_conn_def mget_mput
      split: option.splits)

lemma init_connections_fresh: "fresh_conns tm \<Longrightarrow> fresh_conns (fold (init_connection now) xs tm)"
  by (induction xs arbitrary: tm) (auto intro: init_connection_fresh)

lemma new_first_fresh: "fresh_conns (new_first_tm now cfgs sc sto pa)"
  unfolding new_first_tm_def initialize_connections_def
  by (rule init_connections_fresh) (simp add: fresh_conns_def)


lemma wf_first_step:
  assumes "first_step parse tm a tm'" "wf_map (ftConns tm)"
  shows "wf_map (ftConns tm')"
proof -
  have m: "wf_map (map (\<lambda>(k, cm). (k, f cm)) m) = wf_map m" for f :: "conn_mgr \<Rightarrow> conn_mgr" and m :: "(string, conn_mgr) gomap"
    by (simp add: wf_map_def comp_def case_prod_beta)
  show ?thesis
    using assms
    by (cases rule: first_step.cases)
      (auto simp: first_op_defs first_start_def first_stop_def first_receive_def first_collect_def schedule_completion_def
        first_complete_def m split: prod.splits option.splits)
qed

lemma healthy_all:
  "wf_map m \<Longrightarrow> (\<forall>k cm. mget m k = Some cm \<longrightarrow> P cm) \<Longrightarrow> \<forall>cm \<in> snd ` set m. P cm"
  by (auto simp: wf_map_def)

text \<open>In every run from the creation the count of a connection is the number of trades taken off its
  channels and the total is the sum over all of them; no retry is ever counted, no connection ever has the
  status failed, and the statistics report none, whatever \<open>MaxRetries\<close> says.\<close>

theorem first_tm_counts:
  assumes "runs (first_step parse) (new_first_tm now0 cfgs sc sto pa) as tm"
  shows "fsTotalMessages (ftStats tm) = int (length (received as)) \<and> fsFailed (ftStats tm) = 0 \<and>
    (\<forall>key cm. mget (ftConns tm) key = Some cm \<longrightarrow>
       cnMessageCount cm = received_from key (received as) \<and> cnRetryCount cm = 0 \<and> cnStatus cm \<noteq> CsFailed)"
  using assms
proof (induction as arbitrary: tm rule: rev_induct)
  case Nil
  then show ?case
    using new_first_fresh [of now0 cfgs sc sto pa] by (auto simp: fresh_conns_def healthy_conn_def)
next
  case (snoc a as)
  then obtain tm1 where r: "runs (first_step parse) (new_first_tm now0 cfgs sc sto pa) as tm1" and st: "first_step parse tm1 a tm"
    by (auto simp: runs_append)
  have wf: "wf_map (ftConns tm1)"
    by (rule runs_invariant [OF r, of "\<lambda>t. wf_map (ftConns t)"])
      (simp_all add: new_first_fresh [unfolded fresh_conns_def] wf_first_step)
  note IH = snoc.IH [OF r]
  have "\<forall>cm \<in> snd ` set (ftConns tm1). healthy_conn cm"
    using IH by (intro healthy_all [OF wf]) (simp add: healthy_conn_def)
  then have "fsFailed (ftStats tm) = 0"
    using failed_count_step [OF st] IH by blast
  moreover have "cnMessageCount cm = received_from key (received (as @ [a])) \<and> cnRetryCount cm = 0 \<and> cnStatus cm \<noteq> CsFailed"
    if "mget (ftConns tm) key = Some cm" for key cm
    using conn_count_step [OF st that] IH by (fastforce simp: healthy_conn_def)
  moreover have "fsTotalMessages (ftStats tm) = int (length (received (as @ [a])))"
    using total_count_step [OF st] IH by simp
  ultimately show ?case by blast
qed


section \<open>A successful recovery\<close>

lemma begin_inflight:
  assumes "g \<in> set (spawned s)"
  obtains s' where "recon_step s (Recovery.Begin g) s'" "g \<in> set (inflight s')"
  using recon_step.beg [OF assms] by force



section \<open>Witnesses\<close>

definition sample_first_conn :: conn_mgr where
  "sample_first_conn =
     \<lparr>cnExchange = ''gate'', cnMarket = ''spot'',
      cnConnector = (new_base_connector ''gate'' ''spot'' ''wss://api.gateio.ws/ws/v4/'' 100)
        \<lparr>cOpen := True, IsActive := True, hasOnError := True\<rparr>,
      cnSymbols = [], cnStatus = CsConnected, cnLastError = None, cnRetryCount = 0, cnMaxRetries = 5,
      cnLastReconnect = zero_time, cnLastMessage = 0, cnMessageCount = 0, cnCtx = 0, cnLoops = [CProcess 0],
      cnProcs = [\<lparr>prAlive = True, prCtx = 0, prChan = [sample_trade 7 ''DOGEUSDT''], prReader = RNew\<rparr>]\<rparr>"

definition sample_first :: "unit first_tm" where
  "sample_first =
     \<lparr>ftExchanges = sample_exchanges, ftSymbols = sample_symbols, ftConns = [(''gate_spot'', sample_first_conn)],
      ftRecovery = \<lparr>sched = new_scheduler, spawned = [(''gate_spot'', ''gate'', ''spot'')], inflight = []\<rparr>,
      ftCollection = None, ftTimer = None, ftCompleting = 0,
      ftStats = \<lparr>fsActive = 0, fsReconnecting = 0, fsFailed = 0, fsTotalMessages = 0, fsLastHealthCheck = 0,
        fsLastCollection = zero_time, fsCollectionActive = False\<rparr>,
      ftTicker = True, ftRunning = True, ftRootDone = False, ftNextCtx = 1, ftDoneCtx = [],
      ftStorage = sample_store False None \<lparr>dDirs = [], dFiles = []\<rparr>, ftAnalyzer = new_pump_analyzer\<rparr>"

lemma sample_first_simps [simp]:
  "mget (ftConns sample_first) ''gate_spot'' = Some sample_first_conn" "ftCollection sample_first = None"
  "ftConns sample_first = [(''gate_spot'', sample_first_conn)]"
  "ftTicker sample_first" "\<not> ftRootDone sample_first" "ftNextCtx sample_first = 1" "ftDoneCtx sample_first = []"
  "cnLoops sample_first_conn = [CProcess 0]" "cnCtx sample_first_conn = 0" "cnSymbols sample_first_conn = []"
  "cnProcs sample_first_conn = [\<lparr>prAlive = True, prCtx = 0, prChan = [sample_trade 7 ''DOGEUSDT''], prReader = RNew\<rparr>]"
  "cnStatus sample_first_conn = CsConnected" "cnLastMessage sample_first_conn = 0"
  by (simp_all add: sample_first_def sample_first_conn_def)


lemma silent_connection_given_up_witness:
  "\<exists>tm1 tm2. first_step (\<lambda>_ (_ :: unit). Inr []) sample_first (FHealth (100 * second)) tm1 \<and>
     runs (first_step (\<lambda>_ (_ :: unit). Inr [])) tm1 [FCancelled ''gate_spot'' 0] tm2 \<and>
     \<not> dials ''gate_spot'' (FCancelled ''gate_spot'' 0 :: unit first_action)"
proof -
  let ?parse = "\<lambda>(_ :: string) (_ :: unit). Inr [] :: parse_error + trade_event list"
  let ?a = "FCancelled ''gate_spot'' 0 :: unit first_action"
  let ?tm1 = "first_health (100 * second) sample_first"
  have st: "first_step ?parse sample_first (FHealth (100 * second)) ?tm1"
    by (rule fs_health) simp
  have stale: "is_stale (100 * second) sample_first_conn"
    by (simp add: is_stale_def second_def)
  have "mget (ftConns ?tm1) ''gate_spot'' = Some sample_first_conn"
    by simp
  then have "first_step ?parse ?tm1 ?a (put_conn ''gate_spot'' (set_proc 0 (\<lambda>pr. pr\<lparr>prAlive := False\<rparr>) sample_first_conn) ?tm1)"
    by (rule fs_cancelled) (use stale in \<open>simp_all add: live_proc_def ctx_done_def health_done\<close>)
  then obtain tm2 where run: "runs (first_step ?parse) ?tm1 [?a] tm2"
    by auto
  then show ?thesis
    using silent_connection_given_up [OF st _ stale _ run] st by (auto simp: reconnects_def)
qed

definition open_env :: dial_env where
  "open_env = \<lparr>dialToken = Inl '''', dialResult = None, dialWrites = (\<lambda>_. WriteOk), dialTime = 0\<rparr>"

lemma gate_connects:
  "cExchange c = ''gate'' \<Longrightarrow> cnSymbols cm = [] \<Longrightarrow>
     connect_conn open_env (cm\<lparr>cnConnector := c\<rparr>) = (None, c\<lparr>cOpen := True, IsActive := True, cLastMessage := 0\<rparr>)"
  by (simp add: connect_conn_def open_env_def connect_def connect_with_def connect_websocket_def)


end
