(* ===== verification/KeepAlive.thy ===== *)
theory KeepAlive
  imports WorkerPool Transitions
begin

text \<open>
  The keep-alive goroutines of the connectors, \<open>internal/websocket/connectors/base.go\<close>, \<open>kucoin.go\<close> and
  \<open>gate.go\<close>, and the registry of the connectors.  Every successful handshake starts one more goroutine, which
  lives as long as the context it was given; a context is a number.
\<close>

section \<open>The registry\<close>

definition registered_connectors :: "string list" where
  "registered_connectors = [''binance'', ''bybit'', ''kucoin'', ''okx'', ''phemex'', ''gate'']"

text \<open>\<open>ord\<close> is the order in which the map is visited.\<close>

definition get_registered_exchanges :: "(string list \<Rightarrow> string list) \<Rightarrow> string list" where
  "get_registered_exchanges ord = ord registered_connectors"

lemma registered_iff: "new_connector ex mt mx \<noteq> None \<longleftrightarrow> ex \<in> set registered_connectors"
  by (auto simp: new_connector_def registered_connectors_def)

definition get_subscribed_symbols :: "connector \<Rightarrow> string list" where
  "get_subscribed_symbols c = SubscribedSymbols c"

definition has_connection :: "connector \<Rightarrow> bool" where
  "has_connection c = (IsActive c \<and> cOpen c)"

definition conn_set_on_error :: "connector \<Rightarrow> connector" where
  "conn_set_on_error c = c\<lparr>hasOnError := True\<rparr>"

section \<open>One tick\<close>

text \<open>The base loop writes a ping frame; a panic of the write is recovered, deactivates the connection and
  is reported, an error is reported only.\<close>

definition base_ping :: "write_result \<Rightarrow> connector \<Rightarrow> connector" where
  "base_ping r c =
     (if \<not> (IsActive c \<and> cOpen c) then c
      else (case r of
              WriteOk \<Rightarrow> c
            | WriteFails e \<Rightarrow> report e c
            | WritePanics e \<Rightarrow> report (''ping panic: '' @ e) (c\<lparr>IsActive := False\<rparr>)))"

text \<open>KuCoin and Gate send a message; the error of the send is reported.\<close>

definition ping_message :: "(nat \<Rightarrow> write_result) \<Rightarrow> out_msg \<Rightarrow> connector \<Rightarrow> connector" where
  "ping_message wr msg c =
     (if \<not> is_connected c then c
      else (case send_message wr msg c of
              (None, c') \<Rightarrow> c'
            | (Some (SendFailed e), c') \<Rightarrow> report (''send failed: '' @ e) c'
            | (Some e, c') \<Rightarrow> report (error_text e) c'))"

definition kucoin_ping :: "(nat \<Rightarrow> write_result) \<Rightarrow> connector \<Rightarrow> connector" where
  "kucoin_ping wr c = ping_message wr (TopicMsg ''ping'' '''') c"

definition gate_ping :: "(nat \<Rightarrow> write_result) \<Rightarrow> connector \<Rightarrow> connector" where
  "gate_ping wr c =
     ping_message wr (ChannelMsg (if cMarket c = ''futures'' then ''futures.ping'' else ''spot.ping'') ''subscribe'' []) c"

text \<open>Phemex sends a request; a failed one is printed and not reported.\<close>

definition phemex_ping :: "(nat \<Rightarrow> write_result) \<Rightarrow> connector \<Rightarrow> connector" where
  "phemex_ping wr c =
     (if \<not> is_connected c then c else snd (send_message wr (MethodMsg ''server.ping'' [] 0) c))"

definition ping_tick :: "(nat \<Rightarrow> write_result) \<Rightarrow> connector \<Rightarrow> connector" where
  "ping_tick wr c =
     (if cExchange c = ''kucoin'' then kucoin_ping wr c
      else if cExchange c = ''gate'' then gate_ping wr c
      else if cExchange c = ''phemex'' then phemex_ping wr c
      else base_ping (wr (writes c)) c)"

text \<open>The pause between two ticks; \<open>server\<close> is what KuCoin's token response asks for, in milliseconds.\<close>

definition ping_interval :: "string \<Rightarrow> int \<Rightarrow> int" where
  "ping_interval ex server =
     (if ex = ''kucoin'' then (if server \<le> 0 then 18000 else server) * millisecond
      else if ex = ''gate'' then 30 * second
      else if ex = ''binance'' then 25 * second
      else if ex = ''bybit'' then 20 * second
      else if ex = ''okx'' then 35 * second
      else 5 * second)"

section \<open>The goroutines\<close>

record keepalive =
  kaConn :: connector
  kaLoops :: "nat list"
  kaDone :: "nat list"

text \<open>The loop is started after the handshake and before the subscription.\<close>

definition dialled :: "connector_error option \<Rightarrow> bool" where
  "dialled e = (case e of None \<Rightarrow> True | Some (SubscribeFailed _) \<Rightarrow> True | _ \<Rightarrow> False)"

definition connect_alive :: "nat \<Rightarrow> dial_env \<Rightarrow> string list \<Rightarrow> keepalive \<Rightarrow> connector_error option \<times> keepalive" where
  "connect_alive ctx env symbols ka =
     (case connect (dialToken env) (dialResult env) (dialWrites env) (dialTime env) symbols (kaConn ka) of
        (e, c) \<Rightarrow> (e, ka\<lparr>kaConn := c, kaLoops := (if dialled e then kaLoops ka @ [ctx] else kaLoops ka)\<rparr>))"

datatype alive_action =
    KConnect nat dial_env "string list" | KTick nat "nat \<Rightarrow> write_result" | KReturn nat | KCancel nat | KDisconnect

inductive alive_step :: "keepalive \<Rightarrow> alive_action \<times> bool \<Rightarrow> keepalive \<Rightarrow> bool" where
  ka_connect: "connect_alive ctx env symbols ka = (e, ka') \<Longrightarrow>
    alive_step ka (KConnect ctx env symbols, dialled e) ka'"
| ka_tick: "i < length (kaLoops ka) \<Longrightarrow>
    alive_step ka (KTick i wr, False) (ka\<lparr>kaConn := ping_tick wr (kaConn ka)\<rparr>)"
| ka_return: "i < length (kaLoops ka) \<Longrightarrow> kaLoops ka ! i \<in> set (kaDone ka) \<Longrightarrow>
    alive_step ka (KReturn i, False) (ka\<lparr>kaLoops := take i (kaLoops ka) @ drop (Suc i) (kaLoops ka)\<rparr>)"
| ka_cancel: "alive_step ka (KCancel c, False) (ka\<lparr>kaDone := c # kaDone ka\<rparr>)"
| ka_disconnect: "alive_step ka (KDisconnect, False) (ka\<lparr>kaConn := disconnect (kaConn ka)\<rparr>)"

inductive_cases alive_stepE: "alive_step ka l ka'"

section \<open>Loops accumulate\<close>

definition handshake_under :: "nat \<Rightarrow> alive_action \<times> bool \<Rightarrow> bool" where
  "handshake_under c l = (case l of (KConnect ctx env symbols, True) \<Rightarrow> ctx = c | _ \<Rightarrow> False)"

definition loops_of :: "nat \<Rightarrow> keepalive \<Rightarrow> nat" where
  "loops_of c ka = length (filter (\<lambda>x. x = c) (kaLoops ka))"

lemma loops_step:
  assumes "alive_step ka l ka'" "c \<notin> set (kaDone ka')"
  shows "c \<notin> set (kaDone ka) \<and> loops_of c ka' = loops_of c ka + (if handshake_under c l then 1 else 0)"
  using assms
proof (cases rule: alive_step.cases)
  case (ka_return i)
  then have "kaLoops ka ! i \<noteq> c" using assms(2) by auto
  moreover have "kaLoops ka = take i (kaLoops ka) @ kaLoops ka ! i # drop (Suc i) (kaLoops ka)"
    using ka_return(3) by (rule id_take_nth_drop)
  then have "loops_of c ka = length (filter (\<lambda>x. x = c) (take i (kaLoops ka) @ kaLoops ka ! i # drop (Suc i) (kaLoops ka)))"
    unfolding loops_of_def by metis
  ultimately show ?thesis
    using assms(2) by (simp add: loops_of_def ka_return(1,2) handshake_under_def)
qed (auto simp: loops_of_def handshake_under_def connect_alive_def split: prod.splits bool.splits)

text \<open>While a context is not cancelled the number of keep-alive goroutines under it is the number of
  handshakes made under it: a disconnect stops none of them, and after \<open>n\<close> dials \<open>n\<close> goroutines write to the
  same connection.\<close>

theorem ping_loops_accumulate:
  assumes "runs alive_step ka ls ka'" "c \<notin> set (kaDone ka')"
  shows "loops_of c ka' = loops_of c ka + length (filter (handshake_under c) ls)"
  using assms(1)
proof (induction ls arbitrary: ka)
  case (Cons l ls)
  then obtain ka1 where st: "alive_step ka l ka1" and r: "runs alive_step ka1 ls ka'" by auto
  have "c \<notin> set (kaDone ka1)"
    using r assms(2)
  proof (induction ls arbitrary: ka1)
    case (Cons l ls)
    then obtain ka2 where "alive_step ka1 l ka2" "runs alive_step ka2 ls ka'" by auto
    then show ?case using Cons.IH Cons.prems(2) loops_step by blast
  qed simp
  then show ?case
    using loops_step [OF st] Cons.IH [OF r] by simp
qed simp

text \<open>A failed ping is reported but leaves the connection active: the loop tries again at the next tick.\<close>

lemma failed_ping_stays: "IsActive (base_ping (WriteFails e) c) = IsActive c"
  by (simp add: base_ping_def report_def)

end
