(* ===== verification/HybridData.thy ===== *)
theory HybridData
  imports TaskManager SystemConfig TradeBufferProps
begin

text \<open>
  The manager of the migration to QuestDB, \<open>internal/hybrid/hybrid_data_manager.go\<close>: trades go to the buffer
  and, by phase, to the database; a listing is read from the buffer, from the database, or from both to
  compare them.  Durations of the two stores are arguments.
\<close>

section \<open>State\<close>

record hybrid_stats =
  hyLegacyWrites :: int
  hyQuestWrites :: int
  hyQuestDropped :: int
  hyLegacyAvg :: int
  hyQuestAvg :: int
  hyComparisons :: int
  hyMismatches :: int
  hyPhase :: int
  hyPercentage :: int

record 'f hybrid =
  hdBuffer :: trade_buffer
  hdQuest :: "'f questdb option"
  hdUse :: bool
  hdCompare :: bool
  hdPhase :: int
  hdStats :: hybrid_stats
  hdCancelled :: bool

text \<open>The result of a query; its type is not declared in the models package.\<close>

record listing_data =
  ldSymbol :: string
  ldTriggerTime :: gotime
  ldStartTime :: gotime
  ldEndTime :: gotime
  ldTrades :: "(string, trade_event list) gomap"

definition get_phase_percentage :: "int \<Rightarrow> int" where
  "get_phase_percentage phase =
     (if phase = 1 then 10 else if phase = 2 then 50 else if phase = 3 \<or> phase = 4 then 100 else 0)"

definition hybrid_quest_config :: "questdb_section \<Rightarrow> quest_config" where
  "hybrid_quest_config c =
     \<lparr>BatchSize = qcBatchSize c, FlushInterval = qcFlushInterval c, BufferSize = nat (qcBufferSize c),
      WorkerCount = nat (qcWorkerCount c), qMaxRetries = qcMaxRetries c, BaseDelay = qcBaseDelay c,
      MaxDelay = qcMaxDelay c\<rparr>"

text \<open>\<open>conn\<close> is the error of the connection, if any: the manager then goes on without the database.\<close>

definition new_hybrid :: "questdb_section \<Rightarrow> string option \<Rightarrow> trade_buffer \<Rightarrow> 'f hybrid" where
  "new_hybrid c conn b =
     (let hy0 = \<lparr>hdBuffer = b, hdQuest = None, hdUse = qcEnabled c, hdCompare = qcCompareResults c,
            hdPhase = qcMigrationPhase c,
            hdStats = \<lparr>hyLegacyWrites = 0, hyQuestWrites = 0, hyQuestDropped = 0, hyLegacyAvg = 0, hyQuestAvg = 0,
              hyComparisons = 0, hyMismatches = 0, hyPhase = qcMigrationPhase c,
              hyPercentage = get_phase_percentage (qcMigrationPhase c)\<rparr>, hdCancelled = False\<rparr>
      in if \<not> qcEnabled c then hy0
         else (case conn of
                 Some e \<Rightarrow> hy0\<lparr>hdUse := False\<rparr>
               | None \<Rightarrow> hy0\<lparr>hdQuest := Some (new_questdb_manager (hybrid_quest_config c))\<rparr>))"

section \<open>Trades\<close>

definition should_use_quest :: "gotime \<Rightarrow> 'f hybrid \<Rightarrow> bool" where
  "should_use_quest now hy =
     (if \<not> hdUse hy then False
      else if hdPhase hy = 1 then unix_nano now smod 10 = 0
      else if hdPhase hy = 2 then unix_nano now smod 2 = 0
      else hdPhase hy = 3 \<or> hdPhase hy = 4)"

definition upd_hybrid_stats :: "(hybrid_stats \<Rightarrow> hybrid_stats) \<Rightarrow> 'f hybrid \<Rightarrow> 'f hybrid" where
  "upd_hybrid_stats f hy = hy\<lparr>hdStats := f (hdStats hy)\<rparr>"

definition hybrid_store :: "string \<Rightarrow> trade_event \<Rightarrow> 'f hybrid \<Rightarrow> 'f hybrid" where
  "hybrid_store key t hy =
     (case store_trade_event key t (hdBuffer hy) of
        Inl e \<Rightarrow> hy
      | Inr b \<Rightarrow> upd_hybrid_stats (\<lambda>st. st\<lparr>hyLegacyWrites := hyLegacyWrites st + 1\<rparr>) (hy\<lparr>hdBuffer := b\<rparr>))"

definition hybrid_handle_trade ::
  "gotime \<Rightarrow> int \<Rightarrow> int \<Rightarrow> string \<Rightarrow> string \<Rightarrow> trade_event \<Rightarrow> 'f hybrid \<Rightarrow> 'f hybrid" where
  "hybrid_handle_trade now legacyTime questTime ex mk t hy0 =
     (let hy = hybrid_store (exchange_key ex mk) t hy0 in
      case hdQuest hy of
        None \<Rightarrow> hy
      | Some qm \<Rightarrow>
          if hdUse hy \<and> should_use_quest now hy
          then (case quest_add_trade t qm of
                  (True, qm') \<Rightarrow>
                    upd_hybrid_stats (\<lambda>st. st\<lparr>hyQuestWrites := hyQuestWrites st + 1,
                        hyLegacyAvg := (hyLegacyAvg st + legacyTime) sdiv 2,
                        hyQuestAvg := (hyQuestAvg st + questTime) sdiv 2\<rparr>) (hy\<lparr>hdQuest := Some qm'\<rparr>)
                | (False, qm') \<Rightarrow>
                    upd_hybrid_stats (\<lambda>st. st\<lparr>hyQuestDropped := hyQuestDropped st + 1\<rparr>) (hy\<lparr>hdQuest := Some qm'\<rparr>))
          else hy)"

section \<open>Listings\<close>

definition hybrid_is_target :: "string \<Rightarrow> string \<Rightarrow> bool" where
  "hybrid_is_target tradeSymbol target =
     (tradeSymbol = target \<or> tradeSymbol = target @ ''USDT'' \<or> tradeSymbol = target @ ''-USDT'')"

definition filter_trades_by_symbol :: "trade_event list \<Rightarrow> string \<Rightarrow> trade_event list" where
  "filter_trades_by_symbol trades target = filter (\<lambda>t. hybrid_is_target (Symbol t) target) trades"

definition empty_listing_data :: "string \<Rightarrow> gotime \<Rightarrow> gotime \<Rightarrow> listing_data" where
  "empty_listing_data symbol startT endT =
     \<lparr>ldSymbol = symbol, ldTriggerTime = endT - 20 * second, ldStartTime = startT, ldEndTime = endT, ldTrades = []\<rparr>"

text \<open>The loop over the keys; a query that fails is skipped, one that never returns would be \<^const>\<open>None\<close>.\<close>

fun hybrid_extract ::
  "(string \<Rightarrow> gotime) \<Rightarrow> string list \<Rightarrow> listing_data \<times> trade_buffer \<Rightarrow> (listing_data \<times> trade_buffer) option" where
  "hybrid_extract clk [] (ld, b) = Some (ld, b)"
| "hybrid_extract clk (key # ks) (ld, b) =
     (case get_trade_events (clk key) key (ldStartTime ld) (ldEndTime ld) b of
        None \<Rightarrow> None
      | Some (Inl e) \<Rightarrow> hybrid_extract clk ks (ld, b)
      | Some (Inr (trades, b')) \<Rightarrow>
          (let found = filter_trades_by_symbol trades (ldSymbol ld) in
           hybrid_extract clk ks
             (if length found > 0 then ld\<lparr>ldTrades := mput key found (ldTrades ld)\<rparr> else ld, b')))"

definition get_from_circular_buffer ::
  "(string \<Rightarrow> gotime) \<Rightarrow> string \<Rightarrow> gotime \<Rightarrow> gotime \<Rightarrow> trade_buffer \<Rightarrow> (listing_data \<times> trade_buffer) option" where
  "get_from_circular_buffer clk symbol startT endT b =
     hybrid_extract clk collection_keys (empty_listing_data symbol startT endT, b)"

text \<open>The query of the database is not written yet.\<close>

definition get_from_questdb :: "string \<Rightarrow> gotime \<Rightarrow> gotime \<Rightarrow> listing_data" where
  "get_from_questdb symbol startT endT = empty_listing_data symbol startT endT"

definition count_total_trades :: "listing_data \<Rightarrow> int" where
  "count_total_trades ld = int (sum_list (map (length \<circ> snd) (ldTrades ld)))"

definition compare_and_return_legacy ::
  "(string \<Rightarrow> gotime) \<Rightarrow> string \<Rightarrow> gotime \<Rightarrow> gotime \<Rightarrow> 'f hybrid \<Rightarrow> (listing_data \<times> 'f hybrid) option" where
  "compare_and_return_legacy clk symbol startT endT hy =
     (case get_from_circular_buffer clk symbol startT endT (hdBuffer hy) of
        None \<Rightarrow> None
      | Some (legacy, b) \<Rightarrow>
          (let q = get_from_questdb symbol startT endT;
               far = \<bar>count_total_trades legacy - count_total_trades q\<bar> > 10
           in Some (legacy, upd_hybrid_stats (\<lambda>st. st\<lparr>hyComparisons := hyComparisons st + 1,
                hyMismatches := (if far then hyMismatches st + 1 else hyMismatches st)\<rparr>) (hy\<lparr>hdBuffer := b\<rparr>))))"

definition get_listing_data ::
  "(string \<Rightarrow> gotime) \<Rightarrow> string \<Rightarrow> gotime \<Rightarrow> 'f hybrid \<Rightarrow> (listing_data \<times> 'f hybrid) option" where
  "get_listing_data clk symbol trig hy =
     (let startT = trig + (- 20 * second); endT = trig + 20 * second in
      if hdCompare hy \<and> hdQuest hy \<noteq> None then compare_and_return_legacy clk symbol startT endT hy
      else if hdUse hy \<and> hdQuest hy \<noteq> None \<and> hdPhase hy \<ge> 3
      then Some (get_from_questdb symbol startT endT, hy)
      else map_option (\<lambda>(ld, b). (ld, hy\<lparr>hdBuffer := b\<rparr>))
             (get_from_circular_buffer clk symbol startT endT (hdBuffer hy)))"

definition get_hybrid_stats :: "'f hybrid \<Rightarrow> hybrid_stats" where
  "get_hybrid_stats hy = hdStats hy"

definition close_hybrid :: "'f hybrid \<Rightarrow> 'f hybrid" where
  "close_hybrid hy = hy\<lparr>hdQuest := map_option quest_cancel (hdQuest hy), hdCancelled := True\<rparr>"

end
