(* ===== verification/HybridDataProps.thy ===== *)
theory HybridDataProps
  imports HybridData ListingExtraction
begin

text \<open>
  What a listing read through the migration manager holds, in each of its modes.
\<close>

definition hybrid_found :: "(string \<times> trade_event) list \<Rightarrow> string \<Rightarrow> gotime \<Rightarrow> gotime \<Rightarrow> string \<Rightarrow> trade_event list" where
  "hybrid_found hist symbol s e key =
     filter_trades_by_symbol (sort_key (\<lambda>t. Timestamp t div 1000)
       (filter (in_milli_range (s div 1000000) (e div 1000000)) (log_of hist key))) symbol"

lemma hybrid_extract_spec:
  assumes "ctb_run hist b" "\<forall>k \<in> set ks. get_from_hot_cache (clk k) k (ldStartTime ld) (ldEndTime ld) b = None"
    and "1000000000000000 < ldStartTime ld" "ldStartTime ld \<le> ldEndTime ld" "ldEndTime ld < 2 ^ 63"
    and "ldEndTime ld div second - ldStartTime ld div second < bucket_count"
  shows "\<exists>ld' b'. hybrid_extract clk ks (ld, b) = Some (ld', b') \<and> ctb_run hist b' \<and>
    (\<forall>k. mget (ldTrades ld') k =
       (if k \<in> set ks \<and> hybrid_found hist (ldSymbol ld) (ldStartTime ld) (ldEndTime ld) k \<noteq> []
        then Some (hybrid_found hist (ldSymbol ld) (ldStartTime ld) (ldEndTime ld) k) else mget (ldTrades ld) k))"
  using assms
proof (induction ks arbitrary: ld b)
  case (Cons key ks)
  let ?found = "hybrid_found hist (ldSymbol ld) (ldStartTime ld) (ldEndTime ld)"
  let ?ld = "if length (?found key) > 0 then ld\<lparr>ldTrades := mput key (?found key) (ldTrades ld)\<rparr> else ld"
  have q: "get_trade_events (clk key) key (ldStartTime ld) (ldEndTime ld) b =
      Some (Inr (sort_key (\<lambda>t. Timestamp t div 1000)
        (filter (in_milli_range (ldStartTime ld div 1000000) (ldEndTime ld div 1000000)) (log_of hist key)), hit_cold b))"
    using cold_query [OF Cons.prems(1,3-6)] Cons.prems(2) by simp
  have run: "ctb_run hist (hit_cold b)"
    by (rule run_query [OF Cons.prems(1) q])
  have meta: "ldSymbol ?ld = ldSymbol ld" "ldStartTime ?ld = ldStartTime ld" "ldEndTime ?ld = ldEndTime ld"
    by simp_all
  have "get_from_hot_cache (clk k) k (ldStartTime ld) (ldEndTime ld) (hit_cold b) =
      get_from_hot_cache (clk k) k (ldStartTime ld) (ldEndTime ld) b" for k
    by (simp add: get_from_hot_cache_def)
  then have hot: "\<forall>k \<in> set ks. get_from_hot_cache (clk k) k (ldStartTime ?ld) (ldEndTime ?ld) (hit_cold b) = None"
    unfolding meta using Cons.prems(2) by simp
  from Cons.IH [OF run hot] Cons.prems(3-6) obtain ld' b' where
    r: "hybrid_extract clk ks (?ld, hit_cold b) = Some (ld', b')" "ctb_run hist b'"
      "\<forall>k. mget (ldTrades ld') k = (if k \<in> set ks \<and> ?found k \<noteq> [] then Some (?found k) else mget (ldTrades ?ld) k)"
    unfolding meta by blast
  have "hybrid_extract clk (key # ks) (ld, b) = hybrid_extract clk ks (?ld, hit_cold b)"
    by (simp add: q hybrid_found_def Let_def)
  moreover have "mget (ldTrades ?ld) k = (if k = key \<and> ?found k \<noteq> [] then Some (?found k) else mget (ldTrades ld) k)" for k
    by (auto simp: mget_mput)
  ultimately show ?case
    using r by auto
qed simp

text \<open>Before the third phase of the migration a listing read by the hybrid manager holds for each of the
  twelve keys exactly the stored trades of the forty seconds around the trigger whose symbol is one of its
  three spellings; from the third phase on, unless the comparison is switched on, it holds nothing, whatever
  was stored.\<close>

theorem migration_loses_the_listing:
  assumes "ctb_run hist (hdBuffer hy)" "1000000000000000 < trig + (- 20 * second)" "trig + 20 * second < 2 ^ 63"
    and "\<forall>k \<in> set collection_keys.
      get_from_hot_cache (clk k) k (trig + (- 20 * second)) (trig + 20 * second) (hdBuffer hy) = None"
  shows "\<exists>ld hy'. get_listing_data clk symbol trig hy = Some (ld, hy') \<and>
    (if \<not> hdCompare hy \<and> hdUse hy \<and> hdQuest hy \<noteq> None \<and> 3 \<le> hdPhase hy then ldTrades ld = []
     else \<forall>k. mget (ldTrades ld) k =
       (let found = hybrid_found hist symbol (trig + (- 20 * second)) (trig + 20 * second) k in
        if k \<in> set collection_keys \<and> found \<noteq> [] then Some found else None))"
proof -
  let ?ld0 = "empty_listing_data symbol (trig + (- 20 * second)) (trig + 20 * second)"
  have w: "ldStartTime ?ld0 = trig + (- 20 * second)" "ldEndTime ?ld0 = trig + 20 * second" "ldSymbol ?ld0 = symbol" "ldTrades ?ld0 = []"
    by (simp_all add: empty_listing_data_def)
  have "ldEndTime ?ld0 div second - ldStartTime ?ld0 div second < bucket_count" "ldStartTime ?ld0 \<le> ldEndTime ?ld0"
    unfolding w using window_span [of trig] by (simp_all add: second_def)
  then obtain ld b where x: "get_from_circular_buffer clk symbol (trig + (- 20 * second)) (trig + 20 * second) (hdBuffer hy) = Some (ld, b)"
      "\<forall>k. mget (ldTrades ld) k =
       (let found = hybrid_found hist symbol (trig + (- 20 * second)) (trig + 20 * second) k in
        if k \<in> set collection_keys \<and> found \<noteq> [] then Some found else None)"
    using hybrid_extract_spec [of hist "hdBuffer hy" collection_keys clk ?ld0] assms
    unfolding get_from_circular_buffer_def w Let_def by auto
  then show ?thesis
    by (auto simp: get_listing_data_def compare_and_return_legacy_def get_from_questdb_def empty_listing_data_def Let_def)
qed

text \<open>The spelling of Gate, with an underscore, is not among the three.\<close>

lemma gate_never_matches: "\<not> hybrid_is_target (c @ ''_USDT'') c"
proof -
  have "length (c @ ''_USDT'') \<noteq> length c" "length (c @ ''_USDT'') \<noteq> length (c @ ''USDT'')" by simp_all
  then show ?thesis unfolding hybrid_is_target_def by auto
qed

text \<open>The comparison counts a mismatch as soon as the listing has more than ten trades.\<close>

lemma comparison_counts_trades:
  assumes "compare_and_return_legacy clk symbol s e hy = Some (ld, hy')"
  shows "hyMismatches (hdStats hy') = hyMismatches (hdStats hy) + (if count_total_trades ld > 10 then 1 else 0)"
proof -
  have "count_total_trades (get_from_questdb symbol s e) = 0" "count_total_trades ld \<ge> 0"
    by (simp_all add: get_from_questdb_def empty_listing_data_def count_total_trades_def)
  then show ?thesis
    using assms by (auto simp: compare_and_return_legacy_def Let_def upd_hybrid_stats_def split: option.splits prod.splits)
qed

end
